(* ===== verification/Prelude.thy ===== *)
theory Prelude
  imports
    Main
    "HOL-Library.Word"
    "HOL-Library.Char_ord"
    "HOL-Library.List_Lexorder"
begin

text \<open>
  Shared vocabulary of the development.

  Rust values are modelled as follows. A \<^verbatim>\<open>String\<close> or \<^verbatim>\<open>&str\<close> is its sequence of UTF-8
  bytes, a \<^typ>\<open>string\<close> (a \<^typ>\<open>char\<close> is a byte). Rust compares, searches, slices and
  concatenates strings bytewise, so these operations are list operations here. A
  \<^verbatim>\<open>Vec<u8>\<close> is a list of 8-bit words. A \<^verbatim>\<open>Result<T, E>\<close> is a sum with the error on
  the left. A \<^verbatim>\<open>BTreeMap\<close> is an association list kept strictly sorted by key, an
  \<^verbatim>\<open>IndexMap\<close> an association list in insertion order; both satisfy the interface
  \<open>assoc_map\<close> below, in which their common client facts are proved once.
\<close>

section \<open>Types\<close>

type_synonym byte = "8 word"
type_synonym bytes = "8 word list"
type_synonym u32 = "32 word"
type_synonym u64 = "64 word"
type_synonym ('e, 'a) result = "'e + 'a"

named_theorems map_laws "what inserting and collecting do to lookups and keys"
named_theorems wire_laws "lengths and inverses of wire encodings"
named_theorems render_defs "definitions of the display builders"

section \<open>Results\<close>

fun and_then :: "('e, 'a) result \<Rightarrow> ('a \<Rightarrow> ('e, 'b) result) \<Rightarrow> ('e, 'b) result" where
  "and_then (Inl e) f = Inl e"
| "and_then (Inr a) f = f a"

fun map_err :: "('e \<Rightarrow> 'f) \<Rightarrow> ('e, 'a) result \<Rightarrow> ('f, 'a) result" where
  "map_err f (Inl e) = Inl (f e)"
| "map_err f (Inr a) = Inr a"

definition ok_or :: "'e \<Rightarrow> 'a option \<Rightarrow> ('e, 'a) result" where
  "ok_or e x = (case x of None \<Rightarrow> Inl e | Some a \<Rightarrow> Inr a)"

definition is_ok :: "('e, 'a) result \<Rightarrow> bool" where
  "is_ok r = (case r of Inl _ \<Rightarrow> False | Inr _ \<Rightarrow> True)"

definition unwrap_or :: "'a \<Rightarrow> 'a option \<Rightarrow> 'a" where
  "unwrap_or d x = (case x of None \<Rightarrow> d | Some a \<Rightarrow> a)"

lemma and_then_Inr_iff: "and_then r f = Inr b \<longleftrightarrow> (\<exists>a. r = Inr a \<and> f a = Inr b)"
  by (cases r) auto

lemma and_then_Inl_iff: "and_then r f = Inl e \<longleftrightarrow> r = Inl e \<or> (\<exists>a. r = Inr a \<and> f a = Inl e)"
  by (cases r) auto

lemma map_err_Inr_iff [simp]: "map_err f r = Inr a \<longleftrightarrow> r = Inr a"
  by (cases r) auto

lemma map_err_Inl: "map_err f r = Inl e \<Longrightarrow> (\<And>d. r = Inl d \<Longrightarrow> e = f d \<Longrightarrow> P) \<Longrightarrow> P"
  by (cases r) auto

lemma is_ok_simps [simp]: "is_ok (Inr a)" "\<not> is_ok (Inl e)"
  by (simp_all add: is_ok_def)

lemma ok_or_Inr_iff [simp]: "ok_or e x = Inr a \<longleftrightarrow> x = Some a"
  by (auto simp: ok_or_def split: option.splits)

lemma unwrap_or_simps [simp]: "unwrap_or d None = d" "unwrap_or d (Some a) = a"
  by (simp_all add: unwrap_or_def)

section \<open>Byte strings\<close>

text \<open>The code of a byte, and the ASCII classes of \<^verbatim>\<open>char\<close> and \<^verbatim>\<open>u8\<close>.\<close>

definition code :: "char \<Rightarrow> nat" where
  "code c = (of_char c :: nat)"

definition is_ascii_char :: "char \<Rightarrow> bool" where
  "is_ascii_char c = (code c < 128)"

definition is_ascii :: "string \<Rightarrow> bool" where
  "is_ascii s = list_all is_ascii_char s"

definition is_ascii_graphic :: "char \<Rightarrow> bool" where
  "is_ascii_graphic c = (33 \<le> code c \<and> code c \<le> 126)"

definition is_ascii_whitespace :: "char \<Rightarrow> bool" where
  "is_ascii_whitespace c = (code c \<in> {9, 10, 12, 13, 32})"

definition is_ascii_digit :: "char \<Rightarrow> bool" where
  "is_ascii_digit c = (48 \<le> code c \<and> code c \<le> 57)"

definition is_ascii_hexdigit :: "char \<Rightarrow> bool" where
  "is_ascii_hexdigit c =
     (is_ascii_digit c \<or> (65 \<le> code c \<and> code c \<le> 70) \<or> (97 \<le> code c \<and> code c \<le> 102))"

text \<open>\<^verbatim>\<open>str::strip_prefix\<close>, \<^verbatim>\<open>str::contains\<close>, \<^verbatim>\<open>[String]::join\<close>.\<close>

definition strip_prefix :: "string \<Rightarrow> string \<Rightarrow> string option" where
  "strip_prefix p s =
     (if take (length p) s = p then Some (drop (length p) s) else None)"

fun contains :: "string \<Rightarrow> string \<Rightarrow> bool" where
  "contains p [] = (p = [])"
| "contains p (c # s) = (take (length p) (c # s) = p \<or> contains p s)"

fun join :: "string \<Rightarrow> string list \<Rightarrow> string" where
  "join sep [] = []"
| "join sep [x] = x"
| "join sep (x # y # xs) = x @ sep @ join sep (y # xs)"

text \<open>
  \<^verbatim>\<open>char::is_whitespace\<close> on the UTF-8 encoding: the number of bytes of the whitespace
  character a string starts with, 0 when it starts with none. The multi-byte characters
  are U+0085, U+00A0, U+1680, U+2000 to U+200A, U+2028, U+2029, U+202F, U+205F, U+3000.
\<close>

definition ws_encodings :: "nat list list" where
  "ws_encodings =
     [[9], [10], [11], [12], [13], [32], [194, 133], [194, 160], [225, 154, 128],
      [226, 128, 128], [226, 128, 129], [226, 128, 130], [226, 128, 131], [226, 128, 132],
      [226, 128, 133], [226, 128, 134], [226, 128, 135], [226, 128, 136], [226, 128, 137],
      [226, 128, 138], [226, 128, 168], [226, 128, 169], [226, 128, 175], [226, 129, 159],
      [227, 128, 128]]"

definition ws_prefix_len :: "string \<Rightarrow> nat" where
  "ws_prefix_len s =
     (case find (\<lambda>e. take (length e) (map code s) = e) ws_encodings of
        None \<Rightarrow> 0 | Some e \<Rightarrow> length e)"

definition ws_suffix_len :: "string \<Rightarrow> nat" where
  "ws_suffix_len r =
     (case find (\<lambda>e. take (length e) (map code r) = rev e) ws_encodings of
        None \<Rightarrow> 0 | Some e \<Rightarrow> length e)"

function trim_start :: "string \<Rightarrow> string" where
  "trim_start s =
     (if ws_prefix_len s = 0 \<or> s = [] then s else trim_start (drop (ws_prefix_len s) s))"
  by pat_completeness auto
termination
  by (relation "measure length") auto

function trim_end_rev :: "string \<Rightarrow> string" where
  "trim_end_rev r =
     (if ws_suffix_len r = 0 \<or> r = [] then r else trim_end_rev (drop (ws_suffix_len r) r))"
  by pat_completeness auto
termination
  by (relation "measure length") auto

declare trim_start.simps [simp del] trim_end_rev.simps [simp del]

definition trim_end :: "string \<Rightarrow> string" where
  "trim_end s = rev (trim_end_rev (rev s))"

definition trim :: "string \<Rightarrow> string" where
  "trim s = trim_end (trim_start s)"

text \<open>
  \<^verbatim>\<open>str::to_lowercase\<close>, as far as a comparison with an ASCII literal can observe it: ASCII
  capitals are lowered, and U+212A (the Kelvin sign, bytes E2 84 AA) becomes \<^verbatim>\<open>k\<close>, the only
  other character whose lower case is ASCII. Every other character keeps its (non-ASCII)
  bytes here; its real lower case is not ASCII either.
\<close>

definition to_ascii_lowercase_char :: "char \<Rightarrow> char" where
  "to_ascii_lowercase_char c =
     (if 65 \<le> code c \<and> code c \<le> 90 then char_of (code c + 32) else c)"

fun to_lowercase :: "string \<Rightarrow> string" where
  "to_lowercase (a # b # c # s) =
     (if code a = 226 \<and> code b = 132 \<and> code c = 170 then CHR ''k'' # to_lowercase s
      else to_ascii_lowercase_char a # to_lowercase (b # c # s))"
| "to_lowercase [a, b] = [to_ascii_lowercase_char a, to_ascii_lowercase_char b]"
| "to_lowercase [a] = [to_ascii_lowercase_char a]"
| "to_lowercase [] = []"

definition eq_ignore_ascii_case :: "string \<Rightarrow> string \<Rightarrow> bool" where
  "eq_ignore_ascii_case a b =
     (map to_ascii_lowercase_char a = map to_ascii_lowercase_char b)"

text \<open>Decimal and hexadecimal rendering of integers by \<^verbatim>\<open>format!\<close> and \<^verbatim>\<open>to_string\<close>.\<close>

definition digit_char :: "nat \<Rightarrow> char" where
  "digit_char d = (if d < 10 then char_of (48 + d) else char_of (87 + d))"

fun nat_str :: "nat \<Rightarrow> string" where
  "nat_str n = (if n < 10 then [digit_char n] else nat_str (n div 10) @ [digit_char (n mod 10)])"

declare nat_str.simps [simp del]

definition int_str :: "int \<Rightarrow> string" where
  "int_str i = (if i < 0 then ''-'' @ nat_str (nat (- i)) else nat_str (nat i))"

definition hex_byte :: "nat \<Rightarrow> string" where
  "hex_byte b = [digit_char (b div 16), digit_char (b mod 16)]"

text \<open>The bytes of a string, as \<^verbatim>\<open>as_bytes\<close> gives them.\<close>

definition byte_of :: "char \<Rightarrow> byte" where
  "byte_of c = of_nat (code c)"

definition as_bytes :: "string \<Rightarrow> bytes" where
  "as_bytes s = map byte_of s"

section \<open>Association lists as maps\<close>

text \<open>\<^verbatim>\<open>BTreeMap::insert\<close>: sorted position, an equal key is replaced.\<close>

fun bt_insert :: "'k::linorder \<Rightarrow> 'v \<Rightarrow> ('k \<times> 'v) list \<Rightarrow> ('k \<times> 'v) list" where
  "bt_insert k v [] = [(k, v)]"
| "bt_insert k v ((k', v') # m) =
     (if k < k' then (k, v) # (k', v') # m
      else if k = k' then (k, v) # m
      else (k', v') # bt_insert k v m)"

text \<open>\<^verbatim>\<open>IndexMap::insert\<close>: an equal key is replaced in place, a new one goes last.\<close>

fun ix_insert :: "'k \<Rightarrow> 'v \<Rightarrow> ('k \<times> 'v) list \<Rightarrow> ('k \<times> 'v) list" where
  "ix_insert k v [] = [(k, v)]"
| "ix_insert k v ((k', v') # m) =
     (if k = k' then (k, v) # m else (k', v') # ix_insert k v m)"

text \<open>Collecting an iterator of entries inserts them in order.\<close>

definition bt_collect :: "('k::linorder \<times> 'v) list \<Rightarrow> ('k \<times> 'v) list" where
  "bt_collect es = fold (\<lambda>(k, v). bt_insert k v) es []"

definition ix_collect :: "('k \<times> 'v) list \<Rightarrow> ('k \<times> 'v) list" where
  "ix_collect es = fold (\<lambda>(k, v). ix_insert k v) es []"

abbreviation ssorted :: "('k::linorder \<times> 'v) list \<Rightarrow> bool" where
  "ssorted m \<equiv> sorted_wrt (<) (map fst m)"

section \<open>The map interface\<close>

text \<open>
  What a client of an association-list map relies on: an invariant that insertion keeps,
  distinct keys under it, and the lookup law. Collecting a list of entries, lookups after
  it and the set of keys follow for every implementation.
\<close>

locale assoc_map =
  fixes ins :: "'k \<Rightarrow> 'v \<Rightarrow> ('k \<times> 'v) list \<Rightarrow> ('k \<times> 'v) list"
    and inv :: "('k \<times> 'v) list \<Rightarrow> bool"
  assumes inv_Nil: "inv []"
    and inv_ins: "inv m \<Longrightarrow> inv (ins k v m)"
    and inv_distinct: "inv m \<Longrightarrow> distinct (map fst m)"
    and map_of_ins: "inv m \<Longrightarrow> map_of (ins k v m) = (map_of m)(k \<mapsto> v)"
begin

lemma inv_fold: "inv m \<Longrightarrow> inv (fold (\<lambda>(k, v). ins k v) es m)"
  by (induction es arbitrary: m) (auto simp: inv_ins)

lemma map_of_fold:
  "inv m \<Longrightarrow> map_of (fold (\<lambda>(k, v). ins k v) es m) = map_of m ++ map_of (rev es)"
proof (induction es arbitrary: m)
  case Nil
  then show ?case by simp
next
  case (Cons e es)
  obtain k v where e: "e = (k, v)" by force
  show ?case
    using Cons.IH [of "ins k v m"] Cons.prems
    by (auto simp: e inv_ins map_of_ins map_add_def fun_eq_iff split: option.splits)
qed

lemma map_of_collect: "map_of (fold (\<lambda>(k, v). ins k v) es []) = map_of (rev es)"
  using map_of_fold [OF inv_Nil, of es] by simp

lemma map_of_collect_distinct:
  assumes "distinct (map fst es)"
  shows "map_of (fold (\<lambda>(k, v). ins k v) es []) = map_of es"
proof -
  have "map_of (rev es) = map_of es"
    using assms by (subst map_of_inject_set) (auto simp: rev_map [symmetric])
  then show ?thesis by (simp add: map_of_collect)
qed

lemma set_collect_distinct:
  assumes "distinct (map fst es)"
  shows "set (fold (\<lambda>(k, v). ins k v) es []) = set es"
proof -
  have "distinct (map fst (fold (\<lambda>(k, v). ins k v) es []))"
    by (rule inv_distinct [OF inv_fold [OF inv_Nil]])
  with assms show ?thesis
    by (simp add: map_of_inject_set [symmetric] map_of_collect_distinct)
qed

lemma keys_ins: "inv m \<Longrightarrow> fst ` set (ins k v m) = insert k (fst ` set m)"
  by (metis dom_fun_upd dom_map_of_conv_image_fst map_of_ins option.distinct(1))

end

lemma bt_insert_keys: "fst ` set (bt_insert k v m) = insert k (fst ` set m)"
  by (induction k v m rule: bt_insert.induct) (simp_all add: insert_commute)

lemma ssorted_bt_insert: "ssorted m \<Longrightarrow> ssorted (bt_insert k v m)"
proof (induction m)
  case (Cons e m)
  then show ?case
    by (cases e) (auto simp: bt_insert_keys)
qed simp

lemma map_of_bt_insert: "ssorted m \<Longrightarrow> map_of (bt_insert k v m) = (map_of m)(k \<mapsto> v)"
  by (induction m) (auto simp: fun_eq_iff)

lemma ix_insert_keys: "fst ` set (ix_insert k v m) = insert k (fst ` set m)"
  by (induction k v m rule: ix_insert.induct) (simp_all add: insert_commute)

lemma distinct_ix_insert: "distinct (map fst m) \<Longrightarrow> distinct (map fst (ix_insert k v m))"
proof (induction m)
  case (Cons e m)
  then show ?case
    by (cases e) (auto simp: ix_insert_keys)
qed simp

lemma map_of_ix_insert: "map_of (ix_insert k v m) = (map_of m)(k \<mapsto> v)"
  by (induction m) (auto simp: fun_eq_iff)

interpretation bt: assoc_map bt_insert ssorted
  by unfold_locales
    (simp, erule ssorted_bt_insert, simp add: strict_sorted_iff, erule map_of_bt_insert)

interpretation ix: assoc_map ix_insert "\<lambda>m. distinct (map fst m)"
  by unfold_locales (auto simp: distinct_ix_insert map_of_ix_insert)

lemma ssorted_bt_collect [map_laws]: "ssorted (bt_collect es)"
  unfolding bt_collect_def by (rule bt.inv_fold) simp

lemma map_of_bt_collect [map_laws]: "map_of (bt_collect es) = map_of (rev es)"
  unfolding bt_collect_def by (rule bt.map_of_collect)

lemma map_of_bt_collect_distinct [map_laws]:
  "distinct (map fst es) \<Longrightarrow> map_of (bt_collect es) = map_of es"
  unfolding bt_collect_def by (rule bt.map_of_collect_distinct)

lemma set_bt_collect [map_laws]: "distinct (map fst es) \<Longrightarrow> set (bt_collect es) = set es"
  unfolding bt_collect_def by (rule bt.set_collect_distinct)

lemma set_ix_collect [map_laws]: "distinct (map fst es) \<Longrightarrow> set (ix_collect es) = set es"
  unfolding ix_collect_def by (rule ix.set_collect_distinct)

lemma set_bt_insert_subset: "set (bt_insert k v m) \<subseteq> insert (k, v) (set m)"
  by (induction k v m rule: bt_insert.induct) auto

lemma set_bt_fold_subset: "set (fold (\<lambda>(k, v). bt_insert k v) es m) \<subseteq> set m \<union> set es"
proof (induction es arbitrary: m)
  case (Cons e es)
  then show ?case using set_bt_insert_subset [of "fst e" "snd e" m] by (cases e) fastforce
qed simp

lemma set_bt_collect_subset: "set (bt_collect es) \<subseteq> set es"
  unfolding bt_collect_def using set_bt_fold_subset [of es "[]"] by simp

lemma set_ix_insert_subset: "set (ix_insert k v m) \<subseteq> insert (k, v) (set m)"
  by (induction k v m rule: ix_insert.induct) auto

lemma set_ix_fold_subset: "set (fold (\<lambda>(k, v). ix_insert k v) es m) \<subseteq> set m \<union> set es"
proof (induction es arbitrary: m)
  case (Cons e es)
  then show ?case using set_ix_insert_subset [of "fst e" "snd e" m] by (cases e) fastforce
qed simp

lemma set_ix_collect_subset: "set (ix_collect es) \<subseteq> set es"
  unfolding ix_collect_def using set_ix_fold_subset [of es "[]"] by simp

text \<open>A strictly sorted association list is determined by its set of entries.\<close>

lemma ssorted_distinct: "ssorted m \<Longrightarrow> distinct (map fst m)"
  by (simp add: strict_sorted_iff)

lemma ssorted_unique:
  assumes "ssorted m" and "ssorted n" and "set m = set n"
  shows "m = n"
proof (rule map_sorted_distinct_set_unique)
  show "inj_on fst (set m \<union> set n)"
    using assms ssorted_distinct [OF assms(1)] by (simp add: distinct_map)
qed (use assms in \<open>auto simp: strict_sorted_iff\<close>)

lemma bt_collect_ssorted: "ssorted m \<Longrightarrow> bt_collect m = m"
  by (rule ssorted_unique) (auto simp: map_laws dest: ssorted_distinct)

text \<open>Collecting distinct entries into a sorted map forgets their order.\<close>

lemma bt_collect_cong_set:
  assumes "distinct (map fst es)" and "distinct (map fst fs)" and "set es = set fs"
  shows "bt_collect es = bt_collect fs"
  by (rule ssorted_unique) (use assms in \<open>auto simp: map_laws\<close>)

lemma ix_fold_append:
  assumes "distinct (map fst (m @ es))"
  shows "fold (\<lambda>(k, v). ix_insert k v) es m = m @ es"
  using assms
proof (induction es arbitrary: m)
  case (Cons e es)
  obtain k v where e: "e = (k, v)" by force
  have "k \<notin> fst ` set m" using Cons.prems by (auto simp: e)
  then have "ix_insert k v m = m @ [(k, v)]"
    by (induction m) auto
  then show ?case using Cons.IH [of "m @ [(k, v)]"] Cons.prems by (simp add: e)
qed simp

lemma ix_collect_distinct: "distinct (map fst es) \<Longrightarrow> ix_collect es = es"
  unfolding ix_collect_def using ix_fold_append [of "[]" es] by simp

section \<open>Facts on strings\<close>

lemma strip_prefix_Some_iff: "strip_prefix p s = Some r \<longleftrightarrow> s = p @ r"
  by (auto simp: strip_prefix_def) (metis append_take_drop_id)

lemma strip_prefix_append [simp]: "strip_prefix p (p @ r) = Some r"
  by (simp add: strip_prefix_Some_iff)

lemma code_less_256: "code c < 256"
  unfolding code_def by (cases c) (simp add: of_char_def)

lemma code_inject [simp]: "code a = code b \<longleftrightarrow> a = b"
  by (simp add: code_def)

lemma code_char_of: "n < 256 \<Longrightarrow> code (char_of n) = n"
  by (simp add: code_def)

lemma digit_char_inject: "a < 16 \<Longrightarrow> b < 16 \<Longrightarrow> digit_char a = digit_char b \<longleftrightarrow> a = b"
proof -
  assume h: "a < 16" "b < 16"
  have code: "code (digit_char d) = (if d < 10 then 48 + d else 87 + d)" if "d < 16" for d
    using that by (simp add: digit_char_def code_char_of)
  have "code (digit_char a) = code (digit_char b) \<longleftrightarrow> a = b"
    unfolding code [OF h(1)] code [OF h(2)] using h by auto
  then show ?thesis by simp
qed

lemma hex_byte_inject: "a < 256 \<Longrightarrow> b < 256 \<Longrightarrow> hex_byte a = hex_byte b \<longleftrightarrow> a = b"
proof -
  assume h: "a < 256" "b < 256"
  then have "a div 16 < 16" "b div 16 < 16" by auto
  then show ?thesis
    by (simp add: hex_byte_def digit_char_inject) (metis div_mult_mod_eq)
qed

lemma trim_start_suffix: "\<exists>p. s = p @ trim_start s"
proof (induction s rule: trim_start.induct)
  case (1 s)
  show ?case
  proof (cases "ws_prefix_len s = 0 \<or> s = []")
    case True
    then show ?thesis by (simp add: trim_start.simps [of s])
  next
    case False
    with "1.IH" obtain p where p: "drop (ws_prefix_len s) s = p @ trim_start (drop (ws_prefix_len s) s)"
      by blast
    have "s = take (ws_prefix_len s) s @ drop (ws_prefix_len s) s"
      by simp
    then have "s = (take (ws_prefix_len s) s @ p) @ trim_start (drop (ws_prefix_len s) s)"
      using p by (metis append.assoc)
    with False have "s = (take (ws_prefix_len s) s @ p) @ trim_start s"
      by (simp add: trim_start.simps [of s])
    then show ?thesis by blast
  qed
qed

lemma set_trim_start: "set (trim_start s) \<subseteq> set s"
  using trim_start_suffix [of s] by (metis set_append sup_ge2)

lemma unat_byte_less: "unat (b :: byte) < 256"
proof -
  have "unat b < 2 ^ LENGTH(8)" by (rule unsigned_less)
  then show ?thesis by simp
qed

lemma unat_u64_less: "unat (w :: u64) < 2 ^ 64"
proof -
  have "unat w < 2 ^ LENGTH(64)" by (rule unsigned_less)
  then show ?thesis by simp
qed

lemma unat_byte_of: "unat (byte_of c) = code c"
  using code_less_256 [of c] by (simp add: byte_of_def unat_of_nat)

lemma byte_of_inject [simp]: "byte_of a = byte_of b \<longleftrightarrow> a = b"
  by (metis code_inject unat_byte_of)

lemma inj_as_bytes: "as_bytes s = as_bytes t \<longleftrightarrow> s = t"
  unfolding as_bytes_def by (rule inj_map_eq_map) (simp add: inj_def)

lemma length_as_bytes [simp]: "length (as_bytes s) = length s"
  by (simp add: as_bytes_def)

end
