(* ===== verification/Json.thy ===== *)
theory Json
  imports Prelude
begin

text \<open>
  JSON values as \<^verbatim>\<open>serde_json\<close> holds them, the two helpers of the \<^verbatim>\<open>visualsign\<close> crate
  that walk them (\<^verbatim>\<open>sort_json_alphabetically\<close> and \<^verbatim>\<open>verify_json_deterministic\<close> of
  \<^verbatim>\<open>visualsign/src/lib.rs\<close>) and the compact printer.

  \<^verbatim>\<open>serde_json::Map\<close> is a \<^verbatim>\<open>BTreeMap\<close>, or an \<^verbatim>\<open>IndexMap\<close> when the build turns on the
  feature \<^verbatim>\<open>preserve_order\<close>; the workspace's feature unification can do that. Every
  definition that builds a map takes that choice as the flag \<open>po\<close>. Numbers are integers:
  the only number a payload carries is the \<^verbatim>\<open>u32\<close> instruction index of a diagnostic.
\<close>

section \<open>Values and maps\<close>

datatype json =
    JNull
  | JBool bool
  | JNumber int
  | JString string
  | JArray "json list"
  | JObject "(string \<times> json) list"

definition jmap_insert :: "bool \<Rightarrow> string \<Rightarrow> json \<Rightarrow> (string \<times> json) list \<Rightarrow> (string \<times> json) list" where
  "jmap_insert po k v m = (if po then ix_insert k v m else bt_insert k v m)"

definition jmap_collect :: "bool \<Rightarrow> (string \<times> json) list \<Rightarrow> (string \<times> json) list" where
  "jmap_collect po es = fold (\<lambda>(k, v). jmap_insert po k v) es []"

text \<open>An object value built by inserting the entries in the given order.\<close>

definition jobj :: "bool \<Rightarrow> (string \<times> json) list \<Rightarrow> json" where
  "jobj po es = JObject (jmap_collect po es)"

section \<open>Sorting and verification\<close>

text \<open>\<^verbatim>\<open>sort_json_alphabetically\<close>: entries go through a \<^verbatim>\<open>BTreeMap\<close> and back into a map.\<close>

fun sort_json_alphabetically :: "bool \<Rightarrow> json \<Rightarrow> json" where
  "sort_json_alphabetically po (JObject m) =
     JObject (jmap_collect po (bt_collect (map (\<lambda>(k, v). (k, sort_json_alphabetically po v)) m)))"
| "sort_json_alphabetically po (JArray xs) = JArray (map (sort_json_alphabetically po) xs)"
| "sort_json_alphabetically po (JString s) = JString s"
| "sort_json_alphabetically po (JNumber n) = JNumber n"
| "sort_json_alphabetically po (JBool b) = JBool b"
| "sort_json_alphabetically po JNull = JNull"

text \<open>
  \<^verbatim>\<open>verify_json_deterministic\<close>: the error carries what the message of the source prints, the
  path (\<^verbatim>\<open>root\<close> when empty), the keys found and the keys expected.
\<close>

datatype order_error = KeysNotOrdered (err_path: string) (err_keys: "string list") (err_sorted: "string list")

fun verify_json_deterministic :: "json \<Rightarrow> string \<Rightarrow> (order_error, unit) result"
  and verify_entries :: "(string \<times> json) list \<Rightarrow> string \<Rightarrow> (order_error, unit) result"
  and verify_items :: "json list \<Rightarrow> string \<Rightarrow> nat \<Rightarrow> (order_error, unit) result"
where
  "verify_json_deterministic (JObject m) path =
     (let keys = map fst m; sorted_keys = sort keys
      in if keys \<noteq> sorted_keys
         then Inl (KeysNotOrdered (if path = [] then ''root'' else path) keys sorted_keys)
         else verify_entries m path)"
| "verify_json_deterministic (JArray xs) path = verify_items xs path 0"
| "verify_json_deterministic (JString s) path = Inr ()"
| "verify_json_deterministic (JNumber n) path = Inr ()"
| "verify_json_deterministic (JBool b) path = Inr ()"
| "verify_json_deterministic JNull path = Inr ()"
| "verify_entries [] path = Inr ()"
| "verify_entries ((k, v) # m) path =
     and_then (verify_json_deterministic v (if path = [] then k else path @ ''.'' @ k))
       (\<lambda>_. verify_entries m path)"
| "verify_items [] path i = Inr ()"
| "verify_items (x # xs) path i =
     and_then (verify_json_deterministic x (path @ ''['' @ nat_str i @ '']''))
       (\<lambda>_. verify_items xs path (Suc i))"

section \<open>Printing\<close>

text \<open>The escape table of \<^verbatim>\<open>serde_json\<close>'s string writer, one byte at a time.\<close>

definition esc_char :: "char \<Rightarrow> string" where
  "esc_char c =
     (if code c = 8 then [CHR 0x5C, CHR ''b'']
      else if code c = 9 then [CHR 0x5C, CHR ''t'']
      else if code c = 10 then [CHR 0x5C, CHR ''n'']
      else if code c = 12 then [CHR 0x5C, CHR ''f'']
      else if code c = 13 then [CHR 0x5C, CHR ''r'']
      else if code c < 32 then [CHR 0x5C, CHR ''u'', CHR ''0'', CHR ''0''] @ hex_byte (code c)
      else if code c = 34 then [CHR 0x5C, CHR 0x22]
      else if code c = 92 then [CHR 0x5C, CHR 0x5C]
      else [c])"

definition esc_string :: "string \<Rightarrow> string" where
  "esc_string s = CHR 0x22 # concat (map esc_char s) @ [CHR 0x22]"

fun json_print :: "json \<Rightarrow> string" where
  "json_print JNull = ''null''"
| "json_print (JBool b) = (if b then ''true'' else ''false'')"
| "json_print (JNumber n) = int_str n"
| "json_print (JString s) = esc_string s"
| "json_print (JArray xs) = ''['' @ join '','' (map json_print xs) @ '']''"
| "json_print (JObject m) =
     ''{'' @ join '','' (map (\<lambda>(k, v). esc_string k @ '':'' @ json_print v) m) @ ''}''"

text \<open>Every string a value carries: string values and object keys.\<close>

fun json_strings :: "json \<Rightarrow> string list" where
  "json_strings (JString s) = [s]"
| "json_strings (JArray xs) = concat (map json_strings xs)"
| "json_strings (JObject m) = concat (map (\<lambda>(k, v). k # json_strings v) m)"
| "json_strings JNull = []"
| "json_strings (JBool b) = []"
| "json_strings (JNumber n) = []"

text \<open>The keys of every object are distinct, as in any \<^verbatim>\<open>serde_json::Map\<close>.\<close>

fun json_wf :: "json \<Rightarrow> bool" where
  "json_wf (JObject m) = (distinct (map fst m) \<and> list_all (\<lambda>(k, v). json_wf v) m)"
| "json_wf (JArray xs) = list_all json_wf xs"
| "json_wf (JString s) = True"
| "json_wf (JNumber n) = True"
| "json_wf (JBool b) = True"
| "json_wf JNull = True"

section \<open>Facts on maps\<close>

lemma jmap_collect_eq: "jmap_collect po es = (if po then ix_collect es else bt_collect es)"
  by (simp add: jmap_collect_def jmap_insert_def [abs_def] ix_collect_def bt_collect_def)

lemma set_jmap_collect [map_laws]:
  "distinct (map fst es) \<Longrightarrow> set (jmap_collect po es) = set es"
  by (simp add: jmap_collect_eq map_laws)

lemma distinct_jmap_collect [map_laws]: "distinct (map fst (jmap_collect po es))"
  using ix.inv_fold [of "[]" es] ssorted_bt_collect [of es]
  by (auto simp: jmap_collect_eq ix_collect_def dest: ssorted_distinct)

lemma jmap_collect_ssorted: "ssorted m \<Longrightarrow> jmap_collect po m = m"
  by (auto simp: jmap_collect_eq bt_collect_ssorted ix_collect_distinct dest: ssorted_distinct)

lemma jmap_collect_bt_collect [simp]: "jmap_collect po (bt_collect es) = bt_collect es"
  by (rule jmap_collect_ssorted) (rule ssorted_bt_collect)

section \<open>Canonical form\<close>

text \<open>
  Sorting does not depend on which map implementation the build selected: both modes give
  the canonical form \<open>canon\<close>.
\<close>

definition canon :: "json \<Rightarrow> json" where
  "canon j = sort_json_alphabetically False j"

lemma sort_json_alphabetically_canon: "sort_json_alphabetically po j = canon j"
  unfolding canon_def
proof (induction j)
  case (JObject m)
  then have "map (\<lambda>(k, v). (k, sort_json_alphabetically po v)) m
      = map (\<lambda>(k, v). (k, sort_json_alphabetically False v)) m"
    by (auto simp: snds.simps)
  then show ?case by (simp only: sort_json_alphabetically.simps jmap_collect_bt_collect)
qed auto

lemma canon_simps [simp]:
  "canon (JObject m) = JObject (bt_collect (map (\<lambda>(k, v). (k, canon v)) m))"
  "canon (JArray xs) = JArray (map canon xs)"
  "canon (JString s) = JString s"
  "canon (JNumber n) = JNumber n"
  "canon (JBool b) = JBool b"
  "canon JNull = JNull"
  by (simp_all add: canon_def [abs_def])

lemma map_fst_snd_map [simp]: "map fst (map (\<lambda>(k, v). (k, f v)) m) = map fst m"
  by (induction m) auto

text \<open>Rebuilding an object in any map, or permuting its entries, keeps its canonical form.\<close>

lemma canon_cong_set:
  assumes "distinct (map fst m)" and "distinct (map fst n)" and "set m = set n"
  shows "canon (JObject m) = canon (JObject n)"
proof -
  have "bt_collect (map (\<lambda>(k, v). (k, canon v)) m) = bt_collect (map (\<lambda>(k, v). (k, canon v)) n)"
    by (rule bt_collect_cong_set) (use assms in \<open>auto simp del: map_map\<close>)
  then show ?thesis by simp
qed

lemma canon_jobj:
  assumes "distinct (map fst es)"
  shows "canon (jobj po es) = canon (JObject es)"
  unfolding jobj_def by (rule canon_cong_set) (use assms in \<open>simp_all add: map_laws\<close>)

lemma canon_JObject_cong:
  assumes "map fst m = map fst n" and "map (canon \<circ> snd) m = map (canon \<circ> snd) n"
  shows "canon (JObject m) = canon (JObject n)"
proof -
  have zip: "map (\<lambda>(k, v). (k, canon v)) xs = zip (map fst xs) (map (canon \<circ> snd) xs)" for xs
    by (induction xs) auto
  show ?thesis by (simp add: zip assms)
qed

section \<open>Verification accepts exactly the canonical values\<close>

fun keys_sorted :: "json \<Rightarrow> bool" where
  "keys_sorted (JObject m) = (sorted (map fst m) \<and> list_all (\<lambda>(k, v). keys_sorted v) m)"
| "keys_sorted (JArray xs) = list_all keys_sorted xs"
| "keys_sorted (JString s) = True"
| "keys_sorted (JNumber n) = True"
| "keys_sorted (JBool b) = True"
| "keys_sorted JNull = True"

lemma sort_eq_iff: "xs = sort xs \<longleftrightarrow> sorted xs" for xs :: "string list"
  by (metis sorted_sort sorted_sort_id)

lemma verify_json_iff:
  "(verify_json_deterministic j path = Inr ()) = keys_sorted j"
  "(verify_entries m path = Inr ()) = list_all (\<lambda>(k, v). keys_sorted v) m"
  "(verify_items xs path i = Inr ()) = list_all keys_sorted xs"
proof (induction j path and m path and xs path i
    rule: verify_json_deterministic_verify_entries_verify_items.induct)
  case (1 m path)
  then show ?case by (simp add: Let_def sort_eq_iff)
qed (auto simp: and_then_Inr_iff)

lemma keys_sorted_canon: "keys_sorted (canon j)"
proof (induction j)
  case (JObject m)
  let ?m = "map (\<lambda>(k, v). (k, canon v)) m"
  have "sorted (map fst (bt_collect ?m))"
    using ssorted_bt_collect [of ?m] by (simp add: strict_sorted_iff)
  moreover have "list_all (\<lambda>(k, v). keys_sorted v) (bt_collect ?m)"
    using set_bt_collect_subset [of ?m] JObject by (fastforce simp: list_all_iff snds.simps)
  ultimately show ?case by simp
qed (auto simp: list_all_iff)

lemma canon_fixed: "json_wf j \<Longrightarrow> keys_sorted j \<Longrightarrow> canon j = j"
proof (induction j)
  case (JObject m)
  have "map (\<lambda>(k, v). (k, canon v)) m = m"
    by (rule map_idI) (use JObject in \<open>fastforce simp: list_all_iff snds.simps\<close>)
  moreover have "ssorted m"
    using JObject.prems by (simp add: strict_sorted_iff)
  ultimately show ?case by (simp add: bt_collect_ssorted)
qed (auto simp: list_all_iff intro: map_idI)

lemma json_strings_canon: "json_wf j \<Longrightarrow> set (json_strings (canon j)) = set (json_strings j)"
proof (induction j)
  case (JObject m)
  let ?m = "map (\<lambda>(k, v). (k, canon v)) m"
  have IH: "set (json_strings (canon (snd e))) = set (json_strings (snd e))" if "e \<in> set m" for e
    using JObject that by (cases e) (auto simp: list_all_iff snds.simps)
  have "set (bt_collect ?m) = set ?m"
    by (rule set_bt_collect) (use JObject.prems in \<open>simp del: map_map\<close>)
  then show ?case by (simp add: split_beta IH)
qed (auto simp: list_all_iff)

lemma set_jmap_collect_subset: "set (jmap_collect po es) \<subseteq> set es"
  using set_ix_collect_subset [of es] set_bt_collect_subset [of es] by (simp add: jmap_collect_eq)

lemma json_wf_jobj: "list_all (\<lambda>(k, v). json_wf v) es \<Longrightarrow> json_wf (jobj po es)"
  using set_jmap_collect_subset [of po es]
  by (auto simp: jobj_def distinct_jmap_collect list_all_iff)

lemma json_strings_jobj:
  "distinct (map fst es) \<Longrightarrow> set (json_strings (jobj po es)) = set (json_strings (JObject es))"
  by (simp add: jobj_def set_jmap_collect)

lemma canon_jobj_eq:
  "distinct (map fst es) \<Longrightarrow> canon (jobj po es) = JObject (bt_collect (map (\<lambda>(k, v). (k, canon v)) es))"
  by (simp add: canon_jobj)

lemma canon_bt_collect:
  "distinct (map fst es) \<Longrightarrow> canon (JObject (bt_collect es)) = canon (JObject es)"
  by (rule canon_cong_set) (auto simp: map_laws intro: ssorted_distinct)

lemma distinct_bt_collect [simp]: "distinct (map fst (bt_collect es))"
  by (rule ssorted_distinct) (rule ssorted_bt_collect)

end
