(* ===== verification/StdText.thy ===== *)
theory StdText
  imports Prelude
begin

text \<open>
  More of the Rust standard library's string operations: splitting at a character, trimming a
  character, upper case, and the decimal value of a digit string with \<^verbatim>\<open>u64::from_str\<close>.
\<close>

section \<open>Splitting and trimming\<close>

text \<open>\<^verbatim>\<open>str::split_once\<close> and \<^verbatim>\<open>str::rsplit_once\<close> at a character.\<close>

fun split_once :: "char \<Rightarrow> string \<Rightarrow> (string \<times> string) option" where
  "split_once d [] = None"
| "split_once d (c # s) =
     (if c = d then Some ([], s) else map_option (\<lambda>(a, b). (c # a, b)) (split_once d s))"

definition rsplit_once :: "char \<Rightarrow> string \<Rightarrow> (string \<times> string) option" where
  "rsplit_once d s = map_option (\<lambda>(a, b). (rev b, rev a)) (split_once d (rev s))"

lemma split_once_Some: "split_once d s = Some (a, b) \<longleftrightarrow> s = a @ d # b \<and> d \<notin> set a"
proof (induction s arbitrary: a)
  case (Cons c s)
  then show ?case by (cases a) (auto split: if_splits)
qed simp

text \<open>Text up to a delimiter it does not contain is determined.\<close>

lemma delimiter_inject:
  fixes d :: char
  shows "d \<notin> set a \<Longrightarrow> d \<notin> set b \<Longrightarrow> a @ d # r = b @ d # s \<longleftrightarrow> a = b \<and> r = s"
  using split_once_Some [of d "a @ d # r" a r] split_once_Some [of d "a @ d # r" b s] by auto

lemma rsplit_once_Some: "rsplit_once d s = Some (a, b) \<longleftrightarrow> s = a @ d # b \<and> d \<notin> set b"
proof -
  have "rsplit_once d s = Some (a, b) \<longleftrightarrow> split_once d (rev s) = Some (rev b, rev a)"
    by (auto simp: rsplit_once_def)
  also have "\<dots> \<longleftrightarrow> rev s = rev (a @ d # b) \<and> d \<notin> set b" by (simp add: split_once_Some)
  finally show ?thesis by (simp only: rev_is_rev_conv)
qed

text \<open>\<^verbatim>\<open>str::split\<close> at a character.\<close>

fun split_on :: "char \<Rightarrow> string \<Rightarrow> string list" where
  "split_on d [] = [[]]"
| "split_on d (c # s) =
     (if c = d then [] # split_on d s
      else (case split_on d s of [] \<Rightarrow> [[c]] | x # xs \<Rightarrow> (c # x) # xs))"

text \<open>\<^verbatim>\<open>str::trim_end_matches\<close> with a character.\<close>

definition trim_end_matches :: "char \<Rightarrow> string \<Rightarrow> string" where
  "trim_end_matches d s = rev (dropWhile (\<lambda>c. c = d) (rev s))"

lemma trim_end_matches_decomp: "\<exists>k. s = trim_end_matches d s @ replicate k d"
proof -
  have "rev s = takeWhile (\<lambda>c. c = d) (rev s) @ dropWhile (\<lambda>c. c = d) (rev s)" by simp
  moreover have "takeWhile (\<lambda>c. c = d) (rev s)
      = replicate (length (takeWhile (\<lambda>c. c = d) (rev s))) d"
    by (rule replicate_eqI) (auto dest: set_takeWhileD)
  ultimately have "s = rev (replicate (length (takeWhile (\<lambda>c. c = d) (rev s))) d
      @ dropWhile (\<lambda>c. c = d) (rev s))" by (metis rev_rev_ident)
  then show ?thesis by (auto simp: trim_end_matches_def)
qed

lemma trim_end_matches_append:
  "trim_end_matches d (a @ b) =
     (if trim_end_matches d b = [] then trim_end_matches d a else a @ trim_end_matches d b)"
  by (auto simp: trim_end_matches_def dropWhile_append dropWhile_eq_Nil_conv)

lemma trim_end_matches_id: "s = [] \<or> last s \<noteq> d \<Longrightarrow> trim_end_matches d s = s"
  by (cases s rule: rev_cases) (simp_all add: trim_end_matches_def)

lemma trim_end_matches_replicate [simp]: "trim_end_matches d (replicate n d) = []"
  by (simp add: trim_end_matches_def)

lemma trim_end_matches_last: "trim_end_matches d s \<noteq> [] \<Longrightarrow> last (trim_end_matches d s) \<noteq> d"
  using hd_dropWhile [of "\<lambda>c. c = d" "rev s"]
  by (simp add: trim_end_matches_def last_rev del: dropWhile_eq_Nil_conv)

lemma set_trim_end_matches: "set (trim_end_matches d s) \<subseteq> set s"
  by (auto simp: trim_end_matches_def dest: set_dropWhileD)

section \<open>Decimal values\<close>

lemma digit_char_code: "d < 10 \<Longrightarrow> code (digit_char d) = 48 + d"
  by (simp add: digit_char_def code_char_of)

lemma nat_str_ne: "nat_str n \<noteq> []"
  by (subst nat_str.simps) simp

lemma nat_str_digits: "c \<in> set (nat_str n) \<Longrightarrow> 48 \<le> code c \<and> code c \<le> 57"
proof (induction n rule: nat_str.induct)
  case (1 n)
  show ?case
  proof (cases "n < 10")
    case True
    with "1.prems" show ?thesis by (simp add: nat_str.simps [of n] digit_char_code)
  next
    case False
    with "1" show ?thesis by (auto simp: nat_str.simps [of n] digit_char_code)
  qed
qed

definition dec_val :: "string \<Rightarrow> nat" where
  "dec_val s = foldl (\<lambda>a c. 10 * a + (code c - 48)) 0 s"

lemma dec_val_foldl: "foldl (\<lambda>a c. 10 * a + (code c - 48)) n s = n * 10 ^ length s + dec_val s"
proof (induction s arbitrary: n)
  case (Cons c s)
  have "foldl (\<lambda>a c. 10 * a + (code c - 48)) (code c - 48) s = (code c - 48) * 10 ^ length s + dec_val s"
    by (rule Cons.IH)
  then show ?case using Cons.IH [of "10 * n + (code c - 48)"]
    by (simp add: dec_val_def algebra_simps)
qed (simp add: dec_val_def)

lemma dec_val_append: "dec_val (s @ t) = dec_val s * 10 ^ length t + dec_val t"
proof -
  have "dec_val (s @ t) = foldl (\<lambda>a c. 10 * a + (code c - 48)) (dec_val s) t" by (simp add: dec_val_def)
  then show ?thesis by (simp only: dec_val_foldl)
qed

lemma dec_val_nat_str: "dec_val (nat_str n) = n"
proof (induction n rule: nat_str.induct)
  case (1 n)
  then show ?case
    by (subst nat_str.simps) (auto simp: dec_val_append digit_char_code dec_val_def)
qed

lemma nat_str_inject [simp]: "nat_str m = nat_str n \<longleftrightarrow> m = n"
  by (metis dec_val_nat_str)

lemma dec_val_zeros [simp]: "dec_val (replicate k (CHR ''0'')) = 0"
  by (induction k) (auto simp: dec_val_def code_def)

lemma length_nat_str: "n < 10 ^ d \<Longrightarrow> 0 < d \<Longrightarrow> length (nat_str n) \<le> d"
proof (induction n arbitrary: d rule: nat_str.induct)
  case (1 n)
  show ?case
  proof (cases "n < 10")
    case True
    with "1.prems" show ?thesis by (simp add: nat_str.simps [of n])
  next
    case False
    then obtain e where d: "d = Suc e" "0 < e"
      using "1.prems" by (cases d; cases "d - 1") auto
    have "n div 10 < 10 ^ e" using "1.prems" d by (simp add: div_less_iff_less_mult mult.commute)
    with "1.IH" False d have "length (nat_str (n div 10)) \<le> e" by blast
    with False d show ?thesis by (simp add: nat_str.simps [of n])
  qed
qed

text \<open>\<^verbatim>\<open>u64::from_str\<close> (and its narrower and wider variants): an optional plus sign, then decimal
  digits whose value fits.\<close>

definition parse_unsigned :: "nat \<Rightarrow> string \<Rightarrow> nat option" where
  "parse_unsigned bits s =
     (let ds = (case s of [] \<Rightarrow> [] | c # r \<Rightarrow> if c = CHR ''+'' then r else s)
      in if ds \<noteq> [] \<and> list_all is_ascii_digit ds \<and> dec_val ds < 2 ^ bits then Some (dec_val ds) else None)"

lemma nat_str_list_all: "list_all is_ascii_digit (nat_str n)"
  unfolding list_all_iff is_ascii_digit_def using nat_str_digits [of _ n] by blast

lemma parse_unsigned_nat_str: "n < 2 ^ bits \<Longrightarrow> parse_unsigned bits (nat_str n) = Some n"
proof (cases "nat_str n")
  case (Cons c r)
  have "code c \<noteq> 43" using nat_str_digits [of c n] Cons by auto
  then have "c \<noteq> CHR ''+''" by (auto simp: code_def)
  moreover assume "n < 2 ^ bits"
  ultimately show ?thesis
    using nat_str_list_all [of n] dec_val_nat_str [of n] Cons by (simp add: parse_unsigned_def)
qed (use nat_str_ne [of n] in simp)

section \<open>Upper case\<close>

text \<open>
  \<^verbatim>\<open>str::to_uppercase\<close>, as far as a comparison with an ASCII literal can observe it: ASCII letters
  are raised, and the non-ASCII characters whose upper case is ASCII (sharp s, dotless i, long s
  and the Latin ligatures of the block U+FB00) are replaced. Every other character keeps its
  (non-ASCII) bytes here; its real upper case is not all ASCII either.
\<close>

definition to_ascii_uppercase_char :: "char \<Rightarrow> char" where
  "to_ascii_uppercase_char c =
     (if 97 \<le> code c \<and> code c \<le> 122 then char_of (code c - 32) else c)"

definition ascii_upper_specials :: "(nat list \<times> string) list" where
  "ascii_upper_specials =
     [([195, 159], ''SS''), ([196, 177], ''I''), ([197, 191], ''S''),
      ([239, 172, 128], ''FF''), ([239, 172, 129], ''FI''), ([239, 172, 130], ''FL''),
      ([239, 172, 131], ''FFI''), ([239, 172, 132], ''FFL''), ([239, 172, 133], ''ST''),
      ([239, 172, 134], ''ST'')]"

fun to_uppercase :: "string \<Rightarrow> string" where
  "to_uppercase [] = []"
| "to_uppercase (c # s) =
     (case find (\<lambda>(e, u). take (length e) (map code (c # s)) = e) ascii_upper_specials of
        Some (e, u) \<Rightarrow> u @ to_uppercase (drop (length e - 1) s)
      | None \<Rightarrow> to_ascii_uppercase_char c # to_uppercase s)"

lemma to_uppercase_ascii: "is_ascii s \<Longrightarrow> to_uppercase s = map to_ascii_uppercase_char s"
proof (induction s)
  case (Cons c s)
  then have "code c < 128" by (simp add: is_ascii_def is_ascii_char_def)
  then have "find (\<lambda>(e, u). take (length e) (map code (c # s)) = e) ascii_upper_specials = None"
    by (auto simp: ascii_upper_specials_def find_None_iff)
  with Cons show ?case by (simp add: is_ascii_def)
qed simp

section \<open>Decimal fractions\<close>

definition zero_pad :: "nat \<Rightarrow> string \<Rightarrow> string" where
  "zero_pad w s = replicate (w - length s) (CHR ''0'') @ s"

text \<open>The fraction digits stand for the fraction, exactly.\<close>

lemma fraction_exact:
  assumes "frac < 10 ^ d" and "frac \<noteq> 0"
  defines "f \<equiv> trim_end_matches (CHR ''0'') (zero_pad d (nat_str frac))"
  shows "f \<noteq> [] \<and> length f \<le> d \<and> last f \<noteq> CHR ''0'' \<and> list_all is_ascii_digit f
    \<and> dec_val f * 10 ^ (d - length f) = frac"
proof -
  have d: "0 < d" using assms(1,2) by (cases d) auto
  have len: "length (zero_pad d (nat_str frac)) = d"
    using length_nat_str [OF assms(1) d] by (simp add: zero_pad_def)
  obtain k where k: "zero_pad d (nat_str frac) = f @ replicate k (CHR ''0'')"
    using trim_end_matches_decomp unfolding f_def by blast
  have kd: "k = d - length f" "length f \<le> d" using len unfolding k by auto
  have "dec_val (zero_pad d (nat_str frac)) = frac"
    by (simp add: zero_pad_def dec_val_append dec_val_nat_str)
  then have val: "dec_val f * 10 ^ (d - length f) = frac"
    unfolding k by (simp add: dec_val_append kd(1) [symmetric])
  then have ne: "f \<noteq> []" using assms(2) by (auto simp: dec_val_def)
  have "list_all is_ascii_digit (zero_pad d (nat_str frac))"
    using nat_str_digits [of _ frac] by (auto simp: zero_pad_def list_all_iff is_ascii_digit_def code_def)
  then have "list_all is_ascii_digit f" unfolding k by simp
  with val ne kd show ?thesis using trim_end_matches_last unfolding f_def by blast
qed

text \<open>A decimal at scale \<open>d\<close> that denotes exactly \<open>n\<close>, written without trailing zeros.\<close>

definition shows_decimal :: "nat \<Rightarrow> nat \<Rightarrow> string \<Rightarrow> bool" where
  "shows_decimal d n s \<longleftrightarrow> (\<exists>w f. s = nat_str w @ (if f = [] then [] else ''.'' @ f)
     \<and> list_all is_ascii_digit f \<and> length f \<le> d \<and> (f \<noteq> [] \<longrightarrow> last f \<noteq> CHR ''0'')
     \<and> w * 10 ^ d + dec_val f * 10 ^ (d - length f) = n)"

lemma shows_decimal_whole: "n mod 10 ^ d = 0 \<Longrightarrow> shows_decimal d n (nat_str (n div 10 ^ d))"
  unfolding shows_decimal_def
  by (rule exI [of _ "n div 10 ^ d"], rule exI [of _ "[]"]) (simp add: dec_val_def, metis add_0_right div_mult_mod_eq)

lemma shows_decimal_fraction:
  assumes "n mod 10 ^ d \<noteq> 0"
  shows "shows_decimal d n (nat_str (n div 10 ^ d) @ ''.''
    @ trim_end_matches (CHR ''0'') (zero_pad d (nat_str (n mod 10 ^ d))))"
proof -
  let ?f = "trim_end_matches (CHR ''0'') (zero_pad d (nat_str (n mod 10 ^ d)))"
  have "?f \<noteq> [] \<and> length ?f \<le> d \<and> last ?f \<noteq> CHR ''0'' \<and> list_all is_ascii_digit ?f
      \<and> dec_val ?f * 10 ^ (d - length ?f) = n mod 10 ^ d"
    by (rule fraction_exact) (use assms in simp_all)
  then show ?thesis
    unfolding shows_decimal_def
    by (intro exI [of _ "n div 10 ^ d"] exI [of _ ?f]) (simp add: div_mult_mod_eq)
qed

end
