(* ===== verification/Charset.thy ===== *)
theory Charset
  imports Json StdText
begin

text \<open>
  The text-level checks of \<^verbatim>\<open>SignablePayload::validate_charset\<close> on a printed JSON value
  (\<^verbatim>\<open>visualsign/src/lib.rs\<close>), and what they mean for the strings the value carries: the
  printed text passes exactly when every string passes \<open>safe_text\<close>.
\<close>

section \<open>The checks\<close>

definition FORBIDDEN_JSON_ESCAPES :: "string list" where
  "FORBIDDEN_JSON_ESCAPES =
     [[CHR 0x5C, CHR ''u''], [CHR 0x5C, CHR ''t''], [CHR 0x5C, CHR ''r''],
      [CHR 0x5C, CHR ''b''], [CHR 0x5C, CHR ''f''], [CHR 0x5C, CHR ''/'']]"

definition printable :: "char \<Rightarrow> bool" where
  "printable c = (is_ascii_graphic c \<or> is_ascii_whitespace c)"

definition text_ok :: "string \<Rightarrow> bool" where
  "text_ok t = (list_all (\<lambda>e. \<not> contains e t) FORBIDDEN_JSON_ESCAPES
     \<and> is_ascii t \<and> list_all printable t)"

text \<open>
  What the checks let through, stated on a string before it is escaped: printable ASCII,
  spaces and newlines, and no backslash directly before one of \<^verbatim>\<open>u t r b f /\<close>.
\<close>

definition safe_char :: "char \<Rightarrow> bool" where
  "safe_char c = (code c = 10 \<or> (32 \<le> code c \<and> code c \<le> 126))"

fun no_escape_lookalike :: "string \<Rightarrow> bool" where
  "no_escape_lookalike (a # b # s) =
     (\<not> (a = CHR 0x5C \<and> b \<in> set ''utrbf/'') \<and> no_escape_lookalike (b # s))"
| "no_escape_lookalike s = True"

definition safe_text :: "string \<Rightarrow> bool" where
  "safe_text s = (list_all safe_char s \<and> no_escape_lookalike s)"

section \<open>Pieces of text\<close>

definition starts_bad :: "string \<Rightarrow> bool" where
  "starts_bad t = (t \<noteq> [] \<and> hd t \<in> set ''utrbf/'')"

lemma contains_pair_Cons:
  "contains [a, b] (c # s) \<longleftrightarrow> (c = a \<and> s \<noteq> [] \<and> hd s = b) \<or> contains [a, b] s"
  by (cases s) auto

lemma contains_pair_append:
  "contains [a, b] (s @ t) \<longleftrightarrow>
     contains [a, b] s \<or> contains [a, b] t \<or> (s \<noteq> [] \<and> t \<noteq> [] \<and> last s = a \<and> hd t = b)"
  by (induction s) (auto simp: contains_pair_Cons simp del: contains.simps(2))

lemma text_ok_append:
  "text_ok (s @ t) \<longleftrightarrow>
     text_ok s \<and> text_ok t \<and> \<not> (s \<noteq> [] \<and> last s = CHR 0x5C \<and> starts_bad t)"
  by (auto simp: text_ok_def FORBIDDEN_JSON_ESCAPES_def contains_pair_append is_ascii_def starts_bad_def
      simp del: contains.simps)

lemma text_ok_Nil [simp]: "text_ok []"
  by (simp add: text_ok_def FORBIDDEN_JSON_ESCAPES_def is_ascii_def)

definition text_char :: "char \<Rightarrow> bool" where
  "text_char c = (is_ascii_char c \<and> printable c)"

lemma text_ok_single: "text_ok [c] \<longleftrightarrow> text_char c"
  by (simp add: text_ok_def FORBIDDEN_JSON_ESCAPES_def is_ascii_def text_char_def)

lemma text_ok_Cons:
  "text_ok (c # t) \<longleftrightarrow> text_char c \<and> text_ok t \<and> \<not> (c = CHR 0x5C \<and> starts_bad t)"
  using text_ok_append [of "[c]" t] by (auto simp: text_ok_single)

lemma code_backslash [simp]: "code c = 92 \<longleftrightarrow> c = CHR 0x5C"
proof -
  have "code (CHR 0x5C) = 92" by (simp add: code_def)
  then show ?thesis by (metis code_inject)
qed

lemma text_char_iff: "text_char c \<longleftrightarrow>
    code c \<in> {9, 10, 12, 13} \<or> (32 \<le> code c \<and> code c \<le> 126)"
  by (auto simp: text_char_def is_ascii_char_def printable_def is_ascii_graphic_def is_ascii_whitespace_def)

lemma text_ok_code: "code c \<noteq> 92 \<Longrightarrow> 32 \<le> code c \<Longrightarrow> code c \<le> 126 \<Longrightarrow> text_ok (c # t) = text_ok t"
  by (simp add: text_ok_Cons text_char_iff)

section \<open>Escaped strings\<close>

lemma codes [simp]:
  "code (CHR 0x22) = 34" "code (CHR ''b'') = 98" "code (CHR ''t'') = 116" "code (CHR ''n'') = 110"
  "code (CHR ''f'') = 102" "code (CHR ''r'') = 114" "code (CHR ''u'') = 117" "code (CHR ''/'') = 47"
  "code (CHR 0x5C) = 92" "code (CHR '','') = 44" "code (CHR '':'') = 58" "code (CHR ''['') = 91"
  "code (CHR '']'') = 93" "code (CHR ''{'') = 123" "code (CHR ''}'') = 125" "code (CHR ''-'') = 45"
  "code (CHR ''0'') = 48"
  by (simp_all add: code_def)

lemma esc_char_cases:
  "esc_char c = [c] \<and> 32 \<le> code c \<and> code c \<noteq> 34 \<and> code c \<noteq> 92
   \<or> esc_char c = [CHR 0x5C, CHR 0x22] \<and> code c = 34
   \<or> esc_char c = [CHR 0x5C, CHR 0x5C] \<and> code c = 92
   \<or> esc_char c = [CHR 0x5C, CHR ''n''] \<and> code c = 10
   \<or> (\<exists>x r. esc_char c = CHR 0x5C # x # r \<and> x \<in> set ''utrbf/'' \<and> code c < 32 \<and> code c \<noteq> 10)"
  unfolding esc_char_def by auto

lemma starts_bad_esc:
  "starts_bad (concat (map esc_char s)) \<longleftrightarrow> starts_bad s"
proof (cases s)
  case (Cons c t)
  have bad: "x \<in> set ''utrbf/'' \<Longrightarrow> code x \<noteq> 92 \<and> code x \<noteq> 34 \<and> 32 \<le> code x" for x
    by auto
  from esc_char_cases [of c] show ?thesis
    by (elim disjE) (use bad [of c] Cons in \<open>auto simp: starts_bad_def\<close>)
qed (simp add: starts_bad_def)

lemma no_escape_lookalike_Cons:
  "no_escape_lookalike (c # s) \<longleftrightarrow> \<not> (c = CHR 0x5C \<and> starts_bad s) \<and> no_escape_lookalike s"
  by (cases s) (auto simp: starts_bad_def)

lemma text_ok_escaped: "text_ok (concat (map esc_char s)) \<longleftrightarrow> safe_text s"
proof (induction s)
  case (Cons c s)
  have IH: "text_ok (concat (map esc_char s)) = (list_all safe_char s \<and> no_escape_lookalike s)"
    using Cons by (simp add: safe_text_def)
  from esc_char_cases [of c] show ?case
  proof (elim disjE conjE exE)
    assume "esc_char c = [c]" "32 \<le> code c" "code c \<noteq> 34" "code c \<noteq> 92"
    then show ?thesis
      by (auto simp: text_ok_Cons text_char_iff IH safe_text_def safe_char_def no_escape_lookalike_Cons)
  next
    assume "esc_char c = [CHR 0x5C, CHR 0x22]" "code c = 34"
    then show ?thesis
      by (auto simp: text_ok_Cons text_char_iff IH safe_text_def safe_char_def no_escape_lookalike_Cons starts_bad_def)
  next
    assume "esc_char c = [CHR 0x5C, CHR 0x5C]" "code c = 92"
    then show ?thesis
      by (auto simp: text_ok_Cons text_char_iff IH safe_text_def safe_char_def
          no_escape_lookalike_Cons starts_bad_esc) (auto simp: starts_bad_def)
  next
    assume "esc_char c = [CHR 0x5C, CHR ''n'']" "code c = 10"
    then show ?thesis
      by (auto simp: text_ok_Cons text_char_iff IH safe_text_def safe_char_def no_escape_lookalike_Cons starts_bad_def)
  next
    fix x r
    assume "esc_char c = CHR 0x5C # x # r" "x \<in> set ''utrbf/''" "code c < 32" "code c \<noteq> 10"
    then show ?thesis
      by (auto simp: text_ok_Cons safe_text_def safe_char_def starts_bad_def)
  qed
qed (simp add: safe_text_def)

lemma text_ok_esc_string: "text_ok (esc_string s) \<longleftrightarrow> safe_text s"
  by (auto simp: esc_string_def text_ok_Cons text_ok_append text_ok_escaped text_char_iff starts_bad_def)

section \<open>Printed values\<close>

text \<open>A piece is closed when it is not empty and does not end in a backslash.\<close>

definition closed_text :: "string \<Rightarrow> bool" where
  "closed_text t = (t \<noteq> [] \<and> last t \<noteq> CHR 0x5C)"

lemma text_ok_closed_append:
  "closed_text s \<Longrightarrow> text_ok (s @ t) \<longleftrightarrow> text_ok s \<and> text_ok t"
  by (auto simp: text_ok_append closed_text_def)

lemma text_ok_Cons_plain:
  "32 \<le> code c \<Longrightarrow> code c \<le> 126 \<Longrightarrow> code c \<noteq> 92 \<Longrightarrow> text_ok (c # t) \<longleftrightarrow> text_ok t"
  by (auto simp: text_ok_Cons text_char_iff)

lemma text_ok_join:
  assumes "list_all closed_text xs"
  shows "text_ok (join '','' xs) \<longleftrightarrow> list_all text_ok xs"
  using assms
  by (induction "'',''" xs rule: join.induct) (simp_all add: text_ok_closed_append text_ok_Cons_plain)

lemma closed_esc_string: "closed_text (esc_string s)"
  by (simp add: closed_text_def esc_string_def)

lemma closed_append: "closed_text t \<Longrightarrow> closed_text (s @ t)"
  by (simp add: closed_text_def)

lemma text_ok_plain:
  "list_all (\<lambda>c. 32 \<le> code c \<and> code c \<le> 126 \<and> code c \<noteq> 92) t \<Longrightarrow> text_ok t"
  by (induction t) (auto simp: text_ok_Cons text_char_iff)

lemma int_str_plain: "c \<in> set (int_str i) \<Longrightarrow> 32 \<le> code c \<and> code c \<le> 126 \<and> code c \<noteq> 92"
  using nat_str_digits [of c "nat i"] nat_str_digits [of c "nat (- i)"]
  by (auto simp: int_str_def split: if_splits)

lemma text_ok_int_str: "text_ok (int_str i)"
  by (rule text_ok_plain) (simp add: list_all_iff del: code_backslash, blast dest: int_str_plain)

lemma closed_int_str: "closed_text (int_str i)"
proof -
  have ne: "int_str i \<noteq> []" by (simp add: int_str_def nat_str_ne)
  then have "code (last (int_str i)) \<noteq> 92" using int_str_plain [of "last (int_str i)" i] by simp
  with ne show ?thesis by (simp add: closed_text_def)
qed

lemma closed_json_print: "closed_text (json_print j)"
proof (induction j)
  case (JString s)
  then show ?case by (simp add: closed_esc_string)
next
  case (JNumber n)
  then show ?case by (simp add: closed_int_str)
next
  case (JArray xs)
  then show ?case by (simp add: closed_text_def)
next
  case (JObject m)
  then show ?case by (simp add: closed_text_def)
qed (auto simp: closed_text_def)

lemma text_ok_bracket:
  assumes "32 \<le> code a" "code a \<le> 126" "code a \<noteq> 92" "code b = 93 \<or> code b = 125"
  shows "text_ok (a # t @ [b]) \<longleftrightarrow> text_ok t"
proof -
  have "\<not> starts_bad [b]" using assms(4) by (auto simp: starts_bad_def)
  with assms show ?thesis
    by (auto simp: text_ok_Cons_plain text_ok_append text_ok_single text_char_iff)
qed

lemma text_ok_json_print: "text_ok (json_print j) \<longleftrightarrow> list_all safe_text (json_strings j)"
proof (induction j)
  case JNull
  show ?case by (auto simp: text_ok_plain code_def)
next
  case (JBool b)
  show ?case by (auto simp: text_ok_plain code_def)
next
  case (JNumber n)
  show ?case by (simp add: text_ok_int_str)
next
  case (JString s)
  show ?case by (simp add: text_ok_esc_string)
next
  case (JArray xs)
  have "list_all closed_text (map json_print xs)"
    by (simp add: list_all_iff closed_json_print)
  with JArray show ?case
    by (simp add: text_ok_bracket text_ok_join) (auto simp: list_all_iff)
next
  case (JObject m)
  let ?p = "\<lambda>(k, v). esc_string k @ '':'' @ json_print v"
  have closed: "closed_text (?p e)" for e
    by (cases e) (auto intro: closed_append closed_json_print simp: closed_append [of _ "CHR '':'' # _"]
        closed_text_def closed_json_print [unfolded closed_text_def])
  have piece: "text_ok (?p e) \<longleftrightarrow> safe_text (fst e) \<and> list_all safe_text (json_strings (snd e))"
    if "e \<in> set m" for e
    using JObject that
    by (cases e) (auto simp: text_ok_closed_append closed_esc_string text_ok_esc_string
        text_ok_Cons_plain snds.simps)
  have "list_all closed_text (map ?p m)"
    using closed by (simp add: list_all_iff)
  then have "text_ok (json_print (JObject m)) \<longleftrightarrow> (\<forall>e\<in>set m. text_ok (?p e))"
    by (simp add: text_ok_bracket text_ok_join) (simp add: list_all_iff)
  also have "\<dots> \<longleftrightarrow> list_all safe_text (json_strings (JObject m))"
    using piece by (auto simp: list_all_iff)
  finally show ?case .
qed

end
