(* ===== verification/Errors.thy ===== *)
theory Errors
  imports Prelude
begin

text \<open>
  The error enums of \<^verbatim>\<open>visualsign/src/errors.rs\<close> and their \<^verbatim>\<open>Display\<close> strings, as the
  \<^verbatim>\<open>#[error(...)]\<close> attributes give them. \<^verbatim>\<open>TransactionParseError::DecodeError\<close> is
  \<open>TxDecodeError\<close> here, since both enums have a variant of that name.
\<close>

datatype TransactionParseError =
    InvalidFormat string
  | TxDecodeError string
  | UnsupportedVersion string
  | UnsupportedEncoding string

fun display_parse_error :: "TransactionParseError \<Rightarrow> string" where
  "display_parse_error (InvalidFormat m) = ''Invalid transaction format: '' @ m"
| "display_parse_error (TxDecodeError m) = ''Decode error: '' @ m"
| "display_parse_error (UnsupportedVersion m) = ''Unsupported transaction version: '' @ m"
| "display_parse_error (UnsupportedEncoding m) = ''Unsupported encoding format: '' @ m"

datatype VisualSignError =
    ParseError TransactionParseError
  | DecodeError string
  | MissingData string
  | ConversionError string
  | MissingField string
  | InvalidNumberField string
  | EmptyField string
  | ValidationError string
  | InvariantViolation string
  | SerializationError string

fun display_error :: "VisualSignError \<Rightarrow> string" where
  "display_error (ParseError e) = ''Failed to parse transaction: '' @ display_parse_error e"
| "display_error (DecodeError m) = ''Failed to decode instruction: '' @ m"
| "display_error (MissingData m) = ''Missing required data: '' @ m"
| "display_error (ConversionError m) = ''Conversion failed: '' @ m"
| "display_error (MissingField m) = ''Missing required field '' @ [CHR 0x27] @ m @ [CHR 0x27]"
| "display_error (InvalidNumberField m) =
     ''Invalid number field: '' @ [CHR 0x27] @ m @ [CHR 0x27] @ '' contains non-numeric characters or is empty.''"
| "display_error (EmptyField m) = ''Empty field provided''"
| "display_error (ValidationError m) = ''Validation failed: '' @ m"
| "display_error (InvariantViolation m) = ''Invariant violation: '' @ m"
| "display_error (SerializationError m) = ''Serialization failed: '' @ m"

end
