(* ===== verification/Payload.thy ===== *)
theory Payload
  imports Charset Errors
begin

text \<open>
  The payload of \<^verbatim>\<open>visualsign/src/lib.rs\<close>: the field structs and the field enum, their
  serializers, \<^verbatim>\<open>to_json\<close>, \<^verbatim>\<open>verify_deterministic_ordering\<close> and \<^verbatim>\<open>validate_charset\<close>.

  A Rust \<^verbatim>\<open>Serialize\<close> implementation is generic in the serializer. What the two
  serializers in use do with the entries of a map differs: building a \<^verbatim>\<open>serde_json::Value\<close>
  inserts them into a \<^verbatim>\<open>serde_json::Map\<close> (\<open>jobj po\<close>), writing text emits them in order
  (\<open>JObject\<close>). The top-level serializers take that action as the argument \<open>mk\<close>; the
  nested ones always build values, since the source calls \<^verbatim>\<open>serde_json::to_value\<close> there.
  The diagnostics feature is taken as enabled, so every variant is present.
\<close>

section \<open>Field structs\<close>

record SignablePayloadFieldCommon =
  fallback_text :: string
  label :: string

record SignablePayloadFieldText =
  text_text :: string

record SignablePayloadFieldTextV2 =
  text_v2_text :: string

record SignablePayloadFieldAddress =
  address_address :: string
  address_name :: string

record SignablePayloadFieldAddressV2 =
  address_v2_address :: string
  address_v2_name :: string
  address_v2_memo :: "string option"
  address_v2_asset_label :: string
  address_v2_badge_text :: "string option"

record SignablePayloadFieldNumber =
  number_number :: string

record SignablePayloadFieldAmount =
  amount_amount :: string
  amount_abbreviation :: "string option"

record SignablePayloadFieldAmountV2 =
  amount_v2_amount :: string
  amount_v2_abbreviation :: "string option"

datatype DividerStyle = DividerStyle string

definition THIN :: DividerStyle where
  "THIN = DividerStyle []"

record SignablePayloadFieldDivider =
  divider_style :: DividerStyle

record SignablePayloadFieldUnknown =
  unknown_data :: string
  unknown_explanation :: string

record SignablePayloadFieldDiagnostic =
  diagnostic_rule :: string
  diagnostic_domain :: string
  diagnostic_level :: string
  diagnostic_message :: string
  diagnostic_instruction_index :: "u32 option"

record SignablePayloadFieldStaticAnnotation =
  static_text :: string

record SignablePayloadFieldDynamicAnnotation =
  dynamic_field_type :: string
  dynamic_id :: string
  dynamic_params :: "string list"

datatype SignablePayloadField =
    Text SignablePayloadFieldCommon SignablePayloadFieldText
  | TextV2 SignablePayloadFieldCommon SignablePayloadFieldTextV2
  | Address SignablePayloadFieldCommon SignablePayloadFieldAddress
  | AddressV2 SignablePayloadFieldCommon SignablePayloadFieldAddressV2
  | Number SignablePayloadFieldCommon SignablePayloadFieldNumber
  | Amount SignablePayloadFieldCommon SignablePayloadFieldAmount
  | AmountV2 SignablePayloadFieldCommon SignablePayloadFieldAmountV2
  | Divider SignablePayloadFieldCommon SignablePayloadFieldDivider
  | PreviewLayout SignablePayloadFieldCommon SignablePayloadFieldPreviewLayout
  | ListLayout SignablePayloadFieldCommon SignablePayloadFieldListLayout
  | Unknown SignablePayloadFieldCommon SignablePayloadFieldUnknown
  | Diagnostic SignablePayloadFieldCommon SignablePayloadFieldDiagnostic
and SignablePayloadFieldPreviewLayout =
  PreviewLayoutData
    (preview_title: "SignablePayloadFieldTextV2 option")
    (preview_subtitle: "SignablePayloadFieldTextV2 option")
    (preview_condensed: "SignablePayloadFieldListLayout option")
    (preview_expanded: "SignablePayloadFieldListLayout option")
and SignablePayloadFieldListLayout =
  ListLayoutData (list_fields: "AnnotatedPayloadField list")
and AnnotatedPayloadField =
  Annotated
    (signable_payload_field: SignablePayloadField)
    (static_annotation: "SignablePayloadFieldStaticAnnotation option")
    (dynamic_annotation: "SignablePayloadFieldDynamicAnnotation option")

record SignablePayload =
  payload_fields :: "SignablePayloadField list"
  payload_payload_type :: string
  payload_subtitle :: "string option"
  payload_title :: string
  payload_version :: string

section \<open>Accessors\<close>

fun field_common :: "SignablePayloadField \<Rightarrow> SignablePayloadFieldCommon" where
  "field_common (Text c x) = c"
| "field_common (TextV2 c x) = c"
| "field_common (Address c x) = c"
| "field_common (AddressV2 c x) = c"
| "field_common (Number c x) = c"
| "field_common (Amount c x) = c"
| "field_common (AmountV2 c x) = c"
| "field_common (Divider c x) = c"
| "field_common (PreviewLayout c p) = c"
| "field_common (ListLayout c l) = c"
| "field_common (Unknown c x) = c"
| "field_common (Diagnostic c x) = c"

definition field_fallback_text :: "SignablePayloadField \<Rightarrow> string" where
  "field_fallback_text f = fallback_text (field_common f)"

definition field_label :: "SignablePayloadField \<Rightarrow> string" where
  "field_label f = label (field_common f)"

fun field_type :: "SignablePayloadField \<Rightarrow> string" where
  "field_type (Text c x) = ''text''"
| "field_type (TextV2 c x) = ''text_v2''"
| "field_type (Address c x) = ''address''"
| "field_type (AddressV2 c x) = ''address_v2''"
| "field_type (Number c x) = ''number''"
| "field_type (Amount c x) = ''amount''"
| "field_type (AmountV2 c x) = ''amount_v2''"
| "field_type (Divider c x) = ''divider''"
| "field_type (PreviewLayout c p) = ''preview_layout''"
| "field_type (ListLayout c l) = ''list_layout''"
| "field_type (Unknown c x) = ''unknown''"
| "field_type (Diagnostic c x) = ''diagnostic''"

section \<open>Serializers\<close>

text \<open>\<^verbatim>\<open>skip_serializing_if\<close>: absent options and empty strings leave no entry.\<close>

definition opt_entry :: "string \<Rightarrow> ('a \<Rightarrow> json) \<Rightarrow> 'a option \<Rightarrow> (string \<times> json) list" where
  "opt_entry k f x = (case x of None \<Rightarrow> [] | Some a \<Rightarrow> [(k, f a)])"

definition nonempty_entry :: "string \<Rightarrow> string \<Rightarrow> (string \<times> json) list" where
  "nonempty_entry k s = (if s = [] then [] else [(k, JString s)])"

definition text_value :: "bool \<Rightarrow> SignablePayloadFieldText \<Rightarrow> json" where
  "text_value po x = jobj po [(''Text'', JString (text_text x))]"

definition text_v2_value :: "bool \<Rightarrow> SignablePayloadFieldTextV2 \<Rightarrow> json" where
  "text_v2_value po x = jobj po [(''Text'', JString (text_v2_text x))]"

definition address_value :: "bool \<Rightarrow> SignablePayloadFieldAddress \<Rightarrow> json" where
  "address_value po x =
     jobj po [(''Address'', JString (address_address x)), (''Name'', JString (address_name x))]"

definition address_v2_value :: "bool \<Rightarrow> SignablePayloadFieldAddressV2 \<Rightarrow> json" where
  "address_v2_value po x =
     jobj po ([(''Address'', JString (address_v2_address x))]
       @ nonempty_entry ''Name'' (address_v2_name x)
       @ opt_entry ''Memo'' JString (address_v2_memo x)
       @ nonempty_entry ''AssetLabel'' (address_v2_asset_label x)
       @ opt_entry ''BadgeText'' JString (address_v2_badge_text x))"

definition amount_value :: "bool \<Rightarrow> SignablePayloadFieldAmount \<Rightarrow> json" where
  "amount_value po x =
     jobj po ([(''Amount'', JString (amount_amount x))]
       @ opt_entry ''Abbreviation'' JString (amount_abbreviation x))"

definition amount_v2_value :: "bool \<Rightarrow> SignablePayloadFieldAmountV2 \<Rightarrow> json" where
  "amount_v2_value po x =
     jobj po (bt_collect ([(''Amount'', JString (amount_v2_amount x))]
       @ opt_entry ''Abbreviation'' JString (amount_v2_abbreviation x)))"

definition divider_value :: "bool \<Rightarrow> SignablePayloadFieldDivider \<Rightarrow> json" where
  "divider_value po x =
     jobj po [(''Style'', case divider_style x of DividerStyle s \<Rightarrow> JString s)]"

definition unknown_value :: "bool \<Rightarrow> SignablePayloadFieldUnknown \<Rightarrow> json" where
  "unknown_value po x =
     jobj po [(''Data'', JString (unknown_data x)), (''Explanation'', JString (unknown_explanation x))]"

definition diagnostic_value :: "bool \<Rightarrow> SignablePayloadFieldDiagnostic \<Rightarrow> json" where
  "diagnostic_value po x =
     jobj po ([(''Domain'', JString (diagnostic_domain x))]
       @ opt_entry ''InstructionIndex'' (\<lambda>i. JNumber (uint i)) (diagnostic_instruction_index x)
       @ [(''Level'', JString (diagnostic_level x)),
          (''Message'', JString (diagnostic_message x)),
          (''Rule'', JString (diagnostic_rule x))])"

definition static_annotation_value :: "bool \<Rightarrow> SignablePayloadFieldStaticAnnotation \<Rightarrow> json" where
  "static_annotation_value po x = jobj po [(''Text'', JString (static_text x))]"

definition dynamic_annotation_value :: "bool \<Rightarrow> SignablePayloadFieldDynamicAnnotation \<Rightarrow> json" where
  "dynamic_annotation_value po x =
     jobj po [(''ID'', JString (dynamic_id x)),
              (''Params'', JArray (map JString (dynamic_params x))),
              (''Type'', JString (dynamic_field_type x))]"

text \<open>
  The macro \<^verbatim>\<open>serialize_field_variant!\<close>: inserts into a \<^verbatim>\<open>HashMap\<close>, here in insertion order;
  the result is collected into a \<^verbatim>\<open>BTreeMap\<close>, which forgets the iteration order.
\<close>

definition serialize_field_variant ::
  "string \<Rightarrow> SignablePayloadFieldCommon \<Rightarrow> string \<Rightarrow> json \<Rightarrow> (string \<times> json) list" where
  "serialize_field_variant variant_name c field_name v =
     ix_collect [(''FallbackText'', JString (fallback_text c)),
                 (''Label'', JString (label c)),
                 (''Type'', JString variant_name),
                 (field_name, v)]"

text \<open>A number goes on the wire as an amount; its unit is what follows it in the fallback text.\<close>

definition number_as_amount_v2 ::
  "SignablePayloadFieldCommon \<Rightarrow> SignablePayloadFieldNumber \<Rightarrow> SignablePayloadFieldAmountV2" where
  "number_as_amount_v2 c x =
     \<lparr>amount_v2_amount = number_number x,
      amount_v2_abbreviation =
        Some (unwrap_or [] (map_option trim_start (strip_prefix (number_number x) (fallback_text c))))\<rparr>"

fun serialize_to_map :: "bool \<Rightarrow> SignablePayloadField \<Rightarrow> (string \<times> json) list"
  and preview_layout_value :: "bool \<Rightarrow> SignablePayloadFieldPreviewLayout \<Rightarrow> json"
  and list_layout_value :: "bool \<Rightarrow> SignablePayloadFieldListLayout \<Rightarrow> json"
  and annotated_value :: "bool \<Rightarrow> AnnotatedPayloadField \<Rightarrow> json"
where
  "serialize_to_map po (Text c x) =
     bt_collect (serialize_field_variant ''text'' c ''Text'' (text_value po x))"
| "serialize_to_map po (TextV2 c x) =
     bt_collect (serialize_field_variant ''text_v2'' c ''TextV2'' (text_v2_value po x))"
| "serialize_to_map po (Address c x) =
     bt_collect (serialize_field_variant ''address'' c ''Address'' (address_value po x))"
| "serialize_to_map po (AddressV2 c x) =
     bt_collect (serialize_field_variant ''address_v2'' c ''AddressV2'' (address_v2_value po x))"
| "serialize_to_map po (Number c x) =
     bt_collect (serialize_field_variant ''amount_v2'' c ''AmountV2''
       (amount_v2_value po (number_as_amount_v2 c x)))"
| "serialize_to_map po (Amount c x) =
     bt_collect (serialize_field_variant ''amount'' c ''Amount'' (amount_value po x))"
| "serialize_to_map po (AmountV2 c x) =
     bt_collect (serialize_field_variant ''amount_v2'' c ''AmountV2'' (amount_v2_value po x))"
| "serialize_to_map po (Divider c x) =
     bt_collect (serialize_field_variant ''divider'' c ''Divider'' (divider_value po x))"
| "serialize_to_map po (PreviewLayout c p) =
     bt_collect (serialize_field_variant ''preview_layout'' c ''PreviewLayout'' (preview_layout_value po p))"
| "serialize_to_map po (ListLayout c l) =
     bt_collect (serialize_field_variant ''list_layout'' c ''ListLayout'' (list_layout_value po l))"
| "serialize_to_map po (Unknown c x) =
     bt_collect (serialize_field_variant ''unknown'' c ''Unknown'' (unknown_value po x))"
| "serialize_to_map po (Diagnostic c x) =
     bt_collect (serialize_field_variant ''diagnostic'' c ''Diagnostic'' (diagnostic_value po x))"
| "preview_layout_value po (PreviewLayoutData title subtitle condensed expanded) =
     jobj po (bt_collect
       ([(''Condensed'', case condensed of None \<Rightarrow> jobj po [(''Fields'', JArray [])]
                          | Some l \<Rightarrow> list_layout_value po l),
         (''Expanded'', case expanded of None \<Rightarrow> jobj po [(''Fields'', JArray [])]
                         | Some l \<Rightarrow> list_layout_value po l)]
        @ opt_entry ''Subtitle'' (text_v2_value po) subtitle
        @ opt_entry ''Title'' (text_v2_value po) title))"
| "list_layout_value po (ListLayoutData fs) =
     jobj po [(''Fields'', JArray (map (annotated_value po) fs))]"
| "annotated_value po (Annotated f sa da) =
     jobj po (bt_collect (serialize_to_map po f
       @ opt_entry ''StaticAnnotation'' (static_annotation_value po) sa
       @ opt_entry ''DynamicAnnotation'' (dynamic_annotation_value po) da))"

text \<open>\<^verbatim>\<open>get_expected_fields\<close> and the completeness checks of the field's \<^verbatim>\<open>Serialize\<close>.\<close>

fun variant_key :: "SignablePayloadField \<Rightarrow> string" where
  "variant_key (Text c x) = ''Text''"
| "variant_key (TextV2 c x) = ''TextV2''"
| "variant_key (Address c x) = ''Address''"
| "variant_key (AddressV2 c x) = ''AddressV2''"
| "variant_key (Number c x) = ''AmountV2''"
| "variant_key (Amount c x) = ''Amount''"
| "variant_key (AmountV2 c x) = ''AmountV2''"
| "variant_key (Divider c x) = ''Divider''"
| "variant_key (PreviewLayout c p) = ''PreviewLayout''"
| "variant_key (ListLayout c l) = ''ListLayout''"
| "variant_key (Unknown c x) = ''Unknown''"
| "variant_key (Diagnostic c x) = ''Diagnostic''"

definition get_expected_fields :: "SignablePayloadField \<Rightarrow> string list" where
  "get_expected_fields f = sort [''FallbackText'', ''Label'', ''Type'', variant_key f]"

datatype completeness_error =
    MissingExpectedField string "string list" "string list"
  | UnexpectedField string "string list"

definition serialize_field ::
  "((string \<times> json) list \<Rightarrow> json) \<Rightarrow> bool \<Rightarrow> SignablePayloadField \<Rightarrow> (completeness_error, json) result" where
  "serialize_field mk po f =
     (let sorted_map = serialize_to_map po f;
          expected = get_expected_fields f;
          actual = map fst sorted_map
      in case find (\<lambda>k. k \<notin> set actual) expected of
           Some k \<Rightarrow> Inl (MissingExpectedField k expected actual)
         | None \<Rightarrow>
             (case find (\<lambda>k. k \<notin> set expected) actual of
                Some k \<Rightarrow> Inl (UnexpectedField k expected)
              | None \<Rightarrow> Inr (mk sorted_map)))"

fun traverse :: "('a \<Rightarrow> ('e, 'b) result) \<Rightarrow> 'a list \<Rightarrow> ('e, 'b list) result" where
  "traverse f [] = Inr []"
| "traverse f (x # xs) = and_then (f x) (\<lambda>y. and_then (traverse f xs) (\<lambda>ys. Inr (y # ys)))"

text \<open>The derived \<^verbatim>\<open>Serialize\<close> of \<^verbatim>\<open>SignablePayload\<close>, in declaration order.\<close>

definition serialize_payload ::
  "((string \<times> json) list \<Rightarrow> json) \<Rightarrow> bool \<Rightarrow> SignablePayload \<Rightarrow> (completeness_error, json) result" where
  "serialize_payload mk po p =
     and_then (traverse (serialize_field mk po) (payload_fields p)) (\<lambda>fs.
       Inr (mk ([(''Fields'', JArray fs)]
         @ nonempty_entry ''PayloadType'' (payload_payload_type p)
         @ opt_entry ''Subtitle'' JString (payload_subtitle p)
         @ [(''Title'', JString (payload_title p)),
            (''Version'', JString (payload_version p))])))"

section \<open>Payload operations\<close>

definition payload_new ::
  "64 word \<Rightarrow> string \<Rightarrow> string option \<Rightarrow> SignablePayloadField list \<Rightarrow> string \<Rightarrow> SignablePayload" where
  "payload_new version title subtitle fs payload_type =
     \<lparr>payload_fields = fs, payload_payload_type = payload_type,
      payload_subtitle = subtitle, payload_title = title, payload_version = int_str (sint version)\<rparr>"

text \<open>\<^verbatim>\<open>new_with_verified_fields\<close>; the conversion \<^verbatim>\<open>Into<SignablePayloadField>\<close> is \<open>into\<close>.\<close>

definition new_with_verified_fields ::
  "('f \<Rightarrow> SignablePayloadField) \<Rightarrow> 64 word \<Rightarrow> string \<Rightarrow> string option \<Rightarrow> 'f list \<Rightarrow> string
    \<Rightarrow> SignablePayload" where
  "new_with_verified_fields into version title subtitle fs payload_type =
     \<lparr>payload_fields = map into fs, payload_payload_type = payload_type,
      payload_subtitle = subtitle, payload_title = title, payload_version = int_str (sint version)\<rparr>"

text \<open>\<^verbatim>\<open>serde_json::to_value(payload)\<close> and \<^verbatim>\<open>serde_json::to_string(payload)\<close>.\<close>

definition payload_to_value :: "bool \<Rightarrow> SignablePayload \<Rightarrow> (completeness_error, json) result" where
  "payload_to_value po p = serialize_payload (jobj po) po p"

definition payload_to_string :: "bool \<Rightarrow> SignablePayload \<Rightarrow> (completeness_error, string) result" where
  "payload_to_string po p = and_then (serialize_payload JObject po p) (\<lambda>v. Inr (json_print v))"

definition to_json :: "bool \<Rightarrow> SignablePayload \<Rightarrow> (completeness_error, string) result" where
  "to_json po p =
     and_then (payload_to_value po p) (\<lambda>v. Inr (json_print (sort_json_alphabetically po v)))"

datatype ordering_error = NotSerializable completeness_error | NotOrdered order_error

definition verify_value :: "(completeness_error, json) result \<Rightarrow> (ordering_error, unit) result" where
  "verify_value r =
     and_then (map_err NotSerializable r) (\<lambda>v. map_err NotOrdered (verify_json_deterministic v []))"

definition verify_field_deterministic_ordering ::
  "bool \<Rightarrow> SignablePayloadField \<Rightarrow> (ordering_error, unit) result" where
  "verify_field_deterministic_ordering po f =
     and_then
       (case f of
          PreviewLayout _ p \<Rightarrow>
            and_then (verify_value (Inr (preview_layout_value po p))) (\<lambda>_.
              and_then
                (case preview_condensed p of None \<Rightarrow> Inr ()
                 | Some l \<Rightarrow> verify_value (Inr (list_layout_value po l)))
                (\<lambda>_. case preview_expanded p of None \<Rightarrow> Inr ()
                      | Some l \<Rightarrow> verify_value (Inr (list_layout_value po l))))
        | ListLayout _ l \<Rightarrow> verify_value (Inr (list_layout_value po l))
        | _ \<Rightarrow> Inr ())
       (\<lambda>_. verify_value (serialize_field (jobj po) po f))"

text \<open>\<^verbatim>\<open>char::escape_default\<close> on ASCII and the hexadecimal formats of the message.\<close>

fun hex_str :: "nat \<Rightarrow> string" where
  "hex_str n = (if n < 16 then [digit_char n] else hex_str (n div 16) @ [digit_char (n mod 16)])"

declare hex_str.simps [simp del]

definition upper_hex_char :: "char \<Rightarrow> char" where
  "upper_hex_char c = (if 97 \<le> code c \<and> code c \<le> 102 then char_of (code c - 32) else c)"

definition hex02_upper :: "nat \<Rightarrow> string" where
  "hex02_upper n = (let h = map upper_hex_char (hex_str n) in replicate (2 - length h) (CHR ''0'') @ h)"

definition escape_default :: "char \<Rightarrow> string" where
  "escape_default c =
     (if code c = 9 then [CHR 0x5C, CHR ''t'']
      else if code c = 13 then [CHR 0x5C, CHR ''r'']
      else if code c = 10 then [CHR 0x5C, CHR ''n'']
      else if code c = 39 \<or> code c = 34 \<or> code c = 92 then [CHR 0x5C, c]
      else if 32 \<le> code c \<and> code c \<le> 126 then [c]
      else [CHR 0x5C, CHR ''u'', CHR ''{''] @ hex_str (code c) @ ''}'')"

fun check_printable :: "nat \<Rightarrow> string \<Rightarrow> (VisualSignError, unit) result" where
  "check_printable i [] = Inr ()"
| "check_printable i (c # s) =
     (if \<not> is_ascii_graphic c \<and> \<not> is_ascii_whitespace c
      then Inl (ValidationError
             (''JSON output contains non-printable character '' @ [CHR 0x27] @ escape_default c
              @ [CHR 0x27] @ '' (U+'' @ hex02_upper (code c) @ '') at position '' @ nat_str i))
      else check_printable (Suc i) s)"

text \<open>
  \<^verbatim>\<open>validate_charset\<close>. The serialization error message of the source embeds the error's text,
  which \<open>describe\<close> stands for.
\<close>

definition restricted_characters :: VisualSignError where
  "restricted_characters = ValidationError ''Restricted Characters Detected''"

definition validate_charset ::
  "bool \<Rightarrow> (completeness_error \<Rightarrow> string) \<Rightarrow> SignablePayload \<Rightarrow> (VisualSignError, unit) result" where
  "validate_charset po describe p =
     and_then
       (map_err (\<lambda>e. SerializationError (''Failed to serialize for validation: '' @ describe e)) (to_json po p))
       (\<lambda>json_str.
          if list_ex (\<lambda>escape. contains escape json_str) FORBIDDEN_JSON_ESCAPES
          then Inl restricted_characters
          else if \<not> is_ascii json_str then Inl restricted_characters
          else check_printable 0 json_str)"

definition to_validated_json ::
  "bool \<Rightarrow> (completeness_error \<Rightarrow> string) \<Rightarrow> SignablePayload \<Rightarrow> (VisualSignError, string) result" where
  "to_validated_json po describe p =
     and_then (validate_charset po describe p) (\<lambda>_.
       map_err (\<lambda>e. SerializationError (''Serialization failed: '' @ describe e)) (to_json po p))"

end
