(* ===== verification/PayloadFacts.thy ===== *)
theory PayloadFacts
  imports Payload
begin

text \<open>
  What the serializers of the payload guarantee: the completeness checks never fire, the
  wire map of a field has exactly its four keys, the canonical JSON does not depend on the
  map implementation, and the charset check accepts exactly the payloads whose strings are
  all safe.
\<close>

section \<open>The wire map of a field\<close>

fun wire_name :: "SignablePayloadField \<Rightarrow> string" where
  "wire_name (Number c x) = ''amount_v2''"
| "wire_name f = field_type f"

fun variant_value :: "bool \<Rightarrow> SignablePayloadField \<Rightarrow> json" where
  "variant_value po (Text c x) = text_value po x"
| "variant_value po (TextV2 c x) = text_v2_value po x"
| "variant_value po (Address c x) = address_value po x"
| "variant_value po (AddressV2 c x) = address_v2_value po x"
| "variant_value po (Number c x) = amount_v2_value po (number_as_amount_v2 c x)"
| "variant_value po (Amount c x) = amount_value po x"
| "variant_value po (AmountV2 c x) = amount_v2_value po x"
| "variant_value po (Divider c x) = divider_value po x"
| "variant_value po (PreviewLayout c p) = preview_layout_value po p"
| "variant_value po (ListLayout c l) = list_layout_value po l"
| "variant_value po (Unknown c x) = unknown_value po x"
| "variant_value po (Diagnostic c x) = diagnostic_value po x"

definition wire_entries :: "bool \<Rightarrow> SignablePayloadField \<Rightarrow> (string \<times> json) list" where
  "wire_entries po f =
     [(''FallbackText'', JString (field_fallback_text f)), (''Label'', JString (field_label f)),
      (''Type'', JString (wire_name f)), (variant_key f, variant_value po f)]"

lemma variant_key_fresh:
  "variant_key f \<noteq> ''FallbackText'' \<and> variant_key f \<noteq> ''Label'' \<and> variant_key f \<noteq> ''Type''
   \<and> variant_key f \<noteq> ''StaticAnnotation'' \<and> variant_key f \<noteq> ''DynamicAnnotation''"
  by (cases f) simp_all

lemma distinct_wire_entries: "distinct (map fst (wire_entries po f))"
  using variant_key_fresh [of f] by (auto simp: wire_entries_def)

lemma serialize_to_map_eq: "serialize_to_map po f = bt_collect (wire_entries po f)"
proof -
  have "serialize_field_variant (wire_name f) (field_common f) (variant_key f) (variant_value po f)
      = wire_entries po f"
    using ix_collect_distinct [OF distinct_wire_entries [of po f]]
    by (simp add: serialize_field_variant_def wire_entries_def field_fallback_text_def field_label_def)
  then show ?thesis by (cases f) simp_all
qed

lemma set_serialize_to_map: "set (serialize_to_map po f) = set (wire_entries po f)"
  by (simp add: serialize_to_map_eq set_bt_collect distinct_wire_entries)

lemma map_of_serialize_to_map: "map_of (serialize_to_map po f) = map_of (wire_entries po f)"
  by (simp add: serialize_to_map_eq map_of_bt_collect_distinct distinct_wire_entries)

lemma keys_serialize_to_map:
  "fst ` set (serialize_to_map po f) = {''FallbackText'', ''Label'', ''Type'', variant_key f}"
  by (auto simp: set_serialize_to_map wire_entries_def)

lemma find_None_all: "find P xs = None \<longleftrightarrow> (\<forall>x\<in>set xs. \<not> P x)"
  by (auto simp: find_None_iff)

lemma serialize_field_ok: "serialize_field mk po f = Inr (mk (serialize_to_map po f))"
proof -
  have "set (get_expected_fields f) = set (map fst (serialize_to_map po f))"
    unfolding get_expected_fields_def set_sort set_map keys_serialize_to_map by simp
  then have "find (\<lambda>k. k \<notin> set (map fst (serialize_to_map po f))) (get_expected_fields f) = None"
    and "find (\<lambda>k. k \<notin> set (get_expected_fields f)) (map fst (serialize_to_map po f)) = None"
    by (simp_all only: find_None_all) auto
  then show ?thesis by (simp add: serialize_field_def)
qed

lemma traverse_ok: "traverse (\<lambda>x. Inr (g x)) xs = Inr (map g xs)"
  by (induction xs) auto

definition payload_entries ::
  "((string \<times> json) list \<Rightarrow> json) \<Rightarrow> bool \<Rightarrow> SignablePayload \<Rightarrow> (string \<times> json) list" where
  "payload_entries mk po p =
     [(''Fields'', JArray (map (\<lambda>f. mk (serialize_to_map po f)) (payload_fields p)))]
       @ nonempty_entry ''PayloadType'' (payload_payload_type p)
       @ opt_entry ''Subtitle'' JString (payload_subtitle p)
       @ [(''Title'', JString (payload_title p)), (''Version'', JString (payload_version p))]"

lemma serialize_payload_ok: "serialize_payload mk po p = Inr (mk (payload_entries mk po p))"
proof -
  have "serialize_field mk po = (\<lambda>f. Inr (mk (serialize_to_map po f)))"
    by (rule ext) (rule serialize_field_ok)
  then show ?thesis by (simp add: serialize_payload_def payload_entries_def traverse_ok)
qed

lemma distinct_payload_entries: "distinct (map fst (payload_entries mk po p))"
  by (auto simp: payload_entries_def nonempty_entry_def opt_entry_def split: option.splits)

lemmas entry_defs = opt_entry_def nonempty_entry_def

lemmas leaf_defs = text_value_def text_v2_value_def address_value_def address_v2_value_def
  amount_value_def amount_v2_value_def divider_value_def unknown_value_def diagnostic_value_def
  static_annotation_value_def dynamic_annotation_value_def

section \<open>The canonical form does not depend on the map implementation\<close>

lemma canon_leaf:
  "canon (text_value po t) = canon (text_value False t)"
  "canon (text_v2_value po t2) = canon (text_v2_value False t2)"
  "canon (address_value po a) = canon (address_value False a)"
  "canon (address_v2_value po a2) = canon (address_v2_value False a2)"
  "canon (amount_value po m) = canon (amount_value False m)"
  "canon (amount_v2_value po m2) = canon (amount_v2_value False m2)"
  "canon (divider_value po d) = canon (divider_value False d)"
  "canon (unknown_value po u) = canon (unknown_value False u)"
  "canon (diagnostic_value po g) = canon (diagnostic_value False g)"
  "canon (static_annotation_value po sa) = canon (static_annotation_value False sa)"
  "canon (dynamic_annotation_value po da) = canon (dynamic_annotation_value False da)"
  by (simp_all add: leaf_defs canon_jobj_eq entry_defs del: canon_simps split: option.splits)

definition annotation_entries ::
  "bool \<Rightarrow> SignablePayloadFieldStaticAnnotation option
    \<Rightarrow> SignablePayloadFieldDynamicAnnotation option \<Rightarrow> (string \<times> json) list" where
  "annotation_entries po sa da =
     opt_entry ''StaticAnnotation'' (static_annotation_value po) sa
       @ opt_entry ''DynamicAnnotation'' (dynamic_annotation_value po) da"

lemma distinct_annotated_entries:
  "distinct (map fst (serialize_to_map po f @ annotation_entries po sa da))"
  "distinct (map fst (wire_entries po f @ annotation_entries po sa da))"
proof -
  have "distinct (map fst (serialize_to_map po f))"
    by (simp add: serialize_to_map_eq)
  then show "distinct (map fst (serialize_to_map po f @ annotation_entries po sa da))"
    using keys_serialize_to_map [of po f] variant_key_fresh [of f]
    by (auto simp: annotation_entries_def opt_entry_def split: option.splits)
  show "distinct (map fst (wire_entries po f @ annotation_entries po sa da))"
    using variant_key_fresh [of f]
    by (auto simp: annotation_entries_def wire_entries_def opt_entry_def split: option.splits)
qed

lemma annotated_value_eq:
  "annotated_value po (Annotated f sa da)
     = jobj po (bt_collect (wire_entries po f @ annotation_entries po sa da))"
proof -
  have "bt_collect (serialize_to_map po f @ annotation_entries po sa da)
      = bt_collect (wire_entries po f @ annotation_entries po sa da)"
    by (rule bt_collect_cong_set)
      (simp_all only: distinct_annotated_entries set_append set_serialize_to_map)
  then show ?thesis by (simp add: annotation_entries_def)
qed

lemma canon_nested:
  "canon (variant_value po f) = canon (variant_value False f)"
  "canon (preview_layout_value po p) = canon (preview_layout_value False p)"
  "canon (list_layout_value po l) = canon (list_layout_value False l)"
  "canon (annotated_value po a) = canon (annotated_value False a)"
proof (induction po f and po p and po l and po a
    rule: serialize_to_map_preview_layout_value_list_layout_value_annotated_value.induct)
  case (13 po title subtitle condensed expanded)
  then show ?case
    by (simp add: canon_jobj canon_bt_collect entry_defs canon_leaf [of po] del: canon_simps
        split: option.splits)
      (auto intro!: canon_JObject_cong simp: canon_leaf [of po] canon_jobj_eq)
next
  case (14 po fs)
  then have "map (\<lambda>a. canon (annotated_value po a)) fs = map (\<lambda>a. canon (annotated_value False a)) fs"
    by simp
  then show ?case by (simp add: canon_jobj_eq comp_def del: map_eq_conv)
next
  case (15 po f sa da)
  have "canon (annotated_value q (Annotated f sa da))
      = canon (JObject (wire_entries q f @ annotation_entries q sa da))" for q
    by (simp only: annotated_value_eq canon_jobj canon_bt_collect distinct_bt_collect
        distinct_annotated_entries)
  moreover have "canon (JObject (wire_entries po f @ annotation_entries po sa da))
      = canon (JObject (wire_entries False f @ annotation_entries False sa da))"
    by (rule canon_JObject_cong)
      (use 15 in \<open>auto simp: wire_entries_def annotation_entries_def opt_entry_def canon_leaf [of po]
        simp del: canon_simps split: option.splits\<close>)
  ultimately show ?case by simp
qed (unfold variant_value.simps, (rule canon_leaf | assumption)+)

lemma canon_wire:
  "canon (JObject (serialize_to_map po f)) = canon (JObject (serialize_to_map False f))"
  by (simp only: serialize_to_map_eq canon_bt_collect distinct_wire_entries)
    (rule canon_JObject_cong, simp_all add: wire_entries_def canon_nested(1) [of po] del: canon_simps)

text \<open>Both serializers and both map implementations give one canonical value.\<close>

lemma canon_payload:
  assumes "mk = JObject \<or> mk = jobj po"
  shows "canon (mk (payload_entries mk po p))
    = canon (JObject (payload_entries JObject False p))"
proof -
  have field: "canon (mk (serialize_to_map po f)) = canon (JObject (serialize_to_map False f))" for f
    using assms canon_wire [of po f]
    by (auto simp: canon_jobj serialize_to_map_eq simp del: canon_simps)
  have "canon (mk (payload_entries mk po p)) = canon (JObject (payload_entries mk po p))"
    using assms by (auto simp: canon_jobj distinct_payload_entries simp del: canon_simps)
  also have "\<dots> = canon (JObject (payload_entries JObject False p))"
    by (rule canon_JObject_cong)
      (simp_all add: payload_entries_def field del: canon_simps(1))
  finally show ?thesis .
qed

section \<open>The strings a payload shows\<close>

text \<open>Every string of the payload itself, read off the structs and not off the JSON.\<close>

fun field_strings :: "SignablePayloadField \<Rightarrow> string list"
  and preview_strings :: "SignablePayloadFieldPreviewLayout \<Rightarrow> string list"
  and list_strings :: "SignablePayloadFieldListLayout \<Rightarrow> string list"
  and annotated_strings :: "AnnotatedPayloadField \<Rightarrow> string list"
where
  "field_strings (Text c x) = [fallback_text c, label c, text_text x]"
| "field_strings (TextV2 c x) = [fallback_text c, label c, text_v2_text x]"
| "field_strings (Address c x) = [fallback_text c, label c, address_address x, address_name x]"
| "field_strings (AddressV2 c x) =
     [fallback_text c, label c, address_v2_address x, address_v2_name x,
      unwrap_or [] (address_v2_memo x), address_v2_asset_label x, unwrap_or [] (address_v2_badge_text x)]"
| "field_strings (Number c x) = [fallback_text c, label c, number_number x]"
| "field_strings (Amount c x) =
     [fallback_text c, label c, amount_amount x, unwrap_or [] (amount_abbreviation x)]"
| "field_strings (AmountV2 c x) =
     [fallback_text c, label c, amount_v2_amount x, unwrap_or [] (amount_v2_abbreviation x)]"
| "field_strings (Divider c x) =
     [fallback_text c, label c, case divider_style x of DividerStyle s \<Rightarrow> s]"
| "field_strings (PreviewLayout c p) = [fallback_text c, label c] @ preview_strings p"
| "field_strings (ListLayout c l) = [fallback_text c, label c] @ list_strings l"
| "field_strings (Unknown c x) = [fallback_text c, label c, unknown_data x, unknown_explanation x]"
| "field_strings (Diagnostic c x) =
     [fallback_text c, label c, diagnostic_rule x, diagnostic_domain x, diagnostic_level x, diagnostic_message x]"
| "preview_strings (PreviewLayoutData title subtitle condensed expanded) =
     (case title of None \<Rightarrow> [] | Some t \<Rightarrow> [text_v2_text t])
     @ (case subtitle of None \<Rightarrow> [] | Some t \<Rightarrow> [text_v2_text t])
     @ (case condensed of None \<Rightarrow> [] | Some l \<Rightarrow> list_strings l)
     @ (case expanded of None \<Rightarrow> [] | Some l \<Rightarrow> list_strings l)"
| "list_strings (ListLayoutData fs) = concat (map annotated_strings fs)"
| "annotated_strings (Annotated f sa da) =
     field_strings f
     @ (case sa of None \<Rightarrow> [] | Some s \<Rightarrow> [static_text s])
     @ (case da of None \<Rightarrow> [] | Some d \<Rightarrow> [dynamic_field_type d, dynamic_id d] @ dynamic_params d)"

definition payload_strings :: "SignablePayload \<Rightarrow> string list" where
  "payload_strings p =
     concat (map field_strings (payload_fields p))
     @ [payload_payload_type p, unwrap_or [] (payload_subtitle p), payload_title p, payload_version p]"

definition safe_json :: "json \<Rightarrow> bool" where
  "safe_json j = list_all safe_text (json_strings j)"

lemma safe_json_simps [simp]:
  "safe_json (JString s) = safe_text s"
  "safe_json (JNumber n)"
  "safe_json (JArray xs) = list_all safe_json xs"
  "safe_json (JObject m) = list_all (\<lambda>(k, v). safe_text k \<and> safe_json v) m"
  by (auto simp: safe_json_def [abs_def] list_all_iff)

lemma list_all_set_cong: "set xs = set ys \<Longrightarrow> list_all P xs = list_all P ys"
  by (simp add: list_all_iff)

lemma safe_json_jobj:
  "distinct (map fst es) \<Longrightarrow>
     safe_json (jobj po es) = list_all (\<lambda>(k, v). safe_text k \<and> safe_json v) es"
  unfolding jobj_def safe_json_simps by (rule list_all_set_cong) (rule set_jmap_collect)

lemma list_all_bt_collect:
  "distinct (map fst es) \<Longrightarrow> list_all P (bt_collect es) = list_all P es"
  by (rule list_all_set_cong) (rule set_bt_collect)

lemma safe_text_Nil [simp]: "safe_text []"
  by (simp add: safe_text_def)

lemma safe_keys [simp]:
  "safe_text ''FallbackText''" "safe_text ''Label''" "safe_text ''Type''" "safe_text ''Text''"
  "safe_text ''Address''" "safe_text ''Name''" "safe_text ''Memo''" "safe_text ''AssetLabel''"
  "safe_text ''BadgeText''" "safe_text ''Amount''" "safe_text ''Abbreviation''" "safe_text ''Style''"
  "safe_text ''Data''" "safe_text ''Explanation''" "safe_text ''Domain''"
  "safe_text ''InstructionIndex''" "safe_text ''Level''" "safe_text ''Message''" "safe_text ''Rule''"
  "safe_text ''ID''" "safe_text ''Params''" "safe_text ''Fields''" "safe_text ''Condensed''"
  "safe_text ''Expanded''" "safe_text ''Subtitle''" "safe_text ''Title''"
  "safe_text ''StaticAnnotation''" "safe_text ''DynamicAnnotation''" "safe_text ''PayloadType''"
  "safe_text ''Version''"
  by (simp_all add: safe_text_def safe_char_def code_def)

lemma safe_variant_key [simp]: "safe_text (variant_key f)"
  by (cases f) (simp_all add: safe_text_def safe_char_def code_def)

lemma safe_wire_name [simp]: "safe_text (wire_name f)"
  by (cases f) (simp_all add: safe_text_def safe_char_def code_def)

lemma no_escape_lookalike_suffix: "no_escape_lookalike (s @ t) \<Longrightarrow> no_escape_lookalike t"
  by (induction s) (auto simp: no_escape_lookalike_Cons)

lemma safe_text_suffix: "safe_text (s @ t) \<Longrightarrow> safe_text t"
  by (auto simp: safe_text_def intro: no_escape_lookalike_suffix)

lemma safe_text_trim_start: "safe_text s \<Longrightarrow> safe_text (trim_start s)"
  using trim_start_suffix [of s] by (metis safe_text_suffix)

lemma safe_number_abbreviation:
  "safe_text (fallback_text c) \<Longrightarrow>
     safe_text (unwrap_or [] (map_option trim_start (strip_prefix n (fallback_text c))))"
  by (cases "strip_prefix n (fallback_text c)")
    (auto simp: strip_prefix_Some_iff intro: safe_text_trim_start safe_text_suffix)

lemma safe_leaf:
  "safe_json (text_value po t) \<longleftrightarrow> safe_text (text_text t)"
  "safe_json (text_v2_value po t2) \<longleftrightarrow> safe_text (text_v2_text t2)"
  "safe_json (address_value po a) \<longleftrightarrow> safe_text (address_address a) \<and> safe_text (address_name a)"
  "safe_json (address_v2_value po a2) \<longleftrightarrow>
     safe_text (address_v2_address a2) \<and> safe_text (address_v2_name a2)
     \<and> safe_text (unwrap_or [] (address_v2_memo a2)) \<and> safe_text (address_v2_asset_label a2)
     \<and> safe_text (unwrap_or [] (address_v2_badge_text a2))"
  "safe_json (amount_value po m) \<longleftrightarrow>
     safe_text (amount_amount m) \<and> safe_text (unwrap_or [] (amount_abbreviation m))"
  "safe_json (amount_v2_value po m2) \<longleftrightarrow>
     safe_text (amount_v2_amount m2) \<and> safe_text (unwrap_or [] (amount_v2_abbreviation m2))"
  "safe_json (divider_value po d) \<longleftrightarrow> safe_text (case divider_style d of DividerStyle s \<Rightarrow> s)"
  "safe_json (unknown_value po u) \<longleftrightarrow> safe_text (unknown_data u) \<and> safe_text (unknown_explanation u)"
  "safe_json (diagnostic_value po g) \<longleftrightarrow>
     safe_text (diagnostic_rule g) \<and> safe_text (diagnostic_domain g)
     \<and> safe_text (diagnostic_level g) \<and> safe_text (diagnostic_message g)"
  "safe_json (static_annotation_value po sa) \<longleftrightarrow> safe_text (static_text sa)"
  "safe_json (dynamic_annotation_value po da) \<longleftrightarrow>
     safe_text (dynamic_field_type da) \<and> safe_text (dynamic_id da) \<and> list_all safe_text (dynamic_params da)"
  by (simp_all add: leaf_defs safe_json_jobj list_all_bt_collect entry_defs unwrap_or_def
      list.pred_map comp_def split: option.split DividerStyle.split) auto

lemma safe_wire:
  "safe_json (JObject (wire_entries po f)) \<longleftrightarrow>
     safe_text (field_fallback_text f) \<and> safe_text (field_label f) \<and> safe_json (variant_value po f)"
  by (simp add: wire_entries_def)

lemma safe_serialize_to_map:
  "safe_json (JObject (serialize_to_map po f)) \<longleftrightarrow> safe_json (JObject (wire_entries po f))"
  by (simp add: serialize_to_map_eq list_all_bt_collect distinct_wire_entries)

lemma safe_annotated:
  "safe_json (annotated_value po (Annotated f sa da)) \<longleftrightarrow>
     safe_json (JObject (wire_entries po f)) \<and> safe_json (JObject (annotation_entries po sa da))"
  by (simp only: annotated_value_eq safe_json_jobj list_all_bt_collect distinct_bt_collect
      distinct_annotated_entries safe_json_simps list_all_append)

lemma safe_annotations:
  "safe_json (JObject (annotation_entries po sa da)) \<longleftrightarrow>
     list_all safe_text ((case sa of None \<Rightarrow> [] | Some s \<Rightarrow> [static_text s])
       @ (case da of None \<Rightarrow> [] | Some d \<Rightarrow> [dynamic_field_type d, dynamic_id d] @ dynamic_params d))"
  by (simp add: annotation_entries_def entry_defs safe_leaf split: option.split)

lemma safe_nested:
  "safe_json (JObject (wire_entries po f)) \<longleftrightarrow> list_all safe_text (field_strings f)"
  "safe_json (preview_layout_value po p) \<longleftrightarrow> list_all safe_text (preview_strings p)"
  "safe_json (list_layout_value po l) \<longleftrightarrow> list_all safe_text (list_strings l)"
  "safe_json (annotated_value po a) \<longleftrightarrow> list_all safe_text (annotated_strings a)"
proof (induction po f and po p and po l and po a
    rule: serialize_to_map_preview_layout_value_list_layout_value_annotated_value.induct)
  case (5 po c x)
  then show ?case
    using safe_number_abbreviation [of c "number_number x"]
    by (auto simp: safe_wire safe_leaf field_fallback_text_def field_label_def number_as_amount_v2_def
        simp del: safe_json_simps)
next
  case (13 po title subtitle condensed expanded)
  then show ?case
    by (auto simp: safe_json_jobj list_all_bt_collect entry_defs safe_leaf split: option.split)
next
  case (14 po fs)
  then show ?case by (auto simp: safe_json_jobj list_all_iff)
next
  case (15 po f sa da)
  then show ?case
    by (simp only: safe_annotated safe_annotations annotated_strings.simps list_all_append)
qed (auto simp: safe_wire safe_leaf field_fallback_text_def field_label_def unwrap_or_def
    simp del: safe_json_simps split: option.split DividerStyle.split)

lemma safe_fields:
  "safe_json (JArray (map (\<lambda>f. JObject (serialize_to_map po f)) fs))
     \<longleftrightarrow> list_all safe_text (concat (map field_strings fs))"
proof -
  have "safe_json (JObject (serialize_to_map po f)) \<longleftrightarrow> list_all safe_text (field_strings f)" for f
    by (simp only: safe_serialize_to_map safe_nested)
  then show ?thesis by (auto simp: list_all_iff simp del: safe_json_simps(4))
qed

lemma safe_payload_entries:
  "safe_json (JObject (payload_entries JObject po p)) \<longleftrightarrow> list_all safe_text (payload_strings p)"
  by (simp add: payload_entries_def payload_strings_def entry_defs safe_fields
      del: safe_json_simps(3) split: option.split)

section \<open>Well-formedness of the values\<close>

lemma wf_strings [simp]: "list_all json_wf (map JString ss)"
  by (simp add: list_all_iff)

lemma wf_leaf:
  "json_wf (text_value po t)" "json_wf (text_v2_value po t2)" "json_wf (address_value po a)"
  "json_wf (address_v2_value po a2)" "json_wf (amount_value po m)" "json_wf (amount_v2_value po m2)"
  "json_wf (divider_value po d)" "json_wf (unknown_value po u)" "json_wf (diagnostic_value po g)"
  "json_wf (static_annotation_value po sa)" "json_wf (dynamic_annotation_value po da)"
  by (simp_all add: leaf_defs json_wf_jobj list_all_bt_collect entry_defs
      split: option.split DividerStyle.split)

lemma wf_nested:
  "json_wf (variant_value po f)"
  "json_wf (preview_layout_value po p)"
  "json_wf (list_layout_value po l)"
  "json_wf (annotated_value po a)"
proof (induction po f and po p and po l and po a
    rule: serialize_to_map_preview_layout_value_list_layout_value_annotated_value.induct)
  case (13 po title subtitle condensed expanded)
  then show ?case
    by (simp add: json_wf_jobj list_all_bt_collect entry_defs wf_leaf split: option.split)
next
  case (14 po fs)
  then show ?case by (simp add: json_wf_jobj list_all_iff)
next
  case (15 po f sa da)
  have "list_all (\<lambda>(k, v). json_wf v) (wire_entries po f @ annotation_entries po sa da)"
    using 15 by (simp add: wire_entries_def annotation_entries_def entry_defs wf_leaf split: option.split)
  then show ?case
    by (simp only: annotated_value_eq json_wf_jobj list_all_bt_collect distinct_annotated_entries)
qed (simp_all add: wf_leaf)

lemma wf_serialize_to_map: "json_wf (JObject (serialize_to_map po f))"
  by (simp add: serialize_to_map_eq list_all_bt_collect distinct_wire_entries)
    (simp add: wire_entries_def wf_nested)

lemma wf_payload_entries: "json_wf (JObject (payload_entries JObject po p))"
proof -
  have "json_wf (JArray (map (\<lambda>f. JObject (serialize_to_map po f)) fs))" for fs
    using wf_serialize_to_map by (simp add: list_all_iff del: json_wf.simps(1))
  then show ?thesis
    using distinct_payload_entries [of JObject po p]
    by (simp add: payload_entries_def entry_defs del: json_wf.simps(2) split: option.split)
qed

lemma safe_json_canon: "json_wf j \<Longrightarrow> safe_json (canon j) = safe_json j"
  unfolding safe_json_def by (rule list_all_set_cong) (rule json_strings_canon)

section \<open>The texts\<close>

definition payload_canon :: "SignablePayload \<Rightarrow> json" where
  "payload_canon p = canon (JObject (payload_entries JObject False p))"

lemma to_json_canon: "to_json po p = Inr (json_print (payload_canon p))"
  by (simp add: to_json_def payload_to_value_def serialize_payload_ok payload_canon_def
      sort_json_alphabetically_canon canon_payload [of "jobj po"] del: canon_simps)

lemma payload_to_string_eq:
  "payload_to_string po p = Inr (json_print (JObject (payload_entries JObject po p)))"
  by (simp add: payload_to_string_def serialize_payload_ok)

lemma safe_payload_canon: "safe_json (payload_canon p) \<longleftrightarrow> list_all safe_text (payload_strings p)"
  by (simp add: payload_canon_def safe_json_canon wf_payload_entries safe_payload_entries del: canon_simps
      json_wf.simps safe_json_simps)

lemma check_printable_ok: "check_printable i s = Inr () \<longleftrightarrow> list_all printable s"
  by (induction i s rule: check_printable.induct) (auto simp: printable_def)

lemma validate_charset_text_ok:
  "validate_charset po describe p = Inr () \<longleftrightarrow> text_ok (json_print (payload_canon p))"
  by (auto simp: validate_charset_def to_json_canon restricted_characters_def check_printable_ok
      text_ok_def list_all_iff list_ex_iff)

lemma validate_charset_safe:
  "validate_charset po describe p = Inr () \<longleftrightarrow> list_all safe_text (payload_strings p)"
  by (simp add: validate_charset_text_ok text_ok_json_print safe_payload_canon [unfolded safe_json_def])

end
