(* ===== verification/JsonText.thy ===== *)
theory JsonText
  imports Charset
begin

text \<open>
  The printed text determines the value: two JSON values with the same compact text are
  equal, even when further text follows. This is what makes a signature over the text a
  statement about the value.
\<close>

section \<open>Numbers\<close>

lemma hd_nat_str: "48 \<le> code (hd (nat_str n)) \<and> code (hd (nat_str n)) \<le> 57"
  using nat_str_digits [of "hd (nat_str n)" n] nat_str_ne [of n] by simp

lemma int_str_inject [simp]: "int_str a = int_str b \<longleftrightarrow> a = b"
proof
  assume h: "int_str a = int_str b"
  have "nat_str n \<noteq> CHR ''-'' # s" for s n
  proof
    assume "nat_str n = CHR ''-'' # s"
    then have "code (hd (nat_str n)) = 45" by simp
    then show False using hd_nat_str [of n] by simp
  qed
  note this this [symmetric]
  with h show "a = b" by (auto simp: int_str_def split: if_splits)
qed simp

definition number_char :: "char \<Rightarrow> bool" where
  "number_char c = (code c = 45 \<or> (48 \<le> code c \<and> code c \<le> 57))"

lemma number_char_int_str: "c \<in> set (int_str i) \<Longrightarrow> number_char c"
  using nat_str_digits [of c] by (auto simp: int_str_def number_char_def split: if_splits)

section \<open>Strings\<close>

lemma esc_char_prefix:
  assumes "esc_char c @ x = esc_char d @ y"
  shows "c = d \<and> x = y"
proof -
  have "hex_byte (code c) = hex_byte (code d) \<Longrightarrow> c = d"
    by (simp add: hex_byte_inject code_less_256)
  moreover have "length (hex_byte n) = 2" for n by (simp add: hex_byte_def)
  ultimately show ?thesis
    using assms unfolding esc_char_def code_inject [symmetric, of c d]
    by (auto split: if_splits simp: append_eq_append_conv code_inject [symmetric] simp del: code_inject code_backslash)
qed

lemma esc_char_no_quote: "esc_char c @ x \<noteq> CHR 0x22 # y"
proof
  assume h: "esc_char c @ x = CHR 0x22 # y"
  have "code (hd (esc_char c @ x)) \<noteq> 34"
    using esc_char_cases [of c] by (elim disjE) auto
  with h show False by simp
qed

lemma escaped_unique:
  "concat (map esc_char s) @ CHR 0x22 # x = concat (map esc_char t) @ CHR 0x22 # y
     \<Longrightarrow> s = t \<and> x = y"
proof (induction s arbitrary: t)
  case Nil
  then show ?case
    using esc_char_no_quote by (cases t) (auto, metis+)
next
  case (Cons c s)
  show ?case
  proof (cases t)
    case Nil
    with Cons.prems esc_char_no_quote [of c] show ?thesis by auto
  next
    case (Cons d t')
    with Cons.prems have "c = d \<and> concat (map esc_char s) @ CHR 0x22 # x = concat (map esc_char t') @ CHR 0x22 # y"
      by (intro esc_char_prefix) simp
    with Cons.IH Cons show ?thesis by blast
  qed
qed

lemma esc_string_unique: "esc_string s @ x = esc_string t @ y \<Longrightarrow> s = t \<and> x = y"
  unfolding esc_string_def by (rule escaped_unique) simp

section \<open>Values\<close>

text \<open>What can follow a value inside another one, or nothing.\<close>

definition delim :: "string \<Rightarrow> bool" where
  "delim r = (r = [] \<or> hd r \<in> {CHR '','', CHR '']'', CHR ''}''})"

text \<open>An element printer whose texts never start like a closing bracket and can be read back.\<close>

locale unique_print =
  fixes pr :: "'a \<Rightarrow> string" and dom :: "'a set"
  assumes pr_start: "pr x \<noteq> [] \<and> hd (pr x) \<notin> {CHR '']'', CHR ''}''}"
    and pr_unique: "x \<in> dom \<Longrightarrow> pr x @ r = pr y @ q \<Longrightarrow> delim r \<Longrightarrow> delim q \<Longrightarrow> x = y \<and> r = q"
begin

lemma join_Cons: "join sep (x # xs) = x @ (if xs = [] then [] else sep @ join sep xs)"
  by (cases xs) auto

lemma join_start: "xs \<noteq> [] \<Longrightarrow> join sep (map pr xs) @ z \<noteq> [] \<and> hd (join sep (map pr xs) @ z) \<notin> {CHR '']'', CHR ''}''}"
  using pr_start by (cases xs) (auto simp: join_Cons hd_append)

lemma join_unique:
  assumes "b \<in> {CHR '']'', CHR ''}''}" and "set xs \<subseteq> dom"
    and "join '','' (map pr xs) @ b # r = join '','' (map pr ys) @ b # q"
  shows "xs = ys \<and> r = q"
  using assms(2,3)
proof (induction xs arbitrary: ys)
  case Nil
  show ?case
  proof (cases ys)
    case (Cons y ys')
    with join_start [of ys "'',''" "b # q"] Nil assms(1) show ?thesis
      by (metis append_Nil join.simps(1) list.distinct(1) list.sel(1) list.simps(8))
  qed (use Nil in simp)
next
  case (Cons x xs)
  show ?case
  proof (cases ys)
    case Nil
    with join_start [of "x # xs" "'',''" "b # r"] Cons.prems assms(1) show ?thesis
      by (metis append_Nil join.simps(1) list.distinct(1) list.sel(1) list.simps(8))
  next
    case ys: (Cons y ys')
    let ?t = "\<lambda>zs w. (if zs = [] then [] else '','' @ join '','' (map pr zs)) @ b # w"
    have "pr x @ ?t xs r = pr y @ ?t ys' q"
      using Cons.prems ys by (simp add: join_Cons)
    moreover have "delim (?t zs w)" for zs w
      using assms(1) by (auto simp: delim_def)
    ultimately have "x = y" and t: "?t xs r = ?t ys' q"
      using pr_unique [of x] Cons.prems by (metis list.set_intros(1) subset_iff)+
    have "CHR '','' \<noteq> b" using assms(1) by auto
    with t have "join '','' (map pr xs) @ b # r = join '','' (map pr ys') @ b # q \<or> xs = [] \<and> ys' = [] \<and> r = q"
      by (auto split: if_splits)
    with Cons \<open>x = y\<close> ys show ?thesis by auto
  qed
qed

end

lemma json_print_start:
  "json_print j \<noteq> [] \<and> hd (json_print j) \<notin> {CHR '']'', CHR ''}''}"
proof (cases j)
  case (JNumber n)
  have "int_str n \<noteq> []" using closed_int_str [of n] by (simp add: closed_text_def)
  with number_char_int_str [of "hd (int_str n)" n] JNumber show ?thesis
    by (auto simp: number_char_def)
qed (auto simp: esc_string_def)

definition entry_print :: "string \<times> json \<Rightarrow> string" where
  "entry_print e = esc_string (fst e) @ '':'' @ json_print (snd e)"

lemma json_print_JObject: "json_print (JObject m) = ''{'' @ join '','' (map entry_print m) @ ''}''"
proof -
  have "(\<lambda>(k, v). esc_string k @ '':'' @ json_print v) = entry_print"
    by (auto simp: entry_print_def fun_eq_iff)
  then show ?thesis by simp
qed

lemma entry_print_start:
  "entry_print e \<noteq> [] \<and> hd (entry_print e) \<notin> {CHR '']'', CHR ''}''}"
  by (simp add: entry_print_def esc_string_def)

lemma takeWhile_number:
  assumes "delim r"
  shows "takeWhile number_char (int_str n @ r) = int_str n"
proof -
  have "takeWhile number_char r = []"
    using assms by (cases r) (auto simp: delim_def number_char_def)
  then show ?thesis by (subst takeWhile_append2) (auto intro: number_char_int_str)
qed

lemma number_unique:
  assumes "int_str m @ r = int_str n @ q" and "delim r" and "delim q"
  shows "m = n \<and> r = q"
  using assms takeWhile_number [of r m] takeWhile_number [of q n] by auto

text \<open>The first byte of a text tells the kind of value.\<close>

fun kind :: "json \<Rightarrow> nat" where
  "kind JNull = 0" | "kind (JBool b) = (if b then 1 else 2)" | "kind (JNumber n) = 3"
| "kind (JString s) = 4" | "kind (JArray xs) = 5" | "kind (JObject m) = 6"

definition kind_of_char :: "char \<Rightarrow> nat" where
  "kind_of_char c =
     (if c = CHR ''n'' then 0 else if c = CHR ''t'' then 1 else if c = CHR ''f'' then 2
      else if c = CHR 0x22 then 4 else if c = CHR ''['' then 5 else if c = CHR ''{'' then 6 else 3)"

lemma kind_of_text: "kind_of_char (hd (json_print j @ r)) = kind j"
proof (cases j)
  case (JNumber n)
  have ne: "int_str n \<noteq> []" using closed_int_str [of n] by (simp add: closed_text_def)
  then have "number_char (hd (int_str n))" using number_char_int_str [of "hd (int_str n)" n] by simp
  then have "kind_of_char (hd (int_str n)) = 3"
    by (auto simp: number_char_def kind_of_char_def code_def)
  with ne JNumber show ?thesis by simp
qed (auto simp: esc_string_def kind_of_char_def)

lemma kind_eq: "json_print j @ r = json_print k @ q \<Longrightarrow> kind j = kind k"
  by (metis kind_of_text)

lemma json_print_unique:
  "json_print j @ r = json_print k @ q \<Longrightarrow> delim r \<Longrightarrow> delim q \<Longrightarrow> j = k \<and> r = q"
proof (induction j arbitrary: k r q)
  case JNull
  with kind_eq [of JNull r k q] show ?case by (cases k) (auto split: if_splits)
next
  case (JBool b)
  with kind_eq [of "JBool b" r k q] show ?case by (cases k) (auto split: if_splits)
next
  case (JNumber n)
  with kind_eq [of "JNumber n" r k q] obtain m where "k = JNumber m"
    by (cases k) (auto split: if_splits)
  with JNumber number_unique [of n r m q] show ?case by simp
next
  case (JString s)
  with kind_eq [of "JString s" r k q] obtain t where "k = JString t"
    by (cases k) (auto split: if_splits)
  with JString esc_string_unique [of s r t q] show ?case by simp
next
  case (JArray xs)
  with kind_eq [of "JArray xs" r k q] obtain ys where k: "k = JArray ys"
    by (cases k) (auto split: if_splits)
  have "unique_print json_print (set xs)"
    by unfold_locales (use json_print_start JArray.IH in blast)+
  from unique_print.join_unique [OF this, of "CHR '']''" xs r ys q] JArray.prems k
  show ?case by simp
next
  case (JObject m)
  with kind_eq [of "JObject m" r k q] obtain n where k: "k = JObject n"
    by (cases k) (auto split: if_splits)
  have "unique_print entry_print (set m)"
  proof unfold_locales
    fix x y r q
    assume x: "x \<in> set m" and eq: "entry_print x @ r = entry_print y @ q" and d: "delim r" "delim q"
    from eq have "esc_string (fst x) @ '':'' @ json_print (snd x) @ r = esc_string (fst y) @ '':'' @ json_print (snd y) @ q"
      by (simp add: entry_print_def)
    note keys = esc_string_unique [OF this]
    then have tail: "json_print (snd x) @ r = json_print (snd y) @ q" by simp
    have "snd x \<in> Basic_BNFs.snds x" by (cases x) (simp add: snds.simps)
    from JObject.IH [OF x this tail d] keys show "x = y \<and> r = q"
      by (simp add: prod_eqI)
  qed (use entry_print_start in blast)
  from unique_print.join_unique [OF this, of "CHR ''}''" m r n q] JObject.prems k
  show ?case by (simp add: json_print_JObject del: json_print.simps(6))
qed

interpretation json_text: unique_print json_print UNIV
  by unfold_locales (use json_print_start json_print_unique in blast)+

lemma json_print_inject [simp]: "json_print j = json_print k \<longleftrightarrow> j = k"
  using json_text.pr_unique [of j "[]" k "[]"] by (auto simp: delim_def)

end
