(* ===== verification/PayloadProperties.thy ===== *)
theory PayloadProperties
  imports PayloadFacts JsonText "HOL-Library.Multiset"
begin

text \<open>
  The properties of the payload core: what \<^verbatim>\<open>validate_charset\<close>, \<^verbatim>\<open>to_json\<close>, the field
  serializer and \<^verbatim>\<open>verify_deterministic_ordering\<close> promise to a signer who reads and signs the
  text.
\<close>

section \<open>The character set\<close>

text \<open>C2: the charset check accepts a payload exactly when every string it carries (labels,
  fallback texts, values, nested layouts and annotations, title, subtitle, version and payload
  type) is printable ASCII, spaces and newlines, without a backslash that directly precedes one
  of the letters of a forbidden escape.\<close>

theorem charset_exact:
  "validate_charset po describe p = Inr () \<longleftrightarrow> list_all safe_text (payload_strings p)"
  by (rule validate_charset_safe)

text \<open>The text that is signed (the unsorted serialization) always exists, and it is free of
  forbidden escapes, ASCII and printable exactly when the charset check, which inspects the
  sorted text instead, accepts the payload.\<close>

lemma signed_text_printable:
  "\<exists>t. payload_to_string po p = Inr t
     \<and> (text_ok t \<longleftrightarrow> validate_charset po describe p = Inr ())"
proof -
  have "payload_to_string po p = Inr (json_print (JObject (payload_entries JObject po p)))"
    by (rule payload_to_string_eq)
  moreover have "text_ok (json_print (JObject (payload_entries JObject po p)))
      \<longleftrightarrow> validate_charset po describe p = Inr ()"
    by (simp only: text_ok_json_print safe_payload_entries [unfolded safe_json_def] validate_charset_safe)
  ultimately show ?thesis by blast
qed

section \<open>The canonical text\<close>

lemma wf_canon: "json_wf j \<Longrightarrow> json_wf (canon j)"
proof (induction j)
  case (JObject m)
  let ?m = "map (\<lambda>(k, v). (k, canon v)) m"
  have "list_all (\<lambda>(k, v). json_wf v) (bt_collect ?m)"
    using set_bt_collect_subset [of ?m] JObject by (fastforce simp: list_all_iff snds.simps)
  then show ?case by simp
qed (auto simp: list_all_iff)

lemma wf_payload_canon: "json_wf (payload_canon p)"
  unfolding payload_canon_def by (rule wf_canon) (rule wf_payload_entries)

text \<open>C31: \<^verbatim>\<open>to_json\<close> is total, prints a value without duplicate keys that the ordering check
  accepts, is a fixed point of the sorting, and does not depend on whether the build's JSON maps
  preserve insertion order.\<close>

theorem to_json_canonical:
  "\<exists>j. to_json po p = Inr (json_print j) \<and> json_wf j
     \<and> verify_json_deterministic j [] = Inr () \<and> sort_json_alphabetically po j = j
     \<and> to_json po' p = to_json po p"
proof (intro exI conjI)
  show "to_json po p = Inr (json_print (payload_canon p))" by (rule to_json_canon)
  show "json_wf (payload_canon p)" by (rule wf_payload_canon)
  have k: "keys_sorted (payload_canon p)" unfolding payload_canon_def by (rule keys_sorted_canon)
  then show "verify_json_deterministic (payload_canon p) [] = Inr ()" by (simp add: verify_json_iff)
  show "sort_json_alphabetically po (payload_canon p) = payload_canon p"
    unfolding sort_json_alphabetically_canon by (rule canon_fixed [OF wf_payload_canon k])
  show "to_json po' p = to_json po p" by (simp add: to_json_canon)
qed

text \<open>On values without duplicate keys the ordering check accepts exactly the fixed points
  of the alphabetical sorting.\<close>

lemma verify_iff_sorted:
  assumes "json_wf j"
  shows "(verify_json_deterministic j path = Inr ()) = (sort_json_alphabetically po j = j)"
  unfolding verify_json_iff sort_json_alphabetically_canon
  using canon_fixed [OF assms] keys_sorted_canon [of j] by auto

section \<open>The wire form of a field\<close>

text \<open>Serializing a field never trips the completeness checks, emits exactly its four keys in
  alphabetical order, and binds the label, the fallback text and the wire type.\<close>

lemma field_wire_form:
  "\<exists>m. serialize_field mk po f = Inr (mk m) \<and> ssorted m
     \<and> map fst m = get_expected_fields f
     \<and> map_of m ''FallbackText'' = Some (JString (field_fallback_text f))
     \<and> map_of m ''Label'' = Some (JString (field_label f))
     \<and> map_of m ''Type'' = Some (JString (wire_name f))"
proof (intro exI conjI)
  let ?m = "serialize_to_map po f"
  show "serialize_field mk po f = Inr (mk ?m)" by (rule serialize_field_ok)
  show s: "ssorted ?m" unfolding serialize_to_map_eq by (rule ssorted_bt_collect)
  have keys: "set (map fst ?m) = set (get_expected_fields f)"
    unfolding get_expected_fields_def set_sort set_map keys_serialize_to_map by simp
  have "distinct (get_expected_fields f)"
    using variant_key_fresh [of f] unfolding get_expected_fields_def distinct_sort by auto
  moreover have "sorted (get_expected_fields f)"
    unfolding get_expected_fields_def by (rule sorted_sort)
  ultimately show "map fst ?m = get_expected_fields f"
    using s keys unfolding strict_sorted_iff by (blast intro: sorted_distinct_set_unique)
qed (use variant_key_fresh [of f] in \<open>auto simp: map_of_serialize_to_map wire_entries_def\<close>)

text \<open>The iteration order of the hash map that the variant macro fills does not matter: any
  permutation of its entries collects to the same sorted map.\<close>

lemma hash_order_irrelevant:
  assumes "mset es = mset (serialize_field_variant variant_name c field_name v)"
  shows "bt_collect es = bt_collect (serialize_field_variant variant_name c field_name v)"
proof (rule bt_collect_cong_set)
  show d: "distinct (map fst (serialize_field_variant variant_name c field_name v))"
    unfolding serialize_field_variant_def ix_collect_def by (rule ix.inv_fold) simp
  show "set es = set (serialize_field_variant variant_name c field_name v)"
    using assms by (rule mset_eq_setD)
  have "mset (map fst es) = mset (map fst (serialize_field_variant variant_name c field_name v))"
    using assms by simp
  with d show "distinct (map fst es)" by (metis mset_eq_imp_distinct_iff)
qed

section \<open>Ordering of nested values\<close>

lemma keys_sorted_jobj:
  "list_all (\<lambda>(k, v). keys_sorted v) es \<Longrightarrow> keys_sorted (jobj False es)"
  using set_bt_collect_subset [of es] ssorted_bt_collect [of es]
  by (auto simp: jobj_def jmap_collect_eq strict_sorted_iff list_all_iff)

lemma list_all_bt_collect_mono: "list_all P es \<Longrightarrow> list_all P (bt_collect es)"
  using set_bt_collect_subset [of es] by (auto simp: list_all_iff)

lemma keys_sorted_strings [simp]: "list_all keys_sorted (map JString ss)"
  by (simp add: list_all_iff)

lemma sorted_leaf:
  "keys_sorted (text_value False t)" "keys_sorted (text_v2_value False t2)"
  "keys_sorted (address_value False a)" "keys_sorted (address_v2_value False a2)"
  "keys_sorted (amount_value False m)" "keys_sorted (amount_v2_value False m2)"
  "keys_sorted (divider_value False d)" "keys_sorted (unknown_value False u)"
  "keys_sorted (diagnostic_value False g)" "keys_sorted (static_annotation_value False sa)"
  "keys_sorted (dynamic_annotation_value False da)"
  by (simp_all add: leaf_defs keys_sorted_jobj list_all_bt_collect_mono entry_defs
      split: option.split DividerStyle.split)

lemma sorted_nested:
  "keys_sorted (variant_value False f)"
  "keys_sorted (preview_layout_value False p)"
  "keys_sorted (list_layout_value False l)"
  "keys_sorted (annotated_value False a)"
proof (induction False f and False p and False l and False a
    rule: serialize_to_map_preview_layout_value_list_layout_value_annotated_value.induct)
  case (13 title subtitle condensed expanded)
  then show ?case
    by (simp add: keys_sorted_jobj list_all_bt_collect_mono entry_defs sorted_leaf split: option.split)
next
  case (14 fs)
  then show ?case by (simp add: keys_sorted_jobj list_all_iff)
next
  case (15 f sa da)
  then have "list_all (\<lambda>(k, v). keys_sorted v) (wire_entries False f @ annotation_entries False sa da)"
    by (simp add: wire_entries_def annotation_entries_def entry_defs sorted_leaf split: option.split)
  then show ?case
    by (simp only: annotated_value_eq keys_sorted_jobj list_all_bt_collect_mono)
qed (simp_all add: sorted_leaf)

lemma keys_sorted_wire:
  "keys_sorted (jobj po (serialize_to_map po f)) \<longleftrightarrow> keys_sorted (variant_value po f)"
proof -
  have "jobj po (serialize_to_map po f) = JObject (serialize_to_map po f)"
    by (simp add: jobj_def serialize_to_map_eq)
  moreover have "sorted (map fst (serialize_to_map po f))"
    using ssorted_bt_collect [of "wire_entries po f"] by (simp add: serialize_to_map_eq strict_sorted_iff)
  moreover have "list_all (\<lambda>(k, v). keys_sorted v) (serialize_to_map po f) \<longleftrightarrow> keys_sorted (variant_value po f)"
    by (simp only: serialize_to_map_eq list_all_bt_collect distinct_wire_entries) (simp add: wire_entries_def)
  ultimately show ?thesis by simp
qed

lemma verify_value_iff: "verify_value (Inr v) = Inr () \<longleftrightarrow> keys_sorted v"
  by (simp add: verify_value_def verify_json_iff)

text \<open>With sorted JSON maps the ordering check accepts every field, whatever is nested in it.\<close>

lemma ordering_check_sorted_maps:
  "verify_field_deterministic_ordering False f = Inr ()"
  using sorted_nested(1) [of f]
  by (cases f) (auto simp: verify_field_deterministic_ordering_def and_then_Inr_iff serialize_field_ok
      verify_value_iff keys_sorted_wire sorted_nested simp del: serialize_to_map.simps
      preview_layout_value.simps list_layout_value.simps split: option.splits)

text \<open>With insertion-ordered JSON maps the derived serializer of \<^verbatim>\<open>AddressV2\<close> writes its keys in
  declaration order, and the ordering check then rejects the field exactly when a name or memo is
  followed by another optional part: the field type does not keep the order it is declared to have.\<close>

lemma address_ordering_preserved_maps:
  "verify_field_deterministic_ordering True (AddressV2 c x) = Inr () \<longleftrightarrow>
     (address_v2_name x = [] \<or> address_v2_memo x = None)
     \<and> (address_v2_name x = [] \<and> address_v2_memo x = None
        \<or> address_v2_asset_label x = [] \<and> address_v2_badge_text x = None)"
proof -
  have "verify_field_deterministic_ordering True (AddressV2 c x) = Inr () \<longleftrightarrow> keys_sorted (address_v2_value True x)"
    by (simp add: verify_field_deterministic_ordering_def serialize_field_ok verify_value_iff keys_sorted_wire
        del: serialize_to_map.simps)
  also have "keys_sorted (address_v2_value True x) \<longleftrightarrow>
     (address_v2_name x = [] \<or> address_v2_memo x = None)
     \<and> (address_v2_name x = [] \<and> address_v2_memo x = None
        \<or> address_v2_asset_label x = [] \<and> address_v2_badge_text x = None)"
    by (cases "address_v2_memo x"; cases "address_v2_badge_text x")
      (auto simp: address_v2_value_def jobj_def jmap_collect_def jmap_insert_def entry_defs less_eq_char_def less_char_def)
  finally show ?thesis .
qed

text \<open>A preview layout carries both its condensed and its expanded list on the wire, the empty
  list standing in for an absent one.\<close>

lemma preview_lists_present:
  "\<exists>m. preview_layout_value po p = JObject m
     \<and> map_of m ''Condensed'' = Some (list_layout_value po (unwrap_or (ListLayoutData []) (preview_condensed p)))
     \<and> map_of m ''Expanded'' = Some (list_layout_value po (unwrap_or (ListLayoutData []) (preview_expanded p)))"
proof (cases p)
  case (PreviewLayoutData title subtitle condensed expanded)
  then show ?thesis
    by (cases condensed; cases expanded; cases title; cases subtitle)
      (simp_all add: jobj_def map_of_bt_collect_distinct entry_defs)
qed

section \<open>What the text binds\<close>

lemma map_of_canon:
  assumes "distinct (map fst m)" and "distinct (map fst n)" and "canon (JObject m) = canon (JObject n)"
  shows "map_option canon (map_of m k) = map_option canon (map_of n k)"
proof -
  have "map_of (bt_collect (map (\<lambda>(k, v). (k, canon v)) e)) k = map_option canon (map_of e k)"
    if "distinct (map fst e)" for e
  proof -
    have "map_of (bt_collect (map (\<lambda>(k, v). (k, canon v)) e)) = map_of (map (\<lambda>(k, v). (k, canon v)) e)"
      by (rule map_of_bt_collect_distinct) (use that in \<open>simp del: map_map\<close>)
    then show ?thesis by (simp add: map_of_map)
  qed
  with assms show ?thesis by (metis canon_simps(1) json.inject(5))
qed

lemma canon_field_binds:
  assumes "canon (JObject (serialize_to_map False f)) = canon (JObject (serialize_to_map False g))"
  shows "field_label f = field_label g \<and> field_fallback_text f = field_fallback_text g \<and> wire_name f = wire_name g
    \<and> variant_key f = variant_key g \<and> canon (variant_value False f) = canon (variant_value False g)"
proof -
  have d: "distinct (map fst (serialize_to_map False h))" for h by (simp add: serialize_to_map_eq)
  note look = map_of_canon [OF d d assms, unfolded map_of_serialize_to_map]
  have key: "variant_key f = variant_key g"
    using look [of "variant_key f"] variant_key_fresh [of f]
    by (auto simp: wire_entries_def split: if_splits)
  show ?thesis
    using look [of "''Label''"] look [of "''FallbackText''"] look [of "''Type''"] look [of "variant_key f"]
      variant_key_fresh [of f] key
    by (auto simp: wire_entries_def split: if_splits)
qed

text \<open>Two payloads with the same canonical text agree on title, subtitle, version, payload type and
  number of fields, and their fields agree one by one on label, fallback text, wire type and
  canonical value: nothing a signer reads is lost in the text.\<close>

lemma to_json_binds:
  assumes "to_json po p = to_json po q"
  shows "payload_title p = payload_title q \<and> payload_subtitle p = payload_subtitle q
    \<and> payload_version p = payload_version q \<and> payload_payload_type p = payload_payload_type q
    \<and> list_all2 (\<lambda>f g. field_label f = field_label g \<and> field_fallback_text f = field_fallback_text g
        \<and> wire_name f = wire_name g \<and> canon (variant_value False f) = canon (variant_value False g))
      (payload_fields p) (payload_fields q)"
proof -
  have eq: "canon (JObject (payload_entries JObject False p)) = canon (JObject (payload_entries JObject False q))"
    using assms by (simp add: to_json_canon payload_canon_def del: canon_simps)
  note look = map_of_canon [OF distinct_payload_entries distinct_payload_entries eq, unfolded payload_entries_def entry_defs]
  have "map (\<lambda>f. canon (JObject (serialize_to_map False f))) (payload_fields p)
      = map (\<lambda>f. canon (JObject (serialize_to_map False f))) (payload_fields q)"
    using look [of "''Fields''"] by (simp add: comp_def del: canon_simps(1))
  then have "list_all2 (\<lambda>f g. canon (JObject (serialize_to_map False f)) = canon (JObject (serialize_to_map False g)))
      (payload_fields p) (payload_fields q)"
    by (simp add: list_all2_conv_all_nth list_eq_iff_nth_eq del: canon_simps)
  then have "list_all2 (\<lambda>f g. field_label f = field_label g \<and> field_fallback_text f = field_fallback_text g
        \<and> wire_name f = wire_name g \<and> canon (variant_value False f) = canon (variant_value False g))
      (payload_fields p) (payload_fields q)"
    by (rule list_all2_mono) (blast dest: canon_field_binds)
  moreover have "payload_title p = payload_title q" using look [of "''Title''"] by (simp split: option.splits if_splits)
  moreover have "payload_version p = payload_version q" using look [of "''Version''"] by (simp split: option.splits if_splits)
  moreover have "payload_subtitle p = payload_subtitle q"
    using look [of "''Subtitle''"] by (auto split: option.splits if_splits)
  moreover have "payload_payload_type p = payload_payload_type q"
    using look [of "''PayloadType''"] by (auto split: option.splits if_splits)
  ultimately show ?thesis by blast
qed

end
