(* ===== verification/AnchorageRender.thy ===== *)
theory AnchorageRender
  imports PayloadFacts
begin

text \<open>
  \<^verbatim>\<open>visualsign/src/anchorage_render.rs\<close>: the check that a wallet can render every field. The
  out-parameter \<^verbatim>\<open>out\<close> of \<^verbatim>\<open>check_field\<close> is threaded explicitly; the loops over the nested
  lists are \<open>check_children\<close>, which carries the running index and \<^verbatim>\<open>descendants_ok\<close>.
\<close>

definition ANCHORAGE_RENDERABLE_LEAF_TYPES :: "string list" where
  "ANCHORAGE_RENDERABLE_LEAF_TYPES = [''text_v2'', ''address_v2'', ''amount_v2'', ''diagnostic'']"

datatype AnchorageUnsupportedReason =
    UnsupportedFieldType
  | ListLayoutAsStandaloneField
  | ContainsUnsupportedNestedFields

fun reason_as_str :: "AnchorageUnsupportedReason \<Rightarrow> string" where
  "reason_as_str UnsupportedFieldType = ''unsupported field type''"
| "reason_as_str ListLayoutAsStandaloneField = ''list_layout used as a standalone field''"
| "reason_as_str ContainsUnsupportedNestedFields = ''contains unsupported nested fields''"

record AnchorageRenderFinding =
  finding_path :: string
  finding_label :: string
  finding_field_type :: string
  finding_reason :: AnchorageUnsupportedReason

definition wire_type :: "bool \<Rightarrow> SignablePayloadField \<Rightarrow> string" where
  "wire_type po f =
     (case map_of (serialize_to_map po f) ''Type'' of
        Some (JString s) \<Rightarrow> s
      | _ \<Rightarrow> field_type f)"

definition finding ::
  "bool \<Rightarrow> string \<Rightarrow> SignablePayloadField \<Rightarrow> AnchorageUnsupportedReason \<Rightarrow> AnchorageRenderFinding" where
  "finding po path f reason =
     \<lparr>finding_path = path, finding_label = field_label f, finding_field_type = wire_type po f,
      finding_reason = reason\<rparr>"

fun check_field ::
    "bool \<Rightarrow> SignablePayloadField \<Rightarrow> string \<Rightarrow> AnchorageRenderFinding list
      \<Rightarrow> bool \<times> AnchorageRenderFinding list"
  and check_list ::
    "bool \<Rightarrow> SignablePayloadFieldListLayout option \<Rightarrow> string \<Rightarrow> bool \<Rightarrow> AnchorageRenderFinding list
      \<Rightarrow> bool \<times> AnchorageRenderFinding list"
  and check_children ::
    "bool \<Rightarrow> AnnotatedPayloadField list \<Rightarrow> string \<Rightarrow> nat \<Rightarrow> bool \<Rightarrow> AnchorageRenderFinding list
      \<Rightarrow> bool \<times> AnchorageRenderFinding list"
where
  "check_field po (PreviewLayout c (PreviewLayoutData title subtitle condensed expanded)) path out =
     (let (ok1, out1) = check_list po condensed (path @ ''.Condensed'') True out;
          (ok2, out2) = check_list po expanded (path @ ''.Expanded'') ok1 out1
      in (ok2, if ok2 then out2
               else out2 @ [finding po path
                 (PreviewLayout c (PreviewLayoutData title subtitle condensed expanded))
                 ContainsUnsupportedNestedFields]))"
| "check_field po (ListLayout c l) path out =
     (False, out @ [finding po path (ListLayout c l) ListLayoutAsStandaloneField])"
| "check_field po f path out =
     (if wire_type po f \<in> set ANCHORAGE_RENDERABLE_LEAF_TYPES then (True, out)
      else (False, out @ [finding po path f UnsupportedFieldType]))"
| "check_list po None path ok out = (ok, out)"
| "check_list po (Some (ListLayoutData fs)) path ok out = check_children po fs path 0 ok out"
| "check_children po [] path i ok out = (ok, out)"
| "check_children po (Annotated f sa da # fs) path i ok out =
     (let (ok', out') = check_field po f (path @ ''.Fields['' @ nat_str i @ '']'') out
      in check_children po fs path (Suc i) (ok \<and> ok') out')"

fun check_fields ::
  "bool \<Rightarrow> SignablePayloadField list \<Rightarrow> nat \<Rightarrow> AnchorageRenderFinding list \<Rightarrow> AnchorageRenderFinding list" where
  "check_fields po [] i out = out"
| "check_fields po (f # fs) i out =
     check_fields po fs (Suc i) (snd (check_field po f (''Fields['' @ nat_str i @ '']'') out))"

definition anchorage_render_findings :: "bool \<Rightarrow> SignablePayload \<Rightarrow> AnchorageRenderFinding list" where
  "anchorage_render_findings po p = check_fields po (payload_fields p) 0 []"

definition finding_summary :: "AnchorageRenderFinding \<Rightarrow> string" where
  "finding_summary f =
     finding_path f @ '' ['' @ finding_field_type f @ ''] ('' @ reason_as_str (finding_reason f) @ '')''"

definition validate_anchorage_wallet_renderable :: "bool \<Rightarrow> SignablePayload \<Rightarrow> (VisualSignError, unit) result" where
  "validate_anchorage_wallet_renderable po p =
     (let findings = anchorage_render_findings po p
      in if findings = [] then Inr ()
         else Inl (ValidationError
           (''payload contains '' @ nat_str (length findings)
            @ '' field(s) the Anchorage wallet cannot render: ''
            @ join ''; '' (map finding_summary findings))))"

section \<open>The support matrix\<close>

text \<open>What the wallet renders, read off the documented table of types.\<close>

fun renderable :: "SignablePayloadField \<Rightarrow> bool"
  and renderable_list :: "SignablePayloadFieldListLayout option \<Rightarrow> bool"
  and renderable_items :: "AnnotatedPayloadField list \<Rightarrow> bool"
where
  "renderable (PreviewLayout c (PreviewLayoutData title subtitle condensed expanded)) =
     (renderable_list condensed \<and> renderable_list expanded)"
| "renderable (ListLayout c l) = False"
| "renderable (Text c x) = False"
| "renderable (Address c x) = False"
| "renderable (Amount c x) = False"
| "renderable (Divider c x) = False"
| "renderable (Unknown c x) = False"
| "renderable (TextV2 c x) = True"
| "renderable (AddressV2 c x) = True"
| "renderable (Number c x) = True"
| "renderable (AmountV2 c x) = True"
| "renderable (Diagnostic c x) = True"
| "renderable_list None = True"
| "renderable_list (Some (ListLayoutData fs)) = renderable_items fs"
| "renderable_items [] = True"
| "renderable_items (Annotated f sa da # fs) = (renderable f \<and> renderable_items fs)"

lemma wire_type_eq: "wire_type po f = wire_name f"
  by (simp add: wire_type_def map_of_serialize_to_map wire_entries_def)

text \<open>One walk: the flag is the specification, the findings are only ever appended, and a walk
  leaves the list as it was exactly when everything it visited renders.\<close>

lemma check_walk:
  "\<exists>new. check_field po f path out = (renderable f, out @ new) \<and> (new = []) = renderable f"
  "\<exists>new. check_list po l path ok out = (ok \<and> renderable_list l, out @ new) \<and> (new = []) = renderable_list l"
  "\<exists>new. check_children po fs path i ok out = (ok \<and> renderable_items fs, out @ new)
     \<and> (new = []) = renderable_items fs"
proof (induction po f path out and po l path ok out and po fs path i ok out
    rule: check_field_check_list_check_children.induct)
  case (1 po c title subtitle condensed expanded path out)
  then obtain n1 where n1: "check_list po condensed (path @ ''.Condensed'') True out
      = (renderable_list condensed, out @ n1)" "(n1 = []) = renderable_list condensed" by auto
  from 1(2) [OF refl n1(1) [symmetric]] obtain n2 where
    n2: "check_list po expanded (path @ ''.Expanded'') (renderable_list condensed) (out @ n1)
      = (renderable_list condensed \<and> renderable_list expanded, (out @ n1) @ n2)"
      "(n2 = []) = renderable_list expanded" by auto
  show ?case using n1 n2 by auto
next
  case (7 po f sa da fs path i ok out)
  then obtain n1 where n1: "check_field po f (path @ ''.Fields['' @ nat_str i @ '']'') out
      = (renderable f, out @ n1)" "(n1 = []) = renderable f" by auto
  from 7(2) [OF refl n1(1) [symmetric]] obtain n2 where
    n2: "check_children po fs path (Suc i) (ok \<and> renderable f) (out @ n1)
      = ((ok \<and> renderable f) \<and> renderable_items fs, (out @ n1) @ n2)"
      "(n2 = []) = renderable_items fs" by auto
  show ?case using n1 n2 by auto
qed (auto simp: wire_type_eq ANCHORAGE_RENDERABLE_LEAF_TYPES_def)

lemma check_fields_Nil: "check_fields po fs i out = [] \<longleftrightarrow> out = [] \<and> list_all renderable fs"
proof (induction fs arbitrary: i out)
  case (Cons f fs)
  from check_walk(1) [of po f "''Fields['' @ nat_str i @ '']''" out] obtain new where
    "check_field po f (''Fields['' @ nat_str i @ '']'') out = (renderable f, out @ new)"
    "(new = []) = renderable f" by blast
  with Cons show ?case by auto
qed simp

lemma findings_Nil: "anchorage_render_findings po p = [] \<longleftrightarrow> list_all renderable (payload_fields p)"
  by (simp add: anchorage_render_findings_def check_fields_Nil)

section \<open>Properties\<close>

text \<open>A payload passes the wallet check exactly when every field, at any depth of its preview
  layouts, is of a type the documented support matrix renders and no list layout stands alone; the
  findings are empty in exactly those cases.\<close>

lemma wallet_check_exact:
  "(validate_anchorage_wallet_renderable po p = Inr () \<longleftrightarrow> list_all renderable (payload_fields p))
   \<and> (anchorage_render_findings po p = [] \<longleftrightarrow> list_all renderable (payload_fields p))"
  by (simp add: validate_anchorage_wallet_renderable_def Let_def findings_Nil)

end
