(* ===== verification/TimeFmt.thy ===== *)
theory TimeFmt
  imports Prelude
begin

text \<open>
  \<^verbatim>\<open>visualsign/src/time_fmt.rs\<close>. The \<^verbatim>\<open>chrono\<close> crate is the parameter \<open>from_millis\<close>, which gives
  the formatted date of a representable timestamp and \<open>None\<close> outside chrono's range. The
  relative format is integer arithmetic on \<^verbatim>\<open>i128\<close>, which the difference of two \<^verbatim>\<open>i64\<close> cannot
  overflow, so it is plain integer arithmetic here.
\<close>

type_synonym i64 = "64 word"

definition format_timestamp_ms :: "(i64 \<Rightarrow> string option) \<Rightarrow> i64 \<Rightarrow> string" where
  "format_timestamp_ms from_millis ms =
     (case from_millis ms of Some d \<Rightarrow> d | None \<Rightarrow> ''invalid timestamp'')"

definition SEC :: nat where "SEC = 1000"
definition MINUTE :: nat where "MINUTE = 60 * SEC"
definition HOUR :: nat where "HOUR = 60 * MINUTE"
definition DAY :: nat where "DAY = 24 * HOUR"
definition MONTH :: nat where "MONTH = 30 * DAY"

definition relative_unit :: "nat \<Rightarrow> nat \<times> string \<times> bool" where
  "relative_unit abs_ms =
     (if abs_ms < MINUTE then (abs_ms div SEC, ''second'', False)
      else if abs_ms < HOUR then (abs_ms div MINUTE, ''minute'', False)
      else if abs_ms < DAY then (abs_ms div HOUR, ''hour'', True)
      else if abs_ms < MONTH then (abs_ms div DAY, ''day'', True)
      else (abs_ms div MONTH, ''month'', True))"

definition format_relative_ms :: "(i64 \<Rightarrow> string option) \<Rightarrow> i64 \<Rightarrow> i64 \<Rightarrow> string option" where
  "format_relative_ms from_millis ms now_ms =
     (case from_millis ms of
        None \<Rightarrow> None
      | Some _ \<Rightarrow>
          (let diff_ms = sint ms - sint now_ms;
               abs_ms = nat \<bar>diff_ms\<bar>;
               future = diff_ms > 0
           in if abs_ms < SEC then Some ''just now''
              else (let (n, unit, approx) = relative_unit abs_ms;
                        plural = (if n = 1 then [] else ''s'');
                        approx_word = (if approx then ''about '' else [])
                    in Some (if future then ''in '' @ approx_word @ nat_str n @ '' '' @ unit @ plural
                             else approx_word @ nat_str n @ '' '' @ unit @ plural @ '' ago''))))"

section \<open>Facts\<close>

lemmas unit_defs = SEC_def MINUTE_def HOUR_def DAY_def MONTH_def

definition unit_ms :: "string \<Rightarrow> nat" where
  "unit_ms u = (if u = ''second'' then SEC else if u = ''minute'' then MINUTE
     else if u = ''hour'' then HOUR else if u = ''day'' then DAY else MONTH)"

text \<open>The count is at least one and rounds down: it is off by less than one unit.\<close>

lemma relative_unit_bounds:
  assumes "SEC \<le> a" and "relative_unit a = (n, u, approx)"
  shows "1 \<le> n \<and> n * unit_ms u \<le> a \<and> a < Suc n * unit_ms u"
proof -
  have *: "1 \<le> a div k \<and> a div k * k \<le> a \<and> a < Suc (a div k) * k" if "0 < k" "k \<le> a" for k
    using that by (simp add: div_greater_zero_iff Suc_le_eq dividend_less_div_times)
  have pos: "0 < SEC" "0 < MINUTE" "0 < HOUR" "0 < DAY" "0 < MONTH" by (simp_all add: unit_defs)
  have "\<exists>k. 0 < k \<and> k \<le> a \<and> n = a div k \<and> unit_ms u = k"
    using assms pos by (auto simp: relative_unit_def unit_ms_def not_less split: if_splits)
  with * show ?thesis by blast
qed

text \<open>The difference of two 64-bit values fits an \<^verbatim>\<open>i128\<close>, so no step of the source overflows.\<close>

lemma diff_fits: "- (2 ^ 127) \<le> sint a - sint b \<and> sint a - sint b < 2 ^ 127" for a b :: i64
proof -
  have "- (2 ^ 63) \<le> sint x \<and> sint x < 2 ^ 63" for x :: i64
    using sint_greater_eq [of x] sint_less [of x] by simp
  from this [of a] this [of b] show ?thesis by simp
qed

section \<open>Properties\<close>

text \<open>Beyond one second the relative format counts whole units, at least one, and is off by
  less than one unit; the difference it starts from cannot overflow its 128 bits.\<close>

lemma relative_rounding:
  fixes ms now_ms :: i64
  assumes "SEC \<le> nat \<bar>sint ms - sint now_ms\<bar>"
    and "relative_unit (nat \<bar>sint ms - sint now_ms\<bar>) = (n, u, approx)"
  shows "1 \<le> n \<and> n * unit_ms u \<le> nat \<bar>sint ms - sint now_ms\<bar>
    \<and> nat \<bar>sint ms - sint now_ms\<bar> < Suc n * unit_ms u
    \<and> \<bar>sint ms - sint now_ms\<bar> < 2 ^ 127"
  using relative_unit_bounds [OF assms] diff_fits [of ms now_ms] diff_fits [of now_ms ms] by auto

end
