(* ===== verification/Wire.thy ===== *)
theory Wire
  imports Prelude
begin

text \<open>
  Byte encodings shared by the signing and payment components: fixed-width integers in both
  byte orders, and length-prefixed fields. The interface \<open>prefix_code\<close> says that an encoding
  can be read off the front of any byte string; sequences and pairs of such encodings are then
  injective, whatever the contents of the fields.
\<close>

section \<open>Integers\<close>

text \<open>\<^verbatim>\<open>to_le_bytes\<close> and \<^verbatim>\<open>to_be_bytes\<close> of an \<open>n\<close>-byte integer; higher bytes are cut off, as the
  cast \<^verbatim>\<open>as u64\<close> or \<^verbatim>\<open>as u32\<close> does.\<close>

fun le_bytes :: "nat \<Rightarrow> nat \<Rightarrow> bytes" where
  "le_bytes 0 x = []"
| "le_bytes (Suc n) x = of_nat (x mod 256) # le_bytes n (x div 256)"

definition be_bytes :: "nat \<Rightarrow> nat \<Rightarrow> bytes" where
  "be_bytes n x = rev (le_bytes n x)"

fun le_nat :: "bytes \<Rightarrow> nat" where
  "le_nat [] = 0"
| "le_nat (b # bs) = unat b + 256 * le_nat bs"

lemma length_le_bytes [simp, wire_laws]: "length (le_bytes n x) = n"
  by (induction n arbitrary: x) auto

lemma length_be_bytes [simp, wire_laws]: "length (be_bytes n x) = n"
  by (simp add: be_bytes_def)

lemma le_nat_le_bytes [simp, wire_laws]: "le_nat (le_bytes n x) = x mod 256 ^ n"
proof (induction n arbitrary: x)
  case (Suc n)
  have "unat (of_nat (x mod 256) :: byte) = x mod 256"
    by (simp add: unat_of_nat)
  with Suc show ?case by (simp add: mod_mult2_eq)
qed simp

lemma le_bytes_le_nat [simp, wire_laws]: "le_bytes (length bs) (le_nat bs) = bs"
proof (induction bs)
  case (Cons b bs)
  note unat_byte_less [of b]
  with Cons show ?case by simp
qed simp

lemma le_nat_less: "le_nat bs < 256 ^ length bs"
proof (induction bs)
  case (Cons b bs)
  note unat_byte_less [of b]
  with Cons show ?case by simp
qed simp

lemma le_bytes_inject:
  "x < 256 ^ n \<Longrightarrow> y < 256 ^ n \<Longrightarrow> le_bytes n x = le_bytes n y \<longleftrightarrow> x = y"
  by (metis le_nat_le_bytes mod_less)

lemma be_bytes_inject:
  "x < 256 ^ n \<Longrightarrow> y < 256 ^ n \<Longrightarrow> be_bytes n x = be_bytes n y \<longleftrightarrow> x = y"
  by (simp add: be_bytes_def le_bytes_inject)

section \<open>Encodings that can be read off the front\<close>

locale prefix_code =
  fixes enc :: "'a \<Rightarrow> 'b list" and dom :: "'a \<Rightarrow> bool"
  assumes front: "dom a \<Longrightarrow> dom b \<Longrightarrow> enc a @ r = enc b @ q \<Longrightarrow> a = b \<and> r = q"
begin

lemma front_iff: "dom a \<Longrightarrow> dom b \<Longrightarrow> enc a @ r = enc b @ q \<longleftrightarrow> a = b \<and> r = q"
  using front by blast

lemma enc_inject: "dom a \<Longrightarrow> dom b \<Longrightarrow> enc a = enc b \<longleftrightarrow> a = b"
  using front [of a b "[]" "[]"] by auto

lemma seq_front:
  "length xs = length ys \<Longrightarrow> list_all dom xs \<Longrightarrow> list_all dom ys \<Longrightarrow>
     concat (map enc xs) @ r = concat (map enc ys) @ q \<Longrightarrow> xs = ys \<and> r = q"
proof (induction xs ys arbitrary: r q rule: list_induct2)
  case (Cons x xs y ys)
  then have "enc x @ concat (map enc xs) @ r = enc y @ concat (map enc ys) @ q" by simp
  with Cons.prems have "x = y" and "concat (map enc xs) @ r = concat (map enc ys) @ q"
    using front [of x y "concat (map enc xs) @ r" "concat (map enc ys) @ q"] by simp_all
  with Cons.IH [of r q] Cons.prems show ?case by simp
qed simp

lemma seq_inject:
  "length xs = length ys \<Longrightarrow> list_all dom xs \<Longrightarrow> list_all dom ys \<Longrightarrow>
     concat (map enc xs) = concat (map enc ys) \<longleftrightarrow> xs = ys"
  using seq_front [of xs ys "[]" "[]"] by auto

end

text \<open>A byte string after its length in \<open>n\<close> little-endian bytes.\<close>

definition sized :: "nat \<Rightarrow> bytes \<Rightarrow> bytes" where
  "sized n bs = le_bytes n (length bs) @ bs"

lemma sized_front:
  assumes "length a < 256 ^ n" and "length b < 256 ^ n" and "sized n a @ r = sized n b @ q"
  shows "a = b \<and> r = q"
proof -
  have "le_bytes n (length a) @ a @ r = le_bytes n (length b) @ b @ q"
    using assms(3) by (simp add: sized_def)
  then have "le_bytes n (length a) = le_bytes n (length b)" and rest: "a @ r = b @ q"
    by (simp_all add: append_eq_append_conv)
  then have "length a = length b" using assms by (simp add: le_bytes_inject)
  with rest show ?thesis by (simp add: append_eq_append_conv)
qed

text \<open>Fields after a \<^verbatim>\<open>u64\<close> length, and the Borsh encodings after a \<^verbatim>\<open>u32\<close> length.\<close>

definition fits64 :: "bytes \<Rightarrow> bool" where
  "fits64 bs = (length bs < 2 ^ 64)"

definition fits32 :: "bytes \<Rightarrow> bool" where
  "fits32 bs = (length bs < 2 ^ 32)"

interpretation sized64: prefix_code "sized 8" fits64
  by unfold_locales (rule sized_front, simp_all add: fits64_def)

interpretation sized32: prefix_code "sized 4" fits32
  by unfold_locales (rule sized_front, simp_all add: fits32_def)

text \<open>Fixed-width fields need no length.\<close>

interpretation fixed_width: prefix_code "\<lambda>bs. bs" "\<lambda>bs. length bs = n" for n
  by unfold_locales (simp add: append_eq_append_conv)

section \<open>Borsh\<close>

text \<open>
  The Borsh encodings in use: a \<^verbatim>\<open>Vec<u8>\<close> and a \<^verbatim>\<open>String\<close> are their bytes after a \<^verbatim>\<open>u32\<close>
  length. Encoding fails on a length that does not fit.
\<close>

definition borsh_bytes :: "bytes \<Rightarrow> bytes option" where
  "borsh_bytes bs = (if fits32 bs then Some (sized 4 bs) else None)"

definition borsh_string :: "string \<Rightarrow> bytes option" where
  "borsh_string s = borsh_bytes (as_bytes s)"

lemma borsh_bytes_Some: "borsh_bytes bs = Some x \<longleftrightarrow> fits32 bs \<and> x = sized 4 bs"
  by (auto simp: borsh_bytes_def)

lemma borsh_string_Some: "borsh_string s = Some x \<longleftrightarrow> fits32 (as_bytes s) \<and> x = sized 4 (as_bytes s)"
  by (simp add: borsh_string_def borsh_bytes_Some)

end
