(* ===== verification/Borsh.thy ===== *)
theory Borsh
  imports Wire
begin

text \<open>
  Borsh encoders paired with decoders. A decoder consumes a prefix and returns the rest. The
  interface \<open>codec\<close> has the two laws every pair satisfies: decoding inverts encoding in front of
  any rest, and nothing but the encoding of a value decodes to it. Its second law makes the
  format canonical; every codec is in particular a \<open>prefix_code\<close>.
\<close>

type_synonym 'a decoder = "bytes \<Rightarrow> ('a \<times> bytes) option"

locale codec =
  fixes enc :: "'a \<Rightarrow> bytes" and dec :: "'a decoder" and dom :: "'a \<Rightarrow> bool"
  assumes dec_enc: "dom a \<Longrightarrow> dec (enc a @ r) = Some (a, r)"
    and enc_dec: "dec bs = Some (a, r) \<Longrightarrow> dom a \<and> bs = enc a @ r"
begin

lemma dec_iff: "dec bs = Some (a, r) \<longleftrightarrow> dom a \<and> bs = enc a @ r"
  using dec_enc enc_dec by blast

lemma dec_enc_Nil: "dom a \<Longrightarrow> dec (enc a) = Some (a, [])"
  using dec_enc [of a "[]"] by simp

end

sublocale codec \<subseteq> prefix_code enc dom
proof
  fix a b r q
  assume a: "dom a" and b: "dom b" and eq: "enc a @ r = enc b @ q"
  have "Some (a, r) = Some (b, q)"
    using dec_enc [OF a, of r] dec_enc [OF b, of q] unfolding eq by simp
  then show "a = b \<and> r = q" by simp
qed

section \<open>Combinators\<close>

definition dec_return :: "'a \<Rightarrow> 'a decoder" where
  "dec_return a bs = Some (a, bs)"

definition dec_then :: "'a decoder \<Rightarrow> ('a \<Rightarrow> 'b decoder) \<Rightarrow> 'b decoder" where
  "dec_then d f bs = (case d bs of None \<Rightarrow> None | Some (a, r) \<Rightarrow> f a r)"

definition dec_take :: "nat \<Rightarrow> bytes decoder" where
  "dec_take n bs = (if length bs < n then None else Some (take n bs, drop n bs))"

text \<open>\<^verbatim>\<open>try_from_slice\<close>: the whole input must be consumed.\<close>

definition try_from_slice :: "'a decoder \<Rightarrow> bytes \<Rightarrow> 'a option" where
  "try_from_slice d bs = (case d bs of Some (a, []) \<Rightarrow> Some a | _ \<Rightarrow> None)"

lemma dec_then_Some:
  "dec_then d f bs = Some x \<longleftrightarrow> (\<exists>a r. d bs = Some (a, r) \<and> f a r = Some x)"
  by (auto simp: dec_then_def split: option.splits)

lemma dec_return_Some: "dec_return a bs = Some (b, r) \<longleftrightarrow> a = b \<and> bs = r"
  by (auto simp: dec_return_def)

lemma try_from_slice_Some: "try_from_slice d bs = Some a \<longleftrightarrow> d bs = Some (a, [])"
  by (auto simp: try_from_slice_def split: option.splits list.splits)

lemma dec_take_iff: "dec_take n bs = Some (a, r) \<longleftrightarrow> length a = n \<and> bs = a @ r"
  by (auto simp: dec_take_def)

interpretation array: codec "\<lambda>bs. bs" "dec_take n" "\<lambda>bs. length bs = n" for n
  by unfold_locales (auto simp: dec_take_iff)

section \<open>Integers, vectors and strings\<close>

definition dec_u32 :: "u32 decoder" where
  "dec_u32 = dec_then (dec_take 4) (\<lambda>bs. dec_return (of_nat (le_nat bs)))"

definition dec_u64 :: "u64 decoder" where
  "dec_u64 = dec_then (dec_take 8) (\<lambda>bs. dec_return (of_nat (le_nat bs)))"

definition enc_u32 :: "u32 \<Rightarrow> bytes" where
  "enc_u32 w = le_bytes 4 (unat w)"

definition enc_u64 :: "u64 \<Rightarrow> bytes" where
  "enc_u64 w = le_bytes 8 (unat w)"

definition dec_vec :: "bytes decoder" where
  "dec_vec = dec_then dec_u32 (\<lambda>n. dec_take (unat n))"

text \<open>UTF-8 validity as \<^verbatim>\<open>String::from_utf8\<close> checks it.\<close>

definition cont :: "nat \<Rightarrow> bool" where
  "cont b = (128 \<le> b \<and> b \<le> 191)"

fun utf8_valid :: "nat list \<Rightarrow> bool" where
  "utf8_valid [] = True"
| "utf8_valid (a # s) =
     (if a < 128 then utf8_valid s
      else case s of
        [] \<Rightarrow> False
      | b # s \<Rightarrow>
          if 194 \<le> a \<and> a \<le> 223 then cont b \<and> utf8_valid s
          else (case s of
            [] \<Rightarrow> False
          | c # s \<Rightarrow>
              if 224 \<le> a \<and> a \<le> 239
              then cont b \<and> (a = 224 \<longrightarrow> 160 \<le> b) \<and> (a = 237 \<longrightarrow> b \<le> 159) \<and> cont c \<and> utf8_valid s
              else (case s of
                [] \<Rightarrow> False
              | d # s \<Rightarrow>
                  240 \<le> a \<and> a \<le> 244 \<and> cont b \<and> (a = 240 \<longrightarrow> 144 \<le> b) \<and> (a = 244 \<longrightarrow> b \<le> 143)
                  \<and> cont c \<and> cont d \<and> utf8_valid s)))"

definition str_of_bytes :: "bytes \<Rightarrow> string" where
  "str_of_bytes bs = map (\<lambda>b. char_of (unat b)) bs"

definition rust_string :: "string \<Rightarrow> bool" where
  "rust_string s = (utf8_valid (map code s) \<and> length s < 2 ^ 32)"

definition enc_string :: "string \<Rightarrow> bytes" where
  "enc_string s = sized 4 (as_bytes s)"

definition dec_string :: "string decoder" where
  "dec_string = dec_then dec_vec (\<lambda>bs rest.
     if utf8_valid (map unat bs) then Some (str_of_bytes bs, rest) else None)"

lemma as_bytes_str_of_bytes [simp]: "as_bytes (str_of_bytes bs) = bs"
proof -
  have "byte_of (char_of (unat b)) = b" for b
    using unat_byte_less [of b] by (simp add: byte_of_def code_char_of)
  then show ?thesis by (simp add: as_bytes_def str_of_bytes_def comp_def)
qed

lemma str_of_bytes_as_bytes [simp]: "str_of_bytes (as_bytes s) = s"
  using as_bytes_str_of_bytes [of "as_bytes s"] by (simp only: inj_as_bytes)

lemma map_unat_as_bytes [simp]: "map unat (as_bytes s) = map code s"
  by (simp add: as_bytes_def unat_byte_of)

lemma map_code_str_of_bytes [simp]: "map code (str_of_bytes bs) = map unat bs"
  by (metis as_bytes_str_of_bytes map_unat_as_bytes)

lemma length_str_of_bytes [simp]: "length (str_of_bytes bs) = length bs"
  by (simp add: str_of_bytes_def)

interpretation u32: codec enc_u32 dec_u32 "\<lambda>_. True"
proof
  fix w :: u32 and r
  have "unat w < 2 ^ LENGTH(32)" by (rule unsigned_less)
  then show "dec_u32 (enc_u32 w @ r) = Some (w, r)"
    by (simp add: dec_u32_def enc_u32_def dec_then_def dec_take_def dec_return_def)
next
  fix bs r and w :: u32
  assume "dec_u32 bs = Some (w, r)"
  then obtain a where a: "length a = 4" "bs = a @ r" "w = of_nat (le_nat a)"
    by (auto simp: dec_u32_def dec_then_Some dec_take_iff dec_return_Some)
  moreover have "le_nat a < 2 ^ 32" using le_nat_less [of a] a(1) by simp
  then have "unat w = le_nat a" using a(3) by (simp add: unat_of_nat)
  ultimately show "True \<and> bs = enc_u32 w @ r"
    using le_bytes_le_nat [of a] by (simp add: enc_u32_def)
qed

interpretation u64: codec enc_u64 dec_u64 "\<lambda>_. True"
proof
  fix w :: u64 and r
  have "unat w < 2 ^ LENGTH(64)" by (rule unsigned_less)
  then show "dec_u64 (enc_u64 w @ r) = Some (w, r)"
    by (simp add: dec_u64_def enc_u64_def dec_then_def dec_take_def dec_return_def)
next
  fix bs r and w :: u64
  assume "dec_u64 bs = Some (w, r)"
  then obtain a where a: "length a = 8" "bs = a @ r" "w = of_nat (le_nat a)"
    by (auto simp: dec_u64_def dec_then_Some dec_take_iff dec_return_Some)
  moreover have "le_nat a < 2 ^ 64" using le_nat_less [of a] a(1) by simp
  then have "unat w = le_nat a" using a(3) by (simp add: unat_of_nat)
  ultimately show "True \<and> bs = enc_u64 w @ r"
    using le_bytes_le_nat [of a] by (simp add: enc_u64_def)
qed

lemma dec_vec_iff: "dec_vec bs = Some (a, r) \<longleftrightarrow> fits32 a \<and> bs = sized 4 a @ r"
proof
  assume "dec_vec bs = Some (a, r)"
  then obtain n where n: "bs = enc_u32 n @ a @ r" "length a = unat n"
    by (auto simp: dec_vec_def dec_then_Some u32.dec_iff dec_take_iff)
  have "unat n < 2 ^ LENGTH(32)" by (rule unsigned_less)
  with n show "fits32 a \<and> bs = sized 4 a @ r"
    by (simp add: fits32_def sized_def enc_u32_def)
next
  assume *: "fits32 a \<and> bs = sized 4 a @ r"
  then have "unat (of_nat (length a) :: u32) = length a" by (simp add: fits32_def unat_of_nat)
  with * have "bs = enc_u32 (of_nat (length a)) @ a @ r" by (simp add: sized_def enc_u32_def)
  with \<open>unat (of_nat (length a) :: u32) = length a\<close> show "dec_vec bs = Some (a, r)"
    by (simp add: dec_vec_def dec_then_Some u32.dec_iff dec_take_iff)
      (metis append_same_eq)
qed

interpretation vec: codec "sized 4" dec_vec fits32
  by unfold_locales (auto simp: dec_vec_iff)

interpretation str: codec enc_string dec_string rust_string
proof
  fix s r
  assume "rust_string s"
  then show "dec_string (enc_string s @ r) = Some (s, r)"
    by (simp add: dec_string_def dec_then_def enc_string_def rust_string_def vec.dec_enc fits32_def)
next
  fix bs s r
  assume "dec_string bs = Some (s, r)"
  then show "rust_string s \<and> bs = enc_string s @ r"
    by (auto simp: dec_string_def dec_then_Some vec.dec_iff enc_string_def rust_string_def fits32_def
        split: if_splits)
qed

end
