(* ===== verification/ChainMeta.thy ===== *)
theory ChainMeta
  imports Borsh
begin

text \<open>
  The metadata messages of \<^verbatim>\<open>generated/src/generated/parser.rs\<close> that a request can carry, and their
  derived Borsh encoding, which the metadata digest and the payment request hash are computed
  from. An \<^verbatim>\<open>i32\<close> is a 32-bit word, a \<^verbatim>\<open>BTreeMap\<close> an association list sorted by key. Encoding
  fails exactly when a length does not fit in 32 bits (\<open>chain_metadata_fits\<close>).
\<close>

section \<open>Messages\<close>

record Metadata =
  meta_key :: string
  meta_value :: string

record SignatureMetadata =
  sig_value :: string
  sig_metadata :: "Metadata list"

record Abi =
  abi_value :: string
  abi_signature :: "SignatureMetadata option"
  abi_abi_type :: "u32 option"
  abi_implementation_address :: "string option"

record Idl =
  idl_value :: string
  idl_idl_type :: "u32 option"
  idl_idl_version :: "string option"
  idl_signature :: "SignatureMetadata option"
  idl_program_name :: "string option"

record TokenMetadataEntry =
  token_value :: string
  token_signature :: "SignatureMetadata option"
  token_origin_chain :: "u32 option"

record EthereumMetadata =
  eth_network_id :: "string option"
  eth_abi_mappings :: "(string \<times> Abi) list"

record SolanaMetadata =
  sol_network_id :: "string option"
  sol_idl :: "Idl option"
  sol_idl_mappings :: "(string \<times> Idl) list"
  sol_simulated_transaction_result :: "string option"

record NearMetadata =
  near_network_id :: "string option"
  near_token_mappings :: "(string \<times> TokenMetadataEntry) list"

datatype ChainMetadataKind =
    EthereumMeta EthereumMetadata
  | SolanaMeta SolanaMetadata
  | NearMeta NearMetadata

record ChainMetadata =
  chain_metadata_metadata :: "ChainMetadataKind option"

section \<open>Borsh encodings\<close>

definition enc_option :: "('a \<Rightarrow> bytes) \<Rightarrow> 'a option \<Rightarrow> bytes" where
  "enc_option enc x = (case x of None \<Rightarrow> [0] | Some a \<Rightarrow> 1 # enc a)"

definition enc_list :: "('a \<Rightarrow> bytes) \<Rightarrow> 'a list \<Rightarrow> bytes" where
  "enc_list enc xs = le_bytes 4 (length xs) @ concat (map enc xs)"

definition enc_entry :: "('a \<Rightarrow> bytes) \<Rightarrow> ('b \<Rightarrow> bytes) \<Rightarrow> 'a \<times> 'b \<Rightarrow> bytes" where
  "enc_entry enc enc' e = enc (fst e) @ enc' (snd e)"

definition enc_metadata_entry :: "Metadata \<Rightarrow> bytes" where
  "enc_metadata_entry m = enc_string (meta_key m) @ enc_string (meta_value m)"

definition enc_signature_metadata :: "SignatureMetadata \<Rightarrow> bytes" where
  "enc_signature_metadata s = enc_string (sig_value s) @ enc_list enc_metadata_entry (sig_metadata s)"

definition enc_abi :: "Abi \<Rightarrow> bytes" where
  "enc_abi a = enc_string (abi_value a) @ enc_option enc_signature_metadata (abi_signature a)
     @ enc_option enc_u32 (abi_abi_type a) @ enc_option enc_string (abi_implementation_address a)"

definition enc_idl :: "Idl \<Rightarrow> bytes" where
  "enc_idl i = enc_string (idl_value i) @ enc_option enc_u32 (idl_idl_type i)
     @ enc_option enc_string (idl_idl_version i)
     @ enc_option enc_signature_metadata (idl_signature i)
     @ enc_option enc_string (idl_program_name i)"

definition enc_token_entry :: "TokenMetadataEntry \<Rightarrow> bytes" where
  "enc_token_entry t = enc_string (token_value t)
     @ enc_option enc_signature_metadata (token_signature t)
     @ enc_option enc_u32 (token_origin_chain t)"

definition enc_ethereum_metadata :: "EthereumMetadata \<Rightarrow> bytes" where
  "enc_ethereum_metadata e = enc_option enc_string (eth_network_id e)
     @ enc_list (enc_entry enc_string enc_abi) (eth_abi_mappings e)"

definition enc_solana_metadata :: "SolanaMetadata \<Rightarrow> bytes" where
  "enc_solana_metadata s = enc_option enc_string (sol_network_id s) @ enc_option enc_idl (sol_idl s)
     @ enc_list (enc_entry enc_string enc_idl) (sol_idl_mappings s)
     @ enc_option enc_string (sol_simulated_transaction_result s)"

definition enc_near_metadata :: "NearMetadata \<Rightarrow> bytes" where
  "enc_near_metadata n = enc_option enc_string (near_network_id n)
     @ enc_list (enc_entry enc_string enc_token_entry) (near_token_mappings n)"

fun enc_metadata_kind :: "ChainMetadataKind \<Rightarrow> bytes" where
  "enc_metadata_kind (EthereumMeta e) = 0 # enc_ethereum_metadata e"
| "enc_metadata_kind (SolanaMeta s) = 1 # enc_solana_metadata s"
| "enc_metadata_kind (NearMeta n) = 2 # enc_near_metadata n"

definition enc_chain_metadata :: "ChainMetadata \<Rightarrow> bytes" where
  "enc_chain_metadata m = enc_option enc_metadata_kind (chain_metadata_metadata m)"

section \<open>Which values can be encoded\<close>

definition fits_list :: "('a \<Rightarrow> bool) \<Rightarrow> 'a list \<Rightarrow> bool" where
  "fits_list fits xs = (length xs < 2 ^ 32 \<and> list_all fits xs)"

definition fits_string :: "string \<Rightarrow> bool" where
  "fits_string s = (length s < 2 ^ 32)"

definition fits_entry :: "('a \<Rightarrow> bool) \<Rightarrow> ('b \<Rightarrow> bool) \<Rightarrow> 'a \<times> 'b \<Rightarrow> bool" where
  "fits_entry f g e = (f (fst e) \<and> g (snd e))"

definition fits_metadata_entry :: "Metadata \<Rightarrow> bool" where
  "fits_metadata_entry m = (fits_string (meta_key m) \<and> fits_string (meta_value m))"

definition fits_signature_metadata :: "SignatureMetadata \<Rightarrow> bool" where
  "fits_signature_metadata s = (fits_string (sig_value s) \<and> fits_list fits_metadata_entry (sig_metadata s))"

definition fits_abi :: "Abi \<Rightarrow> bool" where
  "fits_abi a = (fits_string (abi_value a) \<and> pred_option fits_signature_metadata (abi_signature a)
     \<and> pred_option fits_string (abi_implementation_address a))"

definition fits_idl :: "Idl \<Rightarrow> bool" where
  "fits_idl i = (fits_string (idl_value i) \<and> pred_option fits_string (idl_idl_version i)
     \<and> pred_option fits_signature_metadata (idl_signature i) \<and> pred_option fits_string (idl_program_name i))"

definition fits_token_entry :: "TokenMetadataEntry \<Rightarrow> bool" where
  "fits_token_entry t = (fits_string (token_value t) \<and> pred_option fits_signature_metadata (token_signature t))"

fun fits_metadata_kind :: "ChainMetadataKind \<Rightarrow> bool" where
  "fits_metadata_kind (EthereumMeta e) =
     (pred_option fits_string (eth_network_id e)
      \<and> fits_list (fits_entry fits_string fits_abi) (eth_abi_mappings e))"
| "fits_metadata_kind (SolanaMeta s) =
     (pred_option fits_string (sol_network_id s) \<and> pred_option fits_idl (sol_idl s)
      \<and> fits_list (fits_entry fits_string fits_idl) (sol_idl_mappings s)
      \<and> pred_option fits_string (sol_simulated_transaction_result s))"
| "fits_metadata_kind (NearMeta n) =
     (pred_option fits_string (near_network_id n)
      \<and> fits_list (fits_entry fits_string fits_token_entry) (near_token_mappings n))"

definition chain_metadata_fits :: "ChainMetadata \<Rightarrow> bool" where
  "chain_metadata_fits m = pred_option fits_metadata_kind (chain_metadata_metadata m)"

text \<open>\<^verbatim>\<open>borsh::to_vec\<close> on the message; the library's error text is a parameter.\<close>

definition borsh_chain_metadata :: "(ChainMetadata \<Rightarrow> string) \<Rightarrow> ChainMetadata \<Rightarrow> (string, bytes) result" where
  "borsh_chain_metadata borsh_error m =
     (if chain_metadata_fits m then Inr (enc_chain_metadata m) else Inl (borsh_error m))"

section \<open>The encoding determines the message\<close>

text \<open>How prefix codes are combined: options, sequences after their length, and two in a row.\<close>

lemma prefix_code_option:
  assumes "prefix_code enc fits"
  shows "prefix_code (enc_option enc) (pred_option fits)"
proof
  fix a b :: "'a option" and r q
  assume "pred_option fits a" "pred_option fits b" "enc_option enc a @ r = enc_option enc b @ q"
  then show "a = b \<and> r = q"
    by (cases a; cases b) (simp_all add: enc_option_def prefix_code.front_iff [OF assms])
qed

lemma prefix_code_list:
  assumes "prefix_code enc fits"
  shows "prefix_code (enc_list enc) (fits_list fits)"
proof
  fix a b :: "'a list" and r q
  assume fits: "fits_list fits a" "fits_list fits b" and eq: "enc_list enc a @ r = enc_list enc b @ q"
  then have "le_bytes 4 (length a) = le_bytes 4 (length b)"
    and rest: "concat (map enc a) @ r = concat (map enc b) @ q"
    by (simp_all add: enc_list_def append_eq_append_conv)
  then have "length a = length b" using fits by (simp add: fits_list_def le_bytes_inject)
  then show "a = b \<and> r = q"
    using prefix_code.seq_front [OF assms] fits rest unfolding fits_list_def by blast
qed

lemma prefix_code_entry:
  assumes "prefix_code enc f" and "prefix_code enc' g"
  shows "prefix_code (enc_entry enc enc') (fits_entry f g)"
  by unfold_locales
    (auto simp: enc_entry_def fits_entry_def prod_eq_iff prefix_code.front_iff [OF assms(1)]
      prefix_code.front_iff [OF assms(2)])

interpretation string_code: prefix_code enc_string fits_string
  by unfold_locales (simp add: enc_string_def fits_string_def sized32.front_iff fits32_def inj_as_bytes)

interpretation string_opt: prefix_code "enc_option enc_string" "pred_option fits_string"
  by (rule prefix_code_option) unfold_locales

interpretation u32_opt: prefix_code "enc_option enc_u32" "\<lambda>_. True"
proof -
  have "prefix_code (enc_option enc_u32) (pred_option (\<lambda>_. True))"
    by (rule prefix_code_option) unfold_locales
  then show "prefix_code (enc_option enc_u32) (\<lambda>_. True)" by (simp add: option.pred_True)
qed

interpretation metadata_entries: prefix_code "enc_list enc_metadata_entry" "fits_list fits_metadata_entry"
  by (rule prefix_code_list, unfold_locales)
    (simp add: enc_metadata_entry_def fits_metadata_entry_def string_code.front_iff)

interpretation signature_opt: prefix_code "enc_option enc_signature_metadata" "pred_option fits_signature_metadata"
  by (rule prefix_code_option, unfold_locales)
    (simp add: enc_signature_metadata_def fits_signature_metadata_def string_code.front_iff
      metadata_entries.front_iff)

lemmas metadata_fronts = string_code.front_iff string_opt.front_iff u32_opt.front_iff signature_opt.front_iff

interpretation abi_code: prefix_code enc_abi fits_abi
  by unfold_locales (simp add: enc_abi_def fits_abi_def metadata_fronts)

interpretation idl_code: prefix_code enc_idl fits_idl
  by unfold_locales (simp add: enc_idl_def fits_idl_def metadata_fronts)

interpretation idl_opt: prefix_code "enc_option enc_idl" "pred_option fits_idl"
  by (rule prefix_code_option) unfold_locales

interpretation token_code: prefix_code enc_token_entry fits_token_entry
  by unfold_locales (simp add: enc_token_entry_def fits_token_entry_def metadata_fronts)

interpretation abi_map: prefix_code "enc_list (enc_entry enc_string enc_abi)"
  "fits_list (fits_entry fits_string fits_abi)"
  by (intro prefix_code_list prefix_code_entry) unfold_locales

interpretation idl_map: prefix_code "enc_list (enc_entry enc_string enc_idl)"
  "fits_list (fits_entry fits_string fits_idl)"
  by (intro prefix_code_list prefix_code_entry) unfold_locales

interpretation token_map: prefix_code "enc_list (enc_entry enc_string enc_token_entry)"
  "fits_list (fits_entry fits_string fits_token_entry)"
  by (intro prefix_code_list prefix_code_entry) unfold_locales

lemmas metadata_map_fronts = metadata_fronts idl_opt.front_iff abi_map.front_iff idl_map.front_iff
  token_map.front_iff

interpretation metadata_kind: prefix_code enc_metadata_kind fits_metadata_kind
proof
  fix a b r q
  assume "fits_metadata_kind a" "fits_metadata_kind b" "enc_metadata_kind a @ r = enc_metadata_kind b @ q"
  then show "a = b \<and> r = q"
    by (cases a; cases b) (simp_all add: enc_ethereum_metadata_def enc_solana_metadata_def
        enc_near_metadata_def metadata_map_fronts)
qed

interpretation metadata_opt: prefix_code "enc_option enc_metadata_kind" "pred_option fits_metadata_kind"
  by (rule prefix_code_option) unfold_locales

lemma enc_chain_metadata_inject:
  "chain_metadata_fits a \<Longrightarrow> chain_metadata_fits b \<Longrightarrow> enc_chain_metadata a = enc_chain_metadata b \<longleftrightarrow> a = b"
  by (cases a; cases b) (simp add: enc_chain_metadata_def chain_metadata_fits_def metadata_opt.enc_inject)

lemma enc_chain_metadata_ne: "enc_chain_metadata m \<noteq> []"
  by (simp add: enc_chain_metadata_def enc_option_def split: option.split)

end
