(* ===== verification/Registry.thy ===== *)
theory Registry
  imports PayloadFacts ChainMeta "HOL-Library.Multiset"
begin

text \<open>
  \<^verbatim>\<open>visualsign/src/vsptrait.rs\<close> and \<^verbatim>\<open>visualsign/src/registry.rs\<close>: options and conversion results,
  the converter traits with their default methods, the registry of type-erased converters and
  the layered registry. A trait object is a record of its methods. The iteration order of the
  registry's \<^verbatim>\<open>HashMap\<close> is not specified: \<open>auto_detect_and_convert\<close> takes it as the function
  \<open>iter\<close> from the stored entries to the entries in the order of iteration.
\<close>

section \<open>Conversion\<close>

record DeveloperConfig =
  allow_signed_transactions :: bool

record VisualSignOptions =
  decode_transfers :: bool
  transaction_name :: "string option"
  metadata :: "ChainMetadata option"
  developer_config :: "DeveloperConfig option"
  include_intermediate_output :: bool

record ConversionResult =
  result_payload :: SignablePayload
  result_intermediate_output :: "bytes option"

definition conversion_new :: "SignablePayload \<Rightarrow> ConversionResult" where
  "conversion_new p = \<lparr>result_payload = p, result_intermediate_output = None\<rparr>"

definition with_intermediate :: "SignablePayload \<Rightarrow> bytes \<Rightarrow> ConversionResult" where
  "with_intermediate p out = \<lparr>result_payload = p, result_intermediate_output = Some out\<rparr>"

text \<open>A converter for transactions of type \<open>'t\<close>, with the parser of that transaction type.\<close>

record 't Converter =
  from_string :: "string \<Rightarrow> (TransactionParseError, 't) result"
  to_visual_sign_payload :: "'t \<Rightarrow> VisualSignOptions \<Rightarrow> (VisualSignError, ConversionResult) result"

definition to_validated_visual_sign_payload ::
  "bool \<Rightarrow> (completeness_error \<Rightarrow> string) \<Rightarrow> 't Converter \<Rightarrow> 't \<Rightarrow> VisualSignOptions
    \<Rightarrow> (VisualSignError, ConversionResult) result" where
  "to_validated_visual_sign_payload po describe c transaction options =
     and_then (to_visual_sign_payload c transaction options) (\<lambda>r.
       and_then (validate_charset po describe (result_payload r)) (\<lambda>_. Inr r))"

definition to_visual_sign_payload_from_string ::
  "bool \<Rightarrow> (completeness_error \<Rightarrow> string) \<Rightarrow> 't Converter \<Rightarrow> string \<Rightarrow> VisualSignOptions
    \<Rightarrow> (VisualSignError, ConversionResult) result" where
  "to_visual_sign_payload_from_string po describe c data options =
     and_then (map_err ParseError (from_string c data)) (\<lambda>transaction.
       to_validated_visual_sign_payload po describe c transaction options)"

section \<open>Chains\<close>

datatype Chain =
    Unspecified | Solana | Ethereum | Bitcoin | Sui | Aptos | Polkadot | Tron | Near
  | Custom string

fun chain_as_str :: "Chain \<Rightarrow> string" where
  "chain_as_str Unspecified = ''Unspecified''"
| "chain_as_str Solana = ''Solana''"
| "chain_as_str Ethereum = ''Ethereum''"
| "chain_as_str Bitcoin = ''Bitcoin''"
| "chain_as_str Sui = ''Sui''"
| "chain_as_str Aptos = ''Aptos''"
| "chain_as_str Polkadot = ''Polkadot''"
| "chain_as_str Tron = ''Tron''"
| "chain_as_str Near = ''Near''"
| "chain_as_str (Custom name) = name"

definition chain_from_str :: "string \<Rightarrow> (unit, Chain) result" where
  "chain_from_str s = Inr
     (let l = to_lowercase s
      in if l = ''unspecified'' then Unspecified
         else if l = ''solana'' then Solana
         else if l = ''ethereum'' then Ethereum
         else if l = ''bitcoin'' then Bitcoin
         else if l = ''sui'' then Sui
         else if l = ''aptos'' then Aptos
         else if l = ''polkadot'' then Polkadot
         else if l = ''tron'' then Tron
         else if l = ''near'' then Near
         else Custom s)"

section \<open>The registry\<close>

record ConverterAny =
  any_convert :: "string \<Rightarrow> VisualSignOptions \<Rightarrow> (VisualSignError, ConversionResult) result"
  any_supports_format :: "string \<Rightarrow> bool"

text \<open>
  \<^verbatim>\<open>ConverterWrapper\<close>: the converter's \<^verbatim>\<open>to_visual_sign_payload_from_string\<close>, which is the default
  method above or an override by the chain, behind the type-erased interface.
\<close>

definition wrap ::
  "(string \<Rightarrow> (TransactionParseError, 't) result)
    \<Rightarrow> (string \<Rightarrow> VisualSignOptions \<Rightarrow> (VisualSignError, ConversionResult) result) \<Rightarrow> ConverterAny" where
  "wrap parse convert =
     \<lparr>any_convert = convert, any_supports_format = (\<lambda>data. is_ok (parse data))\<rparr>"

definition wrap_default ::
  "bool \<Rightarrow> (completeness_error \<Rightarrow> string) \<Rightarrow> 't Converter \<Rightarrow> ConverterAny" where
  "wrap_default po describe c = wrap (from_string c) (to_visual_sign_payload_from_string po describe c)"

record TransactionConverterRegistry =
  converters :: "(Chain \<times> ConverterAny) list"

definition registry_new :: "TransactionConverterRegistry" where
  "registry_new = \<lparr>converters = []\<rparr>"

definition register ::
  "TransactionConverterRegistry \<Rightarrow> Chain \<Rightarrow> ConverterAny \<Rightarrow> TransactionConverterRegistry" where
  "register reg chain c = reg\<lparr>converters := ix_insert chain c (converters reg)\<rparr>"

definition get_converter :: "TransactionConverterRegistry \<Rightarrow> Chain \<Rightarrow> ConverterAny option" where
  "get_converter reg chain = map_of (converters reg) chain"

definition convert_transaction ::
  "TransactionConverterRegistry \<Rightarrow> Chain \<Rightarrow> string \<Rightarrow> VisualSignOptions
    \<Rightarrow> (VisualSignError, ConversionResult) result" where
  "convert_transaction reg chain data options =
     (case get_converter reg chain of
        Some c \<Rightarrow> any_convert c data options
      | None \<Rightarrow> Inl (ConversionError (''No converter registered for chain: '' @ chain_as_str chain)))"

fun try_converters ::
  "(Chain \<times> ConverterAny) list \<Rightarrow> string \<Rightarrow> VisualSignOptions
    \<Rightarrow> (VisualSignError, Chain \<times> ConversionResult) result" where
  "try_converters [] data options =
     Inl (ConversionError ''Could not detect transaction type or no compatible converter found'')"
| "try_converters ((chain, c) # es) data options =
     (if any_supports_format c data
      then (case any_convert c data options of
              Inr r \<Rightarrow> Inr (chain, r)
            | Inl e \<Rightarrow> try_converters es data options)
      else try_converters es data options)"

definition auto_detect_and_convert ::
  "((Chain \<times> ConverterAny) list \<Rightarrow> (Chain \<times> ConverterAny) list)
    \<Rightarrow> TransactionConverterRegistry \<Rightarrow> string \<Rightarrow> VisualSignOptions
    \<Rightarrow> (VisualSignError, Chain \<times> ConversionResult) result" where
  "auto_detect_and_convert iter reg data options = try_converters (iter (converters reg)) data options"

definition supported_chains ::
  "((Chain \<times> ConverterAny) list \<Rightarrow> (Chain \<times> ConverterAny) list)
    \<Rightarrow> TransactionConverterRegistry \<Rightarrow> Chain list" where
  "supported_chains iter reg = map fst (iter (converters reg))"

section \<open>Layered registry\<close>

record 'r LayeredRegistry =
  layer_request :: "'r option"
  layer_global :: 'r

definition layered_new :: "'r \<Rightarrow> 'r LayeredRegistry" where
  "layered_new g = \<lparr>layer_request = None, layer_global = g\<rparr>"

definition with_request :: "'r \<Rightarrow> 'r \<Rightarrow> 'r LayeredRegistry" where
  "with_request g r = \<lparr>layer_request = Some r, layer_global = g\<rparr>"

definition lookup :: "'r LayeredRegistry \<Rightarrow> ('r \<Rightarrow> 't option) \<Rightarrow> 't option" where
  "lookup l f =
     (case layer_request l of
        Some r \<Rightarrow> (case f r of Some x \<Rightarrow> Some x | None \<Rightarrow> f (layer_global l))
      | None \<Rightarrow> f (layer_global l))"

definition lookup_result :: "'r LayeredRegistry \<Rightarrow> ('r \<Rightarrow> ('e, 't) result) \<Rightarrow> ('e, 't) result" where
  "lookup_result l f =
     (case layer_request l of
        Some r \<Rightarrow> (let res = f r in if is_ok res then res else f (layer_global l))
      | None \<Rightarrow> f (layer_global l))"

section \<open>Facts\<close>

text \<open>The default conversion only ever returns payloads that pass the charset check.\<close>

lemma from_string_validated:
  "to_visual_sign_payload_from_string po describe c data options = Inr r \<Longrightarrow>
     validate_charset po describe (result_payload r) = Inr ()"
  by (auto simp: to_visual_sign_payload_from_string_def to_validated_visual_sign_payload_def and_then_Inr_iff)

text \<open>
  Invariant of a registry: one entry per chain, and every stored converter returns only
  payloads that satisfy \<open>ok\<close>. Registering a converter with the default conversion keeps it for
  the charset check.
\<close>

definition registry_inv :: "(SignablePayload \<Rightarrow> bool) \<Rightarrow> TransactionConverterRegistry \<Rightarrow> bool" where
  "registry_inv ok reg \<longleftrightarrow> distinct (map fst (converters reg))
     \<and> (\<forall>(chain, c)\<in>set (converters reg). \<forall>data options r.
          any_convert c data options = Inr r \<longrightarrow> ok (result_payload r))"

lemma registry_inv_new: "registry_inv ok registry_new"
  by (simp add: registry_inv_def registry_new_def)

lemma registry_inv_register:
  assumes "registry_inv ok reg"
    and "\<And>data options r. any_convert c data options = Inr r \<Longrightarrow> ok (result_payload r)"
  shows "registry_inv ok (register reg chain c)"
proof -
  have "set (ix_insert chain c (converters reg)) \<subseteq> insert (chain, c) (set (converters reg))"
    by (rule set_ix_insert_subset)
  with assms show ?thesis
    by (fastforce simp: registry_inv_def register_def distinct_ix_insert)
qed

lemma get_converter_register:
  "get_converter (register reg chain c) = (get_converter reg)(chain \<mapsto> c)"
  by (simp add: get_converter_def [abs_def] register_def map_of_ix_insert)

lemma convert_transaction_Inr:
  "convert_transaction reg chain data options = Inr r \<longleftrightarrow>
     (\<exists>c. get_converter reg chain = Some c \<and> any_convert c data options = Inr r)"
  by (auto simp: convert_transaction_def split: option.splits)

lemma convert_transaction_inv:
  "registry_inv ok reg \<Longrightarrow> convert_transaction reg chain data options = Inr r \<Longrightarrow> ok (result_payload r)"
  by (fastforce simp: convert_transaction_Inr registry_inv_def get_converter_def dest: map_of_SomeD)

definition accepts ::
  "string \<Rightarrow> VisualSignOptions \<Rightarrow> Chain \<times> ConverterAny \<Rightarrow> bool" where
  "accepts data options e =
     (any_supports_format (snd e) data \<and> is_ok (any_convert (snd e) data options))"

lemma try_converters_Inr:
  "try_converters es data options = Inr (chain, r) \<Longrightarrow>
     \<exists>c. (chain, c) \<in> set es \<and> any_supports_format c data \<and> any_convert c data options = Inr r"
  by (induction es data options rule: try_converters.induct) (auto split: if_splits sum.splits)

lemma try_converters_ok:
  "is_ok (try_converters es data options) \<longleftrightarrow> (\<exists>e\<in>set es. accepts data options e)"
  by (induction es data options rule: try_converters.induct)
    (auto simp: accepts_def split: sum.splits)

lemma try_converters_unique:
  assumes "filter (accepts data options) es = [(chain, c)]" and "any_convert c data options = Inr r"
  shows "try_converters es data options = Inr (chain, r)"
  using assms
  by (induction es data options rule: try_converters.induct)
    (auto simp: accepts_def split: if_splits sum.splits)

lemma lookup_Some:
  "lookup l f = Some x \<longleftrightarrow>
     (\<exists>r. layer_request l = Some r \<and> f r = Some x)
     \<or> ((\<forall>r. layer_request l = Some r \<longrightarrow> f r = None) \<and> f (layer_global l) = Some x)"
  by (auto simp: lookup_def split: option.splits)

lemma chain_roundtrip_known:
  "(\<forall>n. c \<noteq> Custom n) \<Longrightarrow> chain_from_str (chain_as_str c) = Inr c"
  by (cases c) (simp_all add: chain_from_str_def to_ascii_lowercase_char_def code_def Let_def char_of_def bit_0)

section \<open>Properties\<close>

text \<open>Registering a converter replaces the chain's converter and leaves every other chain's
  conversions unchanged; a chain without a converter is an error that names it.\<close>

lemma register_convert:
  "convert_transaction (register reg chain c) chain' data options =
     (if chain' = chain then any_convert c data options else convert_transaction reg chain' data options)
   \<and> convert_transaction registry_new chain' data options =
       Inl (ConversionError (''No converter registered for chain: '' @ chain_as_str chain'))"
  by (simp add: convert_transaction_def get_converter_register) (simp add: get_converter_def registry_new_def)

text \<open>Whatever a converter with the default conversion returns through the registry has passed
  the charset check.\<close>

lemma default_conversion_validated:
  assumes "convert_transaction (register reg chain (wrap_default po describe c)) chain data options = Inr r"
  shows "validate_charset po describe (result_payload r) = Inr ()"
  using assms
  by (simp add: convert_transaction_def get_converter_register wrap_default_def wrap_def from_string_validated)

definition sample_payload :: SignablePayload where
  "sample_payload =
     \<lparr>payload_fields = [TextV2 \<lparr>fallback_text = ''Hi'', label = ''Memo''\<rparr> \<lparr>text_v2_text = ''Hi''\<rparr>],
      payload_payload_type = ''Tx'', payload_subtitle = None, payload_title = ''Transfer'',
      payload_version = ''0''\<rparr>"

lemma sample_payload_safe: "list_all safe_text (payload_strings sample_payload)"
  by (simp add: sample_payload_def payload_strings_def safe_text_def safe_char_def code_def)

definition sample_converter :: "unit Converter" where
  "sample_converter =
     \<lparr>from_string = (\<lambda>s. if s = [] then Inl (InvalidFormat ''empty'') else Inr ()),
      to_visual_sign_payload = (\<lambda>_ _. Inr (conversion_new sample_payload))\<rparr>"

definition sample_options :: "VisualSignOptions" where
  "sample_options = \<lparr>decode_transfers = True, transaction_name = None, metadata = None,
     developer_config = None, include_intermediate_output = False\<rparr>"

lemma sample_conversion:
  "convert_transaction (register registry_new Solana (wrap_default po describe sample_converter)) Solana ''AA'' sample_options
     = Inr (conversion_new sample_payload)"
  by (simp add: convert_transaction_def get_converter_register wrap_default_def wrap_def sample_converter_def
      to_visual_sign_payload_from_string_def to_validated_visual_sign_payload_def conversion_new_def
      validate_charset_safe [THEN iffD2, OF sample_payload_safe])

text \<open>Automatic detection succeeds exactly when some registered converter recognises and converts
  the data, and then returns such a converter's chain and result, in whatever order the hash map
  is iterated; when exactly one converter accepts, every iteration order gives that one's result.\<close>

lemma auto_detect_exact:
  assumes "mset (iter (converters reg)) = mset (converters reg)"
  shows "(is_ok (auto_detect_and_convert iter reg data options)
       \<longleftrightarrow> (\<exists>e\<in>set (converters reg). accepts data options e))
     \<and> (\<forall>chain r. auto_detect_and_convert iter reg data options = Inr (chain, r) \<longrightarrow>
          (\<exists>c. (chain, c) \<in> set (converters reg) \<and> any_supports_format c data
             \<and> any_convert c data options = Inr r))
     \<and> (\<forall>chain c r. filter (accepts data options) (converters reg) = [(chain, c)] \<longrightarrow>
          any_convert c data options = Inr r \<longrightarrow>
          auto_detect_and_convert iter reg data options = Inr (chain, r))"
proof (intro conjI allI impI)
  have s: "set (iter (converters reg)) = set (converters reg)" using assms by (rule mset_eq_setD)
  then show "is_ok (auto_detect_and_convert iter reg data options)
      \<longleftrightarrow> (\<exists>e\<in>set (converters reg). accepts data options e)"
    by (simp add: auto_detect_and_convert_def try_converters_ok)
  show "\<exists>c. (chain, c) \<in> set (converters reg) \<and> any_supports_format c data \<and> any_convert c data options = Inr r"
    if "auto_detect_and_convert iter reg data options = Inr (chain, r)" for chain r
    using try_converters_Inr [OF that [unfolded auto_detect_and_convert_def]] s by simp
  show "auto_detect_and_convert iter reg data options = Inr (chain, r)"
    if one: "filter (accepts data options) (converters reg) = [(chain, c)]"
      and conv: "any_convert c data options = Inr r" for chain c r
  proof -
    have "mset (filter (accepts data options) (iter (converters reg))) = {#(chain, c)#}"
      unfolding mset_filter assms unfolding mset_filter [symmetric] one by simp
    then have "filter (accepts data options) (iter (converters reg)) = [(chain, c)]"
      by (simp del: mset_filter)
    from try_converters_unique [OF this conv] show ?thesis by (simp add: auto_detect_and_convert_def)
  qed
qed

text \<open>The request layer wins wherever it answers, and the global layer answers otherwise; a
  fallible lookup returns the first success and otherwise the global layer's error.\<close>

lemma layered_precedence:
  "lookup (with_request g r) f = (case f r of Some x \<Rightarrow> Some x | None \<Rightarrow> f g)
   \<and> lookup (layered_new g) f = f g
   \<and> lookup_result (with_request g r) h = (case h r of Inr x \<Rightarrow> Inr x | Inl _ \<Rightarrow> h g)
   \<and> lookup_result (layered_new g) h = h g
   \<and> (lookup l f = None \<longleftrightarrow> f (layer_global l) = None \<and> (case layer_request l of None \<Rightarrow> True | Some q \<Rightarrow> f q = None))"
  by (auto simp: lookup_def lookup_result_def with_request_def layered_new_def Let_def
      split: option.splits sum.splits)

text \<open>A chain's name parses back to the chain, except for a custom chain whose name is a known
  chain's name up to case, which parses to that chain instead.\<close>

lemma chain_name_roundtrip:
  "chain_from_str (chain_as_str c) = Inr c \<longleftrightarrow>
     (case c of Custom n \<Rightarrow> to_lowercase n \<notin> set [''unspecified'', ''solana'', ''ethereum'', ''bitcoin'', ''sui'',
        ''aptos'', ''polkadot'', ''tron'', ''near''] | _ \<Rightarrow> True)"
  using chain_roundtrip_known [of c]
  by (cases c) (simp_all add: chain_from_str_def Let_def)

end
