(* ===== verification/Encodings.thy ===== *)
theory Encodings
  imports Prelude
begin

text \<open>
  \<^verbatim>\<open>visualsign/src/encodings.rs\<close>: encoding detection and hexadecimal input. The \<^verbatim>\<open>hex\<close> crate is
  the parameter \<open>hex_decode\<close>; its error type is the type variable \<open>'e\<close>, and \<open>show_hex\<close> renders
  it.
\<close>

datatype SupportedEncodings = Base64 | Hex

definition strip_hex_prefix :: "string \<Rightarrow> string" where
  "strip_hex_prefix v =
     (case strip_prefix ''0x'' v of
        Some s \<Rightarrow> s
      | None \<Rightarrow> (case strip_prefix ''0X'' v of Some s \<Rightarrow> s | None \<Rightarrow> v))"

definition split_hex_prefix :: "string \<Rightarrow> string option" where
  "split_hex_prefix v =
     (case strip_prefix ''0x'' v of Some s \<Rightarrow> Some s | None \<Rightarrow> strip_prefix ''0X'' v)"

definition detect :: "string \<Rightarrow> SupportedEncodings" where
  "detect data = (if list_all is_ascii_hexdigit (strip_hex_prefix data) then Hex else Base64)"

fun encoding_as_str :: "SupportedEncodings \<Rightarrow> string" where
  "encoding_as_str Base64 = ''base64''"
| "encoding_as_str Hex = ''hex''"

definition encoding_from_str :: "string \<Rightarrow> (string, SupportedEncodings) result" where
  "encoding_from_str s =
     (if to_lowercase s = ''base64'' then Inr Base64
      else if to_lowercase s = ''hex'' then Inr Hex
      else Inl (''Unsupported encoding format: '' @ s @ ''. Supported formats are: base64, hex''))"

definition decode_hex :: "(string \<Rightarrow> ('e, bytes) result) \<Rightarrow> string \<Rightarrow> ('e, bytes) result" where
  "decode_hex hex_decode v = hex_decode (strip_hex_prefix v)"

datatype 'e DecodeHexArrayError = HexErr 'e | LengthErr (expected: nat) (got: nat)

fun display_hex_array_error :: "('e \<Rightarrow> string) \<Rightarrow> 'e DecodeHexArrayError \<Rightarrow> string" where
  "display_hex_array_error show_hex (HexErr e) = ''hex: '' @ show_hex e"
| "display_hex_array_error show_hex (LengthErr n g) =
     ''length: expected '' @ nat_str n @ '' bytes, got '' @ nat_str g"

definition decode_hex_array ::
  "(string \<Rightarrow> ('e, bytes) result) \<Rightarrow> nat \<Rightarrow> string \<Rightarrow> ('e DecodeHexArrayError, bytes) result" where
  "decode_hex_array hex_decode n v =
     and_then (map_err HexErr (decode_hex hex_decode v)) (\<lambda>bs.
       if length bs = n then Inr bs else Inl (LengthErr n (length bs)))"

section \<open>Facts\<close>

lemma strip_hex_prefix_split:
  "strip_hex_prefix v = unwrap_or v (split_hex_prefix v)"
  by (simp add: strip_hex_prefix_def split_hex_prefix_def unwrap_or_def split: option.split)

lemma strip_prefix_Cons_simps [simp]:
  "strip_prefix (a # p) (b # s) = (if a = b then strip_prefix p s else None)"
  "strip_prefix (a # p) [] = None" "strip_prefix [] s = Some s"
  by (auto simp: strip_prefix_def)

lemma split_hex_prefix_Some:
  "split_hex_prefix v = Some s \<longleftrightarrow> v = ''0x'' @ s \<or> v = ''0X'' @ s"
  unfolding split_hex_prefix_def
  by (cases v; cases "tl v") auto

lemma split_hex_prefix_hexdigits:
  "list_all is_ascii_hexdigit s \<Longrightarrow> split_hex_prefix s = None"
  by (cases "split_hex_prefix s")
    (auto simp: split_hex_prefix_Some is_ascii_hexdigit_def is_ascii_digit_def code_def)

text \<open>Both spellings of the prefix, and no prefix, decode a hexadecimal body alike.\<close>

lemma strip_hex_prefix_body:
  assumes "list_all is_ascii_hexdigit s"
  shows "strip_hex_prefix s = s" and "strip_hex_prefix (''0x'' @ s) = s"
    and "strip_hex_prefix (''0X'' @ s) = s"
  using split_hex_prefix_hexdigits [OF assms] by (simp_all add: strip_hex_prefix_split split_hex_prefix_def)

lemma detect_Hex_iff:
  "detect v = Hex \<longleftrightarrow> (\<exists>s. list_all is_ascii_hexdigit s \<and> v \<in> {s, ''0x'' @ s, ''0X'' @ s})"
proof
  assume "detect v = Hex"
  then have "list_all is_ascii_hexdigit (strip_hex_prefix v)" by (simp add: detect_def split: if_splits)
  moreover have "v \<in> {strip_hex_prefix v, ''0x'' @ strip_hex_prefix v, ''0X'' @ strip_hex_prefix v}"
  proof (cases "split_hex_prefix v")
    case (Some s)
    then show ?thesis
      using split_hex_prefix_Some [of v s] by (simp add: strip_hex_prefix_split)
  qed (simp add: strip_hex_prefix_split)
  ultimately show "\<exists>s. list_all is_ascii_hexdigit s \<and> v \<in> {s, ''0x'' @ s, ''0X'' @ s}" by blast
next
  assume "\<exists>s. list_all is_ascii_hexdigit s \<and> v \<in> {s, ''0x'' @ s, ''0X'' @ s}"
  then show "detect v = Hex" by (auto simp: detect_def strip_hex_prefix_body simp del: append.simps)
qed

lemma encoding_roundtrip: "encoding_from_str (encoding_as_str e) = Inr e"
  by (cases e) (simp_all add: encoding_from_str_def to_ascii_lowercase_char_def code_def)

text \<open>A fixed-size decode returns exactly \<open>n\<close> bytes, or says which of the two checks failed.\<close>

lemma decode_hex_array_iff:
  "decode_hex_array hex_decode n v = Inr bs
     \<longleftrightarrow> hex_decode (strip_hex_prefix v) = Inr bs \<and> length bs = n"
  "decode_hex_array hex_decode n v = Inl (HexErr e) \<longleftrightarrow> hex_decode (strip_hex_prefix v) = Inl e"
  "decode_hex_array hex_decode n v = Inl (LengthErr m g)
     \<longleftrightarrow> (\<exists>bs. hex_decode (strip_hex_prefix v) = Inr bs \<and> length bs = g \<and> g \<noteq> n \<and> m = n)"
  by (cases "hex_decode (strip_hex_prefix v)"; auto simp: decode_hex_array_def decode_hex_def)+

section \<open>Properties\<close>

text \<open>A string is detected as hexadecimal exactly when it is hexadecimal digits with an optional
  \<^verbatim>\<open>0x\<close> or \<^verbatim>\<open>0X\<close> in front; anything else is taken as base64.\<close>

lemma detect_exact:
  "detect v = Hex \<longleftrightarrow> (\<exists>s. list_all is_ascii_hexdigit s \<and> v \<in> {s, ''0x'' @ s, ''0X'' @ s})"
  by (rule detect_Hex_iff)

text \<open>A fixed-size decode succeeds exactly when the body decodes to \<open>n\<close> bytes, returns those
  bytes, and otherwise reports the failed decode or the two lengths.\<close>

lemma decode_array_exact:
  "decode_hex_array hex_decode n v =
     (case hex_decode (strip_hex_prefix v) of
        Inl e \<Rightarrow> Inl (HexErr e)
      | Inr bs \<Rightarrow> if length bs = n then Inr bs else Inl (LengthErr n (length bs)))
   \<and> (decode_hex_array hex_decode n v = Inr out \<longleftrightarrow>
        hex_decode (strip_hex_prefix v) = Inr out \<and> length out = n)"
  by (cases "hex_decode (strip_hex_prefix v)") (auto simp: decode_hex_array_def decode_hex_def)

end
