(* ===== verification/EthNetworks.thy ===== *)
theory EthNetworks
  imports StdText ChainMeta
begin

text \<open>
  \<^verbatim>\<open>chain_parsers/visualsign-ethereum/src/networks.rs\<close>: the table of networks that the macro
  \<^verbatim>\<open>define_networks!\<close> is invoked with, and the lookups it generates. A generated \<^verbatim>\<open>match\<close> takes the
  first arm that fits, a generated chain of \<^verbatim>\<open>if\<close>s the first test that holds: both are \<open>find\<close>.
\<close>

datatype network =
  Network (net_chain: string) (net_network: string) (net_id: u64) (net_display: string) (net_symbol: string)

definition networks :: "network list" where
  "networks =
     [Network ''ethereum'' ''MAINNET'' 1 ''Ethereum Mainnet'' ''ETH'',
      Network ''ethereum'' ''SEPOLIA'' 11155111 ''Ethereum Sepolia'' ''ETH'',
      Network ''ethereum'' ''GOERLI'' 5 ''Ethereum Goerli (deprecated)'' ''ETH'',
      Network ''ethereum'' ''HOLESKY'' 17000 ''Ethereum Holesky'' ''ETH'',
      Network ''bsc'' ''MAINNET'' 56 ''BNB Smart Chain Mainnet'' ''BNB'',
      Network ''bsc'' ''TESTNET'' 97 ''BNB Smart Chain Testnet'' ''BNB'',
      Network ''polygon'' ''MAINNET'' 137 ''Polygon Mainnet'' ''POL'',
      Network ''polygon'' ''AMOY'' 80002 ''Polygon Amoy'' ''POL'',
      Network ''avalanche'' ''MAINNET'' 43114 ''Avalanche C-Chain'' ''AVAX'',
      Network ''avalanche'' ''FUJI'' 43113 ''Avalanche Fuji Testnet'' ''AVAX'',
      Network ''fantom'' ''MAINNET'' 250 ''Fantom Opera'' ''FTM'',
      Network ''gnosis'' ''MAINNET'' 100 ''Gnosis Chain'' ''XDAI'',
      Network ''celo'' ''MAINNET'' 42220 ''Celo Mainnet'' ''CELO'',
      Network ''celo'' ''ALFAJORES'' 44787 ''Celo Alfajores Testnet'' ''CELO'',
      Network ''optimism'' ''MAINNET'' 10 ''OP Mainnet'' ''ETH'',
      Network ''optimism'' ''SEPOLIA'' 11155420 ''OP Sepolia'' ''ETH'',
      Network ''arbitrum'' ''MAINNET'' 42161 ''Arbitrum One'' ''ETH'',
      Network ''arbitrum'' ''SEPOLIA'' 421614 ''Arbitrum Sepolia'' ''ETH'',
      Network ''base'' ''MAINNET'' 8453 ''Base'' ''ETH'',
      Network ''base'' ''SEPOLIA'' 84532 ''Base Sepolia'' ''ETH'',
      Network ''blast'' ''MAINNET'' 81457 ''Blast'' ''ETH'',
      Network ''mantle'' ''MAINNET'' 5000 ''Mantle'' ''MNT'',
      Network ''worldchain'' ''MAINNET'' 480 ''World Chain'' ''ETH'',
      Network ''zksync'' ''MAINNET'' 324 ''zkSync Era'' ''ETH'',
      Network ''linea'' ''MAINNET'' 59144 ''Linea'' ''ETH'',
      Network ''scroll'' ''MAINNET'' 534352 ''Scroll'' ''ETH'',
      Network ''zora'' ''MAINNET'' 7777777 ''Zora'' ''ETH'',
      Network ''unichain'' ''MAINNET'' 130 ''Unichain'' ''ETH'']"

text \<open>\<^verbatim>\<open>concat!(stringify!($chain), "_", stringify!($network)).to_uppercase()\<close>\<close>

definition net_canonical :: "network \<Rightarrow> string" where
  "net_canonical n = to_uppercase (net_chain n @ ''_'' @ net_network n)"

definition get_network_name :: "u64 option \<Rightarrow> string" where
  "get_network_name chain_id =
     (case chain_id of
        Some c \<Rightarrow> (case find (\<lambda>n. net_id n = c) networks of
                     Some n \<Rightarrow> net_display n
                   | None \<Rightarrow> ''Unknown Network (Chain ID: '' @ nat_str (unat c) @ '')'')
      | None \<Rightarrow> ''Unknown Network'')"

definition get_fee_paying_asset_symbol :: "u64 \<Rightarrow> string option" where
  "get_fee_paying_asset_symbol c = map_option net_symbol (find (\<lambda>n. net_id n = c) networks)"

definition chain_id_to_network_id :: "u64 \<Rightarrow> string option" where
  "chain_id_to_network_id c = map_option net_canonical (find (\<lambda>n. net_id n = c) networks)"

definition network_id_to_chain_id :: "string \<Rightarrow> u64 option" where
  "network_id_to_chain_id network_id =
     (let input = to_uppercase network_id
      in map_option net_id (find (\<lambda>n. input = net_canonical n) networks))"

definition parse_network :: "string \<Rightarrow> string option" where
  "parse_network input =
     (case parse_unsigned 64 input of
        Some chain_id \<Rightarrow> chain_id_to_network_id (of_nat chain_id)
      | None \<Rightarrow>
          (case network_id_to_chain_id input of
             Some chain_id \<Rightarrow> chain_id_to_network_id chain_id
           | None \<Rightarrow> None))"

definition extract_chain_id_from_metadata :: "ChainMetadata option \<Rightarrow> u64 option" where
  "extract_chain_id_from_metadata chain_metadata =
     (case chain_metadata of
        None \<Rightarrow> None
      | Some m \<Rightarrow>
          (case chain_metadata_metadata m of
             Some (EthereumMeta e) \<Rightarrow>
               (case eth_network_id e of
                  None \<Rightarrow> None
                | Some network_id \<Rightarrow> network_id_to_chain_id network_id)
           | _ \<Rightarrow> None))"

section \<open>Facts\<close>

text \<open>No two networks share an id or a canonical name.\<close>

lemma networks_distinct: "distinct (map net_id networks)" "distinct (map net_canonical networks)"
  by (simp_all add: networks_def net_canonical_def to_uppercase_ascii is_ascii_def is_ascii_char_def
      to_ascii_uppercase_char_def code_def char_of_def bit_0 del: to_uppercase.simps)

lemma find_distinct_key:
  assumes "distinct (map f xs)"
  shows "find (\<lambda>x. f x = k) xs = Some x \<longleftrightarrow> x \<in> set xs \<and> f x = k"
  using assms
proof (induction xs)
  case (Cons y ys)
  then show ?case by (auto simp: image_iff)
qed simp

lemma find_distinct_key': "distinct (map f xs) \<Longrightarrow> find (\<lambda>x. k = f x) xs = Some x \<longleftrightarrow> x \<in> set xs \<and> k = f x"
  using find_distinct_key [of f xs k x] by (simp add: eq_commute)

lemma chain_id_to_network_id_Some:
  "chain_id_to_network_id c = Some s \<longleftrightarrow> (\<exists>n\<in>set networks. net_id n = c \<and> net_canonical n = s)"
  by (auto simp: chain_id_to_network_id_def find_distinct_key [OF networks_distinct(1)])

lemma network_id_to_chain_id_Some:
  "network_id_to_chain_id s = Some c \<longleftrightarrow> (\<exists>n\<in>set networks. net_id n = c \<and> net_canonical n = to_uppercase s)"
  by (auto simp: network_id_to_chain_id_def Let_def find_distinct_key' [OF networks_distinct(2)])

lemma canonical_names:
  "n \<in> set networks \<Longrightarrow> to_uppercase (net_canonical n) = net_canonical n
     \<and> net_canonical n \<noteq> [] \<and> 65 \<le> code (hd (net_canonical n))"
proof -
  have "list_all (\<lambda>n. to_uppercase (net_canonical n) = net_canonical n
     \<and> net_canonical n \<noteq> [] \<and> 65 \<le> code (hd (net_canonical n))) networks"
    by (simp add: networks_def net_canonical_def to_uppercase_ascii is_ascii_def is_ascii_char_def
        to_ascii_uppercase_char_def code_def char_of_def bit_0 del: to_uppercase.simps)
  then show "n \<in> set networks \<Longrightarrow> ?thesis" by (simp add: list_all_iff)
qed

lemma numeral_upper:
  assumes "parse_unsigned bits t = Some m"
  shows "to_uppercase t = t" and "t \<noteq> []" and "code (hd t) < 65"
proof -
  have chars: "list_all (\<lambda>c. code c < 65) t" and "t \<noteq> []"
    using assms by (auto simp: parse_unsigned_def Let_def is_ascii_digit_def list_all_iff code_def
        split: list.splits if_splits)
  then show "t \<noteq> []" "code (hd t) < 65" by (auto simp: list_all_iff)
  have "is_ascii t" using chars by (auto simp: is_ascii_def is_ascii_char_def list_all_iff)
  moreover have "map to_ascii_uppercase_char t = t"
    using chars by (auto simp: to_ascii_uppercase_char_def list_all_iff intro!: map_idI)
  ultimately show "to_uppercase t = t" by (simp add: to_uppercase_ascii)
qed

section \<open>Properties\<close>

text \<open>Chain ids and canonical network names are inverse to each other; names are read in any case;
  and the network argument of the command line is accepted exactly when it is the decimal id or,
  in any case, the name of a known network, which it is turned into.\<close>

lemma network_names_exact:
  "(chain_id_to_network_id c = Some s \<longleftrightarrow> network_id_to_chain_id s = Some c \<and> to_uppercase s = s)
   \<and> (network_id_to_chain_id t = Some c \<longleftrightarrow> chain_id_to_network_id c = Some (to_uppercase t))
   \<and> (parse_network t = Some s \<longleftrightarrow>
        (\<exists>i. chain_id_to_network_id i = Some s \<and> (parse_unsigned 64 t = Some (unat i) \<or> to_uppercase t = s)))"
proof (intro conjI)
  show "chain_id_to_network_id c = Some s \<longleftrightarrow> network_id_to_chain_id s = Some c \<and> to_uppercase s = s"
    unfolding chain_id_to_network_id_Some network_id_to_chain_id_Some using canonical_names by metis
  show names: "network_id_to_chain_id t = Some c \<longleftrightarrow> chain_id_to_network_id c = Some (to_uppercase t)" for t c
    unfolding chain_id_to_network_id_Some network_id_to_chain_id_Some ..
  have name: "chain_id_to_network_id i = Some s \<Longrightarrow> s \<noteq> [] \<and> 65 \<le> code (hd s)" for i s
    unfolding chain_id_to_network_id_Some using canonical_names by blast
  show "parse_network t = Some s \<longleftrightarrow>
      (\<exists>i. chain_id_to_network_id i = Some s \<and> (parse_unsigned 64 t = Some (unat i) \<or> to_uppercase t = s))"
  proof (cases "parse_unsigned 64 t")
    case (Some m)
    then have "m < 2 ^ 64" by (auto simp: parse_unsigned_def Let_def split: if_splits)
    then have "unat (of_nat m :: u64) = m" by (simp add: unat_of_nat)
    moreover have "chain_id_to_network_id i \<noteq> Some (to_uppercase t)" for i
      using numeral_upper [OF Some] name [of i "to_uppercase t"] by auto
    ultimately show ?thesis using Some by (auto simp: parse_network_def)
  next
    case None
    then have "parse_network t = Some s \<longleftrightarrow> (\<exists>i. network_id_to_chain_id t = Some i \<and> chain_id_to_network_id i = Some s)"
      by (auto simp: parse_network_def split: option.split)
    also have "\<dots> \<longleftrightarrow> (\<exists>i. chain_id_to_network_id i = Some s \<and> to_uppercase t = s)"
      unfolding names by auto
    finally show ?thesis using None by simp
  qed
qed

end
