(* ===== verification/AbiRegistry.thy ===== *)
theory AbiRegistry
  imports StdText "HOL-Library.Product_Lexorder"
begin

text \<open>
  \<^verbatim>\<open>chain_parsers/visualsign-ethereum/src/abi_registry.rs\<close> and \<^verbatim>\<open>embedded_abis.rs\<close>: the registry of
  contract ABIs, by name and by address. The parsed ABI of \<^verbatim>\<open>alloy_json_abi\<close> has the type \<open>'a\<close>
  here, its JSON parser and the parser of addresses are parameters. The maps are behind an
  \<^verbatim>\<open>Arc\<close> that every mutating caller owns alone, so a registry is a plain value. The abstract
  registry of the last section is a pair of partial maps; the operations refine it.
\<close>

type_synonym eth_address = bytes

datatype AbiKind = Implementation | Proxy

record AddressMapping =
  mapping_abi_name :: string
  mapping_abi_kind :: AbiKind
  mapping_implementation :: "eth_address option"

record 'a AbiRegistry =
  abis :: "(string \<times> 'a) list"
  address_mappings :: "((u64 \<times> eth_address) \<times> AddressMapping) list"

definition abi_registry_new :: "'a AbiRegistry" where
  "abi_registry_new = \<lparr>abis = [], address_mappings = []\<rparr>"

definition register_abi ::
  "(string \<Rightarrow> (string, 'a) result) \<Rightarrow> 'a AbiRegistry \<Rightarrow> string \<Rightarrow> string \<Rightarrow> (string, 'a AbiRegistry) result" where
  "register_abi parse_json_abi reg name abi_json =
     and_then (parse_json_abi abi_json) (\<lambda>abi. Inr (reg\<lparr>abis := bt_insert name abi (abis reg)\<rparr>))"

definition map_address_with_type ::
  "'a AbiRegistry \<Rightarrow> u64 \<Rightarrow> eth_address \<Rightarrow> string \<Rightarrow> AbiKind \<Rightarrow> eth_address option \<Rightarrow> 'a AbiRegistry" where
  "map_address_with_type reg chain_id address abi_name abi_kind implementation =
     reg\<lparr>address_mappings := bt_insert (chain_id, address)
       \<lparr>mapping_abi_name = abi_name, mapping_abi_kind = abi_kind, mapping_implementation = implementation\<rparr>
       (address_mappings reg)\<rparr>"

definition map_address :: "'a AbiRegistry \<Rightarrow> u64 \<Rightarrow> eth_address \<Rightarrow> string \<Rightarrow> 'a AbiRegistry" where
  "map_address reg chain_id address abi_name =
     map_address_with_type reg chain_id address abi_name Implementation None"

definition get_abi :: "'a AbiRegistry \<Rightarrow> string \<Rightarrow> 'a option" where
  "get_abi reg name = map_of (abis reg) name"

definition get_abi_for_address :: "'a AbiRegistry \<Rightarrow> u64 \<Rightarrow> eth_address \<Rightarrow> 'a option" where
  "get_abi_for_address reg chain_id address =
     (case map_of (address_mappings reg) (chain_id, address) of
        None \<Rightarrow> None
      | Some m \<Rightarrow> map_of (abis reg) (mapping_abi_name m))"

definition get_abi_kind :: "'a AbiRegistry \<Rightarrow> u64 \<Rightarrow> eth_address \<Rightarrow> AbiKind option" where
  "get_abi_kind reg chain_id address =
     map_option mapping_abi_kind (map_of (address_mappings reg) (chain_id, address))"

definition get_implementation_abi ::
  "'a AbiRegistry \<Rightarrow> u64 \<Rightarrow> eth_address \<Rightarrow> (eth_address \<times> 'a) option" where
  "get_implementation_abi reg chain_id proxy =
     (case map_of (address_mappings reg) (chain_id, proxy) of
        None \<Rightarrow> None
      | Some m \<Rightarrow>
          if mapping_abi_kind m \<noteq> Proxy then None
          else (case mapping_implementation m of
                  None \<Rightarrow> None
                | Some implementation \<Rightarrow>
                    map_option (Pair implementation) (get_abi_for_address reg chain_id implementation)))"

definition list_abis :: "'a AbiRegistry \<Rightarrow> string list" where
  "list_abis reg = map fst (abis reg)"

definition list_mappings_for_chain :: "'a AbiRegistry \<Rightarrow> u64 \<Rightarrow> (eth_address \<times> string) list" where
  "list_mappings_for_chain reg chain_id =
     map (\<lambda>((c, a), m). (a, mapping_abi_name m))
       (filter (\<lambda>((c, a), m). c = chain_id) (address_mappings reg))"

section \<open>Embedded ABIs\<close>

datatype AbiEmbeddingError = InvalidJson string | FileError string

fun display_embedding_error :: "AbiEmbeddingError \<Rightarrow> string" where
  "display_embedding_error (InvalidJson e) = ''Invalid ABI JSON: '' @ e"
| "display_embedding_error (FileError e) = ''Failed to read ABI file: '' @ e"

definition register_embedded_abi ::
  "(string \<Rightarrow> (string, 'a) result) \<Rightarrow> 'a AbiRegistry \<Rightarrow> string \<Rightarrow> string
    \<Rightarrow> (AbiEmbeddingError, 'a AbiRegistry) result" where
  "register_embedded_abi parse_json_abi reg name abi_json =
     map_err InvalidJson (register_abi parse_json_abi reg name abi_json)"

definition map_abi_address :: "'a AbiRegistry \<Rightarrow> u64 \<Rightarrow> eth_address \<Rightarrow> string \<Rightarrow> 'a AbiRegistry" where
  "map_abi_address reg chain_id address abi_name = map_address reg chain_id address abi_name"

definition parse_abi_address_mapping ::
  "(string \<Rightarrow> (string, eth_address) result) \<Rightarrow> string \<Rightarrow> (string \<times> eth_address) option" where
  "parse_abi_address_mapping parse_address mapping_str =
     (case split_once (CHR '':'') mapping_str of
        None \<Rightarrow> None
      | Some (abi_name, addr_str) \<Rightarrow>
          (case parse_address addr_str of Inl _ \<Rightarrow> None | Inr a \<Rightarrow> Some (abi_name, a)))"

definition load_abi_from_file ::
  "(string \<Rightarrow> (string, string) result) \<Rightarrow> (string \<Rightarrow> (string, 'a) result) \<Rightarrow> 'a AbiRegistry \<Rightarrow> string \<Rightarrow> string
    \<Rightarrow> (AbiEmbeddingError, 'a AbiRegistry) result" where
  "load_abi_from_file read_to_string parse_json_abi reg name file_path =
     and_then (map_err (\<lambda>e. FileError (file_path @ '': '' @ e)) (read_to_string file_path)) (\<lambda>abi_json.
       register_embedded_abi parse_json_abi reg name abi_json)"

text \<open>On a bad address the ABI stays registered by name: the registry is returned beside the outcome.\<close>

definition load_and_map_abi ::
  "(string \<Rightarrow> (string, string) result) \<Rightarrow> (string \<Rightarrow> (string, 'a) result)
    \<Rightarrow> (string \<Rightarrow> (string, eth_address) result) \<Rightarrow> 'a AbiRegistry \<Rightarrow> string \<Rightarrow> string \<Rightarrow> u64 \<Rightarrow> string
    \<Rightarrow> (string, unit) result \<times> 'a AbiRegistry" where
  "load_and_map_abi read_to_string parse_json_abi parse_address reg name file_path chain_id address_str =
     (case load_abi_from_file read_to_string parse_json_abi reg name file_path of
        Inl e \<Rightarrow> (Inl (display_embedding_error e), reg)
      | Inr reg' \<Rightarrow>
          (case parse_address address_str of
             Inl e \<Rightarrow> (Inl e, reg')
           | Inr address \<Rightarrow> (Inr (), map_address reg' chain_id address name)))"

section \<open>The abstract registry\<close>

definition abi_inv :: "'a AbiRegistry \<Rightarrow> bool" where
  "abi_inv reg = (ssorted (abis reg) \<and> ssorted (address_mappings reg))"

record 'a AbiSpec =
  spec_abis :: "string \<Rightarrow> 'a option"
  spec_mappings :: "u64 \<Rightarrow> eth_address \<Rightarrow> AddressMapping option"

definition abi_spec :: "'a AbiRegistry \<Rightarrow> 'a AbiSpec" where
  "abi_spec reg =
     \<lparr>spec_abis = map_of (abis reg), spec_mappings = (\<lambda>c a. map_of (address_mappings reg) (c, a))\<rparr>"

definition spec_abi_at :: "'a AbiSpec \<Rightarrow> u64 \<Rightarrow> eth_address \<Rightarrow> 'a option" where
  "spec_abi_at s c a = Option.bind (spec_mappings s c a) (\<lambda>m. spec_abis s (mapping_abi_name m))"

lemma abi_inv_new: "abi_inv abi_registry_new"
  by (simp add: abi_inv_def abi_registry_new_def)

lemma abi_inv_register:
  "register_abi p reg name json = Inr reg' \<Longrightarrow> abi_inv reg \<Longrightarrow> abi_inv reg'"
  by (auto simp: register_abi_def and_then_Inr_iff abi_inv_def ssorted_bt_insert)

lemma abi_inv_map: "abi_inv reg \<Longrightarrow> abi_inv (map_address_with_type reg c a n k i)"
  by (simp add: map_address_with_type_def abi_inv_def ssorted_bt_insert)

lemma register_abi_Inr:
  "abi_inv reg \<Longrightarrow> register_abi p reg name json = Inr reg' \<longleftrightarrow>
     (\<exists>abi. p json = Inr abi \<and> reg' = reg\<lparr>abis := bt_insert name abi (abis reg)\<rparr>)"
  by (auto simp: register_abi_def and_then_Inr_iff)

lemma abis_register: "abi_inv reg \<Longrightarrow> map_of (bt_insert n abi (abis reg)) = (map_of (abis reg))(n \<mapsto> abi)"
  by (simp add: abi_inv_def map_of_bt_insert)

lemma mappings_map:
  "abi_inv reg \<Longrightarrow> map_of (bt_insert k m (address_mappings reg)) = (map_of (address_mappings reg))(k \<mapsto> m)"
  by (simp add: abi_inv_def map_of_bt_insert)

text \<open>The representation is canonical: a registry is determined by its abstraction.\<close>

lemma ssorted_map_of_inject: "ssorted m \<Longrightarrow> ssorted n \<Longrightarrow> map_of m = map_of n \<Longrightarrow> m = n"
  by (rule ssorted_unique) (auto simp: map_of_inject_set ssorted_distinct)

lemma abi_spec_inject:
  assumes "abi_inv r" and "abi_inv r'" and "abi_spec r = abi_spec r'"
  shows "r = r'"
proof -
  have "map_of (abis r) = map_of (abis r')" and "map_of (address_mappings r) = map_of (address_mappings r')"
    using assms(3) by (auto simp: abi_spec_def fun_eq_iff)
  then have "abis r = abis r'" and "address_mappings r = address_mappings r'"
    using assms(1,2) by (auto simp: abi_inv_def intro: ssorted_map_of_inject)
  then show ?thesis by (cases r; cases r') simp
qed

lemma abi_spec_register:
  "abi_inv reg \<Longrightarrow> abi_spec (reg\<lparr>abis := bt_insert n abi (abis reg)\<rparr>)
     = (abi_spec reg)\<lparr>spec_abis := (spec_abis (abi_spec reg))(n \<mapsto> abi)\<rparr>"
  by (simp add: abi_spec_def abis_register)

lemma abi_inv_register': "abi_inv reg \<Longrightarrow> abi_inv (reg\<lparr>abis := bt_insert n abi (abis reg)\<rparr>)"
  by (simp add: abi_inv_def ssorted_bt_insert)

section \<open>Properties\<close>

text \<open>C33: the registry refines its abstract specification, a map of names and a map of addresses: every
  operation keeps the representation sorted and acts on the maps as an update, a rejected ABI
  changes nothing, and the lookups read the maps, a proxy's implementation one hop deep.\<close>

theorem abi_registry_refines:
  assumes "abi_inv reg"
  shows "abi_spec (abi_registry_new :: 'a AbiRegistry) = \<lparr>spec_abis = Map.empty, spec_mappings = (\<lambda>_ _. None)\<rparr>
    \<and> (register_abi p reg n json = Inr reg' \<longleftrightarrow>
         abi_inv reg' \<and> (\<exists>abi. p json = Inr abi
           \<and> abi_spec reg' = (abi_spec reg)\<lparr>spec_abis := (spec_abis (abi_spec reg))(n \<mapsto> abi)\<rparr>))
    \<and> abi_inv (map_address_with_type reg c a n k i)
    \<and> abi_spec (map_address_with_type reg c a n k i) =
        (abi_spec reg)\<lparr>spec_mappings := (\<lambda>c' a'. if c' = c \<and> a' = a
           then Some \<lparr>mapping_abi_name = n, mapping_abi_kind = k, mapping_implementation = i\<rparr>
           else spec_mappings (abi_spec reg) c' a')\<rparr>
    \<and> get_abi reg n = spec_abis (abi_spec reg) n
    \<and> get_abi_for_address reg c a = spec_abi_at (abi_spec reg) c a
    \<and> get_abi_kind reg c a = map_option mapping_abi_kind (spec_mappings (abi_spec reg) c a)
    \<and> (get_implementation_abi reg c a = Some (b, abi) \<longleftrightarrow>
         (\<exists>m. spec_mappings (abi_spec reg) c a = Some m \<and> mapping_abi_kind m = Proxy
            \<and> mapping_implementation m = Some b \<and> spec_abi_at (abi_spec reg) c b = Some abi))
    \<and> set (list_abis reg) = dom (spec_abis (abi_spec reg))"
proof (intro conjI)
  show "register_abi p reg n json = Inr reg' \<longleftrightarrow> abi_inv reg' \<and> (\<exists>abi. p json = Inr abi
      \<and> abi_spec reg' = (abi_spec reg)\<lparr>spec_abis := (spec_abis (abi_spec reg))(n \<mapsto> abi)\<rparr>)"
    using assms by (auto simp: register_abi_Inr abi_inv_register' abi_spec_register
        simp flip: abi_spec_register intro: abi_spec_inject [OF _ abi_inv_register'])
  show "abi_inv (map_address_with_type reg c a n k i)" using assms by (rule abi_inv_map)
  show "get_implementation_abi reg c a = Some (b, abi) \<longleftrightarrow>
      (\<exists>m. spec_mappings (abi_spec reg) c a = Some m \<and> mapping_abi_kind m = Proxy
        \<and> mapping_implementation m = Some b \<and> spec_abi_at (abi_spec reg) c b = Some abi)"
    by (auto simp: get_implementation_abi_def spec_abi_at_def abi_spec_def get_abi_for_address_def
        split: option.splits)
  show "get_abi_for_address reg c a = spec_abi_at (abi_spec reg) c a"
    by (simp add: get_abi_for_address_def spec_abi_at_def abi_spec_def split: option.split)
  show "abi_spec (map_address_with_type reg c a n k i) =
        (abi_spec reg)\<lparr>spec_mappings := (\<lambda>c' a'. if c' = c \<and> a' = a
           then Some \<lparr>mapping_abi_name = n, mapping_abi_kind = k, mapping_implementation = i\<rparr>
           else spec_mappings (abi_spec reg) c' a')\<rparr>"
    using assms by (auto simp: abi_spec_def map_address_with_type_def mappings_map fun_eq_iff)
qed (simp_all add: abi_spec_def abi_registry_new_def get_abi_def get_abi_kind_def list_abis_def dom_map_of_conv_image_fst)

theorem abi_registry_refines_witness:
  "abi_inv (map_address_with_type (abi_registry_new :: nat AbiRegistry) 1 [7] ''p'' Proxy (Some [8]))
   \<and> get_abi_kind (map_address_with_type (abi_registry_new :: nat AbiRegistry) 1 [7] ''p'' Proxy (Some [8])) 1 [7]
     = Some Proxy"
proof -
  let ?r = "map_address_with_type (abi_registry_new :: nat AbiRegistry) 1 [7] ''p'' Proxy (Some [8])"
  have "abi_inv ?r"
    by (rule abi_registry_refines [OF abi_inv_new, THEN conjunct2, THEN conjunct2, THEN conjunct1])
  then have "get_abi_kind ?r 1 [7] = map_option mapping_abi_kind (spec_mappings (abi_spec ?r) 1 [7])"
    by (simp only: abi_registry_refines [of ?r, THEN conjunct2, THEN conjunct2, THEN conjunct2, THEN conjunct2,
          THEN conjunct2, THEN conjunct2, THEN conjunct1])
  with \<open>abi_inv ?r\<close> show ?thesis by (simp add: abi_spec_def map_address_with_type_def abi_registry_new_def)
qed

end
