(* ===== verification/EthTx.thy ===== *)
theory EthTx
  imports Registry StdText Encodings EthNetworks AbiRegistry
begin

text \<open>
  Transactions of \<^verbatim>\<open>chain_parsers/visualsign-ethereum/src\<close>: the typed transaction with the accessors
  and decoders of \<^verbatim>\<open>lib.rs\<close> and the number formats of \<^verbatim>\<open>fmt.rs\<close>. Alloy, the \<^verbatim>\<open>hex\<close> and \<^verbatim>\<open>base64\<close>
  crates and serde's derived deserialiser are the record \<open>Alloy\<close>: a decoder returns the transaction
  and the bytes it left in the buffer.
\<close>

section \<open>Typed transactions\<close>

datatype TxKind = Create | Call eth_address

type_synonym access_list = "(eth_address \<times> bytes list) list"

record TxBase =
  tx_nonce :: u64
  tx_gas_limit :: u64
  tx_value :: "256 word"
  tx_input :: bytes

record TxLegacy = TxBase +
  legacy_chain_id :: "u64 option"
  legacy_gas_price :: "128 word"
  legacy_to :: TxKind

record TxEip2930 = TxBase +
  eip2930_chain_id :: u64
  eip2930_gas_price :: "128 word"
  eip2930_to :: TxKind
  eip2930_access_list :: access_list

record TxFees = TxBase +
  fee_chain_id :: u64
  max_fee_per_gas :: "128 word"
  max_priority_fee_per_gas :: "128 word"
  fee_access_list :: access_list

record TxEip1559 = TxFees +
  eip1559_to :: TxKind

record TxEip4844 = TxFees +
  eip4844_to :: eth_address

record TxEip7702 = TxFees +
  eip7702_to :: eth_address

text \<open>The sidecar of a blob transaction is never read.\<close>

datatype TxEip4844Variant = TxEip4844 TxEip4844 | TxEip4844WithSidecar TxEip4844

fun eip4844_tx :: "TxEip4844Variant \<Rightarrow> TxEip4844" where
  "eip4844_tx (TxEip4844 t) = t"
| "eip4844_tx (TxEip4844WithSidecar t) = t"

datatype TypedTransaction =
    TLegacy TxLegacy
  | TEip2930 TxEip2930
  | TEip1559 TxEip1559
  | TEip4844 TxEip4844Variant
  | TEip7702 TxEip7702

datatype TxType = LegacyType | Eip2930Type | Eip1559Type | Eip4844Type | Eip7702Type

fun tx_type :: "TypedTransaction \<Rightarrow> TxType" where
  "tx_type (TLegacy t) = LegacyType"
| "tx_type (TEip2930 t) = Eip2930Type"
| "tx_type (TEip1559 t) = Eip1559Type"
| "tx_type (TEip4844 t) = Eip4844Type"
| "tx_type (TEip7702 t) = Eip7702Type"

fun tx_base :: "TypedTransaction \<Rightarrow> TxBase" where
  "tx_base (TLegacy t) = TxBase.truncate t"
| "tx_base (TEip2930 t) = TxBase.truncate t"
| "tx_base (TEip1559 t) = TxBase.truncate t"
| "tx_base (TEip4844 t) = TxBase.truncate (eip4844_tx t)"
| "tx_base (TEip7702 t) = TxBase.truncate t"

fun tx_chain_id :: "TypedTransaction \<Rightarrow> u64 option" where
  "tx_chain_id (TLegacy t) = legacy_chain_id t"
| "tx_chain_id (TEip2930 t) = Some (eip2930_chain_id t)"
| "tx_chain_id (TEip1559 t) = Some (fee_chain_id t)"
| "tx_chain_id (TEip4844 t) = Some (fee_chain_id (eip4844_tx t))"
| "tx_chain_id (TEip7702 t) = Some (fee_chain_id t)"

fun kind_to :: "TxKind \<Rightarrow> eth_address option" where
  "kind_to Create = None"
| "kind_to (Call a) = Some a"

fun tx_to :: "TypedTransaction \<Rightarrow> eth_address option" where
  "tx_to (TLegacy t) = kind_to (legacy_to t)"
| "tx_to (TEip2930 t) = kind_to (eip2930_to t)"
| "tx_to (TEip1559 t) = kind_to (eip1559_to t)"
| "tx_to (TEip4844 t) = Some (eip4844_to (eip4844_tx t))"
| "tx_to (TEip7702 t) = Some (eip7702_to t)"

fun extract_gas_price :: "TypedTransaction \<Rightarrow> 128 word" where
  "extract_gas_price (TLegacy t) = legacy_gas_price t"
| "extract_gas_price (TEip2930 t) = eip2930_gas_price t"
| "extract_gas_price (TEip1559 t) = max_fee_per_gas t"
| "extract_gas_price (TEip4844 t) =
     (case t of TxEip4844 inner \<Rightarrow> max_fee_per_gas inner | TxEip4844WithSidecar sidecar \<Rightarrow> max_fee_per_gas sidecar)"
| "extract_gas_price (TEip7702 t) = max_fee_per_gas t"

fun extract_priority_fee :: "TypedTransaction \<Rightarrow> 128 word option" where
  "extract_priority_fee (TEip1559 t) = Some (max_priority_fee_per_gas t)"
| "extract_priority_fee (TEip4844 t) =
     (case t of
        TxEip4844 inner \<Rightarrow> Some (max_priority_fee_per_gas inner)
      | TxEip4844WithSidecar sidecar \<Rightarrow> Some (max_priority_fee_per_gas sidecar))"
| "extract_priority_fee (TEip7702 t) = Some (max_priority_fee_per_gas t)"
| "extract_priority_fee (TLegacy t) = None"
| "extract_priority_fee (TEip2930 t) = None"

section \<open>Errors\<close>

datatype EthereumParserError =
    UnexpectedTrailingData string
  | UnexpectedTransactionType string
  | UnsupportedTransactionType string
  | FailedToDecodeTransaction string
  | FailedToParseJsonTransaction string

fun display_parser_error :: "EthereumParserError \<Rightarrow> string" where
  "display_parser_error (UnexpectedTrailingData s) = ''Unexpected trailing data: '' @ s"
| "display_parser_error (UnexpectedTransactionType s) = ''Unexpected transaction type: '' @ s"
| "display_parser_error (UnsupportedTransactionType s) = ''Unsupported transaction type: '' @ s"
| "display_parser_error (FailedToDecodeTransaction s) = ''Failed to decode transaction: '' @ s"
| "display_parser_error (FailedToParseJsonTransaction s) = ''Failed to parse JSON transaction: '' @ s"

section \<open>Libraries\<close>

text \<open>A signed envelope: the transaction and its signature, which is dropped.\<close>

datatype TxEnvelope =
    EnvLegacy TxLegacy
  | EnvEip1559 TxEip1559
  | EnvEip2930 TxEip2930
  | EnvEip4844 TxEip4844Variant
  | EnvEip7702 TxEip7702

text \<open>The fields of the JSON envelope \<^verbatim>\<open>"type": "transaction"\<close>, which serde fills.\<close>

record EthJsonTransaction =
  json_from :: "string option"
  json_to :: "string option"
  json_data :: "string option"
  json_value :: "string option"
  json_nonce :: "string option"
  json_gas :: "string option"
  json_gas_price :: "string option"
  json_max_fee_per_gas :: "string option"
  json_max_priority_fee_per_gas :: "string option"
  json_chain_id :: "string option"

record Alloy =
  al_tx_type :: "byte \<Rightarrow> (string, TxType) result"
  al_show_tx_type :: "TxType \<Rightarrow> string"
  al_decode_legacy :: "bytes \<Rightarrow> (string, TxLegacy \<times> bytes) result"
  al_decode_eip1559 :: "bytes \<Rightarrow> (string, TxEip1559 \<times> bytes) result"
  al_decode_envelope :: "bytes \<Rightarrow> (string, TxEnvelope) result"
  al_parse_address :: "string \<Rightarrow> (string, eth_address) result"
  al_show_address :: "eth_address \<Rightarrow> string"
  al_debug_address :: "eth_address \<Rightarrow> string"
  al_u256_from_hex :: "string \<Rightarrow> (string, 256 word) result"
  al_show_u256 :: "256 word \<Rightarrow> string"
  al_format_units :: "nat \<Rightarrow> string \<Rightarrow> (string, string) result"
  al_format_decimals :: "nat \<Rightarrow> byte \<Rightarrow> (string, string) result"
  al_hex_decode :: "string \<Rightarrow> (string, bytes) result"
  al_hex_encode :: "bytes \<Rightarrow> string"
  al_b64_decode :: "string \<Rightarrow> (string, bytes) result"
  al_json_from_str :: "string \<Rightarrow> (string, EthJsonTransaction) result"

section \<open>Amounts\<close>

definition trim_trailing_zeros :: "string \<Rightarrow> string" where
  "trim_trailing_zeros s =
     (if CHR ''.'' \<in> set s then trim_end_matches (CHR ''.'') (trim_end_matches (CHR ''0'') s) else s)"

definition format_ether :: "Alloy \<Rightarrow> 256 word \<Rightarrow> string" where
  "format_ether al wei = trim_trailing_zeros
     (case al_format_units al (unat wei) ''eth'' of Inr s \<Rightarrow> s | Inl _ \<Rightarrow> al_show_u256 al wei)"

definition format_gwei :: "Alloy \<Rightarrow> 128 word \<Rightarrow> string" where
  "format_gwei al wei = trim_trailing_zeros
     (case al_format_units al (unat wei) ''gwei'' of Inr s \<Rightarrow> s | Inl _ \<Rightarrow> nat_str (unat wei))"

definition create_priority_fee_field :: "Alloy \<Rightarrow> 128 word \<Rightarrow> SignablePayloadField" where
  "create_priority_fee_field al fee =
     (let priority_fee_text = format_gwei al fee @ '' gwei''
      in TextV2 \<lparr>fallback_text = priority_fee_text, label = ''Max Priority Fee Per Gas''\<rparr>
           \<lparr>text_v2_text = priority_fee_text\<rparr>)"

section \<open>Decoding\<close>

fun extract_unsigned_from_envelope :: "TxEnvelope \<Rightarrow> (EthereumParserError, TypedTransaction) result" where
  "extract_unsigned_from_envelope (EnvLegacy t) = Inr (TLegacy t)"
| "extract_unsigned_from_envelope (EnvEip1559 t) = Inr (TEip1559 t)"
| "extract_unsigned_from_envelope (EnvEip2930 t) = Inl (UnsupportedTransactionType ''eip-2930'')"
| "extract_unsigned_from_envelope (EnvEip4844 t) = Inl (UnsupportedTransactionType ''eip-4844'')"
| "extract_unsigned_from_envelope (EnvEip7702 t) = Inl (UnsupportedTransactionType ''eip-7702'')"

text \<open>The decoded transaction and the rest of the buffer, before the check of the rest. \<^verbatim>\<open>buf[0]\<close> is printed
  in decimal.\<close>

fun decode_typed :: "Alloy \<Rightarrow> TxType \<Rightarrow> bytes \<Rightarrow> (EthereumParserError, TypedTransaction \<times> bytes) result" where
  "decode_typed al Eip1559Type buf =
     and_then (map_err FailedToDecodeTransaction (al_decode_eip1559 al buf)) (\<lambda>(t, rest). Inr (TEip1559 t, rest))"
| "decode_typed al Eip2930Type buf = Inl (UnsupportedTransactionType ''eip-2930'')"
| "decode_typed al Eip4844Type buf = Inl (UnsupportedTransactionType ''eip-4844'')"
| "decode_typed al Eip7702Type buf = Inl (UnsupportedTransactionType ''eip-7702'')"
| "decode_typed al LegacyType buf = Inl (UnexpectedTransactionType ''legacy'')"

definition decode_unsigned_transaction_bytes ::
  "Alloy \<Rightarrow> bytes \<Rightarrow> (EthereumParserError, TypedTransaction) result" where
  "decode_unsigned_transaction_bytes al buf =
     and_then
       (case buf of
          [] \<Rightarrow> Inl (FailedToDecodeTransaction ''Input too short'')
        | b # rest \<Rightarrow>
            if b = 0 \<or> (b > 0x7f \<and> b < 0xc0)
            then Inl (FailedToDecodeTransaction (''Unexpected type flag '' @ nat_str (unat b) @ ''.''))
            else if b \<le> 0x7f
            then and_then (map_err FailedToDecodeTransaction (al_tx_type al b)) (\<lambda>ty. decode_typed al ty rest)
            else and_then (map_err FailedToDecodeTransaction (al_decode_legacy al buf))
                   (\<lambda>(t, rest). Inr (TLegacy t, rest)))
       (\<lambda>(tx, buf'). if buf' \<noteq> [] then Inl (UnexpectedTrailingData (al_hex_encode al buf')) else Inr tx)"

definition decode_transaction_bytes ::
  "Alloy \<Rightarrow> bytes \<Rightarrow> bool \<Rightarrow> (EthereumParserError, TypedTransaction) result" where
  "decode_transaction_bytes al buf allow_signed =
     (case decode_unsigned_transaction_bytes al buf of
        Inr tx \<Rightarrow> Inr tx
      | Inl unsigned_err \<Rightarrow>
          if allow_signed
          then (case al_decode_envelope al buf of
                  Inr envelope \<Rightarrow> extract_unsigned_from_envelope envelope
                | Inl _ \<Rightarrow> Inl unsigned_err)
          else Inl unsigned_err)"

definition decode_transaction ::
  "Alloy \<Rightarrow> string \<Rightarrow> SupportedEncodings \<Rightarrow> bool \<Rightarrow> (EthereumParserError, TypedTransaction) result" where
  "decode_transaction al raw_transaction encodings allow_signed =
     and_then
       (case encodings of
          Hex \<Rightarrow> map_err (\<lambda>e. FailedToDecodeTransaction (''Failed to decode hex: '' @ e))
                   (decode_hex (al_hex_decode al) raw_transaction)
        | Base64 \<Rightarrow> map_err (\<lambda>e. FailedToDecodeTransaction (''Failed to decode base64: '' @ e))
                     (al_b64_decode al raw_transaction))
       (\<lambda>bs. decode_transaction_bytes al bs allow_signed)"

section \<open>Facts\<close>

text \<open>What a decoder left over is empty: the whole buffer is the transaction.\<close>

lemma decode_unsigned_Inr:
  "decode_unsigned_transaction_bytes al buf = Inr tx \<longleftrightarrow>
     (\<exists>b rest. buf = b # rest \<and>
        ((\<exists>t. tx = TLegacy t \<and> b \<ge> 0xc0 \<and> al_decode_legacy al buf = Inr (t, []))
         \<or> (\<exists>t. tx = TEip1559 t \<and> b \<noteq> 0 \<and> b \<le> 0x7f \<and> al_tx_type al b = Inr Eip1559Type
              \<and> al_decode_eip1559 al rest = Inr (t, []))))"
proof (cases buf)
  case Nil
  then show ?thesis by (simp add: decode_unsigned_transaction_bytes_def)
next
  case (Cons b rest)
  have typed: "decode_typed al ty rest = Inr (tx, []) \<longleftrightarrow>
      ty = Eip1559Type \<and> (\<exists>t. tx = TEip1559 t \<and> al_decode_eip1559 al rest = Inr (t, []))" for ty
    by (cases ty) (auto simp: and_then_Inr_iff)
  have "b > 0x7f \<longleftrightarrow> \<not> b \<le> 0x7f" "b < 0xc0 \<longleftrightarrow> \<not> b \<ge> 0xc0" by auto
  moreover have "b \<ge> 0xc0 \<Longrightarrow> \<not> b \<le> 0x7f" by (simp add: word_le_nat_alt)
  moreover have "b \<ge> 0xc0 \<Longrightarrow> b \<noteq> 0" by auto
  ultimately show ?thesis
    unfolding decode_unsigned_transaction_bytes_def
    by (auto simp: Cons and_then_Inr_iff typed split: if_splits)
qed

lemma decode_transaction_bytes_unsigned:
  "decode_transaction_bytes al buf False = decode_unsigned_transaction_bytes al buf"
  by (simp add: decode_transaction_bytes_def split: sum.split)

lemma extract_unsigned_Inr:
  "extract_unsigned_from_envelope e = Inr tx \<longleftrightarrow>
     (\<exists>t. e = EnvLegacy t \<and> tx = TLegacy t) \<or> (\<exists>t. e = EnvEip1559 t \<and> tx = TEip1559 t)"
  by (cases e) auto

lemma decode_transaction_types:
  "decode_transaction_bytes al buf allow_signed = Inr tx \<Longrightarrow> tx_type tx \<in> {LegacyType, Eip1559Type}"
  by (auto simp: decode_transaction_bytes_def decode_unsigned_Inr extract_unsigned_Inr split: sum.splits if_splits)

section \<open>Exact amounts\<close>

text \<open>\<^verbatim>\<open>format_units\<close> as documented: all the unit's decimals.\<close>

definition units_documented :: "Alloy \<Rightarrow> bool" where
  "units_documented al \<longleftrightarrow> (\<forall>n.
     al_format_units al n ''eth'' = Inr (nat_str (n div 10 ^ 18) @ ''.'' @ zero_pad 18 (nat_str (n mod 10 ^ 18)))
     \<and> al_format_units al n ''gwei'' = Inr (nat_str (n div 10 ^ 9) @ ''.'' @ zero_pad 9 (nat_str (n mod 10 ^ 9))))"

lemma nat_str_no_point: "CHR ''.'' \<notin> set (nat_str n)"
  using nat_str_digits [of "CHR ''.''" n] by (auto simp: code_def)

lemma zero_pad_zero: "0 < d \<Longrightarrow> zero_pad d (nat_str 0) = replicate d (CHR ''0'')"
  by (cases d) (simp_all add: zero_pad_def nat_str.simps [of 0] digit_char_def char_of_def bit_0 replicate_append_same)

lemma is_ascii_digit_point: "\<not> is_ascii_digit (CHR ''.'')"
  by (simp add: is_ascii_digit_def code_def)

lemma trim_trailing_zeros_decimal:
  assumes "0 < d"
  shows "shows_decimal d n (trim_trailing_zeros (nat_str (n div 10 ^ d) @ ''.'' @ zero_pad d (nat_str (n mod 10 ^ d))))"
proof -
  let ?w = "nat_str (n div 10 ^ d)" and ?r = "n mod 10 ^ d"
  let ?f = "trim_end_matches (CHR ''0'') (zero_pad d (nat_str ?r))"
  have w: "trim_end_matches (CHR ''.'') ?w = ?w"
    using nat_str_no_point by (intro trim_end_matches_id) (metis last_in_set)
  show ?thesis
  proof (cases "?r = 0")
    case True
    have "zero_pad d (nat_str ?r) = replicate d (CHR ''0'')" using assms unfolding True by (rule zero_pad_zero)
    moreover have "trim_end_matches (CHR ''0'') (?w @ ''.'' @ replicate d (CHR ''0'')) = ?w @ ''.''"
      unfolding append_assoc [symmetric] trim_end_matches_append [of _ "?w @ ''.''"] by (simp add: trim_end_matches_id)
    moreover have "trim_end_matches (CHR ''.'') (?w @ ''.'') = ?w"
      unfolding trim_end_matches_append [of _ ?w "''.''"] w by (simp add: trim_end_matches_def)
    ultimately have "trim_trailing_zeros (?w @ ''.'' @ zero_pad d (nat_str ?r)) = ?w"
      by (simp add: trim_trailing_zeros_def)
    then show ?thesis using shows_decimal_whole [OF True] by simp
  next
    case False
    have f: "?f \<noteq> [] \<and> length ?f \<le> d \<and> last ?f \<noteq> CHR ''0'' \<and> list_all is_ascii_digit ?f
        \<and> dec_val ?f * 10 ^ (d - length ?f) = ?r"
      by (rule fraction_exact) (simp_all add: False)
    then have "last ?f \<noteq> CHR ''.''" by (metis (no_types, lifting) last_in_set list_all_iff is_ascii_digit_point)
    then have "trim_end_matches (CHR ''.'') (?w @ ''.'' @ ?f) = ?w @ ''.'' @ ?f" using f by (intro trim_end_matches_id) simp
    moreover have "trim_end_matches (CHR ''0'') ((?w @ ''.'') @ zero_pad d (nat_str ?r)) = (?w @ ''.'') @ ?f"
      unfolding trim_end_matches_append [of _ "?w @ ''.''"] using f by simp
    ultimately have "trim_trailing_zeros (?w @ ''.'' @ zero_pad d (nat_str ?r)) = ?w @ ''.'' @ ?f"
      by (simp add: trim_trailing_zeros_def)
    then show ?thesis using shows_decimal_fraction [OF False] by simp
  qed
qed

end
