(* ===== verification/EthJson.thy ===== *)
theory EthJson
  imports EthTx
begin

text \<open>
  \<^verbatim>\<open>chain_parsers/visualsign-ethereum/src/eth_json.rs\<close>: transactions given as JSON. \<^verbatim>\<open>u64::from_str_radix\<close>
  and \<^verbatim>\<open>u128::from_str_radix\<close> are written out, with the one leading \<^verbatim>\<open>+\<close> they take; the parser of a 256-bit
  number, of an address and of the JSON text itself are fields of \<open>Alloy\<close>.
\<close>

definition DEFAULT_GAS_LIMIT :: u64 where
  "DEFAULT_GAS_LIMIT = 21000"

definition MAX_HEX_DATA_LEN :: nat where
  "MAX_HEX_DATA_LEN = 512 * 1024"

definition MAX_JSON_INPUT_LEN :: nat where
  "MAX_JSON_INPUT_LEN = 1024 * 1024"

definition ERROR_PREVIEW_LEN :: nat where
  "ERROR_PREVIEW_LEN = 64"

definition is_json_input :: "string \<Rightarrow> bool" where
  "is_json_input data = (strip_prefix ''{'' (trim_start data) \<noteq> None)"

section \<open>Numbers\<close>

definition is_char_boundary :: "string \<Rightarrow> nat \<Rightarrow> bool" where
  "is_char_boundary s i =
     (i = 0 \<or> i = length s \<or> (i < length s \<and> (code (s ! i) < 128 \<or> 192 \<le> code (s ! i))))"

fun boundary_below :: "string \<Rightarrow> nat \<Rightarrow> nat" where
  "boundary_below s 0 = 0"
| "boundary_below s (Suc end) = (if is_char_boundary s (Suc end) then Suc end else boundary_below s end)"

definition truncate_for_error :: "string \<Rightarrow> string" where
  "truncate_for_error s =
     (if length s \<le> ERROR_PREVIEW_LEN then s
      else take (boundary_below s (ERROR_PREVIEW_LEN - 3)) s @ ''...'')"

definition require_hex_prefix :: "string \<Rightarrow> (EthereumParserError, string) result" where
  "require_hex_prefix s =
     ok_or (FailedToParseJsonTransaction
       (''Hex value '' @ [CHR 0x27] @ truncate_for_error s @ [CHR 0x27] @ '' must start with '' @ [CHR 0x27] @ ''0x'' @ [CHR 0x27] @ '' prefix''))
       (split_hex_prefix s)"

definition hex_digit_value :: "char \<Rightarrow> nat option" where
  "hex_digit_value c =
     (if is_ascii_digit c then Some (code c - 48)
      else if 97 \<le> code c \<and> code c \<le> 102 then Some (code c - 87)
      else if 65 \<le> code c \<and> code c \<le> 70 then Some (code c - 55)
      else None)"

fun hex_digits_value :: "nat \<Rightarrow> nat \<Rightarrow> string \<Rightarrow> (string, nat) result" where
  "hex_digits_value bits acc [] = Inr acc"
| "hex_digits_value bits acc (c # cs) =
     (case hex_digit_value c of
        None \<Rightarrow> Inl ''invalid digit found in string''
      | Some d \<Rightarrow>
          if 16 * acc + d < 2 ^ bits then hex_digits_value bits (16 * acc + d) cs
          else Inl ''number too large to fit in target type'')"

definition from_str_radix_16 :: "nat \<Rightarrow> string \<Rightarrow> (string, nat) result" where
  "from_str_radix_16 bits src =
     (if src = [] then Inl ''cannot parse integer from empty string''
      else if src = ''+'' \<or> src = ''-'' then Inl ''invalid digit found in string''
      else hex_digits_value bits 0 (if hd src = CHR ''+'' then tl src else src))"

text \<open>The macro \<^verbatim>\<open>parse_hex_int\<close>.\<close>

definition parse_hex_int ::
  "string \<Rightarrow> (string \<Rightarrow> (string, 'a) result) \<Rightarrow> string \<Rightarrow> (EthereumParserError, 'a) result" where
  "parse_hex_int lbl from_radix s =
     and_then (require_hex_prefix s) (\<lambda>hex.
       if hex = [] then Inl (FailedToParseJsonTransaction
         (''Empty hex '' @ lbl @ '' '' @ [CHR 0x27] @ truncate_for_error s @ [CHR 0x27] @ ''; use '' @ [CHR 0x27] @ ''0x0'' @ [CHR 0x27] @ '' for zero''))
       else map_err (\<lambda>e. FailedToParseJsonTransaction
         (''Invalid hex '' @ lbl @ '' '' @ [CHR 0x27] @ truncate_for_error s @ [CHR 0x27] @ '': '' @ e)) (from_radix hex))"

definition parse_hex_u64 :: "string \<Rightarrow> (EthereumParserError, u64) result" where
  "parse_hex_u64 = parse_hex_int ''u64'' (\<lambda>hex. and_then (from_str_radix_16 64 hex) (\<lambda>n. Inr (of_nat n)))"

definition parse_hex_u128 :: "string \<Rightarrow> (EthereumParserError, 128 word) result" where
  "parse_hex_u128 = parse_hex_int ''u128'' (\<lambda>hex. and_then (from_str_radix_16 128 hex) (\<lambda>n. Inr (of_nat n)))"

definition parse_hex_u256 :: "Alloy \<Rightarrow> string \<Rightarrow> (EthereumParserError, 256 word) result" where
  "parse_hex_u256 al = parse_hex_int ''U256'' (al_u256_from_hex al)"

definition parse_json_address :: "Alloy \<Rightarrow> string \<Rightarrow> (EthereumParserError, eth_address) result" where
  "parse_json_address al s =
     map_err (\<lambda>e. FailedToParseJsonTransaction (''Invalid address '' @ [CHR 0x27] @ truncate_for_error s @ [CHR 0x27] @ '': '' @ e))
       (al_parse_address al s)"

definition parse_hex_bytes :: "Alloy \<Rightarrow> string \<Rightarrow> (EthereumParserError, bytes) result" where
  "parse_hex_bytes al s =
     and_then (require_hex_prefix s) (\<lambda>hex.
       if hex = [] then Inr []
       else if length hex > MAX_HEX_DATA_LEN
       then Inl (FailedToParseJsonTransaction (''Hex data too large: '' @ nat_str (length hex)
         @ '' chars (max '' @ nat_str MAX_HEX_DATA_LEN @ '')''))
       else map_err (\<lambda>e. FailedToParseJsonTransaction
         (''Invalid hex data '' @ [CHR 0x27] @ truncate_for_error s @ [CHR 0x27] @ '': '' @ e)) (al_hex_decode al hex))"

section \<open>Transactions\<close>

definition field_context ::
  "string \<Rightarrow> (EthereumParserError, 'a) result \<Rightarrow> (EthereumParserError, 'a) result" where
  "field_context field result =
     map_err (\<lambda>e. case e of
         FailedToParseJsonTransaction msg \<Rightarrow> FailedToParseJsonTransaction ([CHR 0x27] @ field @ [CHR 0x27] @ '': '' @ msg)
       | other \<Rightarrow> other) result"

text \<open>\<^verbatim>\<open>Option::map(f).transpose()\<close>.\<close>

definition optional :: "('a \<Rightarrow> ('e, 'b) result) \<Rightarrow> 'a option \<Rightarrow> ('e, 'b option) result" where
  "optional f x = (case x of None \<Rightarrow> Inr None | Some a \<Rightarrow> and_then (f a) (\<lambda>b. Inr (Some b)))"

definition quoted :: "string \<Rightarrow> string" where
  "quoted s = [CHR 0x27] @ s @ [CHR 0x27]"

definition json_error :: "string \<Rightarrow> (EthereumParserError, 'a) result" where
  "json_error msg = Inl (FailedToParseJsonTransaction msg)"

definition gas_of :: "string option \<Rightarrow> (EthereumParserError, u64) result" where
  "gas_of gas =
     (case gas of
        Some raw \<Rightarrow> and_then (field_context ''gas'' (parse_hex_u64 raw)) (\<lambda>parsed.
          if parsed = 0
          then json_error (quoted ''gas'' @ '' must be greater than 0; omit the field to use the default (21000)'')
          else Inr parsed)
      | None \<Rightarrow> Inr DEFAULT_GAS_LIMIT)"

definition chain_id_of :: "string option \<Rightarrow> (EthereumParserError, u64) result" where
  "chain_id_of chain_id =
     (case chain_id of
        Some raw \<Rightarrow> and_then (field_context ''chainId'' (parse_hex_u64 raw)) (\<lambda>parsed.
          if parsed = 0 then json_error (quoted ''chainId'' @ '' must be greater than 0'') else Inr parsed)
      | None \<Rightarrow> json_error (quoted ''chainId'' @ '' is required''))"

text \<open>The end of the function: a fee cap makes an EIP-1559 transaction, none a legacy one.\<close>

definition priced ::
  "EthJsonTransaction \<Rightarrow> TxKind \<Rightarrow> 256 word \<Rightarrow> u64 \<Rightarrow> u64 \<Rightarrow> u64 \<Rightarrow> bytes \<Rightarrow> (EthereumParserError, TypedTransaction) result" where
  "priced tx to value nonce gas_limit chain_id input_data =
     (case json_max_fee_per_gas tx of
        Some fee \<Rightarrow>
          and_then (field_context ''maxFeePerGas'' (parse_hex_u128 fee)) (\<lambda>max_fee.
          and_then (field_context ''maxPriorityFeePerGas'' (optional parse_hex_u128 (json_max_priority_fee_per_gas tx))) (\<lambda>p.
          let priority = unwrap_or 0 p in
          if priority > max_fee
          then json_error (quoted ''maxPriorityFeePerGas'' @ '' cannot exceed '' @ quoted ''maxFeePerGas'')
          else Inr (TEip1559 \<lparr>tx_nonce = nonce, tx_gas_limit = gas_limit, tx_value = value, tx_input = input_data,
            fee_chain_id = chain_id, max_fee_per_gas = max_fee, max_priority_fee_per_gas = priority,
            fee_access_list = [], eip1559_to = to\<rparr>)))
      | None \<Rightarrow>
          and_then (field_context ''gasPrice'' (optional parse_hex_u128 (json_gas_price tx))) (\<lambda>p.
          Inr (TLegacy \<lparr>tx_nonce = nonce, tx_gas_limit = gas_limit, tx_value = value, tx_input = input_data,
            legacy_chain_id = Some chain_id, legacy_gas_price = unwrap_or 0 p, legacy_to = to\<rparr>)))"

definition build_transaction :: "Alloy \<Rightarrow> EthJsonTransaction \<Rightarrow> (EthereumParserError, TypedTransaction) result" where
  "build_transaction al tx =
     and_then (optional (\<lambda>s. field_context ''from'' (parse_json_address al s)) (json_from tx)) (\<lambda>_.
     if json_gas_price tx \<noteq> None \<and> json_max_fee_per_gas tx \<noteq> None
     then json_error (''Cannot specify both '' @ quoted ''gasPrice'' @ '' (legacy) and '' @ quoted ''maxFeePerGas'' @ '' (EIP-1559)'')
     else if json_max_priority_fee_per_gas tx \<noteq> None \<and> json_max_fee_per_gas tx = None
     then json_error (quoted ''maxPriorityFeePerGas'' @ '' requires '' @ quoted ''maxFeePerGas'' @ '' to be set'')
     else
     and_then (case json_to tx of
                 Some addr \<Rightarrow> and_then (field_context ''to'' (parse_json_address al addr)) (\<lambda>a. Inr (Call a))
               | None \<Rightarrow> Inr Create) (\<lambda>to.
     and_then (field_context ''value'' (optional (parse_hex_u256 al) (json_value tx))) (\<lambda>value.
     and_then (field_context ''nonce'' (optional parse_hex_u64 (json_nonce tx))) (\<lambda>nonce.
     and_then (gas_of (json_gas tx)) (\<lambda>gas_limit.
     and_then (chain_id_of (json_chain_id tx)) (\<lambda>chain_id.
     and_then (field_context ''data'' (optional (parse_hex_bytes al) (json_data tx))) (\<lambda>input_data.
     priced tx to (unwrap_or 0 value) (unwrap_or 0 nonce) gas_limit chain_id (unwrap_or [] input_data))))))))"

definition decode_json_transaction :: "Alloy \<Rightarrow> string \<Rightarrow> (EthereumParserError, TypedTransaction) result" where
  "decode_json_transaction al data =
     (if length data > MAX_JSON_INPUT_LEN
      then json_error (''JSON input too large: '' @ nat_str (length data) @ '' bytes (max '' @ nat_str MAX_JSON_INPUT_LEN @ '')'')
      else and_then (map_err FailedToParseJsonTransaction (al_json_from_str al data)) (build_transaction al))"

section \<open>Facts\<close>

lemma boundary_below_le: "boundary_below s n \<le> n"
  by (induction s n rule: boundary_below.induct) auto

lemma truncate_bound: "length (truncate_for_error s) \<le> 64"
  using boundary_below_le [of s 61] by (simp add: truncate_for_error_def ERROR_PREVIEW_LEN_def)

text \<open>Hexadecimal spelling, as \<^verbatim>\<open>format!("{n:x}")\<close> writes it, reads back.\<close>

lemma hex_digit_value_digit: "d < 16 \<Longrightarrow> hex_digit_value (digit_char d) = Some d"
  by (auto simp: hex_digit_value_def digit_char_def is_ascii_digit_def code_char_of)

lemma digit_char_not_sign: "d < 16 \<Longrightarrow> digit_char d \<noteq> CHR ''+''"
  using hex_digit_value_digit [of d] by (auto simp: hex_digit_value_def is_ascii_digit_def code_def)

lemma hex_digits_value_append:
  "hex_digits_value bits acc (s @ t) = and_then (hex_digits_value bits acc s) (\<lambda>n. hex_digits_value bits n t)"
  by (induction bits acc s rule: hex_digits_value.induct) (auto split: option.split)

lemma hex_digits_value_hex_str:
  "n < 2 ^ bits \<Longrightarrow> hex_digits_value bits 0 (hex_str n) = Inr n"
proof (induction n rule: hex_str.induct)
  case (1 n)
  show ?case
  proof (cases "n < 16")
    case True
    then show ?thesis using "1.prems" by (simp add: hex_str.simps [of n] hex_digit_value_digit)
  next
    case False
    have "n div 16 < 2 ^ bits" using "1.prems" by linarith
    moreover have "16 * (n div 16) + n mod 16 = n" by presburger
    ultimately show ?thesis
      using 1 False by (simp add: hex_str.simps [of n] hex_digits_value_append hex_digit_value_digit)
  qed
qed

lemma hex_str_hd: "hex_str n \<noteq> [] \<and> (\<exists>d<16. hd (hex_str n) = digit_char d)"
proof (induction n rule: hex_str.induct)
  case (1 n)
  then show ?case by (cases "n < 16") (auto simp: hex_str.simps [of n])
qed

lemma from_str_radix_16_hex_str: "n < 2 ^ bits \<Longrightarrow> from_str_radix_16 bits (hex_str n) = Inr n"
proof -
  assume n: "n < 2 ^ bits"
  from hex_str_hd [of n] obtain d where d: "hex_str n \<noteq> []" "d < 16" "hd (hex_str n) = digit_char d" by blast
  then have "hd (hex_str n) \<noteq> CHR ''+''" "hd (hex_str n) \<noteq> CHR ''-''"
    using hex_digit_value_digit [OF d(2)] by (auto simp: hex_digit_value_def is_ascii_digit_def code_def)
  with d(1) hex_digits_value_hex_str [OF n] show ?thesis
    by (auto simp: from_str_radix_16_def)
qed

lemma require_hex_prefix_0x [simp]: "require_hex_prefix (''0x'' @ s) = Inr s"
  by (simp add: require_hex_prefix_def split_hex_prefix_def ok_or_def)

lemma parse_hex_int_0x:
  "s \<noteq> [] \<Longrightarrow> from_radix s = Inr n \<Longrightarrow> parse_hex_int lbl from_radix (''0x'' @ s) = Inr n"
  using require_hex_prefix_0x [of s] by (simp add: parse_hex_int_def)

lemma parse_hex_u64_hex_str: "parse_hex_u64 (''0x'' @ hex_str (unat n)) = Inr n"
  unfolding parse_hex_u64_def
  by (rule parse_hex_int_0x) (simp_all add: hex_str_hd from_str_radix_16_hex_str [OF unat_u64_less])

lemma unat_u128_less: "unat (w :: 128 word) < 2 ^ 128"
  using unsigned_less [of w] by simp

lemma parse_hex_u128_hex_str: "parse_hex_u128 (''0x'' @ hex_str (unat n)) = Inr n"
  unfolding parse_hex_u128_def
  by (rule parse_hex_int_0x) (simp_all add: hex_str_hd from_str_radix_16_hex_str [OF unat_u128_less])

text \<open>A sign is let through between the prefix and the digits.\<close>

lemma plus_sign_accepted: "parse_hex_u64 ''0x+5208'' = Inr 21000"
  by (simp add: parse_hex_u64_def parse_hex_int_def require_hex_prefix_def split_hex_prefix_def ok_or_def
      from_str_radix_16_def hex_digit_value_def is_ascii_digit_def code_def)

section \<open>Accepted transactions\<close>

lemma field_context_Inr [simp]: "field_context f r = Inr a \<longleftrightarrow> r = Inr a"
  by (simp add: field_context_def)

lemma gas_of_Inr:
  "gas_of gas = Inr g \<longleftrightarrow> g \<noteq> 0 \<and> (case gas of None \<Rightarrow> g = DEFAULT_GAS_LIMIT | Some raw \<Rightarrow> parse_hex_u64 raw = Inr g)"
  by (auto simp: gas_of_def and_then_Inr_iff json_error_def DEFAULT_GAS_LIMIT_def split: option.split)

lemma chain_id_of_Inr:
  "chain_id_of c = Inr n \<longleftrightarrow> n \<noteq> 0 \<and> (\<exists>raw. c = Some raw \<and> parse_hex_u64 raw = Inr n)"
  by (auto simp: chain_id_of_def and_then_Inr_iff json_error_def split: option.split)

lemma priced_Inr:
  assumes "priced tx to v n g c d = Inr t"
  shows "tx_base t = \<lparr>tx_nonce = n, tx_gas_limit = g, tx_value = v, tx_input = d\<rparr>"
    and "tx_chain_id t = Some c" and "tx_to t = kind_to to" and "tx_type t \<in> {LegacyType, Eip1559Type}"
    and "extract_priority_fee t = Some p \<Longrightarrow> p \<le> extract_gas_price t"
  using assms
  by (auto simp: priced_def and_then_Inr_iff json_error_def Let_def TxBase.truncate_def split: option.splits if_splits)

lemma build_transaction_Inr:
  assumes "build_transaction al tx = Inr t"
  obtains to v n g c d where "optional (parse_hex_u256 al) (json_value tx) = Inr v"
    "optional parse_hex_u64 (json_nonce tx) = Inr n" "gas_of (json_gas tx) = Inr g"
    "chain_id_of (json_chain_id tx) = Inr c" "optional (parse_hex_bytes al) (json_data tx) = Inr d"
    "priced tx to (unwrap_or 0 v) (unwrap_or 0 n) g c (unwrap_or [] d) = Inr t"
  using assms
  by (auto simp: build_transaction_def and_then_Inr_iff json_error_def split: option.splits if_splits)

lemma parse_hex_bytes_bound:
  assumes "parse_hex_bytes al s = Inr d" and "\<forall>h bs. al_hex_decode al h = Inr bs \<longrightarrow> 2 * length bs = length h"
  shows "2 * length d \<le> MAX_HEX_DATA_LEN"
  using assms
  by (fastforce simp: parse_hex_bytes_def and_then_Inr_iff split: if_splits)

section \<open>Reading back\<close>

text \<open>The libraries as documented: hexadecimal decoding and the address parser invert their printers, and
  the 256-bit parser reads hexadecimal digits.\<close>

definition json_documented :: "Alloy \<Rightarrow> bool" where
  "json_documented al \<longleftrightarrow>
     (\<forall>n. al_u256_from_hex al (hex_str (unat n)) = Inr n)
     \<and> (\<forall>a. length a = 20 \<longrightarrow> al_parse_address al (al_show_address al a) = Inr a)
     \<and> (\<forall>bs. al_hex_decode al (al_hex_encode al bs) = Inr bs \<and> length (al_hex_encode al bs) = 2 * length bs)"

text \<open>The JSON fields a wallet writes for a transaction, every number in hexadecimal.\<close>

definition hex_field :: "'a::len word \<Rightarrow> string option" where
  "hex_field n = Some (''0x'' @ hex_str (unat n))"

fun json_of :: "Alloy \<Rightarrow> TypedTransaction \<Rightarrow> EthJsonTransaction" where
  "json_of al (TLegacy t) =
     \<lparr>json_from = None, json_to = map_option (al_show_address al) (kind_to (legacy_to t)),
      json_data = Some (''0x'' @ al_hex_encode al (tx_input t)), json_value = hex_field (tx_value t),
      json_nonce = hex_field (tx_nonce t), json_gas = hex_field (tx_gas_limit t),
      json_gas_price = hex_field (legacy_gas_price t), json_max_fee_per_gas = None,
      json_max_priority_fee_per_gas = None, json_chain_id = hex_field (unwrap_or 0 (legacy_chain_id t))\<rparr>"
| "json_of al (TEip1559 t) =
     \<lparr>json_from = None, json_to = map_option (al_show_address al) (kind_to (eip1559_to t)),
      json_data = Some (''0x'' @ al_hex_encode al (tx_input t)), json_value = hex_field (tx_value t),
      json_nonce = hex_field (tx_nonce t), json_gas = hex_field (tx_gas_limit t),
      json_gas_price = None, json_max_fee_per_gas = hex_field (max_fee_per_gas t),
      json_max_priority_fee_per_gas = hex_field (max_priority_fee_per_gas t),
      json_chain_id = hex_field (fee_chain_id t)\<rparr>"
| "json_of al t =
     \<lparr>json_from = None, json_to = None, json_data = None, json_value = None, json_nonce = None, json_gas = None,
      json_gas_price = None, json_max_fee_per_gas = None, json_max_priority_fee_per_gas = None, json_chain_id = None\<rparr>"

text \<open>The transactions JSON can express.\<close>

fun json_expressible :: "TypedTransaction \<Rightarrow> bool" where
  "json_expressible (TLegacy t) = pred_option (\<lambda>c. c \<noteq> 0) (legacy_chain_id t)"
| "json_expressible (TEip1559 t) =
     (fee_chain_id t \<noteq> 0 \<and> max_priority_fee_per_gas t \<le> max_fee_per_gas t \<and> fee_access_list t = [])"
| "json_expressible t = False"

definition json_tx_ok :: "TypedTransaction \<Rightarrow> bool" where
  "json_tx_ok t \<longleftrightarrow> json_expressible t \<and> tx_chain_id t \<noteq> None \<and> tx_gas_limit (tx_base t) \<noteq> 0
     \<and> length (tx_input (tx_base t)) \<le> 262144 \<and> pred_option (\<lambda>a. length a = 20) (tx_to t)"

lemma parse_hex_u256_hex_str:
  "json_documented al \<Longrightarrow> parse_hex_u256 al (''0x'' @ hex_str (unat n)) = Inr n"
  unfolding parse_hex_u256_def
  by (rule parse_hex_int_0x) (simp_all add: hex_str_hd json_documented_def)

lemma parse_hex_bytes_encode:
  assumes "json_documented al" and "length bs \<le> 262144"
  shows "parse_hex_bytes al (''0x'' @ al_hex_encode al bs) = Inr bs"
proof -
  have e: "al_hex_decode al (al_hex_encode al bs) = Inr bs" "length (al_hex_encode al bs) = 2 * length bs"
    using assms(1) by (auto simp: json_documented_def)
  then have "al_hex_encode al bs = [] \<longleftrightarrow> bs = []" by (metis length_0_conv mult_is_0 zero_neq_numeral)
  moreover have "require_hex_prefix (''0x'' @ al_hex_encode al bs) = Inr (al_hex_encode al bs)"
    by (rule require_hex_prefix_0x)
  ultimately show ?thesis using e assms(2) by (simp add: parse_hex_bytes_def MAX_HEX_DATA_LEN_def)
qed

lemma to_field:
  assumes "json_documented al" and "pred_option (\<lambda>a. length a = 20) (kind_to k)"
  shows "(case map_option (al_show_address al) (kind_to k) of
      Some addr \<Rightarrow> and_then (field_context ''to'' (parse_json_address al addr)) (\<lambda>a. Inr (Call a))
    | None \<Rightarrow> Inr Create) = Inr k"
  using assms by (cases k) (auto simp: and_then_Inr_iff parse_json_address_def json_documented_def)

lemmas json_reading = parse_hex_u64_hex_str parse_hex_u128_hex_str parse_hex_u256_hex_str parse_hex_bytes_encode

lemma optional_hex_field:
  "(\<And>n. parse (''0x'' @ hex_str (unat n)) = Inr n) \<Longrightarrow> optional parse (hex_field n) = Inr (Some n)"
  by (simp add: optional_def hex_field_def)

lemma fixed_fields:
  assumes "json_documented al" and "c \<noteq> 0" and "g \<noteq> 0" and "length d \<le> 262144"
  shows "field_context f (optional (parse_hex_u256 al) (hex_field v)) = Inr (Some v)"
    and "field_context f (optional parse_hex_u64 (hex_field n)) = Inr (Some n)"
    and "field_context f (optional parse_hex_u128 (hex_field p)) = Inr (Some p)"
    and "gas_of (hex_field g) = Inr g" and "chain_id_of (hex_field c) = Inr c"
    and "field_context f (optional (parse_hex_bytes al) (Some (''0x'' @ al_hex_encode al d))) = Inr (Some d)"
proof -
  show "field_context f (optional (parse_hex_u256 al) (hex_field v)) = Inr (Some v)"
    unfolding field_context_Inr by (rule optional_hex_field) (rule parse_hex_u256_hex_str [OF assms(1)])
  show "field_context f (optional parse_hex_u64 (hex_field n)) = Inr (Some n)"
    unfolding field_context_Inr by (rule optional_hex_field) (rule parse_hex_u64_hex_str)
  show "field_context f (optional parse_hex_u128 (hex_field p)) = Inr (Some p)"
    unfolding field_context_Inr by (rule optional_hex_field) (rule parse_hex_u128_hex_str)
  show "gas_of (hex_field g) = Inr g"
    unfolding gas_of_Inr hex_field_def option.case parse_hex_u64_hex_str using assms(3) by simp
  show "chain_id_of (hex_field c) = Inr c"
    unfolding chain_id_of_Inr hex_field_def using assms(2) parse_hex_u64_hex_str [of c] by blast
  show "field_context f (optional (parse_hex_bytes al) (Some (''0x'' @ al_hex_encode al d))) = Inr (Some d)"
    unfolding field_context_Inr optional_def option.case parse_hex_bytes_encode [OF assms(1,4)] by simp
qed

section \<open>Messages\<close>

text \<open>A failure is a JSON error whose message has at most \<open>n\<close> bytes.\<close>

definition short_failure :: "nat \<Rightarrow> (EthereumParserError, 'a) result \<Rightarrow> bool" where
  "short_failure n r \<longleftrightarrow> (case r of
     Inl (FailedToParseJsonTransaction msg) \<Rightarrow> length msg \<le> n | Inl _ \<Rightarrow> False | Inr _ \<Rightarrow> True)"

lemma short_failure_simps [simp]:
  "short_failure n (Inr a)" "short_failure n (json_error msg) \<longleftrightarrow> length msg \<le> n"
  "short_failure n (Inl (FailedToParseJsonTransaction msg)) \<longleftrightarrow> length msg \<le> n"
  by (simp_all add: short_failure_def json_error_def)

lemma short_failure_mono: "short_failure m r \<Longrightarrow> m \<le> n \<Longrightarrow> short_failure n r"
  by (auto simp: short_failure_def split: sum.splits EthereumParserError.splits)

lemma short_failure_and_then:
  "short_failure n r \<Longrightarrow> (\<And>a. short_failure n (f a)) \<Longrightarrow> short_failure n (and_then r f)"
  by (cases r) (auto simp: short_failure_def)

lemma short_failure_field:
  "short_failure m r \<Longrightarrow> m + length f + 4 \<le> n \<Longrightarrow> short_failure n (field_context f r)"
  by (auto simp: short_failure_def field_context_def split: sum.splits EthereumParserError.splits)

lemma short_failure_optional: "(\<And>s. short_failure n (f s)) \<Longrightarrow> short_failure n (optional f x)"
  by (auto simp: optional_def intro!: short_failure_and_then split: option.split)

lemma short_failure_map_err:
  "(\<And>e. r = Inl e \<Longrightarrow> length (f e) \<le> n) \<Longrightarrow>
     short_failure n (map_err (\<lambda>e. FailedToParseJsonTransaction (f e)) r)"
  by (cases r) simp_all

definition short_errors :: "nat \<Rightarrow> Alloy \<Rightarrow> bool" where
  "short_errors k al \<longleftrightarrow>
     (\<forall>s e. al_parse_address al s = Inl e \<longrightarrow> length e \<le> k)
     \<and> (\<forall>s e. al_u256_from_hex al s = Inl e \<longrightarrow> length e \<le> k)
     \<and> (\<forall>s e. al_hex_decode al s = Inl e \<longrightarrow> length e \<le> k)"

lemma short_errorsD:
  assumes "short_errors k al"
  shows "al_parse_address al s = Inl e \<Longrightarrow> length e \<le> k" and "al_u256_from_hex al s = Inl e \<Longrightarrow> length e \<le> k"
    and "al_hex_decode al s = Inl e \<Longrightarrow> length e \<le> k"
  using assms by (auto simp: short_errors_def)

lemma short_require_hex_prefix: "short_failure 120 (require_hex_prefix s)"
  using truncate_bound [of s] by (auto simp: require_hex_prefix_def ok_or_def split: option.split)

lemma short_parse_hex_int:
  assumes "\<And>h e. from_radix h = Inl e \<Longrightarrow> length e \<le> k + 40" and "length lbl \<le> 4"
  shows "short_failure (k + 140) (parse_hex_int lbl from_radix s)"
  unfolding parse_hex_int_def
proof (rule short_failure_and_then)
  show "short_failure (k + 140) (require_hex_prefix s)"
    using short_require_hex_prefix by (rule short_failure_mono) simp
  fix h
  show "short_failure (k + 140) (if h = [] then Inl (FailedToParseJsonTransaction
         (''Empty hex '' @ lbl @ '' '' @ [CHR 0x27] @ truncate_for_error s @ [CHR 0x27] @ ''; use '' @ [CHR 0x27] @ ''0x0'' @ [CHR 0x27] @ '' for zero''))
       else map_err (\<lambda>e. FailedToParseJsonTransaction
         (''Invalid hex '' @ lbl @ '' '' @ [CHR 0x27] @ truncate_for_error s @ [CHR 0x27] @ '': '' @ e)) (from_radix h))"
    using truncate_bound [of s] assms(2) by (auto intro!: short_failure_map_err dest!: assms(1))
qed

lemma from_str_radix_16_short: "from_str_radix_16 bits s = Inl e \<Longrightarrow> length e \<le> 40"
proof -
  have "hex_digits_value bits acc s = Inl e \<Longrightarrow> length e \<le> 40" for acc s
    by (induction bits acc s rule: hex_digits_value.induct) (auto split: option.splits if_splits)
  then show "from_str_radix_16 bits s = Inl e \<Longrightarrow> length e \<le> 40"
    by (auto simp: from_str_radix_16_def split: if_splits)
qed

lemma short_parse_hex_words:
  "short_failure (k + 140) (parse_hex_u64 s)" "short_failure (k + 140) (parse_hex_u128 s)"
  unfolding parse_hex_u64_def parse_hex_u128_def
  by (rule short_parse_hex_int; fastforce simp: and_then_Inl_iff dest: from_str_radix_16_short)+

lemma short_parse_hex_u256: "short_errors k al \<Longrightarrow> short_failure (k + 140) (parse_hex_u256 al s)"
  unfolding parse_hex_u256_def by (rule short_parse_hex_int) (fastforce simp: short_errors_def)+

lemma short_parse_json_address: "short_errors k al \<Longrightarrow> short_failure (k + 140) (parse_json_address al s)"
  using truncate_bound [of s]
  by (auto simp: parse_json_address_def intro!: short_failure_map_err dest: short_errorsD(1))

lemma short_parse_hex_bytes:
  assumes "short_errors k al" and "length s < 2 ^ 64"
  shows "short_failure (k + 140) (parse_hex_bytes al s)"
proof (cases "split_hex_prefix s")
  case None
  then have "parse_hex_bytes al s = and_then (require_hex_prefix s) (\<lambda>_. Inr [])"
    by (simp add: parse_hex_bytes_def require_hex_prefix_def ok_or_def)
  then show ?thesis
    using short_failure_mono [OF short_require_hex_prefix, of "k + 140"] by (simp add: short_failure_and_then)
next
  case (Some h)
  then have "length h < 10 ^ 20" using assms(2) by (auto simp: split_hex_prefix_Some)
  then have "length (nat_str (length h)) \<le> 20" by (rule length_nat_str) simp
  moreover have "length (nat_str MAX_HEX_DATA_LEN) \<le> 6"
    by (rule length_nat_str) (simp_all add: MAX_HEX_DATA_LEN_def)
  ultimately show ?thesis
    using Some truncate_bound [of s]
    by (auto simp: parse_hex_bytes_def require_hex_prefix_def ok_or_def intro!: short_failure_map_err
        dest!: short_errorsD(3) [OF assms(1)])
qed

section \<open>A sample of the libraries\<close>

definition hex_encode_bytes :: "bytes \<Rightarrow> string" where
  "hex_encode_bytes bs = concat (map (\<lambda>b. hex_byte (unat b)) bs)"

fun hex_decode_bytes :: "string \<Rightarrow> (string, bytes) result" where
  "hex_decode_bytes [] = Inr []"
| "hex_decode_bytes [c] = Inl ''Odd number of digits''"
| "hex_decode_bytes (c # d # s) =
     (case (hex_digit_value c, hex_digit_value d) of
        (Some m, Some n) \<Rightarrow> and_then (hex_decode_bytes s) (\<lambda>bs. Inr (of_nat (16 * m + n) # bs))
      | _ \<Rightarrow> Inl ''Invalid character'')"

definition sample_alloy :: Alloy where
  "sample_alloy =
     \<lparr>al_tx_type = (\<lambda>b. if b = 2 then Inr Eip1559Type else Inl ''unexpected type''),
      al_show_tx_type = (\<lambda>_. ''type''),
      al_decode_legacy = (\<lambda>_. Inl ''rlp''), al_decode_eip1559 = (\<lambda>_. Inl ''rlp''), al_decode_envelope = (\<lambda>_. Inl ''rlp''),
      al_parse_address = (\<lambda>s. case strip_prefix ''0x'' s of None \<Rightarrow> Inl ''bad address'' | Some h \<Rightarrow>
        and_then (hex_decode_bytes h) (\<lambda>a. if length a = 20 then Inr a else Inl ''bad length'')),
      al_show_address = (\<lambda>a. ''0x'' @ hex_encode_bytes a), al_debug_address = (\<lambda>a. ''0x'' @ hex_encode_bytes a),
      al_u256_from_hex = (\<lambda>h. and_then (from_str_radix_16 256 h) (\<lambda>n. Inr (of_nat n))),
      al_show_u256 = (\<lambda>n. nat_str (unat n)),
      al_format_units = (\<lambda>n u. let d = (if u = ''eth'' then 18 else 9)
        in Inr (nat_str (n div 10 ^ d) @ ''.'' @ zero_pad d (nat_str (n mod 10 ^ d)))),
      al_format_decimals = (\<lambda>n d. Inr (nat_str (n div 10 ^ unat d) @ ''.'' @ zero_pad (unat d) (nat_str (n mod 10 ^ unat d)))),
      al_hex_decode = hex_decode_bytes, al_hex_encode = hex_encode_bytes, al_b64_decode = (\<lambda>_. Inl ''base64''),
      al_json_from_str = (\<lambda>_. Inr \<lparr>json_from = None, json_to = None, json_data = None, json_value = Some ''0x1'',
        json_nonce = None, json_gas = None, json_gas_price = None, json_max_fee_per_gas = None,
        json_max_priority_fee_per_gas = None, json_chain_id = Some ''0x1''\<rparr>)\<rparr>"

lemma hex_decode_encode: "hex_decode_bytes (hex_encode_bytes bs) = Inr bs"
  using unat_byte_less
  by (induction bs) (simp_all add: hex_encode_bytes_def hex_byte_def hex_digit_value_digit less_mult_imp_div_less)

lemma hex_decode_half: "hex_decode_bytes h = Inr bs \<Longrightarrow> 2 * length bs = length h"
  by (induction h arbitrary: bs rule: hex_decode_bytes.induct) (auto simp: and_then_Inr_iff split: option.splits)

lemma length_hex_encode: "length (hex_encode_bytes bs) = 2 * length bs"
  by (induction bs) (simp_all add: hex_encode_bytes_def hex_byte_def)

lemma hex_decode_short: "hex_decode_bytes h = Inl e \<Longrightarrow> length e \<le> 40"
  by (induction h rule: hex_decode_bytes.induct) (auto simp: and_then_Inl_iff split: option.splits)

lemma unat_u256_less: "unat (w :: 256 word) < 2 ^ 256"
  using unsigned_less [of w] by simp

lemma sample_documented: "json_documented sample_alloy"
  by (auto simp: json_documented_def sample_alloy_def hex_decode_encode length_hex_encode
      from_str_radix_16_hex_str [OF unat_u256_less])

lemma sample_short: "short_errors 40 sample_alloy"
  by (fastforce simp: short_errors_def sample_alloy_def and_then_Inl_iff
      dest: hex_decode_short from_str_radix_16_short split: option.splits if_splits)

definition sample_tx :: TypedTransaction where
  "sample_tx = TEip1559 \<lparr>tx_nonce = 5, tx_gas_limit = 21000, tx_value = 10 ^ 18, tx_input = [0xAB],
     fee_chain_id = 1, max_fee_per_gas = 30, max_priority_fee_per_gas = 2, fee_access_list = [],
     eip1559_to = Call (replicate 20 0)\<rparr>"

section \<open>Properties\<close>

text \<open>Whatever JSON is accepted is within the stated sizes and gives a transaction that names a non-zero
  chain, has a non-zero gas limit, is of a supported type, tips no more than its fee cap, and carries
  at most 256 KiB of call data.\<close>

lemma json_transaction_bounds:
  assumes half: "\<forall>h bs. al_hex_decode al h = Inr bs \<longrightarrow> 2 * length bs = length h"
    and "decode_json_transaction al data = Inr t"
  shows "length data \<le> 1048576 \<and> (\<exists>c. c \<noteq> 0 \<and> tx_chain_id t = Some c) \<and> tx_gas_limit (tx_base t) \<noteq> 0
    \<and> tx_type t \<in> {LegacyType, Eip1559Type}
    \<and> pred_option (\<lambda>p. p \<le> extract_gas_price t) (extract_priority_fee t)
    \<and> length (tx_input (tx_base t)) \<le> 262144"
proof -
  from assms(2) obtain tx where len: "length data \<le> 1048576" and "build_transaction al tx = Inr t"
    by (auto simp: decode_json_transaction_def json_error_def and_then_Inr_iff MAX_JSON_INPUT_LEN_def split: if_splits)
  then obtain to v n g c d where b: "gas_of (json_gas tx) = Inr g" "chain_id_of (json_chain_id tx) = Inr c"
    "optional (parse_hex_bytes al) (json_data tx) = Inr d"
    "priced tx to (unwrap_or 0 v) (unwrap_or 0 n) g c (unwrap_or [] d) = Inr t"
    by (elim build_transaction_Inr) blast
  have "length (unwrap_or [] d) \<le> 262144"
    using b(3) parse_hex_bytes_bound [OF _ half]
    by (fastforce simp: optional_def and_then_Inr_iff MAX_HEX_DATA_LEN_def split: option.splits)
  with len b(1,2) priced_Inr [OF b(4)] show ?thesis
    by (auto simp: gas_of_Inr chain_id_of_Inr pred_option_def)
qed

text \<open>C36: a transaction that JSON can express, written out with every number in hexadecimal, is built back
  exactly: type, recipient, value, nonce, gas limit, chain, call data and fees.\<close>

theorem json_transaction_roundtrip:
  assumes doc: "json_documented al" and "json_tx_ok t"
  shows "build_transaction al (json_of al t) = Inr t"
proof (cases t)
  case (TLegacy l)
  with assms(2) obtain c where c: "legacy_chain_id l = Some c" "c \<noteq> 0" "tx_gas_limit l \<noteq> 0"
    "length (tx_input l) \<le> 262144" "pred_option (\<lambda>a. length a = 20) (kind_to (legacy_to l))"
    by (auto simp: json_tx_ok_def TxBase.truncate_def)
  note rw = fixed_fields [OF doc c(2,3,4)] to_field [OF doc c(5)]
  show ?thesis
    unfolding TLegacy json_of.simps build_transaction_def EthJsonTransaction.select_convs c(1) unwrap_or_simps rw
    by (simp add: optional_def [of _ None] priced_def rw(3) c(1))
next
  case (TEip1559 e)
  with assms(2) have c: "fee_chain_id e \<noteq> 0" "tx_gas_limit e \<noteq> 0" "length (tx_input e) \<le> 262144"
    "pred_option (\<lambda>a. length a = 20) (kind_to (eip1559_to e))"
    "max_priority_fee_per_gas e \<le> max_fee_per_gas e" "fee_access_list e = []"
    by (auto simp: json_tx_ok_def TxBase.truncate_def)
  note rw = fixed_fields [OF doc c(1,2,3)] to_field [OF doc c(4)]
  have fee: "json_max_fee_per_gas (json_of al (TEip1559 e)) = Some (''0x'' @ hex_str (unat (max_fee_per_gas e)))"
    by (simp add: hex_field_def)
  show ?thesis
    unfolding TEip1559 build_transaction_def priced_def fee option.case parse_hex_u128_hex_str
    unfolding json_of.simps EthJsonTransaction.select_convs unwrap_or_simps rw
    using c(5) [unfolded not_less [symmetric]] c(6) by (simp add: optional_def [of _ None] field_context_def Let_def)
qed (use assms(2) in \<open>simp_all add: json_tx_ok_def\<close>)

theorem json_transaction_roundtrip_witness:
  "build_transaction sample_alloy (json_of sample_alloy sample_tx) = Inr sample_tx"
  by (rule json_transaction_roundtrip [OF sample_documented])
    (simp add: json_tx_ok_def sample_tx_def TxBase.truncate_def)

text \<open>An error of the JSON path quotes a bounded piece of the input: whatever the transaction contains,
  the message is a JSON error of at most 200 bytes more than the library's own message.\<close>

lemma json_errors_bounded:
  assumes short: "short_errors k al" and data: "pred_option (\<lambda>d. length d < 2 ^ 64) (json_data tx)"
    and "build_transaction al tx = Inl e"
  shows "\<exists>msg. e = FailedToParseJsonTransaction msg \<and> length msg \<le> k + 200"
proof -
  note fields = short_parse_hex_words [of k] short_parse_hex_u256 [OF short] short_parse_json_address [OF short]
  have field: "short_failure (k + 200) (field_context f r)" if "short_failure (k + 140) r" "length f \<le> 50"
    for f and r :: "(EthereumParserError, 'b) result"
    using that by (elim short_failure_field) simp
  have bytes: "short_failure (k + 140) (optional (parse_hex_bytes al) (json_data tx))"
    using data short_parse_hex_bytes [OF short]
    by (auto simp: optional_def intro!: short_failure_and_then split: option.split)
  have "short_failure (k + 200) (priced tx to v n g c d)" for to v n g c d
    unfolding priced_def
    by (auto simp: Let_def quoted_def intro!: short_failure_and_then field short_failure_optional fields split: option.split)
  moreover have "short_failure (k + 200) (gas_of (json_gas tx))" "short_failure (k + 200) (chain_id_of (json_chain_id tx))"
    unfolding gas_of_def chain_id_of_def
    by (auto simp: quoted_def intro!: short_failure_and_then field fields split: option.split)
  ultimately have "short_failure (k + 200) (build_transaction al tx)"
    unfolding build_transaction_def
    by (auto simp: quoted_def intro!: short_failure_and_then field short_failure_optional fields bytes split: option.split)
  with assms(3) show ?thesis by (auto simp: short_failure_def split: EthereumParserError.splits)
qed

definition sample_json :: EthJsonTransaction where
  "sample_json = \<lparr>json_from = None, json_to = None, json_data = Some ''0xAB'', json_value = None, json_nonce = None,
     json_gas = Some ''0x0'', json_gas_price = None, json_max_fee_per_gas = None,
     json_max_priority_fee_per_gas = None, json_chain_id = None\<rparr>"

end
