(* ===== verification/EthRegistry.thy ===== *)
theory EthRegistry
  imports EthNetworks AbiRegistry "HOL-Library.Option_ord"
begin

text \<open>
  \<^verbatim>\<open>chain_parsers/visualsign-ethereum/src/token_metadata.rs\<close> and \<^verbatim>\<open>registry.rs\<close>: token metadata and the
  registry of contract types, tokens and well-known addresses. The four \<^verbatim>\<open>BTreeMap\<close>s are sorted
  association lists. Alloy's parser of addresses and \<^verbatim>\<open>format_units\<close> are parameters, as is the full
  name of a marker type, which the compiler supplies.
\<close>

section \<open>Tokens\<close>

datatype ErcStandard = Erc20 | Erc721 | Erc1155

fun display_erc_standard :: "ErcStandard \<Rightarrow> string" where
  "display_erc_standard Erc20 = ''ERC20''"
| "display_erc_standard Erc721 = ''ERC721''"
| "display_erc_standard Erc1155 = ''ERC1155''"

record TokenMetadata =
  tm_symbol :: string
  tm_name :: string
  tm_erc_standard :: ErcStandard
  tm_contract_address :: string
  tm_decimals :: byte

record TokenChainMetadata =
  tcm_network_id :: string
  tcm_assets :: "(string \<times> TokenMetadata) list"

definition compute_metadata_hash :: "(bytes \<Rightarrow> bytes) \<Rightarrow> bytes \<Rightarrow> string" where
  "compute_metadata_hash sha protobuf_bytes = concat (map (\<lambda>b. hex_byte (unat b)) (sha protobuf_bytes))"

section \<open>Well-known addresses\<close>

datatype WellKnownAddress = Permit2 | Weth | Usdc

text \<open>The derived order is that of the declaration.\<close>

instantiation WellKnownAddress :: linorder
begin

fun rank_WellKnownAddress :: "WellKnownAddress \<Rightarrow> nat" where
  "rank_WellKnownAddress Permit2 = 0"
| "rank_WellKnownAddress Weth = 1"
| "rank_WellKnownAddress Usdc = 2"

definition less_eq_WellKnownAddress :: "WellKnownAddress \<Rightarrow> WellKnownAddress \<Rightarrow> bool" where
  "less_eq_WellKnownAddress a b = (rank_WellKnownAddress a \<le> rank_WellKnownAddress b)"

definition less_WellKnownAddress :: "WellKnownAddress \<Rightarrow> WellKnownAddress \<Rightarrow> bool" where
  "less_WellKnownAddress a b = (rank_WellKnownAddress a < rank_WellKnownAddress b)"

instance
proof
  fix a b c :: WellKnownAddress
  show "a \<le> b \<Longrightarrow> b \<le> a \<Longrightarrow> a = b"
    by (cases a; cases b) (simp_all add: less_eq_WellKnownAddress_def)
qed (auto simp: less_eq_WellKnownAddress_def less_WellKnownAddress_def)

end

fun well_known_as_str :: "WellKnownAddress \<Rightarrow> string" where
  "well_known_as_str Permit2 = ''permit2''"
| "well_known_as_str Weth = ''weth''"
| "well_known_as_str Usdc = ''usdc''"

section \<open>Contract types\<close>

text \<open>\<^verbatim>\<open>rsplit("::").next()\<close>: what follows the last separator.\<close>

fun until_colons :: "string \<Rightarrow> string" where
  "until_colons (a # b # s) = (if a = CHR '':'' \<and> b = CHR '':'' then [] else a # until_colons (b # s))"
| "until_colons s = s"

definition short_type_id :: "string \<Rightarrow> string" where
  "short_type_id type_id = rev (until_colons (rev type_id))"

section \<open>The registry\<close>

record ContractRegistry =
  address_to_type :: "((u64 \<times> eth_address) \<times> string) list"
  type_to_addresses :: "((u64 \<times> string) \<times> eth_address list) list"
  token_metadata :: "((u64 \<times> eth_address) \<times> TokenMetadata) list"
  well_known_addresses :: "((WellKnownAddress \<times> u64 option) \<times> eth_address) list"

definition contract_registry_new :: ContractRegistry where
  "contract_registry_new =
     \<lparr>address_to_type = [], type_to_addresses = [], token_metadata = [], well_known_addresses = []\<rparr>"

definition register_contract :: "ContractRegistry \<Rightarrow> u64 \<Rightarrow> string \<Rightarrow> eth_address list \<Rightarrow> ContractRegistry" where
  "register_contract reg chain_id contract_type addresses =
     (let reg' = fold (\<lambda>address reg. reg\<lparr>address_to_type :=
                    bt_insert (chain_id, address) contract_type (address_to_type reg)\<rparr>) addresses reg
      in reg'\<lparr>type_to_addresses := bt_insert (chain_id, contract_type) addresses (type_to_addresses reg')\<rparr>)"

definition register_contract_typed ::
  "string \<Rightarrow> ContractRegistry \<Rightarrow> u64 \<Rightarrow> eth_address list \<Rightarrow> ContractRegistry" where
  "register_contract_typed type_id reg chain_id addresses =
     register_contract reg chain_id (short_type_id type_id) addresses"

definition register_token ::
  "(string \<Rightarrow> (string, eth_address) result) \<Rightarrow> ContractRegistry \<Rightarrow> u64 \<Rightarrow> TokenMetadata
    \<Rightarrow> (string, ContractRegistry) result" where
  "register_token parse_address reg chain_id metadata =
     and_then (map_err (\<lambda>_. ''Invalid contract address: '' @ tm_contract_address metadata)
       (parse_address (tm_contract_address metadata))) (\<lambda>address.
         Inr (reg\<lparr>token_metadata := bt_insert (chain_id, address) metadata (token_metadata reg)\<rparr>))"

definition get_contract_type :: "ContractRegistry \<Rightarrow> u64 \<Rightarrow> eth_address \<Rightarrow> string option" where
  "get_contract_type reg chain_id address = map_of (address_to_type reg) (chain_id, address)"

definition get_token_symbol :: "ContractRegistry \<Rightarrow> u64 \<Rightarrow> eth_address \<Rightarrow> string option" where
  "get_token_symbol reg chain_id token = map_option tm_symbol (map_of (token_metadata reg) (chain_id, token))"

definition get_token_erc_standard :: "ContractRegistry \<Rightarrow> u64 option \<Rightarrow> eth_address \<Rightarrow> ErcStandard option" where
  "get_token_erc_standard reg chain_id token =
     map_option tm_erc_standard
       (case chain_id of
          Some c \<Rightarrow> map_of (token_metadata reg) (c, token)
        | None \<Rightarrow> map_option snd (find (\<lambda>((c, addr), m). addr = token) (token_metadata reg)))"

definition register_universal_address :: "ContractRegistry \<Rightarrow> WellKnownAddress \<Rightarrow> eth_address \<Rightarrow> ContractRegistry" where
  "register_universal_address reg address_type address =
     reg\<lparr>well_known_addresses := bt_insert (address_type, None) address (well_known_addresses reg)\<rparr>"

definition register_chain_specific_address ::
  "ContractRegistry \<Rightarrow> WellKnownAddress \<Rightarrow> u64 \<Rightarrow> eth_address \<Rightarrow> ContractRegistry" where
  "register_chain_specific_address reg address_type chain_id address =
     reg\<lparr>well_known_addresses := bt_insert (address_type, Some chain_id) address (well_known_addresses reg)\<rparr>"

definition get_well_known_address :: "ContractRegistry \<Rightarrow> WellKnownAddress \<Rightarrow> u64 \<Rightarrow> eth_address option" where
  "get_well_known_address reg address_type chain_id =
     (case map_of (well_known_addresses reg) (address_type, Some chain_id) of
        Some addr \<Rightarrow> Some addr
      | None \<Rightarrow> map_of (well_known_addresses reg) (address_type, None))"

text \<open>Both amount renderers: the raw amount is a \<^verbatim>\<open>u128\<close> or a \<^verbatim>\<open>U256\<close>, and \<^verbatim>\<open>format_units\<close> reads its value.\<close>

definition format_token_amount ::
  "(nat \<Rightarrow> byte \<Rightarrow> (string, string) result) \<Rightarrow> ContractRegistry \<Rightarrow> u64 \<Rightarrow> eth_address \<Rightarrow> 128 word
    \<Rightarrow> (string \<times> string) option" where
  "format_token_amount format_units reg chain_id token raw_amount =
     (case map_of (token_metadata reg) (chain_id, token) of
        None \<Rightarrow> None
      | Some m \<Rightarrow>
          (case format_units (unat raw_amount) (tm_decimals m) of
             Inl _ \<Rightarrow> None
           | Inr formatted \<Rightarrow> Some (formatted, tm_symbol m)))"

definition format_token_amount_u256 ::
  "(nat \<Rightarrow> byte \<Rightarrow> (string, string) result) \<Rightarrow> ContractRegistry \<Rightarrow> u64 \<Rightarrow> eth_address \<Rightarrow> 256 word
    \<Rightarrow> (string \<times> string) option" where
  "format_token_amount_u256 format_units reg chain_id token raw_amount =
     (case map_of (token_metadata reg) (chain_id, token) of
        None \<Rightarrow> None
      | Some m \<Rightarrow>
          (case format_units (unat raw_amount) (tm_decimals m) of
             Inl _ \<Rightarrow> None
           | Inr formatted \<Rightarrow> Some (formatted, tm_symbol m)))"

text \<open>The loop of \<^verbatim>\<open>load_chain_metadata\<close>: it goes on after an error, so the registry is returned beside the
  errors.\<close>

fun load_tokens ::
  "(string \<Rightarrow> (string, eth_address) result) \<Rightarrow> u64 \<Rightarrow> TokenMetadata list \<Rightarrow> ContractRegistry
    \<Rightarrow> string list \<times> ContractRegistry" where
  "load_tokens parse_address chain_id [] reg = ([], reg)"
| "load_tokens parse_address chain_id (t # ts) reg =
     (case register_token parse_address reg chain_id t of
        Inl e \<Rightarrow> (let (errors, reg') = load_tokens parse_address chain_id ts reg in (e # errors, reg'))
      | Inr reg' \<Rightarrow> load_tokens parse_address chain_id ts reg')"

definition load_chain_metadata ::
  "(string \<Rightarrow> (string, eth_address) result) \<Rightarrow> ContractRegistry \<Rightarrow> TokenChainMetadata
    \<Rightarrow> (string, unit) result \<times> ContractRegistry" where
  "load_chain_metadata parse_address reg chain_metadata =
     (case network_id_to_chain_id (tcm_network_id chain_metadata) of
        None \<Rightarrow> (Inl (''Unknown network ID: '' @ tcm_network_id chain_metadata), reg)
      | Some chain_id \<Rightarrow>
          (let (errors, reg') = load_tokens parse_address chain_id (map snd (tcm_assets chain_metadata)) reg
           in (if errors = [] then Inr () else Inl (join ''; '' errors), reg')))"

section \<open>Facts\<close>

definition contract_inv :: "ContractRegistry \<Rightarrow> bool" where
  "contract_inv reg \<longleftrightarrow> ssorted (address_to_type reg) \<and> ssorted (type_to_addresses reg)
     \<and> ssorted (token_metadata reg) \<and> ssorted (well_known_addresses reg)"

lemma contract_inv_new: "contract_inv contract_registry_new"
  by (simp add: contract_inv_def contract_registry_new_def)

lemma register_contract_eq:
  assumes "contract_inv reg"
  shows "contract_inv (register_contract reg c t as)"
    and "map_of (address_to_type (register_contract reg c t as)) (c', a) =
      (if c' = c \<and> a \<in> set as then Some t else map_of (address_to_type reg) (c', a))"
    and "token_metadata (register_contract reg c t as) = token_metadata reg"
    and "well_known_addresses (register_contract reg c t as) = well_known_addresses reg"
proof -
  let ?step = "\<lambda>address reg. reg\<lparr>address_to_type := bt_insert (c, address) t (address_to_type reg)\<rparr>"
  have fold: "contract_inv (fold ?step as reg)
      \<and> map_of (address_to_type (fold ?step as reg)) (c', a) =
        (if c' = c \<and> a \<in> set as then Some t else map_of (address_to_type reg) (c', a))
      \<and> token_metadata (fold ?step as reg) = token_metadata reg
      \<and> well_known_addresses (fold ?step as reg) = well_known_addresses reg"
    using assms
  proof (induction as arbitrary: reg)
    case (Cons b as)
    have "contract_inv (?step b reg)" using Cons.prems by (simp add: contract_inv_def ssorted_bt_insert)
    from Cons.IH [OF this] Cons.prems show ?case by (auto simp: contract_inv_def map_of_bt_insert)
  qed simp
  then show "contract_inv (register_contract reg c t as)"
    "map_of (address_to_type (register_contract reg c t as)) (c', a) =
      (if c' = c \<and> a \<in> set as then Some t else map_of (address_to_type reg) (c', a))"
    "token_metadata (register_contract reg c t as) = token_metadata reg"
    "well_known_addresses (register_contract reg c t as) = well_known_addresses reg"
    by (auto simp: register_contract_def Let_def contract_inv_def ssorted_bt_insert)
qed

lemma register_token_Inr:
  "register_token p reg c t = Inr reg' \<longleftrightarrow> (\<exists>a. p (tm_contract_address t) = Inr a
     \<and> reg' = reg\<lparr>token_metadata := bt_insert (c, a) t (token_metadata reg)\<rparr>)"
  by (auto simp: register_token_def and_then_Inr_iff)

lemma register_token_Inl:
  "register_token p reg c t = Inl e \<longleftrightarrow> \<not> is_ok (p (tm_contract_address t))
     \<and> e = ''Invalid contract address: '' @ tm_contract_address t"
  by (cases "p (tm_contract_address t)") (auto simp: register_token_def)

lemma find_token_iff:
  "find (\<lambda>((c, addr), m). addr = token) ts = None \<longleftrightarrow> (\<forall>c. map_of ts (c, token) = None)"
  by (force simp: find_None_iff map_of_eq_None_iff image_iff)

lemma find_append: "find P (xs @ ys) = (case find P xs of None \<Rightarrow> find P ys | Some x \<Rightarrow> Some x)"
  by (induction xs) auto

text \<open>The state a list of tokens leaves: the last token with a parseable address wins.\<close>

definition token_entry ::
  "(string \<Rightarrow> (string, eth_address) result) \<Rightarrow> TokenMetadata list \<Rightarrow> eth_address \<Rightarrow> TokenMetadata option" where
  "token_entry p ts a = find (\<lambda>t. p (tm_contract_address t) = Inr a) (rev ts)"

lemma load_tokens_eq:
  assumes "contract_inv reg"
  shows "fst (load_tokens p c ts reg) = map (\<lambda>t. ''Invalid contract address: '' @ tm_contract_address t)
      (filter (\<lambda>t. \<not> is_ok (p (tm_contract_address t))) ts)"
    and "contract_inv (snd (load_tokens p c ts reg))"
    and "map_of (token_metadata (snd (load_tokens p c ts reg))) (c', a) =
      (case (if c' = c then token_entry p ts a else None) of
         Some t \<Rightarrow> Some t | None \<Rightarrow> map_of (token_metadata reg) (c', a))"
    and "address_to_type (snd (load_tokens p c ts reg)) = address_to_type reg"
proof -
  have "fst (load_tokens p c ts reg) = map (\<lambda>t. ''Invalid contract address: '' @ tm_contract_address t)
        (filter (\<lambda>t. \<not> is_ok (p (tm_contract_address t))) ts)
      \<and> contract_inv (snd (load_tokens p c ts reg))
      \<and> map_of (token_metadata (snd (load_tokens p c ts reg))) (c', a) =
        (case (if c' = c then token_entry p ts a else None) of
           Some t \<Rightarrow> Some t | None \<Rightarrow> map_of (token_metadata reg) (c', a))
      \<and> address_to_type (snd (load_tokens p c ts reg)) = address_to_type reg"
    using assms
  proof (induction ts arbitrary: reg)
    case Nil
    then show ?case by (simp add: token_entry_def)
  next
    case (Cons t ts)
    show ?case
    proof (cases "p (tm_contract_address t)")
      case (Inl e)
      then have "register_token p reg c t = Inl (''Invalid contract address: '' @ tm_contract_address t)"
        by (simp add: register_token_Inl)
      with Inl Cons.IH [OF Cons.prems] show ?thesis
        by (cases "load_tokens p c ts reg") (simp add: token_entry_def find_append split: option.split)
    next
      case (Inr b)
      let ?reg = "reg\<lparr>token_metadata := bt_insert (c, b) t (token_metadata reg)\<rparr>"
      have "register_token p reg c t = Inr ?reg" using Inr by (simp add: register_token_Inr)
      moreover have "contract_inv ?reg" using Cons.prems by (simp add: contract_inv_def ssorted_bt_insert)
      ultimately show ?thesis
        using Inr Cons.IH [of ?reg] Cons.prems
        by (auto simp: token_entry_def find_append contract_inv_def map_of_bt_insert split: option.split)
    qed
  qed
  then show "fst (load_tokens p c ts reg) = map (\<lambda>t. ''Invalid contract address: '' @ tm_contract_address t)
      (filter (\<lambda>t. \<not> is_ok (p (tm_contract_address t))) ts)"
    "contract_inv (snd (load_tokens p c ts reg))"
    "map_of (token_metadata (snd (load_tokens p c ts reg))) (c', a) =
      (case (if c' = c then token_entry p ts a else None) of
         Some t \<Rightarrow> Some t | None \<Rightarrow> map_of (token_metadata reg) (c', a))"
    "address_to_type (snd (load_tokens p c ts reg)) = address_to_type reg"
    by blast+
qed

section \<open>Properties\<close>

text \<open>C38: loading a wallet's token metadata keeps the registry's invariant, registers every token whose
  address parses (the last one wins for an address), touches no other chain and no contract type, and
  reports exactly the tokens whose address does not parse, in order; an unknown network changes
  nothing.\<close>

theorem load_chain_metadata_exact:
  assumes "contract_inv reg"
  shows "case load_chain_metadata p reg m of (res, reg') \<Rightarrow>
    contract_inv reg' \<and> address_to_type reg' = address_to_type reg
    \<and> map_of (token_metadata reg') (c, a) =
        (case (if network_id_to_chain_id (tcm_network_id m) = Some c
               then token_entry p (map snd (tcm_assets m)) a else None) of
           Some t \<Rightarrow> Some t | None \<Rightarrow> map_of (token_metadata reg) (c, a))
    \<and> (res = Inr () \<longleftrightarrow> network_id_to_chain_id (tcm_network_id m) \<noteq> None
         \<and> (\<forall>t\<in>snd ` set (tcm_assets m). is_ok (p (tm_contract_address t))))"
proof (cases "network_id_to_chain_id (tcm_network_id m)")
  case None
  with assms show ?thesis by (simp add: load_chain_metadata_def)
next
  case (Some d)
  note eq = load_tokens_eq [OF assms, of p d "map snd (tcm_assets m)"]
  obtain errors reg' where l: "load_tokens p d (map snd (tcm_assets m)) reg = (errors, reg')" by force
  have "errors = [] \<longleftrightarrow> (\<forall>t\<in>snd ` set (tcm_assets m). is_ok (p (tm_contract_address t)))"
    using eq(1) unfolding l by (simp add: filter_empty_conv)
  with eq(2,4) eq(3) [of c a] Some show ?thesis by (auto simp: load_chain_metadata_def l)
qed

text \<open>A wallet that sends one token of mainnet, and a parser that knows that address.\<close>

theorem load_chain_metadata_exact_witness:
  "map_of (token_metadata (snd (load_chain_metadata (\<lambda>s. if s = ''0xa'' then Inr [10] else Inl ''bad'') contract_registry_new
     \<lparr>tcm_network_id = ''ETHEREUM_MAINNET'', tcm_assets =
        [(''A'', \<lparr>tm_symbol = ''A'', tm_name = ''Token A'', tm_erc_standard = Erc20,
           tm_contract_address = ''0xa'', tm_decimals = 6\<rparr>)]\<rparr>))) (1, [10])
   = Some \<lparr>tm_symbol = ''A'', tm_name = ''Token A'', tm_erc_standard = Erc20,
       tm_contract_address = ''0xa'', tm_decimals = 6\<rparr>"
proof -
  have "network_id_to_chain_id ''ETHEREUM_MAINNET'' = Some 1" by code_simp
  with load_chain_metadata_exact [where c = 1 and a = "[10]", OF contract_inv_new,
      where p = "\<lambda>s. if s = ''0xa'' then Inr [10] else Inl ''bad''"
        and m = "\<lparr>tcm_network_id = ''ETHEREUM_MAINNET'', tcm_assets =
          [(''A'', \<lparr>tm_symbol = ''A'', tm_name = ''Token A'', tm_erc_standard = Erc20,
             tm_contract_address = ''0xa'', tm_decimals = 6\<rparr>)]\<rparr>"]
  show ?thesis by (simp add: token_entry_def split: prod.splits)
qed

end
