(* ===== verification/Lint.thy ===== *)
theory Lint
  imports Prelude
begin

text \<open>
  \<^verbatim>\<open>visualsign/src/lint.rs\<close>: severities and the lint configuration. The \<^verbatim>\<open>BTreeMap\<close> of
  overrides is a sorted association list.
\<close>

datatype Severity = SevOk | SevWarn | SevError | SevAllow

fun severity_as_str :: "Severity \<Rightarrow> string" where
  "severity_as_str SevOk = ''ok''"
| "severity_as_str SevWarn = ''warn''"
| "severity_as_str SevError = ''error''"
| "severity_as_str SevAllow = ''allow''"

record LintConfig =
  overrides :: "(string \<times> Severity) list"
  report_all_rules :: bool

definition lint_config_default :: LintConfig where
  "lint_config_default = \<lparr>overrides = [], report_all_rules = True\<rparr>"

definition severity_for :: "LintConfig \<Rightarrow> string \<Rightarrow> Severity \<Rightarrow> Severity" where
  "severity_for cfg rule d = unwrap_or d (map_of (overrides cfg) rule)"

definition should_report_ok :: "LintConfig \<Rightarrow> string \<Rightarrow> bool" where
  "should_report_ok cfg rule =
     (if \<not> report_all_rules cfg then False
      else (case map_of (overrides cfg) rule of Some SevAllow \<Rightarrow> False | _ \<Rightarrow> True))"

text \<open>An ok diagnostic is reported exactly when the configuration asks for all rules and the
  rule's severity is not \<^verbatim>\<open>Allow\<close>, whatever other severity it defaults to.\<close>

lemma should_report_ok_iff:
  "d \<noteq> SevAllow \<Longrightarrow>
     should_report_ok cfg rule \<longleftrightarrow> report_all_rules cfg \<and> severity_for cfg rule d \<noteq> SevAllow"
  by (auto simp: should_report_ok_def severity_for_def unwrap_or_def split: option.split Severity.split)

end
