(* ===== verification/FieldBuilders.thy ===== *)
theory FieldBuilders
  imports PayloadFacts Lint
begin

text \<open>
  \<^verbatim>\<open>visualsign/src/field_builders.rs\<close>: the constructors every chain converter uses. The number
  pattern of the source is kept as a regular expression and matched by derivatives; the
  lemma \<open>number_pattern\<close> says which strings it accepts. Log lines are not modelled.
\<close>

section \<open>Regular expressions\<close>

datatype rexp =
    Zero
  | One
  | Chars "char list"
  | Seq rexp rexp
  | Alt rexp rexp
  | Star rexp

fun nullable :: "rexp \<Rightarrow> bool" where
  "nullable Zero = False"
| "nullable One = True"
| "nullable (Chars cs) = False"
| "nullable (Seq r s) = (nullable r \<and> nullable s)"
| "nullable (Alt r s) = (nullable r \<or> nullable s)"
| "nullable (Star r) = True"

fun deriv :: "char \<Rightarrow> rexp \<Rightarrow> rexp" where
  "deriv c Zero = Zero"
| "deriv c One = Zero"
| "deriv c (Chars cs) = (if c \<in> set cs then One else Zero)"
| "deriv c (Seq r s) =
     (if nullable r then Alt (Seq (deriv c r) s) (deriv c s) else Seq (deriv c r) s)"
| "deriv c (Alt r s) = Alt (deriv c r) (deriv c s)"
| "deriv c (Star r) = Seq (deriv c r) (Star r)"

text \<open>A match of the whole text, as the anchors \<^verbatim>\<open>^\<close> and \<^verbatim>\<open>$\<close> ask for.\<close>

definition full_match :: "rexp \<Rightarrow> string \<Rightarrow> bool" where
  "full_match r s = nullable (fold deriv s r)"

definition rplus :: "rexp \<Rightarrow> rexp" where
  "rplus r = Seq r (Star r)"

definition ropt :: "rexp \<Rightarrow> rexp" where
  "ropt r = Alt One r"

definition SIGNED_PROPER_NUMBER_RE :: rexp where
  "SIGNED_PROPER_NUMBER_RE =
     Alt (Seq (ropt (Chars ''-+''))
            (Seq (rplus (Chars ''0123456789''))
                 (ropt (Seq (Chars ''.'') (rplus (Chars ''0123456789''))))))
         (Seq (ropt (Chars ''-+'')) (Chars ''0''))"

section \<open>Builders\<close>

definition annotate_field :: "SignablePayloadField \<Rightarrow> AnnotatedPayloadField" where
  "annotate_field f = Annotated f None None"

definition create_text_field :: "string \<Rightarrow> string \<Rightarrow> (VisualSignError, AnnotatedPayloadField) result" where
  "create_text_field lbl t =
     Inr (Annotated (TextV2 \<lparr>fallback_text = t, label = lbl\<rparr> \<lparr>text_v2_text = t\<rparr>) None None)"

definition validate_number_string :: "string \<Rightarrow> (VisualSignError, bool) result" where
  "validate_number_string n =
     (if n = [] then Inl (EmptyField n)
      else if full_match SIGNED_PROPER_NUMBER_RE n then Inr True
      else Inl (InvalidNumberField n))"

definition create_number_field ::
  "string \<Rightarrow> string \<Rightarrow> string \<Rightarrow> (VisualSignError, AnnotatedPayloadField) result" where
  "create_number_field lbl n unit =
     and_then (validate_number_string n) (\<lambda>_.
       let fallback = (if unit = [] then n else n @ '' '' @ unit)
       in Inr (Annotated (Number \<lparr>fallback_text = fallback, label = lbl\<rparr> \<lparr>number_number = n\<rparr>) None None))"

definition create_amount_field ::
  "string \<Rightarrow> string \<Rightarrow> string \<Rightarrow> (VisualSignError, AnnotatedPayloadField) result" where
  "create_amount_field lbl a abbreviation =
     and_then (validate_number_string a) (\<lambda>_.
       if abbreviation = [] then Inl (EmptyField abbreviation)
       else let fallback = a @ '' '' @ abbreviation
            in Inr (Annotated (AmountV2 \<lparr>fallback_text = fallback, label = lbl\<rparr>
                 \<lparr>amount_v2_amount = a, amount_v2_abbreviation = Some abbreviation\<rparr>) None None))"

definition create_address_field ::
  "string \<Rightarrow> string \<Rightarrow> string option \<Rightarrow> string option \<Rightarrow> string option \<Rightarrow> string option
    \<Rightarrow> (VisualSignError, AnnotatedPayloadField) result" where
  "create_address_field lbl address name memo asset_label badge_text =
     Inr (Annotated (AddressV2 \<lparr>fallback_text = address, label = lbl\<rparr>
       \<lparr>address_v2_address = address, address_v2_name = unwrap_or [] name, address_v2_memo = memo,
        address_v2_asset_label = unwrap_or [] asset_label, address_v2_badge_text = badge_text\<rparr>) None None)"

definition default_hex_representation :: "bytes \<Rightarrow> string" where
  "default_hex_representation data = join [] (map (\<lambda>b. hex_byte (unat b)) data)"

definition create_raw_data_field ::
  "bytes \<Rightarrow> string option \<Rightarrow> (VisualSignError, AnnotatedPayloadField) result" where
  "create_raw_data_field data optional_fallback_string =
     (let s = (case optional_fallback_string of None \<Rightarrow> default_hex_representation data | Some t \<Rightarrow> t)
      in Inr (Annotated (TextV2 \<lparr>fallback_text = s, label = ''Raw Data''\<rparr> \<lparr>text_v2_text = s\<rparr>) None None))"

definition create_preview_layout ::
  "string \<Rightarrow> string \<Rightarrow> AnnotatedPayloadField list \<Rightarrow> AnnotatedPayloadField" where
  "create_preview_layout title subtitle fs =
     Annotated (PreviewLayout \<lparr>fallback_text = subtitle, label = title\<rparr>
       (PreviewLayoutData (Some \<lparr>text_v2_text = title\<rparr>) (Some \<lparr>text_v2_text = subtitle\<rparr>)
          None (Some (ListLayoutData fs)))) None None"

definition create_diagnostic_field ::
  "string \<Rightarrow> string \<Rightarrow> Severity \<Rightarrow> string \<Rightarrow> u32 option \<Rightarrow> AnnotatedPayloadField" where
  "create_diagnostic_field rule domain level message instruction_index =
     Annotated (Diagnostic
       \<lparr>fallback_text = severity_as_str level @ '': '' @ message, label = rule\<rparr>
       \<lparr>diagnostic_rule = rule, diagnostic_domain = domain, diagnostic_level = severity_as_str level,
        diagnostic_message = message, diagnostic_instruction_index = instruction_index\<rparr>) None None"

section \<open>The language of a regular expression\<close>

inductive in_lang :: "rexp \<Rightarrow> string \<Rightarrow> bool" where
  one: "in_lang One []"
| chars: "c \<in> set cs \<Longrightarrow> in_lang (Chars cs) [c]"
| seq: "in_lang r s \<Longrightarrow> in_lang q t \<Longrightarrow> in_lang (Seq r q) (s @ t)"
| alt1: "in_lang r s \<Longrightarrow> in_lang (Alt r q) s"
| alt2: "in_lang q s \<Longrightarrow> in_lang (Alt r q) s"
| star0: "in_lang (Star r) []"
| star1: "in_lang r s \<Longrightarrow> in_lang (Star r) t \<Longrightarrow> in_lang (Star r) (s @ t)"

inductive_simps in_lang_simps:
  "in_lang Zero s" "in_lang One s" "in_lang (Chars cs) s" "in_lang (Seq r q) s" "in_lang (Alt r q) s"

lemma nullable_iff: "nullable r \<longleftrightarrow> in_lang r []"
  by (induction r) (auto simp: in_lang_simps intro: in_lang.intros)

lemma star_nonempty:
  "in_lang (Star r) s \<Longrightarrow> s \<noteq> [] \<Longrightarrow>
     \<exists>a b. s = a @ b \<and> a \<noteq> [] \<and> in_lang r a \<and> in_lang (Star r) b"
proof (induction "Star r" s rule: in_lang.induct)
  case (star1 s t)
  show ?case
  proof (cases "s = []")
    case True
    with star1 show ?thesis by simp
  next
    case False
    with star1 show ?thesis by blast
  qed
qed simp

lemma star_Cons:
  "in_lang (Star r) (c # s) \<longleftrightarrow> (\<exists>a b. s = a @ b \<and> in_lang r (c # a) \<and> in_lang (Star r) b)"
proof
  assume "in_lang (Star r) (c # s)"
  from star_nonempty [OF this] show "\<exists>a b. s = a @ b \<and> in_lang r (c # a) \<and> in_lang (Star r) b"
    by (auto simp: Cons_eq_append_conv)
next
  assume "\<exists>a b. s = a @ b \<and> in_lang r (c # a) \<and> in_lang (Star r) b"
  then show "in_lang (Star r) (c # s)" using in_lang.star1 [of r "c # _"] by fastforce
qed

lemma deriv_iff: "in_lang (deriv c r) s \<longleftrightarrow> in_lang r (c # s)"
proof (induction r arbitrary: s)
  case (Seq r q)
  then show ?case by (auto simp: in_lang_simps nullable_iff Cons_eq_append_conv)
next
  case (Star r)
  then show ?case by (simp add: in_lang_simps star_Cons)
qed (auto simp: in_lang_simps)

lemma full_match_iff: "full_match r s \<longleftrightarrow> in_lang r s"
  unfolding full_match_def by (induction s arbitrary: r) (simp_all add: nullable_iff deriv_iff)

lemma star_chars: "in_lang (Star (Chars cs)) s \<longleftrightarrow> set s \<subseteq> set cs"
  by (induction s) (auto simp: star_Cons in_lang_simps intro: in_lang.star0)

lemma plus_chars: "in_lang (rplus (Chars cs)) s \<longleftrightarrow> s \<noteq> [] \<and> set s \<subseteq> set cs"
proof (cases s)
  case (Cons c t)
  have "in_lang (Seq (Chars cs) (Star (Chars cs))) (c # t) \<longleftrightarrow> c \<in> set cs \<and> set t \<subseteq> set cs"
  proof
    assume "c \<in> set cs \<and> set t \<subseteq> set cs"
    then have "in_lang (Chars cs) [c]" and "in_lang (Star (Chars cs)) t"
      by (auto simp: star_chars intro: in_lang.chars)
    from in_lang.seq [OF this] show "in_lang (Seq (Chars cs) (Star (Chars cs))) (c # t)" by simp
  qed (auto simp: in_lang_simps star_chars)
  with Cons show ?thesis by (simp add: rplus_def)
qed (simp add: rplus_def in_lang_simps)

section \<open>The number pattern\<close>

definition digits :: "string \<Rightarrow> bool" where
  "digits s = (s \<noteq> [] \<and> list_all is_ascii_digit s)"

lemma digit_chars: "set s \<subseteq> set ''0123456789'' \<longleftrightarrow> list_all is_ascii_digit s"
proof -
  have "c \<in> set ''0123456789'' \<longleftrightarrow> is_ascii_digit c" for c
  proof
    assume "is_ascii_digit c"
    then have "code c \<in> {48, 49, 50, 51, 52, 53, 54, 55, 56, 57}"
      unfolding is_ascii_digit_def by simp presburger
    then have "code c \<in> code ` set ''0123456789''" by (simp add: code_def)
    then show "c \<in> set ''0123456789''" unfolding image_iff code_inject by blast
  qed (auto simp: is_ascii_digit_def code_def)
  then show ?thesis unfolding subset_iff list_all_iff by blast
qed

lemma plus_digits: "in_lang (rplus (Chars ''0123456789'')) s \<longleftrightarrow> digits s"
  unfolding plus_chars digit_chars digits_def ..

lemma opt_iff: "in_lang (ropt r) s \<longleftrightarrow> s = [] \<or> in_lang r s"
  by (simp add: ropt_def in_lang_simps)

definition signed_decimal :: "string \<Rightarrow> bool" where
  "signed_decimal s \<longleftrightarrow> (\<exists>sign whole frac. s = sign @ whole @ frac \<and> sign \<in> {[], ''-'', ''+''}
     \<and> digits whole \<and> (frac = [] \<or> (\<exists>d. frac = ''.'' @ d \<and> digits d)))"

lemma sign_iff: "in_lang (ropt (Chars ''-+'')) s \<longleftrightarrow> s \<in> {[], ''-'', ''+''}"
  by (auto simp: opt_iff in_lang_simps)

lemma number_pattern: "full_match SIGNED_PROPER_NUMBER_RE s \<longleftrightarrow> signed_decimal s"
proof -
  have frac: "in_lang (ropt (Seq (Chars ''.'') (rplus (Chars ''0123456789'')))) f
      \<longleftrightarrow> f = [] \<or> (\<exists>d. f = ''.'' @ d \<and> digits d)" for f
    unfolding opt_iff in_lang_simps(4) plus_digits by (auto simp: in_lang_simps)
  have zero: "digits ''0''" by (simp add: digits_def is_ascii_digit_def)
  have "signed_decimal (sign @ ''0'')" if "sign \<in> {[], ''-'', ''+''}" for sign
    unfolding signed_decimal_def using that zero by (intro exI [of _ sign] exI [of _ "''0''"] exI [of _ "[]"]) simp
  then have "in_lang (Seq (ropt (Chars ''-+'')) (Chars ''0'')) s \<Longrightarrow> signed_decimal s"
    unfolding in_lang_simps(4) sign_iff by (auto simp: in_lang_simps(3))
  moreover have "in_lang (Seq (ropt (Chars ''-+'')) (Seq (rplus (Chars ''0123456789''))
      (ropt (Seq (Chars ''.'') (rplus (Chars ''0123456789'')))))) s \<longleftrightarrow> signed_decimal s"
    unfolding in_lang_simps(4) [of "ropt (Chars ''-+'')"] in_lang_simps(4) [of "rplus _"]
      sign_iff plus_digits frac signed_decimal_def by (metis append_assoc)
  ultimately show ?thesis
    unfolding full_match_iff SIGNED_PROPER_NUMBER_RE_def in_lang_simps(5) by blast
qed

lemma signed_decimal_ne: "signed_decimal s \<Longrightarrow> s \<noteq> []"
  by (auto simp: signed_decimal_def digits_def)

lemma validate_number_string_eq:
  "validate_number_string n =
     (if signed_decimal n then Inr True
      else if n = [] then Inl (EmptyField n) else Inl (InvalidNumberField n))"
  by (auto simp: validate_number_string_def number_pattern dest: signed_decimal_ne)

section \<open>Properties\<close>

lemma space_is_whitespace: "ws_prefix_len (CHR '' '' # s) = 1"
  by (simp add: ws_prefix_len_def ws_encodings_def code_def)

lemma trim_start_space: "trim_start ('' '' @ s) = trim_start s"
  by (subst trim_start.simps) (simp add: space_is_whitespace)

lemma trim_start_Nil [simp]: "trim_start [] = []"
  by (subst trim_start.simps) simp

text \<open>Number and amount fields are built exactly for an optional sign, digits and an optional
  fraction of digits; an empty number, a malformed one and an empty unit of an amount are the
  three distinct errors, in this order.\<close>

lemma number_fields_exact:
  "create_number_field lbl n unit =
     (if signed_decimal n
      then Inr (annotate_field (Number \<lparr>fallback_text = (if unit = [] then n else n @ '' '' @ unit), label = lbl\<rparr>
             \<lparr>number_number = n\<rparr>))
      else if n = [] then Inl (EmptyField []) else Inl (InvalidNumberField n))
   \<and> create_amount_field lbl n unit =
     (if signed_decimal n
      then (if unit = [] then Inl (EmptyField [])
            else Inr (annotate_field (AmountV2 \<lparr>fallback_text = n @ '' '' @ unit, label = lbl\<rparr>
                   \<lparr>amount_v2_amount = n, amount_v2_abbreviation = Some unit\<rparr>)))
      else if n = [] then Inl (EmptyField []) else Inl (InvalidNumberField n))"
  by (auto simp: create_number_field_def create_amount_field_def validate_number_string_eq annotate_field_def
      Let_def)

text \<open>On the wire a number field is the amount field of the same number whose abbreviation is the
  unit without leading whitespace (empty for a number without unit): the unit recovered from the
  fallback text is the unit that was given.\<close>

lemma number_field_wire:
  assumes "create_number_field lbl n unit = Inr a"
  shows "serialize_to_map po (signable_payload_field a) =
    serialize_to_map po (AmountV2 \<lparr>fallback_text = (if unit = [] then n else n @ '' '' @ unit), label = lbl\<rparr>
      \<lparr>amount_v2_amount = n, amount_v2_abbreviation = Some (trim_start unit)\<rparr>)"
proof -
  have a: "signable_payload_field a
      = Number \<lparr>fallback_text = (if unit = [] then n else n @ '' '' @ unit), label = lbl\<rparr> \<lparr>number_number = n\<rparr>"
    using assms by (auto simp: create_number_field_def and_then_Inr_iff Let_def)
  have "strip_prefix n (n @ '' '' @ unit) = Some ('' '' @ unit)" and "strip_prefix n n = Some []"
    using strip_prefix_append [of n] strip_prefix_append [of n "[]"] by simp_all
  then have "number_as_amount_v2 \<lparr>fallback_text = (if unit = [] then n else n @ '' '' @ unit), label = lbl\<rparr>
      \<lparr>number_number = n\<rparr> = \<lparr>amount_v2_amount = n, amount_v2_abbreviation = Some (trim_start unit)\<rparr>"
    using trim_start_space [of unit] by (simp add: number_as_amount_v2_def)
  then show ?thesis unfolding a by simp
qed

text \<open>The pattern accepts leading zeros, although the comment above it excludes them.\<close>

lemma leading_zeros_accepted: "validate_number_string ''007'' = Inr True"
  by (simp add: validate_number_string_def full_match_def SIGNED_PROPER_NUMBER_RE_def rplus_def ropt_def)

lemma join_Nil_concat: "join [] xs = concat xs"
  by (induction "[] :: string" xs rule: join.induct) auto

text \<open>The raw-data field shows two hexadecimal digits for every byte, so different data never
  shows the same text.\<close>

lemma raw_data_exact:
  "create_raw_data_field data None =
     Inr (annotate_field (TextV2 \<lparr>fallback_text = default_hex_representation data, label = ''Raw Data''\<rparr>
       \<lparr>text_v2_text = default_hex_representation data\<rparr>))
   \<and> length (default_hex_representation data) = 2 * length data
   \<and> (default_hex_representation data = default_hex_representation data' \<longleftrightarrow> data = data')"
proof -
  have rep: "default_hex_representation d = concat (map (\<lambda>b. hex_byte (unat b)) d)" for d
    by (simp add: default_hex_representation_def join_Nil_concat)
  have len: "length (default_hex_representation d) = 2 * length d" for d
    unfolding rep by (induction d) (auto simp: hex_byte_def)
  have "data = data'" if "default_hex_representation data = default_hex_representation data'"
  proof -
    have "length data = length data'" using len [of data] len [of data'] that by simp
    then show ?thesis using that unfolding rep
    proof (induction data data' rule: list_induct2)
      case (Cons x xs y ys)
      then have "hex_byte (unat x) = hex_byte (unat y)"
        and "concat (map (\<lambda>b. hex_byte (unat b)) xs) = concat (map (\<lambda>b. hex_byte (unat b)) ys)"
        by (simp_all add: hex_byte_def)
      with Cons.IH show ?case
        using hex_byte_inject [OF unat_byte_less unat_byte_less, of x y] by (simp add: word_unat_eq_iff)
    qed simp
  qed
  then show ?thesis using len by (auto simp: create_raw_data_field_def annotate_field_def Let_def)
qed

end
