(* ===== verification/EthContracts.thy ===== *)
theory EthContracts
  imports EthJson EthRegistry FieldBuilders
begin

text \<open>
  \<^verbatim>\<open>chain_parsers/visualsign-ethereum/src/contracts/core\<close> and \<^verbatim>\<open>abi_decoder.rs\<close>: the visualizers of the
  token standards, of raw call data and of a caller's ABI. The decoders that \<^verbatim>\<open>sol!\<close> generates and
  alloy's runtime ABI types are the records \<open>SolAbi\<close> and \<open>DynAbi\<close>; a decoder's error is dropped by
  every caller of the former, so it is an option.
\<close>

section \<open>Libraries\<close>

record SolAbi =
  sol_selector :: "string \<Rightarrow> bytes"
  sol_transfer :: "bytes \<Rightarrow> (eth_address \<times> 256 word) option"
  sol_transfer_from :: "bytes \<Rightarrow> (eth_address \<times> eth_address \<times> 256 word) option"
  sol_approve :: "bytes \<Rightarrow> (eth_address \<times> 256 word) option"
  sol_balance_of :: "bytes \<Rightarrow> eth_address option"
  sol_allowance :: "bytes \<Rightarrow> (eth_address \<times> eth_address) option"
  sol_nullary :: "string \<Rightarrow> bytes \<Rightarrow> bool"
  sol_safe_transfer_from :: "bytes \<Rightarrow> (eth_address \<times> eth_address \<times> 256 word \<times> 256 word \<times> bytes) option"
  sol_safe_batch_transfer_from ::
    "bytes \<Rightarrow> (eth_address \<times> eth_address \<times> 256 word list \<times> 256 word list \<times> bytes) option"

datatype DynSolValue =
    DAddress eth_address
  | DUint "256 word" nat
  | DInt "256 word" nat
  | DBool bool
  | DBytes bytes
  | DFixedBytes bytes nat
  | DString string
  | DArray "DynSolValue list"
  | DFixedArray "DynSolValue list"
  | DTuple "DynSolValue list"
  | DFunction bytes

record AbiParam =
  param_name :: string
  param_ty :: string

record AbiFunction =
  fn_name :: string
  fn_inputs :: "AbiParam list"

record ('a, 'ty) DynAbi =
  dyn_functions :: "'a \<Rightarrow> AbiFunction list"
  dyn_selector :: "AbiFunction \<Rightarrow> bytes"
  dyn_parse :: "string \<Rightarrow> (string, 'ty) result"
  dyn_decode_tuple :: "'ty list \<Rightarrow> bytes \<Rightarrow> (string, DynSolValue) result"
  dyn_show_int :: "256 word \<Rightarrow> string"

section \<open>Fields\<close>

text \<open>A text field whose fallback is its text, a detail row for an address, and a preview whose fallback is
  its subtitle: the shapes the visualizers spell out at every use.\<close>

definition text_field :: "string \<Rightarrow> string \<Rightarrow> SignablePayloadField" where
  "text_field lbl t = TextV2 \<lparr>fallback_text = t, label = lbl\<rparr> \<lparr>text_v2_text = t\<rparr>"

definition text_row :: "string \<Rightarrow> string \<Rightarrow> AnnotatedPayloadField" where
  "text_row lbl t = annotate_field (text_field lbl t)"

definition address_row :: "Alloy \<Rightarrow> string \<Rightarrow> eth_address \<Rightarrow> AnnotatedPayloadField" where
  "address_row al lbl address =
     annotate_field (AddressV2 \<lparr>fallback_text = al_debug_address al address, label = lbl\<rparr>
       \<lparr>address_v2_address = al_debug_address al address, address_v2_name = [], address_v2_memo = None,
        address_v2_asset_label = [], address_v2_badge_text = None\<rparr>)"

definition amount_row :: "Alloy \<Rightarrow> 256 word \<Rightarrow> AnnotatedPayloadField" where
  "amount_row al amount =
     annotate_field (AmountV2 \<lparr>fallback_text = al_show_u256 al amount, label = ''Amount''\<rparr>
       \<lparr>amount_v2_amount = al_show_u256 al amount, amount_v2_abbreviation = None\<rparr>)"

definition preview :: "string \<Rightarrow> string \<Rightarrow> AnnotatedPayloadField list option \<Rightarrow> SignablePayloadField" where
  "preview title subtitle expanded =
     PreviewLayout \<lparr>fallback_text = subtitle, label = title\<rparr>
       (PreviewLayoutData (Some \<lparr>text_v2_text = title\<rparr>) (Some \<lparr>text_v2_text = subtitle\<rparr>)
          None (map_option ListLayoutData expanded))"

section \<open>Raw call data\<close>

definition visualize_hex :: "Alloy \<Rightarrow> bytes \<Rightarrow> SignablePayloadField" where
  "visualize_hex al input =
     text_field ''Input Data'' (if input = [] then ''0x'' else ''0x'' @ al_hex_encode al input)"

section \<open>ERC-20\<close>

definition erc20_transfer :: "Alloy \<Rightarrow> eth_address \<Rightarrow> 256 word \<Rightarrow> SignablePayloadField" where
  "erc20_transfer al to amount =
     preview ''ERC20 Transfer'' (''Transfer '' @ al_show_u256 al amount @ '' tokens to '' @ al_debug_address al to)
       (Some [address_row al ''Recipient'' to, amount_row al amount])"

definition erc20_transfer_from :: "Alloy \<Rightarrow> eth_address \<Rightarrow> eth_address \<Rightarrow> 256 word \<Rightarrow> SignablePayloadField" where
  "erc20_transfer_from al frm to amount =
     preview ''ERC20 TransferFrom''
       (''Transfer '' @ al_show_u256 al amount @ '' tokens from '' @ al_debug_address al frm @ '' to '' @ al_debug_address al to)
       (Some [address_row al ''Sender'' frm, address_row al ''Recipient'' to, amount_row al amount])"

definition erc20_approve :: "Alloy \<Rightarrow> eth_address \<Rightarrow> 256 word \<Rightarrow> SignablePayloadField" where
  "erc20_approve al spender amount =
     preview ''ERC20 Approve''
       (''Approve '' @ al_debug_address al spender @ '' to spend '' @ al_show_u256 al amount @ '' tokens'')
       (Some [address_row al ''Spender'' spender, amount_row al amount])"

definition erc20_balance_of :: "Alloy \<Rightarrow> eth_address \<Rightarrow> SignablePayloadField" where
  "erc20_balance_of al account =
     preview ''ERC20 BalanceOf'' (''Query balance of '' @ al_debug_address al account)
       (Some [address_row al ''Account'' account])"

definition erc20_allowance :: "Alloy \<Rightarrow> eth_address \<Rightarrow> eth_address \<Rightarrow> SignablePayloadField" where
  "erc20_allowance al owner spender =
     preview ''ERC20 Allowance''
       (''Query allowance for '' @ al_debug_address al spender @ '' by '' @ al_debug_address al owner)
       (Some [address_row al ''Owner'' owner, address_row al ''Spender'' spender])"

definition erc20_visualize :: "Alloy \<Rightarrow> SolAbi \<Rightarrow> bytes \<Rightarrow> SignablePayloadField option" where
  "erc20_visualize al sol input =
     (if length input < 4 then None
      else let selector = take 4 input; is = (\<lambda>f. selector = sol_selector sol f);
               query = (\<lambda>f title subtitle. if sol_nullary sol f input then Some (preview title subtitle None) else None)
      in if is ''transfer(address,uint256)''
         then map_option (\<lambda>(to, amount). erc20_transfer al to amount) (sol_transfer sol input)
         else if is ''transferFrom(address,address,uint256)''
         then map_option (\<lambda>(frm, to, amount). erc20_transfer_from al frm to amount) (sol_transfer_from sol input)
         else if is ''approve(address,uint256)''
         then map_option (\<lambda>(spender, amount). erc20_approve al spender amount) (sol_approve sol input)
         else if is ''balanceOf(address)''
         then map_option (erc20_balance_of al) (sol_balance_of sol input)
         else if is ''allowance(address,address)''
         then map_option (\<lambda>(owner, spender). erc20_allowance al owner spender) (sol_allowance sol input)
         else if is ''name()'' then query ''name()'' ''ERC20 Name'' ''Query token name''
         else if is ''symbol()'' then query ''symbol()'' ''ERC20 Symbol'' ''Query token symbol''
         else if is ''decimals()'' then query ''decimals()'' ''ERC20 Decimals'' ''Query token decimals''
         else if is ''totalSupply()'' then query ''totalSupply()'' ''ERC20 TotalSupply'' ''Query total token supply''
         else None)"

section \<open>ERC-721\<close>

definition erc721_visualize :: "bytes \<Rightarrow> SignablePayloadField option" where
  "erc721_visualize input = (if length input < 4 then None else None)"

section \<open>ERC-1155\<close>

definition render_safe_transfer_from ::
  "Alloy \<Rightarrow> eth_address \<times> eth_address \<times> 256 word \<times> 256 word \<times> bytes \<Rightarrow> SignablePayloadField" where
  "render_safe_transfer_from al call =
     (case call of (frm, to, token_id, value, data) \<Rightarrow>
       (let id_str = al_show_u256 al token_id; value_str = al_show_u256 al value
        in preview ''ERC1155 Transfer''
             (''Transfer '' @ value_str @ '' of token '' @ id_str @ '' from '' @ al_debug_address al frm
               @ '' to '' @ al_debug_address al to)
             (Some [address_row al ''From'' frm, address_row al ''To'' to,
                text_row ''Token ID'' id_str, text_row ''Amount'' value_str])))"

text \<open>\<^verbatim>\<open>slice::get\<close>.\<close>

definition get_at :: "'a list \<Rightarrow> nat \<Rightarrow> 'a option" where
  "get_at xs i = (if i < length xs then Some (xs ! i) else None)"

definition batch_row :: "Alloy \<Rightarrow> 256 word list \<Rightarrow> 256 word list \<Rightarrow> nat \<Rightarrow> AnnotatedPayloadField" where
  "batch_row al ids vals i =
     text_row (''Token '' @ nat_str i)
       (''id '' @ unwrap_or ''(none)'' (map_option (al_show_u256 al) (get_at ids i))
         @ '' -> amount '' @ unwrap_or ''(none)'' (map_option (al_show_u256 al) (get_at vals i)))"

definition render_safe_batch_transfer_from ::
  "Alloy \<Rightarrow> eth_address \<times> eth_address \<times> 256 word list \<times> 256 word list \<times> bytes \<Rightarrow> SignablePayloadField" where
  "render_safe_batch_transfer_from al call =
     (case call of (frm, to, ids, vals, data) \<Rightarrow>
       (let pair_count = max (length ids) (length vals)
        in preview ''ERC1155 Batch Transfer''
             (''Batch transfer '' @ nat_str pair_count @ '' token(s) from '' @ al_debug_address al frm
               @ '' to '' @ al_debug_address al to)
             (Some ([address_row al ''From'' frm, address_row al ''To'' to]
                @ map (batch_row al ids vals) [0..<pair_count]))))"

definition erc1155_visualize :: "Alloy \<Rightarrow> SolAbi \<Rightarrow> bytes \<Rightarrow> SignablePayloadField option" where
  "erc1155_visualize al sol input =
     (if length input < 4 then None
      else if take 4 input = sol_selector sol ''safeTransferFrom(address,address,uint256,uint256,bytes)''
      then map_option (render_safe_transfer_from al) (sol_safe_transfer_from sol input)
      else if take 4 input = sol_selector sol ''safeBatchTransferFrom(address,address,uint256[],uint256[],bytes)''
      then map_option (render_safe_batch_transfer_from al) (sol_safe_batch_transfer_from sol input)
      else None)"

section \<open>A caller's ABI\<close>

fun format_dyn_sol_value :: "Alloy \<Rightarrow> (256 word \<Rightarrow> string) \<Rightarrow> DynSolValue \<Rightarrow> string" where
  "format_dyn_sol_value al show_int (DAddress addr) = al_debug_address al addr"
| "format_dyn_sol_value al show_int (DUint val bits) = al_show_u256 al val"
| "format_dyn_sol_value al show_int (DInt val bits) = show_int val"
| "format_dyn_sol_value al show_int (DBool b) = (if b then ''true'' else ''false'')"
| "format_dyn_sol_value al show_int (DBytes bs) = ''0x'' @ al_hex_encode al bs"
| "format_dyn_sol_value al show_int (DFixedBytes bs n) = ''0x'' @ al_hex_encode al bs"
| "format_dyn_sol_value al show_int (DString s) = s"
| "format_dyn_sol_value al show_int (DArray vs) =
     (if vs = [] then ''[]'' else ''['' @ join '', '' (map (format_dyn_sol_value al show_int) vs) @ '']'')"
| "format_dyn_sol_value al show_int (DFixedArray vs) =
     (if vs = [] then ''[]'' else ''['' @ join '', '' (map (format_dyn_sol_value al show_int) vs) @ '']'')"
| "format_dyn_sol_value al show_int (DTuple vs) =
     ''('' @ join '', '' (map (format_dyn_sol_value al show_int) vs) @ '')''"
| "format_dyn_sol_value al show_int (DFunction f) = ''0x'' @ al_hex_encode al f"

definition find_function_by_selector :: "('a, 'ty) DynAbi \<Rightarrow> 'a \<Rightarrow> bytes \<Rightarrow> AbiFunction option" where
  "find_function_by_selector dyn abi selector = find (\<lambda>f. dyn_selector dyn f = selector) (dyn_functions dyn abi)"

definition decode_function ::
  "Alloy \<Rightarrow> ('a, 'ty) DynAbi \<Rightarrow> 'a \<Rightarrow> bytes \<Rightarrow> (string, string \<times> string) result" where
  "decode_function al dyn abi calldata =
     (if length calldata < 4 then Inl ''Calldata too short for function selector''
      else and_then (ok_or ''Function selector not found in ABI'' (find_function_by_selector dyn abi (take 4 calldata)))
        (\<lambda>function. Inr (fn_name function, al_hex_encode al (drop 4 calldata))))"

definition param_row ::
  "Alloy \<Rightarrow> (256 word \<Rightarrow> string) \<Rightarrow> nat \<times> AbiParam \<times> DynSolValue \<Rightarrow> AnnotatedPayloadField" where
  "param_row al show_int row =
     (case row of (i, input, value) \<Rightarrow>
        text_row (if param_name input \<noteq> [] then param_name input else ''param'' @ nat_str i)
          (format_dyn_sol_value al show_int value))"

definition param_type :: "('a, 'ty) DynAbi \<Rightarrow> AbiParam \<Rightarrow> (string, 'ty) result" where
  "param_type dyn input =
     map_err (\<lambda>e. ''Failed to parse type '' @ quoted (param_ty input) @ '': '' @ e) (dyn_parse dyn (param_ty input))"

definition decoded_params ::
  "Alloy \<Rightarrow> ('a, 'ty) DynAbi \<Rightarrow> AbiFunction \<Rightarrow> bytes \<Rightarrow> (string, AnnotatedPayloadField list) result" where
  "decoded_params al dyn function input_data =
     (if fn_inputs function = [] then Inr []
      else
      and_then (traverse (param_type dyn) (fn_inputs function)) (\<lambda>param_types.
      and_then (map_err (\<lambda>e. ''Failed to decode parameters: '' @ e @ ''. Data length: '' @ nat_str (length input_data)
          @ '', Data: 0x'' @ al_hex_encode al input_data) (dyn_decode_tuple dyn param_types input_data)) (\<lambda>decoded.
      case decoded of
        DTuple vals \<Rightarrow>
          Inr (map (param_row al (dyn_show_int dyn)) (enumerate 0 (zip (fn_inputs function) vals)))
      | _ \<Rightarrow> Inl ''Expected tuple from decode'')))"

definition fn_signature :: "AbiFunction \<Rightarrow> string" where
  "fn_signature function = fn_name function @ ''('' @ join '','' (map param_ty (fn_inputs function)) @ '')''"

definition abi_visualize ::
  "Alloy \<Rightarrow> ('a, 'ty) DynAbi \<Rightarrow> 'a \<Rightarrow> bytes \<Rightarrow> (string, SignablePayloadField) result" where
  "abi_visualize al dyn abi calldata =
     (if length calldata < 4 then Inl ''Calldata too short''
      else
      and_then (ok_or ''Function not found'' (find_function_by_selector dyn abi (take 4 calldata))) (\<lambda>function.
      and_then (decoded_params al dyn function (drop 4 calldata)) (\<lambda>expanded_fields.
      Inr (PreviewLayout \<lparr>fallback_text = fn_signature function, label = fn_name function\<rparr>
        (PreviewLayoutData (Some \<lparr>text_v2_text = fn_name function\<rparr>) (Some \<lparr>text_v2_text = fn_signature function\<rparr>)
           None (if expanded_fields = [] then None else Some (ListLayoutData expanded_fields)))))))"

definition dynamic_visualize :: "Alloy \<Rightarrow> ('a, 'ty) DynAbi \<Rightarrow> 'a \<Rightarrow> bytes \<Rightarrow> SignablePayloadField option" where
  "dynamic_visualize al dyn abi calldata =
     (case abi_visualize al dyn abi calldata of Inl _ \<Rightarrow> None | Inr field \<Rightarrow> Some field)"

section \<open>Faithful displays\<close>

text \<open>Alloy's printers as documented: a number in decimal, and addresses apart when they differ.\<close>

definition display_documented :: "Alloy \<Rightarrow> bool" where
  "display_documented al \<longleftrightarrow> (\<forall>w. al_show_u256 al w = nat_str (unat w)) \<and> inj (al_debug_address al)"

lemma display_inject:
  assumes "display_documented al"
  shows "al_show_u256 al v = al_show_u256 al w \<longleftrightarrow> v = w" and "al_debug_address al a = al_debug_address al b \<longleftrightarrow> a = b"
  using assms by (auto simp: display_documented_def inj_eq unsigned_word_eqI)

text \<open>A batch row shows both sides, and a missing side is not a number.\<close>

lemma shown_inject:
  assumes "display_documented al"
  shows "unwrap_or ''(none)'' (map_option (al_show_u256 al) x) = unwrap_or ''(none)'' (map_option (al_show_u256 al) y) \<longleftrightarrow> x = y"
proof -
  have "al_show_u256 al w \<noteq> ''(none)''" for w
    using assms nat_str_digits [of "CHR ''(''" "unat w"] by (auto simp: display_documented_def code_def)
  then show ?thesis
    using display_inject(1) [OF assms] by (cases x; cases y) (auto dest: sym)
qed

lemma shown_no_dash:
  assumes "display_documented al"
  shows "CHR '' '' \<notin> set (unwrap_or ''(none)'' (map_option (al_show_u256 al) x))"
  using assms nat_str_digits [of "CHR '' ''"] by (cases x) (auto simp: display_documented_def code_def)

lemma get_at_inject: "length xs = n \<Longrightarrow> length ys = n \<Longrightarrow> (\<forall>i<n. get_at xs i = get_at ys i) \<Longrightarrow> xs = ys"
  by (auto simp: get_at_def intro: nth_equalityI)

lemma get_at_eq:
  assumes "\<forall>i<n. get_at xs i = get_at ys i" and "length xs \<le> n" and "length ys \<le> n"
  shows "xs = ys"
proof (rule get_at_inject)
  show "length xs = length ys"
  proof (rule antisym; rule ccontr)
    assume "\<not> length xs \<le> length ys"
    with assms(1,2) have "get_at xs (length ys) = get_at ys (length ys)" by simp
    then show False using \<open>\<not> length xs \<le> length ys\<close> by (simp add: get_at_def)
  next
    assume "\<not> length ys \<le> length xs"
    with assms(1,3) have "get_at xs (length xs) = get_at ys (length xs)" by simp
    then show False using \<open>\<not> length ys \<le> length xs\<close> by (simp add: get_at_def)
  qed
qed (use assms in auto)

section \<open>Calls and what is read off a view\<close>

text \<open>The calls of the two token standards, by their signatures in the standards and with the arguments that matter.\<close>

datatype TokenCall =
    CallTransfer eth_address "256 word"
  | CallTransferFrom eth_address eth_address "256 word"
  | CallApprove eth_address "256 word"
  | CallBalanceOf eth_address
  | CallAllowance eth_address eth_address
  | CallName
  | CallSymbol
  | CallDecimals
  | CallTotalSupply
  | CallSafeTransfer eth_address eth_address "256 word" "256 word"
  | CallSafeBatch eth_address eth_address "256 word list" "256 word list"

fun call_signature :: "TokenCall \<Rightarrow> string" where
  "call_signature (CallTransfer _ _) = ''transfer(address,uint256)''"
| "call_signature (CallTransferFrom _ _ _) = ''transferFrom(address,address,uint256)''"
| "call_signature (CallApprove _ _) = ''approve(address,uint256)''"
| "call_signature (CallBalanceOf _) = ''balanceOf(address)''"
| "call_signature (CallAllowance _ _) = ''allowance(address,address)''"
| "call_signature CallName = ''name()''"
| "call_signature CallSymbol = ''symbol()''"
| "call_signature CallDecimals = ''decimals()''"
| "call_signature CallTotalSupply = ''totalSupply()''"
| "call_signature (CallSafeTransfer _ _ _ _) = ''safeTransferFrom(address,address,uint256,uint256,bytes)''"
| "call_signature (CallSafeBatch _ _ _ _) = ''safeBatchTransferFrom(address,address,uint256[],uint256[],bytes)''"

fun call_decodes :: "SolAbi \<Rightarrow> bytes \<Rightarrow> TokenCall \<Rightarrow> bool" where
  "call_decodes sol bs (CallTransfer to w) = (sol_transfer sol bs = Some (to, w))"
| "call_decodes sol bs (CallTransferFrom frm to w) = (sol_transfer_from sol bs = Some (frm, to, w))"
| "call_decodes sol bs (CallApprove spender w) = (sol_approve sol bs = Some (spender, w))"
| "call_decodes sol bs (CallBalanceOf a) = (sol_balance_of sol bs = Some a)"
| "call_decodes sol bs (CallAllowance owner spender) = (sol_allowance sol bs = Some (owner, spender))"
| "call_decodes sol bs (CallSafeTransfer frm to i w) = (\<exists>d. sol_safe_transfer_from sol bs = Some (frm, to, i, w, d))"
| "call_decodes sol bs (CallSafeBatch frm to ids ws) = (\<exists>d. sol_safe_batch_transfer_from sol bs = Some (frm, to, ids, ws, d))"
| "call_decodes sol bs c = sol_nullary sol (call_signature c) bs"

definition called :: "SolAbi \<Rightarrow> bytes \<Rightarrow> TokenCall \<Rightarrow> bool" where
  "called sol bs c \<longleftrightarrow> (\<exists>args. bs = sol_selector sol (call_signature c) @ args) \<and> call_decodes sol bs c"

text \<open>Selectors have four bytes, and those of the two standards differ.\<close>

definition token_signatures :: "string list" where
  "token_signatures = [''transfer(address,uint256)'', ''transferFrom(address,address,uint256)'', ''approve(address,uint256)'',
     ''balanceOf(address)'', ''allowance(address,address)'', ''name()'', ''symbol()'', ''decimals()'', ''totalSupply()'',
     ''safeTransferFrom(address,address,uint256,uint256,bytes)'',
     ''safeBatchTransferFrom(address,address,uint256[],uint256[],bytes)'']"

definition selectors_documented :: "SolAbi \<Rightarrow> bool" where
  "selectors_documented sol \<longleftrightarrow>
     (\<forall>g \<in> set token_signatures. length (sol_selector sol g) = 4) \<and> inj_on (sol_selector sol) (set token_signatures)"

text \<open>What a view says: its title, and the label and the text of each row.\<close>

fun row_reading :: "AnnotatedPayloadField \<Rightarrow> string \<times> string" where
  "row_reading (Annotated (AddressV2 c x) _ _) = (label c, address_v2_address x)"
| "row_reading (Annotated (AmountV2 c x) _ _) = (label c, amount_v2_amount x)"
| "row_reading (Annotated (TextV2 c x) _ _) = (label c, text_v2_text x)"
| "row_reading _ = ([], [])"

fun reading :: "SignablePayloadField \<Rightarrow> string \<times> (string \<times> string) list" where
  "reading (PreviewLayout c (PreviewLayoutData (Some t) _ _ (Some (ListLayoutData rows)))) = (text_v2_text t, map row_reading rows)"
| "reading (PreviewLayout c (PreviewLayoutData (Some t) _ _ None)) = (text_v2_text t, [])"
| "reading _ = ([], [])"

definition item_text :: "Alloy \<Rightarrow> 256 word list \<Rightarrow> nat \<Rightarrow> string" where
  "item_text al xs i = (if i < length xs then al_show_u256 al (xs ! i) else ''(none)'')"

definition batch_reading :: "Alloy \<Rightarrow> 256 word list \<Rightarrow> 256 word list \<Rightarrow> (string \<times> string) list" where
  "batch_reading al ids ws =
     map (\<lambda>i. (''Token '' @ nat_str i, ''id '' @ item_text al ids i @ '' -> amount '' @ item_text al ws i))
       [0..<max (length ids) (length ws)]"

fun call_reading :: "Alloy \<Rightarrow> TokenCall \<Rightarrow> string \<times> (string \<times> string) list" where
  "call_reading al (CallTransfer to w) =
     (''ERC20 Transfer'', [(''Recipient'', al_debug_address al to), (''Amount'', al_show_u256 al w)])"
| "call_reading al (CallTransferFrom frm to w) =
     (''ERC20 TransferFrom'',
      [(''Sender'', al_debug_address al frm), (''Recipient'', al_debug_address al to), (''Amount'', al_show_u256 al w)])"
| "call_reading al (CallApprove spender w) =
     (''ERC20 Approve'', [(''Spender'', al_debug_address al spender), (''Amount'', al_show_u256 al w)])"
| "call_reading al (CallBalanceOf a) = (''ERC20 BalanceOf'', [(''Account'', al_debug_address al a)])"
| "call_reading al (CallAllowance owner spender) =
     (''ERC20 Allowance'', [(''Owner'', al_debug_address al owner), (''Spender'', al_debug_address al spender)])"
| "call_reading al CallName = (''ERC20 Name'', [])"
| "call_reading al CallSymbol = (''ERC20 Symbol'', [])"
| "call_reading al CallDecimals = (''ERC20 Decimals'', [])"
| "call_reading al CallTotalSupply = (''ERC20 TotalSupply'', [])"
| "call_reading al (CallSafeTransfer frm to i w) =
     (''ERC1155 Transfer'',
      [(''From'', al_debug_address al frm), (''To'', al_debug_address al to), (''Token ID'', al_show_u256 al i),
       (''Amount'', al_show_u256 al w)])"
| "call_reading al (CallSafeBatch frm to ids ws) =
     (''ERC1155 Batch Transfer'',
      [(''From'', al_debug_address al frm), (''To'', al_debug_address al to)] @ batch_reading al ids ws)"

lemma reading_rows:
  "row_reading (address_row al l a) = (l, al_debug_address al a)" "row_reading (amount_row al w) = (''Amount'', al_show_u256 al w)"
  "row_reading (text_row l t) = (l, t)" "reading (preview t u (Some rows)) = (t, map row_reading rows)" "reading (preview t u None) = (t, [])"
  by (simp_all add: address_row_def amount_row_def text_row_def text_field_def annotate_field_def preview_def)

lemma item_text_eq: "unwrap_or ''(none)'' (map_option (al_show_u256 al) (get_at xs i)) = item_text al xs i"
  by (simp add: get_at_def item_text_def)

lemma call_readings:
  "reading (erc20_transfer al to w) = call_reading al (CallTransfer to w)"
  "reading (erc20_transfer_from al frm to w) = call_reading al (CallTransferFrom frm to w)"
  "reading (erc20_approve al to w) = call_reading al (CallApprove to w)"
  "reading (erc20_balance_of al to) = call_reading al (CallBalanceOf to)"
  "reading (erc20_allowance al frm to) = call_reading al (CallAllowance frm to)"
  "reading (render_safe_transfer_from al (frm, to, i, w, d)) = call_reading al (CallSafeTransfer frm to i w)"
  "reading (render_safe_batch_transfer_from al (frm, to, ids, ws, d)) = call_reading al (CallSafeBatch frm to ids ws)"
  by (simp_all add: erc20_transfer_def erc20_transfer_from_def erc20_approve_def erc20_balance_of_def erc20_allowance_def
      render_safe_transfer_from_def render_safe_batch_transfer_from_def batch_row_def batch_reading_def item_text_eq reading_rows Let_def)

lemma signature_member: "call_signature c \<in> set token_signatures"
  by (cases c) (simp_all add: token_signatures_def)

lemma called_unique:
  assumes doc: "selectors_documented sol" and "called sol bs c" "called sol bs c'"
  shows "c = c'"
proof -
  from assms(2,3) obtain r r' where "bs = sol_selector sol (call_signature c) @ r" "bs = sol_selector sol (call_signature c') @ r'"
    and dec: "call_decodes sol bs c" "call_decodes sol bs c'" unfolding called_def by blast
  moreover have "length (sol_selector sol (call_signature c)) = length (sol_selector sol (call_signature c'))"
    using doc signature_member by (simp add: selectors_documented_def)
  ultimately have "sol_selector sol (call_signature c) = sol_selector sol (call_signature c')" by (metis append_eq_append_conv)
  then have "call_signature c = call_signature c'"
    using doc signature_member [of c] signature_member [of c'] unfolding selectors_documented_def by (meson inj_onD)
  with dec show ?thesis by (cases c; cases c') auto
qed

text \<open>Texts that are read alike are of one call.\<close>

lemma item_text_inject:
  assumes "display_documented al"
  shows "item_text al xs i = item_text al ys i \<longleftrightarrow> get_at xs i = get_at ys i" and "CHR '' '' \<notin> set (item_text al xs i)"
  unfolding item_text_eq [symmetric] using shown_inject [OF assms] shown_no_dash [OF assms] by blast+

lemma batch_reading_inject:
  assumes doc: "display_documented al"
    and eq: "batch_reading al ids ws = batch_reading al ids' ws'"
  shows "ids = ids' \<and> ws = ws'"
proof -
  let ?n = "max (length ids) (length ws)"
  have n: "?n = max (length ids') (length ws')" using arg_cong [OF eq, of length] by (simp add: batch_reading_def)
  with eq have "item_text al ids i @ CHR '' '' # ''-> amount '' @ item_text al ws i
      = item_text al ids' i @ CHR '' '' # ''-> amount '' @ item_text al ws' i" if "i < ?n" for i
    using that by (simp add: batch_reading_def map_eq_conv)
  then have "item_text al ids i = item_text al ids' i \<and> item_text al ws i = item_text al ws' i" if "i < ?n" for i
    using that delimiter_inject [OF item_text_inject(2) [OF doc] item_text_inject(2) [OF doc]] by simp
  then have "\<forall>i<?n. get_at ids i = get_at ids' i" "\<forall>i<?n. get_at ws i = get_at ws' i"
    unfolding item_text_inject(1) [OF doc] by blast+
  with n show ?thesis using get_at_eq [of ?n ids ids'] get_at_eq [of ?n ws ws'] by simp
qed

lemma call_reading_inject:
  assumes doc: "display_documented al" and eq: "call_reading al c = call_reading al c'"
  shows "c = c'"
proof -
  have "fst (call_reading al c) = fst (call_reading al c')" by (simp add: eq)
  then have "call_signature c = call_signature c'" by (cases c; cases c') simp_all
  with eq show ?thesis
    by (cases c; cases c') (auto simp: display_inject [OF doc] dest: batch_reading_inject [OF doc])
qed

text \<open>The visualizers take the calls and no other data.\<close>

lemma calledI: "\<not> length bs < 4 \<Longrightarrow> take 4 bs = sol_selector sol (call_signature c) \<Longrightarrow> call_decodes sol bs c \<Longrightarrow> called sol bs c"
  unfolding called_def by (metis append_take_drop_id)

definition reads_as :: "Alloy \<Rightarrow> SolAbi \<Rightarrow> bytes \<Rightarrow> SignablePayloadField \<Rightarrow> bool" where
  "reads_as al sol bs f \<longleftrightarrow> (\<exists>c. take 4 bs = sol_selector sol (call_signature c) \<and> call_decodes sol bs c \<and> reading f = call_reading al c)"

lemma reads_asI:
  "take 4 bs = sol_selector sol (call_signature c) \<Longrightarrow> call_decodes sol bs c \<Longrightarrow> reading f = call_reading al c \<Longrightarrow> reads_as al sol bs f"
  by (auto simp: reads_as_def)

lemma calls_read:
  "take 4 bs = sol_selector sol ''transfer(address,uint256)'' \<Longrightarrow> sol_transfer sol bs = Some (a, w) \<Longrightarrow> reads_as al sol bs (erc20_transfer al a w)"
  "take 4 bs = sol_selector sol ''transferFrom(address,address,uint256)'' \<Longrightarrow> sol_transfer_from sol bs = Some (a, b, w)
     \<Longrightarrow> reads_as al sol bs (erc20_transfer_from al a b w)"
  "take 4 bs = sol_selector sol ''approve(address,uint256)'' \<Longrightarrow> sol_approve sol bs = Some (a, w) \<Longrightarrow> reads_as al sol bs (erc20_approve al a w)"
  "take 4 bs = sol_selector sol ''balanceOf(address)'' \<Longrightarrow> sol_balance_of sol bs = Some a \<Longrightarrow> reads_as al sol bs (erc20_balance_of al a)"
  "take 4 bs = sol_selector sol ''allowance(address,address)'' \<Longrightarrow> sol_allowance sol bs = Some (a, b) \<Longrightarrow> reads_as al sol bs (erc20_allowance al a b)"
  "take 4 bs = sol_selector sol ''name()'' \<Longrightarrow> sol_nullary sol ''name()'' bs \<Longrightarrow> reads_as al sol bs (preview ''ERC20 Name'' u None)"
  "take 4 bs = sol_selector sol ''symbol()'' \<Longrightarrow> sol_nullary sol ''symbol()'' bs \<Longrightarrow> reads_as al sol bs (preview ''ERC20 Symbol'' u None)"
  "take 4 bs = sol_selector sol ''decimals()'' \<Longrightarrow> sol_nullary sol ''decimals()'' bs \<Longrightarrow> reads_as al sol bs (preview ''ERC20 Decimals'' u None)"
  "take 4 bs = sol_selector sol ''totalSupply()'' \<Longrightarrow> sol_nullary sol ''totalSupply()'' bs
     \<Longrightarrow> reads_as al sol bs (preview ''ERC20 TotalSupply'' u None)"
  "take 4 bs = sol_selector sol ''safeTransferFrom(address,address,uint256,uint256,bytes)'' \<Longrightarrow> sol_safe_transfer_from sol bs = Some (a, b, i, w, d)
     \<Longrightarrow> reads_as al sol bs (render_safe_transfer_from al (a, b, i, w, d))"
  "take 4 bs = sol_selector sol ''safeBatchTransferFrom(address,address,uint256[],uint256[],bytes)''
     \<Longrightarrow> sol_safe_batch_transfer_from sol bs = Some (a, b, ids, ws, d) \<Longrightarrow> reads_as al sol bs (render_safe_batch_transfer_from al (a, b, ids, ws, d))"
  by (rule reads_asI [where c = "CallTransfer a w"], simp_all add: call_readings)
    (rule reads_asI [where c = "CallTransferFrom a b w"], simp_all add: call_readings,
     rule reads_asI [where c = "CallApprove a w"], simp_all add: call_readings,
     rule reads_asI [where c = "CallBalanceOf a"], simp_all add: call_readings,
     rule reads_asI [where c = "CallAllowance a b"], simp_all add: call_readings,
     rule reads_asI [where c = CallName], simp_all add: reading_rows,
     rule reads_asI [where c = CallSymbol], simp_all add: reading_rows,
     rule reads_asI [where c = CallDecimals], simp_all add: reading_rows,
     rule reads_asI [where c = CallTotalSupply], simp_all add: reading_rows,
     rule reads_asI [where c = "CallSafeTransfer a b i w"], simp_all add: call_readings,
     rule reads_asI [where c = "CallSafeBatch a b ids ws"], simp_all add: call_readings)

lemma visualized_reads:
  "erc20_visualize al sol bs = Some f \<Longrightarrow> reads_as al sol bs f" "erc1155_visualize al sol bs = Some f \<Longrightarrow> reads_as al sol bs f"
  unfolding erc20_visualize_def erc1155_visualize_def Let_def by (auto intro: calls_read split: if_splits)

lemma shown_call:
  assumes "erc20_visualize al sol bs = Some f \<or> erc1155_visualize al sol bs = Some f"
  shows "\<exists>c. called sol bs c \<and> reading f = call_reading al c"
proof -
  have "\<not> length bs < 4" using assms by (auto simp: erc20_visualize_def erc1155_visualize_def)
  moreover have "reads_as al sol bs f" using assms visualized_reads by blast
  ultimately show ?thesis unfolding reads_as_def using calledI by blast
qed

lemma call_shown:
  assumes doc: "selectors_documented sol" and "called sol bs c"
  shows "\<exists>f. erc20_visualize al sol bs = Some f \<or> erc1155_visualize al sol bs = Some f"
proof -
  from assms(2) obtain args where bs: "bs = sol_selector sol (call_signature c) @ args" and dec: "call_decodes sol bs c"
    by (auto simp: called_def)
  have len: "length (sol_selector sol (call_signature c)) = 4" using doc signature_member by (simp add: selectors_documented_def)
  have opens: "take 4 bs = sol_selector sol g \<longleftrightarrow> g = call_signature c" if "g \<in> set token_signatures" for g
    using doc len that signature_member [of c] by (auto simp: bs selectors_documented_def inj_on_eq_iff)
  have "\<not> length bs < 4" using len by (simp add: bs)
  then show ?thesis
    using dec unfolding erc20_visualize_def erc1155_visualize_def Let_def
    by (cases c) (auto simp: opens token_signatures_def)
qed

lemma visualizes_call:
  assumes "selectors_documented sol"
  shows "(\<exists>f. erc20_visualize al sol bs = Some f \<or> erc1155_visualize al sol bs = Some f) \<longleftrightarrow> (\<exists>c. called sol bs c)"
  using shown_call call_shown [OF assms] by blast

section \<open>Encoded calls\<close>

text \<open>The encoding of the Solidity ABI: a selector and one 32-byte word for each address or number.\<close>

definition abi_uint :: "256 word \<Rightarrow> bytes" where
  "abi_uint w = map (\<lambda>i. ucast (drop_bit (8 * (31 - i)) w)) [0..<32]"

definition abi_address :: "eth_address \<Rightarrow> bytes" where
  "abi_address a = replicate 12 0 @ a"

definition erc20_signatures :: "string list" where
  "erc20_signatures = [''transfer(address,uint256)'', ''transferFrom(address,address,uint256)'', ''approve(address,uint256)'',
     ''balanceOf(address)'', ''allowance(address,address)'', ''name()'', ''symbol()'', ''decimals()'', ''totalSupply()'']"

definition sol_documented :: "SolAbi \<Rightarrow> bool" where
  "sol_documented sol \<longleftrightarrow>
     (\<forall>f\<in>set erc20_signatures. length (sol_selector sol f) = 4) \<and> inj_on (sol_selector sol) (set erc20_signatures)
     \<and> (\<forall>a w. length a = 20 \<longrightarrow>
          sol_transfer sol (sol_selector sol ''transfer(address,uint256)'' @ abi_address a @ abi_uint w) = Some (a, w)
          \<and> sol_approve sol (sol_selector sol ''approve(address,uint256)'' @ abi_address a @ abi_uint w) = Some (a, w))
     \<and> (\<forall>a b w. length a = 20 \<longrightarrow> length b = 20 \<longrightarrow>
          sol_transfer_from sol (sol_selector sol ''transferFrom(address,address,uint256)''
            @ abi_address a @ abi_address b @ abi_uint w) = Some (a, b, w))"

lemma selector_eq:
  "sol_documented sol \<Longrightarrow> f \<in> set erc20_signatures \<Longrightarrow> g \<in> set erc20_signatures \<Longrightarrow>
     sol_selector sol f = sol_selector sol g \<longleftrightarrow> f = g"
  by (auto simp: sol_documented_def inj_on_eq_iff)

lemma take_selector:
  "sol_documented sol \<Longrightarrow> f \<in> set erc20_signatures \<Longrightarrow>
     take 4 (sol_selector sol f @ r) = sol_selector sol f \<and> \<not> length (sol_selector sol f @ r) < 4"
  by (simp add: sol_documented_def)

lemma find_first: "find P xs = Some x \<longleftrightarrow> (\<exists>ys zs. xs = ys @ x # zs \<and> P x \<and> (\<forall>y\<in>set ys. \<not> P y))"
proof (induction xs)
  case (Cons a xs)
  show ?case
  proof (cases "P a")
    case True
    then show ?thesis by (fastforce simp: Cons_eq_append_conv)
  next
    case False
    then show ?thesis
      using Cons.IH by (simp add: Cons_eq_append_conv) (metis list.set_intros set_ConsD)
  qed
qed simp

lemma traverse_length: "traverse g xs = Inr ys \<Longrightarrow> length ys = length xs"
  by (induction xs arbitrary: ys) (auto simp: and_then_Inr_iff)

lemma decoded_params_length:
  assumes "\<forall>tys bs vals. dyn_decode_tuple dyn tys bs = Inr (DTuple vals) \<longrightarrow> length vals = length tys"
    and "decoded_params al dyn fn bs = Inr rows"
  shows "length rows = length (fn_inputs fn)"
proof (cases "fn_inputs fn = []")
  case True
  with assms(2) show ?thesis by (simp add: decoded_params_def)
next
  case False
  with assms(2) obtain tys decoded where "traverse (param_type dyn) (fn_inputs fn) = Inr tys"
    and decoded: "dyn_decode_tuple dyn tys bs = Inr decoded"
    and rows: "(case decoded of DTuple vals \<Rightarrow>
        Inr (map (param_row al (dyn_show_int dyn)) (enumerate 0 (zip (fn_inputs fn) vals)))
      | _ \<Rightarrow> Inl ''Expected tuple from decode'') = Inr rows"
    unfolding decoded_params_def by (simp only: if_False and_then_Inr_iff map_err_Inr_iff) blast
  then have "length tys = length (fn_inputs fn)" by (metis traverse_length)
  with decoded rows assms(1) show ?thesis by (cases decoded) auto
qed

section \<open>Samples of the libraries\<close>

definition read_uint :: "bytes \<Rightarrow> 256 word" where
  "read_uint bs = of_nat (foldl (\<lambda>n b. 256 * n + unat b) 0 bs)"

lemma unat_drop_bit_div: "unat (drop_bit m w) = unat w div 2 ^ m"
  by (simp only: unat_drop_bit_eq) (simp only: drop_bit_eq_div)

lemma read_uint_prefix:
  "k \<le> 32 \<Longrightarrow> foldl (\<lambda>n b. 256 * n + unat b) 0 (map (\<lambda>i. ucast (drop_bit (8 * (31 - i)) w) :: byte) [0..<k])
     = unat (drop_bit (8 * (32 - k)) (w :: 256 word))"
proof (induction k)
  case 0
  have "unat w < 2 ^ 256" by (rule unat_u256_less)
  then show ?case by (simp add: unat_drop_bit_div)
next
  case (Suc k)
  define n where "n = 8 * (31 - k)"
  have "8 * (32 - k) = n + 8" "8 * (32 - Suc k) = n" using Suc.prems by (simp_all add: n_def)
  moreover have "256 * (unat w div 2 ^ (n + 8)) + unat w div 2 ^ n mod 256 = unat w div 2 ^ n"
    by (simp add: power_add div_mult2_eq)
  ultimately show ?case
    using Suc by (simp add: unat_drop_bit_div unsigned_ucast_eq take_bit_eq_mod flip: n_def)
qed

lemma read_abi_uint: "read_uint (abi_uint w) = w"
  unfolding read_uint_def abi_uint_def using read_uint_prefix [of 32 w] by simp

lemma length_abi [simp]: "length (abi_uint w) = 32" "length a = 20 \<Longrightarrow> length (abi_address a) = 32"
  by (simp_all add: abi_uint_def abi_address_def)

definition sample_sol :: SolAbi where
  "sample_sol =
     \<lparr>sol_selector = (\<lambda>f. [of_nat (length f), 0, 0, 0]),
      sol_transfer = (\<lambda>bs. Some (take 20 (drop 16 bs), read_uint (take 32 (drop 36 bs)))),
      sol_transfer_from = (\<lambda>bs. Some (take 20 (drop 16 bs), take 20 (drop 48 bs), read_uint (take 32 (drop 68 bs)))),
      sol_approve = (\<lambda>bs. Some (take 20 (drop 16 bs), read_uint (take 32 (drop 36 bs)))),
      sol_balance_of = (\<lambda>bs. Some (take 20 (drop 16 bs))),
      sol_allowance = (\<lambda>bs. Some (take 20 (drop 16 bs), take 20 (drop 48 bs))),
      sol_nullary = (\<lambda>_ _. True), sol_safe_transfer_from = (\<lambda>_. None), sol_safe_batch_transfer_from = (\<lambda>_. None)\<rparr>"

lemma sample_sol_documented: "sol_documented sample_sol"
proof -
  have "inj_on (sol_selector sample_sol) (set erc20_signatures)"
    by (auto simp: inj_on_def sample_sol_def erc20_signatures_def)
  then show ?thesis
    by (auto simp: sol_documented_def sample_sol_def erc20_signatures_def abi_address_def read_abi_uint)
qed

lemma sample_display_documented: "display_documented sample_alloy"
proof -
  have "inj hex_encode_bytes"
    by (rule injI) (metis hex_decode_encode sum.inject(2))
  then show ?thesis by (simp add: display_documented_def sample_alloy_def inj_on_def)
qed

lemma sample_selectors: "selectors_documented sample_sol"
  by (auto simp: selectors_documented_def inj_on_def sample_sol_def token_signatures_def)

definition sample_dyn :: "('a, unit) DynAbi" where
  "sample_dyn =
     \<lparr>dyn_functions = (\<lambda>_. [\<lparr>fn_name = ''mint'', fn_inputs = [\<lparr>param_name = ''to'', param_ty = ''uint256''\<rparr>]\<rparr>]),
      dyn_selector = (\<lambda>_. [1, 2, 3, 4]), dyn_parse = (\<lambda>_. Inr ()),
      dyn_decode_tuple = (\<lambda>tys _. Inr (DTuple (map (\<lambda>_. DUint 7 256) tys))), dyn_show_int = (\<lambda>w. int_str (sint w))\<rparr>"

section \<open>Properties\<close>

text \<open>The standard ERC-20 calls, encoded by the Solidity ABI, are recognised and shown with exactly their
  parties and amount.\<close>

lemma erc20_calls_shown:
  assumes doc: "sol_documented sol" and "length a = 20" and "length b = 20"
  shows "erc20_visualize al sol (sol_selector sol ''transfer(address,uint256)'' @ abi_address a @ abi_uint w)
      = Some (erc20_transfer al a w)
    \<and> erc20_visualize al sol (sol_selector sol ''approve(address,uint256)'' @ abi_address a @ abi_uint w)
      = Some (erc20_approve al a w)
    \<and> erc20_visualize al sol (sol_selector sol ''transferFrom(address,address,uint256)''
        @ abi_address a @ abi_address b @ abi_uint w) = Some (erc20_transfer_from al a b w)"
proof -
  have sigs: "''transfer(address,uint256)'' \<in> set erc20_signatures" "''approve(address,uint256)'' \<in> set erc20_signatures"
    "''transferFrom(address,address,uint256)'' \<in> set erc20_signatures"
    by (simp_all add: erc20_signatures_def)
  note t = take_selector [OF doc sigs(1)] take_selector [OF doc sigs(2)] take_selector [OF doc sigs(3)]
  have ne: "sol_selector sol ''approve(address,uint256)'' \<noteq> sol_selector sol ''transfer(address,uint256)''"
    "sol_selector sol ''approve(address,uint256)'' \<noteq> sol_selector sol ''transferFrom(address,address,uint256)''"
    "sol_selector sol ''transferFrom(address,address,uint256)'' \<noteq> sol_selector sol ''transfer(address,uint256)''"
    using selector_eq [OF doc sigs(2) sigs(1)] selector_eq [OF doc sigs(2) sigs(3)] selector_eq [OF doc sigs(3) sigs(1)]
    by simp_all
  have dec: "sol_transfer sol (sol_selector sol ''transfer(address,uint256)'' @ abi_address a @ abi_uint w) = Some (a, w)"
    "sol_approve sol (sol_selector sol ''approve(address,uint256)'' @ abi_address a @ abi_uint w) = Some (a, w)"
    "sol_transfer_from sol (sol_selector sol ''transferFrom(address,address,uint256)''
       @ abi_address a @ abi_address b @ abi_uint w) = Some (a, b, w)"
    using doc assms(2,3) unfolding sol_documented_def by blast+
  show ?thesis
    unfolding erc20_visualize_def Let_def
    by (simp only: t ne dec if_True if_False refl option.map split_conv simp_thms)
qed

text \<open>C35: what a signer sees of a token call is the call. Call data that opens with the selector of one of the eleven functions
  of the two standards, and decodes, is shown; whatever is shown has a title that names the function and one row for each
  party, amount and token id, under the label that says which it is; and two call data whose titles and rows read alike,
  of whatever functions, are calls of the same function with the same parties, ids and amounts, mismatched batch lengths
  included. The trailing \<^verbatim>\<open>bytes\<close> argument of an ERC-1155 transfer has no row.\<close>

theorem token_display_faithful:
  fixes al :: Alloy and sol :: SolAbi and input input' :: bytes and f f' :: SignablePayloadField
  assumes "display_documented al" and "selectors_documented sol"
  defines "shown \<equiv> \<lambda>bs g. erc20_visualize al sol bs = Some g \<or> erc1155_visualize al sol bs = Some g"
  shows "((\<exists>g. shown input g) \<longleftrightarrow> (\<exists>c. called sol input c))
    \<and> (shown input f \<longrightarrow> (\<exists>c. called sol input c \<and> reading f = call_reading al c))
    \<and> (shown input f \<and> shown input' f' \<and> reading f = reading f' \<longrightarrow> (\<exists>c. called sol input c \<and> called sol input' c))"
proof -
  have "\<exists>c. called sol input c \<and> called sol input' c" if "shown input f" "shown input' f'" "reading f = reading f'"
    using shown_call [OF that(1) [unfolded shown_def]] shown_call [OF that(2) [unfolded shown_def]] that(3)
      call_reading_inject [OF assms(1)] by metis
  then show ?thesis using visualizes_call [OF assms(2), of al input] shown_call [of al sol input f] unfolding shown_def by blast
qed

theorem token_display_faithful_witness:
  "\<exists>f. erc20_visualize sample_alloy sample_sol (sol_selector sample_sol ''transfer(address,uint256)'' @ abi_address (replicate 20 1) @ abi_uint 5) = Some f
     \<and> erc20_visualize sample_alloy sample_sol (sol_selector sample_sol ''approve(address,uint256)'' @ abi_address (replicate 20 1) @ abi_uint 5) \<noteq> Some f
     \<and> called sample_sol (sol_selector sample_sol ''transfer(address,uint256)'' @ abi_address (replicate 20 1) @ abi_uint 5)
         (CallTransfer (replicate 20 1) 5)"
proof -
  let ?call = "\<lambda>g. sol_selector sample_sol g @ abi_address (replicate 20 1) @ abi_uint 5"
  let ?t = "?call ''transfer(address,uint256)''" and ?a = "?call ''approve(address,uint256)''"
  have calls: "erc20_visualize sample_alloy sample_sol ?t = Some (erc20_transfer sample_alloy (replicate 20 1) 5)"
    using erc20_calls_shown [OF sample_sol_documented, of "replicate 20 1" "replicate 20 1" sample_alloy 5] by simp
  have c: "called sample_sol ?t (CallTransfer (replicate 20 1) 5)" "called sample_sol ?a (CallApprove (replicate 20 1) 5)"
    by (simp_all add: called_def sample_sol_def abi_address_def read_abi_uint)
  have unique: "c = CallTransfer (replicate 20 1) 5" if "called sample_sol ?t c" for c
    by (rule called_unique [OF sample_selectors that c(1)])
  have unique': "c = CallApprove (replicate 20 1) 5" if "called sample_sol ?a c" for c
    by (rule called_unique [OF sample_selectors that c(2)])
  show ?thesis
    using token_display_faithful [OF sample_display_documented sample_selectors, of ?t
        "erc20_transfer sample_alloy (replicate 20 1) 5" ?a "erc20_transfer sample_alloy (replicate 20 1) 5"]
      calls c(1) unique unique' by (metis TokenCall.distinct(3))
qed

text \<open>A call shown through a caller's ABI is shown as the first function with the call's selector, with one
  row for every declared parameter, in order, when alloy decodes a tuple into as many values as it has
  types.\<close>

lemma dynamic_rows_complete:
  assumes "\<forall>tys bs vals. dyn_decode_tuple dyn tys bs = Inr (DTuple vals) \<longrightarrow> length vals = length tys"
    and "dynamic_visualize al dyn abi calldata = Some field"
  shows "\<exists>before fn after rows. dyn_functions dyn abi = before @ fn # after
    \<and> dyn_selector dyn fn = take 4 calldata \<and> take 4 calldata \<notin> dyn_selector dyn ` set before
    \<and> field_label field = fn_name fn \<and> field_fallback_text field = fn_signature fn
    \<and> decoded_params al dyn fn (drop 4 calldata) = Inr rows \<and> length rows = length (fn_inputs fn)"
proof -
  from assms(2) obtain fn rows where
    f: "find_function_by_selector dyn abi (take 4 calldata) = Some fn"
    and rows: "decoded_params al dyn fn (drop 4 calldata) = Inr rows"
    and field: "field_label field = fn_name fn" "field_fallback_text field = fn_signature fn"
    by (auto simp: dynamic_visualize_def abi_visualize_def and_then_Inr_iff field_label_def field_fallback_text_def
        split: sum.splits if_splits)
  have "length rows = length (fn_inputs fn)" by (rule decoded_params_length [OF assms(1) rows])
  moreover from f obtain before after where "dyn_functions dyn abi = before @ fn # after"
    "dyn_selector dyn fn = take 4 calldata" "\<forall>g\<in>set before. dyn_selector dyn g \<noteq> take 4 calldata"
    unfolding find_function_by_selector_def find_first by blast
  moreover from this(3) have "take 4 calldata \<notin> dyn_selector dyn ` set before" by auto
  ultimately show ?thesis using rows field by blast
qed

end
