(* ===== verification/EthProtocols.thy ===== *)
theory EthProtocols
  imports EthRegistry
begin

text \<open>
  \<^verbatim>\<open>chain_parsers/visualsign-ethereum/src/visualizer.rs\<close> (the registry of visualizers),
  \<^verbatim>\<open>protocols/mod.rs\<close>, \<^verbatim>\<open>protocols/uniswap/mod.rs\<close> and \<^verbatim>\<open>protocols/uniswap/config.rs\<close>: what the default
  registry holds. A visualizer is its contract type and an opaque body of type \<open>'v\<close>. An \<^verbatim>\<open>expect\<close> on a
  hardcoded address panics when the address does not parse: the result is then \<open>None\<close>.
\<close>

section \<open>Visualizers\<close>

record 'v ContractVisualizer =
  viz_contract_type :: string
  viz_body :: 'v

record 'v EthereumVisualizerRegistry =
  visualizers :: "(string \<times> 'v ContractVisualizer) list"

definition visualizer_builder_new :: "'v EthereumVisualizerRegistry" where
  "visualizer_builder_new = \<lparr>visualizers = []\<rparr>"

definition visualizer_register ::
  "'v EthereumVisualizerRegistry \<Rightarrow> 'v ContractVisualizer
    \<Rightarrow> 'v ContractVisualizer option \<times> 'v EthereumVisualizerRegistry" where
  "visualizer_register builder v =
     (map_of (visualizers builder) (viz_contract_type v),
      \<lparr>visualizers = bt_insert (viz_contract_type v) v (visualizers builder)\<rparr>)"

definition visualizer_get :: "'v EthereumVisualizerRegistry \<Rightarrow> string \<Rightarrow> 'v ContractVisualizer option" where
  "visualizer_get reg contract_type = map_of (visualizers reg) contract_type"

section \<open>Uniswap configuration\<close>

datatype UniswapConfigError = UnsupportedChain u64 | InvalidAddress string

fun display_uniswap_error :: "UniswapConfigError \<Rightarrow> string" where
  "display_uniswap_error (UnsupportedChain chain_id) =
     ''Unsupported chain ID for Universal Router V1.2: '' @ nat_str (unat chain_id)"
| "display_uniswap_error (InvalidAddress addr) = ''Invalid address: '' @ addr"

text \<open>The names that \<^verbatim>\<open>std::any::type_name\<close> gives the two marker types.\<close>

definition UniswapUniversalRouter :: string where
  "UniswapUniversalRouter = ''visualsign_ethereum::protocols::uniswap::config::UniswapUniversalRouter''"

definition Permit2Contract :: string where
  "Permit2Contract = ''visualsign_ethereum::protocols::uniswap::config::Permit2Contract''"

definition router_table :: "(u64 \<times> string list) list" where
  "router_table =
     [(1, [''0x3fC91A3afd70395Cd496C647d5a6CC9D4B2b7FAD'', ''0x66a9893cc07d91d95644aedd05d03f95e1dba8af'', ''0x4C82D1fBFe28C977cBB58D8C7FF8FCF9F70a2cCA'', ''0xCb640A86855f1A828c27241bA364348de28abe66'']),
      (10, [''0xCb1355ff08Ab38bBCE60111F1bb2B784bE25D7e8'', ''0x851116d9223fabed8e56c0e6b8ad0c31d98b3507'', ''0x8B844f885672f333Bc0042cB669255f93a4C1E6b'']),
      (56, [''0x4Dae2f939ACf50408e13d58534Ff8c2776d45265'', ''0x1906c1d672b88cd1b9ac7593301ca990f94eae07'', ''0x8B844f885672f333Bc0042cB669255f93a4C1E6b'']),
      (137, [''0xec7BE89e9d109e7e3Fec59c222CF297125FEFda2'', ''0x1095692a6237d83c6a72f3f5efedb9a670c49223'', ''0x8B844f885672f333Bc0042cB669255f93a4C1E6b'']),
      (480, [''0x7a250d5630B4cF539739dF2C5dAcb4c659F2488D'', ''0x8ac7bee993bb44dab564ea4bc9ea67bf9eb5e743'', ''0x8B844f885672f333Bc0042cB669255f93a4C1E6b'']),
      (8453, [''0x3fC91A3afd70395Cd496C647d5a6CC9D4B2b7FAD'', ''0x6ff5693b99212da76ad316178a184ab56d299b43'', ''0xfdf682f51fe81aa4898f0ae2163d8a55c127fbc7'']),
      (42161, [''0x5E325eDA8064b456f4781070C0738d849c824258'', ''0xa51afafe0263b40edaef0df8781ea9aa03e381a3'', ''0x8B844f885672f333Bc0042cB669255f93a4C1E6b'']),
      (42220, [''0x643770e279d5d0733f21d6dc03a8efbabf3255b4'', ''0xcb695bc5D3Aa22cAD1E6DF07801b061a05A0233A'', ''0x8B844f885672f333Bc0042cB669255f93a4C1E6b'']),
      (43114, [''0x4Dae2f939ACf50408e13d58534Ff8c2776d45265'', ''0x94b75331ae8d42c1b61065089b7d48fe14aa73b7'', ''0x8B844f885672f333Bc0042cB669255f93a4C1E6b'']),
      (81457, [''0x643770E279d5D0733F21d6DC03A8efbABf3255B4'', ''0xeabbcb3e8e415306207ef514f660a3f820025be3'', ''0x8B844f885672f333Bc0042cB669255f93a4C1E6b'']),
      (11155111, [''0x3fC91A3afd70395Cd496C647d5a6CC9D4B2b7FAD'', ''0x3a9d48ab9751398bbfa63ad67599bb04e4bdf98b'', ''0x8B844f885672f333Bc0042cB669255f93a4C1E6b'', ''0xB0C89059d7190EDb17eFF19829cc009cEe923916''])]"

definition universal_router_address_strs :: "u64 \<Rightarrow> (UniswapConfigError, string list) result" where
  "universal_router_address_strs chain_id =
     (case map_of router_table chain_id of
        Some addrs \<Rightarrow> Inr addrs
      | None \<Rightarrow> Inl (UnsupportedChain chain_id))"

definition parse_config_address ::
  "(string \<Rightarrow> (string, eth_address) result) \<Rightarrow> string \<Rightarrow> (UniswapConfigError, eth_address) result" where
  "parse_config_address parse_address s = map_err (\<lambda>_. InvalidAddress s) (parse_address s)"

definition universal_router_address ::
  "(string \<Rightarrow> (string, eth_address) result) \<Rightarrow> u64 \<Rightarrow> (UniswapConfigError, eth_address) result" where
  "universal_router_address parse_address chain_id =
     and_then (universal_router_address_strs chain_id) (\<lambda>addrs.
       case addrs of
         [] \<Rightarrow> Inl (UnsupportedChain chain_id)
       | s # _ \<Rightarrow> parse_config_address parse_address s)"

fun traverse_addresses ::
  "(string \<Rightarrow> (string, eth_address) result) \<Rightarrow> string list \<Rightarrow> (UniswapConfigError, eth_address list) result" where
  "traverse_addresses parse_address [] = Inr []"
| "traverse_addresses parse_address (s # ss) =
     and_then (parse_config_address parse_address s) (\<lambda>a.
       and_then (traverse_addresses parse_address ss) (\<lambda>as. Inr (a # as)))"

definition universal_router_addresses ::
  "(string \<Rightarrow> (string, eth_address) result) \<Rightarrow> u64 \<Rightarrow> (UniswapConfigError, eth_address list) result" where
  "universal_router_addresses parse_address chain_id =
     and_then (universal_router_address_strs chain_id) (traverse_addresses parse_address)"

definition universal_router_chains :: "u64 list" where
  "universal_router_chains = [1, 10, 56, 137, 480, 8453, 42161, 42220, 43114, 81457, 11155111]"

definition PERMIT2 :: string where
  "PERMIT2 = ''0x000000000022d473030f116ddee9f6b43ac78ba3''"

definition expect_address :: "(string \<Rightarrow> (string, eth_address) result) \<Rightarrow> string \<Rightarrow> eth_address option" where
  "expect_address parse_address s = (case parse_address s of Inr a \<Rightarrow> Some a | Inl _ \<Rightarrow> None)"

definition permit2_address :: "(string \<Rightarrow> (string, eth_address) result) \<Rightarrow> eth_address option" where
  "permit2_address parse_address = expect_address parse_address PERMIT2"

definition weth_table :: "(u64 \<times> string) list" where
  "weth_table =
     [(1, ''0xc02aaa39b223fe8d0a0e5c4f27ead9083c756cc2''),
      (10, ''0x4200000000000000000000000000000000000006''),
      (137, ''0x7ceb23fd6bc0add59e62ac25578270cff1b9f619''),
      (8453, ''0x4200000000000000000000000000000000000006''),
      (42161, ''0x82af49447d8a07e3bd95bd0d56f35241523fbab1'')]"

fun register_weth ::
  "(string \<Rightarrow> (string, eth_address) result) \<Rightarrow> (u64 \<times> string) list \<Rightarrow> ContractRegistry \<Rightarrow> ContractRegistry option" where
  "register_weth parse_address [] reg = Some reg"
| "register_weth parse_address ((chain_id, s) # es) reg =
     (case expect_address parse_address s of
        None \<Rightarrow> None
      | Some a \<Rightarrow> register_weth parse_address es (register_chain_specific_address reg Weth chain_id a))"

definition register_well_known_addresses ::
  "(string \<Rightarrow> (string, eth_address) result) \<Rightarrow> ContractRegistry \<Rightarrow> ContractRegistry option" where
  "register_well_known_addresses parse_address reg =
     (case expect_address parse_address PERMIT2 of
        None \<Rightarrow> None
      | Some a \<Rightarrow> register_weth parse_address weth_table (register_universal_address reg Permit2 a))"

definition weth_address :: "(string \<Rightarrow> (string, eth_address) result) \<Rightarrow> u64 \<Rightarrow> eth_address option" where
  "weth_address parse_address chain_id =
     (case map_of weth_table chain_id of None \<Rightarrow> None | Some s \<Rightarrow> expect_address parse_address s)"

definition common_tokens :: "(u64 \<times> TokenMetadata) list" where
  "common_tokens =
     [(1, \<lparr>tm_symbol = ''WETH'', tm_name = ''WETH9'', tm_erc_standard = Erc20,
         tm_contract_address = ''0xc02aaa39b223fe8d0a0e5c4f27ead9083c756cc2'', tm_decimals = 18\<rparr>),
      (10, \<lparr>tm_symbol = ''WETH'', tm_name = ''WETH9'', tm_erc_standard = Erc20,
         tm_contract_address = ''0x4200000000000000000000000000000000000006'', tm_decimals = 18\<rparr>),
      (137, \<lparr>tm_symbol = ''WETH'', tm_name = ''WETH9'', tm_erc_standard = Erc20,
         tm_contract_address = ''0x7ceb23fd6bc0add59e62ac25578270cff1b9f619'', tm_decimals = 18\<rparr>),
      (8453, \<lparr>tm_symbol = ''WETH'', tm_name = ''WETH9'', tm_erc_standard = Erc20,
         tm_contract_address = ''0x4200000000000000000000000000000000000006'', tm_decimals = 18\<rparr>),
      (42161, \<lparr>tm_symbol = ''WETH'', tm_name = ''WETH9'', tm_erc_standard = Erc20,
         tm_contract_address = ''0x82af49447d8a07e3bd95bd0d56f35241523fbab1'', tm_decimals = 18\<rparr>),
      (1, \<lparr>tm_symbol = ''USDC'', tm_name = ''USD Coin'', tm_erc_standard = Erc20,
         tm_contract_address = ''0xa0b86991c6218b36c1d19d4a2e9eb0ce3606eb48'', tm_decimals = 6\<rparr>),
      (1, \<lparr>tm_symbol = ''USDT'', tm_name = ''Tether USD'', tm_erc_standard = Erc20,
         tm_contract_address = ''0xdac17f958d2ee523a2206206994597c13d831ec7'', tm_decimals = 6\<rparr>),
      (1, \<lparr>tm_symbol = ''DAI'', tm_name = ''Dai Stablecoin'', tm_erc_standard = Erc20,
         tm_contract_address = ''0x6b175474e89094c44da98b954eedeac495271d0f'', tm_decimals = 18\<rparr>),
      (1, \<lparr>tm_symbol = ''SETH'', tm_name = ''SETH'', tm_erc_standard = Erc20,
         tm_contract_address = ''0xe71bdfe1df69284f00ee185cf0d95d0c7680c0d4'', tm_decimals = 18\<rparr>)]"

text \<open>\<^verbatim>\<open>let _ = registry.register_token(..)\<close>: an error is dropped.\<close>

definition register_common_token ::
  "(string \<Rightarrow> (string, eth_address) result) \<Rightarrow> u64 \<times> TokenMetadata \<Rightarrow> ContractRegistry \<Rightarrow> ContractRegistry" where
  "register_common_token parse_address t reg =
     (case register_token parse_address reg (fst t) (snd t) of Inl _ \<Rightarrow> reg | Inr reg' \<Rightarrow> reg')"

definition register_common_tokens ::
  "(string \<Rightarrow> (string, eth_address) result) \<Rightarrow> ContractRegistry \<Rightarrow> ContractRegistry" where
  "register_common_tokens parse_address reg = fold (register_common_token parse_address) common_tokens reg"

section \<open>Registration\<close>

fun register_routers ::
  "(string \<Rightarrow> (string, eth_address) result) \<Rightarrow> u64 list \<Rightarrow> ContractRegistry \<Rightarrow> ContractRegistry option" where
  "register_routers parse_address [] reg = Some reg"
| "register_routers parse_address (chain_id # cs) reg =
     (case universal_router_addresses parse_address chain_id of
        Inl _ \<Rightarrow> None
      | Inr addrs \<Rightarrow>
          register_routers parse_address cs (register_contract_typed UniswapUniversalRouter reg chain_id addrs))"

definition register_uniswap ::
  "(string \<Rightarrow> (string, eth_address) result) \<Rightarrow> 'v \<Rightarrow> 'v \<Rightarrow> ContractRegistry \<Rightarrow> 'v EthereumVisualizerRegistry
    \<Rightarrow> (ContractRegistry \<times> 'v EthereumVisualizerRegistry) option" where
  "register_uniswap parse_address router_body permit2_body contract_reg visualizer_reg =
     (case register_routers parse_address universal_router_chains contract_reg of
        None \<Rightarrow> None
      | Some reg1 \<Rightarrow>
     (case permit2_address parse_address of
        None \<Rightarrow> None
      | Some permit2 \<Rightarrow>
     (let reg2 = fold (\<lambda>chain_id reg. register_contract_typed Permit2Contract reg chain_id [permit2])
                   universal_router_chains reg1
      in
     (case register_well_known_addresses parse_address reg2 of
        None \<Rightarrow> None
      | Some reg3 \<Rightarrow>
          Some (register_common_tokens parse_address reg3,
            snd (visualizer_register (snd (visualizer_register visualizer_reg
              \<lparr>viz_contract_type = short_type_id UniswapUniversalRouter, viz_body = router_body\<rparr>))
              \<lparr>viz_contract_type = short_type_id Permit2Contract, viz_body = permit2_body\<rparr>))))))"

definition register_all ::
  "(string \<Rightarrow> (string, eth_address) result) \<Rightarrow> 'v \<Rightarrow> 'v \<Rightarrow> ContractRegistry \<Rightarrow> 'v EthereumVisualizerRegistry
    \<Rightarrow> (ContractRegistry \<times> 'v EthereumVisualizerRegistry) option" where
  "register_all parse_address router_body permit2_body contract_reg visualizer_reg =
     register_uniswap parse_address router_body permit2_body contract_reg visualizer_reg"

definition with_default_protocols ::
  "(string \<Rightarrow> (string, eth_address) result) \<Rightarrow> 'v \<Rightarrow> 'v \<Rightarrow> (ContractRegistry \<times> 'v EthereumVisualizerRegistry) option" where
  "with_default_protocols parse_address router_body permit2_body =
     register_all parse_address router_body permit2_body contract_registry_new visualizer_builder_new"

section \<open>Facts\<close>

lemma short_type_ids:
  "short_type_id UniswapUniversalRouter = ''UniswapUniversalRouter''"
  "short_type_id Permit2Contract = ''Permit2Contract''"
  by (simp_all add: short_type_id_def UniswapUniversalRouter_def Permit2Contract_def)

text \<open>The spelling of an address that alloy accepts: \<^verbatim>\<open>0x\<close> and forty hexadecimal digits, in any case.\<close>

definition hex_address :: "string \<Rightarrow> bool" where
  "hex_address s = (length s = 42 \<and> take 2 s = ''0x'' \<and> list_all is_ascii_hexdigit (drop 2 s))"

lemma config_addresses:
  "list_all (\<lambda>(c, ss). list_all hex_address ss) router_table"
  "list_all (\<lambda>(c, s). hex_address s) weth_table"
  "list_all (\<lambda>(c, t). hex_address (tm_contract_address t)) common_tokens"
  "hex_address PERMIT2"
  by (simp_all add: router_table_def weth_table_def common_tokens_def PERMIT2_def hex_address_def
      is_ascii_hexdigit_def is_ascii_digit_def code_def)

lemma traverse_addresses_ok:
  "list_all (\<lambda>s. is_ok (p s)) ss \<Longrightarrow>
     \<exists>as. traverse_addresses p ss = Inr as \<and> set as = {a. \<exists>s\<in>set ss. p s = Inr a}"
proof (induction ss)
  case (Cons s ss)
  then obtain a where "p s = Inr a" by (cases "p s") auto
  with Cons show ?case by (auto simp: parse_config_address_def)
qed simp

lemma register_routers_ok:
  assumes "contract_inv reg"
    and "\<And>c. c \<in> set cs \<Longrightarrow> \<exists>as. universal_router_addresses p c = Inr as \<and> set as = addrs c"
  shows "\<exists>reg'. register_routers p cs reg = Some reg' \<and> contract_inv reg'
    \<and> (\<forall>c a. map_of (address_to_type reg') (c, a) =
         (if c \<in> set cs \<and> a \<in> addrs c then Some (short_type_id UniswapUniversalRouter)
          else map_of (address_to_type reg) (c, a)))
    \<and> token_metadata reg' = token_metadata reg \<and> well_known_addresses reg' = well_known_addresses reg"
  using assms
proof (induction cs arbitrary: reg)
  case (Cons c cs)
  obtain as where as: "universal_router_addresses p c = Inr as" "set as = addrs c"
    using Cons.prems(2) by auto
  let ?reg = "register_contract_typed UniswapUniversalRouter reg c as"
  note r = register_contract_eq [OF Cons.prems(1)]
  have "contract_inv ?reg" by (simp add: register_contract_typed_def r(1))
  from Cons.IH [OF this] Cons.prems(2) obtain reg' where "register_routers p cs ?reg = Some reg'" "contract_inv reg'"
    "\<forall>c a. map_of (address_to_type reg') (c, a) =
       (if c \<in> set cs \<and> a \<in> addrs c then Some (short_type_id UniswapUniversalRouter)
        else map_of (address_to_type ?reg) (c, a))"
    "token_metadata reg' = token_metadata ?reg" "well_known_addresses reg' = well_known_addresses ?reg"
    by auto
  with as show ?case by (auto simp: register_contract_typed_def r)
qed simp

lemma register_permit2_ok:
  fixes cs pa
  assumes "contract_inv reg"
  defines "reg' \<equiv> fold (\<lambda>chain_id reg. register_contract_typed Permit2Contract reg chain_id [pa]) cs reg"
  shows "contract_inv reg'"
    and "map_of (address_to_type reg') (c, a) =
      (if c \<in> set cs \<and> a = pa then Some (short_type_id Permit2Contract)
       else map_of (address_to_type reg) (c, a))"
    and "token_metadata reg' = token_metadata reg" and "well_known_addresses reg' = well_known_addresses reg"
proof -
  have "contract_inv reg' \<and> map_of (address_to_type reg') (c, a) =
      (if c \<in> set cs \<and> a = pa then Some (short_type_id Permit2Contract)
       else map_of (address_to_type reg) (c, a))
    \<and> token_metadata reg' = token_metadata reg \<and> well_known_addresses reg' = well_known_addresses reg"
    using assms(1) unfolding reg'_def
  proof (induction cs arbitrary: reg)
    case (Cons d cs)
    note r = register_contract_eq [OF Cons.prems]
    have "contract_inv (register_contract_typed Permit2Contract reg d [pa])"
      by (simp add: register_contract_typed_def r(1))
    from Cons.IH [OF this] show ?case by (auto simp: register_contract_typed_def r)
  qed simp
  then show "contract_inv reg'" "map_of (address_to_type reg') (c, a) =
      (if c \<in> set cs \<and> a = pa then Some (short_type_id Permit2Contract)
       else map_of (address_to_type reg) (c, a))"
    "token_metadata reg' = token_metadata reg" "well_known_addresses reg' = well_known_addresses reg"
    by blast+
qed

lemma register_weth_ok:
  assumes "list_all (\<lambda>(c, s). is_ok (p s)) es" and "contract_inv reg"
  shows "\<exists>reg'. register_weth p es reg = Some reg' \<and> contract_inv reg'
    \<and> address_to_type reg' = address_to_type reg \<and> token_metadata reg' = token_metadata reg"
  using assms
proof (induction p es reg rule: register_weth.induct)
  case (2 p c s es reg)
  then obtain a where a: "p s = Inr a" by (cases "p s") auto
  have "contract_inv (register_chain_specific_address reg Weth c a)"
    using "2.prems" by (simp add: register_chain_specific_address_def contract_inv_def ssorted_bt_insert)
  with 2 a show ?case by (auto simp: expect_address_def register_chain_specific_address_def)
qed simp

lemma register_tokens_ok:
  assumes "list_all (\<lambda>(c, t). is_ok (p (tm_contract_address t))) ts" and "contract_inv reg"
  shows "contract_inv (fold (register_common_token p) ts reg)
    \<and> address_to_type (fold (register_common_token p) ts reg) = address_to_type reg
    \<and> map_of (token_metadata (fold (register_common_token p) ts reg)) (c, a) =
        (case find (\<lambda>t. fst t = c \<and> p (tm_contract_address (snd t)) = Inr a) (rev ts) of
           Some t \<Rightarrow> Some (snd t) | None \<Rightarrow> map_of (token_metadata reg) (c, a))"
  using assms
proof (induction ts arbitrary: reg)
  case (Cons t ts)
  obtain b where b: "p (tm_contract_address (snd t)) = Inr b"
    using Cons.prems by (cases "p (tm_contract_address (snd t))") auto
  let ?reg = "reg\<lparr>token_metadata := bt_insert (fst t, b) (snd t) (token_metadata reg)\<rparr>"
  have reg: "register_common_token p t reg = ?reg"
    by (simp add: register_common_token_def register_token_def b)
  have "contract_inv ?reg" using Cons.prems by (simp add: contract_inv_def ssorted_bt_insert)
  from Cons.IH [OF _ this] Cons.prems b show ?case
    by (auto simp: reg find_append contract_inv_def map_of_bt_insert split: option.split)
qed simp

section \<open>Properties\<close>

text \<open>When alloy accepts every address that is spelled with forty hexadecimal digits, setting up the
  default registry does not panic, and the registry holds exactly the configured contracts and tokens:
  every deployed router of a chain, Permit2 on the routers' chains, the nine common tokens; and
  visualizers for the two contract types.\<close>

lemma default_registry_exact:
  assumes parses: "\<forall>s. hex_address s \<longrightarrow> is_ok (p s)"
  shows "\<exists>reg viz. with_default_protocols p rb pb = Some (reg, viz) \<and> contract_inv reg
    \<and> get_contract_type reg c a =
        (if c \<in> set universal_router_chains \<and> p PERMIT2 = Inr a then Some ''Permit2Contract''
         else if \<exists>ss. map_of router_table c = Some ss \<and> Inr a \<in> p ` set ss then Some ''UniswapUniversalRouter''
         else None)
    \<and> map_of (token_metadata reg) (c, a) =
        map_option snd (find (\<lambda>t. fst t = c \<and> p (tm_contract_address (snd t)) = Inr a) (rev common_tokens))
    \<and> (visualizer_get viz ct \<noteq> None \<longleftrightarrow> ct \<in> {''UniswapUniversalRouter'', ''Permit2Contract''})"
proof -
  let ?addrs = "\<lambda>c. {a. \<exists>ss. map_of router_table c = Some ss \<and> Inr a \<in> p ` set ss}"
  have chains: "set universal_router_chains = dom (map_of router_table)"
    by (simp add: universal_router_chains_def router_table_def dom_map_of_conv_image_fst)
  have "\<exists>as. universal_router_addresses p c = Inr as \<and> set as = ?addrs c"
    if "c \<in> set universal_router_chains" for c
  proof -
    from that obtain ss where ss: "map_of router_table c = Some ss" unfolding chains by auto
    then have "list_all (\<lambda>s. is_ok (p s)) ss"
      using parses config_addresses(1) by (auto simp: list_all_iff dest!: map_of_SomeD)
    from traverse_addresses_ok [OF this] obtain as
      where "traverse_addresses p ss = Inr as" "set as = {a. \<exists>s\<in>set ss. p s = Inr a}" by blast
    moreover have "{a. \<exists>s\<in>set ss. p s = Inr a} = ?addrs c" using ss by force
    ultimately show ?thesis
      using ss by (simp add: universal_router_addresses_def universal_router_address_strs_def)
  qed
  from register_routers_ok [OF contract_inv_new this] obtain reg1
    where reg1: "register_routers p universal_router_chains contract_registry_new = Some reg1" "contract_inv reg1"
      "\<forall>c a. map_of (address_to_type reg1) (c, a) =
         (if c \<in> set universal_router_chains \<and> a \<in> ?addrs c then Some (short_type_id UniswapUniversalRouter)
          else map_of (address_to_type contract_registry_new) (c, a))"
      "token_metadata reg1 = token_metadata contract_registry_new"
    by blast
  obtain permit2 where permit2: "p PERMIT2 = Inr permit2"
    using parses config_addresses(4) by (cases "p PERMIT2") auto
  let ?reg2 = "fold (\<lambda>chain_id reg. register_contract_typed Permit2Contract reg chain_id [permit2])
    universal_router_chains reg1"
  note reg2 = register_permit2_ok [where cs = universal_router_chains and pa = permit2, OF reg1(2)]
  let ?reg2' = "register_universal_address ?reg2 Permit2 permit2"
  have "contract_inv ?reg2'"
    using reg2(1) by (simp add: register_universal_address_def contract_inv_def ssorted_bt_insert)
  moreover have "list_all (\<lambda>(c, s). is_ok (p s)) weth_table"
    using parses config_addresses(2) by (auto simp: list_all_iff)
  ultimately obtain reg3 where reg3: "register_weth p weth_table ?reg2' = Some reg3" "contract_inv reg3"
    "address_to_type reg3 = address_to_type ?reg2'" "token_metadata reg3 = token_metadata ?reg2'"
    using register_weth_ok [of p weth_table ?reg2'] by blast
  have "list_all (\<lambda>(c, t). is_ok (p (tm_contract_address t))) common_tokens"
    using parses config_addresses(3) by (auto simp: list_all_iff)
  note reg4 = register_tokens_ok [OF this reg3(2), of c a]
  show ?thesis
    unfolding with_default_protocols_def register_all_def register_uniswap_def
    using reg1 reg3 reg4 permit2
    by (auto simp: permit2_address_def expect_address_def register_well_known_addresses_def Let_def
        register_common_tokens_def get_contract_type_def reg2 register_universal_address_def short_type_ids
        contract_registry_new_def chains visualizer_get_def visualizer_register_def visualizer_builder_new_def
        split: option.split)
qed

text \<open>A parser that takes the bytes of the spelling itself.\<close>

end
