(* ===== verification/FloatFmt.thy ===== *)
theory FloatFmt
  imports StdText
begin

text \<open>
  The floating point the program displays: \<^verbatim>\<open>u128 as f64\<close>, division by a constant and \<^verbatim>\<open>{:.2}\<close>. A finite
  \<^verbatim>\<open>f64\<close> is a natural number of units of \<open>2 ^ -59\<close>, below the last bit of every value that occurs;
  rounding is to nearest, ties to even, both in arithmetic and in printing. \<^verbatim>\<open>{}\<close> prints the shortest decimal
  that reads back as the same number: for a quotient by a power of ten of a number with fewer than
  fifteen digits, that quotient's own digits.
\<close>

section \<open>Rounding\<close>

definition round_half_even :: "nat \<Rightarrow> nat \<Rightarrow> nat" where
  "round_half_even n d =
     (let q = n div d; r = n mod d
      in if 2 * r < d then q else if d < 2 * r then q + 1 else if even q then q else q + 1)"

fun log2_floor :: "nat \<Rightarrow> nat" where
  "log2_floor n = (if n < 2 then 0 else Suc (log2_floor (n div 2)))"

declare log2_floor.simps [simp del]

definition f64_of_u128 :: "nat \<Rightarrow> nat" where
  "f64_of_u128 n =
     (if n < 2 ^ 53 then n else (let s = log2_floor n - 52 in round_half_even n (2 ^ s) * 2 ^ s))"

text \<open>A value \<open>a\<close> divided by 100, in units of \<open>2 ^ -59\<close>. The quotient has 53 significant bits: its last bit is
  \<open>2 ^ (k - 59)\<close> where \<open>k - 7\<close> is the exponent of its first.\<close>

definition f64_div_100 :: "nat \<Rightarrow> nat" where
  "f64_div_100 a =
     (if a = 0 then 0
      else let k = log2_floor (a * 128 div 100)
           in (if k \<le> 59 then round_half_even (a * 2 ^ (59 - k)) 100 else round_half_even a (100 * 2 ^ (k - 59))) * 2 ^ k)"

definition f64_fixed :: "nat \<Rightarrow> nat \<Rightarrow> string" where
  "f64_fixed d x =
     (let r = round_half_even (x * 10 ^ d) (2 ^ 59)
      in nat_str (r div 10 ^ d) @ ''.'' @ zero_pad d (nat_str (r mod 10 ^ d)))"

definition decimal_text :: "nat \<Rightarrow> nat \<Rightarrow> string" where
  "decimal_text d n =
     (if n mod 10 ^ d = 0 then nat_str (n div 10 ^ d)
      else nat_str (n div 10 ^ d) @ ''.'' @ trim_end_matches (CHR ''0'') (zero_pad d (nat_str (n mod 10 ^ d))))"

section \<open>Error bounds\<close>

lemma round_half_even_error:
  assumes "0 < d"
  shows "2 * \<bar>int (round_half_even n d) * int d - int n\<bar> \<le> int d"
proof -
  define q r where "q = n div d" and "r = n mod d"
  have n: "n = q * d + r" and r: "r < d" using assms by (simp_all add: q_def r_def)
  have "round_half_even n d = q \<and> 2 * r \<le> d \<or> round_half_even n d = q + 1 \<and> d \<le> 2 * r"
    by (auto simp: round_half_even_def Let_def simp flip: q_def r_def)
  then show ?thesis using r unfolding n by (auto simp: algebra_simps abs_if)
qed

lemma round_half_even_near:
  assumes "0 < d" and "2 * \<bar>int n - int a * int d\<bar> < int d"
  shows "round_half_even n d = a"
proof -
  let ?r = "int (round_half_even n d)"
  have "2 * \<bar>?r * int d - int n\<bar> \<le> int d" by (rule round_half_even_error [OF assms(1)])
  with assms(2) have "2 * \<bar>(?r - int a) * int d\<bar> < 2 * int d" by (simp add: left_diff_distrib abs_if split: if_splits)
  then have "\<bar>?r - int a\<bar> * int d < 1 * int d" by (simp add: abs_mult)
  then have "\<bar>?r - int a\<bar> < 1" using assms(1) by (simp add: mult_less_cancel_right)
  then show ?thesis by simp
qed

lemma log2_floor_le: "0 < n \<Longrightarrow> 2 ^ log2_floor n \<le> n"
proof (induction n rule: log2_floor.induct)
  case (1 n)
  show ?case
  proof (cases "n < 2")
    case False
    then have "2 ^ log2_floor (n div 2) \<le> n div 2" using 1 by simp
    then show ?thesis using False by (simp add: log2_floor.simps [of n])
  qed (use "1.prems" in \<open>simp add: log2_floor.simps [of n]\<close>)
qed

lemma f64_div_100_error:
  assumes "0 < a" and "a < 2 ^ 52"
  shows "2 * \<bar>100 * int (f64_div_100 a) - int a * 2 ^ 59\<bar> \<le> 100 * 2 ^ log2_floor (a * 128 div 100)"
    and "log2_floor (a * 128 div 100) \<le> 52"
proof -
  define k where "k = log2_floor (a * 128 div 100)"
  have "0 < a * 128 div 100" using assms(1) by (simp add: div_greater_zero_iff)
  then have "2 ^ k \<le> a * 128 div 100" unfolding k_def by (rule log2_floor_le)
  also have "\<dots> < 2 ^ 53" using assms(2) by (simp add: div_less_iff_less_mult)
  finally have "2 ^ k < (2 :: nat) ^ 53" .
  then have "k < 53" by (simp only: power_strict_increasing_iff)
  then have k: "k \<le> 52" by simp
  then show "log2_floor (a * 128 div 100) \<le> 52" by (simp add: k_def)
  let ?m = "int (round_half_even (a * 2 ^ (59 - k)) 100)"
  have v: "int (f64_div_100 a) = ?m * 2 ^ k"
    unfolding f64_div_100_def Let_def k_def [symmetric] using assms(1) k by simp
  have "2 * \<bar>?m * 100 - int a * 2 ^ (59 - k)\<bar> \<le> 100"
    using round_half_even_error [of 100 "a * 2 ^ (59 - k)"] by simp
  then have bound: "2 * \<bar>?m * 100 - int a * 2 ^ (59 - k)\<bar> * 2 ^ k \<le> 100 * 2 ^ k" by (rule mult_right_mono) simp
  have "(2 :: int) ^ 59 = 2 ^ (59 - k) * 2 ^ k" using k by (simp flip: power_add)
  then have "(?m * 100 - int a * 2 ^ (59 - k)) * 2 ^ k = 100 * int (f64_div_100 a) - int a * 2 ^ 59"
    by (simp only: v) (simp add: algebra_simps)
  then have "\<bar>?m * 100 - int a * 2 ^ (59 - k)\<bar> * 2 ^ k = \<bar>100 * int (f64_div_100 a) - int a * 2 ^ 59\<bar>"
    by (metis abs_mult abs_numeral power_abs)
  with bound show "2 * \<bar>100 * int (f64_div_100 a) - int a * 2 ^ 59\<bar> \<le> 100 * 2 ^ log2_floor (a * 128 div 100)"
    unfolding k_def [symmetric] by (simp only: mult.assoc)
qed

text \<open>Below \<open>2 ^ 52\<close> hundredths two decimals are exact, and below 100 hundredths four are.\<close>

lemma f64_fixed_2_exact:
  assumes "a < 2 ^ 52"
  shows "f64_fixed 2 (f64_div_100 a) = nat_str (a div 100) @ ''.'' @ zero_pad 2 (nat_str (a mod 100))"
proof -
  have "round_half_even (f64_div_100 a * 10 ^ 2) (2 ^ 59) = a"
  proof (cases "a = 0")
    case False
    let ?k = "log2_floor (a * 128 div 100)"
    have e: "2 * \<bar>100 * int (f64_div_100 a) - int a * 2 ^ 59\<bar> \<le> 100 * 2 ^ ?k" and "?k \<le> 52"
      using f64_div_100_error [of a] False assms by auto
    have "(2 :: int) ^ ?k \<le> 2 ^ 52" using \<open>?k \<le> 52\<close> by (rule power_increasing) simp
    with e have "2 * \<bar>100 * int (f64_div_100 a) - int a * 2 ^ 59\<bar> < 2 ^ 59" by simp
    then show ?thesis by (intro round_half_even_near) (simp_all add: mult.commute)
  qed (simp add: f64_div_100_def round_half_even_def)
  then show ?thesis by (simp add: f64_fixed_def)
qed

lemma f64_fixed_4_exact:
  assumes "a < 100"
  shows "f64_fixed 4 (f64_div_100 a) = ''0.'' @ zero_pad 4 (nat_str (100 * a))"
proof -
  have "round_half_even (f64_div_100 a * 10 ^ 4) (2 ^ 59) = 100 * a"
  proof (cases "a = 0")
    case False
    let ?k = "log2_floor (a * 128 div 100)"
    have e: "2 * \<bar>100 * int (f64_div_100 a) - int a * 2 ^ 59\<bar> \<le> 100 * 2 ^ ?k"
      using f64_div_100_error [of a] False assms by simp
    have "0 < a * 128 div 100" using False by (simp add: div_greater_zero_iff)
    then have "2 ^ ?k \<le> a * 128 div 100" by (rule log2_floor_le)
    then have "2 ^ ?k < (128 :: nat)" using assms by simp
    then have "(2 :: int) ^ ?k < 128" by (metis of_nat_less_iff of_nat_numeral of_nat_power)
    with e have "2 * (100 * \<bar>100 * int (f64_div_100 a) - int a * 2 ^ 59\<bar>) < 2 ^ 59" by simp
    then have "2 * \<bar>100 * (100 * int (f64_div_100 a) - int a * 2 ^ 59)\<bar> < 2 ^ 59" by (simp only: abs_mult)
    then show ?thesis by (intro round_half_even_near) (simp_all add: algebra_simps)
  qed (simp add: f64_div_100_def round_half_even_def)
  moreover have "100 * a div 10 ^ 4 = 0" "100 * a mod 10 ^ 4 = 100 * a" using assms by simp_all
  ultimately show ?thesis by (simp add: f64_fixed_def nat_str.simps [of 0] digit_char_def char_of_def bit_0)
qed

text \<open>The quotient is at least one exactly from a hundred hundredths on.\<close>

lemma f64_div_100_ge_1: "a < 2 ^ 52 \<Longrightarrow> 2 ^ 59 \<le> f64_div_100 a \<longleftrightarrow> 100 \<le> a"
proof -
  assume a: "a < 2 ^ 52"
  show ?thesis
  proof (cases "a = 0")
    case False
    let ?k = "log2_floor (a * 128 div 100)"
    have e: "2 * \<bar>100 * int (f64_div_100 a) - int a * 2 ^ 59\<bar> \<le> 100 * 2 ^ ?k" and "?k \<le> 52"
      using f64_div_100_error [of a] False a by auto
    have "(2 :: int) ^ ?k \<le> 2 ^ 52" using \<open>?k \<le> 52\<close> by (rule power_increasing) simp
    have below: "a < 100 \<Longrightarrow> f64_div_100 a < 2 ^ 59"
    proof -
      assume "a < 100"
      then have "int a * 2 ^ 59 \<le> 99 * 2 ^ 59" by simp
      with e \<open>2 ^ ?k \<le> 2 ^ 52\<close> have "int (f64_div_100 a) < 2 ^ 59" by (simp add: abs_if split: if_splits)
      then show ?thesis by simp
    qed
    have above: "2 ^ 59 \<le> f64_div_100 a" if "100 \<le> a"
    proof (cases "a = 100")
      case True
      have "log2_floor 128 = 7" by (simp add: log2_floor.simps)
      then show ?thesis by (simp add: True f64_div_100_def round_half_even_def Let_def)
    next
      case False
      with that have "101 * 2 ^ 59 \<le> int a * 2 ^ 59" by simp
      with e \<open>2 ^ ?k \<le> 2 ^ 52\<close> have "2 ^ 59 \<le> int (f64_div_100 a)" by (simp add: abs_if split: if_splits)
      then show ?thesis by simp
    qed
    show ?thesis using below above by (meson not_le)
  qed (simp add: f64_div_100_def)
qed

end
