(* ===== verification/Uniswap.thy ===== *)
theory Uniswap
  imports EthContracts EthProtocols FloatFmt
begin

text \<open>
  \<^verbatim>\<open>protocols/uniswap/contracts\<close> of the Ethereum chain parser: \<^verbatim>\<open>permit2.rs\<close> and \<^verbatim>\<open>universal_router.rs\<close>.
  The decoders that \<^verbatim>\<open>sol!\<close> generates and chrono's calendar are the record \<open>UniAbi\<close>. The registry a
  visualizer may be given is an option; symbols and amounts fall back to the raw address and number
  where it does not know the token.
\<close>

record PermitSingle =
  permit_token :: eth_address
  permit_amount :: "160 word"
  permit_expiration :: "48 word"
  permit_nonce :: "48 word"
  permit_spender :: eth_address
  permit_sig_deadline :: "256 word"

record UniAbi =
  p2_approve :: "bytes \<Rightarrow> (eth_address \<times> eth_address \<times> 160 word \<times> 48 word) option"
  p2_permit :: "bytes \<Rightarrow> (eth_address \<times> PermitSingle \<times> bytes) option"
  p2_permit_single :: "bytes \<Rightarrow> (string, PermitSingle) result"
  p2_transfer_from :: "bytes \<Rightarrow> (eth_address \<times> eth_address \<times> 160 word \<times> eth_address) option"
  ur_execute_deadline :: "bytes \<Rightarrow> (bytes \<times> bytes list \<times> 256 word) option"
  ur_execute :: "bytes \<Rightarrow> (bytes \<times> bytes list) option"
  ur_v3_swap :: "bytes \<Rightarrow> (eth_address \<times> 256 word \<times> 256 word \<times> bytes \<times> bool) option"
  ur_v2_in :: "bytes \<Rightarrow> (eth_address \<times> 256 word \<times> 256 word \<times> eth_address list \<times> eth_address) option"
  ur_v2_out :: "bytes \<Rightarrow> (256 word \<times> 256 word \<times> eth_address list \<times> eth_address) option"
  ur_pay_portion :: "bytes \<Rightarrow> (eth_address \<times> eth_address \<times> 256 word) option"
  ur_unwrap_weth :: "bytes \<Rightarrow> (eth_address \<times> 256 word) option"
  ur_wrap_eth :: "bytes \<Rightarrow> (eth_address \<times> 256 word) option"
  ur_sweep :: "bytes \<Rightarrow> (eth_address \<times> eth_address \<times> 256 word) option"
  ur_transfer :: "bytes \<Rightarrow> (eth_address \<times> eth_address \<times> 160 word) option"
  chrono_minutes :: "nat \<Rightarrow> string option"
  chrono_display :: "nat \<Rightarrow> string option"

section \<open>Tokens in text\<close>

text \<open>An unsigned integer of any width prints as its value.\<close>

definition show_uint :: "Alloy \<Rightarrow> 'w::len word \<Rightarrow> string" where
  "show_uint al w = al_show_u256 al (ucast w)"

definition token_symbol :: "Alloy \<Rightarrow> ContractRegistry option \<Rightarrow> u64 \<Rightarrow> eth_address \<Rightarrow> string" where
  "token_symbol al registry chain_id token =
     unwrap_or (al_debug_address al token) (Option.bind registry (\<lambda>r. get_token_symbol r chain_id token))"

definition token_amount :: "Alloy \<Rightarrow> ContractRegistry option \<Rightarrow> u64 \<Rightarrow> eth_address \<Rightarrow> 256 word \<Rightarrow> string" where
  "token_amount al registry chain_id token amount =
     fst (unwrap_or (al_show_u256 al amount, token_symbol al registry chain_id token)
       (Option.bind registry (\<lambda>r. format_token_amount_u256 (al_format_decimals al) r chain_id token amount)))"

section \<open>Permit2\<close>

definition format_unix_timestamp_seconds_u64 :: "UniAbi \<Rightarrow> u64 \<Rightarrow> string" where
  "format_unix_timestamp_seconds_u64 uni value =
     (if value = -1 then ''never''
      else if unat value \<ge> 2 ^ 63 then ''unix:'' @ nat_str (unat value)
      else case chrono_minutes uni (unat value) of
             Some s \<Rightarrow> s
           | None \<Rightarrow> ''unix:'' @ nat_str (unat value))"

definition decode_custom_permit_params :: "UniAbi \<Rightarrow> bytes \<Rightarrow> (string, PermitSingle) result" where
  "decode_custom_permit_params uni bs =
     (if length bs < 192 then Inl ''bytes too short for PermitSingle (need 192 bytes minimum)''
      else map_err (\<lambda>e. ''Failed to decode PermitSingle: '' @ e) (p2_permit_single uni (take 192 bs)))"

definition expiration_text :: "Alloy \<Rightarrow> UniAbi \<Rightarrow> 48 word \<Rightarrow> string" where
  "expiration_text al uni expiration =
     format_unix_timestamp_seconds_u64 uni (of_nat (unwrap_or 0 (parse_unsigned 64 (show_uint al expiration))))"

definition permit2_decode_approve ::
  "Alloy \<Rightarrow> UniAbi \<Rightarrow> u64 \<Rightarrow> ContractRegistry option \<Rightarrow> eth_address \<times> eth_address \<times> 160 word \<times> 48 word \<Rightarrow> SignablePayloadField" where
  "permit2_decode_approve al uni chain_id registry call =
     (case call of (token, spender, amount, expiration) \<Rightarrow>
       (let symbol = token_symbol al registry chain_id token
        in text_field ''Permit2 Approve''
             (''Approve '' @ al_show_address al spender @ '' '' @ token_amount al registry chain_id token (ucast amount)
               @ '' '' @ symbol @ '' to spend '' @ symbol @ '' (expires: '' @ expiration_text al uni expiration @ '')'')))"

definition sig_deadline_text :: "Alloy \<Rightarrow> UniAbi \<Rightarrow> 256 word \<Rightarrow> string" where
  "sig_deadline_text al uni deadline =
     (if unat deadline < 2 ^ 64 then format_unix_timestamp_seconds_u64 uni (ucast deadline)
      else ''unix:'' @ al_show_u256 al deadline)"

definition permit2_decode_permit ::
  "Alloy \<Rightarrow> UniAbi \<Rightarrow> u64 \<Rightarrow> ContractRegistry option \<Rightarrow> eth_address \<times> PermitSingle \<times> bytes \<Rightarrow> SignablePayloadField" where
  "permit2_decode_permit al uni chain_id registry call =
     (case call of (owner, permit, signature) \<Rightarrow>
       (let token = permit_token permit; amount = permit_amount permit;
            amount_str = token_amount al registry chain_id token (ucast amount);
            expiration_str = expiration_text al uni (permit_expiration permit);
            sig_deadline_str = sig_deadline_text al uni (permit_sig_deadline permit);
            amount_display = (if amount = -1 then ''Unlimited Amount'' else amount_str);
            token_lowercase = to_lowercase (al_show_address al token)
        in preview ''Permit2 Permit''
             (''Permit '' @ al_show_address al (permit_spender permit) @ '' to spend '' @ amount_display @ '' of '' @ token_lowercase)
             (Some [text_row ''Token'' token_lowercase, text_row ''Amount'' (show_uint al amount),
                text_row ''Spender'' (to_lowercase (al_show_address al (permit_spender permit))),
                text_row ''Expires'' expiration_str, text_row ''Sig Deadline'' sig_deadline_str])))"

definition permit2_decode_transfer_from ::
  "Alloy \<Rightarrow> u64 \<Rightarrow> ContractRegistry option \<Rightarrow> eth_address \<times> eth_address \<times> 160 word \<times> eth_address \<Rightarrow> SignablePayloadField" where
  "permit2_decode_transfer_from al chain_id registry call =
     (case call of (frm, to, amount, token) \<Rightarrow>
        text_field ''Permit2 Transfer''
          (''Transfer '' @ token_amount al registry chain_id token (ucast amount) @ '' '' @ token_symbol al registry chain_id token
            @ '' from '' @ al_show_address al frm @ '' to '' @ al_show_address al to))"

definition permit2_visualize ::
  "Alloy \<Rightarrow> UniAbi \<Rightarrow> bytes \<Rightarrow> u64 \<Rightarrow> ContractRegistry option \<Rightarrow> SignablePayloadField option" where
  "permit2_visualize al uni input chain_id registry =
     (if length input < 4 then None
      else case p2_approve uni input of
        Some call \<Rightarrow> Some (permit2_decode_approve al uni chain_id registry call)
      | None \<Rightarrow>
     (case p2_permit uni input of
        Some call \<Rightarrow> Some (permit2_decode_permit al uni chain_id registry call)
      | None \<Rightarrow>
     (case decode_custom_permit_params uni input of
        Inr params \<Rightarrow> Some (permit2_decode_permit al uni chain_id registry (replicate 20 0, params, []))
      | Inl _ \<Rightarrow> map_option (permit2_decode_transfer_from al chain_id registry) (p2_transfer_from uni input))))"

section \<open>Router commands\<close>

datatype Command =
    V3SwapExactIn | V3SwapExactOut | Permit2TransferFrom | Permit2PermitBatch | Sweep | Transfer | PayPortion
  | V2SwapExactIn | V2SwapExactOut | Permit2Permit | WrapEth | UnwrapWeth | Permit2TransferFromBatch | BalanceCheckErc20
  | V4Swap | V3PositionManagerPermit | V3PositionManagerCall | V4InitializePool | V4PositionManagerCall
  | ExecuteSubPlan

definition command_table :: "(byte \<times> Command \<times> string) list" where
  "command_table =
     [(0x00, V3SwapExactIn, ''V3SwapExactIn''), (0x01, V3SwapExactOut, ''V3SwapExactOut''),
      (0x02, Permit2TransferFrom, ''Permit2TransferFrom''), (0x03, Permit2PermitBatch, ''Permit2PermitBatch''),
      (0x04, Sweep, ''Sweep''), (0x05, Transfer, ''Transfer''), (0x06, PayPortion, ''PayPortion''),
      (0x08, V2SwapExactIn, ''V2SwapExactIn''), (0x09, V2SwapExactOut, ''V2SwapExactOut''),
      (0x0a, Permit2Permit, ''Permit2Permit''), (0x0b, WrapEth, ''WrapEth''), (0x0c, UnwrapWeth, ''UnwrapWeth''),
      (0x0d, Permit2TransferFromBatch, ''Permit2TransferFromBatch''), (0x0e, BalanceCheckErc20, ''BalanceCheckErc20''),
      (0x10, V4Swap, ''V4Swap''), (0x11, V3PositionManagerPermit, ''V3PositionManagerPermit''),
      (0x12, V3PositionManagerCall, ''V3PositionManagerCall''), (0x13, V4InitializePool, ''V4InitializePool''),
      (0x14, V4PositionManagerCall, ''V4PositionManagerCall''), (0x21, ExecuteSubPlan, ''ExecuteSubPlan'')]"

text \<open>The derived \<^verbatim>\<open>TryFromPrimitive\<close> and \<^verbatim>\<open>Debug\<close>.\<close>

definition command_try_from :: "byte \<Rightarrow> Command option" where
  "command_try_from b = map_option fst (map_of command_table b)"

definition command_debug :: "Command \<Rightarrow> string" where
  "command_debug c = (case find (\<lambda>(b, d, s). d = c) command_table of Some (b, d, s) \<Rightarrow> s | None \<Rightarrow> [])"

fun map_commands_from :: "nat \<Rightarrow> bytes \<Rightarrow> (nat \<times> Command) list" where
  "map_commands_from idx [] = []"
| "map_commands_from idx (b # bs) =
     (case command_try_from b of
        Some cmd \<Rightarrow> (idx, cmd) # map_commands_from (Suc idx) bs
      | None \<Rightarrow> map_commands_from (Suc idx) bs)"

definition map_commands :: "bytes \<Rightarrow> (nat \<times> Command) list" where
  "map_commands raw = map_commands_from 0 raw"

text \<open>A parameter decoder that failed: the raw bytes in the fallback text.\<close>

definition undecodable :: "Alloy \<Rightarrow> string \<Rightarrow> bytes \<Rightarrow> SignablePayloadField" where
  "undecodable al lbl bs =
     TextV2 \<lparr>fallback_text = lbl @ '': 0x'' @ al_hex_encode al bs, label = lbl\<rparr> \<lparr>text_v2_text = ''Failed to decode parameters''\<rparr>"

definition fee_of :: "bytes \<Rightarrow> u32" where
  "fee_of b = of_nat (65536 * unat (b ! 0) + 256 * unat (b ! 1) + unat (b ! 2))"

definition decode_v3_path :: "bytes \<Rightarrow> (eth_address \<times> eth_address \<times> u32 \<times> u32 \<times> nat) option" where
  "decode_v3_path path =
     (if length path < 43 \<or> (length path - 20) mod 23 \<noteq> 0 then None
      else let first_token = take 20 path; leading_fee = fee_of (drop 20 path);
               last_token_start = length path - 20; last_token = drop last_token_start path;
               trailing_fee = fee_of (drop (last_token_start - 3) path); hops = (length path - 20) div 23
           in Some (first_token, last_token, leading_fee, trailing_fee, hops))"

definition fee_pct :: "u32 \<Rightarrow> string" where
  "fee_pct fee = decimal_text 4 (unat fee)"

definition v3_via :: "nat \<Rightarrow> u32 \<Rightarrow> string" where
  "v3_via hops fee =
     (if hops = 1 then '' via V3 ('' @ fee_pct fee @ ''% fee)''
      else '' via V3 ('' @ nat_str hops @ '' hops, first fee '' @ fee_pct fee @ ''%)'')"

definition invalid_path :: "string \<Rightarrow> bytes \<Rightarrow> SignablePayloadField" where
  "invalid_path lbl path =
     TextV2 \<lparr>fallback_text = lbl @ '': Invalid path'', label = lbl\<rparr>
       \<lparr>text_v2_text = ''Path length: '' @ nat_str (length path) @ '' bytes (expected 20 + N*23)''\<rparr>"

definition decode_v3_swap_exact_in ::
  "Alloy \<Rightarrow> UniAbi \<Rightarrow> bytes \<Rightarrow> u64 \<Rightarrow> ContractRegistry option \<Rightarrow> SignablePayloadField" where
  "decode_v3_swap_exact_in al uni bs chain_id registry =
     (case ur_v3_swap uni bs of
        None \<Rightarrow> undecodable al ''V3 Swap Exact In'' bs
      | Some (recipient, amount_in, amount_out_min, path, payer_is_user) \<Rightarrow>
     (case decode_v3_path path of
        None \<Rightarrow> invalid_path ''V3 Swap Exact In'' path
      | Some (token_in, token_out, fee, trailing_fee, hops) \<Rightarrow>
          (let in_symbol = token_symbol al registry chain_id token_in; out_symbol = token_symbol al registry chain_id token_out;
               in_str = token_amount al registry chain_id token_in amount_in;
               min_str = token_amount al registry chain_id token_out amount_out_min
           in preview ''V3 Swap Exact In''
                (''Swap '' @ in_str @ '' '' @ in_symbol @ '' for >='' @ min_str @ '' '' @ out_symbol @ v3_via hops fee)
                (Some [text_row ''Input Token'' in_symbol, text_row ''Input Amount'' in_str,
                   text_row ''Output Token'' out_symbol, text_row ''Minimum Output'' (''>='' @ min_str),
                   text_row ''Fee Tier'' (fee_pct fee @ ''%'')]))))"

text \<open>An exact-output path is written backwards: its first token is the output, its trailing fee the first one paid.\<close>

definition decode_v3_swap_exact_out ::
  "Alloy \<Rightarrow> UniAbi \<Rightarrow> bytes \<Rightarrow> u64 \<Rightarrow> ContractRegistry option \<Rightarrow> SignablePayloadField" where
  "decode_v3_swap_exact_out al uni bs chain_id registry =
     (case ur_v3_swap uni bs of
        None \<Rightarrow> undecodable al ''V3 Swap Exact Out'' bs
      | Some (recipient, amount_out, amount_in_max, path, payer_is_user) \<Rightarrow>
     (case decode_v3_path path of
        None \<Rightarrow> invalid_path ''V3 Swap Exact Out'' path
      | Some (token_out, token_in, leading_fee, fee, hops) \<Rightarrow>
          (let in_symbol = token_symbol al registry chain_id token_in; out_symbol = token_symbol al registry chain_id token_out;
               out_str = token_amount al registry chain_id token_out amount_out;
               max_str = token_amount al registry chain_id token_in amount_in_max
           in preview ''V3 Swap Exact Out''
                (''Swap <='' @ max_str @ '' '' @ in_symbol @ '' for '' @ out_str @ '' '' @ out_symbol @ v3_via hops fee)
                (Some [text_row ''Input Token'' in_symbol, text_row ''Maximum Input'' (''<='' @ max_str),
                   text_row ''Output Token'' out_symbol, text_row ''Output Amount'' out_str,
                   text_row ''Fee Tier'' (fee_pct fee @ ''%'')]))))"

definition empty_path :: "string \<Rightarrow> SignablePayloadField" where
  "empty_path lbl =
     TextV2 \<lparr>fallback_text = lbl @ '': Empty path'', label = lbl\<rparr> \<lparr>text_v2_text = ''Swap path is empty''\<rparr>"

definition decode_v2_swap_exact_in ::
  "Alloy \<Rightarrow> UniAbi \<Rightarrow> bytes \<Rightarrow> u64 \<Rightarrow> ContractRegistry option \<Rightarrow> SignablePayloadField" where
  "decode_v2_swap_exact_in al uni bs chain_id registry =
     (case ur_v2_in uni bs of
        None \<Rightarrow> undecodable al ''V2 Swap Exact In'' bs
      | Some (recipient, amount_in, amount_out_minimum, path, payer) \<Rightarrow>
          if path = [] then empty_path ''V2 Swap Exact In''
          else
          (let token_in = hd path; token_out = last path;
               in_symbol = token_symbol al registry chain_id token_in; out_symbol = token_symbol al registry chain_id token_out;
               in_str = token_amount al registry chain_id token_in amount_in;
               min_str = token_amount al registry chain_id token_out amount_out_minimum;
               hops = nat_str (length path - 1)
           in preview ''V2 Swap Exact In''
                (''Swap '' @ in_str @ '' '' @ in_symbol @ '' for >='' @ min_str @ '' '' @ out_symbol @ '' via V2 ('' @ hops @ '' hops)'')
                (Some [text_row ''Input Token'' in_symbol, text_row ''Input Amount'' in_str,
                   text_row ''Output Token'' out_symbol, text_row ''Minimum Output'' (''>='' @ min_str),
                   text_row ''Hops'' hops])))"

definition decode_v2_swap_exact_out ::
  "Alloy \<Rightarrow> UniAbi \<Rightarrow> bytes \<Rightarrow> u64 \<Rightarrow> ContractRegistry option \<Rightarrow> SignablePayloadField" where
  "decode_v2_swap_exact_out al uni bs chain_id registry =
     (case ur_v2_out uni bs of
        None \<Rightarrow> undecodable al ''V2 Swap Exact Out'' bs
      | Some (amount_out, amount_in_maximum, path, recipient) \<Rightarrow>
          if path = [] then empty_path ''V2 Swap Exact Out''
          else
          (let token_in = hd path; token_out = last path;
               in_symbol = token_symbol al registry chain_id token_in; out_symbol = token_symbol al registry chain_id token_out;
               out_str = token_amount al registry chain_id token_out amount_out;
               max_str = token_amount al registry chain_id token_in amount_in_maximum;
               hops = nat_str (length path - 1)
           in preview ''V2 Swap Exact Out''
                (''Swap <='' @ max_str @ '' '' @ in_symbol @ '' for '' @ out_str @ '' '' @ out_symbol @ '' via V2 ('' @ hops @ '' hops)'')
                (Some [text_row ''Input Token'' in_symbol, text_row ''Maximum Input'' (''<='' @ max_str),
                   text_row ''Output Token'' out_symbol, text_row ''Output Amount'' out_str,
                   text_row ''Hops'' hops])))"

definition percentage_str :: "Alloy \<Rightarrow> 256 word \<Rightarrow> string" where
  "percentage_str al bips =
     (if unat bips < 2 ^ 128
      then let bips_pct = f64_div_100 (f64_of_u128 (unat bips))
           in if bips_pct \<ge> 2 ^ 59 then f64_fixed 2 bips_pct @ ''%'' else f64_fixed 4 bips_pct @ ''%''
      else al_show_u256 al bips @ '' bips (raw)'')"

definition decode_pay_portion ::
  "Alloy \<Rightarrow> UniAbi \<Rightarrow> bytes \<Rightarrow> u64 \<Rightarrow> ContractRegistry option \<Rightarrow> SignablePayloadField" where
  "decode_pay_portion al uni bs chain_id registry =
     (case ur_pay_portion uni bs of
        None \<Rightarrow> undecodable al ''Pay Portion'' bs
      | Some (token, recipient, bips) \<Rightarrow>
          (let symbol = token_symbol al registry chain_id token
           in preview ''Pay Portion''
                (''Pay '' @ percentage_str al bips @ '' of '' @ symbol @ '' to '' @ al_show_address al recipient)
                (Some [text_row ''Token'' symbol, text_row ''Percentage'' (percentage_str al bips),
                   text_row ''Recipient'' (al_debug_address al recipient)])))"

definition weth_amount ::
  "Alloy \<Rightarrow> ContractRegistry option \<Rightarrow> u64 \<Rightarrow> 256 word \<Rightarrow> string option" where
  "weth_amount al registry chain_id amount =
     Option.bind (weth_address (al_parse_address al) chain_id) (\<lambda>weth_addr.
       Option.bind registry (\<lambda>r. map_option fst (format_token_amount_u256 (al_format_decimals al) r chain_id weth_addr amount)))"

definition decode_unwrap_weth ::
  "Alloy \<Rightarrow> UniAbi \<Rightarrow> bytes \<Rightarrow> u64 \<Rightarrow> ContractRegistry option \<Rightarrow> SignablePayloadField" where
  "decode_unwrap_weth al uni bs chain_id registry =
     (case ur_unwrap_weth uni bs of
        None \<Rightarrow> undecodable al ''Unwrap WETH'' bs
      | Some (recipient, amount_minimum) \<Rightarrow>
          (let min_str = unwrap_or (al_show_u256 al amount_minimum) (weth_amount al registry chain_id amount_minimum)
           in preview ''Unwrap WETH''
                (''Unwrap >='' @ min_str @ '' WETH to ETH for '' @ al_show_address al recipient)
                (Some [annotate_field (TextV2 \<lparr>fallback_text = min_str, label = ''Minimum Amount''\<rparr>
                   \<lparr>text_v2_text = ''>='' @ min_str @ '' WETH''\<rparr>),
                   text_row ''Recipient'' (al_debug_address al recipient)])))"

definition decode_wrap_eth ::
  "Alloy \<Rightarrow> UniAbi \<Rightarrow> bytes \<Rightarrow> u64 \<Rightarrow> ContractRegistry option \<Rightarrow> SignablePayloadField" where
  "decode_wrap_eth al uni bs chain_id registry =
     (case ur_wrap_eth uni bs of
        None \<Rightarrow> undecodable al ''Wrap ETH'' bs
      | Some (recipient, amount_min) \<Rightarrow>
          text_field ''Wrap ETH''
            (''Wrap >='' @ unwrap_or (format_ether al amount_min) (weth_amount al registry chain_id amount_min) @ '' ETH to WETH''))"

definition decode_sweep ::
  "Alloy \<Rightarrow> UniAbi \<Rightarrow> bytes \<Rightarrow> u64 \<Rightarrow> ContractRegistry option \<Rightarrow> SignablePayloadField" where
  "decode_sweep al uni bs chain_id registry =
     (case ur_sweep uni bs of
        None \<Rightarrow> undecodable al ''Sweep'' bs
      | Some (token, recipient, amount_minimum) \<Rightarrow>
          text_field ''Sweep''
            (''Sweep >='' @ token_amount al registry chain_id token amount_minimum @ '' ''
              @ token_symbol al registry chain_id token @ '' to '' @ al_debug_address al recipient))"

definition decode_transfer :: "Alloy \<Rightarrow> UniAbi \<Rightarrow> bytes \<Rightarrow> SignablePayloadField" where
  "decode_transfer al uni bs =
     (case ur_transfer uni bs of
        None \<Rightarrow> undecodable al ''Transfer'' bs
      | Some (frm, to, amount) \<Rightarrow>
          text_field ''Transfer''
            (''Transfer '' @ show_uint al amount @ '' tokens from '' @ al_debug_address al frm @ '' to '' @ al_debug_address al to))"

definition decode_permit2_transfer_from ::
  "Alloy \<Rightarrow> UniAbi \<Rightarrow> bytes \<Rightarrow> u64 \<Rightarrow> ContractRegistry option \<Rightarrow> SignablePayloadField" where
  "decode_permit2_transfer_from al uni bs chain_id registry =
     unwrap_or (undecodable al ''Permit2 Transfer From'' bs) (permit2_visualize al uni bs chain_id registry)"

fun chunks_32 :: "bytes \<Rightarrow> bytes list" where
  "chunks_32 bs = (if bs = [] then [] else take 32 bs # chunks_32 (drop 32 bs))"

declare chunks_32.simps [simp del]

definition show_decode_error :: "Alloy \<Rightarrow> bytes \<Rightarrow> string \<Rightarrow> SignablePayloadField" where
  "show_decode_error al bs err =
     PreviewLayout \<lparr>fallback_text = ''0x'' @ al_hex_encode al bs, label = ''Permit2 Permit''\<rparr>
       (PreviewLayoutData (Some \<lparr>text_v2_text = ''Permit2 Permit (Failed to Decode)''\<rparr>)
          (Some \<lparr>text_v2_text = ''Error: '' @ err @ '', Length: '' @ nat_str (length bs) @ '' bytes''\<rparr>) None
          (Some (ListLayoutData (map (\<lambda>(i, chunk). text_row (''Slot '' @ nat_str i) (''0x'' @ al_hex_encode al chunk))
             (enumerate 0 (chunks_32 bs))))))"

definition decode_permit2_permit ::
  "Alloy \<Rightarrow> UniAbi \<Rightarrow> bytes \<Rightarrow> u64 \<Rightarrow> ContractRegistry option \<Rightarrow> SignablePayloadField" where
  "decode_permit2_permit al uni bs chain_id registry =
     unwrap_or (show_decode_error al bs ''Failed to decode parameters'') (permit2_visualize al uni bs chain_id registry)"

section \<open>The router\<close>

definition command_field ::
  "Alloy \<Rightarrow> UniAbi \<Rightarrow> u64 \<Rightarrow> ContractRegistry option \<Rightarrow> Command \<Rightarrow> bytes option \<Rightarrow> SignablePayloadField" where
  "command_field al uni chain_id registry cmd input_bytes =
     (case input_bytes of
        Some bs \<Rightarrow>
          (case cmd of
             V3SwapExactIn \<Rightarrow> decode_v3_swap_exact_in al uni bs chain_id registry
           | V3SwapExactOut \<Rightarrow> decode_v3_swap_exact_out al uni bs chain_id registry
           | V2SwapExactIn \<Rightarrow> decode_v2_swap_exact_in al uni bs chain_id registry
           | V2SwapExactOut \<Rightarrow> decode_v2_swap_exact_out al uni bs chain_id registry
           | PayPortion \<Rightarrow> decode_pay_portion al uni bs chain_id registry
           | WrapEth \<Rightarrow> decode_wrap_eth al uni bs chain_id registry
           | UnwrapWeth \<Rightarrow> decode_unwrap_weth al uni bs chain_id registry
           | Sweep \<Rightarrow> decode_sweep al uni bs chain_id registry
           | Transfer \<Rightarrow> decode_transfer al uni bs
           | Permit2TransferFrom \<Rightarrow> decode_permit2_transfer_from al uni bs chain_id registry
           | Permit2Permit \<Rightarrow> decode_permit2_permit al uni bs chain_id registry
           | _ \<Rightarrow>
               TextV2 \<lparr>fallback_text = command_debug cmd @ '' input: 0x'' @ al_hex_encode al bs, label = command_debug cmd\<rparr>
                 \<lparr>text_v2_text = ''Input: 0x'' @ al_hex_encode al bs\<rparr>)
      | None \<Rightarrow>
          TextV2 \<lparr>fallback_text = command_debug cmd @ '' input: None'', label = command_debug cmd\<rparr>
            \<lparr>text_v2_text = ''Input: None''\<rparr>)"

definition wrap_command :: "nat \<Rightarrow> SignablePayloadField \<Rightarrow> SignablePayloadField" where
  "wrap_command display_idx field =
     (case field of
        TextV2 common t \<Rightarrow>
          PreviewLayout \<lparr>fallback_text = fallback_text common, label = ''Command '' @ nat_str (display_idx + 1)\<rparr>
            (PreviewLayoutData (Some \<lparr>text_v2_text = label common\<rparr>) (Some t) None None)
      | _ \<Rightarrow> field)"

definition command_rows ::
  "Alloy \<Rightarrow> UniAbi \<Rightarrow> bytes \<Rightarrow> bytes list \<Rightarrow> u64 \<Rightarrow> ContractRegistry option \<Rightarrow> SignablePayloadField list" where
  "command_rows al uni commands inputs chain_id registry =
     map (\<lambda>(display_idx, raw_idx, cmd).
         wrap_command display_idx (command_field al uni chain_id registry cmd (get_at inputs raw_idx)))
       (enumerate 0 (map_commands commands))"

definition visualize_commands ::
  "Alloy \<Rightarrow> UniAbi \<Rightarrow> bytes \<Rightarrow> bytes list \<Rightarrow> string option \<Rightarrow> u64 \<Rightarrow> ContractRegistry option \<Rightarrow> SignablePayloadField option" where
  "visualize_commands al uni commands inputs deadline chain_id registry =
     (let mapped_cmds = map snd (map_commands commands); n = nat_str (length mapped_cmds);
          debug = ''['' @ join '', '' (map command_debug mapped_cmds) @ '']'';
          suffix = (case deadline of Some dl \<Rightarrow> '', deadline '' @ dl | None \<Rightarrow> []);
          detail_fields = command_rows al uni commands inputs chain_id registry
            @ (case deadline of Some dl \<Rightarrow> [text_field ''Deadline'' dl] | None \<Rightarrow> [])
      in Some (PreviewLayout
           \<lparr>fallback_text = ''Uniswap Universal Router Execute: '' @ n @ '' commands ('' @ debug @ '')'' @ suffix, label = ''Universal Router''\<rparr>
           (PreviewLayoutData (Some \<lparr>text_v2_text = ''Uniswap Universal Router Execute''\<rparr>)
              (Some \<lparr>text_v2_text = n @ '' commands'' @ suffix\<rparr>) None
              (Some (ListLayoutData (map annotate_field detail_fields))))))"

definition router_visualize ::
  "Alloy \<Rightarrow> UniAbi \<Rightarrow> bytes \<Rightarrow> u64 \<Rightarrow> ContractRegistry option \<Rightarrow> SignablePayloadField option" where
  "router_visualize al uni input chain_id registry =
     (if length input < 4 then None
      else case ur_execute_deadline uni input of
        Some (commands, inputs, deadline) \<Rightarrow>
          if unat deadline \<ge> 2 ^ 63 then None
          else visualize_commands al uni commands inputs
                 (if unat deadline > 0 then chrono_display uni (unat deadline) else None) chain_id registry
      | None \<Rightarrow>
     (case ur_execute uni input of
        Some (commands, inputs) \<Rightarrow> visualize_commands al uni commands inputs None chain_id registry
      | None \<Rightarrow> None))"

section \<open>Facts\<close>

text \<open>The specification of the mapping: the known commands with their positions.\<close>

lemma map_commands_from_eq:
  "map_commands_from k raw =
     map (\<lambda>i. (k + i, the (command_try_from (raw ! i)))) (filter (\<lambda>i. command_try_from (raw ! i) \<noteq> None) [0..<length raw])"
proof (induction k raw rule: map_commands_from.induct)
  case (2 k b bs)
  have "[0..<length (b # bs)] = 0 # map Suc [0..<length bs]" by (simp add: upt_conv_Cons map_Suc_upt del: upt_Suc)
  with 2 show ?case by (simp add: filter_map o_def split: option.split)
qed simp

lemma nth_filter_upt:
  assumes "r < n" and "P r"
  shows "length (filter P [0..<r]) < length (filter P [0..<n]) \<and> filter P [0..<n] ! length (filter P [0..<r]) = r"
proof -
  have "[0..<n] = [0..<r] @ r # [Suc r..<n]" using assms(1) by (metis less_imp_le_nat upt_add_eq_append upt_conv_Cons zero_less_iff_neq_zero le0 le_add_diff_inverse)
  then show ?thesis using assms(2) by simp
qed

definition known_before :: "bytes \<Rightarrow> nat \<Rightarrow> nat" where
  "known_before commands r = length (filter (\<lambda>i. command_try_from (commands ! i) \<noteq> None) [0..<r])"

lemma length_command_rows:
  "length (command_rows al uni commands inputs chain_id registry) = known_before commands (length commands)"
  by (simp add: command_rows_def map_commands_def map_commands_from_eq known_before_def)

lemma command_rows_nth:
  assumes "r < length commands" and "command_try_from (commands ! r) = Some cmd"
  shows "known_before commands r < length (command_rows al uni commands inputs chain_id registry)"
    and "command_rows al uni commands inputs chain_id registry ! known_before commands r =
      wrap_command (known_before commands r) (command_field al uni chain_id registry cmd (get_at inputs r))"
proof -
  let ?P = "\<lambda>i. command_try_from (commands ! i) \<noteq> None"
  have n: "known_before commands r < length (filter ?P [0..<length commands])"
    "filter ?P [0..<length commands] ! known_before commands r = r"
    using nth_filter_upt [of r "length commands" ?P] assms by (auto simp: known_before_def)
  then show "known_before commands r < length (command_rows al uni commands inputs chain_id registry)"
    by (simp add: length_command_rows) (simp add: known_before_def)
  from n show "command_rows al uni commands inputs chain_id registry ! known_before commands r =
      wrap_command (known_before commands r) (command_field al uni chain_id registry cmd (get_at inputs r))"
    by (simp add: command_rows_def map_commands_def map_commands_from_eq nth_enumerate_eq assms(2))
qed

text \<open>The allow-revert bit turns a known command into a byte that is not shown.\<close>

lemma allow_revert_not_shown: "command_try_from 0x84 = None" "command_try_from 0x04 = Some Sweep"
  by (simp_all add: command_try_from_def command_table_def)

section \<open>Paths\<close>

text \<open>A path as the contracts write it: token and three-byte fee of every hop, then the last token.\<close>

definition fee_bytes :: "nat \<Rightarrow> bytes" where
  "fee_bytes n = [of_nat (n div 65536), of_nat (n div 256 mod 256), of_nat (n mod 256)]"

definition v3_path :: "(eth_address \<times> nat) list \<Rightarrow> eth_address \<Rightarrow> bytes" where
  "v3_path hops final = concat (map (\<lambda>(t, n). t @ fee_bytes n) hops) @ final"

definition v3_hops_ok :: "(eth_address \<times> nat) list \<Rightarrow> bool" where
  "v3_hops_ok hops \<longleftrightarrow> hops \<noteq> [] \<and> (\<forall>h\<in>set hops. length (fst h) = 20 \<and> snd h < 2 ^ 24)"

lemma unat_of_nat_byte: "n < 256 \<Longrightarrow> unat (of_nat n :: byte) = n"
  by (simp add: unat_of_nat)

lemma fee_of_fee_bytes: "n < 2 ^ 24 \<Longrightarrow> fee_of (fee_bytes n @ r) = of_nat n"
proof -
  assume n: "n < 2 ^ 24"
  then have "n div 65536 < 256" by simp
  then have "65536 * unat (of_nat (n div 65536) :: byte) + 256 * unat (of_nat (n div 256 mod 256) :: byte)
      + unat (of_nat (n mod 256) :: byte) = 65536 * (n div 65536) + 256 * (n div 256 mod 256) + n mod 256"
    by (simp only: unat_of_nat_byte mod_less_divisor zero_less_numeral)
  also have "\<dots> = 256 * (256 * (n div 256 div 256) + n div 256 mod 256) + n mod 256"
    by (simp add: algebra_simps flip: div_mult2_eq)
  also have "\<dots> = n" by (simp only: mult_div_mod_eq)
  finally show ?thesis by (simp add: fee_of_def fee_bytes_def)
qed

lemma fee_of_bytes:
  assumes "length f = 3"
  shows "fee_bytes (unat (fee_of f)) = f" and "unat (fee_of f) < 2 ^ 24"
proof -
  obtain a b c where f: "f = [a, b, c]" using assms by (auto simp: numeral_3_eq_3 length_Suc_conv)
  have less: "unat a < 256" "unat b < 256" "unat c < 256" by (rule unat_byte_less)+
  define n where "n = 65536 * unat a + 256 * unat b + unat c"
  have "n < 2 ^ 24" using less by (simp add: n_def)
  then have u: "unat (fee_of f) = n" by (simp add: f fee_of_def unat_of_nat flip: n_def)
  then show "unat (fee_of f) < 2 ^ 24" using \<open>n < 2 ^ 24\<close> by simp
  have n: "n = (256 * unat a + unat b) * 256 + unat c" by (simp add: n_def)
  have "n mod 256 = unat c" unfolding n mod_mult_self3 using less by simp
  moreover have "n div 256 = 256 * unat a + unat b" using less unfolding n by simp
  moreover have "n div 65536 = n div 256 div 256" by (simp flip: div_mult2_eq)
  ultimately have "n div 65536 = unat a" "n div 256 mod 256 = unat b" "n mod 256 = unat c" using less by simp_all
  then show "fee_bytes (unat (fee_of f)) = f" unfolding u by (simp add: fee_bytes_def f)
qed

lemma length_v3_path:
  "v3_hops_ok hops \<Longrightarrow> length final = 20 \<Longrightarrow> length (v3_path hops final) = 20 + 23 * length hops"
proof -
  have "\<forall>h\<in>set hops. length (fst h) = 20 \<Longrightarrow> length (concat (map (\<lambda>(t, n). t @ fee_bytes n) hops)) = 23 * length hops"
    by (induction hops) (auto simp: fee_bytes_def)
  then show "v3_hops_ok hops \<Longrightarrow> length final = 20 \<Longrightarrow> ?thesis"
    by (fastforce simp: v3_hops_ok_def v3_path_def)
qed

lemma v3_path_ends:
  assumes "v3_hops_ok hops"
  shows "\<exists>r. v3_path hops final = fst (hd hops) @ fee_bytes (snd (hd hops)) @ r"
    and "\<exists>r. v3_path hops final = r @ fee_bytes (snd (last hops)) @ final"
proof -
  from assms obtain t n hs where "hops = (t, n) # hs" by (cases hops) (auto simp: v3_hops_ok_def)
  then show "\<exists>r. v3_path hops final = fst (hd hops) @ fee_bytes (snd (hd hops)) @ r" by (simp add: v3_path_def)
  from assms obtain hs t n where "hops = hs @ [(t, n)]" by (cases hops rule: rev_cases) (auto simp: v3_hops_ok_def)
  then show "\<exists>r. v3_path hops final = r @ fee_bytes (snd (last hops)) @ final"
    by (auto simp: v3_path_def intro: exI [of _ "concat (map (\<lambda>(t, n). t @ fee_bytes n) hs) @ t"])
qed

lemma decode_v3_path_v3_path:
  assumes ok: "v3_hops_ok hops" and "length final = 20"
  shows "decode_v3_path (v3_path hops final) =
    Some (fst (hd hops), final, of_nat (snd (hd hops)), of_nat (snd (last hops)), length hops)"
proof -
  let ?p = "v3_path hops final"
  have len: "length ?p = 20 + 23 * length hops" by (rule length_v3_path [OF assms])
  have pos: "0 < length hops" using ok by (auto simp: v3_hops_ok_def)
  have h: "length (fst (hd hops)) = 20" "snd (hd hops) < 2 ^ 24" "snd (last hops) < 2 ^ 24"
    using ok hd_in_set [of hops] last_in_set [of hops] by (auto simp: v3_hops_ok_def)
  from v3_path_ends(1) [OF ok] obtain r where r: "?p = fst (hd hops) @ fee_bytes (snd (hd hops)) @ r" by blast
  from v3_path_ends(2) [OF ok] obtain q where q: "?p = q @ fee_bytes (snd (last hops)) @ final" by blast
  have first: "take 20 ?p = fst (hd hops)" "drop 20 ?p = fee_bytes (snd (hd hops)) @ r" unfolding r using h(1) by simp_all
  have ql: "length q + 3 = length ?p - 20" unfolding q using assms(2) by (simp add: fee_bytes_def)
  have "drop (length q + 3) ?p = final" "drop (length q) ?p = fee_bytes (snd (last hops)) @ final"
    unfolding q by (simp_all add: fee_bytes_def)
  moreover have "length ?p - 20 - 3 = length q" using ql by simp
  ultimately have final: "drop (length ?p - 20) ?p = final"
    "drop (length ?p - 20 - 3) ?p = fee_bytes (snd (last hops)) @ final"
    using ql by simp_all
  show ?thesis
    unfolding decode_v3_path_def Let_def first final fee_of_fee_bytes [OF h(2)] fee_of_fee_bytes [OF h(3)]
    using len pos by simp
qed

lemma v3_path_exists:
  "length p = 20 + 23 * Suc n \<Longrightarrow> \<exists>hops final. v3_hops_ok hops \<and> length final = 20 \<and> p = v3_path hops final"
proof (induction n arbitrary: p)
  case (Suc n)
  let ?t = "take 20 p" and ?f = "take 3 (drop 20 p)" and ?r = "drop 3 (drop 20 p)"
  have p: "p = ?t @ ?f @ ?r" by (simp only: append_take_drop_id)
  have f: "length ?f = 3" using Suc.prems by simp
  from Suc.IH [of ?r] Suc.prems obtain hops final where "v3_hops_ok hops" "length final = 20" "?r = v3_path hops final"
    by auto
  with p fee_of_bytes [OF f] Suc.prems show ?case
    by (intro exI [of _ "(?t, unat (fee_of ?f)) # hops"] exI [of _ final]) (auto simp: v3_hops_ok_def v3_path_def)
next
  case 0
  let ?t = "take 20 p" and ?f = "take 3 (drop 20 p)" and ?r = "drop 3 (drop 20 p)"
  have p: "p = ?t @ ?f @ ?r" by (simp only: append_take_drop_id)
  have f: "length ?f = 3" using "0.prems" by simp
  with p fee_of_bytes [OF f] "0.prems" show ?case
    by (intro exI [of _ "[(?t, unat (fee_of ?f))]"] exI [of _ ?r]) (auto simp: v3_hops_ok_def v3_path_def)
qed

section \<open>Properties\<close>

text \<open>C30: the router's rows follow the chain's dispatcher. Every command byte the parser knows has its own row,
  counted among the known bytes before it, and the row is decoded from the input at the byte's own position
  in the command string, whatever unknown bytes stand between; the deadline is the only other row.\<close>

theorem router_rows_aligned:
  assumes "visualize_commands al uni commands inputs deadline chain_id registry = Some field"
    and "r < length commands" and "command_try_from (commands ! r) = Some cmd"
  shows "\<exists>common title subtitle rows.
    field = PreviewLayout common (PreviewLayoutData title subtitle None (Some (ListLayoutData rows)))
    \<and> length rows = known_before commands (length commands) + (if deadline = None then 0 else 1)
    \<and> known_before commands r < length rows
    \<and> signable_payload_field (rows ! known_before commands r) =
        wrap_command (known_before commands r) (command_field al uni chain_id registry cmd (get_at inputs r))"
proof -
  let ?rows = "command_rows al uni commands inputs chain_id registry"
  let ?dl = "case deadline of Some dl \<Rightarrow> [text_field ''Deadline'' dl] | None \<Rightarrow> []"
  obtain common title subtitle where
    "field = PreviewLayout common (PreviewLayoutData title subtitle None (Some (ListLayoutData (map annotate_field (?rows @ ?dl)))))"
    using assms(1) by (auto simp: visualize_commands_def Let_def)
  moreover note command_rows_nth [OF assms(2,3), of al uni inputs chain_id registry]
  moreover have "length ?dl = (if deadline = None then 0 else 1)" by (simp split: option.split)
  ultimately show ?thesis
    by (auto simp: length_command_rows nth_append annotate_field_def)
qed

definition sample_uni :: UniAbi where
  "sample_uni =
     \<lparr>p2_approve = (\<lambda>_. None), p2_permit = (\<lambda>_. None), p2_permit_single = (\<lambda>_. Inl ''short''),
      p2_transfer_from = (\<lambda>_. None), ur_execute_deadline = (\<lambda>_. None), ur_execute = (\<lambda>bs. Some (bs, [])),
      ur_v3_swap = (\<lambda>_. None), ur_v2_in = (\<lambda>_. None), ur_v2_out = (\<lambda>_. None), ur_pay_portion = (\<lambda>_. None),
      ur_unwrap_weth = (\<lambda>_. None), ur_wrap_eth = (\<lambda>_. None), ur_sweep = (\<lambda>_. Some ([1], [2], 5)),
      ur_transfer = (\<lambda>_. None), chrono_minutes = (\<lambda>_. None), chrono_display = (\<lambda>_. None)\<rparr>"

text \<open>An unknown byte in front: the sweep keeps its own input.\<close>

theorem router_rows_aligned_witness:
  "\<exists>common title subtitle rows. visualize_commands sample_alloy sample_uni [0x84, 0x04] [[1], [2]] None 1 None
      = Some (PreviewLayout common (PreviewLayoutData title subtitle None (Some (ListLayoutData rows))))
    \<and> signable_payload_field (rows ! 0) = wrap_command 0 (decode_sweep sample_alloy sample_uni [2] 1 None)"
proof -
  obtain field where f: "visualize_commands sample_alloy sample_uni [0x84, 0x04] [[1], [2]] None 1 None = Some field"
    by (simp add: visualize_commands_def Let_def)
  have "known_before [0x84, 0x04] 1 = 0" by (simp add: known_before_def allow_revert_not_shown)
  with router_rows_aligned [OF f, of 1 Sweep] f show ?thesis
    by (auto simp: allow_revert_not_shown command_field_def get_at_def)
qed

text \<open>A V3 path is accepted exactly when it is token and three-byte fee hops followed by a token, and then the
  first and last token, the first and last fee and the number of hops are read off, for any number of
  hops.\<close>

lemma v3_path_exact:
  assumes "v3_hops_ok hops" and "length final = 20"
  shows "decode_v3_path (v3_path hops final) =
      Some (fst (hd hops), final, of_nat (snd (hd hops)), of_nat (snd (last hops)), length hops)
    \<and> (decode_v3_path p \<noteq> None \<longleftrightarrow> (\<exists>hs l. v3_hops_ok hs \<and> length l = 20 \<and> p = v3_path hs l))"
proof (intro conjI iffI)
  assume "decode_v3_path p \<noteq> None"
  then have "43 \<le> length p" "(length p - 20) mod 23 = 0" by (auto simp: decode_v3_path_def split: if_splits)
  then obtain m where m: "length p - 20 = 23 * m" by auto
  with \<open>43 \<le> length p\<close> obtain n where "m = Suc n" by (cases m) auto
  with m \<open>43 \<le> length p\<close> have "length p = 20 + 23 * Suc n" by simp
  then show "\<exists>hs l. v3_hops_ok hs \<and> length l = 20 \<and> p = v3_path hs l" by (rule v3_path_exists)
qed (use assms decode_v3_path_v3_path in auto)

text \<open>The share a router pays out is shown exactly: any basis points below \<open>2 ^ 52\<close>, which the floating-point
  detour does not distort, as a percentage with two decimals (four below one percent), and a number that
  does not fit 128 bits in full.\<close>

lemma percentage_exact:
  "(unat bips < 2 ^ 52 \<longrightarrow> percentage_str al bips =
      (if 100 \<le> unat bips then nat_str (unat bips div 100) @ ''.'' @ zero_pad 2 (nat_str (unat bips mod 100)) @ ''%''
       else ''0.'' @ zero_pad 4 (nat_str (100 * unat bips)) @ ''%''))
   \<and> (2 ^ 128 \<le> unat bips \<longrightarrow> percentage_str al bips = al_show_u256 al bips @ '' bips (raw)'')"
proof (intro conjI impI)
  assume b: "unat bips < 2 ^ 52"
  then have "f64_of_u128 (unat bips) = unat bips" by (simp add: f64_of_u128_def)
  with b f64_div_100_ge_1 [OF b] f64_fixed_2_exact [OF b] f64_fixed_4_exact [of "unat bips"]
  show "percentage_str al bips =
      (if 100 \<le> unat bips then nat_str (unat bips div 100) @ ''.'' @ zero_pad 2 (nat_str (unat bips mod 100)) @ ''%''
       else ''0.'' @ zero_pad 4 (nat_str (100 * unat bips)) @ ''%'')"
    by (simp add: percentage_str_def Let_def)
qed (simp add: percentage_str_def)

end
