(* ===== verification/Signing.thy ===== *)
theory Signing
  imports Wire
begin

text \<open>
  \<^verbatim>\<open>visualsign/src/signing.rs\<close>: signer allowlists, the metadata trust policy and the
  domain-separated prehash. SHA-256 is the parameter \<open>sha\<close>; a hasher is the byte string it has
  consumed, so that the prehash is \<open>sha\<close> of the preimage that the injectivity results are about.
\<close>

section \<open>Signer allowlist\<close>

record SignerAllowlist =
  keys :: "bytes set"

definition allowlist_new :: SignerAllowlist where
  "allowlist_new = \<lparr>keys = {}\<rparr>"

definition allowlist_insert :: "SignerAllowlist \<Rightarrow> bytes \<Rightarrow> SignerAllowlist" where
  "allowlist_insert a canonical_pubkey = a\<lparr>keys := insert canonical_pubkey (keys a)\<rparr>"

definition allowlist_contains :: "SignerAllowlist \<Rightarrow> bytes \<Rightarrow> bool" where
  "allowlist_contains a canonical_pubkey = (canonical_pubkey \<in> keys a)"

definition allowlist_is_empty :: "SignerAllowlist \<Rightarrow> bool" where
  "allowlist_is_empty a = (keys a = {})"

definition allowlist_len :: "SignerAllowlist \<Rightarrow> nat" where
  "allowlist_len a = card (keys a)"

definition allowlist_from_iter :: "bytes list \<Rightarrow> SignerAllowlist" where
  "allowlist_from_iter ks = \<lparr>keys = set ks\<rparr>"

section \<open>Trust policy\<close>

datatype MetadataTrustPolicy = AcceptUnsigned | RequireAllowlistedSigner SignerAllowlist

fun accepts_unsigned :: "MetadataTrustPolicy \<Rightarrow> bool" where
  "accepts_unsigned AcceptUnsigned = True"
| "accepts_unsigned (RequireAllowlistedSigner allow) = False"

fun signer_allowlist :: "MetadataTrustPolicy \<Rightarrow> SignerAllowlist option" where
  "signer_allowlist AcceptUnsigned = None"
| "signer_allowlist (RequireAllowlistedSigner allow) = Some allow"

fun display_policy :: "MetadataTrustPolicy \<Rightarrow> string" where
  "display_policy AcceptUnsigned = ''accept-unsigned''"
| "display_policy (RequireAllowlistedSigner allow) =
     ''require-signed ('' @ nat_str (allowlist_len allow) @ '' authorized signer(s))''"

section \<open>Prehash\<close>

definition METADATA_SIGNING_DOMAIN_V1 :: bytes where
  "METADATA_SIGNING_DOMAIN_V1 = as_bytes ''visualsign-metadata-v1''"

definition CHAIN_TAG_ETHEREUM :: string where
  "CHAIN_TAG_ETHEREUM = ''ethereum''"

definition CHAIN_TAG_SOLANA :: string where
  "CHAIN_TAG_SOLANA = ''solana''"

definition CHAIN_TAG_NEAR_TOKEN_METADATA :: string where
  "CHAIN_TAG_NEAR_TOKEN_METADATA = ''near-token-metadata''"

definition CHAIN_TAG_ETHEREUM_TOKEN_METADATA :: string where
  "CHAIN_TAG_ETHEREUM_TOKEN_METADATA = ''ethereum-token-metadata''"

definition CHAIN_TAG_SOLANA_TOKEN_METADATA :: string where
  "CHAIN_TAG_SOLANA_TOKEN_METADATA = ''solana-token-metadata''"

text \<open>The bytes the hasher has consumed after the loop over the four fields.\<close>

definition prehash_input :: "string \<Rightarrow> bytes \<Rightarrow> bytes \<Rightarrow> bytes" where
  "prehash_input chain_tag scope body =
     fold (\<lambda>field hasher. (hasher @ le_bytes 8 (length field)) @ field)
       [METADATA_SIGNING_DOMAIN_V1, as_bytes chain_tag, scope, body] []"

definition metadata_signing_prehash_v1 ::
  "(bytes \<Rightarrow> bytes) \<Rightarrow> string \<Rightarrow> bytes \<Rightarrow> bytes \<Rightarrow> bytes" where
  "metadata_signing_prehash_v1 sha chain_tag scope body = sha (prehash_input chain_tag scope body)"

definition ethereum_scope :: "u64 \<Rightarrow> bytes \<Rightarrow> bytes" where
  "ethereum_scope chain_id address = be_bytes 8 (unat chain_id) @ address"

definition ethereum_metadata_prehash :: "(bytes \<Rightarrow> bytes) \<Rightarrow> u64 \<Rightarrow> bytes \<Rightarrow> bytes \<Rightarrow> bytes" where
  "ethereum_metadata_prehash sha chain_id address abi_json =
     metadata_signing_prehash_v1 sha CHAIN_TAG_ETHEREUM (ethereum_scope chain_id address) abi_json"

definition solana_metadata_prehash :: "(bytes \<Rightarrow> bytes) \<Rightarrow> bytes \<Rightarrow> bytes \<Rightarrow> bytes" where
  "solana_metadata_prehash sha program_id idl_json =
     metadata_signing_prehash_v1 sha CHAIN_TAG_SOLANA program_id idl_json"

definition near_token_metadata_scope :: "string \<Rightarrow> string \<Rightarrow> bytes" where
  "near_token_metadata_scope network_id asset_id =
     fold (\<lambda>field scope. (scope @ le_bytes 8 (length field)) @ field)
       [as_bytes network_id, as_bytes asset_id] []"

definition near_token_metadata_prehash :: "(bytes \<Rightarrow> bytes) \<Rightarrow> string \<Rightarrow> string \<Rightarrow> bytes \<Rightarrow> bytes" where
  "near_token_metadata_prehash sha network_id asset_id body =
     metadata_signing_prehash_v1 sha CHAIN_TAG_NEAR_TOKEN_METADATA
       (near_token_metadata_scope network_id asset_id) body"

definition ethereum_token_metadata_prehash :: "(bytes \<Rightarrow> bytes) \<Rightarrow> string \<Rightarrow> string \<Rightarrow> bytes \<Rightarrow> bytes" where
  "ethereum_token_metadata_prehash sha network_id asset_id body =
     metadata_signing_prehash_v1 sha CHAIN_TAG_ETHEREUM_TOKEN_METADATA
       (near_token_metadata_scope network_id asset_id) body"

definition solana_token_metadata_prehash :: "(bytes \<Rightarrow> bytes) \<Rightarrow> string \<Rightarrow> string \<Rightarrow> bytes \<Rightarrow> bytes" where
  "solana_token_metadata_prehash sha network_id asset_id body =
     metadata_signing_prehash_v1 sha CHAIN_TAG_SOLANA_TOKEN_METADATA
       (near_token_metadata_scope network_id asset_id) body"

section \<open>Facts\<close>

lemma allowlist_from_iter_fold:
  "allowlist_from_iter ks = fold (\<lambda>k a. allowlist_insert a k) ks allowlist_new"
proof -
  have "fold (\<lambda>k a. allowlist_insert a k) ks a = a\<lparr>keys := set ks \<union> keys a\<rparr>" for a
    by (induction ks arbitrary: a) (auto simp: allowlist_insert_def)
  then show ?thesis by (simp add: allowlist_from_iter_def allowlist_new_def)
qed

lemma prehash_input_fields:
  "prehash_input chain_tag scope body =
     concat (map (sized 8) [METADATA_SIGNING_DOMAIN_V1, as_bytes chain_tag, scope, body])"
  by (simp add: prehash_input_def sized_def)

lemma near_scope_fields:
  "near_token_metadata_scope n a = concat (map (sized 8) [as_bytes n, as_bytes a])"
  by (simp add: near_token_metadata_scope_def sized_def)

lemma fits64_domain: "fits64 METADATA_SIGNING_DOMAIN_V1"
  by (simp add: fits64_def METADATA_SIGNING_DOMAIN_V1_def)

lemma prehash_input_inject:
  assumes "fits64 (as_bytes t)" "fits64 s" "fits64 b" "fits64 (as_bytes t')" "fits64 s'" "fits64 b'"
  shows "prehash_input t s b = prehash_input t' s' b' \<longleftrightarrow> t = t' \<and> s = s' \<and> b = b'"
  unfolding prehash_input_fields
  by (subst sized64.seq_inject) (use assms fits64_domain in \<open>auto simp: inj_as_bytes\<close>)

lemma near_scope_inject:
  assumes "fits64 (as_bytes n)" "fits64 (as_bytes a)" "fits64 (as_bytes n')" "fits64 (as_bytes a')"
  shows "near_token_metadata_scope n a = near_token_metadata_scope n' a' \<longleftrightarrow> n = n' \<and> a = a'"
  unfolding near_scope_fields
  by (subst sized64.seq_inject) (use assms in \<open>auto simp: inj_as_bytes\<close>)

lemma ethereum_scope_inject:
  "ethereum_scope c a = ethereum_scope c' a' \<longleftrightarrow> c = c' \<and> a = a'"
proof -
  have "unat x < 256 ^ 8" for x :: u64 using unat_u64_less [of x] by simp
  then have "be_bytes 8 (unat c) = be_bytes 8 (unat c') \<longleftrightarrow> c = c'" by (simp add: be_bytes_inject word_unat_eq_iff)
  then show ?thesis by (auto simp: ethereum_scope_def append_eq_append_conv)
qed

lemma length_ethereum_scope: "length a = 20 \<Longrightarrow> length (ethereum_scope c a) = 28"
  by (simp add: ethereum_scope_def)

text \<open>The five kinds of signed artifact have five different tags.\<close>

lemma chain_tags_distinct:
  "distinct [CHAIN_TAG_ETHEREUM, CHAIN_TAG_SOLANA, CHAIN_TAG_NEAR_TOKEN_METADATA,
     CHAIN_TAG_ETHEREUM_TOKEN_METADATA, CHAIN_TAG_SOLANA_TOKEN_METADATA]"
  by (simp add: CHAIN_TAG_ETHEREUM_def CHAIN_TAG_SOLANA_def CHAIN_TAG_NEAR_TOKEN_METADATA_def
      CHAIN_TAG_ETHEREUM_TOKEN_METADATA_def CHAIN_TAG_SOLANA_TOKEN_METADATA_def)

section \<open>Properties\<close>

text \<open>The preimage of a metadata signature determines the chain tag, the scope and the body: no
  two different triples of fields (shorter than \<open>2 ^ 64\<close> bytes) are hashed from the same bytes.\<close>

lemma prehash_binds:
  assumes "list_all fits64 [as_bytes t, s, b, as_bytes t', s', b']"
  shows "prehash_input t s b = prehash_input t' s' b' \<longleftrightarrow> (t, s, b) = (t', s', b')"
  using prehash_input_inject [of t s b t' s' b'] assms by auto

text \<open>An Ethereum signature is bound to its chain id, its 20-byte address and its ABI text.\<close>

lemma ethereum_prehash_binds:
  assumes "length a = 20" and "length a' = 20" and "fits64 j" and "fits64 j'"
  shows "prehash_input CHAIN_TAG_ETHEREUM (ethereum_scope c a) j
      = prehash_input CHAIN_TAG_ETHEREUM (ethereum_scope c' a') j' \<longleftrightarrow> c = c' \<and> a = a' \<and> j = j'"
proof -
  have "fits64 (ethereum_scope c a)" "fits64 (ethereum_scope c' a')" "fits64 (as_bytes CHAIN_TAG_ETHEREUM)"
    using assms by (simp_all add: fits64_def length_ethereum_scope CHAIN_TAG_ETHEREUM_def)
  with assms show ?thesis by (simp add: prehash_input_inject ethereum_scope_inject)
qed

text \<open>Token metadata is bound to its network and asset, and no preimage of one kind of artifact
  (Ethereum ABI, Solana IDL, or the three kinds of token metadata) is a preimage of another kind.\<close>

lemma artifact_separation:
  assumes "list_all fits64 [as_bytes n, as_bytes a, as_bytes n', as_bytes a', s, s', b, b']"
    and "t \<in> {CHAIN_TAG_ETHEREUM, CHAIN_TAG_SOLANA, CHAIN_TAG_NEAR_TOKEN_METADATA,
      CHAIN_TAG_ETHEREUM_TOKEN_METADATA, CHAIN_TAG_SOLANA_TOKEN_METADATA}"
    and "t' \<in> {CHAIN_TAG_ETHEREUM, CHAIN_TAG_SOLANA, CHAIN_TAG_NEAR_TOKEN_METADATA,
      CHAIN_TAG_ETHEREUM_TOKEN_METADATA, CHAIN_TAG_SOLANA_TOKEN_METADATA}"
  shows "(near_token_metadata_scope n a = near_token_metadata_scope n' a' \<longleftrightarrow> n = n' \<and> a = a')
    \<and> (t \<noteq> t' \<longrightarrow> prehash_input t s b \<noteq> prehash_input t' s' b')"
proof -
  have tag: "fits64 (as_bytes u)" if "u \<in> {CHAIN_TAG_ETHEREUM, CHAIN_TAG_SOLANA, CHAIN_TAG_NEAR_TOKEN_METADATA,
      CHAIN_TAG_ETHEREUM_TOKEN_METADATA, CHAIN_TAG_SOLANA_TOKEN_METADATA}" for u
    using that by (auto simp: fits64_def CHAIN_TAG_ETHEREUM_def CHAIN_TAG_SOLANA_def
        CHAIN_TAG_NEAR_TOKEN_METADATA_def CHAIN_TAG_ETHEREUM_TOKEN_METADATA_def
        CHAIN_TAG_SOLANA_TOKEN_METADATA_def)
  show ?thesis
    using assms(1) near_scope_inject [of n a n' a'] tag [OF assms(2)] tag [OF assms(3)]
    by (simp add: prehash_input_inject)
qed

text \<open>An allowlist built from a list of keys holds exactly those keys, each once, and the
  policy accepts unsigned metadata exactly when it asks for no allowlist.\<close>

lemma allowlist_exact:
  "(allowlist_contains (allowlist_from_iter ks) k \<longleftrightarrow> k \<in> set ks)
   \<and> allowlist_len (allowlist_from_iter ks) = length (remdups ks)
   \<and> (allowlist_is_empty (allowlist_from_iter ks) \<longleftrightarrow> ks = [])
   \<and> allowlist_from_iter ks = fold (\<lambda>k a. allowlist_insert a k) ks allowlist_new
   \<and> (accepts_unsigned policy \<longleftrightarrow> signer_allowlist policy = None)"
  by (cases policy)
    (simp_all add: allowlist_from_iter_fold [symmetric] allowlist_contains_def allowlist_len_def
      allowlist_is_empty_def length_remdups_card_conv allowlist_from_iter_def [of ks])

end
