(* ===== verification/AbiMetadata.thy ===== *)
theory AbiMetadata
  imports AbiRegistry ChainMeta Signing Encodings
begin

text \<open>
  \<^verbatim>\<open>chain_parsers/visualsign-ethereum/src/abi_metadata.rs\<close>: how the ABIs that a caller supplies become
  a registry. The elliptic-curve operations of \<^verbatim>\<open>k256\<close>, the hex crate, SHA-256 and alloy's parsers
  are the record \<open>K256\<close>: signatures have type \<open>'s\<close>, encoded points \<open>'e\<close>, verifying keys \<open>'v\<close>, signing
  keys \<open>'g\<close> and parsed ABIs \<open>'a\<close>. Errors of these libraries are their texts. Log lines, which no
  result depends on, are left out.
\<close>

record ('s, 'e, 'v, 'g, 'a) K256 =
  k_sha :: "bytes \<Rightarrow> bytes"
  k_hex_decode :: "string \<Rightarrow> (string, bytes) result"
  k_hex_encode :: "bytes \<Rightarrow> string"
  signature_from_der :: "bytes \<Rightarrow> (string, 's) result"
  signature_to_der :: "'s \<Rightarrow> bytes"
  point_from_bytes :: "bytes \<Rightarrow> (string, 'e) result"
  key_from_encoded_point :: "'e \<Rightarrow> (string, 'v) result"
  key_uncompressed :: "'v \<Rightarrow> bytes"
  verify_prehash :: "'v \<Rightarrow> bytes \<Rightarrow> 's \<Rightarrow> (string, unit) result"
  signing_key_from_bytes :: "bytes \<Rightarrow> (string, 'g) result"
  signing_key_verifying :: "'g \<Rightarrow> 'v"
  sign_prehash :: "'g \<Rightarrow> bytes \<Rightarrow> (string, 's) result"
  k_parse_address :: "string \<Rightarrow> (string, eth_address) result"
  k_parse_json_abi :: "string \<Rightarrow> (string, 'a) result"

definition MAX_ABI_JSON_BYTES :: nat where
  "MAX_ABI_JSON_BYTES = 1024 * 1024"

definition identity_unverified :: "MetadataTrustPolicy \<Rightarrow> Abi \<Rightarrow> bool" where
  "identity_unverified policy abi = (signer_allowlist policy = None \<or> abi_signature abi = None)"

section \<open>Signatures\<close>

definition SUPPORTED_ALGORITHM :: string where
  "SUPPORTED_ALGORITHM = ''secp256k1''"

record LocalSignature =
  local_value :: string
  local_algorithm :: "string option"
  local_public_key :: "string option"
  local_issuer :: "string option"
  local_timestamp :: "string option"

definition convert_proto_signature :: "SignatureMetadata \<Rightarrow> LocalSignature" where
  "convert_proto_signature proto =
     (let get = (\<lambda>key. map_option meta_value (find (\<lambda>m. meta_key m = key) (sig_metadata proto)))
      in \<lparr>local_value = sig_value proto, local_algorithm = get ''algorithm'',
          local_public_key = get ''public_key'', local_issuer = get ''issuer'',
          local_timestamp = get ''timestamp''\<rparr>)"

datatype AbiSignatureError = Validation string

definition validate_abi_signature ::
  "('s, 'e, 'v, 'g, 'a) K256 \<Rightarrow> string \<Rightarrow> eth_address \<Rightarrow> u64 \<Rightarrow> LocalSignature \<Rightarrow> SignerAllowlist option
    \<Rightarrow> (AbiSignatureError, unit) result" where
  "validate_abi_signature x abi_json address chain_id signature allowlist =
     and_then (ok_or (Validation ''Missing algorithm'') (local_algorithm signature)) (\<lambda>algorithm.
     if algorithm \<noteq> SUPPORTED_ALGORITHM
     then Inl (Validation (''Unsupported algorithm: '' @ algorithm @ ''. Only '' @ SUPPORTED_ALGORITHM @ '' is supported.''))
     else
     and_then (ok_or (Validation ''Missing public_key'') (local_public_key signature)) (\<lambda>public_key_hex.
     let hash = ethereum_metadata_prehash (k_sha x) chain_id address (as_bytes abi_json)
     in
     and_then (map_err (\<lambda>e. Validation (''Invalid signature hex: '' @ e))
       (decode_hex (k_hex_decode x) (local_value signature))) (\<lambda>sig_bytes.
     and_then (map_err (\<lambda>e. Validation (''Invalid DER signature: '' @ e))
       (signature_from_der x sig_bytes)) (\<lambda>sig.
     and_then (map_err (\<lambda>e. Validation (''Invalid public key hex: '' @ e))
       (decode_hex (k_hex_decode x) public_key_hex)) (\<lambda>pubkey_bytes.
     and_then (map_err (\<lambda>e. Validation (''Invalid public key point: '' @ e))
       (point_from_bytes x pubkey_bytes)) (\<lambda>encoded_point.
     and_then (map_err (\<lambda>e. Validation (''Invalid verifying key: '' @ e))
       (key_from_encoded_point x encoded_point)) (\<lambda>verifying_key.
     and_then (map_err (\<lambda>e. Validation (''Signature verification failed: '' @ e))
       (verify_prehash x verifying_key hash sig)) (\<lambda>_.
     case allowlist of
       Some allow \<Rightarrow>
         if \<not> allowlist_contains allow (key_uncompressed x verifying_key)
         then Inl (Validation ''signer not in allowlist'')
         else Inr ()
     | None \<Rightarrow> Inr ()))))))))"

section \<open>Kinds of contract\<close>

datatype AbiType = AbiUnspecified | AbiImplementation | AbiProxy

definition abi_type_try_from :: "u32 \<Rightarrow> AbiType option" where
  "abi_type_try_from v = map_of [(0, AbiUnspecified), (1, AbiImplementation), (2, AbiProxy)] (sint v)"

definition resolve_abi_kind :: "('s, 'e, 'v, 'g, 'a) K256 \<Rightarrow> Abi \<Rightarrow> AbiKind \<times> eth_address option" where
  "resolve_abi_kind x abi =
     (let proto_type = unwrap_or AbiUnspecified (Option.bind (abi_abi_type abi) abi_type_try_from)
      in case proto_type of
           AbiProxy \<Rightarrow>
             (Proxy, case abi_implementation_address abi of
                       Some addr \<Rightarrow> (case k_parse_address x addr of Inr parsed \<Rightarrow> Some parsed | Inl _ \<Rightarrow> None)
                     | None \<Rightarrow> None)
         | AbiUnspecified \<Rightarrow> (Implementation, None)
         | AbiImplementation \<Rightarrow> (Implementation, None))"

section \<open>Extraction\<close>

text \<open>The checks of one entry, after its address is parsed: size, and the signature under the policy.\<close>

definition entry_admitted ::
  "('s, 'e, 'v, 'g, 'a) K256 \<Rightarrow> u64 \<Rightarrow> MetadataTrustPolicy \<Rightarrow> eth_address \<Rightarrow> Abi \<Rightarrow> bool" where
  "entry_admitted x chain_id policy parsed_address abi =
     (\<not> length (abi_value abi) > MAX_ABI_JSON_BYTES
      \<and> (case abi_signature abi of
           Some proto_sig \<Rightarrow>
             is_ok (validate_abi_signature x (abi_value abi) parsed_address chain_id
               (convert_proto_signature proto_sig) (signer_allowlist policy))
         | None \<Rightarrow> accepts_unsigned policy))"

text \<open>One round of the loop of \<^verbatim>\<open>extract_with_provenance\<close> over the registry and the counter.\<close>

definition extract_entry ::
  "('s, 'e, 'v, 'g, 'a) K256 \<Rightarrow> u64 \<Rightarrow> MetadataTrustPolicy \<Rightarrow> string \<times> Abi
    \<Rightarrow> 'a AbiRegistry \<times> nat \<Rightarrow> 'a AbiRegistry \<times> nat" where
  "extract_entry x chain_id policy entry st =
     (case (entry, st) of ((address, abi), (registry, unverified_count)) \<Rightarrow>
        (case k_parse_address x address of
           Inl _ \<Rightarrow> st
         | Inr parsed_address \<Rightarrow>
             if \<not> entry_admitted x chain_id policy parsed_address abi then st
             else (let (abi_kind, implementation) = resolve_abi_kind x abi
                   in case register_embedded_abi (k_parse_json_abi x) registry address (abi_value abi) of
                        Inl _ \<Rightarrow> st
                      | Inr registry' \<Rightarrow>
                          (map_address_with_type registry' chain_id parsed_address address abi_kind implementation,
                           if identity_unverified policy abi then unverified_count + 1 else unverified_count))))"

definition extract_with_provenance ::
  "('s, 'e, 'v, 'g, 'a) K256 \<Rightarrow> ChainMetadata option \<Rightarrow> u64 \<Rightarrow> MetadataTrustPolicy
    \<Rightarrow> 'a AbiRegistry option \<times> nat" where
  "extract_with_provenance x chain_metadata chain_id policy =
     (case Option.bind chain_metadata chain_metadata_metadata of
        Some (EthereumMeta ethereum) \<Rightarrow>
          if eth_abi_mappings ethereum = [] then (None, 0)
          else (let (registry, unverified_count) =
                      fold (extract_entry x chain_id policy) (eth_abi_mappings ethereum) (abi_registry_new, 0)
                in if list_abis registry = [] then (None, unverified_count)
                   else (Some registry, unverified_count))
      | _ \<Rightarrow> (None, 0))"

definition try_extract_from_chain_metadata ::
  "('s, 'e, 'v, 'g, 'a) K256 \<Rightarrow> ChainMetadata option \<Rightarrow> u64 \<Rightarrow> MetadataTrustPolicy \<Rightarrow> 'a AbiRegistry option" where
  "try_extract_from_chain_metadata x chain_metadata chain_id policy =
     fst (extract_with_provenance x chain_metadata chain_id policy)"

section \<open>Allowlists and local signing\<close>

definition canonical_pubkey_from_hex :: "('s, 'e, 'v, 'g, 'a) K256 \<Rightarrow> string \<Rightarrow> bytes option" where
  "canonical_pubkey_from_hex x hex_str =
     (case decode_hex (k_hex_decode x) hex_str of
        Inl _ \<Rightarrow> None
      | Inr bs \<Rightarrow>
          (case point_from_bytes x bs of
             Inl _ \<Rightarrow> None
           | Inr encoded_point \<Rightarrow>
               (case key_from_encoded_point x encoded_point of
                  Inl _ \<Rightarrow> None
                | Inr verifying_key \<Rightarrow> Some (key_uncompressed x verifying_key))))"

definition CLI_DEV_SIGNING_KEY_SEED :: bytes where
  "CLI_DEV_SIGNING_KEY_SEED = replicate 32 0x42"

text \<open>The feature \<^verbatim>\<open>dev-signing\<close> and the environment variable are arguments.\<close>

definition authorized_abi_signers ::
  "('s, 'e, 'v, 'g, 'a) K256 \<Rightarrow> bool \<Rightarrow> string option \<Rightarrow> SignerAllowlist" where
  "authorized_abi_signers x dev_signing env =
     (let allow = (if dev_signing
                   then (case signing_key_from_bytes x CLI_DEV_SIGNING_KEY_SEED of
                           Inr sk \<Rightarrow> allowlist_insert allowlist_new (key_uncompressed x (signing_key_verifying x sk))
                         | Inl _ \<Rightarrow> allowlist_new)
                   else allowlist_new)
      in case env of
           None \<Rightarrow> allow
         | Some list \<Rightarrow>
             fold (\<lambda>entry allow. case canonical_pubkey_from_hex x entry of
                                   Some bs \<Rightarrow> allowlist_insert allow bs
                                 | None \<Rightarrow> allow)
               (filter (\<lambda>s. s \<noteq> []) (map trim (split_on (CHR '','') list))) allow)"

fun insert_signers ::
  "('s, 'e, 'v, 'g, 'a) K256 \<Rightarrow> string list \<Rightarrow> SignerAllowlist \<Rightarrow> (string, SignerAllowlist) result" where
  "insert_signers x [] allow = Inr allow"
| "insert_signers x (entry # entries) allow =
     and_then (ok_or (''invalid secp256k1 public key: '' @ [CHR 0x27] @ entry @ [CHR 0x27])
       (canonical_pubkey_from_hex x (trim entry))) (\<lambda>key.
         insert_signers x entries (allowlist_insert allow key))"

definition signer_allowlist_from_hex ::
  "('s, 'e, 'v, 'g, 'a) K256 \<Rightarrow> string list \<Rightarrow> (string, SignerAllowlist) result" where
  "signer_allowlist_from_hex x entries =
     (if entries = [] then Inl ''no authorized ABI signer public keys were provided''
      else insert_signers x entries allowlist_new)"

definition sign_abi ::
  "('s, 'e, 'v, 'g, 'a) K256 \<Rightarrow> string \<Rightarrow> eth_address \<Rightarrow> u64 \<Rightarrow> bytes \<Rightarrow> (string, SignatureMetadata) result" where
  "sign_abi x abi_json address chain_id signing_key_seed =
     and_then (map_err (\<lambda>e. ''invalid secp256k1 signing key seed: '' @ e)
       (signing_key_from_bytes x signing_key_seed)) (\<lambda>signing_key.
     let verifying_key = signing_key_verifying x signing_key;
         hash = ethereum_metadata_prehash (k_sha x) chain_id address (as_bytes abi_json)
     in and_then (map_err (\<lambda>e. ''failed to sign ABI hash: '' @ e) (sign_prehash x signing_key hash)) (\<lambda>signature.
        Inr \<lparr>sig_value = k_hex_encode x (signature_to_der x signature),
             sig_metadata =
               [\<lparr>meta_key = ''algorithm'', meta_value = SUPPORTED_ALGORITHM\<rparr>,
                \<lparr>meta_key = ''public_key'', meta_value = k_hex_encode x (key_uncompressed x verifying_key)\<rparr>]\<rparr>))"

definition sign_abi_for_cli ::
  "('s, 'e, 'v, 'g, 'a) K256 \<Rightarrow> bool \<Rightarrow> string \<Rightarrow> eth_address \<Rightarrow> u64 \<Rightarrow> (string, SignatureMetadata) result" where
  "sign_abi_for_cli x dev_signing abi_json address chain_id =
     (if dev_signing then sign_abi x abi_json address chain_id CLI_DEV_SIGNING_KEY_SEED
      else Inl ''ABI signing is unavailable: this binary was built without the dev-signing feature'')"

section \<open>What a valid signature is\<close>

text \<open>The signature verifies, under the verifying key \<open>v\<close> that comes with it, over the prehash that binds
  the chain id, the address and the ABI text.\<close>

definition signature_by ::
  "('s, 'e, 'v, 'g, 'a) K256 \<Rightarrow> string \<Rightarrow> eth_address \<Rightarrow> u64 \<Rightarrow> LocalSignature \<Rightarrow> 'v \<Rightarrow> bool" where
  "signature_by x abi_json address chain_id signature v \<longleftrightarrow>
     local_algorithm signature = Some SUPPORTED_ALGORITHM
     \<and> (\<exists>public_key_hex sig_bytes sig pubkey_bytes point.
          local_public_key signature = Some public_key_hex
          \<and> decode_hex (k_hex_decode x) (local_value signature) = Inr sig_bytes
          \<and> signature_from_der x sig_bytes = Inr sig
          \<and> decode_hex (k_hex_decode x) public_key_hex = Inr pubkey_bytes
          \<and> point_from_bytes x pubkey_bytes = Inr point \<and> key_from_encoded_point x point = Inr v
          \<and> verify_prehash x v (k_sha x (prehash_input CHAIN_TAG_ETHEREUM
               (ethereum_scope chain_id address) (as_bytes abi_json))) sig = Inr ())"

lemma validate_abi_signature_ok:
  "validate_abi_signature x abi_json address chain_id signature allowlist = Inr () \<longleftrightarrow>
     (\<exists>v. signature_by x abi_json address chain_id signature v
        \<and> pred_option (\<lambda>allow. key_uncompressed x v \<in> keys allow) allowlist)"
  by (cases allowlist)
    (auto simp: validate_abi_signature_def signature_by_def and_then_Inr_iff Let_def allowlist_contains_def
      ethereum_metadata_prehash_def metadata_signing_prehash_v1_def split: if_splits)

text \<open>An entry that is registered: its parsed address and ABI.\<close>

definition accepted_entry ::
  "('s, 'e, 'v, 'g, 'a) K256 \<Rightarrow> u64 \<Rightarrow> MetadataTrustPolicy \<Rightarrow> string \<times> Abi \<Rightarrow> (eth_address \<times> 'a) option" where
  "accepted_entry x chain_id policy entry =
     (case k_parse_address x (fst entry) of
        Inl _ \<Rightarrow> None
      | Inr a \<Rightarrow> if entry_admitted x chain_id policy a (snd entry)
                then (case k_parse_json_abi x (abi_value (snd entry)) of Inl _ \<Rightarrow> None | Inr j \<Rightarrow> Some (a, j))
                else None)"

definition entry_mapping :: "('s, 'e, 'v, 'g, 'a) K256 \<Rightarrow> string \<times> Abi \<Rightarrow> AddressMapping" where
  "entry_mapping x entry =
     \<lparr>mapping_abi_name = fst entry, mapping_abi_kind = fst (resolve_abi_kind x (snd entry)),
      mapping_implementation = snd (resolve_abi_kind x (snd entry))\<rparr>"

lemma extract_entry_eq:
  "extract_entry x c policy e (reg, n) =
     (case accepted_entry x c policy e of
        None \<Rightarrow> (reg, n)
      | Some (a, j) \<Rightarrow>
          (reg\<lparr>abis := bt_insert (fst e) j (abis reg),
               address_mappings := bt_insert (c, a) (entry_mapping x e) (address_mappings reg)\<rparr>,
           if identity_unverified policy (snd e) then n + 1 else n))"
  by (cases e; cases "resolve_abi_kind x (snd e)")
    (auto simp: extract_entry_def accepted_entry_def entry_mapping_def register_embedded_abi_def register_abi_def
      map_address_with_type_def split: sum.splits)

text \<open>The entry that answers for an address: the last accepted one whose key spells it.\<close>

definition entry_for ::
  "('s, 'e, 'v, 'g, 'a) K256 \<Rightarrow> u64 \<Rightarrow> MetadataTrustPolicy \<Rightarrow> (string \<times> Abi) list \<Rightarrow> eth_address
    \<Rightarrow> (string \<times> Abi) option" where
  "entry_for x c policy es a = find (\<lambda>e. map_option fst (accepted_entry x c policy e) = Some a) (rev es)"

definition extracted ::
  "('s, 'e, 'v, 'g, 'a) K256 \<Rightarrow> u64 \<Rightarrow> MetadataTrustPolicy \<Rightarrow> (string \<times> Abi) list \<Rightarrow> 'a AbiRegistry \<Rightarrow> bool" where
  "extracted x c policy es reg \<longleftrightarrow> abi_inv reg
     \<and> (\<forall>name j. map_of (abis reg) name = Some j \<longleftrightarrow>
          (\<exists>abi a. (name, abi) \<in> set es \<and> accepted_entry x c policy (name, abi) = Some (a, j)))
     \<and> (\<forall>c' a. map_of (address_mappings reg) (c', a) =
          (if c' = c then map_option (entry_mapping x) (entry_for x c policy es a) else None))"

lemma extracted_step:
  assumes "extracted x c policy es (fst st)" and "fst e \<notin> fst ` set es"
  shows "extracted x c policy (es @ [e]) (fst (extract_entry x c policy e st))"
proof (cases "accepted_entry x c policy e")
  case None
  with assms show ?thesis
    by (cases e; cases st) (auto simp: extract_entry_eq extracted_def entry_for_def)
next
  case (Some r)
  obtain reg n where st: "st = (reg, n)" by force
  obtain name abi where e: "e = (name, abi)" by force
  obtain a j where r: "accepted_entry x c policy (name, abi) = Some (a, j)" using Some by (cases r) (simp add: e)
  let ?reg = "reg\<lparr>abis := bt_insert name j (abis reg),
    address_mappings := bt_insert (c, a) (entry_mapping x (name, abi)) (address_mappings reg)\<rparr>"
  have inv: "abi_inv reg" using assms(1) by (simp add: extracted_def st)
  have fresh: "(name, abi') \<notin> set es" for abi' using assms(2) by (force simp: e)
  have "abi_inv ?reg" using inv by (simp add: abi_inv_def ssorted_bt_insert)
  moreover have "map_of (abis ?reg) name' = Some j' \<longleftrightarrow>
      (\<exists>abi' a'. (name', abi') \<in> set (es @ [e]) \<and> accepted_entry x c policy (name', abi') = Some (a', j'))"
    for name' j'
    using assms(1) fresh by (cases "name' = name") (auto simp: st extracted_def abis_register inv r e)
  moreover have "map_of (address_mappings ?reg) (c', a') =
      (if c' = c then map_option (entry_mapping x) (entry_for x c policy (es @ [e]) a') else None)" for c' a'
    using assms(1) by (auto simp: st extracted_def mappings_map inv r e entry_for_def)
  ultimately have "extracted x c policy (es @ [e]) ?reg" unfolding extracted_def by blast
  then show ?thesis by (simp add: extract_entry_eq r e st)
qed

lemma extract_entry_count:
  "snd (extract_entry x c policy e st)
     = snd st + (if accepted_entry x c policy e \<noteq> None \<and> identity_unverified policy (snd e) then 1 else 0)"
  by (cases st) (auto simp: extract_entry_eq split: option.splits)

lemma extracted_fold:
  assumes "distinct (map fst es)"
  shows "extracted x c policy es (fst (fold (extract_entry x c policy) es (abi_registry_new, 0)))
    \<and> snd (fold (extract_entry x c policy) es (abi_registry_new, 0))
      = length (filter (\<lambda>e. accepted_entry x c policy e \<noteq> None \<and> identity_unverified policy (snd e)) es)"
  using assms
proof (induction es rule: rev_induct)
  case Nil
  then show ?case by (simp add: extracted_def abi_inv_def abi_registry_new_def entry_for_def)
next
  case (snoc e es)
  let ?st = "fold (extract_entry x c policy) es (abi_registry_new, 0)"
  have "extracted x c policy (es @ [e]) (fst (extract_entry x c policy e ?st))"
    by (rule extracted_step) (use snoc in auto)
  with extract_entry_count [of x c policy e ?st] snoc show ?case by simp
qed

lemma entry_for_Some:
  "entry_for x c policy es a = Some e \<Longrightarrow> e \<in> set es \<and> (\<exists>j. accepted_entry x c policy e = Some (a, j))"
  unfolding entry_for_def by (induction es rule: rev_induct) (auto split: if_splits)

lemma extracted_lookup:
  assumes "extracted x c policy es reg"
  shows "get_abi_for_address reg c' a = (if c' = c
      then Option.bind (entry_for x c policy es a) (\<lambda>e. map_option snd (accepted_entry x c policy e)) else None)"
    and "get_abi_kind reg c' a = (if c' = c
      then map_option (\<lambda>e. fst (resolve_abi_kind x (snd e))) (entry_for x c policy es a) else None)"
proof -
  have m: "map_of (address_mappings reg) (c', a) =
      (if c' = c then map_option (entry_mapping x) (entry_for x c policy es a) else None)"
    and n: "map_of (abis reg) name = Some j \<longleftrightarrow>
      (\<exists>abi a. (name, abi) \<in> set es \<and> accepted_entry x c policy (name, abi) = Some (a, j))" for name j
    using assms by (simp_all add: extracted_def)
  show "get_abi_kind reg c' a = (if c' = c
      then map_option (\<lambda>e. fst (resolve_abi_kind x (snd e))) (entry_for x c policy es a) else None)"
    by (simp add: get_abi_kind_def m entry_mapping_def option.map_comp comp_def)
  show "get_abi_for_address reg c' a = (if c' = c
      then Option.bind (entry_for x c policy es a) (\<lambda>e. map_option snd (accepted_entry x c policy e)) else None)"
  proof (cases "entry_for x c policy es a")
    case (Some e)
    from entry_for_Some [OF Some] obtain j
      where j: "(fst e, snd e) \<in> set es" "accepted_entry x c policy (fst e, snd e) = Some (a, j)" by auto
    then have "map_of (abis reg) (fst e) = Some j" using n by blast
    with m Some j show ?thesis by (simp add: get_abi_for_address_def entry_mapping_def)
  qed (simp add: get_abi_for_address_def m)
qed

lemma extracted_empty:
  assumes "extracted x c policy es reg"
  shows "list_abis reg = [] \<longleftrightarrow> (\<forall>e\<in>set es. accepted_entry x c policy e = None)"
proof -
  have n: "map_of (abis reg) name = Some j \<longleftrightarrow>
      (\<exists>abi a. (name, abi) \<in> set es \<and> accepted_entry x c policy (name, abi) = Some (a, j))" for name j
    using assms by (simp add: extracted_def)
  have "abis reg = [] \<longleftrightarrow> (\<forall>name j. map_of (abis reg) name \<noteq> Some j)"
  proof (cases "abis reg")
    case (Cons e m)
    then have "map_of (abis reg) (fst e) = Some (snd e)" and "abis reg \<noteq> []" by simp_all
    then show ?thesis by metis
  qed simp
  also have "\<dots> \<longleftrightarrow> (\<forall>name abi. (name, abi) \<in> set es \<longrightarrow> accepted_entry x c policy (name, abi) = None)"
    unfolding n by (metis not_None_eq surj_pair)
  also have "\<dots> \<longleftrightarrow> (\<forall>e\<in>set es. accepted_entry x c policy e = None)" by auto
  finally show ?thesis by (simp add: list_abis_def)
qed

lemma extract_eq:
  assumes "distinct (map fst (eth_abi_mappings ethereum))"
  obtains reg where "extracted x c policy (eth_abi_mappings ethereum) reg"
    "extract_with_provenance x (Some \<lparr>chain_metadata_metadata = Some (EthereumMeta ethereum)\<rparr>) c policy
      = (if list_abis reg = [] then None else Some reg,
         length (filter (\<lambda>e. accepted_entry x c policy e \<noteq> None \<and> identity_unverified policy (snd e))
           (eth_abi_mappings ethereum)))"
proof
  let ?st = "fold (extract_entry x c policy) (eth_abi_mappings ethereum) (abi_registry_new, 0)"
  note fold = extracted_fold [OF assms, of x c policy]
  show "extracted x c policy (eth_abi_mappings ethereum) (fst ?st)" using fold by blast
  show "extract_with_provenance x (Some \<lparr>chain_metadata_metadata = Some (EthereumMeta ethereum)\<rparr>) c policy
      = (if list_abis (fst ?st) = [] then None else Some (fst ?st),
         length (filter (\<lambda>e. accepted_entry x c policy e \<noteq> None \<and> identity_unverified policy (snd e))
           (eth_abi_mappings ethereum)))"
    using fold by (cases ?st)
      (auto simp: extract_with_provenance_def abi_registry_new_def list_abis_def)
qed

lemma abi_extraction:
  assumes "distinct (map fst (eth_abi_mappings ethereum))"
    and "extract_with_provenance x (Some \<lparr>chain_metadata_metadata = Some (EthereumMeta ethereum)\<rparr>) c policy = (res, n)"
  shows "res = None \<longleftrightarrow> (\<forall>e\<in>set (eth_abi_mappings ethereum). accepted_entry x c policy e = None)"
    and "n = length (filter (\<lambda>e. accepted_entry x c policy e \<noteq> None \<and> identity_unverified policy (snd e))
        (eth_abi_mappings ethereum))"
    and "Option.bind res (\<lambda>reg. get_abi_for_address reg c' a) =
        (if c' = c then Option.bind (entry_for x c policy (eth_abi_mappings ethereum) a)
           (\<lambda>e. map_option snd (accepted_entry x c policy e)) else None)"
    and "Option.bind res (\<lambda>reg. get_abi_kind reg c' a) =
        (if c' = c then map_option (\<lambda>e. fst (resolve_abi_kind x (snd e)))
           (entry_for x c policy (eth_abi_mappings ethereum) a) else None)"
proof -
  obtain reg where reg: "extracted x c policy (eth_abi_mappings ethereum) reg"
    and eq: "extract_with_provenance x (Some \<lparr>chain_metadata_metadata = Some (EthereumMeta ethereum)\<rparr>) c policy
      = (if list_abis reg = [] then None else Some reg,
         length (filter (\<lambda>e. accepted_entry x c policy e \<noteq> None \<and> identity_unverified policy (snd e))
           (eth_abi_mappings ethereum)))"
    using extract_eq [OF assms(1)] .
  have res: "res = (if list_abis reg = [] then None else Some reg)"
      "n = length (filter (\<lambda>e. accepted_entry x c policy e \<noteq> None \<and> identity_unverified policy (snd e))
        (eth_abi_mappings ethereum))"
    using assms(2) unfolding eq by simp_all
  have none: "entry_for x c policy (eth_abi_mappings ethereum) a = None" if "list_abis reg = []"
    using that entry_for_Some [of x c policy "eth_abi_mappings ethereum" a] extracted_empty [OF reg]
    by (cases "entry_for x c policy (eth_abi_mappings ethereum) a") auto
  show "res = None \<longleftrightarrow> (\<forall>e\<in>set (eth_abi_mappings ethereum). accepted_entry x c policy e = None)"
    by (simp add: res(1) extracted_empty [OF reg, symmetric])
  show "n = length (filter (\<lambda>e. accepted_entry x c policy e \<noteq> None \<and> identity_unverified policy (snd e))
        (eth_abi_mappings ethereum))" by (rule res(2))
  show "Option.bind res (\<lambda>reg. get_abi_for_address reg c' a) =
        (if c' = c then Option.bind (entry_for x c policy (eth_abi_mappings ethereum) a)
           (\<lambda>e. map_option snd (accepted_entry x c policy e)) else None)"
    using none by (simp add: res(1) extracted_lookup [OF reg])
  show "Option.bind res (\<lambda>reg. get_abi_kind reg c' a) =
        (if c' = c then map_option (\<lambda>e. fst (resolve_abi_kind x (snd e)))
           (entry_for x c policy (eth_abi_mappings ethereum) a) else None)"
    using none by (simp add: res(1) extracted_lookup [OF reg])
qed

section \<open>Properties\<close>

text \<open>The extracted registry refines its specification: for an address it holds the ABI and the kind of
  the last accepted entry that spells the address, on the resolved chain only; there is no registry
  exactly when no entry is accepted; and the counter is the number of accepted entries whose signer
  nobody vouched for.\<close>

lemma abi_extraction_refines:
  assumes "distinct (map fst (eth_abi_mappings ethereum))"
    and "extract_with_provenance x (Some \<lparr>chain_metadata_metadata = Some (EthereumMeta ethereum)\<rparr>) c policy = (res, n)"
  shows "(res = None \<longleftrightarrow> (\<forall>e\<in>set (eth_abi_mappings ethereum). accepted_entry x c policy e = None))
    \<and> n = length (filter (\<lambda>e. accepted_entry x c policy e \<noteq> None \<and> identity_unverified policy (snd e))
        (eth_abi_mappings ethereum))
    \<and> Option.bind res (\<lambda>reg. get_abi_for_address reg c' a) =
        (if c' = c then Option.bind (entry_for x c policy (eth_abi_mappings ethereum) a)
           (\<lambda>e. map_option snd (accepted_entry x c policy e)) else None)
    \<and> Option.bind res (\<lambda>reg. get_abi_kind reg c' a) =
        (if c' = c then map_option (\<lambda>e. fst (resolve_abi_kind x (snd e)))
           (entry_for x c policy (eth_abi_mappings ethereum) a) else None)"
  using abi_extraction [OF assms] by blast

text \<open>C8: under the require-signed posture every ABI that can be looked up was supplied with a signature
  that verifies, over the prehash of exactly this chain, this address and this ABI text, under a key
  of the allowlist; nothing is counted as unverified.\<close>

theorem abi_signer_required:
  assumes "distinct (map fst (eth_abi_mappings ethereum))"
    and "extract_with_provenance x (Some \<lparr>chain_metadata_metadata = Some (EthereumMeta ethereum)\<rparr>) c
      (RequireAllowlistedSigner allow) = (Some reg, n)"
    and "get_abi_for_address reg c' a = Some j"
  shows "c' = c \<and> n = 0 \<and> (\<exists>key abi sig v. (key, abi) \<in> set (eth_abi_mappings ethereum)
    \<and> k_parse_address x key = Inr a \<and> k_parse_json_abi x (abi_value abi) = Inr j
    \<and> length (abi_value abi) \<le> MAX_ABI_JSON_BYTES
    \<and> abi_signature abi = Some sig
    \<and> signature_by x (abi_value abi) a c (convert_proto_signature sig) v
    \<and> key_uncompressed x v \<in> keys allow)"
proof -
  let ?es = "eth_abi_mappings ethereum" and ?policy = "RequireAllowlistedSigner allow"
  note refines = abi_extraction [OF assms(1,2)]
  have "(if c' = c then Option.bind (entry_for x c ?policy ?es a)
      (\<lambda>e. map_option snd (accepted_entry x c ?policy e)) else None) = Some j"
    using refines(3) [of c' a] assms(3) by simp
  then obtain key abi where c: "c' = c"
    and e: "entry_for x c ?policy ?es a = Some (key, abi)" "map_option snd (accepted_entry x c ?policy (key, abi)) = Some j"
    by (auto simp: bind_eq_Some_conv split: if_splits)
  from entry_for_Some [OF e(1)] e(2) have acc: "(key, abi) \<in> set ?es" "accepted_entry x c ?policy (key, abi) = Some (a, j)"
    by auto
  have signed: "abi_signature (snd e) \<noteq> None" if "accepted_entry x c ?policy e \<noteq> None" for e
    using that by (auto simp: accepted_entry_def entry_admitted_def split: sum.splits option.splits if_splits)
  have "n = 0" using signed unfolding refines(2) by (auto simp: filter_empty_conv identity_unverified_def)
  moreover have "k_parse_address x key = Inr a \<and> k_parse_json_abi x (abi_value abi) = Inr j
      \<and> length (abi_value abi) \<le> MAX_ABI_JSON_BYTES
      \<and> (\<exists>sig v. abi_signature abi = Some sig \<and> signature_by x (abi_value abi) a c (convert_proto_signature sig) v
          \<and> key_uncompressed x v \<in> keys allow)"
    using acc(2) signed [of "(key, abi)"]
    by (auto simp: accepted_entry_def entry_admitted_def is_ok_def validate_abi_signature_ok
        split: sum.splits if_splits)
  ultimately show ?thesis using c acc(1) by blast
qed

definition sample_k256 :: "(bytes, bytes, bytes, bytes, string) K256" where
  "sample_k256 =
     \<lparr>k_sha = (\<lambda>bs. bs), k_hex_decode = (\<lambda>s. Inr (as_bytes (tl s))),
      k_hex_encode = (\<lambda>bs. CHR ''f'' # str_of_bytes bs), signature_from_der = Inr, signature_to_der = (\<lambda>s. s),
      point_from_bytes = Inr, key_from_encoded_point = Inr, key_uncompressed = (\<lambda>v. v),
      verify_prehash = (\<lambda>v h s. if s = v @ h then Inr () else Inl ''bad''),
      signing_key_from_bytes = Inr, signing_key_verifying = (\<lambda>g. g), sign_prehash = (\<lambda>g h. Inr (g @ h)),
      k_parse_address = (\<lambda>s. if s = ''0x07'' then Inr (replicate 20 7) else Inl ''bad''), k_parse_json_abi = Inr\<rparr>"

text \<open>What the libraries document, as far as local signing relies on it: hexadecimal text decodes to the
  bytes it was made from and carries no prefix, DER and point encodings decode to what they encode,
  and a signature verifies under its own key.\<close>

definition k256_documented :: "('s, 'e, 'v, 'g, 'a) K256 \<Rightarrow> bool" where
  "k256_documented x \<longleftrightarrow>
     (\<forall>bs. k_hex_decode x (k_hex_encode x bs) = Inr bs \<and> split_hex_prefix (k_hex_encode x bs) = None)
     \<and> (\<forall>s. signature_from_der x (signature_to_der x s) = Inr s)
     \<and> (\<forall>v. \<exists>p. point_from_bytes x (key_uncompressed x v) = Inr p \<and> key_from_encoded_point x p = Inr v)
     \<and> (\<forall>g h s. sign_prehash x g h = Inr s \<longrightarrow> verify_prehash x (signing_key_verifying x g) h s = Inr ())"

lemma decode_hex_encode: "k256_documented x \<Longrightarrow> decode_hex (k_hex_decode x) (k_hex_encode x bs) = Inr bs"
  by (simp add: k256_documented_def decode_hex_def strip_hex_prefix_split)

lemma signature_by_sign_abi:
  assumes "k256_documented x" and "signing_key_from_bytes x seed = Inr g"
    and "sign_abi x json a c seed = Inr sig"
  shows "signature_by x json a c (convert_proto_signature sig) v \<longleftrightarrow> v = signing_key_verifying x g"
proof -
  obtain s where s: "sign_prehash x g (ethereum_metadata_prehash (k_sha x) c a (as_bytes json)) = Inr s"
    and sig: "sig = \<lparr>sig_value = k_hex_encode x (signature_to_der x s), sig_metadata =
        [\<lparr>meta_key = ''algorithm'', meta_value = SUPPORTED_ALGORITHM\<rparr>, \<lparr>meta_key = ''public_key'',
          meta_value = k_hex_encode x (key_uncompressed x (signing_key_verifying x g))\<rparr>]\<rparr>"
    using assms(2,3) by (auto simp: sign_abi_def Let_def and_then_Inr_iff)
  obtain p where p: "point_from_bytes x (key_uncompressed x (signing_key_verifying x g)) = Inr p"
    "key_from_encoded_point x p = Inr (signing_key_verifying x g)"
    using assms(1) unfolding k256_documented_def by blast
  have "signature_from_der x (signature_to_der x s) = Inr s"
    and "verify_prehash x (signing_key_verifying x g) (ethereum_metadata_prehash (k_sha x) c a (as_bytes json)) s = Inr ()"
    using assms(1) s by (simp_all add: k256_documented_def)
  with p show ?thesis
    by (auto simp: signature_by_def sig convert_proto_signature_def decode_hex_encode [OF assms(1)]
        ethereum_metadata_prehash_def metadata_signing_prehash_v1_def)
qed

lemma keys_fold_signers:
  "keys a \<subseteq> keys (fold (\<lambda>e a. case canonical_pubkey_from_hex x e of Some bs \<Rightarrow> allowlist_insert a bs | None \<Rightarrow> a) es a)"
proof (induction es arbitrary: a)
  case (Cons e es)
  then show ?case by (force simp: allowlist_insert_def split: option.split)
qed simp

lemma cli_admitted:
  assumes "k256_documented x" and "signing_key_from_bytes x CLI_DEV_SIGNING_KEY_SEED = Inr g"
    and "sign_abi_for_cli x True json a c = Inr sig" and "abi_signature abi = Some sig"
    and "abi_value abi = json" and "length json \<le> MAX_ABI_JSON_BYTES"
  shows "entry_admitted x c (RequireAllowlistedSigner (authorized_abi_signers x True env)) a abi
    \<and> entry_admitted x c AcceptUnsigned a abi"
proof -
  have "sign_abi x json a c CLI_DEV_SIGNING_KEY_SEED = Inr sig" using assms(3) by (simp add: sign_abi_for_cli_def)
  from signature_by_sign_abi [OF assms(1,2) this]
  have signed: "signature_by x json a c (convert_proto_signature sig) (signing_key_verifying x g)" by blast
  have "key_uncompressed x (signing_key_verifying x g) \<in> keys (authorized_abi_signers x True env)"
    using assms(2) keys_fold_signers [of "allowlist_insert allowlist_new (key_uncompressed x (signing_key_verifying x g))"]
    by (cases env) (auto simp: authorized_abi_signers_def allowlist_insert_def)
  then have "validate_abi_signature x json a c (convert_proto_signature sig)
      (Some (authorized_abi_signers x True env)) = Inr ()"
    and "validate_abi_signature x json a c (convert_proto_signature sig) None = Inr ()"
    using signed by (auto simp: validate_abi_signature_ok)
  with assms(4-6) show ?thesis by (simp add: entry_admitted_def)
qed

text \<open>An ABI that the command line signs for an address is accepted there by the parser it configures
  (require-signed against the development key), and by the accept-unsigned posture.\<close>

lemma cli_signed_abi_accepted:
  assumes "k256_documented x" and "signing_key_from_bytes x CLI_DEV_SIGNING_KEY_SEED = Inr g"
    and "sign_abi_for_cli x True json a c = Inr sig" and "abi_signature abi = Some sig"
    and "abi_value abi = json" and "length json \<le> MAX_ABI_JSON_BYTES"
  shows "entry_admitted x c (RequireAllowlistedSigner (authorized_abi_signers x True env)) a abi
    \<and> entry_admitted x c AcceptUnsigned a abi"
  using assms by (rule cli_admitted)

lemma insert_signers_Inr:
  "insert_signers x es a = Inr b \<longleftrightarrow>
     list_all (\<lambda>e. canonical_pubkey_from_hex x (trim e) \<noteq> None) es
     \<and> b = \<lparr>keys = keys a \<union> {k. \<exists>e\<in>set es. canonical_pubkey_from_hex x (trim e) = Some k}\<rparr>"
proof (induction es arbitrary: a)
  case (Cons e es)
  show ?case
    by (cases "canonical_pubkey_from_hex x (trim e)") (auto simp: Cons.IH ok_or_def allowlist_insert_def)
next
  case Nil
  show ?case by (cases a) auto
qed

text \<open>The deploy-time keys become exactly the allowlist, in whatever encoding they were given; one bad
  key refuses them all.\<close>

lemma deployed_signers_exact:
  "signer_allowlist_from_hex x es = Inr allow \<longleftrightarrow>
     es \<noteq> [] \<and> (\<forall>e\<in>set es. canonical_pubkey_from_hex x (trim e) \<noteq> None)
     \<and> keys allow = {k. \<exists>e\<in>set es. canonical_pubkey_from_hex x (trim e) = Some k}"
  by (cases allow) (auto simp: signer_allowlist_from_hex_def insert_signers_Inr allowlist_new_def list_all_iff)


lemma sample_k256_documented: "k256_documented sample_k256"
  by (auto simp: k256_documented_def sample_k256_def split_hex_prefix_def)

definition sample_sig :: SignatureMetadata where
  "sample_sig = (case sign_abi_for_cli sample_k256 True ''[]'' (replicate 20 7) 1 of Inr s \<Rightarrow> s)"

definition sample_abi :: Abi where
  "sample_abi = \<lparr>abi_value = ''[]'', abi_signature = Some sample_sig, abi_abi_type = None,
     abi_implementation_address = None\<rparr>"

definition sample_ethereum :: EthereumMetadata where
  "sample_ethereum = \<lparr>eth_network_id = None, eth_abi_mappings = [(''0x07'', sample_abi)]\<rparr>"

lemma sample_signed_abi:
  "signing_key_from_bytes sample_k256 CLI_DEV_SIGNING_KEY_SEED = Inr CLI_DEV_SIGNING_KEY_SEED"
  "sign_abi_for_cli sample_k256 True ''[]'' (replicate 20 7) 1 = Inr sample_sig"
  by (simp_all add: sample_sig_def sample_k256_def sign_abi_for_cli_def sign_abi_def Let_def)

lemma sample_accepted_entry:
  "accepted_entry sample_k256 1 (RequireAllowlistedSigner (authorized_abi_signers sample_k256 True None))
     (''0x07'', sample_abi) = Some (replicate 20 7, ''[]'')"
proof -
  have "entry_admitted sample_k256 1 (RequireAllowlistedSigner (authorized_abi_signers sample_k256 True None))
      (replicate 20 7) sample_abi"
    by (rule cli_admitted [OF sample_k256_documented sample_signed_abi, THEN conjunct1])
      (simp_all add: sample_abi_def MAX_ABI_JSON_BYTES_def)
  then show ?thesis by (simp add: accepted_entry_def sample_k256_def sample_abi_def)
qed

theorem abi_signer_required_witness:
  "\<exists>sig v. signature_by sample_k256 ''[]'' (replicate 20 7) 1 (convert_proto_signature sig) v
     \<and> v \<in> keys (authorized_abi_signers sample_k256 True None)"
proof -
  let ?policy = "RequireAllowlistedSigner (authorized_abi_signers sample_k256 True None)"
  have d: "distinct (map fst (eth_abi_mappings sample_ethereum))" by (simp add: sample_ethereum_def)
  obtain reg n where ex: "extract_with_provenance sample_k256
      (Some \<lparr>chain_metadata_metadata = Some (EthereumMeta sample_ethereum)\<rparr>) 1 ?policy = (Some reg, n)"
    using abi_extraction(1) [OF d, of sample_k256 1 ?policy]
    by (cases "extract_with_provenance sample_k256
      (Some \<lparr>chain_metadata_metadata = Some (EthereumMeta sample_ethereum)\<rparr>) 1 ?policy")
      (fastforce simp: sample_ethereum_def sample_accepted_entry)
  have "get_abi_for_address reg 1 (replicate 20 7) = Some ''[]''"
    using abi_extraction(3) [OF d ex, of 1 "replicate 20 7"]
    by (simp add: entry_for_def sample_ethereum_def sample_accepted_entry)
  note abi_signer_required [OF d ex this]
  moreover have "key_uncompressed sample_k256 = (\<lambda>v. v)" "k_parse_json_abi sample_k256 = Inr"
    by (simp_all add: sample_k256_def)
  ultimately show ?thesis by (metis sum.inject(2))
qed

end
