(* ===== verification/PaymentMarker.thy ===== *)
theory PaymentMarker
  imports Borsh
begin

text \<open>
  \<^verbatim>\<open>host_primitives/src/payment_marker.rs\<close>: the payment marker, its Borsh encoding with the
  derived decoder, the signing digest and the hash that binds a marker to one request.
  \<^verbatim>\<open>qos_crypto::sha_256\<close> is the parameter \<open>sha\<close>.
\<close>

section \<open>Types\<close>

datatype PaymentDetails =
  X402Direct
    (txid: string) (payer: string) (pay_to: string) (amount: string) (mint: string)
    (x_payment_hash: bytes) (network: string)

record VerifiedPaymentMarker =
  vpm_version :: u32
  vpm_request_hash :: bytes
  vpm_details :: PaymentDetails
  vpm_settled_at_ms :: u64
  vpm_gateway_pubkey_hex :: string

definition VPM_VERSION :: u32 where
  "VPM_VERSION = 1"

record SignedVerifiedPaymentMarker =
  signed_vpm :: VerifiedPaymentMarker
  signed_signature :: bytes

section \<open>Encoding\<close>

text \<open>Derived \<^verbatim>\<open>BorshSerialize\<close>: fields in order, an enum as its variant index.\<close>

fun enc_details :: "PaymentDetails \<Rightarrow> bytes" where
  "enc_details (X402Direct t p q a m h n) =
     [0] @ enc_string t @ enc_string p @ enc_string q @ enc_string a @ enc_string m @ h @ enc_string n"

definition enc_vpm :: "VerifiedPaymentMarker \<Rightarrow> bytes" where
  "enc_vpm v = enc_u32 (vpm_version v) @ vpm_request_hash v @ enc_details (vpm_details v)
     @ enc_u64 (vpm_settled_at_ms v) @ enc_string (vpm_gateway_pubkey_hex v)"

definition enc_signed :: "SignedVerifiedPaymentMarker \<Rightarrow> bytes" where
  "enc_signed s = enc_vpm (signed_vpm s) @ sized 4 (signed_signature s)"

text \<open>Derived \<^verbatim>\<open>BorshDeserialize\<close>.\<close>

definition dec_details :: "PaymentDetails decoder" where
  "dec_details =
     dec_then (dec_take 1) (\<lambda>tag.
       if tag \<noteq> [0] then (\<lambda>_. None)
       else dec_then dec_string (\<lambda>t. dec_then dec_string (\<lambda>p. dec_then dec_string (\<lambda>q.
            dec_then dec_string (\<lambda>a. dec_then dec_string (\<lambda>m. dec_then (dec_take 32) (\<lambda>h.
            dec_then dec_string (\<lambda>n. dec_return (X402Direct t p q a m h n)))))))))"

definition dec_vpm :: "VerifiedPaymentMarker decoder" where
  "dec_vpm =
     dec_then dec_u32 (\<lambda>v. dec_then (dec_take 32) (\<lambda>h. dec_then dec_details (\<lambda>d.
     dec_then dec_u64 (\<lambda>t. dec_then dec_string (\<lambda>k.
       dec_return \<lparr>vpm_version = v, vpm_request_hash = h, vpm_details = d,
                   vpm_settled_at_ms = t, vpm_gateway_pubkey_hex = k\<rparr>)))))"

definition dec_signed :: "SignedVerifiedPaymentMarker decoder" where
  "dec_signed =
     dec_then dec_vpm (\<lambda>v. dec_then dec_vec (\<lambda>s. dec_return \<lparr>signed_vpm = v, signed_signature = s\<rparr>))"

text \<open>The values a Rust program can hold and encode: arrays of their length, strings that are
  UTF-8, nothing longer than a \<^verbatim>\<open>u32\<close> length can say.\<close>

fun details_ok :: "PaymentDetails \<Rightarrow> bool" where
  "details_ok (X402Direct t p q a m h n) =
     (list_all rust_string [t, p, q, a, m, n] \<and> length h = 32)"

definition vpm_ok :: "VerifiedPaymentMarker \<Rightarrow> bool" where
  "vpm_ok v = (length (vpm_request_hash v) = 32 \<and> details_ok (vpm_details v)
     \<and> rust_string (vpm_gateway_pubkey_hex v))"

definition signed_ok :: "SignedVerifiedPaymentMarker \<Rightarrow> bool" where
  "signed_ok s = (vpm_ok (signed_vpm s) \<and> fits32 (signed_signature s))"

section \<open>Digests\<close>

text \<open>\<^verbatim>\<open>signing_digest\<close>: encoding fails only on a string too long for its length prefix.\<close>

definition signing_digest :: "(bytes \<Rightarrow> bytes) \<Rightarrow> VerifiedPaymentMarker \<Rightarrow> bytes option" where
  "signing_digest sha v = (if vpm_ok v then Some (sha (enc_vpm v)) else None)"

text \<open>The buffer \<^verbatim>\<open>request_hash\<close> fills; \<^verbatim>\<open>as u32\<close> cuts the lengths to four bytes.\<close>

definition request_preimage :: "32 word \<Rightarrow> string \<Rightarrow> bytes \<Rightarrow> bool \<Rightarrow> bytes" where
  "request_preimage chain unsigned_payload chain_metadata_bytes include_intermediate_output =
     le_bytes 4 (unat chain)
     @ le_bytes 4 (length unsigned_payload) @ as_bytes unsigned_payload
     @ le_bytes 4 (length chain_metadata_bytes) @ chain_metadata_bytes
     @ [if include_intermediate_output then 1 else 0]"

definition request_hash :: "(bytes \<Rightarrow> bytes) \<Rightarrow> 32 word \<Rightarrow> string \<Rightarrow> bytes \<Rightarrow> bool \<Rightarrow> bytes" where
  "request_hash sha chain unsigned_payload chain_metadata_bytes include_intermediate_output =
     sha (request_preimage chain unsigned_payload chain_metadata_bytes include_intermediate_output)"

section \<open>The codecs\<close>

lemmas codec_iffs = dec_then_Some dec_return_Some dec_take_iff u32.dec_iff u64.dec_iff
  vec.dec_iff str.dec_iff

lemma dec_details_iff: "dec_details bs = Some (d, r) \<longleftrightarrow> details_ok d \<and> bs = enc_details d @ r"
proof (cases d)
  case (X402Direct t p q a m h n)
  then show ?thesis
    by (simp add: dec_details_def codec_iffs if_distrib [of "\<lambda>f. f _"] cong: if_cong) auto
qed

interpretation details: codec enc_details dec_details details_ok
  by unfold_locales (auto simp: dec_details_iff)

lemma dec_vpm_iff: "dec_vpm bs = Some (v, r) \<longleftrightarrow> vpm_ok v \<and> bs = enc_vpm v @ r"
  by (cases v) (auto simp: dec_vpm_def codec_iffs details.dec_iff vpm_ok_def enc_vpm_def)

interpretation vpm: codec enc_vpm dec_vpm vpm_ok
  by unfold_locales (auto simp: dec_vpm_iff)

lemma dec_signed_iff: "dec_signed bs = Some (s, r) \<longleftrightarrow> signed_ok s \<and> bs = enc_signed s @ r"
  by (cases s) (auto simp: dec_signed_def codec_iffs vpm.dec_iff signed_ok_def enc_signed_def)

interpretation signed: codec enc_signed dec_signed signed_ok
  by unfold_locales (auto simp: dec_signed_iff)

section \<open>The request preimage\<close>

lemma request_preimage_fields:
  "request_preimage c p m i = le_bytes 4 (unat c) @ concat (map (sized 4) [as_bytes p, m]) @ [if i then 1 else 0]"
  by (simp add: request_preimage_def sized_def)

lemma request_preimage_inject:
  assumes "fits32 (as_bytes p)" "fits32 m" "fits32 (as_bytes p')" "fits32 m'"
    and eq: "request_preimage c p m i = request_preimage c' p' m' i'"
  shows "c = c' \<and> p = p' \<and> m = m' \<and> i = i'"
proof -
  from eq have "enc_u32 c @ concat (map (sized 4) [as_bytes p, m]) @ [if i then 1 else 0]
      = enc_u32 c' @ concat (map (sized 4) [as_bytes p', m']) @ [if i' then 1 else 0]"
    by (simp only: request_preimage_fields enc_u32_def)
  from u32.front [OF TrueI TrueI this] have c: "c = c'"
    and rest: "concat (map (sized 4) [as_bytes p, m]) @ [if i then 1 else 0]
      = concat (map (sized 4) [as_bytes p', m']) @ [if i' then 1 else 0]" by simp_all
  have "[as_bytes p, m] = [as_bytes p', m'] \<and> [if i then 1 else 0 :: byte] = [if i' then 1 else 0]"
    by (rule sized32.seq_front [OF _ _ _ rest]) (use assms in simp_all)
  with c show ?thesis by (auto simp: inj_as_bytes split: if_splits)
qed

section \<open>Properties\<close>

text \<open>Bytes decode to a signed marker exactly when they are its encoding: decoding inverts
  encoding, rejects trailing bytes, and no second byte string decodes to the same marker.\<close>

lemma marker_codec_exact:
  "try_from_slice dec_signed bs = Some s \<longleftrightarrow> signed_ok s \<and> bs = enc_signed s"
  by (simp add: try_from_slice_Some dec_signed_iff)

text \<open>The bytes that \<^verbatim>\<open>request_hash\<close> hashes determine the chain, the payload, the metadata bytes and
  the intermediate-output flag, for payloads and metadata shorter than \<open>2 ^ 32\<close> bytes.\<close>

lemma request_hash_binds:
  assumes "list_all fits32 [as_bytes p, m, as_bytes p', m']"
  shows "request_preimage c p m i = request_preimage c' p' m' i' \<longleftrightarrow> (c, p, m, i) = (c', p', m', i')"
  using request_preimage_inject [of p m p' m' c i c' i'] assms by auto

end
