(* ===== verification/PaymentVerify.thy ===== *)
theory PaymentVerify
  imports PaymentMarker ChainMeta Encodings
begin

text \<open>
  \<^verbatim>\<open>parser/app/src/payment_verify.rs\<close> with the error type of \<^verbatim>\<open>parser/app/src/errors.rs\<close> and the
  request message. Code outside the repository is the record \<open>Externals\<close>: SHA-256, the hex codec,
  the texts of Borsh errors, and the P-256 public key operations (keys of type \<open>'k\<close>).
\<close>

section \<open>Errors and messages\<close>

datatype Code =
    CodeOk | Cancelled | CodeUnknown | InvalidArgument | DeadlineExceeded | NotFound | AlreadyExists
  | PermissionDenied | Unauthenticated | ResourceExhausted | FailedPrecondition | Aborted | OutOfRange
  | Unimplemented | Internal | Unavailable | DataLoss

record GrpcError =
  grpc_code :: Code
  grpc_message :: string

definition grpc_error :: "Code \<Rightarrow> string \<Rightarrow> GrpcError" where
  "grpc_error c m = \<lparr>grpc_code = c, grpc_message = m\<rparr>"

definition grpc_internal :: "string \<Rightarrow> GrpcError" where
  "grpc_internal m = grpc_error Internal m"

record ParseRequest =
  req_unsigned_payload :: string
  req_chain :: "32 word"
  req_chain_metadata :: "ChainMetadata option"
  req_include_intermediate_output :: bool
  req_payment_marker :: bytes

record 'k Externals =
  sha_256 :: "bytes \<Rightarrow> bytes"
  hex_decode :: "string \<Rightarrow> (string, bytes) result"
  hex_encode :: "bytes \<Rightarrow> string"
  metadata_error :: "ChainMetadata \<Rightarrow> string"
  marker_error :: "bytes \<Rightarrow> string"
  digest_error :: "VerifiedPaymentMarker \<Rightarrow> string"
  public_from_bytes :: "bytes \<Rightarrow> (string, 'k) result"
  public_to_bytes :: "'k \<Rightarrow> bytes"
  public_verify :: "'k \<Rightarrow> bytes \<Rightarrow> bytes \<Rightarrow> bool"

section \<open>Policy\<close>

datatype 'k PaymentPolicy = Disabled | Required 'k

definition policy_from_hex :: "'k Externals \<Rightarrow> string \<Rightarrow> (GrpcError, 'k PaymentPolicy) result" where
  "policy_from_hex x hex_value =
     and_then (map_err (\<lambda>e. grpc_internal (''GATEWAY_SIGNING_PUBKEY_HEX hex decode: '' @ e))
                 (decode_hex (hex_decode x) (trim hex_value))) (\<lambda>bs.
       and_then (map_err (\<lambda>e. grpc_internal
                   (''GATEWAY_SIGNING_PUBKEY_HEX is not a valid P256 sign pubkey: '' @ e))
                   (public_from_bytes x bs)) (\<lambda>pinned. Inr (Required pinned)))"

definition chain_metadata_bytes :: "'k Externals \<Rightarrow> ChainMetadata option \<Rightarrow> (string, bytes) result" where
  "chain_metadata_bytes x m = (case m of None \<Rightarrow> Inr [] | Some v \<Rightarrow> borsh_chain_metadata (metadata_error x) v)"

section \<open>Verification\<close>

datatype PaymentVerifyError =
    Missing
  | Decode string
  | UnsupportedVersion u32
  | RequestHashMismatch
  | PinnedKeyMismatch
  | BadSignature
  | InternalError string

fun display_payment_error :: "PaymentVerifyError \<Rightarrow> string" where
  "display_payment_error Missing = ''payment marker is required for this endpoint''"
| "display_payment_error (Decode m) = ''payment marker decode error: '' @ m"
| "display_payment_error (UnsupportedVersion v) =
     ''payment marker version '' @ nat_str (unat v) @ '' is not supported''"
| "display_payment_error RequestHashMismatch =
     ''payment marker does not match this request (request_hash mismatch)''"
| "display_payment_error PinnedKeyMismatch =
     ''payment marker gateway_pubkey_hex does not match pinned key''"
| "display_payment_error BadSignature = ''payment marker signature verification failed''"
| "display_payment_error (InternalError m) = ''internal error verifying payment marker: '' @ m"

fun payment_error_code :: "PaymentVerifyError \<Rightarrow> Code" where
  "payment_error_code (Decode m) = InvalidArgument"
| "payment_error_code (UnsupportedVersion v) = InvalidArgument"
| "payment_error_code Missing = FailedPrecondition"
| "payment_error_code RequestHashMismatch = FailedPrecondition"
| "payment_error_code PinnedKeyMismatch = FailedPrecondition"
| "payment_error_code BadSignature = FailedPrecondition"
| "payment_error_code (InternalError m) = Internal"

definition grpc_of_payment_error :: "PaymentVerifyError \<Rightarrow> GrpcError" where
  "grpc_of_payment_error e = grpc_error (payment_error_code e) (display_payment_error e)"

definition MAX_PAYMENT_MARKER_BYTES :: nat where
  "MAX_PAYMENT_MARKER_BYTES = 8 * 1024"

text \<open>\<^verbatim>\<open>verify\<close>, with every early return in the order of the source.\<close>

definition check_marker ::
  "'k Externals \<Rightarrow> 'k \<Rightarrow> ParseRequest \<Rightarrow> SignedVerifiedPaymentMarker
    \<Rightarrow> (PaymentVerifyError, unit) result" where
  "check_marker x pinned req s =
     (let v = signed_vpm s
      in if vpm_version v \<noteq> VPM_VERSION then Inl (UnsupportedVersion (vpm_version v))
         else and_then (map_err (\<lambda>e. InternalError (''chain_metadata borsh encode: '' @ e))
                (chain_metadata_bytes x (req_chain_metadata req))) (\<lambda>mb.
           if request_hash (sha_256 x) (req_chain req) (req_unsigned_payload req) mb
                (req_include_intermediate_output req) \<noteq> vpm_request_hash v
           then Inl RequestHashMismatch
           else and_then (map_err (\<lambda>_. Decode ''gateway_pubkey_hex is not valid hex'')
                  (decode_hex (hex_decode x) (trim (vpm_gateway_pubkey_hex v)))) (\<lambda>claimed.
             if claimed \<noteq> public_to_bytes x pinned then Inl PinnedKeyMismatch
             else and_then (ok_or (InternalError (''payment marker signing_digest: '' @ digest_error x v))
                    (signing_digest (sha_256 x) v)) (\<lambda>digest.
               if public_verify x pinned digest (signed_signature s) then Inr () else Inl BadSignature))))"

definition verify ::
  "'k Externals \<Rightarrow> ParseRequest \<Rightarrow> 'k PaymentPolicy \<Rightarrow> (PaymentVerifyError, unit) result" where
  "verify x req policy =
     (case policy of
        Disabled \<Rightarrow> Inr ()
      | Required pinned \<Rightarrow>
          if req_payment_marker req = [] then Inl Missing
          else if length (req_payment_marker req) > MAX_PAYMENT_MARKER_BYTES
          then Inl (Decode (''payment marker is '' @ nat_str (length (req_payment_marker req))
                 @ '' bytes, exceeds '' @ nat_str MAX_PAYMENT_MARKER_BYTES @ '' byte limit''))
          else and_then (ok_or (Decode (marker_error x (req_payment_marker req)))
                 (try_from_slice dec_signed (req_payment_marker req))) (check_marker x pinned req))"

section \<open>Facts\<close>

text \<open>What a marker must satisfy to be accepted for a request under a pinned key.\<close>

definition marker_for :: "'k Externals \<Rightarrow> 'k \<Rightarrow> ParseRequest \<Rightarrow> SignedVerifiedPaymentMarker \<Rightarrow> bool" where
  "marker_for x pinned req s \<longleftrightarrow>
     (let v = signed_vpm s
      in signed_ok s \<and> vpm_version v = VPM_VERSION
         \<and> (\<exists>mb. chain_metadata_bytes x (req_chain_metadata req) = Inr mb
              \<and> vpm_request_hash v = sha_256 x (request_preimage (req_chain req) (req_unsigned_payload req) mb
                   (req_include_intermediate_output req)))
         \<and> hex_decode x (strip_hex_prefix (trim (vpm_gateway_pubkey_hex v))) = Inr (public_to_bytes x pinned)
         \<and> public_verify x pinned (sha_256 x (enc_vpm v)) (signed_signature s))"

lemma check_marker_ok:
  "signed_ok s \<Longrightarrow> check_marker x pinned req s = Inr () \<longleftrightarrow> marker_for x pinned req s"
  by (auto simp: check_marker_def marker_for_def Let_def and_then_Inr_iff request_hash_def decode_hex_def
      signing_digest_def signed_ok_def split: if_splits)

lemma verify_ok_iff:
  "verify x req (Required pinned) = Inr () \<longleftrightarrow>
     length (req_payment_marker req) \<le> MAX_PAYMENT_MARKER_BYTES
     \<and> (\<exists>s. req_payment_marker req = enc_signed s \<and> marker_for x pinned req s)"
proof -
  have ne: "enc_signed s \<noteq> []" for s
    by (simp add: enc_signed_def enc_vpm_def enc_u32_def sized_def) (metis length_le_bytes list.size(3) zero_neq_numeral)
  show ?thesis
    by (auto simp: verify_def and_then_Inr_iff try_from_slice_Some dec_signed_iff check_marker_ok ne ne [symmetric]
        marker_for_def Let_def split: if_splits)
qed

section \<open>Properties\<close>

text \<open>C4: with payments required, a request passes exactly when its marker is at most 8 KiB and is the
  encoding of a well-formed marker of the supported version whose request hash is the hash of this
  request, whose key decodes to the pinned key, and whose signature verifies over the marker's
  digest; with payments disabled every request passes.\<close>

theorem payment_exact:
  "(verify x req (Required pinned) = Inr () \<longleftrightarrow>
     length (req_payment_marker req) \<le> MAX_PAYMENT_MARKER_BYTES
     \<and> (\<exists>s. req_payment_marker req = enc_signed s \<and> marker_for x pinned req s))
   \<and> verify x req Disabled = Inr ()"
  by (simp only: verify_ok_iff) (simp add: verify_def)

text \<open>The bytes of a request that a marker is bound to.\<close>

definition request_bytes :: "'k Externals \<Rightarrow> ParseRequest \<Rightarrow> bytes" where
  "request_bytes x req =
     request_preimage (req_chain req) (req_unsigned_payload req)
       (case chain_metadata_bytes x (req_chain_metadata req) of Inr mb \<Rightarrow> mb | Inl _ \<Rightarrow> [])
       (req_include_intermediate_output req)"

lemma accepted_request_hash:
  assumes "verify x req (Required pinned) = Inr ()"
  shows "\<exists>s. req_payment_marker req = enc_signed s \<and> signed_ok s
    \<and> vpm_request_hash (signed_vpm s) = sha_256 x (request_bytes x req)"
  using assms by (auto simp: verify_ok_iff marker_for_def Let_def request_bytes_def)

text \<open>The metadata part of those bytes determines the metadata.\<close>

definition metadata_part :: "ParseRequest \<Rightarrow> bytes" where
  "metadata_part req = (case req_chain_metadata req of None \<Rightarrow> [] | Some m \<Rightarrow> enc_chain_metadata m)"

lemma chain_metadata_bytes_Inr:
  "chain_metadata_bytes x (req_chain_metadata req) = Inr mb \<longleftrightarrow>
     pred_option chain_metadata_fits (req_chain_metadata req) \<and> mb = metadata_part req"
  by (auto simp: chain_metadata_bytes_def borsh_chain_metadata_def metadata_part_def split: option.splits)

lemma metadata_part_inject:
  assumes "pred_option chain_metadata_fits (req_chain_metadata r1)"
    and "pred_option chain_metadata_fits (req_chain_metadata r2)"
    and "metadata_part r1 = metadata_part r2"
  shows "req_chain_metadata r1 = req_chain_metadata r2"
  using assms enc_chain_metadata_ne enc_chain_metadata_ne [symmetric]
  by (cases "req_chain_metadata r1"; cases "req_chain_metadata r2")
    (auto simp: metadata_part_def enc_chain_metadata_inject)

lemma accepted_metadata:
  assumes "verify x req (Required pinned) = Inr ()"
  shows "pred_option chain_metadata_fits (req_chain_metadata req)
    \<and> chain_metadata_bytes x (req_chain_metadata req) = Inr (metadata_part req)"
  using assms by (auto simp: verify_ok_iff marker_for_def Let_def chain_metadata_bytes_Inr)

text \<open>C5: one marker cannot pay for two different requests: if it is accepted for both, they agree on
  chain, payload, the whole metadata message (every ABI, IDL and token entry with its signature) and
  the intermediate-output flag, or their bytes are a collision of the hash function.\<close>

theorem marker_not_reusable:
  assumes "verify x r1 (Required k) = Inr ()" and "verify x r2 (Required k) = Inr ()"
    and "req_payment_marker r1 = req_payment_marker r2"
    and "list_all fits32 [as_bytes (req_unsigned_payload r1), metadata_part r1,
      as_bytes (req_unsigned_payload r2), metadata_part r2]"
  shows "(req_chain r1, req_unsigned_payload r1, req_chain_metadata r1, req_include_intermediate_output r1)
      = (req_chain r2, req_unsigned_payload r2, req_chain_metadata r2, req_include_intermediate_output r2)
    \<or> request_bytes x r1 \<noteq> request_bytes x r2 \<and> sha_256 x (request_bytes x r1) = sha_256 x (request_bytes x r2)"
proof -
  note meta = accepted_metadata [OF assms(1)] accepted_metadata [OF assms(2)]
  obtain s1 s2 where "enc_signed s1 = enc_signed s2" "signed_ok s1" "signed_ok s2"
    and h: "vpm_request_hash (signed_vpm s1) = sha_256 x (request_bytes x r1)"
      "vpm_request_hash (signed_vpm s2) = sha_256 x (request_bytes x r2)"
    using accepted_request_hash [OF assms(1)] accepted_request_hash [OF assms(2)] assms(3) by metis
  then have "s1 = s2" by (simp add: signed.enc_inject)
  with h have sha: "sha_256 x (request_bytes x r1) = sha_256 x (request_bytes x r2)" by simp
  have "request_bytes x r1 = request_bytes x r2 \<Longrightarrow> req_chain r1 = req_chain r2
      \<and> req_unsigned_payload r1 = req_unsigned_payload r2 \<and> metadata_part r1 = metadata_part r2
      \<and> req_include_intermediate_output r1 = req_include_intermediate_output r2"
    by (rule request_preimage_inject) (use assms(4) meta in \<open>simp_all add: request_bytes_def\<close>)
  with sha meta show ?thesis using metadata_part_inject by auto
qed

definition sample_externals :: "unit Externals" where
  "sample_externals =
     \<lparr>sha_256 = (\<lambda>bs. bs), hex_decode = (\<lambda>s. if s = ''0102'' then Inr [1, 2] else Inl ''bad''),
      hex_encode = (\<lambda>_. ''ff''), metadata_error = (\<lambda>_. ''bad''), marker_error = (\<lambda>_. ''bad''),
      digest_error = (\<lambda>_. ''bad''), public_from_bytes = (\<lambda>_. Inr ()), public_to_bytes = (\<lambda>_. [1, 2]),
      public_verify = (\<lambda>_ _ s. s = [9])\<rparr>"

definition sample_signed :: SignedVerifiedPaymentMarker where
  "sample_signed =
     \<lparr>signed_vpm = \<lparr>vpm_version = 1,
        vpm_request_hash = request_preimage 3 ''ABCDEFGHIJKLMNOPQRS'' [] False,
        vpm_details = X402Direct ''t'' ''p'' ''q'' ''1'' ''m'' (replicate 32 0) ''n'',
        vpm_settled_at_ms = 5, vpm_gateway_pubkey_hex = ''0102''\<rparr>,
      signed_signature = [9]\<rparr>"

definition sample_request :: "ParseRequest" where
  "sample_request =
     \<lparr>req_unsigned_payload = ''ABCDEFGHIJKLMNOPQRS'', req_chain = 3, req_chain_metadata = None,
      req_include_intermediate_output = False, req_payment_marker = enc_signed sample_signed\<rparr>"

lemma sample_accepted: "verify sample_externals sample_request (Required ()) = Inr ()"
proof -
  have "signed_ok sample_signed"
    by (simp add: sample_signed_def signed_ok_def vpm_ok_def rust_string_def fits32_def code_def request_preimage_def)
  moreover have "trim ''0102'' = ''0102''"
    by (simp add: trim_def trim_end_def trim_start.simps trim_end_rev.simps ws_prefix_len_def ws_suffix_len_def
        ws_encodings_def code_def)
  ultimately have "marker_for sample_externals () sample_request sample_signed"
    by (simp add: marker_for_def Let_def sample_externals_def sample_request_def sample_signed_def
        chain_metadata_bytes_def VPM_VERSION_def strip_hex_prefix_def)
  moreover have "length (enc_signed sample_signed) \<le> MAX_PAYMENT_MARKER_BYTES"
    by (simp add: enc_signed_def enc_vpm_def sample_signed_def enc_u32_def enc_u64_def enc_string_def
        sized_def request_preimage_def MAX_PAYMENT_MARKER_BYTES_def)
  ultimately show ?thesis by (auto simp: verify_ok_iff sample_request_def)
qed

theorem marker_not_reusable_witness:
  "(req_chain sample_request, req_unsigned_payload sample_request, req_chain_metadata sample_request,
      req_include_intermediate_output sample_request)
    = (req_chain sample_request, req_unsigned_payload sample_request, req_chain_metadata sample_request,
      req_include_intermediate_output sample_request)
    \<or> request_bytes sample_externals sample_request \<noteq> request_bytes sample_externals sample_request
      \<and> sha_256 sample_externals (request_bytes sample_externals sample_request)
        = sha_256 sample_externals (request_bytes sample_externals sample_request)"
  by (rule marker_not_reusable [OF sample_accepted sample_accepted refl])
    (simp add: sample_request_def metadata_part_def fits32_def)

lemma check_marker_code:
  assumes "check_marker x k req s = Inl e"
  shows "payment_error_code e = InvalidArgument \<longleftrightarrow>
    vpm_version (signed_vpm s) \<noteq> VPM_VERSION
    \<or> (\<exists>m. chain_metadata_bytes x (req_chain_metadata req) = Inr m)
      \<and> vpm_request_hash (signed_vpm s) = sha_256 x (request_bytes x req)
      \<and> \<not> is_ok (hex_decode x (strip_hex_prefix (trim (vpm_gateway_pubkey_hex (signed_vpm s)))))"
proof (cases "vpm_version (signed_vpm s) = VPM_VERSION")
  case version: True
  show ?thesis
  proof (cases "chain_metadata_bytes x (req_chain_metadata req)")
    case (Inr m)
    then have hash: "request_hash (sha_256 x) (req_chain req) (req_unsigned_payload req) m
        (req_include_intermediate_output req) = sha_256 x (request_bytes x req)"
      by (simp add: request_hash_def request_bytes_def)
    show ?thesis
    proof (cases "hex_decode x (strip_hex_prefix (trim (vpm_gateway_pubkey_hex (signed_vpm s))))")
      case Inl': (Inl d)
      show ?thesis using assms version Inr Inl' hash
        by (auto simp: check_marker_def Let_def decode_hex_def split: if_splits)
    next
      case Inr': (Inr bs)
      show ?thesis using assms version Inr Inr' hash
        by (cases "signing_digest (sha_256 x) (signed_vpm s)")
          (auto simp: check_marker_def Let_def decode_hex_def ok_or_def split: if_splits)
    qed
  qed (use assms version in \<open>auto simp: check_marker_def\<close>)
qed (use assms in \<open>auto simp: check_marker_def\<close>)

text \<open>A rejection is reported as an invalid argument (and not as a payment that is due) exactly when
  a marker is present but can never be accepted: too long, not a marker, of another version, or with a
  key field that is not hexadecimal although the marker is bound to this request.\<close>

lemma payment_error_codes:
  assumes "verify x req (Required k) = Inl e"
  shows "payment_error_code e = InvalidArgument \<longleftrightarrow>
    req_payment_marker req \<noteq> []
    \<and> (length (req_payment_marker req) > MAX_PAYMENT_MARKER_BYTES
       \<or> (case try_from_slice dec_signed (req_payment_marker req) of
            None \<Rightarrow> True
          | Some s \<Rightarrow> vpm_version (signed_vpm s) \<noteq> VPM_VERSION
              \<or> (\<exists>m. chain_metadata_bytes x (req_chain_metadata req) = Inr m)
                \<and> vpm_request_hash (signed_vpm s) = sha_256 x (request_bytes x req)
                \<and> \<not> is_ok (hex_decode x (strip_hex_prefix (trim (vpm_gateway_pubkey_hex (signed_vpm s)))))))"
proof (cases "req_payment_marker req = [] \<or> length (req_payment_marker req) > MAX_PAYMENT_MARKER_BYTES")
  case True
  with assms show ?thesis by (auto simp: verify_def)
next
  case False
  then show ?thesis
    using assms check_marker_code [of x k req _ e]
    by (cases "try_from_slice dec_signed (req_payment_marker req)") (auto simp: verify_def ok_or_def)
qed

end
