(* ===== verification/AppParse.thy ===== *)
theory AppParse
  imports PaymentVerify Registry Signing
begin

text \<open>
  \<^verbatim>\<open>parser/app/src\<close>: the parse endpoint (\<^verbatim>\<open>routes/parse.rs\<close>), the deploy-time configuration
  (\<^verbatim>\<open>config.rs\<close>), the chain conversion (\<^verbatim>\<open>chain_conversion.rs\<close>) and the registry set-up
  (\<^verbatim>\<open>registry.rs\<close>). The ephemeral signing key is of type \<open>'p\<close>. A panic of the source is \<open>None\<close>.
\<close>

section \<open>Configuration\<close>

record 'k ParserConfig =
  abi_trust :: MetadataTrustPolicy
  payment :: "'k PaymentPolicy"

definition config_new :: "MetadataTrustPolicy \<Rightarrow> 'k PaymentPolicy \<Rightarrow> 'k ParserConfig" where
  "config_new a p = \<lparr>abi_trust = a, payment = p\<rparr>"

definition config_accept_unsigned :: "'k ParserConfig" where
  "config_accept_unsigned = config_new AcceptUnsigned Disabled"

text \<open>
  \<^verbatim>\<open>resolve_signers\<close>: with the \<^verbatim>\<open>ethereum\<close> feature the keys are decoded by the Ethereum crate
  (\<open>from_hex\<close>), without it the option is refused.
\<close>

definition resolve_signers ::
  "bool \<Rightarrow> (string list \<Rightarrow> (string, SignerAllowlist) result) \<Rightarrow> string list
    \<Rightarrow> (string, MetadataTrustPolicy) result" where
  "resolve_signers ethereum from_hex signer_pubkeys =
     (if ethereum then and_then (from_hex signer_pubkeys) (\<lambda>a. Inr (RequireAllowlistedSigner a))
      else Inl ''--accept-signatures-from-pubkey requires a build with the ethereum feature'')"

definition abi_trust_from_options ::
  "bool \<Rightarrow> (string list \<Rightarrow> (string, SignerAllowlist) result) \<Rightarrow> bool \<Rightarrow> string list
    \<Rightarrow> (string, MetadataTrustPolicy) result" where
  "abi_trust_from_options ethereum from_hex accept_unsigned signer_pubkeys =
     (case (accept_unsigned, signer_pubkeys = []) of
        (True, True) \<Rightarrow> Inr AcceptUnsigned
      | (False, False) \<Rightarrow> resolve_signers ethereum from_hex signer_pubkeys
      | (True, False) \<Rightarrow> Inl (''--accept-unsigned-abis and --accept-signatures-from-pubkey are mutually ''
           @ ''exclusive: pick the one posture this deployment runs'')
      | (False, True) \<Rightarrow> Inl (''one of --accept-unsigned-abis or --accept-signatures-from-pubkey <hex> is ''
           @ ''required: the ABI trust posture must be chosen at deploy time so a signer ''
           @ ''can verify it''))"

section \<open>Chains\<close>

datatype ProtoChain =
    ProtoUnspecified | ProtoBitcoin | ProtoEthereum | ProtoSolana | ProtoSui | ProtoTron | ProtoNear
  | ProtoCustom

definition proto_try_from :: "32 word \<Rightarrow> ProtoChain option" where
  "proto_try_from n =
     map_of [(0, ProtoUnspecified), (1, ProtoBitcoin), (2, ProtoEthereum), (3, ProtoSolana),
             (4, ProtoSui), (5, ProtoTron), (6, ProtoNear), (999, ProtoCustom)] (sint n)"

fun proto_to_registry :: "ProtoChain \<Rightarrow> Chain" where
  "proto_to_registry ProtoSolana = Solana"
| "proto_to_registry ProtoEthereum = Ethereum"
| "proto_to_registry ProtoSui = Sui"
| "proto_to_registry ProtoTron = Tron"
| "proto_to_registry ProtoNear = Near"
| "proto_to_registry ProtoUnspecified = Unspecified"
| "proto_to_registry ProtoBitcoin = Custom ''custom_unknown''"
| "proto_to_registry ProtoCustom = Custom ''custom_unknown''"

text \<open>\<^verbatim>\<open>create_registry\<close>: the Cargo features and the chain crates' converters are parameters.\<close>

record ChainConverters =
  ethereum_converter :: "MetadataTrustPolicy \<Rightarrow> ConverterAny"
  solana_converter :: "ConverterAny"
  sui_converter :: "ConverterAny"
  tron_converter :: "ConverterAny"
  near_converter :: "ConverterAny"
  unspecified_converter :: "ConverterAny"

definition register_if ::
  "bool \<Rightarrow> Chain \<Rightarrow> ConverterAny \<Rightarrow> TransactionConverterRegistry \<Rightarrow> TransactionConverterRegistry" where
  "register_if b chain c reg = (if b then register reg chain c else reg)"

definition create_registry ::
  "(Chain \<Rightarrow> bool) \<Rightarrow> ChainConverters \<Rightarrow> 'k ParserConfig \<Rightarrow> TransactionConverterRegistry" where
  "create_registry feature cs config =
     register_if (feature Unspecified) Unspecified (unspecified_converter cs)
      (register_if (feature Near) Near (near_converter cs)
       (register_if (feature Tron) Tron (tron_converter cs)
        (register_if (feature Sui) Sui (sui_converter cs)
         (register_if (feature Solana) Solana (solana_converter cs)
          (register_if (feature Ethereum) Ethereum (ethereum_converter cs (abi_trust config))
           registry_new)))))"

section \<open>The parse endpoint\<close>

record ParsedTransactionPayload =
  parsed_payload :: string
  input_payload_digest :: string
  metadata_digest :: string
  signable_payload :: string
  intermediate_output :: bytes

record Signature =
  sig_scheme :: "32 word"
  sig_public_key :: string
  sig_message :: string
  sig_signature :: string

record ParsedTransaction =
  parsed_transaction_payload :: "ParsedTransactionPayload option"
  parsed_transaction_signature :: "Signature option"

record ParseResponse =
  parsed_transaction :: "ParsedTransaction option"

record ('k, 'p) AppExternals = "'k Externals" +
  pair_sign :: "'p \<Rightarrow> bytes \<Rightarrow> (string, bytes) result"
  pair_public_bytes :: "'p \<Rightarrow> bytes"

text \<open>The derived Borsh encoding of the payload leaves \<^verbatim>\<open>intermediate_output\<close> out.\<close>

definition payload_borsh :: "ParsedTransactionPayload \<Rightarrow> bytes option" where
  "payload_borsh p =
     (case (borsh_string (parsed_payload p), borsh_string (input_payload_digest p),
            borsh_string (metadata_digest p), borsh_string (signable_payload p)) of
        (Some a, Some b, Some c, Some d) \<Rightarrow> Some (a @ b @ c @ d)
      | _ \<Rightarrow> None)"

definition signing_digest_bytes :: "ParsedTransactionPayload \<Rightarrow> bytes option" where
  "signing_digest_bytes p =
     (case payload_borsh p of
        None \<Rightarrow> None
      | Some bs \<Rightarrow>
          if intermediate_output p = [] then Some bs
          else (case borsh_bytes (intermediate_output p) of
                  None \<Rightarrow> None
                | Some out \<Rightarrow> Some (bs @ out)))"

definition charset_grpc_error :: "VisualSignError \<Rightarrow> GrpcError" where
  "charset_grpc_error e =
     (case e of
        ValidationError _ \<Rightarrow> grpc_error InvalidArgument (display_error e)
      | _ \<Rightarrow> grpc_error Internal (display_error e))"

definition parse_options :: "ParseRequest \<Rightarrow> VisualSignOptions" where
  "parse_options req =
     \<lparr>decode_transfers = True, transaction_name = None, metadata = req_chain_metadata req,
      developer_config = None, include_intermediate_output = req_include_intermediate_output req\<rparr>"

definition build_payload ::
  "('k, 'p) AppExternals \<Rightarrow> string \<Rightarrow> string \<Rightarrow> bytes \<Rightarrow> bytes option \<Rightarrow> ParsedTransactionPayload" where
  "build_payload x text request_payload metadata_bytes out =
     \<lparr>parsed_payload = text,
      input_payload_digest = hex_encode x (sha_256 x (as_bytes request_payload)),
      metadata_digest = hex_encode x (sha_256 x metadata_bytes),
      signable_payload = text,
      intermediate_output = unwrap_or [] out\<rparr>"

definition sign_response ::
  "('k, 'p) AppExternals \<Rightarrow> 'p \<Rightarrow> ParsedTransactionPayload \<Rightarrow> bytes \<Rightarrow> (GrpcError, ParseResponse) result" where
  "sign_response x key payload digest_bytes =
     (let digest = sha_256 x digest_bytes
      in and_then (map_err (grpc_error Internal) (pair_sign x key digest)) (\<lambda>sig.
           Inr \<lparr>parsed_transaction = Some
             \<lparr>parsed_transaction_payload = Some payload,
              parsed_transaction_signature = Some
                \<lparr>sig_scheme = 1, sig_public_key = hex_encode x (pair_public_bytes x key),
                 sig_message = hex_encode x digest, sig_signature = hex_encode x sig\<rparr>\<rparr>\<rparr>))"

text \<open>Everything of \<^verbatim>\<open>parse_with_registry\<close> up to the payload that is signed.\<close>

definition prepare_payload ::
  "bool \<Rightarrow> (completeness_error \<Rightarrow> string) \<Rightarrow> ('k, 'p) AppExternals \<Rightarrow> ParseRequest
    \<Rightarrow> TransactionConverterRegistry \<Rightarrow> (GrpcError, ParsedTransactionPayload) result" where
  "prepare_payload po describe x req registry =
     (let request_payload = req_unsigned_payload req
      in if request_payload = [] then Inl (grpc_error InvalidArgument ''unsigned transaction is empty'')
         else and_then (ok_or (grpc_error InvalidArgument ''invalid chain'') (proto_try_from (req_chain req)))
           (\<lambda>proto_chain.
         and_then (map_err (\<lambda>e. grpc_error InvalidArgument (display_error e))
             (convert_transaction registry (proto_to_registry proto_chain) request_payload (parse_options req)))
           (\<lambda>conversion.
         and_then (map_err charset_grpc_error (validate_charset po describe (result_payload conversion)))
           (\<lambda>_.
         and_then (map_err (\<lambda>e. grpc_error Internal (''Failed to serialize payload: '' @ describe e))
             (payload_to_string po (result_payload conversion)))
           (\<lambda>text.
         and_then (map_err (\<lambda>e. grpc_error Internal (''chain_metadata borsh encode: '' @ e))
             (chain_metadata_bytes (Externals.truncate x) (req_chain_metadata req)))
           (\<lambda>metadata_bytes.
         Inr (build_payload x text request_payload metadata_bytes (result_intermediate_output conversion))))))))"

definition parse_with_registry ::
  "bool \<Rightarrow> (completeness_error \<Rightarrow> string) \<Rightarrow> ('k, 'p) AppExternals \<Rightarrow> ParseRequest \<Rightarrow> 'p
    \<Rightarrow> TransactionConverterRegistry \<Rightarrow> (GrpcError, ParseResponse) result option" where
  "parse_with_registry po describe x req key registry =
     (case prepare_payload po describe x req registry of
        Inl e \<Rightarrow> Some (Inl e)
      | Inr payload \<Rightarrow> map_option (sign_response x key payload) (signing_digest_bytes payload))"

definition parse ::
  "bool \<Rightarrow> (completeness_error \<Rightarrow> string) \<Rightarrow> ('k, 'p) AppExternals \<Rightarrow> (Chain \<Rightarrow> bool)
    \<Rightarrow> ChainConverters \<Rightarrow> ParseRequest \<Rightarrow> 'p \<Rightarrow> 'k ParserConfig
    \<Rightarrow> (GrpcError, ParseResponse) result option" where
  "parse po describe x feature cs req key config =
     (case verify (Externals.truncate x) req (payment config) of
        Inl e \<Rightarrow> Some (Inl (grpc_of_payment_error e))
      | Inr _ \<Rightarrow> parse_with_registry po describe x req key (create_registry feature cs config))"

section \<open>Facts\<close>

lemma payload_borsh_Some:
  "payload_borsh p = Some bs \<longleftrightarrow>
     list_all (\<lambda>s. fits32 (as_bytes s))
       [parsed_payload p, input_payload_digest p, metadata_digest p, signable_payload p]
     \<and> bs = concat (map (sized 4 \<circ> as_bytes)
       [parsed_payload p, input_payload_digest p, metadata_digest p, signable_payload p])"
  by (auto simp: payload_borsh_def borsh_string_def borsh_bytes_def)

lemma signing_digest_bytes_Some:
  "signing_digest_bytes p = Some bs \<longleftrightarrow>
     (\<exists>b. payload_borsh p = Some b \<and> fits32 (intermediate_output p)
        \<and> bs = b @ (if intermediate_output p = [] then [] else sized 4 (intermediate_output p)))"
  by (auto simp: signing_digest_bytes_def borsh_bytes_def fits32_def split: option.splits)

lemma signing_digest_inject:
  assumes p: "signing_digest_bytes p = Some bs" and q: "signing_digest_bytes q = Some bs"
  shows "p = q"
proof -
  define fields where "fields = (\<lambda>p :: ParsedTransactionPayload. map as_bytes
    [parsed_payload p, input_payload_digest p, metadata_digest p, signable_payload p])"
  define tail where "tail = (\<lambda>p :: ParsedTransactionPayload. if intermediate_output p = [] then [] else sized 4 (intermediate_output p))"
  have enc: "bs = concat (map (sized 4) (fields r)) @ tail r \<and> list_all fits32 (fields r)
      \<and> fits32 (intermediate_output r)"
    if "signing_digest_bytes r = Some bs" for r
    using that by (auto simp: signing_digest_bytes_Some payload_borsh_Some fields_def tail_def)
  from enc [OF p] enc [OF q]
  have "concat (map (sized 4) (fields p)) @ tail p = concat (map (sized 4) (fields q)) @ tail q" by simp
  then have fq: "fields p = fields q" and tq: "tail p = tail q"
    using sized32.seq_front [of "fields p" "fields q" "tail p" "tail q"] enc [OF p] enc [OF q]
    by (simp_all add: fields_def)
  have ne: "sized 4 b \<noteq> []" for b by (simp add: sized_def) (metis length_le_bytes list.size(3) zero_neq_numeral)
  have "intermediate_output p = intermediate_output q"
    using tq ne not_sym [OF ne] sized32.enc_inject [of "intermediate_output p" "intermediate_output q"] enc [OF p] enc [OF q]
    by (auto simp: tail_def split: if_splits)
  with fq show ?thesis
    by (cases p; cases q) (simp add: fields_def inj_as_bytes)
qed

lemma prepare_payload_Inr:
  "prepare_payload po describe x req registry = Inr payload \<longleftrightarrow>
     (\<exists>proto conversion text mb.
        req_unsigned_payload req \<noteq> [] \<and> proto_try_from (req_chain req) = Some proto
        \<and> convert_transaction registry (proto_to_registry proto) (req_unsigned_payload req) (parse_options req)
            = Inr conversion
        \<and> validate_charset po describe (result_payload conversion) = Inr ()
        \<and> payload_to_string po (result_payload conversion) = Inr text
        \<and> chain_metadata_bytes (Externals.truncate x) (req_chain_metadata req) = Inr mb
        \<and> payload = build_payload x text (req_unsigned_payload req) mb (result_intermediate_output conversion))"
  by (auto simp: prepare_payload_def Let_def and_then_Inr_iff)

lemma get_converter_create_registry:
  "get_converter (create_registry feature cs config) chain =
     (if feature chain then
        (case chain of
           Ethereum \<Rightarrow> Some (ethereum_converter cs (abi_trust config))
         | Solana \<Rightarrow> Some (solana_converter cs)
         | Sui \<Rightarrow> Some (sui_converter cs)
         | Tron \<Rightarrow> Some (tron_converter cs)
         | Near \<Rightarrow> Some (near_converter cs)
         | Unspecified \<Rightarrow> Some (unspecified_converter cs)
         | _ \<Rightarrow> None)
      else None)"
  by (cases chain)
    (auto simp: create_registry_def register_if_def get_converter_register registry_new_def get_converter_def
      register_def map_of_ix_insert)

section \<open>Properties\<close>

text \<open>Exactly one of the two trust options decides the posture: unsigned ABIs are accepted only when
  asked for with no signer, an allowlist is required only with signers in an Ethereum build, and both
  or neither is an error.\<close>

lemma abi_trust_exact:
  "(abi_trust_from_options ethereum from_hex accept_unsigned ks = Inr policy \<longleftrightarrow>
     accept_unsigned \<and> ks = [] \<and> policy = AcceptUnsigned
     \<or> \<not> accept_unsigned \<and> ks \<noteq> [] \<and> ethereum
       \<and> (\<exists>a. from_hex ks = Inr a \<and> policy = RequireAllowlistedSigner a))
   \<and> (accept_unsigned = (ks \<noteq> []) \<longrightarrow> \<not> is_ok (abi_trust_from_options ethereum from_hex accept_unsigned ks))"
  by (auto simp: abi_trust_from_options_def resolve_signers_def and_then_Inr_iff split: bool.splits)

text \<open>A request's chain reaches exactly the converter of that chain, when its feature is built in,
  with the deployment's trust policy for Ethereum; Bitcoin and custom chains never have one.\<close>

lemma chain_dispatch:
  "convert_transaction (create_registry feature cs config) (proto_to_registry proto) data options =
     (case (case proto of
              ProtoEthereum \<Rightarrow> if feature Ethereum then Some (ethereum_converter cs (abi_trust config)) else None
            | ProtoSolana \<Rightarrow> if feature Solana then Some (solana_converter cs) else None
            | ProtoSui \<Rightarrow> if feature Sui then Some (sui_converter cs) else None
            | ProtoTron \<Rightarrow> if feature Tron then Some (tron_converter cs) else None
            | ProtoNear \<Rightarrow> if feature Near then Some (near_converter cs) else None
            | ProtoUnspecified \<Rightarrow> if feature Unspecified then Some (unspecified_converter cs) else None
            | ProtoBitcoin \<Rightarrow> None
            | ProtoCustom \<Rightarrow> None) of
        Some c \<Rightarrow> any_convert c data options
      | None \<Rightarrow> Inl (ConversionError
          (''No converter registered for chain: '' @ chain_as_str (proto_to_registry proto))))"
  by (cases proto) (simp_all add: convert_transaction_def get_converter_create_registry)

text \<open>C32: the bytes that are signed determine the whole response payload, the optional intermediate
  output included: two payloads with the same signed bytes are equal.\<close>

theorem signed_bytes_injective:
  "case signing_digest_bytes p of
     None \<Rightarrow> True
   | Some bs \<Rightarrow> (signing_digest_bytes q = Some bs \<longleftrightarrow> q = p)"
  by (auto split: option.split dest: signing_digest_inject)

text \<open>C1: every signed response comes from a request whose payment was accepted; its text is printable
  ASCII without forbidden escapes, both text fields carry it, the digests are those of this request's
  payload and metadata, and the signature is the key's signature of the hash of exactly the bytes of
  the returned payload.\<close>

theorem response_sound:
  assumes "parse po describe x feature cs req key config = Some (Inr resp)"
  shows "\<exists>payload bs sig.
    verify (Externals.truncate x) req (payment config) = Inr ()
    \<and> resp = \<lparr>parsed_transaction = Some \<lparr>parsed_transaction_payload = Some payload,
        parsed_transaction_signature = Some \<lparr>sig_scheme = 1,
          sig_public_key = hex_encode x (pair_public_bytes x key),
          sig_message = hex_encode x (sha_256 x bs), sig_signature = hex_encode x sig\<rparr>\<rparr>\<rparr>
    \<and> text_ok (parsed_payload payload) \<and> signable_payload payload = parsed_payload payload
    \<and> input_payload_digest payload = hex_encode x (sha_256 x (as_bytes (req_unsigned_payload req)))
    \<and> pred_option chain_metadata_fits (req_chain_metadata req)
    \<and> metadata_digest payload = hex_encode x (sha_256 x (metadata_part req))
    \<and> signing_digest_bytes payload = Some bs \<and> pair_sign x key (sha_256 x bs) = Inr sig"
proof -
  from assms obtain payload bs where v: "verify (Externals.truncate x) req (payment config) = Inr ()"
    and prep: "prepare_payload po describe x req (create_registry feature cs config) = Inr payload"
    and bs: "signing_digest_bytes payload = Some bs"
    and resp: "sign_response x key payload bs = Inr resp"
    by (auto simp: parse_def parse_with_registry_def split: sum.splits)
  from resp obtain sig where sig: "pair_sign x key (sha_256 x bs) = Inr sig"
    "resp = \<lparr>parsed_transaction = Some \<lparr>parsed_transaction_payload = Some payload,
        parsed_transaction_signature = Some \<lparr>sig_scheme = 1,
          sig_public_key = hex_encode x (pair_public_bytes x key),
          sig_message = hex_encode x (sha_256 x bs), sig_signature = hex_encode x sig\<rparr>\<rparr>\<rparr>"
    by (auto simp: sign_response_def Let_def and_then_Inr_iff)
  from prep obtain conversion :: ConversionResult and doc mb where c: "validate_charset po describe (result_payload conversion) = Inr ()"
    "payload_to_string po (result_payload conversion) = Inr doc"
    "chain_metadata_bytes (Externals.truncate x) (req_chain_metadata req) = Inr mb"
    "payload = build_payload x doc (req_unsigned_payload req) mb (result_intermediate_output conversion)"
    unfolding prepare_payload_Inr by blast
  have "text_ok doc"
    using c(1,2) by (auto simp: payload_to_string_eq text_ok_json_print validate_charset_safe
        safe_payload_entries [unfolded safe_json_def] simp del: json_print.simps json_strings.simps)
  with v bs sig c show ?thesis by (auto simp: build_payload_def chain_metadata_bytes_Inr)
qed

definition sample_app :: "(unit, unit) AppExternals" where
  "sample_app = Externals.extend sample_externals
     (AppExternals.fields (\<lambda>_ d. Inr (take 4 d)) (\<lambda>_. [4]))"

definition sample_chains :: "ChainConverters" where
  "sample_chains =
     (let c = wrap_default True (\<lambda>_. ''e'') sample_converter
      in \<lparr>ethereum_converter = (\<lambda>_. c), solana_converter = c, sui_converter = c, tron_converter = c,
          near_converter = c, unspecified_converter = c\<rparr>)"

lemma sample_app_simps [simp]:
  "Externals.truncate sample_app = sample_externals" "pair_sign sample_app = (\<lambda>_ d. Inr (take 4 d))"
  "pair_public_bytes sample_app = (\<lambda>_. [4])" "sha_256 sample_app = (\<lambda>bs. bs)" "hex_encode sample_app = (\<lambda>_. ''ff'')"
  by (simp_all add: sample_app_def sample_externals_def Externals.defs AppExternals.defs)

lemma sample_parse:
  "\<exists>resp. parse True (\<lambda>_. ''e'') sample_app (\<lambda>_. True) sample_chains sample_request () (config_new AcceptUnsigned (Required ()))
     = Some (Inr resp)"
proof -
  let ?reg = "create_registry (\<lambda>_. True) sample_chains (config_new AcceptUnsigned (Required ()))"
  have "validate_charset True (\<lambda>_. ''e'') sample_payload = Inr ()"
    using sample_payload_safe by (simp add: validate_charset_safe)
  then have conv: "convert_transaction ?reg Solana (req_unsigned_payload sample_request) (parse_options sample_request)
      = Inr (conversion_new sample_payload)"
    by (simp add: convert_transaction_def get_converter_create_registry sample_chains_def Let_def wrap_default_def
        wrap_def sample_converter_def to_visual_sign_payload_from_string_def
        to_validated_visual_sign_payload_def conversion_new_def sample_request_def)
  obtain doc where doc: "payload_to_string True sample_payload = Inr doc" "length doc < 2 ^ 32"
    by (simp add: payload_to_string_eq payload_entries_def sample_payload_def entry_defs
        serialize_field_variant_def ix_collect_def bt_collect_def text_v2_value_def jobj_def jmap_collect_def
        jmap_insert_def esc_string_def esc_char_def code_def)
  have "proto_try_from (req_chain sample_request) = Some ProtoSolana"
    by (simp add: proto_try_from_def sample_request_def)
  with conv doc \<open>validate_charset True (\<lambda>_. ''e'') sample_payload = Inr ()\<close>
  have "prepare_payload True (\<lambda>_. ''e'') sample_app sample_request ?reg
      = Inr (build_payload sample_app doc (req_unsigned_payload sample_request) [] None)"
    by (simp add: prepare_payload_def Let_def ok_or_def conversion_new_def)
      (simp add: sample_request_def chain_metadata_bytes_def)
  moreover have "signing_digest_bytes (build_payload sample_app doc (req_unsigned_payload sample_request) [] None) \<noteq> None"
    using doc(2) by (simp add: signing_digest_bytes_def payload_borsh_def build_payload_def borsh_string_def
        borsh_bytes_def fits32_def)
  ultimately show ?thesis
    by (auto simp: parse_def sample_accepted config_new_def parse_with_registry_def sign_response_def Let_def)
qed

theorem response_sound_witness:
  "\<exists>payload bs. text_ok (parsed_payload payload) \<and> signing_digest_bytes payload = Some bs
     \<and> pair_sign sample_app () (sha_256 sample_app bs) = Inr (take 4 bs)"
proof -
  obtain resp where "parse True (\<lambda>_. ''e'') sample_app (\<lambda>_. True) sample_chains sample_request ()
      (config_new AcceptUnsigned (Required ())) = Some (Inr resp)" using sample_parse by blast
  from response_sound [OF this] show ?thesis by auto
qed

text \<open>C3: whatever a converter returns, a payload that fails the charset check is never signed: the
  request is answered with the invalid-argument code and the check's own message.\<close>

theorem unsafe_payload_rejected:
  assumes "req_unsigned_payload req \<noteq> []" and "proto_try_from (req_chain req) = Some proto"
    and "convert_transaction registry (proto_to_registry proto) (req_unsigned_payload req) (parse_options req)
      = Inr conversion"
    and "\<not> list_all safe_text (payload_strings (result_payload conversion))"
  shows "\<exists>m. parse_with_registry po describe x req key registry
    = Some (Inl (grpc_error InvalidArgument (''Validation failed: '' @ m)))"
proof -
  obtain e where e: "validate_charset po describe (result_payload conversion) = Inl e"
    using assms(4) validate_charset_safe [of po describe "result_payload conversion"]
    by (cases "validate_charset po describe (result_payload conversion)") auto
  have "check_printable i s = Inl e \<Longrightarrow> \<exists>m. e = ValidationError m" for i s
    by (induction i s rule: check_printable.induct) (auto split: if_splits)
  with e obtain m where "e = ValidationError m"
    by (auto simp: validate_charset_def to_json_canon restricted_characters_def split: if_splits)
  with assms(1-3) e show ?thesis
    by (auto simp: parse_with_registry_def prepare_payload_def Let_def ok_or_def charset_grpc_error_def)
qed

definition unsafe_payload :: SignablePayload where
  "unsafe_payload = sample_payload\<lparr>payload_title := [CHR 0x07]\<rparr>"

theorem unsafe_payload_rejected_witness:
  "\<exists>m. parse_with_registry True (\<lambda>_. ''e'') sample_app sample_request ()
      (register registry_new Solana (wrap (\<lambda>_. Inr ()) (\<lambda>_ _. Inr (conversion_new unsafe_payload))))
    = Some (Inl (grpc_error InvalidArgument (''Validation failed: '' @ m)))"
proof (rule unsafe_payload_rejected)
  show "req_unsigned_payload sample_request \<noteq> []" by (simp add: sample_request_def)
  show "proto_try_from (req_chain sample_request) = Some ProtoSolana"
    by (simp add: proto_try_from_def sample_request_def)
  show "convert_transaction (register registry_new Solana (wrap (\<lambda>_. Inr ()) (\<lambda>_ _. Inr (conversion_new unsafe_payload))))
      (proto_to_registry ProtoSolana) (req_unsigned_payload sample_request) (parse_options sample_request)
      = Inr (conversion_new unsafe_payload)"
    by (simp add: convert_transaction_def get_converter_register wrap_def)
  show "\<not> list_all safe_text (payload_strings (result_payload (conversion_new unsafe_payload)))"
    by (simp add: conversion_new_def unsafe_payload_def payload_strings_def safe_text_def safe_char_def code_def)
qed

text \<open>The endpoint does not panic on any payload text, digest or intermediate output shorter than
  \<open>2 ^ 32\<close> bytes.\<close>

lemma parse_total:
  assumes "\<And>payload. prepare_payload po describe x req registry = Inr payload \<Longrightarrow>
     list_all (\<lambda>n. n < 2 ^ 32)
       [length (parsed_payload payload), length (input_payload_digest payload),
        length (metadata_digest payload), length (intermediate_output payload)]"
  shows "\<exists>r. parse_with_registry po describe x req key registry = Some r"
proof (cases "prepare_payload po describe x req registry")
  case (Inr payload)
  then have same: "signable_payload payload = parsed_payload payload"
    by (auto simp: prepare_payload_Inr build_payload_def)
  with assms [OF Inr] have "\<exists>bs. signing_digest_bytes payload = Some bs"
    by (simp add: signing_digest_bytes_Some payload_borsh_Some fits32_def)
  with Inr show ?thesis by (auto simp: parse_with_registry_def)
qed (simp add: parse_with_registry_def)

end
