(* ===== verification/EthConvert.thy ===== *)
theory EthConvert
  imports Uniswap AbiMetadata AppParse
begin

text \<open>
  The converter of \<^verbatim>\<open>chain_parsers/visualsign-ethereum/src/lib.rs\<close>: from the request's text and options to
  the payload. The libraries are gathered in the record \<open>EthLibs\<close>; a JSON ABI is of type \<open>'a\<close> as in
  the ABI registry. The transaction's own chain id is authoritative, tokens of the built-in registry are
  decoded by the built-in visualizers only, and every payload that leaves by the string entry point has
  passed the charset check.
\<close>

record ('s, 'e, 'v, 'g, 'a, 'ty) EthLibs =
  lib_alloy :: Alloy
  lib_sol :: SolAbi
  lib_uni :: UniAbi
  lib_dyn :: "('a, 'ty) DynAbi"
  lib_k256 :: "('s, 'e, 'v, 'g, 'a) K256"

record 'v EthereumVisualSignConverter =
  conv_registry :: ContractRegistry
  conv_visualizers :: "'v EthereumVisualizerRegistry"
  conv_abi_trust :: MetadataTrustPolicy

section \<open>Parsing\<close>

definition eth_from_string_with_options ::
  "Alloy \<Rightarrow> string \<Rightarrow> DeveloperConfig option \<Rightarrow> (TransactionParseError, TypedTransaction) result" where
  "eth_from_string_with_options al data dev_config =
     (if is_json_input data
      then map_err (\<lambda>e. InvalidFormat (display_parser_error e)) (decode_json_transaction al data)
      else map_err (\<lambda>e. TxDecodeError (display_parser_error e))
             (decode_transaction al data (detect data)
               (case dev_config of None \<Rightarrow> False | Some c \<Rightarrow> allow_signed_transactions c)))"

definition eth_from_string :: "Alloy \<Rightarrow> string \<Rightarrow> (TransactionParseError, TypedTransaction) result" where
  "eth_from_string al data = eth_from_string_with_options al data None"

section \<open>The chain\<close>

definition chain_id_mismatch :: "u64 \<Rightarrow> u64 \<Rightarrow> string" where
  "chain_id_mismatch t m =
     ''chain_id mismatch: transaction bytes declare chain_id '' @ nat_str (unat t)
     @ '' but chain_metadata.network_id resolves to chain_id '' @ nat_str (unat m)
     @ ''. The transaction bytes are authoritative; refusing to produce a payload.''"

definition resolve_chain_id :: "TypedTransaction \<Rightarrow> VisualSignOptions \<Rightarrow> (VisualSignError, u64) result" where
  "resolve_chain_id transaction options =
     (case (tx_chain_id transaction, extract_chain_id_from_metadata (metadata options)) of
        (Some t, Some m) \<Rightarrow> if t \<noteq> m then Inl (ValidationError (chain_id_mismatch t m)) else Inr t
      | (Some t, None) \<Rightarrow> Inr t
      | (None, Some m) \<Rightarrow> Inr m
      | (None, None) \<Rightarrow>
          if tx_type transaction = LegacyType then Inr 1
          else Inl (DecodeError (''Unable to determine chain_id: no metadata provided and ''
                 @ ''transaction does not contain chain_id'')))"

definition extract_metadata_abi ::
  "('s, 'e, 'v, 'g, 'a) K256 \<Rightarrow> VisualSignOptions \<Rightarrow> u64 \<Rightarrow> MetadataTrustPolicy \<Rightarrow> 'a AbiRegistry option" where
  "extract_metadata_abi k options chain_id policy = try_extract_from_chain_metadata k (metadata options) chain_id policy"

section \<open>Call data\<close>

definition try_known_token_dispatch ::
  "Alloy \<Rightarrow> SolAbi \<Rightarrow> ContractRegistry LayeredRegistry \<Rightarrow> u64 option \<Rightarrow> eth_address \<Rightarrow> bytes \<Rightarrow> SignablePayloadField list option" where
  "try_known_token_dispatch al sol layered_registry chain_id to_address input =
     (case get_token_erc_standard (layer_global layered_registry) chain_id to_address of
        None \<Rightarrow> None
      | Some erc_standard \<Rightarrow>
          (let decoded = (case erc_standard of
                 Erc20 \<Rightarrow> erc20_visualize al sol input
               | Erc721 \<Rightarrow> erc721_visualize input
               | Erc1155 \<Rightarrow> erc1155_visualize al sol input)
           in Some [unwrap_or (visualize_hex al input) decoded]))"

definition implementation_field :: "Alloy \<Rightarrow> string \<Rightarrow> eth_address \<Rightarrow> SignablePayloadField" where
  "implementation_field al badge implementation =
     AddressV2 \<lparr>fallback_text = al_show_address al implementation, label = ''Implementation''\<rparr>
       \<lparr>address_v2_address = al_show_address al implementation, address_v2_name = ''Implementation'',
        address_v2_memo = None, address_v2_asset_label = [], address_v2_badge_text = Some badge\<rparr>"

definition implementation_address_field :: "Alloy \<Rightarrow> eth_address \<Rightarrow> SignablePayloadField" where
  "implementation_address_field al = implementation_field al ''Proxy implementation''"

definition unresolved_implementation_field :: "Alloy \<Rightarrow> eth_address \<Rightarrow> SignablePayloadField" where
  "unresolved_implementation_field al = implementation_field al ''Proxy implementation (unresolved)''"

definition visualize_with_abi_registry ::
  "Alloy \<Rightarrow> ('a, 'ty) DynAbi \<Rightarrow> 'a AbiRegistry \<Rightarrow> u64 \<Rightarrow> eth_address \<Rightarrow> bytes \<Rightarrow> SignablePayloadField list" where
  "visualize_with_abi_registry al dyn abi_reg chain_id to input =
     (let decode = (\<lambda>abi. dynamic_visualize al dyn abi input);
          own = Option.bind (get_abi_for_address abi_reg chain_id to) decode;
          unlinked = (case own of Some field \<Rightarrow> [field] | None \<Rightarrow> [])
      in if get_abi_kind abi_reg chain_id to = Some Proxy
         then (case get_implementation_abi abi_reg chain_id to of
                 Some (impl_addr, impl_abi) \<Rightarrow>
                   (case decode impl_abi of
                      Some field \<Rightarrow> [implementation_address_field al impl_addr, field]
                    | None \<Rightarrow>
                        [unresolved_implementation_field al impl_addr, unwrap_or (visualize_hex al input) own])
               | None \<Rightarrow> unlinked)
         else unlinked)"

text \<open>The visualizers registered for contract types.\<close>

definition registered_fields ::
  "Alloy \<Rightarrow> UniAbi \<Rightarrow> u64 \<Rightarrow> ContractRegistry LayeredRegistry \<Rightarrow> 'v EthereumVisualizerRegistry \<Rightarrow> eth_address option
    \<Rightarrow> bytes \<Rightarrow> SignablePayloadField list" where
  "registered_fields al uni chain_id layered_registry visualizer_registry to input =
     (case to of
        None \<Rightarrow> []
      | Some to_address \<Rightarrow>
     (case lookup layered_registry (\<lambda>r. get_contract_type r chain_id to_address) of
        None \<Rightarrow> []
      | Some contract_type \<Rightarrow>
          if visualizer_get visualizer_registry contract_type = None then []
          else if contract_type = short_type_id UniswapUniversalRouter
          then (case router_visualize al uni input chain_id (Some (layer_global layered_registry)) of
                  Some field \<Rightarrow> [field] | None \<Rightarrow> [])
          else if contract_type = short_type_id Permit2Contract
          then (case permit2_visualize al uni input chain_id (Some (layer_global layered_registry)) of
                  Some field \<Rightarrow> [field] | None \<Rightarrow> [])
          else []))"

text \<open>Each step fills the fields only while they are still empty.\<close>

definition or_fields :: "SignablePayloadField list \<Rightarrow> SignablePayloadField list \<Rightarrow> SignablePayloadField list" where
  "or_fields fs alternative = (if fs = [] then alternative else fs)"

definition input_data_fields ::
  "Alloy \<Rightarrow> SolAbi \<Rightarrow> UniAbi \<Rightarrow> ('a, 'ty) DynAbi \<Rightarrow> TypedTransaction \<Rightarrow> bool \<Rightarrow> u64 \<Rightarrow> ContractRegistry LayeredRegistry
    \<Rightarrow> 'v EthereumVisualizerRegistry \<Rightarrow> 'a AbiRegistry option \<Rightarrow> SignablePayloadField list" where
  "input_data_fields al sol uni dyn transaction decode_tokens chain_id layered_registry visualizer_registry abi_registry =
     (let input = tx_input (tx_base transaction); to = tx_to transaction;
          registered = registered_fields al uni chain_id layered_registry visualizer_registry to input;
          known = (case to of None \<Rightarrow> [] | Some to_address \<Rightarrow>
             unwrap_or [] (try_known_token_dispatch al sol layered_registry (tx_chain_id transaction) to_address input));
          dynamic = (case (to, abi_registry) of
               (Some to_address, Some abi_reg) \<Rightarrow> visualize_with_abi_registry al dyn abi_reg chain_id to_address input
             | _ \<Rightarrow> []);
          erc20 = (if decode_tokens then (case erc20_visualize al sol input of Some field \<Rightarrow> [field] | None \<Rightarrow> []) else [])
      in or_fields (or_fields (or_fields (or_fields registered known) dynamic) erc20) [visualize_hex al input])"

section \<open>The payload\<close>

definition to_field_badge :: "'a AbiRegistry option \<Rightarrow> u64 \<Rightarrow> eth_address \<Rightarrow> string option" where
  "to_field_badge abi_registry chain_id to =
     (case abi_registry of
        Some reg \<Rightarrow> if get_abi_kind reg chain_id to = Some Proxy then Some ''Proxy'' else None
      | None \<Rightarrow> None)"

definition header_fields ::
  "Alloy \<Rightarrow> TypedTransaction \<Rightarrow> u64 \<Rightarrow> 'a AbiRegistry option \<Rightarrow> SignablePayloadField list" where
  "header_fields al transaction chain_id abi_registry =
     (let fee_symbol = get_fee_paying_asset_symbol chain_id; value = format_ether al (tx_value (tx_base transaction));
          gas_limit = nat_str (unat (tx_gas_limit (tx_base transaction)))
      in [text_field ''Network'' (get_network_name (Some chain_id))]
         @ (case tx_to transaction of
              None \<Rightarrow> []
            | Some to \<Rightarrow>
                [AddressV2 \<lparr>fallback_text = al_show_address al to, label = ''To''\<rparr>
                   \<lparr>address_v2_address = al_show_address al to, address_v2_name = ''To'', address_v2_memo = None,
                    address_v2_asset_label = unwrap_or [] fee_symbol, address_v2_badge_text = to_field_badge abi_registry chain_id to\<rparr>])
         @ [AmountV2 \<lparr>fallback_text = (case fee_symbol of None \<Rightarrow> value | Some s \<Rightarrow> value @ '' '' @ s), label = ''Value''\<rparr>
              \<lparr>amount_v2_amount = value, amount_v2_abbreviation = fee_symbol\<rparr>,
            text_field ''Gas Limit'' gas_limit,
            text_field ''Gas Price'' (format_gwei al (extract_gas_price transaction) @ '' gwei'')]
         @ (case extract_priority_fee transaction of None \<Rightarrow> [] | Some fee \<Rightarrow> [create_priority_fee_field al fee])
         @ [text_field ''Nonce'' (nat_str (unat (tx_nonce (tx_base transaction))))])"

definition convert_to_visual_sign_payload ::
  "Alloy \<Rightarrow> SolAbi \<Rightarrow> UniAbi \<Rightarrow> ('a, 'ty) DynAbi \<Rightarrow> TypedTransaction \<Rightarrow> VisualSignOptions \<Rightarrow> u64
    \<Rightarrow> ContractRegistry LayeredRegistry \<Rightarrow> 'v EthereumVisualizerRegistry \<Rightarrow> 'a AbiRegistry option
    \<Rightarrow> (VisualSignError, SignablePayload) result" where
  "convert_to_visual_sign_payload al sol uni dyn transaction options chain_id layered_registry visualizer_registry abi_registry =
     Inr (payload_new 0 (unwrap_or ''Ethereum Transaction'' (transaction_name options)) None
       (header_fields al transaction chain_id abi_registry
        @ (if tx_input (tx_base transaction) = [] then []
           else input_data_fields al sol uni dyn transaction (decode_transfers options) chain_id layered_registry
                  visualizer_registry abi_registry))
       ''EthereumTx'')"

section \<open>The converter\<close>

definition with_registry_and_policy :: "ContractRegistry \<Rightarrow> MetadataTrustPolicy \<Rightarrow> 'v EthereumVisualSignConverter" where
  "with_registry_and_policy registry trust =
     \<lparr>conv_registry = registry, conv_visualizers = visualizer_builder_new, conv_abi_trust = trust\<rparr>"

definition with_registry :: "ContractRegistry \<Rightarrow> 'v EthereumVisualSignConverter" where
  "with_registry registry = with_registry_and_policy registry AcceptUnsigned"

definition with_policy ::
  "(string \<Rightarrow> (string, eth_address) result) \<Rightarrow> 'v \<Rightarrow> 'v \<Rightarrow> MetadataTrustPolicy \<Rightarrow> 'v EthereumVisualSignConverter option" where
  "with_policy parse_address router_body permit2_body trust =
     map_option (\<lambda>(registry, builder). \<lparr>conv_registry = registry, conv_visualizers = builder, conv_abi_trust = trust\<rparr>)
       (with_default_protocols parse_address router_body permit2_body)"

definition converter_new ::
  "(string \<Rightarrow> (string, eth_address) result) \<Rightarrow> 'v \<Rightarrow> 'v \<Rightarrow> 'v EthereumVisualSignConverter option" where
  "converter_new parse_address router_body permit2_body = with_policy parse_address router_body permit2_body AcceptUnsigned"

definition create_layered_registry ::
  "'v EthereumVisualSignConverter \<Rightarrow> VisualSignOptions \<Rightarrow> ContractRegistry LayeredRegistry" where
  "create_layered_registry conv options = layered_new (conv_registry conv)"

definition convert_transaction_inner ::
  "('s, 'e, 'k, 'g, 'a, 'ty) EthLibs \<Rightarrow> 'v EthereumVisualSignConverter \<Rightarrow> TypedTransaction \<Rightarrow> VisualSignOptions
    \<Rightarrow> (VisualSignError, SignablePayload) result" where
  "convert_transaction_inner libs conv transaction options =
     (let al = lib_alloy libs
      in if tx_type transaction \<notin> {LegacyType, Eip1559Type}
         then Inl (DecodeError (''Unsupported transaction type: '' @ al_show_tx_type al (tx_type transaction)))
         else and_then (resolve_chain_id transaction options) (\<lambda>chain_id.
           convert_to_visual_sign_payload al (lib_sol libs) (lib_uni libs) (lib_dyn libs) transaction options chain_id
             (create_layered_registry conv options) (conv_visualizers conv)
             (extract_metadata_abi (lib_k256 libs) options chain_id (conv_abi_trust conv))))"

definition eth_to_visual_sign_payload ::
  "('s, 'e, 'k, 'g, 'a, 'ty) EthLibs \<Rightarrow> 'v EthereumVisualSignConverter \<Rightarrow> TypedTransaction \<Rightarrow> VisualSignOptions
    \<Rightarrow> (VisualSignError, ConversionResult) result" where
  "eth_to_visual_sign_payload libs conv transaction options =
     and_then (convert_transaction_inner libs conv transaction options) (\<lambda>payload. Inr (conversion_new payload))"

definition eth_converter ::
  "('s, 'e, 'k, 'g, 'a, 'ty) EthLibs \<Rightarrow> 'v EthereumVisualSignConverter \<Rightarrow> TypedTransaction Converter" where
  "eth_converter libs conv =
     \<lparr>from_string = eth_from_string (lib_alloy libs), to_visual_sign_payload = eth_to_visual_sign_payload libs conv\<rparr>"

text \<open>The override of the trait's default method: it parses with the developer options.\<close>

definition eth_to_visual_sign_payload_from_string ::
  "bool \<Rightarrow> (completeness_error \<Rightarrow> string) \<Rightarrow> ('s, 'e, 'k, 'g, 'a, 'ty) EthLibs \<Rightarrow> 'v EthereumVisualSignConverter \<Rightarrow> string
    \<Rightarrow> VisualSignOptions \<Rightarrow> (VisualSignError, ConversionResult) result" where
  "eth_to_visual_sign_payload_from_string po describe libs conv transaction_data options =
     and_then (map_err ParseError (eth_from_string_with_options (lib_alloy libs) transaction_data (developer_config options)))
       (\<lambda>wrapper. to_validated_visual_sign_payload po describe (eth_converter libs conv) wrapper options)"

definition eth_converter_any ::
  "bool \<Rightarrow> (completeness_error \<Rightarrow> string) \<Rightarrow> ('s, 'e, 'k, 'g, 'a, 'ty) EthLibs \<Rightarrow> 'v EthereumVisualSignConverter \<Rightarrow> ConverterAny" where
  "eth_converter_any po describe libs conv =
     wrap (eth_from_string (lib_alloy libs)) (eth_to_visual_sign_payload_from_string po describe libs conv)"

definition transaction_to_visual_sign ::
  "('s, 'e, 'k, 'g, 'a, 'ty) EthLibs \<Rightarrow> 'v \<Rightarrow> 'v \<Rightarrow> TypedTransaction \<Rightarrow> VisualSignOptions
    \<Rightarrow> (VisualSignError, SignablePayload) result option" where
  "transaction_to_visual_sign libs router_body permit2_body transaction options =
     map_option (\<lambda>conv. and_then (eth_to_visual_sign_payload libs conv transaction options) (\<lambda>r. Inr (result_payload r)))
       (converter_new (al_parse_address (lib_alloy libs)) router_body permit2_body)"

definition transaction_string_to_visual_sign ::
  "bool \<Rightarrow> (completeness_error \<Rightarrow> string) \<Rightarrow> ('s, 'e, 'k, 'g, 'a, 'ty) EthLibs \<Rightarrow> 'v \<Rightarrow> 'v \<Rightarrow> string \<Rightarrow> VisualSignOptions
    \<Rightarrow> (VisualSignError, SignablePayload) result option" where
  "transaction_string_to_visual_sign po describe libs router_body permit2_body transaction_data options =
     map_option (\<lambda>conv. and_then (eth_to_visual_sign_payload_from_string po describe libs conv transaction_data options)
         (\<lambda>r. Inr (result_payload r)))
       (converter_new (al_parse_address (lib_alloy libs)) router_body permit2_body)"

section \<open>Facts\<close>

lemma resolve_chain_id_Inr:
  "resolve_chain_id tx options = Inr c \<longleftrightarrow>
     (case tx_chain_id tx of
        Some t \<Rightarrow> c = t \<and> extract_chain_id_from_metadata (metadata options) \<in> {None, Some t}
      | None \<Rightarrow> (case extract_chain_id_from_metadata (metadata options) of
           Some m \<Rightarrow> c = m | None \<Rightarrow> c = 1 \<and> tx_type tx = LegacyType))"
  by (auto simp: resolve_chain_id_def split: option.splits if_splits)

lemma convert_inner_Inr:
  "convert_transaction_inner libs conv tx options = Inr payload \<longleftrightarrow>
     tx_type tx \<in> {LegacyType, Eip1559Type} \<and> (\<exists>c. resolve_chain_id tx options = Inr c
       \<and> convert_to_visual_sign_payload (lib_alloy libs) (lib_sol libs) (lib_uni libs) (lib_dyn libs) tx options c
           (layered_new (conv_registry conv)) (conv_visualizers conv)
           (extract_metadata_abi (lib_k256 libs) options c (conv_abi_trust conv)) = Inr payload)"
  by (auto simp: convert_transaction_inner_def Let_def and_then_Inr_iff create_layered_registry_def)

lemma eth_payload_Inr:
  "eth_to_visual_sign_payload libs conv tx options = Inr r \<longleftrightarrow>
     (\<exists>payload. convert_transaction_inner libs conv tx options = Inr payload \<and> r = conversion_new payload)"
  by (auto simp: eth_to_visual_sign_payload_def and_then_Inr_iff)

lemma eth_from_string_conversion:
  "eth_to_visual_sign_payload_from_string po describe libs conv data options = Inr r \<longleftrightarrow>
     (\<exists>tx payload. eth_from_string_with_options (lib_alloy libs) data (developer_config options) = Inr tx
        \<and> convert_transaction_inner libs conv tx options = Inr payload
        \<and> validate_charset po describe payload = Inr () \<and> r = conversion_new payload)"
  by (auto simp: eth_to_visual_sign_payload_from_string_def to_validated_visual_sign_payload_def eth_converter_def
      and_then_Inr_iff eth_payload_Inr conversion_new_def)

lemma or_fields_ne [simp]: "or_fields fs [f] \<noteq> []" "or_fields [] gs = gs"
  by (simp_all add: or_fields_def)

lemma or_fields_locked: "fs \<noteq> [] \<Longrightarrow> or_fields fs gs = fs"
  by (simp add: or_fields_def)

lemma input_fields_ne: "input_data_fields al sol uni dyn tx dt c layered viz abi \<noteq> []"
  by (simp add: input_data_fields_def Let_def)

text \<open>A registered token's call data is settled before the caller's ABI and the ERC-20 guess are tried.\<close>

lemma known_token_fields:
  assumes "tx_to tx = Some to" and "get_token_erc_standard (layer_global layered) (tx_chain_id tx) to \<noteq> None"
  shows "input_data_fields al sol uni dyn tx dt c layered viz abi =
    or_fields (registered_fields al uni c layered viz (Some to) (tx_input (tx_base tx)))
      (the (try_known_token_dispatch al sol layered (tx_chain_id tx) to (tx_input (tx_base tx))))"
proof -
  from assms(2) obtain field where
    "try_known_token_dispatch al sol layered (tx_chain_id tx) to (tx_input (tx_base tx)) = Some [field]"
    by (cases "get_token_erc_standard (layer_global layered) (tx_chain_id tx) to")
      (simp_all add: try_known_token_dispatch_def)
  with assms(1) show ?thesis by (simp add: input_data_fields_def Let_def or_fields_locked)
qed

text \<open>The row of the recipient, with a badge or none.\<close>

definition recipient_row :: "Alloy \<Rightarrow> u64 \<Rightarrow> eth_address \<Rightarrow> string option \<Rightarrow> SignablePayloadField" where
  "recipient_row al chain_id to badge =
     AddressV2 \<lparr>fallback_text = al_show_address al to, label = ''To''\<rparr>
       \<lparr>address_v2_address = al_show_address al to, address_v2_name = ''To'', address_v2_memo = None,
        address_v2_asset_label = unwrap_or [] (get_fee_paying_asset_symbol chain_id), address_v2_badge_text = badge\<rparr>"

text \<open>The rows of a transaction with these values: every amount is the decimal that denotes it, the price of a legacy
  transaction is its gas price and that of an EIP-1559 transaction the maximal fee, whose tip has a row of its own.\<close>

definition row_of :: "string \<Rightarrow> string \<Rightarrow> SignablePayloadField" where
  "row_of lbl t = TextV2 \<lparr>fallback_text = t, label = lbl\<rparr> \<lparr>text_v2_text = t\<rparr>"

definition rows_shown ::
  "Alloy \<Rightarrow> u64 \<Rightarrow> TxKind \<Rightarrow> nat \<Rightarrow> nat \<Rightarrow> nat \<Rightarrow> nat option \<Rightarrow> nat \<Rightarrow> SignablePayloadField list \<Rightarrow> bool" where
  "rows_shown al c to wei gas price tip nonce rows \<longleftrightarrow>
     (\<exists>badge value gwei. badge \<in> {None, Some ''Proxy''} \<and> shows_decimal 18 wei value
       \<and> shows_decimal 9 price (gwei price) \<and> (\<forall>t. tip = Some t \<longrightarrow> shows_decimal 9 t (gwei t))
       \<and> rows = [row_of ''Network'' (get_network_name (Some c))]
         @ (case to of Create \<Rightarrow> [] | Call a \<Rightarrow> [recipient_row al c a badge])
         @ [AmountV2 \<lparr>fallback_text = value @ (case get_fee_paying_asset_symbol c of None \<Rightarrow> [] | Some unit \<Rightarrow> '' '' @ unit), label = ''Value''\<rparr>
              \<lparr>amount_v2_amount = value, amount_v2_abbreviation = get_fee_paying_asset_symbol c\<rparr>,
            row_of ''Gas Limit'' (nat_str gas), row_of ''Gas Price'' (gwei price @ '' gwei'')]
         @ (case tip of None \<Rightarrow> [] | Some t \<Rightarrow> [row_of ''Max Priority Fee Per Gas'' (gwei t @ '' gwei'')])
         @ [row_of ''Nonce'' (nat_str nonce)])"

lemma badge_cases: "to_field_badge abi c to \<in> {None, Some ''Proxy''}"
  by (simp add: to_field_badge_def split: option.split)

lemma header_fields_recipient:
  assumes "tx_to tx = Some to"
  shows "header_fields al tx c abi = text_field ''Network'' (get_network_name (Some c))
    # recipient_row al c to (to_field_badge abi c to) # drop 2 (header_fields al tx c (None :: unit AbiRegistry option))"
  using assms by (simp add: header_fields_def Let_def recipient_row_def)

lemma known_dispatch_Some:
  "try_known_token_dispatch al sol layered cid to input = Some fs \<longleftrightarrow>
     (\<exists>std. get_token_erc_standard (layer_global layered) cid to = Some std
        \<and> fs = [unwrap_or (visualize_hex al input)
             (case std of Erc20 \<Rightarrow> erc20_visualize al sol input | Erc721 \<Rightarrow> erc721_visualize input
              | Erc1155 \<Rightarrow> erc1155_visualize al sol input)])"
  by (auto simp: try_known_token_dispatch_def Let_def split: option.splits)

lemma header_fields_hd: "hd (header_fields al tx c abi @ rest) = text_field ''Network'' (get_network_name (Some c))"
  by (simp add: header_fields_def Let_def)

lemma convert_inner_fields:
  assumes "convert_transaction_inner libs conv tx options = Inr payload"
  obtains c rest where "resolve_chain_id tx options = Inr c" "tx_type tx \<in> {LegacyType, Eip1559Type}"
    "payload_fields payload = header_fields (lib_alloy libs) tx c
       (extract_metadata_abi (lib_k256 libs) options c (conv_abi_trust conv)) @ rest"
    "rest = [] \<longleftrightarrow> tx_input (tx_base tx) = []"
proof -
  from assms obtain c where c: "resolve_chain_id tx options = Inr c" "tx_type tx \<in> {LegacyType, Eip1559Type}"
    and p: "convert_to_visual_sign_payload (lib_alloy libs) (lib_sol libs) (lib_uni libs) (lib_dyn libs) tx options c
      (layered_new (conv_registry conv)) (conv_visualizers conv)
      (extract_metadata_abi (lib_k256 libs) options c (conv_abi_trust conv)) = Inr payload"
    by (auto simp: convert_inner_Inr)
  let ?rest = "if tx_input (tx_base tx) = [] then []
    else input_data_fields (lib_alloy libs) (lib_sol libs) (lib_uni libs) (lib_dyn libs) tx (decode_transfers options) c
      (layered_new (conv_registry conv)) (conv_visualizers conv)
      (extract_metadata_abi (lib_k256 libs) options c (conv_abi_trust conv))"
  have "payload_fields payload = header_fields (lib_alloy libs) tx c
      (extract_metadata_abi (lib_k256 libs) options c (conv_abi_trust conv)) @ ?rest"
    using p by (auto simp: convert_to_visual_sign_payload_def payload_new_def)
  moreover have "?rest = [] \<longleftrightarrow> tx_input (tx_base tx) = []" by (simp add: input_fields_ne)
  ultimately show ?thesis using c that by blast
qed

text \<open>Amounts of ether and gwei are shown exactly, whatever their size: the decimal on the screen is the number
  of wei over the unit, with no digit lost and no trailing zero.\<close>

lemma ether_display_exact:
  assumes "units_documented al"
  shows "shows_decimal 18 (unat v) (format_ether al v) \<and> shows_decimal 9 (unat g) (format_gwei al g)"
  using assms trim_trailing_zeros_decimal [of 18 "unat v"] trim_trailing_zeros_decimal [of 9 "unat g"]
  by (simp add: units_documented_def format_ether_def format_gwei_def)

lemma header_rows_shown:
  assumes "units_documented al"
  shows "rows_shown al c (legacy_to t) (unat (tx_value t)) (unat (tx_gas_limit t)) (unat (legacy_gas_price t)) None
      (unat (tx_nonce t)) (header_fields al (TLegacy t) c abi)" (is ?legacy)
    and "rows_shown al c (eip1559_to u) (unat (tx_value u)) (unat (tx_gas_limit u)) (unat (max_fee_per_gas u))
      (Some (unat (max_priority_fee_per_gas u))) (unat (tx_nonce u)) (header_fields al (TEip1559 u) c abi)" (is ?fees)
proof -
  let ?gwei = "\<lambda>n. format_gwei al (of_nat n)"
  note exact = ether_display_exact [OF assms]
  note unfold = rows_shown_def header_fields_def Let_def row_of_def text_field_def recipient_row_def TxBase.truncate_def
    create_priority_fee_field_def
  show ?legacy
    by (unfold rows_shown_def, rule exI [of _ "case legacy_to t of Create \<Rightarrow> None | Call a \<Rightarrow> to_field_badge abi c a"],
        rule exI [of _ "format_ether al (tx_value t)"], rule exI [of _ ?gwei])
      (auto simp: unfold exact badge_cases [simplified] split: TxKind.split option.split)
  show ?fees
    by (unfold rows_shown_def, rule exI [of _ "case eip1559_to u of Create \<Rightarrow> None | Call a \<Rightarrow> to_field_badge abi c a"],
        rule exI [of _ "format_ether al (tx_value u)"], rule exI [of _ ?gwei])
      (auto simp: unfold exact badge_cases [simplified] split: TxKind.split option.split)
qed

text \<open>An entry of the caller's ABIs that an allowlisted key signed, for its address on this chain.\<close>

definition allowlisted_entry ::
  "('s, 'e, 'v, 'g, 'a) K256 \<Rightarrow> u64 \<Rightarrow> SignerAllowlist \<Rightarrow> string \<times> Abi \<Rightarrow> bool" where
  "allowlisted_entry k c allow entry \<longleftrightarrow> (\<exists>a sig v. k_parse_address k (fst entry) = Inr a
     \<and> abi_signature (snd entry) = Some sig \<and> signature_by k (abi_value (snd entry)) a c (convert_proto_signature sig) v
     \<and> key_uncompressed k v \<in> keys allow)"

lemma accepted_allowlisted:
  "accepted_entry k c (RequireAllowlistedSigner allow) entry \<noteq> None \<Longrightarrow> allowlisted_entry k c allow entry"
  by (auto simp: accepted_entry_def entry_admitted_def allowlisted_entry_def is_ok_def validate_abi_signature_ok
      split: sum.splits if_splits option.splits)

lemma fold_extract_filter:
  assumes "\<And>e. accepted_entry k c policy e \<noteq> None \<Longrightarrow> P e"
  shows "fold (extract_entry k c policy) (filter P es) st = fold (extract_entry k c policy) es st"
proof (induction es arbitrary: st)
  case (Cons e es)
  have "accepted_entry k c policy e = None" if "\<not> P e" using assms [of e] that by blast
  then have "\<not> P e \<Longrightarrow> extract_entry k c policy e st = st" by (cases st) (simp add: extract_entry_eq)
  with Cons show ?case by simp
qed simp

definition with_abis :: "VisualSignOptions \<Rightarrow> EthereumMetadata \<Rightarrow> (string \<times> Abi) list \<Rightarrow> VisualSignOptions" where
  "with_abis options e es =
     options\<lparr>metadata := Some \<lparr>chain_metadata_metadata = Some (EthereumMeta (e\<lparr>eth_abi_mappings := es\<rparr>))\<rparr>\<rparr>"

lemma extract_filter:
  assumes "\<And>e. accepted_entry k c policy e \<noteq> None \<Longrightarrow> P e"
  shows "extract_metadata_abi k (with_abis options e (filter P es)) c policy = extract_metadata_abi k (with_abis options e es) c policy"
proof -
  have empty: "list_abis (fst (fold (extract_entry k c policy) es (abi_registry_new, 0))) = []" if "filter P es = []"
    using fold_extract_filter [of k c policy P es "(abi_registry_new, 0)", OF assms]
    by (simp add: that list_abis_def abi_registry_new_def)
  show ?thesis
    using fold_extract_filter [of k c policy P es "(abi_registry_new, 0)", OF assms] empty
    by (auto simp: extract_metadata_abi_def try_extract_from_chain_metadata_def extract_with_provenance_def with_abis_def
        split: prod.splits)
qed

section \<open>Samples\<close>

definition sample_libs :: "(bytes, bytes, bytes, bytes, string, unit) EthLibs" where
  "sample_libs = \<lparr>lib_alloy = sample_alloy, lib_sol = sample_sol, lib_uni = sample_uni, lib_dyn = sample_dyn, lib_k256 = sample_k256\<rparr>"

definition sample_conv :: "MetadataTrustPolicy \<Rightarrow> unit EthereumVisualSignConverter" where
  "sample_conv trust =
     with_registry_and_policy (contract_registry_new\<lparr>token_metadata := [((1, replicate 20 7),
       \<lparr>tm_symbol = ''USDC'', tm_name = ''USD Coin'', tm_erc_standard = Erc20, tm_contract_address = ''0x07'', tm_decimals = 6\<rparr>)]\<rparr>) trust"

definition token_tx :: TypedTransaction where
  "token_tx = TEip1559 \<lparr>tx_nonce = 5, tx_gas_limit = 21000, tx_value = 0, tx_input = [0xAB, 0xCD],
     fee_chain_id = 1, max_fee_per_gas = 30, max_priority_fee_per_gas = 2, fee_access_list = [],
     eip1559_to = Call (replicate 20 7)\<rparr>"

definition unsigned_abi :: Abi where
  "unsigned_abi = \<lparr>abi_value = ''[]'', abi_signature = None, abi_abi_type = None, abi_implementation_address = None\<rparr>"

definition plain_metadata :: EthereumMetadata where
  "plain_metadata = \<lparr>eth_network_id = None, eth_abi_mappings = []\<rparr>"

lemma token_tx_simps [simp]:
  "tx_chain_id token_tx = Some 1" "tx_to token_tx = Some (replicate 20 7)" "tx_input (tx_base token_tx) = [0xAB, 0xCD]"
  "tx_type token_tx = Eip1559Type"
  by (simp_all add: token_tx_def TxBase.truncate_def)

lemma no_network_named [simp]:
  "extract_chain_id_from_metadata (metadata sample_options) = None"
  "extract_chain_id_from_metadata (metadata (with_abis sample_options plain_metadata es)) = None"
  by (simp_all add: sample_options_def with_abis_def plain_metadata_def extract_chain_id_from_metadata_def)

lemma token_tx_converts:
  assumes "extract_chain_id_from_metadata (metadata options) = None"
  shows "\<exists>payload. convert_transaction_inner libs conv token_tx options = Inr payload"
proof -
  have "resolve_chain_id token_tx options = Inr 1" using assms by (simp add: resolve_chain_id_Inr)
  then show ?thesis by (auto simp: convert_inner_Inr convert_to_visual_sign_payload_def)
qed

section \<open>Properties\<close>

text \<open>C7: the network a payload names is the transaction's own. When the transaction carries a chain id, any
  payload for it starts with that chain's name and the request's metadata names no other chain; a
  request that names another chain is refused.\<close>

theorem network_label_bound:
  assumes "tx_chain_id tx = Some t"
  shows "(\<forall>payload. convert_transaction_inner libs conv tx options = Inr payload \<longrightarrow>
      hd (payload_fields payload) = text_field ''Network'' (get_network_name (Some t))
      \<and> extract_chain_id_from_metadata (metadata options) \<in> {None, Some t})
    \<and> (\<forall>m. extract_chain_id_from_metadata (metadata options) = Some m \<longrightarrow> m \<noteq> t \<longrightarrow>
        tx_type tx \<in> {LegacyType, Eip1559Type} \<longrightarrow>
        convert_transaction_inner libs conv tx options = Inl (ValidationError (chain_id_mismatch t m)))"
proof (intro conjI allI impI)
  fix payload
  assume "convert_transaction_inner libs conv tx options = Inr payload"
  then obtain c rest where c: "resolve_chain_id tx options = Inr c"
    and "payload_fields payload = header_fields (lib_alloy libs) tx c
      (extract_metadata_abi (lib_k256 libs) options c (conv_abi_trust conv)) @ rest"
    by (rule convert_inner_fields)
  then show "hd (payload_fields payload) = text_field ''Network'' (get_network_name (Some t))"
    using assms by (simp add: header_fields_hd resolve_chain_id_Inr)
  show "extract_chain_id_from_metadata (metadata options) \<in> {None, Some t}"
    using c assms by (simp add: resolve_chain_id_Inr)
next
  fix m
  assume "extract_chain_id_from_metadata (metadata options) = Some m" "m \<noteq> t" "tx_type tx \<in> {LegacyType, Eip1559Type}"
  then show "convert_transaction_inner libs conv tx options = Inl (ValidationError (chain_id_mismatch t m))"
    using assms by (auto simp: convert_transaction_inner_def resolve_chain_id_def)
qed

theorem network_label_bound_witness:
  "\<exists>payload. convert_transaction_inner sample_libs (sample_conv AcceptUnsigned) token_tx sample_options = Inr payload
    \<and> hd (payload_fields payload) = text_field ''Network'' (get_network_name (Some 1))"
  using network_label_bound [of token_tx 1 sample_libs "sample_conv AcceptUnsigned" sample_options]
    token_tx_converts [of sample_options sample_libs "sample_conv AcceptUnsigned"] by auto

text \<open>C6: what is shown of a call to a canonical token does not depend on what the caller supplies. For a
  transaction with a chain id to a token of the built-in registry, two requests that differ in any option, the
  caller's ABIs included, show the same rows and the same call: the payloads differ at most in their title and in
  the informational badge of the recipient row, which names the transaction's own recipient in both; when the address
  is no registered contract either, the call is the built-in decoder's field or the raw bytes.\<close>

theorem canonical_token_locked:
  assumes chain: "tx_chain_id tx = Some t" and to: "tx_to tx = Some to"
    and known: "get_token_erc_standard (conv_registry conv) (Some t) to = Some std"
    and input: "tx_input (tx_base tx) \<noteq> []"
    and p1: "convert_transaction_inner libs conv tx options1 = Inr payload1"
    and p2: "convert_transaction_inner libs conv tx options2 = Inr payload2"
  shows "\<exists>network badge1 badge2 rest call.
      payload_fields payload1 = network # recipient_row (lib_alloy libs) t to badge1 # rest @ call
    \<and> payload2 = payload1\<lparr>payload_fields := network # recipient_row (lib_alloy libs) t to badge2 # rest @ call,
        payload_title := payload_title payload2\<rparr>
    \<and> badge1 \<in> {None, Some ''Proxy''} \<and> badge2 \<in> {None, Some ''Proxy''} \<and> call \<noteq> []
    \<and> (get_contract_type (conv_registry conv) t to = None \<longrightarrow>
        call = [unwrap_or (visualize_hex (lib_alloy libs) (tx_input (tx_base tx)))
          (case std of Erc20 \<Rightarrow> erc20_visualize (lib_alloy libs) (lib_sol libs) (tx_input (tx_base tx))
           | Erc721 \<Rightarrow> erc721_visualize (tx_input (tx_base tx))
           | Erc1155 \<Rightarrow> erc1155_visualize (lib_alloy libs) (lib_sol libs) (tx_input (tx_base tx)))])"
proof -
  let ?al = "lib_alloy libs" and ?reg = "layered_new (conv_registry conv)" and ?input = "tx_input (tx_base tx)"
  let ?badge = "\<lambda>options. to_field_badge (extract_metadata_abi (lib_k256 libs) options t (conv_abi_trust conv)) t to"
  let ?call = "or_fields (registered_fields ?al (lib_uni libs) t ?reg (conv_visualizers conv) (Some to) ?input)
    (the (try_known_token_dispatch ?al (lib_sol libs) ?reg (Some t) to ?input))"
  have global: "layer_global ?reg = conv_registry conv" by (simp add: layered_new_def)
  define rest where "rest = drop 2 (header_fields ?al tx t (None :: unit AbiRegistry option))"
  have header: "header_fields ?al tx t (extract_metadata_abi (lib_k256 libs) options t (conv_abi_trust conv)) =
      text_field ''Network'' (get_network_name (Some t)) # recipient_row ?al t to (?badge options) # rest" for options
    unfolding rest_def by (rule header_fields_recipient [OF to])
  have payload: "payload = payload_new 0 (unwrap_or ''Ethereum Transaction'' (transaction_name options)) None
      (text_field ''Network'' (get_network_name (Some t)) # recipient_row ?al t to (?badge options) # rest @ ?call) ''EthereumTx''"
    if "convert_transaction_inner libs conv tx options = Inr payload" for options payload
    using that chain to known input
    by (auto simp: convert_inner_Inr resolve_chain_id_Inr convert_to_visual_sign_payload_def known_token_fields global header)
  have known': "try_known_token_dispatch ?al (lib_sol libs) ?reg (Some t) to ?input =
      Some [unwrap_or (visualize_hex ?al ?input) (case std of Erc20 \<Rightarrow> erc20_visualize ?al (lib_sol libs) ?input
        | Erc721 \<Rightarrow> erc721_visualize ?input | Erc1155 \<Rightarrow> erc1155_visualize ?al (lib_sol libs) ?input)]"
    using known by (simp add: known_dispatch_Some global)
  have "registered_fields ?al (lib_uni libs) t ?reg (conv_visualizers conv) (Some to) ?input = []"
    if "get_contract_type (conv_registry conv) t to = None"
    using that by (simp add: registered_fields_def lookup_def layered_new_def)
  with known' have builtin: "?call = [unwrap_or (visualize_hex ?al ?input) (case std of Erc20 \<Rightarrow> erc20_visualize ?al (lib_sol libs) ?input
        | Erc721 \<Rightarrow> erc721_visualize ?input | Erc1155 \<Rightarrow> erc1155_visualize ?al (lib_sol libs) ?input)]"
    if "get_contract_type (conv_registry conv) t to = None"
    using that by simp
  show ?thesis
  proof (intro exI conjI impI)
    show "payload_fields payload1 = text_field ''Network'' (get_network_name (Some t)) # recipient_row ?al t to (?badge options1) # rest @ ?call"
      using payload [OF p1] by (simp add: payload_new_def)
    show "payload2 = payload1\<lparr>payload_fields := text_field ''Network'' (get_network_name (Some t))
        # recipient_row ?al t to (?badge options2) # rest @ ?call, payload_title := payload_title payload2\<rparr>"
      using payload [OF p1] payload [OF p2] by (simp add: payload_new_def)
    show "?call \<noteq> []" using known' by simp
  qed (rule badge_cases builtin; assumption?)+
qed

text \<open>A request that brings its own ABI for the token's address shows the same call as one that does not.\<close>

theorem canonical_token_locked_witness:
  "\<exists>payload1 payload2. convert_transaction_inner sample_libs (sample_conv AcceptUnsigned) token_tx sample_options = Inr payload1
    \<and> convert_transaction_inner sample_libs (sample_conv AcceptUnsigned) token_tx
        (with_abis sample_options plain_metadata [(''0x07'', unsigned_abi)]) = Inr payload2
    \<and> hd (payload_fields payload1) = hd (payload_fields payload2) \<and> drop 2 (payload_fields payload1) = drop 2 (payload_fields payload2)"
proof -
  let ?conv = "sample_conv AcceptUnsigned" and ?abis = "with_abis sample_options plain_metadata [(''0x07'', unsigned_abi)]"
  obtain payload1 payload2 where p: "convert_transaction_inner sample_libs ?conv token_tx sample_options = Inr payload1"
    "convert_transaction_inner sample_libs ?conv token_tx ?abis = Inr payload2"
    using token_tx_converts [of sample_options sample_libs ?conv] token_tx_converts [of ?abis sample_libs ?conv] by auto
  have "get_token_erc_standard (conv_registry ?conv) (Some 1) (replicate 20 7) = Some Erc20"
    by (simp add: get_token_erc_standard_def sample_conv_def with_registry_and_policy_def)
  from canonical_token_locked [OF token_tx_simps(1,2) this _ p] obtain network badge1 badge2 rest call where
    f: "payload_fields payload1 = network # recipient_row (lib_alloy sample_libs) 1 (replicate 20 7) badge1 # rest @ call"
      "payload2 = payload1\<lparr>payload_fields := network # recipient_row (lib_alloy sample_libs) 1 (replicate 20 7) badge2 # rest @ call,
        payload_title := payload_title payload2\<rparr>"
    by auto
  from arg_cong [OF f(2), of payload_fields] f(1) p show ?thesis by auto
qed

text \<open>Under a required allowlist an ABI that no allowlisted key signed, for its address on the transaction's
  chain, has no influence: the conversion is the same as without it.\<close>

lemma unlisted_abis_ignored:
  assumes trust: "conv_abi_trust conv = RequireAllowlistedSigner allow"
    and chain: "resolve_chain_id tx (with_abis options e es) = Inr c"
  shows "convert_transaction_inner libs conv tx (with_abis options e es) =
    convert_transaction_inner libs conv tx
      (with_abis options e (filter (allowlisted_entry (lib_k256 libs) c allow) es))"
proof -
  let ?es = "filter (allowlisted_entry (lib_k256 libs) c allow) es"
  have "extract_chain_id_from_metadata (metadata (with_abis options e ?es)) =
      extract_chain_id_from_metadata (metadata (with_abis options e es))"
    by (simp add: with_abis_def extract_chain_id_from_metadata_def)
  then have "resolve_chain_id tx (with_abis options e ?es) = Inr c"
    using chain by (simp add: resolve_chain_id_def)
  moreover have "extract_metadata_abi (lib_k256 libs) (with_abis options e ?es) c (RequireAllowlistedSigner allow) =
      extract_metadata_abi (lib_k256 libs) (with_abis options e es) c (RequireAllowlistedSigner allow)"
    by (rule extract_filter) (rule accepted_allowlisted)
  ultimately show ?thesis
    using chain by (simp add: convert_transaction_inner_def Let_def trust create_layered_registry_def
        convert_to_visual_sign_payload_def with_abis_def)
qed

text \<open>C34: every row of an Ethereum payload, with kind, label and content. The header of a legacy or EIP-1559 transaction
  is the resolved chain's name, the recipient if there is one, the value, which is exactly the number of wei in ether, the
  gas limit, the gas price, exactly in gwei, the tip of an EIP-1559 transaction and the nonce, in this order; behind it
  there is a call for non-empty call data and nothing for empty. Other types have no payload.\<close>

theorem ethereum_payload_shape:
  assumes "units_documented (lib_alloy libs)" and "convert_transaction_inner libs conv tx options = Inr payload"
  shows "\<exists>c header call. resolve_chain_id tx options = Inr c \<and> payload_fields payload = header @ call
    \<and> (call = [] \<longleftrightarrow> tx_input (tx_base tx) = []) \<and> payload_payload_type payload = ''EthereumTx''
    \<and> (case tx of
         TLegacy t \<Rightarrow> rows_shown (lib_alloy libs) c (legacy_to t) (unat (tx_value t)) (unat (tx_gas_limit t))
           (unat (legacy_gas_price t)) None (unat (tx_nonce t)) header
       | TEip1559 t \<Rightarrow> rows_shown (lib_alloy libs) c (eip1559_to t) (unat (tx_value t)) (unat (tx_gas_limit t))
           (unat (max_fee_per_gas t)) (Some (unat (max_priority_fee_per_gas t))) (unat (tx_nonce t)) header
       | _ \<Rightarrow> False)"
proof -
  from assms(2) obtain c rest where c: "resolve_chain_id tx options = Inr c" "tx_type tx \<in> {LegacyType, Eip1559Type}"
    and fields: "payload_fields payload = header_fields (lib_alloy libs) tx c
       (extract_metadata_abi (lib_k256 libs) options c (conv_abi_trust conv)) @ rest" "rest = [] \<longleftrightarrow> tx_input (tx_base tx) = []"
    by (rule convert_inner_fields)
  have "payload_payload_type payload = ''EthereumTx''"
    using assms(2) by (auto simp: convert_inner_Inr convert_to_visual_sign_payload_def payload_new_def)
  with c fields header_rows_shown [OF assms(1)] show ?thesis
    by (intro exI [of _ c] exI [of _ "header_fields (lib_alloy libs) tx c
        (extract_metadata_abi (lib_k256 libs) options c (conv_abi_trust conv))"] exI [of _ rest]) (cases tx; simp)
qed

text \<open>The units of alloy as documented.\<close>

definition unit_libs :: "(bytes, bytes, bytes, bytes, string, unit) EthLibs" where
  "unit_libs = sample_libs\<lparr>lib_alloy := sample_alloy\<lparr>al_format_units := \<lambda>n unit.
     if unit = ''eth'' then Inr (nat_str (n div 10 ^ 18) @ ''.'' @ zero_pad 18 (nat_str (n mod 10 ^ 18)))
     else Inr (nat_str (n div 10 ^ 9) @ ''.'' @ zero_pad 9 (nat_str (n mod 10 ^ 9)))\<rparr>\<rparr>"

theorem ethereum_payload_shape_witness:
  "\<exists>payload header call. convert_transaction_inner unit_libs (sample_conv AcceptUnsigned) token_tx sample_options = Inr payload
    \<and> payload_fields payload = header @ call \<and> call \<noteq> []
    \<and> rows_shown (lib_alloy unit_libs) 1 (Call (replicate 20 7)) 0 21000 30 (Some 2) 5 header"
proof -
  obtain payload where p: "convert_transaction_inner unit_libs (sample_conv AcceptUnsigned) token_tx sample_options = Inr payload"
    using token_tx_converts [of sample_options unit_libs "sample_conv AcceptUnsigned"] by auto
  have "units_documented (lib_alloy unit_libs)" by (simp add: units_documented_def unit_libs_def)
  moreover have "resolve_chain_id token_tx sample_options = Inr 1" by (simp add: resolve_chain_id_Inr)
  ultimately show ?thesis using p ethereum_payload_shape [OF _ p] by (auto simp: token_tx_def TxBase.truncate_def)
qed

lemma registry_ethereum_conversion:
  assumes conv: "ethereum_converter cs (abi_trust config) = eth_converter_any po describe libs conv"
    and r: "convert_transaction (create_registry feature cs config) Ethereum data options = Inr r"
  shows "\<exists>tx c. eth_from_string_with_options (lib_alloy libs) data (developer_config options) = Inr tx
    \<and> tx_type tx \<in> {LegacyType, Eip1559Type} \<and> resolve_chain_id tx options = Inr c
    \<and> hd (payload_fields (result_payload r)) = text_field ''Network'' (get_network_name (Some c))
    \<and> convert_transaction_inner libs conv tx options = Inr (result_payload r)
    \<and> result_intermediate_output r = None \<and> validate_charset po describe (result_payload r) = Inr ()
    \<and> (developer_config options = None \<longrightarrow> \<not> is_json_input data \<longrightarrow>
        (\<exists>bs. decode_unsigned_transaction_bytes (lib_alloy libs) bs = Inr tx
          \<and> (case detect data of Hex \<Rightarrow> decode_hex (al_hex_decode (lib_alloy libs)) data
             | Base64 \<Rightarrow> al_b64_decode (lib_alloy libs) data) = Inr bs))"
proof -
  have "eth_to_visual_sign_payload_from_string po describe libs conv data options = Inr r"
    using r conv
    by (simp add: convert_transaction_def get_converter_create_registry eth_converter_any_def wrap_def split: if_splits)
  then obtain tx payload where tx: "eth_from_string_with_options (lib_alloy libs) data (developer_config options) = Inr tx"
    and inner: "convert_transaction_inner libs conv tx options = Inr payload"
    and valid: "validate_charset po describe payload = Inr ()" and r: "r = conversion_new payload"
    by (auto simp: eth_from_string_conversion)
  from inner obtain c rest where c: "resolve_chain_id tx options = Inr c" "tx_type tx \<in> {LegacyType, Eip1559Type}"
    and fields: "payload_fields payload = header_fields (lib_alloy libs) tx c
       (extract_metadata_abi (lib_k256 libs) options c (conv_abi_trust conv)) @ rest"
    by (rule convert_inner_fields)
  have "\<exists>bs. decode_unsigned_transaction_bytes (lib_alloy libs) bs = Inr tx
      \<and> (case detect data of Hex \<Rightarrow> decode_hex (al_hex_decode (lib_alloy libs)) data
         | Base64 \<Rightarrow> al_b64_decode (lib_alloy libs) data) = Inr bs"
    if "developer_config options = None" "\<not> is_json_input data"
    using tx that
    by (auto simp: eth_from_string_with_options_def decode_transaction_def and_then_Inr_iff decode_transaction_bytes_unsigned
        split: SupportedEncodings.splits)
  with tx c fields valid inner show ?thesis
    by (auto simp: r conversion_new_def header_fields_hd)
qed

definition zero_alloy :: Alloy where
  "zero_alloy = sample_alloy\<lparr>al_format_units := \<lambda>_ _. Inr ''0''\<rparr>"

definition creation_tx :: TypedTransaction where
  "creation_tx = TLegacy \<lparr>tx_nonce = 0, tx_gas_limit = 21000, tx_value = 1, tx_input = [],
     legacy_chain_id = Some 1, legacy_gas_price = 0, legacy_to = Create\<rparr>"

lemma creation_parses: "eth_from_string_with_options zero_alloy ''{}'' None = Inr creation_tx"
proof -
  have "is_json_input ''{}''" by code_simp
  then show ?thesis
    by (simp add: eth_from_string_with_options_def creation_tx_def zero_alloy_def decode_json_transaction_def MAX_JSON_INPUT_LEN_def
        sample_alloy_def build_transaction_def optional_def parse_hex_u256_def parse_hex_u64_def parse_hex_int_def
        require_hex_prefix_def split_hex_prefix_def ok_or_def from_str_radix_16_def hex_digit_value_def is_ascii_digit_def
        code_def field_context_def gas_of_def chain_id_of_def priced_def DEFAULT_GAS_LIMIT_def)
qed

definition zero_libs :: "(bytes, bytes, bytes, bytes, string, unit) EthLibs" where
  "zero_libs = sample_libs\<lparr>lib_alloy := zero_alloy\<rparr>"

lemma creation_converts:
  "eth_to_visual_sign_payload_from_string True (\<lambda>_. ''e'') zero_libs (sample_conv AcceptUnsigned) ''{}'' sample_options =
     Inr (conversion_new \<lparr>payload_fields = [text_field ''Network'' ''Ethereum Mainnet'',
         AmountV2 \<lparr>fallback_text = ''0 ETH'', label = ''Value''\<rparr> \<lparr>amount_v2_amount = ''0'', amount_v2_abbreviation = Some ''ETH''\<rparr>,
         text_field ''Gas Limit'' ''21000'', text_field ''Gas Price'' ''0 gwei'', text_field ''Nonce'' ''0''],
       payload_payload_type = ''EthereumTx'', payload_subtitle = None, payload_title = ''Ethereum Transaction'',
       payload_version = ''0''\<rparr>)"
  (is "_ = Inr (conversion_new ?p)")
proof -
  have num: "nat_str 21000 = ''21000''" "nat_str 0 = ''0''"
    by (simp_all add: nat_str.simps digit_char_def char_of_def bit_0)
  have net: "get_network_name (Some 1) = ''Ethereum Mainnet''" "get_fee_paying_asset_symbol 1 = Some ''ETH''"
    by (simp_all add: get_network_name_def get_fee_paying_asset_symbol_def networks_def)
  have tx: "eth_from_string_with_options (lib_alloy zero_libs) ''{}'' (developer_config sample_options) = Inr creation_tx"
    using creation_parses by (simp add: zero_libs_def sample_options_def)
  have "resolve_chain_id creation_tx sample_options = Inr 1" by (simp add: resolve_chain_id_Inr creation_tx_def)
  then have "convert_transaction_inner zero_libs (sample_conv AcceptUnsigned) creation_tx sample_options = Inr ?p"
    by (simp add: convert_transaction_inner_def convert_to_visual_sign_payload_def header_fields_def Let_def creation_tx_def
        TxBase.truncate_def payload_new_def num net format_ether_def format_gwei_def zero_libs_def zero_alloy_def
        trim_trailing_zeros_def sample_options_def int_str_def)
  moreover have "list_all safe_text (payload_strings ?p)"
    by (simp add: payload_strings_def text_field_def safe_text_def safe_char_def code_def)
  then have "validate_charset True (\<lambda>_. ''e'') ?p = Inr ()" by (rule validate_charset_safe [THEN iffD2])
  ultimately show ?thesis using tx by (auto simp: eth_from_string_conversion)
qed

end
