(* ===== verification/SolanaAccounts.thy ===== *)
theory SolanaAccounts
  imports AnchorageRender "HOL-Library.Product_Lexorder" "HOL-Library.Multiset"
begin

text \<open>
  \<^verbatim>\<open>chain_parsers/visualsign-solana/src/core/accounts/decode.rs\<close>: the accounts of a message, their
  flags from the message header, their order, and the field that shows them. A message of the
  Solana SDK is the record of the parts that are read; \<open>show_key\<close> is the SDK's rendering of a
  public key. Header counts are bytes, read as numbers; \<^verbatim>\<open>saturating_sub\<close> is subtraction of
  natural numbers.
\<close>

record MessageHeader =
  num_required_signatures :: byte
  num_readonly_signed_accounts :: byte
  num_readonly_unsigned_accounts :: byte

record 'a Message =
  header :: MessageHeader
  account_keys :: "'a list"

record SolanaAccountInfo =
  account_address :: string
  is_signer :: bool
  is_writable :: bool
  original_index :: nat

definition account_info :: "('a \<Rightarrow> string) \<Rightarrow> ('a, 'm) Message_scheme \<Rightarrow> nat \<Rightarrow> 'a \<Rightarrow> SolanaAccountInfo" where
  "account_info show_key message i key =
     (let sigs = unat (num_required_signatures (header message));
          writable =
            (if i < sigs
             then i < sigs - unat (num_readonly_signed_accounts (header message))
             else (let non_signer_index = i - sigs;
                       total_non_signers = length (account_keys message) - sigs;
                       writable_non_signers =
                         total_non_signers - unat (num_readonly_unsigned_accounts (header message))
                   in non_signer_index < writable_non_signers))
      in \<lparr>account_address = show_key key, is_signer = (i < sigs), is_writable = writable,
          original_index = i\<rparr>)"

definition category :: "SolanaAccountInfo \<Rightarrow> nat" where
  "category a =
     (if is_signer a \<and> is_writable a then 0
      else if is_signer a \<and> \<not> is_writable a then 1
      else if \<not> is_signer a \<and> is_writable a then 2
      else 3)"

text \<open>The comparison closure of \<^verbatim>\<open>sort_by\<close> compares categories, then indices.\<close>

definition sort_accounts :: "SolanaAccountInfo list \<Rightarrow> SolanaAccountInfo list" where
  "sort_accounts as = sort_key (\<lambda>a. (category a, original_index a)) as"

definition raw_accounts :: "('a \<Rightarrow> string) \<Rightarrow> ('a, 'm) Message_scheme \<Rightarrow> SolanaAccountInfo list" where
  "raw_accounts show_key message =
     map (\<lambda>(i, key). account_info show_key message i key) (enumerate 0 (account_keys message))"

definition decode_accounts :: "('a \<Rightarrow> string) \<Rightarrow> ('a, 'm) Message_scheme \<Rightarrow> (VisualSignError, SolanaAccountInfo list) result" where
  "decode_accounts show_key message = Inr (sort_accounts (raw_accounts show_key message))"

text \<open>The v0 message has the same header, and \<^verbatim>\<open>decode_v0_accounts\<close> the same body.\<close>

definition decode_v0_accounts :: "('a \<Rightarrow> string) \<Rightarrow> ('a, 'm) Message_scheme \<Rightarrow> (VisualSignError, SolanaAccountInfo list) result" where
  "decode_v0_accounts show_key v0_message = Inr (sort_accounts (raw_accounts show_key v0_message))"

section \<open>Display\<close>

definition plain_text_field :: "string \<Rightarrow> string \<Rightarrow> AnnotatedPayloadField" where
  "plain_text_field lbl t = Annotated (TextV2 \<lparr>fallback_text = t, label = lbl\<rparr> \<lparr>text_v2_text = t\<rparr>) None None"

definition account_details :: "SolanaAccountInfo \<Rightarrow> string" where
  "account_details a =
     join '', '' ([account_address a] @ (if is_signer a then [''Signer''] else [])
       @ (if is_writable a then [''Writable''] else []))"

definition accounts_to_payload_fields :: "SolanaAccountInfo list \<Rightarrow> AnnotatedPayloadField list" where
  "accounts_to_payload_fields as = map (\<lambda>a. plain_text_field ''Account'' (account_details a)) as"

fun count_accounts :: "SolanaAccountInfo list \<Rightarrow> nat \<times> nat \<times> nat \<Rightarrow> nat \<times> nat \<times> nat" where
  "count_accounts [] acc = acc"
| "count_accounts (a # as) (s, w, r) =
     count_accounts as
       (if is_signer a then (s + 1, w, r) else if is_writable a then (s, w + 1, r) else (s, w, r + 1))"

definition account_summary :: "SolanaAccountInfo list \<Rightarrow> AnnotatedPayloadField list" where
  "account_summary as =
     (case count_accounts as (0, 0, 0) of (s, w, r) \<Rightarrow>
        (if s > 0
         then [plain_text_field ''Signers'' (nat_str s @ '' Signer'' @ (if s = 1 then [] else ''s''))] else [])
        @ (if w > 0 then [plain_text_field ''Writable'' (nat_str w @ '' Writable'')] else [])
        @ (if r > 0 then [plain_text_field ''Read Only'' (nat_str r @ '' Read Only'')] else []))"

definition account_fallback :: "SolanaAccountInfo \<Rightarrow> string" where
  "account_fallback a =
     account_address a @ ''['' @ (if is_signer a then ''S'' else []) @ (if is_writable a then ''W'' else ''R'') @ '']''"

definition create_accounts_advanced_preview_layout ::
  "string \<Rightarrow> SolanaAccountInfo list \<Rightarrow> (VisualSignError, SignablePayloadField) result" where
  "create_accounts_advanced_preview_layout title as =
     Inr (PreviewLayout
       \<lparr>fallback_text = join '', '' (map account_fallback as), label = title\<rparr>
       (PreviewLayoutData (Some \<lparr>text_v2_text = title\<rparr>)
          (Some \<lparr>text_v2_text = nat_str (length as) @ '' account'' @ (if length as = 1 then [] else ''s'')\<rparr>)
          (Some (ListLayoutData (account_summary as)))
          (Some (ListLayoutData (accounts_to_payload_fields as)))))"

section \<open>Facts\<close>

lemma category_mono:
  assumes "i \<le> j" and "j < length (account_keys message)"
  shows "category (account_info show_key message i k) \<le> category (account_info show_key message j l)"
  using assms by (auto simp: category_def account_info_def Let_def)

lemma original_index_account_info [simp]: "original_index (account_info show_key message i k) = i"
  by (simp add: account_info_def Let_def)

lemma length_raw_accounts [simp]: "length (raw_accounts show_key message) = length (account_keys message)"
  by (simp add: raw_accounts_def)

lemma nth_raw_accounts:
  "i < length (account_keys message) \<Longrightarrow>
     raw_accounts show_key message ! i = account_info show_key message i (account_keys message ! i)"
  by (simp add: raw_accounts_def nth_enumerate_eq)

text \<open>A message lists its accounts by category already, so the sort moves nothing.\<close>

lemma sort_accounts_id: "sort_accounts (raw_accounts show_key message) = raw_accounts show_key message"
proof -
  have "sorted (map (\<lambda>a. (category a, original_index a)) (raw_accounts show_key message))"
    by (auto simp: sorted_iff_nth_mono nth_raw_accounts less_eq_prod_def
        intro: category_mono dest: category_mono [of _ _ message show_key] le_antisym)
  then show ?thesis unfolding sort_accounts_def by (rule sort_key_id_if_sorted)
qed

lemma count_accounts_eq:
  "count_accounts as (s, w, r) =
     (s + length (filter is_signer as),
      w + length (filter (\<lambda>a. \<not> is_signer a \<and> is_writable a) as),
      r + length (filter (\<lambda>a. \<not> is_signer a \<and> \<not> is_writable a) as))"
  by (induction as arbitrary: s w r) auto

lemma renderable_plain: "renderable_items (map (\<lambda>x. plain_text_field (f x) (g x)) xs)"
  by (induction xs) (auto simp: plain_text_field_def)

lemma renderable_summary: "renderable_items (account_summary as)"
  by (auto simp: account_summary_def plain_text_field_def split: prod.splits)

section \<open>Properties\<close>

text \<open>Decoding lists every account of the message once, in the message's own order: the four
  categories are already sorted, so the sort moves nothing. Account \<open>i\<close> is a signer exactly below the
  required signatures, and read-only exactly at the end of its half.\<close>

lemma accounts_in_message_order:
  "\<exists>as. decode_accounts show_key message = Inr as \<and> decode_v0_accounts show_key message = Inr as
     \<and> map original_index as = [0..<length (account_keys message)]
     \<and> map account_address as = map show_key (account_keys message)
     \<and> sorted (map category as)
     \<and> map is_signer as = map (\<lambda>i. i < unat (num_required_signatures (header message))) [0..<length as]"
proof (intro exI conjI)
  let ?as = "raw_accounts show_key message"
  show "decode_accounts show_key message = Inr ?as" "decode_v0_accounts show_key message = Inr ?as"
    by (simp_all add: decode_accounts_def decode_v0_accounts_def sort_accounts_id)
  show "map original_index ?as = [0..<length (account_keys message)]"
    "map account_address ?as = map show_key (account_keys message)"
    "map is_signer ?as = map (\<lambda>i. i < unat (num_required_signatures (header message))) [0..<length ?as]"
    by (auto intro!: nth_equalityI simp: nth_raw_accounts) (simp_all add: account_info_def Let_def)
  show "sorted (map category ?as)"
    by (auto simp: sorted_iff_nth_mono nth_raw_accounts intro: category_mono)
qed

text \<open>The accounts field always renders in the wallet, lists one row per account, and its summary
  counts signers, writable and read-only accounts so that the three counts add up to all accounts.\<close>

lemma accounts_layout_renders:
  "\<exists>c d. create_accounts_advanced_preview_layout title as = Inr (PreviewLayout c d)
     \<and> renderable (PreviewLayout c d)
     \<and> (\<exists>rows. preview_expanded d = Some (ListLayoutData rows) \<and> length rows = length as)
     \<and> (\<exists>s w r. count_accounts as (0, 0, 0) = (s, w, r) \<and> s + w + r = length as
          \<and> s = length (filter is_signer as))"
proof -
  have "length (filter is_signer as) + length (filter (\<lambda>a. \<not> is_signer a \<and> is_writable a) as)
      + length (filter (\<lambda>a. \<not> is_signer a \<and> \<not> is_writable a) as) = length as"
    by (induction as) auto
  moreover have "renderable_items (accounts_to_payload_fields as)"
    using renderable_plain [of "\<lambda>_. ''Account''" account_details as] by (simp add: accounts_to_payload_fields_def)
  ultimately show ?thesis
    by (auto simp: create_accounts_advanced_preview_layout_def renderable_summary count_accounts_eq
        accounts_to_payload_fields_def)
qed

end
