(* ===== verification/FieldSeq.thy ===== *)
theory FieldSeq
  imports FieldBuilders Charset
begin

text \<open>
  Rendered fields in sequence: how the chain crates' renderers put the results of the field builders together,
  with the first error ending the sequence, and when what they build is safe text. Used by the NEAR and Tron converters.
\<close>

section \<open>Sequences of fields\<close>

text \<open>The fields of one renderer in order; the first error ends it.\<close>

fun seq_fields :: "('e, 'a list) result list \<Rightarrow> ('e, 'a list) result" where
  "seq_fields [] = Inr []"
| "seq_fields (r # rs) = and_then r (\<lambda>fs. and_then (seq_fields rs) (\<lambda>gs. Inr (fs @ gs)))"

definition one_field :: "(VisualSignError, AnnotatedPayloadField) result \<Rightarrow> (VisualSignError, SignablePayloadField list) result" where
  "one_field r = and_then r (\<lambda>a. Inr [signable_payload_field a])"

definition text_of :: "string \<Rightarrow> string \<Rightarrow> (VisualSignError, SignablePayloadField list) result" where
  "text_of lbl t = one_field (create_text_field lbl t)"

definition address_of :: "string \<Rightarrow> string \<Rightarrow> (VisualSignError, SignablePayloadField list) result" where
  "address_of lbl a = one_field (create_address_field lbl a None None None None)"

definition text_entry :: "string \<Rightarrow> string \<Rightarrow> SignablePayloadField" where
  "text_entry lbl t = TextV2 \<lparr>fallback_text = t, label = lbl\<rparr> \<lparr>text_v2_text = t\<rparr>"

definition amount_entry :: "string \<Rightarrow> string \<Rightarrow> string \<Rightarrow> SignablePayloadField" where
  "amount_entry lbl s symbol = AmountV2 \<lparr>fallback_text = s @ '' '' @ symbol, label = lbl\<rparr>
     \<lparr>amount_v2_amount = s, amount_v2_abbreviation = Some symbol\<rparr>"

definition address_entry :: "string \<Rightarrow> string \<Rightarrow> SignablePayloadField" where
  "address_entry lbl a = AddressV2 \<lparr>fallback_text = a, label = lbl\<rparr>
     \<lparr>address_v2_address = a, address_v2_name = [], address_v2_memo = None, address_v2_asset_label = [],
      address_v2_badge_text = None\<rparr>"

lemma text_of_eq: "text_of lbl t = Inr [text_entry lbl t]"
  by (simp add: text_of_def one_field_def create_text_field_def text_entry_def)

section \<open>Plain text\<close>

lemma no_backslash_no_lookalike: "CHR 0x5C \<notin> set s \<Longrightarrow> no_escape_lookalike s"
  by (induction s rule: no_escape_lookalike.induct) auto

text \<open>Printable text and newlines without a backslash: it stays safe when it is put together.\<close>

definition plain :: "string \<Rightarrow> bool" where
  "plain s = list_all (\<lambda>c. code c = 10 \<or> 32 \<le> code c \<and> code c \<le> 126 \<and> c \<noteq> CHR 0x5C) s"

lemma plain_append [simp]: "plain (a @ b) \<longleftrightarrow> plain a \<and> plain b"
  by (simp add: plain_def)

lemma plain_Nil [simp]: "plain []"
  by (simp add: plain_def)

lemma plain_safe: "plain s \<Longrightarrow> safe_text s"
proof -
  assume s: "plain s"
  have "code (CHR 0x5C) = 92" by (simp add: code_def)
  with s have "CHR 0x5C \<notin> set s" by (auto simp: plain_def list_all_iff)
  with s show ?thesis
    by (auto simp: plain_def safe_text_def list_all_iff safe_char_def intro: no_backslash_no_lookalike)
qed

lemma plain_digits: "list_all is_ascii_digit s \<Longrightarrow> plain s"
proof -
  have "code (CHR 0x5C) = 92" by (simp add: code_def)
  then show "list_all is_ascii_digit s \<Longrightarrow> plain s" by (auto simp: plain_def list_all_iff is_ascii_digit_def)
qed

lemma plain_nat_str [simp]: "plain (nat_str n)"
  by (rule plain_digits) (auto simp: list_all_iff is_ascii_digit_def dest: nat_str_digits)

lemma plain_join: "plain sep \<Longrightarrow> list_all plain xs \<Longrightarrow> plain (join sep xs)"
  by (induction sep xs rule: join.induct) auto

lemma plain_newline [simp]: "plain [CHR 0x0A]"
  by (simp add: plain_def code_def)

lemma plain_signed_decimal: "signed_decimal s \<Longrightarrow> plain s"
proof -
  assume "signed_decimal s"
  moreover have "plain ''.''" "plain ''-''" "plain ''+''" by (simp_all add: plain_def code_def)
  ultimately show ?thesis by (auto simp: signed_decimal_def digits_def simp del: append.simps intro: plain_digits)
qed

text \<open>The absolute value of a signed word, the least value included.\<close>

lemma unat_unsigned_abs:
  fixes d :: "'a :: len word"
  shows "unat (if sint d < 0 then - d else d) = nat \<bar>sint d\<bar>"
proof -
  have abs: "(if sint d < 0 then - d else d) = word_of_int \<bar>sint d\<bar>"
    by (cases "sint d < 0") (simp_all add: wi_hom_neg [symmetric])
  have "\<bar>sint d\<bar> \<le> 2 ^ (LENGTH('a) - 1)" using sint_greater_eq [of d] sint_less [of d] by simp
  also have "\<dots> < (2 :: int) ^ LENGTH('a)" by (rule power_strict_increasing) simp_all
  finally have "uint (word_of_int \<bar>sint d\<bar> :: 'a word) = \<bar>sint d\<bar>" by (simp add: uint_word_of_int)
  then show ?thesis unfolding abs unat_eq_nat_uint by simp
qed

text \<open>Exact decimals are accepted by the number check.\<close>

lemma shows_decimal_signed:
  assumes "shows_decimal d n s"
  shows "signed_decimal s" and "signed_decimal (''-'' @ s)"
proof -
  obtain w f where s: "s = nat_str w @ (if f = [] then [] else ''.'' @ f)" "list_all is_ascii_digit f"
    using assms by (auto simp: shows_decimal_def)
  have n: "digits (nat_str w)"
    by (auto simp: digits_def nat_str_ne list_all_iff is_ascii_digit_def dest: nat_str_digits)
  have "signed_decimal (sign @ s)" if "sign \<in> {[], ''-''}" for sign
    unfolding signed_decimal_def s(1) using that s(2) n
    by (intro exI [of _ sign] exI [of _ "nat_str w"] exI [of _ "if f = [] then [] else ''.'' @ f"]) (auto simp: digits_def)
  from this [of "[]"] this [of "''-''"] show "signed_decimal s" and "signed_decimal (''-'' @ s)" by simp_all
qed

section \<open>Safe fields\<close>

definition safe_fields :: "SignablePayloadField list \<Rightarrow> bool" where
  "safe_fields fs = list_all (\<lambda>f. list_all safe_text (field_strings f)) fs"

definition fields_ok :: "(VisualSignError, SignablePayloadField list) result \<Rightarrow> bool" where
  "fields_ok r = (case r of Inl _ \<Rightarrow> True | Inr fs \<Rightarrow> safe_fields fs)"

lemma safe_fields_simps [simp]:
  "safe_fields []" "safe_fields (f # fs) \<longleftrightarrow> list_all safe_text (field_strings f) \<and> safe_fields fs"
  "safe_fields (fs @ gs) \<longleftrightarrow> safe_fields fs \<and> safe_fields gs"
  by (simp_all add: safe_fields_def)

lemma fields_ok_simps [simp]: "fields_ok (Inr fs) = safe_fields fs" "fields_ok (Inl e)"
  by (simp_all add: fields_ok_def)

lemma fields_ok_seq: "list_all fields_ok rs \<Longrightarrow> fields_ok (seq_fields rs)"
proof (induction rs)
  case (Cons r rs)
  then have "fields_ok (seq_fields rs)" "fields_ok r" by simp_all
  then show ?case by (cases r; cases "seq_fields rs") auto
qed simp

declare seq_fields.simps [simp del]

lemma fields_ok_text: "plain lbl \<Longrightarrow> plain t \<Longrightarrow> fields_ok (text_of lbl t)"
  by (simp add: text_of_def one_field_def create_text_field_def plain_safe)

lemma fields_ok_address: "plain lbl \<Longrightarrow> plain a \<Longrightarrow> fields_ok (address_of lbl a)"
  by (simp add: address_of_def one_field_def create_address_field_def plain_safe unwrap_or_def)

lemma plain_space [simp]: "plain (CHR '' '' # s) \<longleftrightarrow> plain s"
  by (simp add: plain_def code_def)

lemma fields_ok_amount: "plain lbl \<Longrightarrow> plain u \<Longrightarrow> fields_ok (one_field (create_amount_field lbl a u))"
  by (auto simp: fields_ok_def one_field_def create_amount_field_def validate_number_string_eq and_then_Inr_iff Let_def
      plain_signed_decimal unwrap_or_def split: sum.splits if_splits intro!: plain_safe)

lemma fields_ok_number: "plain lbl \<Longrightarrow> plain u \<Longrightarrow> fields_ok (one_field (create_number_field lbl a u))"
  by (auto simp: fields_ok_def one_field_def create_number_field_def validate_number_string_eq and_then_Inr_iff Let_def
      plain_signed_decimal split: sum.splits if_splits intro!: plain_safe)

lemma fields_ok_and_then: "fields_ok r \<Longrightarrow> (\<And>fs. r = Inr fs \<Longrightarrow> fields_ok (g fs)) \<Longrightarrow> fields_ok (and_then r g)"
  by (cases r) auto

lemma fields_ok_safe: "plain lbl \<Longrightarrow> safe_text t \<Longrightarrow> fields_ok (text_of lbl t)"
  by (simp add: text_of_def one_field_def create_text_field_def plain_safe)

lemma safe_fields_concat [simp]: "safe_fields (concat fss) \<longleftrightarrow> list_all safe_fields fss"
  by (induction fss) auto

lemma fields_okD: "fields_ok r \<Longrightarrow> r = Inr fs \<Longrightarrow> safe_fields fs"
  by simp

section \<open>Successful sequences\<close>

definition ok_fields :: "('e, 'a list) result \<Rightarrow> 'a list" where
  "ok_fields r = (case r of Inl _ \<Rightarrow> [] | Inr fs \<Rightarrow> fs)"

lemma ok_fields_simps [simp]: "ok_fields (Inr fs) = fs" "ok_fields (Inl e) = []"
  by (simp_all add: ok_fields_def)

lemma seq_fields_Inr: "seq_fields rs = Inr fs \<longleftrightarrow> list_all is_ok rs \<and> fs = concat (map ok_fields rs)"
proof (induction rs arbitrary: fs)
  case (Cons r rs)
  then show ?case by (cases r) (auto simp: seq_fields.simps and_then_Inr_iff is_ok_def)
qed (auto simp: seq_fields.simps)

end
