(* ===== verification/SolanaContext.thy ===== *)
theory SolanaContext
  imports SolanaAccounts FieldSeq
begin

text \<open>
  \<^verbatim>\<open>chain_parsers/visualsign-solana/src/core/mod.rs\<close> and the crate's \<^verbatim>\<open>build.rs\<close>: what a visualizer sees of an
  instruction, how indices are resolved, and how the visualizers are tried in turn. A visualizer and its configuration
  are trait objects, records of their methods with the default methods as definitions; public keys have type \<open>'k\<close> and
  parsed IDLs type \<open>'i\<close>. \<^verbatim>\<open>usize\<close> is 64 bits wide where its overflow matters, the call depth.
\<close>

section \<open>Data\<close>

text \<open>The structs of \<^verbatim>\<open>solana_parser\<close> and of the SDK that the crate reads, as records of the parts that are read.\<close>

record ParserAccount =
  pa_account_key :: string
  pa_signer :: bool
  pa_writable :: bool

record CompiledInstruction =
  program_id_index :: byte
  instruction_accounts :: "byte list"
  instruction_data :: bytes

datatype 'i CustomIdl = IdlParsed 'i | IdlJson string

record 'i CustomIdlConfig =
  config_idl :: "'i CustomIdl"
  override_builtin :: bool

record 'i IdlRegistry =
  idl_configs :: "(string \<times> 'i CustomIdlConfig) list"
  idl_program_names :: "(string \<times> string) list"
  idl_metadata_names :: "(string \<times> string) list"

definition MAX_CALL_DEPTH :: u64 where
  "MAX_CALL_DEPTH = 4"

datatype VisualizerKind = Dex string | Lending string | StakingPools string | Payments string

datatype 'k ProgramRef = ProgramResolved 'k | ProgramUnresolved byte

datatype 'k AccountRef = AccountResolved 'k | AccountUnresolved byte

record ('k, 'i) VisualizerContext =
  sender :: ParserAccount
  compiled_instruction :: CompiledInstruction
  context_account_keys :: "'k list"
  idl_registry :: "'i IdlRegistry"
  instruction_index :: nat
  call_depth :: u64

definition context_new ::
  "ParserAccount \<Rightarrow> CompiledInstruction \<Rightarrow> 'k list \<Rightarrow> 'i IdlRegistry \<Rightarrow> nat \<Rightarrow> ('k, 'i) VisualizerContext" where
  "context_new s ci ks idls index =
     \<lparr>sender = s, compiled_instruction = ci, context_account_keys = ks, idl_registry = idls,
      instruction_index = index, call_depth = 0\<rparr>"

definition with_call_depth :: "('k, 'i) VisualizerContext \<Rightarrow> u64 \<Rightarrow> ('k, 'i) VisualizerContext" where
  "with_call_depth context depth = context\<lparr>call_depth := depth\<rparr>"

section \<open>Resolution\<close>

text \<open>\<^verbatim>\<open>slice::get\<close>.\<close>

definition slice_get :: "'a list \<Rightarrow> nat \<Rightarrow> 'a option" where
  "slice_get xs i = (if i < length xs then Some (xs ! i) else None)"

definition program_id :: "('k, 'i) VisualizerContext \<Rightarrow> 'k ProgramRef" where
  "program_id context =
     (let idx = program_id_index (compiled_instruction context)
      in case slice_get (context_account_keys context) (unat idx) of
           Some pk \<Rightarrow> ProgramResolved pk
         | None \<Rightarrow> ProgramUnresolved idx)"

definition account :: "('k, 'i) VisualizerContext \<Rightarrow> nat \<Rightarrow> 'k AccountRef option" where
  "account context position =
     (case slice_get (instruction_accounts (compiled_instruction context)) position of
        None \<Rightarrow> None
      | Some idx \<Rightarrow>
          Some (case slice_get (context_account_keys context) (unat idx) of
                  Some pk \<Rightarrow> AccountResolved pk
                | None \<Rightarrow> AccountUnresolved idx))"

definition context_data :: "('k, 'i) VisualizerContext \<Rightarrow> bytes" where
  "context_data context = instruction_data (compiled_instruction context)"

definition num_accounts :: "('k, 'i) VisualizerContext \<Rightarrow> nat" where
  "num_accounts context = length (instruction_accounts (compiled_instruction context))"

definition resolve_program_id :: "('k, 'i) VisualizerContext \<Rightarrow> (VisualSignError, 'k) result" where
  "resolve_program_id context =
     (case program_id context of
        ProgramResolved pk \<Rightarrow> Inr pk
      | ProgramUnresolved raw_index \<Rightarrow>
          Inl (DecodeError (''unresolved program at index '' @ nat_str (unat raw_index))))"

text \<open>\<^verbatim>\<open>collect\<close> into a \<^verbatim>\<open>Result\<close>: the first error, or all values.\<close>

fun collect_results :: "('e, 'a) result list \<Rightarrow> ('e, 'a list) result" where
  "collect_results [] = Inr []"
| "collect_results (r # rs) = and_then r (\<lambda>a. and_then (collect_results rs) (\<lambda>as. Inr (a # as)))"

text \<open>An account meta of the SDK: key, signer flag, writable flag.\<close>

definition resolve_accounts :: "('k, 'i) VisualizerContext \<Rightarrow> (VisualSignError, ('k \<times> bool \<times> bool) list) result" where
  "resolve_accounts context =
     collect_results (map (\<lambda>i.
       case account context i of
         Some (AccountResolved pk) \<Rightarrow> Inr (pk, False, False)
       | Some (AccountUnresolved raw_index) \<Rightarrow>
           Inl (DecodeError (''unresolved account index '' @ nat_str (unat raw_index) @ '' at position '' @ nat_str i))
       | None \<Rightarrow> Inl (DecodeError (''missing account at position '' @ nat_str i))) [0..<num_accounts context])"

record InstructionView =
  view_program_id :: string
  view_accounts :: "string list"

definition unresolved_text :: "byte \<Rightarrow> string" where
  "unresolved_text raw_index = ''unresolved('' @ nat_str (unat raw_index) @ '')''"

definition view_from_context :: "('k \<Rightarrow> string) \<Rightarrow> ('k, 'i) VisualizerContext \<Rightarrow> InstructionView" where
  "view_from_context show_key context =
     \<lparr>view_program_id =
        (case program_id context of
           ProgramResolved pk \<Rightarrow> show_key pk
         | ProgramUnresolved raw_index \<Rightarrow> unresolved_text raw_index),
      view_accounts = map (\<lambda>i.
        case account context i of
          Some (AccountResolved pk) \<Rightarrow> show_key pk
        | Some (AccountUnresolved raw_index) \<Rightarrow> unresolved_text raw_index
        | None \<Rightarrow> ''unresolved(oob:'' @ nat_str i @ '')'') [0..<num_accounts context]\<rparr>"

section \<open>Visualizers\<close>

record SolanaIntegrationConfig =
  config_programs :: "(string \<times> (string \<times> string list) list) list"
  config_can_handle :: "string \<Rightarrow> bool"

text \<open>The default method \<^verbatim>\<open>can_handle\<close> of the configuration, and a configuration that keeps it.\<close>

definition default_config_can_handle :: "(string \<times> (string \<times> string list) list) list \<Rightarrow> string \<Rightarrow> bool" where
  "default_config_can_handle programs pid = (map_of programs pid \<noteq> None)"

definition integration_config_new :: "(string \<times> (string \<times> string list) list) list \<Rightarrow> SolanaIntegrationConfig" where
  "integration_config_new programs = \<lparr>config_programs = programs, config_can_handle = default_config_can_handle programs\<rparr>"

record ('k, 'i) Visualizer =
  visualize_tx_commands :: "('k, 'i) VisualizerContext \<Rightarrow> (VisualSignError, AnnotatedPayloadField) result"
  get_config :: "SolanaIntegrationConfig option"
  kind :: VisualizerKind
  can_handle :: "('k, 'i) VisualizerContext \<Rightarrow> bool"

text \<open>The default method \<^verbatim>\<open>can_handle\<close> of a visualizer.\<close>

definition default_can_handle ::
  "('k \<Rightarrow> string) \<Rightarrow> SolanaIntegrationConfig option \<Rightarrow> ('k, 'i) VisualizerContext \<Rightarrow> bool" where
  "default_can_handle show_key cfg context =
     (case cfg of
        None \<Rightarrow> False
      | Some config \<Rightarrow>
          (case program_id context of
             ProgramResolved pk \<Rightarrow> config_can_handle config (show_key pk)
           | ProgramUnresolved raw_index \<Rightarrow> False))"

record VisualizeResult =
  result_field :: AnnotatedPayloadField
  result_kind :: VisualizerKind

fun visualize_with_any ::
  "('k, 'i) Visualizer list \<Rightarrow> ('k, 'i) VisualizerContext \<Rightarrow> (VisualSignError, VisualizeResult) result option" where
  "visualize_with_any [] context = None"
| "visualize_with_any (v # vs) context =
     (if \<not> can_handle v context then visualize_with_any vs context
      else Some (and_then (visualize_tx_commands v context) (\<lambda>field.
             Inr \<lparr>result_field = field, result_kind = kind v\<rparr>)))"

text \<open>
  \<^verbatim>\<open>collect_visualizers\<close> of \<^verbatim>\<open>build.rs\<close>: the visualizers of the preset directories in the order the file system
  lists them, the catch-all moved to the end. An entry is a directory's name with the visualizer it holds.
\<close>

definition collect_visualizers :: "(string \<times> 'v) list \<Rightarrow> 'v list" where
  "collect_visualizers all_visualizers =
     (let (unknown, specific) = partition (\<lambda>(name, _). name = ''unknown_program'') all_visualizers
      in map snd specific @ map snd unknown)"

section \<open>Facts\<close>

lemma slice_get_Some: "slice_get xs i = Some x \<longleftrightarrow> i < length xs \<and> xs ! i = x"
  by (auto simp: slice_get_def)

lemma slice_get_None: "slice_get xs i = None \<longleftrightarrow> length xs \<le> i"
  by (auto simp: slice_get_def)

lemma collect_results_Inr: "collect_results rs = Inr as \<longleftrightarrow> rs = map Inr as"
proof (induction rs arbitrary: as)
  case (Cons r rs)
  then show ?case by (cases as) (auto simp: and_then_Inr_iff)
qed auto

text \<open>What is shown of an instruction names exactly the indices that resolve.\<close>

lemma view_accounts_eq:
  "view_accounts (view_from_context show_key context) =
     map (\<lambda>idx. if unat idx < length (context_account_keys context) then show_key (context_account_keys context ! unat idx)
                else unresolved_text idx) (instruction_accounts (compiled_instruction context))"
  by (intro nth_equalityI)
    (auto simp: view_from_context_def num_accounts_def account_def slice_get_def split: option.split)

text \<open>
  The interface of a chain of visualizers: its last member takes every instruction. Then every instruction is
  visualized or its failure is known, and the first visualizer that can handle it decides.
\<close>

locale visualizer_chain =
  fixes vs :: "('k, 'i) Visualizer list"
  assumes chain_ne: "vs \<noteq> []" and catch_all: "can_handle (last vs) context"
begin

lemma first_handler:
  "\<exists>us v ws. vs = us @ v # ws \<and> list_all (\<lambda>u. \<not> can_handle u context) us \<and> can_handle v context
     \<and> visualize_with_any vs context =
         Some (and_then (visualize_tx_commands v context) (\<lambda>f. Inr \<lparr>result_field = f, result_kind = kind v\<rparr>))"
proof -
  have "\<exists>v \<in> set vs. can_handle v context" using chain_ne catch_all last_in_set by blast
  then obtain us v ws where vs: "vs = us @ v # ws" and u: "\<forall>u \<in> set us. \<not> can_handle u context" "can_handle v context"
    by (rule split_list_first_propE) blast
  have "visualize_with_any (us @ v # ws) context =
      Some (and_then (visualize_tx_commands v context) (\<lambda>f. Inr \<lparr>result_field = f, result_kind = kind v\<rparr>))"
    using u by (induction us) auto
  with vs u show ?thesis by (auto simp: list_all_iff)
qed

lemma always_visualized: "visualize_with_any vs context \<noteq> None"
  using first_handler by fastforce

end

end
