(* ===== verification/SolanaIdl.thy ===== *)
theory SolanaIdl
  imports SolanaContext Registry Signing Encodings Json StdText
begin

text \<open>
  Which IDLs decide how a Solana instruction is shown: \<^verbatim>\<open>idl/builtin_programs.rs\<close>, \<^verbatim>\<open>idl/mod.rs\<close>, \<^verbatim>\<open>idl/signature.rs\<close> and
  the extraction of caller IDLs in \<^verbatim>\<open>core/visualsign.rs\<close>, all of \<^verbatim>\<open>chain_parsers/visualsign-solana/src\<close>. The Solana SDK,
  \<^verbatim>\<open>solana_parser\<close>, the JSON parser, SHA-256 and the hex crate are the record \<open>SolanaLibs\<close>, the ed25519 operations the record
  \<open>Ed25519\<close> on keys of type \<open>'v\<close>. \<open>vs\<close> are the visualizers that the build has collected. Log lines are left out.
\<close>

section \<open>Libraries\<close>

text \<open>\<^verbatim>\<open>ProgramType\<close> of \<^verbatim>\<open>solana_parser\<close>: the programs whose IDL it ships.\<close>

datatype ProgramType =
    PT_ApePro | PT_CandyMachine | PT_Drift | PT_JupiterLimit | PT_Jupiter | PT_Kamino | PT_Lifinity
  | PT_Meteora | PT_Openbook | PT_Orca | PT_Raydium | PT_Stabble | PT_JupiterAggregatorV6

text \<open>An instruction of an IDL: its name, discriminator, account names, and the rest that only the library reads.\<close>

record IdlInstruction =
  inst_name :: string
  inst_discriminator :: "bytes option"
  inst_accounts :: "string list"
  inst_rest :: json

datatype IdlSource = SourceBuiltIn ProgramType | SourcePreset | SourceCustom

record ParserInstructionData =
  pi_instruction_name :: string
  pi_discriminator :: string
  pi_named_accounts :: "(string \<times> string) list"
  pi_program_call_args :: "(string \<times> json) list"
  pi_idl_source :: IdlSource
  pi_idl_hash :: string

record ('k, 'i) SolanaLibs =
  show_key :: "'k \<Rightarrow> string"
  parse_key :: "string \<Rightarrow> 'k option"
  key_bytes :: "'k \<Rightarrow> bytes"
  program_type_of :: "string \<Rightarrow> ProgramType option"
  parse_json :: "string \<Rightarrow> json option"
  config_from_json :: "string \<Rightarrow> bool \<Rightarrow> 'i CustomIdlConfig"
  decode_idl_data :: "string \<Rightarrow> (string, 'i) result"
  idl_instructions :: "'i \<Rightarrow> IdlInstruction list"
  parse_instruction_with_idl :: "bytes \<Rightarrow> string \<Rightarrow> 'i \<Rightarrow> (string, ParserInstructionData) result"
  sl_sha :: "bytes \<Rightarrow> bytes"
  sl_hex_encode :: "bytes \<Rightarrow> string"
  sl_hex_decode :: "string \<Rightarrow> (string, bytes) result"

record 'v Ed25519 =
  ed_key_from_bytes :: "bytes \<Rightarrow> (string, 'v) result"
  ed_key_to_bytes :: "'v \<Rightarrow> bytes"
  ed_verify_strict :: "'v \<Rightarrow> bytes \<Rightarrow> bytes \<Rightarrow> (string, unit) result"

section \<open>Programs with a fixed identity\<close>

definition NATIVE_PROGRAM_NAMES :: "(string \<times> string) list" where
  "NATIVE_PROGRAM_NAMES =
     [(''11111111111111111111111111111111'', ''System Program''),
      (''ATokenGPvbdGVxr1b2hvZbsiqW5xWH25efTNsLJA8knL'', ''Associated Token Account Program''),
      (''AddressLookupTab1e1111111111111111111111111'', ''Address Lookup Table Program''),
      (''BPFLoader1111111111111111111111111111111111'', ''BPF Loader''),
      (''BPFLoader2111111111111111111111111111111111'', ''BPF Loader 2''),
      (''BPFLoaderUpgradeab1e11111111111111111111111'', ''BPF Loader Upgradeable''),
      (''ComputeBudget111111111111111111111111111111'', ''Compute Budget Program''),
      (''Config1111111111111111111111111111111111111'', ''Config Program''),
      (''Ed25519SigVerify111111111111111111111111111'', ''Ed25519 Signature Verify Program''),
      (''KeccakSecp256k11111111111111111111111111111'', ''Secp256k1 Signature Verify Program''),
      (''Memo1UhkJRfHyvLMcVucJwxXeuD728EqVDDwQDxFMNo'', ''Memo Program v1''),
      (''MemoSq4gqABAXKb96qnH8TysNcWxMyWCqXgDLGmfcHr'', ''Memo Program''),
      (''SPoo1Ku8WFXoNDMHPsrGSTSG1Y47rzgn41SLUNakuHy'', ''SPL Stake Pool Program''),
      (''Secp256r1SigVerify1111111111111111111111111'', ''Secp256r1 Signature Verify Program''),
      (''Stake11111111111111111111111111111111111111'', ''Stake Program''),
      (''TokenkegQfeZyiNwAJbNbGKPFXCWuBvf9Ss623VQ5DA'', ''SPL Token Program''),
      (''TokenzQdBNbLqP5VEhdkAS6EPFLC1PHnBqCXEpPxuEb'', ''SPL Token-2022 Program''),
      (''Vote111111111111111111111111111111111111111'', ''Vote Program''),
      (''hausS13jsjafwWwGqZTUQRmWyvyxn9EQpqMwV1PBBmk'', ''Metaplex Auction House Program''),
      (''metaqbxxUerdq28cj1RbAWkYQm3ybzjb6a8bt518x1s'', ''Metaplex Token Metadata Program''),
      (''namesLPneVptA9Z5rqUDD9tMTWEJwofgaYwp8cawRkX'', ''SPL Name Service Program'')]"

fun builtin_idl_program_name :: "ProgramType \<Rightarrow> string" where
  "builtin_idl_program_name PT_ApePro = ''Ape Pro''"
| "builtin_idl_program_name PT_CandyMachine = ''Metaplex Candy Machine''"
| "builtin_idl_program_name PT_Drift = ''Drift Protocol V2''"
| "builtin_idl_program_name PT_JupiterLimit = ''Jupiter Limit''"
| "builtin_idl_program_name PT_Jupiter = ''Jupiter Swap''"
| "builtin_idl_program_name PT_Kamino = ''Kamino''"
| "builtin_idl_program_name PT_Lifinity = ''Lifinity Swap V2''"
| "builtin_idl_program_name PT_Meteora = ''Meteora''"
| "builtin_idl_program_name PT_Openbook = ''Openbook''"
| "builtin_idl_program_name PT_Orca = ''Orca Whirlpool''"
| "builtin_idl_program_name PT_Raydium = ''Raydium''"
| "builtin_idl_program_name PT_Stabble = ''Stabble''"
| "builtin_idl_program_name PT_JupiterAggregatorV6 = ''Jupiter Aggregator V6''"

definition canonical_name :: "('k, 'i) SolanaLibs \<Rightarrow> string \<Rightarrow> string option" where
  "canonical_name libs program_id_str =
     (case map_option snd (find (\<lambda>(i, _). i = program_id_str) NATIVE_PROGRAM_NAMES) of
        Some name \<Rightarrow> Some name
      | None \<Rightarrow> map_option builtin_idl_program_name (program_type_of libs program_id_str))"

definition preset_program_ids :: "('k, 'i) Visualizer list \<Rightarrow> string set" where
  "preset_program_ids vs =
     set (concat (map (\<lambda>v. case get_config v of Some config \<Rightarrow> map fst (config_programs config) | None \<Rightarrow> []) vs))"

definition is_trusted_program :: "('k, 'i) SolanaLibs \<Rightarrow> ('k, 'i) Visualizer list \<Rightarrow> string \<Rightarrow> bool" where
  "is_trusted_program libs vs program_id_str =
     (canonical_name libs program_id_str \<noteq> None \<or> program_id_str \<in> preset_program_ids vs)"

datatype RegisteredSource = Native | Preset | ThirdParty | CallerSupplied | Unregistered

definition registered_source ::
  "('k, 'i) SolanaLibs \<Rightarrow> ('k, 'i) Visualizer list \<Rightarrow> string \<Rightarrow> (string \<times> 'i CustomIdlConfig) list \<Rightarrow> RegisteredSource" where
  "registered_source libs vs program_id_str caller_idl_program_ids =
     (if list_ex (\<lambda>(i, _). i = program_id_str) NATIVE_PROGRAM_NAMES then Native
      else if program_id_str \<in> preset_program_ids vs then Preset
      else if program_type_of libs program_id_str \<noteq> None then ThirdParty
      else if map_of caller_idl_program_ids program_id_str \<noteq> None then CallerSupplied
      else Unregistered)"

definition is_reserved_canonical_name :: "string \<Rightarrow> bool" where
  "is_reserved_canonical_name name =
     (list_ex (\<lambda>(_, n). n = name) NATIVE_PROGRAM_NAMES
      \<or> list_ex (\<lambda>p. builtin_idl_program_name p = name)
          [PT_ApePro, PT_CandyMachine, PT_Drift, PT_JupiterLimit, PT_Jupiter, PT_Kamino, PT_Lifinity, PT_Meteora, PT_Openbook, PT_Orca, PT_Raydium, PT_Stabble, PT_JupiterAggregatorV6])"

text \<open>The files that \<^verbatim>\<open>include_str!\<close> embeds are the argument \<open>embedded\<close>, by their path in the macro.\<close>

definition PRESET_IDL_ENTRIES :: "(string \<times> string) list" where
  "PRESET_IDL_ENTRIES =
     [(''DF1ow4tspfHX9JwWJsAb9epbkA8hmpSEAtxXy1V27QBH'', ''../presets/dflow_aggregator/dflow_aggregator.json''),
      (''dRiftyHA39MWEi3m9aunc5MzRF1JYuBsbn6VPcn33UH'', ''../presets/drift/drift.json''),
      (''ExponentnaRg3CQbW6dqQNZKXp7gtZ9DGMp1cwC4HAS7'', ''../presets/exponent_finance/exponent_finance.json''),
      (''jupr81YtYssSyPt8jbnGuiWon5f6x9TcDEFxYe3Bdzi'', ''../presets/jupiter_borrow/jupiter_borrow.json''),
      (''jup3YeL8QhtSx1e253b2FDvsMNC87fDrgQZivbrndc9'', ''../presets/jupiter_earn/jupiter_earn.json''),
      (''PERPHjGBqRHArX4DySjwM6UJHiR3sWAatqfdBS2qQJu'', ''../presets/jupiter_perps/jupiter_perps.json''),
      (''JUP6LkbZbjS1jKKwapdHNy74zcZ3tLUZoi5QNyVTaV4'', ''../presets/jupiter_swap/jupiter_agg_v6.json''),
      (''KLend2g3cP87fffoy8q1mQqGKjrxjC8boSyAYavgmjD'', ''../presets/kamino_borrow/kamino_borrow.json''),
      (''FarmsPZpWu9i7Kky8tPN37rs2TpmMrAZrC7S7vJa91Hr'', ''../presets/kamino_farms/kamino_farms.json''),
      (''LiMoM9rMhrdYrfzUCxQppvxCSG1FcrUK9G8uLq4A1GF'', ''../presets/kamino_limit/kamino_limit.json''),
      (''KvauGMspG5k6rtzrqqn7WNn3oZdyKqLKwK2XWQ8FLjd'', ''../presets/kamino_vault/kamino_vault.json''),
      (''VLTX1ishMBbcX3rdBWGssxawAo1Q2X2qxYFYqiGodVg'', ''../presets/metadao_conditional_vault/metadao_conditional_vault.json''),
      (''FUTARELBfJfQ8RDGhg1wdhddq1odMAJUePHFuBYfUxKq'', ''../presets/metadao_futarchy/metadao_futarchy.json''),
      (''cpamdpZCGKUy5JxQXB4dcpGPiikHawvSWAd6mEn1sGG'', ''../presets/meteora_damm_v2/meteora_damm_v2.json''),
      (''LBUZKhRxPF3XUpBCjp4YzTKgLccjZhTSDM9YuVaPwxo'', ''../presets/meteora_dlmm/meteora_dlmm.json''),
      (''BUNDDh4P5XviMm1f3gCvnq2qKx6TGosAGnoUK12e7cXU'', ''../presets/neutral_trade/neutral_trade.json''),
      (''onreuGhHHgVzMWSkj2oQDLDtvvGvoepBPkqyaubFcwe'', ''../presets/onre_app/onre_app.json''),
      (''whirLbMiicVdio4qvUfM5KAg6Ct8VwpYzGff3uctyCc'', ''../presets/orca_whirlpool/orca_whirlpool.json''),
      (''SQDS4ep65T869zMMBKyuUq6aD6EgTu8psMjkvj52pCf'', ''../presets/squads_multisig/squads_multisig_program.json'')]"

definition preset_idl_configs :: "(string \<Rightarrow> string) \<Rightarrow> (string \<times> 'i CustomIdlConfig) list" where
  "preset_idl_configs embedded =
     bt_collect (map (\<lambda>(pid, path). (pid, \<lparr>config_idl = IdlJson (embedded path), override_builtin = True\<rparr>)) PRESET_IDL_ENTRIES)"

record 'i IdlRecord =
  record_program_id :: string
  record_program_name :: string
  record_program_type :: "ProgramType option"
  record_custom_idl :: "'i option"
  record_custom_idl_json :: "string option"
  record_override_builtin :: bool
  record_is_preset :: bool

definition preset_idl_record :: "('k, 'i) SolanaLibs \<Rightarrow> string \<times> 'i CustomIdlConfig \<Rightarrow> (string \<times> 'i IdlRecord) option" where
  "preset_idl_record libs entry =
     (case entry of (pid, config) \<Rightarrow>
        (case config_idl config of
           IdlParsed _ \<Rightarrow> None
         | IdlJson j \<Rightarrow>
             (case decode_idl_data libs j of
                Inl _ \<Rightarrow> None
              | Inr idl \<Rightarrow> Some (pid,
                  \<lparr>record_program_id = pid, record_program_name = ''Preset Program '' @ take 8 pid,
                   record_program_type = None, record_custom_idl = Some idl, record_custom_idl_json = Some j,
                   record_override_builtin = True, record_is_preset = True\<rparr>))))"

definition preset_idl_records :: "('k, 'i) SolanaLibs \<Rightarrow> (string \<Rightarrow> string) \<Rightarrow> (string \<times> 'i IdlRecord) list" where
  "preset_idl_records libs embedded = bt_collect (List.map_filter (preset_idl_record libs) (preset_idl_configs embedded))"

section \<open>The IDL registry\<close>

text \<open>\<^verbatim>\<open>Value::get\<close> with a string key, and \<^verbatim>\<open>as_str\<close>.\<close>

fun json_get :: "json \<Rightarrow> string \<Rightarrow> json option" where
  "json_get (JObject m) k = map_of m k"
| "json_get _ k = None"

fun json_as_str :: "json \<Rightarrow> string option" where
  "json_as_str (JString s) = Some s"
| "json_as_str _ = None"

definition idl_registry_new :: "'i IdlRegistry" where
  "idl_registry_new = \<lparr>idl_configs = [], idl_program_names = [], idl_metadata_names = []\<rparr>"

definition metadata_name :: "('k, 'i) SolanaLibs \<Rightarrow> string \<Rightarrow> string option" where
  "metadata_name libs idl_json =
     Option.bind (parse_json libs idl_json) (\<lambda>v. Option.bind (json_get v ''metadata'') (\<lambda>m.
       Option.bind (json_get m ''name'') json_as_str))"

text \<open>One round of the loop of \<^verbatim>\<open>from_idl_mappings\<close>.\<close>

definition add_idl_mapping ::
  "('k, 'i) SolanaLibs \<Rightarrow> ('k, 'i) Visualizer list \<Rightarrow> string \<times> string \<times> string \<Rightarrow> 'i IdlRegistry \<Rightarrow> 'i IdlRegistry" where
  "add_idl_mapping libs vs entry reg =
     (case entry of (pid, idl_json, program_name) \<Rightarrow>
        if is_trusted_program libs vs pid then reg
        else \<lparr>idl_configs = bt_insert pid (config_from_json libs idl_json True) (idl_configs reg),
              idl_program_names = bt_insert pid program_name (idl_program_names reg),
              idl_metadata_names = (case metadata_name libs idl_json of
                                      Some n \<Rightarrow> bt_insert pid n (idl_metadata_names reg)
                                    | None \<Rightarrow> idl_metadata_names reg)\<rparr>)"

definition from_idl_mappings ::
  "('k, 'i) SolanaLibs \<Rightarrow> ('k, 'i) Visualizer list \<Rightarrow> (string \<times> string \<times> string) list \<Rightarrow> (string, 'i IdlRegistry) result" where
  "from_idl_mappings libs vs idl_mappings = Inr (fold (add_idl_mapping libs vs) idl_mappings idl_registry_new)"

definition has_idl :: "('k, 'i) SolanaLibs \<Rightarrow> 'i IdlRegistry \<Rightarrow> 'k \<Rightarrow> bool" where
  "has_idl libs reg pid =
     (if map_of (idl_configs reg) (show_key libs pid) \<noteq> None then True
      else program_type_of libs (show_key libs pid) \<noteq> None)"

text \<open>A base58 key has at least 32 characters, so that the slice \<^verbatim>\<open>[..8]\<close> is in range.\<close>

definition get_program_name :: "('k, 'i) SolanaLibs \<Rightarrow> 'i IdlRegistry \<Rightarrow> 'k \<Rightarrow> string" where
  "get_program_name libs reg pid =
     (let program_id_str = show_key libs pid
      in case canonical_name libs program_id_str of
           Some name \<Rightarrow> name
         | None \<Rightarrow>
             (case map_of (idl_program_names reg) program_id_str of
                Some name \<Rightarrow> name
              | None \<Rightarrow> ''Program '' @ take 8 program_id_str))"

definition get_idl_name :: "('k, 'i) SolanaLibs \<Rightarrow> 'i IdlRegistry \<Rightarrow> 'k \<Rightarrow> string option" where
  "get_idl_name libs reg pid =
     (let program_id_str = show_key libs pid
      in if canonical_name libs program_id_str \<noteq> None then None
         else map_of (idl_metadata_names reg) program_id_str)"

definition get_idl :: "('k, 'i) SolanaLibs \<Rightarrow> 'i IdlRegistry \<Rightarrow> string \<Rightarrow> 'i option" where
  "get_idl libs reg pid =
     (case map_of (idl_configs reg) pid of
        Some config \<Rightarrow>
          (case config_idl config of
             IdlParsed idl \<Rightarrow> Some idl
           | IdlJson j \<Rightarrow> (case decode_idl_data libs j of Inr idl \<Rightarrow> Some idl | Inl _ \<Rightarrow> None))
      | None \<Rightarrow> None)"

section \<open>Signatures\<close>

definition IDL_SUPPORTED_ALGORITHM :: string where
  "IDL_SUPPORTED_ALGORITHM = ''ed25519''"

definition IDL_ED25519_PUBLIC_KEY_LEN :: nat where
  "IDL_ED25519_PUBLIC_KEY_LEN = 32"

definition IDL_ED25519_SIGNATURE_LEN :: nat where
  "IDL_ED25519_SIGNATURE_LEN = 64"

datatype IdlSignatureError = IdlValidation string

record IdlSignatureMetadata =
  idl_sig_value :: string
  idl_sig_algorithm :: "string option"
  idl_sig_public_key :: "string option"
  idl_sig_issuer :: "string option"
  idl_sig_timestamp :: "string option"

definition idl_convert_proto_signature :: "SignatureMetadata \<Rightarrow> IdlSignatureMetadata" where
  "idl_convert_proto_signature proto =
     (let get = (\<lambda>key. map_option meta_value (find (\<lambda>m. meta_key m = key) (sig_metadata proto)))
      in \<lparr>idl_sig_value = sig_value proto, idl_sig_algorithm = get ''algorithm'', idl_sig_public_key = get ''public_key'',
          idl_sig_issuer = get ''issuer'', idl_sig_timestamp = get ''timestamp''\<rparr>)"

definition idl_decode_hex_fixed ::
  "('k, 'i) SolanaLibs \<Rightarrow> nat \<Rightarrow> string \<Rightarrow> string \<Rightarrow> (IdlSignatureError, bytes) result" where
  "idl_decode_hex_fixed libs n v what =
     map_err (\<lambda>e. IdlValidation (''Invalid '' @ what @ '' '' @ display_hex_array_error (\<lambda>t. t) e))
       (decode_hex_array (sl_hex_decode libs) n v)"

definition validate_idl_signature ::
  "('k, 'i) SolanaLibs \<Rightarrow> 'v Ed25519 \<Rightarrow> string \<Rightarrow> bytes \<Rightarrow> IdlSignatureMetadata \<Rightarrow> SignerAllowlist
    \<Rightarrow> (IdlSignatureError, unit) result" where
  "validate_idl_signature libs ed idl_json pid signature allowlist =
     and_then (ok_or (IdlValidation ''Missing algorithm'') (idl_sig_algorithm signature)) (\<lambda>algorithm.
     if algorithm \<noteq> IDL_SUPPORTED_ALGORITHM
     then Inl (IdlValidation (''Unsupported algorithm: '' @ algorithm @ ''. Only '' @ IDL_SUPPORTED_ALGORITHM @ '' is supported.''))
     else
     and_then (ok_or (IdlValidation ''Missing public_key'') (idl_sig_public_key signature)) (\<lambda>public_key_hex.
     let hash = solana_metadata_prehash (sl_sha libs) pid (as_bytes idl_json)
     in
     and_then (idl_decode_hex_fixed libs IDL_ED25519_SIGNATURE_LEN (idl_sig_value signature) ''signature'') (\<lambda>sig.
     and_then (idl_decode_hex_fixed libs IDL_ED25519_PUBLIC_KEY_LEN public_key_hex ''public key'') (\<lambda>pubkey_bytes.
     and_then (map_err (\<lambda>e. IdlValidation (''Invalid public key: '' @ e)) (ed_key_from_bytes ed pubkey_bytes)) (\<lambda>verifying_key.
     and_then (map_err (\<lambda>e. IdlValidation (''Signature verification failed: '' @ e))
       (ed_verify_strict ed verifying_key hash sig)) (\<lambda>_.
     if \<not> allowlist_contains allowlist (ed_key_to_bytes ed verifying_key)
     then Inl (IdlValidation ''signer not in allowlist'')
     else Inr ()))))))"

definition idl_canonical_pubkey_from_hex :: "('k, 'i) SolanaLibs \<Rightarrow> 'v Ed25519 \<Rightarrow> string \<Rightarrow> bytes option" where
  "idl_canonical_pubkey_from_hex libs ed h =
     (case idl_decode_hex_fixed libs IDL_ED25519_PUBLIC_KEY_LEN h ''public key'' of
        Inl _ \<Rightarrow> None
      | Inr bs \<Rightarrow>
          (case ed_key_from_bytes ed bs of
             Inl _ \<Rightarrow> None
           | Inr verifying_key \<Rightarrow> Some (ed_key_to_bytes ed verifying_key)))"

text \<open>The environment variable is an argument.\<close>

definition authorized_idl_signers :: "('k, 'i) SolanaLibs \<Rightarrow> 'v Ed25519 \<Rightarrow> string option \<Rightarrow> SignerAllowlist" where
  "authorized_idl_signers libs ed env =
     (case env of
        None \<Rightarrow> allowlist_new
      | Some list \<Rightarrow>
          fold (\<lambda>entry allow. case idl_canonical_pubkey_from_hex libs ed entry of
                                Some bs \<Rightarrow> allowlist_insert allow bs
                              | None \<Rightarrow> allow)
            (filter (\<lambda>s. s \<noteq> []) (map trim (split_on (CHR '','') list))) allowlist_new)"

section \<open>Extraction\<close>

definition MAX_IDL_JSON_BYTES :: nat where
  "MAX_IDL_JSON_BYTES = 1024 * 1024"

definition extract_name_from_idl_json :: "('k, 'i) SolanaLibs \<Rightarrow> string \<Rightarrow> string option" where
  "extract_name_from_idl_json libs idl_json =
     (case parse_json libs idl_json of
        None \<Rightarrow> None
      | Some v \<Rightarrow>
          (case Option.bind (json_get v ''metadata'') (\<lambda>m. Option.bind (json_get m ''name'') json_as_str) of
             Some name \<Rightarrow> Some name
           | None \<Rightarrow> Option.bind (json_get v ''name'') json_as_str))"

definition idl_display_name :: "('k, 'i) SolanaLibs \<Rightarrow> string \<Rightarrow> Idl \<Rightarrow> string" where
  "idl_display_name libs pid idl =
     (case idl_program_name idl of
        Some name \<Rightarrow> name
      | None \<Rightarrow> unwrap_or (''Program '' @ take 8 pid) (extract_name_from_idl_json libs (idl_value idl)))"

text \<open>One round of the loop, with the five checks in their order.\<close>

definition extract_idl_entry ::
  "('k, 'i) SolanaLibs \<Rightarrow> 'v Ed25519 \<Rightarrow> ('k, 'i) Visualizer list \<Rightarrow> SignerAllowlist \<Rightarrow> string \<times> Idl
    \<Rightarrow> (string \<times> string \<times> string) list \<Rightarrow> (string \<times> string \<times> string) list" where
  "extract_idl_entry libs ed vs idl_signers entry out =
     (case entry of (pid, idl) \<Rightarrow>
        (case parse_key libs pid of
           None \<Rightarrow> out
         | Some pubkey \<Rightarrow>
             if is_trusted_program libs vs pid then out
             else if length (idl_value idl) > MAX_IDL_JSON_BYTES then out
             else if (case idl_signature idl of
                        Some proto_sig \<Rightarrow>
                          \<not> is_ok (validate_idl_signature libs ed (idl_value idl) (key_bytes libs pubkey)
                              (idl_convert_proto_signature proto_sig) idl_signers)
                      | None \<Rightarrow> False)
             then out
             else (let name = idl_display_name libs pid idl
                   in if is_reserved_canonical_name name then out
                      else bt_insert pid (idl_value idl, name) out)))"

definition extract_idl_mappings_with_signers ::
  "('k, 'i) SolanaLibs \<Rightarrow> 'v Ed25519 \<Rightarrow> ('k, 'i) Visualizer list \<Rightarrow> VisualSignOptions \<Rightarrow> SignerAllowlist
    \<Rightarrow> (string \<times> string \<times> string) list" where
  "extract_idl_mappings_with_signers libs ed vs options idl_signers =
     (case Option.bind (metadata options) chain_metadata_metadata of
        Some (SolanaMeta solana_meta) \<Rightarrow> fold (extract_idl_entry libs ed vs idl_signers) (sol_idl_mappings solana_meta) []
      | _ \<Rightarrow> [])"

definition extract_idl_mappings ::
  "('k, 'i) SolanaLibs \<Rightarrow> 'v Ed25519 \<Rightarrow> ('k, 'i) Visualizer list \<Rightarrow> string option \<Rightarrow> VisualSignOptions
    \<Rightarrow> (string \<times> string \<times> string) list" where
  "extract_idl_mappings libs ed vs env options =
     extract_idl_mappings_with_signers libs ed vs options (authorized_idl_signers libs ed env)"

definition create_idl_registry_from_options ::
  "('k, 'i) SolanaLibs \<Rightarrow> 'v Ed25519 \<Rightarrow> ('k, 'i) Visualizer list \<Rightarrow> string option \<Rightarrow> VisualSignOptions
    \<Rightarrow> (VisualSignError, 'i IdlRegistry) result" where
  "create_idl_registry_from_options libs ed vs env options =
     (let idl_mappings = extract_idl_mappings libs ed vs env options
      in if idl_mappings \<noteq> []
         then map_err (\<lambda>e. ConversionError (''Failed to create IDL registry: '' @ e)) (from_idl_mappings libs vs idl_mappings)
         else Inr idl_registry_new)"

section \<open>What extraction admits\<close>

definition caller_idls :: "VisualSignOptions \<Rightarrow> (string \<times> Idl) list" where
  "caller_idls options =
     (case Option.bind (metadata options) chain_metadata_metadata of
        Some (SolanaMeta solana_meta) \<Rightarrow> sol_idl_mappings solana_meta
      | _ \<Rightarrow> [])"

text \<open>A listed key has signed this text for this program.\<close>

definition idl_signed_by_listed ::
  "('k, 'i) SolanaLibs \<Rightarrow> 'v Ed25519 \<Rightarrow> SignerAllowlist \<Rightarrow> bytes \<Rightarrow> string \<Rightarrow> IdlSignatureMetadata \<Rightarrow> bool" where
  "idl_signed_by_listed libs ed allow pid idl_json s \<longleftrightarrow>
     idl_sig_algorithm s = Some ''ed25519''
     \<and> (\<exists>h sig pk v. idl_sig_public_key s = Some h
          \<and> sl_hex_decode libs (strip_hex_prefix (idl_sig_value s)) = Inr sig \<and> length sig = 64
          \<and> sl_hex_decode libs (strip_hex_prefix h) = Inr pk \<and> length pk = 32
          \<and> ed_key_from_bytes ed pk = Inr v
          \<and> ed_verify_strict ed v (solana_metadata_prehash (sl_sha libs) pid (as_bytes idl_json)) sig = Inr ()
          \<and> allowlist_contains allow (ed_key_to_bytes ed v))"

lemma validate_idl_signature_iff:
  "is_ok (validate_idl_signature libs ed idl_json pid s allow) \<longleftrightarrow> idl_signed_by_listed libs ed allow pid idl_json s"
proof -
  have ok: "is_ok r \<longleftrightarrow> r = Inr ()" for r :: "(IdlSignatureError, unit) result" by (cases r) (auto simp: is_ok_def)
  show ?thesis
    unfolding ok validate_idl_signature_def idl_signed_by_listed_def
    by (auto simp: and_then_Inr_iff idl_decode_hex_fixed_def decode_hex_array_iff IDL_SUPPORTED_ALGORITHM_def
        IDL_ED25519_SIGNATURE_LEN_def IDL_ED25519_PUBLIC_KEY_LEN_def split: if_splits)
qed

definition idl_entry_admitted ::
  "('k, 'i) SolanaLibs \<Rightarrow> 'v Ed25519 \<Rightarrow> ('k, 'i) Visualizer list \<Rightarrow> SignerAllowlist \<Rightarrow> string \<times> Idl \<Rightarrow> bool" where
  "idl_entry_admitted libs ed vs allow entry =
     (case entry of (pid, idl) \<Rightarrow>
        (case parse_key libs pid of
           None \<Rightarrow> False
         | Some k \<Rightarrow>
             \<not> is_trusted_program libs vs pid \<and> length (idl_value idl) \<le> 1048576
             \<and> pred_option (\<lambda>s. idl_signed_by_listed libs ed allow (key_bytes libs k) (idl_value idl)
                  (idl_convert_proto_signature s)) (idl_signature idl)
             \<and> \<not> is_reserved_canonical_name (idl_display_name libs pid idl)))"

lemma extract_idl_entry_eq:
  "extract_idl_entry libs ed vs allow e out =
     (if idl_entry_admitted libs ed vs allow e
      then bt_insert (fst e) (idl_value (snd e), idl_display_name libs (fst e) (snd e)) out else out)"
  by (cases e) (auto simp: extract_idl_entry_def idl_entry_admitted_def validate_idl_signature_iff MAX_IDL_JSON_BYTES_def
      Let_def split: option.split)

lemma fold_extract:
  "fold (extract_idl_entry libs ed vs allow) ms out =
     fold (\<lambda>(k, v). bt_insert k v)
       (map (\<lambda>e. (fst e, idl_value (snd e), idl_display_name libs (fst e) (snd e))) (filter (idl_entry_admitted libs ed vs allow) ms)) out"
  by (induction ms arbitrary: out) (auto simp: extract_idl_entry_eq)

lemma extract_with_signers_eq:
  "extract_idl_mappings_with_signers libs ed vs options allow =
     bt_collect (map (\<lambda>e. (fst e, idl_value (snd e), idl_display_name libs (fst e) (snd e)))
       (filter (idl_entry_admitted libs ed vs allow) (caller_idls options)))"
  by (auto simp: extract_idl_mappings_with_signers_def caller_idls_def fold_extract bt_collect_def split: option.split ChainMetadataKind.split)

lemma extract_mapping_admitted:
  assumes "(pid, j, n) \<in> set (extract_idl_mappings libs ed vs env options)"
  obtains idl where "(pid, idl) \<in> set (caller_idls options)"
    "idl_entry_admitted libs ed vs (authorized_idl_signers libs ed env) (pid, idl)"
    "j = idl_value idl" "n = idl_display_name libs pid idl"
  using assms set_bt_collect_subset unfolding extract_idl_mappings_def extract_with_signers_eq by fastforce

section \<open>What the registry holds\<close>

definition idl_registry_ok ::
  "('k, 'i) SolanaLibs \<Rightarrow> ('k, 'i) Visualizer list \<Rightarrow> (string \<times> string \<times> string) set \<Rightarrow> 'i IdlRegistry \<Rightarrow> bool" where
  "idl_registry_ok libs vs es reg \<longleftrightarrow>
     ssorted (idl_configs reg) \<and> ssorted (idl_program_names reg) \<and> ssorted (idl_metadata_names reg)
     \<and> (\<forall>pid c. map_of (idl_configs reg) pid = Some c \<longrightarrow> \<not> is_trusted_program libs vs pid
          \<and> (\<exists>j n. (pid, j, n) \<in> es \<and> c = config_from_json libs j True))
     \<and> (\<forall>pid n. map_of (idl_program_names reg) pid = Some n \<longrightarrow> \<not> is_trusted_program libs vs pid
          \<and> (\<exists>j. (pid, j, n) \<in> es))
     \<and> (\<forall>pid m. map_of (idl_metadata_names reg) pid = Some m \<longrightarrow> \<not> is_trusted_program libs vs pid
          \<and> (\<exists>j n. (pid, j, n) \<in> es \<and> metadata_name libs j = Some m))"

lemma idl_registry_ok_mono: "idl_registry_ok libs vs es reg \<Longrightarrow> es \<subseteq> fs \<Longrightarrow> idl_registry_ok libs vs fs reg"
  unfolding idl_registry_ok_def by blast

lemma idl_registry_ok_add:
  assumes "idl_registry_ok libs vs es reg"
  shows "idl_registry_ok libs vs (insert e es) (add_idl_mapping libs vs e reg)"
proof (cases e)
  case (fields pid j n)
  have reg: "idl_registry_ok libs vs (insert e es) reg" using assms by (rule idl_registry_ok_mono) blast
  then show ?thesis
  proof (cases "is_trusted_program libs vs pid")
    case False
    with reg show ?thesis
      unfolding idl_registry_ok_def add_idl_mapping_def fields
      by (simp add: map_of_bt_insert ssorted_bt_insert split: option.split) blast
  qed (simp add: add_idl_mapping_def fields)
qed

lemma idl_registry_ok_fold:
  "idl_registry_ok libs vs es reg \<Longrightarrow> idl_registry_ok libs vs (es \<union> set ms) (fold (add_idl_mapping libs vs) ms reg)"
proof (induction ms arbitrary: es reg)
  case (Cons m ms)
  from Cons.IH [OF idl_registry_ok_add [OF Cons.prems, of m]] show ?case by simp
qed simp

lemma idl_registry_ok_new: "idl_registry_ok libs vs {} idl_registry_new"
  by (simp add: idl_registry_ok_def idl_registry_new_def)

text \<open>Creating the registry cannot fail, and what it holds comes from admitted entries.\<close>

lemma create_idl_registry_ok:
  "\<exists>reg. create_idl_registry_from_options libs ed vs env options = Inr reg
     \<and> idl_registry_ok libs vs (set (extract_idl_mappings libs ed vs env options)) reg"
  using idl_registry_ok_fold [OF idl_registry_ok_new] idl_registry_ok_new
  by (auto simp: create_idl_registry_from_options_def from_idl_mappings_def Let_def)

lemma fallback_name_free: "\<not> is_reserved_canonical_name (''Program '' @ t)"
  by (simp add: is_reserved_canonical_name_def NATIVE_PROGRAM_NAMES_def)

lemma canonical_name_trusted: "canonical_name libs pid \<noteq> None \<Longrightarrow> is_trusted_program libs vs pid"
  by (simp add: is_trusted_program_def)

text \<open>The metadata name of an admitted IDL is shown without a check of its own when the caller also gives a name.\<close>

lemma idl_metadata_name_unchecked:
  assumes "caller_idls options = [(pid, idl)]" and k: "parse_key libs pid = Some k" "show_key libs k = pid"
    and t: "\<not> is_trusted_program libs vs pid" and "idl_signature idl = None" "length (idl_value idl) \<le> 1048576"
    and n: "idl_program_name idl = Some n" "\<not> is_reserved_canonical_name n"
    and m: "metadata_name libs (idl_value idl) = Some m"
  shows "\<exists>reg. create_idl_registry_from_options libs ed vs env options = Inr reg
           \<and> get_program_name libs reg k = n \<and> get_idl_name libs reg k = Some m"
proof -
  have "extract_idl_mappings libs ed vs env options = [(pid, idl_value idl, n)]"
    using assms by (simp add: extract_idl_mappings_def extract_with_signers_eq idl_entry_admitted_def
        idl_display_name_def bt_collect_def)
  moreover have "canonical_name libs pid = None" using t by (simp add: is_trusted_program_def)
  ultimately show ?thesis
    using t k m by (simp add: create_idl_registry_from_options_def from_idl_mappings_def add_idl_mapping_def
        get_program_name_def get_idl_name_def idl_registry_new_def)
qed

section \<open>An instance of the libraries\<close>

definition sol_sample_libs :: "(string, unit) SolanaLibs" where
  "sol_sample_libs =
     \<lparr>show_key = (\<lambda>k. k), parse_key = (\<lambda>s. if length s = 32 then Some s else None), key_bytes = as_bytes,
      program_type_of = (\<lambda>_. None),
      parse_json = (\<lambda>_. Some (JObject [(''metadata'', JObject [(''name'', JString ''System Program'')])])),
      config_from_json = (\<lambda>j b. \<lparr>config_idl = IdlJson j, override_builtin = b\<rparr>),
      decode_idl_data = (\<lambda>_. Inr ()), idl_instructions = (\<lambda>_. []),
      parse_instruction_with_idl = (\<lambda>_ _ _. Inl ''no instruction''), sl_sha = (\<lambda>bs. bs),
      sl_hex_encode = (\<lambda>bs. concat (map (\<lambda>b. hex_byte (unat b)) bs)), sl_hex_decode = (\<lambda>_. Inl ''odd'')\<rparr>"

definition sol_sample_ed :: "bytes Ed25519" where
  "sol_sample_ed = \<lparr>ed_key_from_bytes = Inr, ed_key_to_bytes = (\<lambda>v. v), ed_verify_strict = (\<lambda>_ _ _. Inr ())\<rparr>"

definition sol_sample_idl :: Idl where
  "sol_sample_idl = \<lparr>idl_value = ''{}'', idl_idl_type = None, idl_idl_version = None, idl_signature = None,
     idl_program_name = Some ''Helper''\<rparr>"

definition sol_sample_pid :: string where
  "sol_sample_pid = replicate 32 (CHR ''a'')"

definition sol_sample_options :: VisualSignOptions where
  "sol_sample_options = \<lparr>decode_transfers = False, transaction_name = None,
     metadata = Some \<lparr>chain_metadata_metadata = Some (SolanaMeta \<lparr>sol_network_id = None, sol_idl = None,
       sol_idl_mappings = [(''11111111111111111111111111111111'', sol_sample_idl), (sol_sample_pid, sol_sample_idl)],
       sol_simulated_transaction_result = None\<rparr>)\<rparr>,
     developer_config = None, include_intermediate_output = False\<rparr>"

lemma sample_trust:
  "is_trusted_program sol_sample_libs [] ''11111111111111111111111111111111''" "\<not> is_trusted_program sol_sample_libs [] sol_sample_pid"
  by (simp_all add: is_trusted_program_def canonical_name_def NATIVE_PROGRAM_NAMES_def preset_program_ids_def
      sol_sample_libs_def sol_sample_pid_def numeral_eq_Suc)

text \<open>A caller can have a reserved name shown in the brackets of a program's title.\<close>

lemma reserved_name_in_brackets:
  "\<exists>reg. create_idl_registry_from_options sol_sample_libs sol_sample_ed [] None
       (sol_sample_options\<lparr>metadata := Some \<lparr>chain_metadata_metadata = Some (SolanaMeta \<lparr>sol_network_id = None, sol_idl = None,
         sol_idl_mappings = [(sol_sample_pid, sol_sample_idl)], sol_simulated_transaction_result = None\<rparr>)\<rparr>\<rparr>) = Inr reg
     \<and> get_idl_name sol_sample_libs reg sol_sample_pid = Some ''System Program'' \<and> is_reserved_canonical_name ''System Program''"
proof -
  let ?o = "sol_sample_options\<lparr>metadata := Some \<lparr>chain_metadata_metadata = Some (SolanaMeta \<lparr>sol_network_id = None, sol_idl = None,
         sol_idl_mappings = [(sol_sample_pid, sol_sample_idl)], sol_simulated_transaction_result = None\<rparr>)\<rparr>\<rparr>"
  have "\<exists>reg. create_idl_registry_from_options sol_sample_libs sol_sample_ed [] None ?o = Inr reg
      \<and> get_program_name sol_sample_libs reg sol_sample_pid = ''Helper'' \<and> get_idl_name sol_sample_libs reg sol_sample_pid = Some ''System Program''"
  proof (rule idl_metadata_name_unchecked)
    show "caller_idls ?o = [(sol_sample_pid, sol_sample_idl)]" by (simp add: caller_idls_def sol_sample_options_def)
    show "\<not> is_trusted_program sol_sample_libs [] sol_sample_pid" by (rule sample_trust)
    show "\<not> is_reserved_canonical_name ''Helper''" by (simp add: is_reserved_canonical_name_def NATIVE_PROGRAM_NAMES_def)
  qed (simp_all add: sol_sample_libs_def sol_sample_idl_def sol_sample_pid_def metadata_name_def)
  moreover have "is_reserved_canonical_name ''System Program''"
    by (simp add: is_reserved_canonical_name_def NATIVE_PROGRAM_NAMES_def)
  ultimately show ?thesis by blast
qed

section \<open>Properties\<close>

text \<open>C17: whatever IDLs a caller sends, the registry is built; every IDL it holds was sent for a program that is not
  trusted, is at most one MiB long, and, when it carries a signature, was signed for this program by a key of the
  deployment's list; a program with a canonical name is shown under that name alone, and no other program under a
  reserved one.\<close>

theorem idl_trust:
  "\<exists>reg. create_idl_registry_from_options libs ed vs env options = Inr reg
     \<and> (\<forall>pid c. map_of (idl_configs reg) pid = Some c \<longrightarrow>
          \<not> is_trusted_program libs vs pid
          \<and> (\<exists>idl k. (pid, idl) \<in> set (caller_idls options) \<and> parse_key libs pid = Some k
               \<and> c = config_from_json libs (idl_value idl) True \<and> length (idl_value idl) \<le> 1048576
               \<and> pred_option (\<lambda>s. idl_signed_by_listed libs ed (authorized_idl_signers libs ed env) (key_bytes libs k)
                    (idl_value idl) (idl_convert_proto_signature s)) (idl_signature idl)))
     \<and> (\<forall>k. case canonical_name libs (show_key libs k) of
          Some n \<Rightarrow> get_program_name libs reg k = n \<and> get_idl_name libs reg k = None
        | None \<Rightarrow> \<not> is_reserved_canonical_name (get_program_name libs reg k))"
proof -
  obtain reg where reg: "create_idl_registry_from_options libs ed vs env options = Inr reg"
    "idl_registry_ok libs vs (set (extract_idl_mappings libs ed vs env options)) reg"
    using create_idl_registry_ok by blast
  have "\<exists>idl k. (pid, idl) \<in> set (caller_idls options) \<and> parse_key libs pid = Some k
       \<and> c = config_from_json libs (idl_value idl) True \<and> length (idl_value idl) \<le> 1048576
       \<and> pred_option (\<lambda>s. idl_signed_by_listed libs ed (authorized_idl_signers libs ed env) (key_bytes libs k)
            (idl_value idl) (idl_convert_proto_signature s)) (idl_signature idl)"
    if "map_of (idl_configs reg) pid = Some c" for pid c
  proof -
    obtain j n where "(pid, j, n) \<in> set (extract_idl_mappings libs ed vs env options)" "c = config_from_json libs j True"
      using reg(2) \<open>map_of (idl_configs reg) pid = Some c\<close> unfolding idl_registry_ok_def by blast
    then show ?thesis by (elim extract_mapping_admitted) (auto simp: idl_entry_admitted_def split: option.splits)
  qed
  moreover have "\<not> is_reserved_canonical_name (get_program_name libs reg k)"
    if "canonical_name libs (show_key libs k) = None" for k
  proof (cases "map_of (idl_program_names reg) (show_key libs k)")
    case None
    then show ?thesis using that fallback_name_free by (simp add: get_program_name_def del: append.simps)
  next
    case (Some n)
    then obtain j where "(show_key libs k, j, n) \<in> set (extract_idl_mappings libs ed vs env options)"
      using reg(2) unfolding idl_registry_ok_def by blast
    then have "\<not> is_reserved_canonical_name n"
      by (elim extract_mapping_admitted) (auto simp: idl_entry_admitted_def split: option.splits)
    with Some show ?thesis using that by (simp add: get_program_name_def)
  qed
  ultimately show ?thesis
    using reg by (auto simp: idl_registry_ok_def get_program_name_def get_idl_name_def split: option.split)
qed

theorem idl_trust_witness:
  "\<exists>reg. create_idl_registry_from_options sol_sample_libs sol_sample_ed [] None sol_sample_options = Inr reg
     \<and> map_of (idl_configs reg) ''11111111111111111111111111111111'' = None
     \<and> get_program_name sol_sample_libs reg ''11111111111111111111111111111111'' = ''System Program''"
  using idl_trust [of sol_sample_libs sol_sample_ed "[]" None sol_sample_options] sample_trust(1)
proof (elim exE conjE)
  fix reg
  assume *: "create_idl_registry_from_options sol_sample_libs sol_sample_ed [] None sol_sample_options = Inr reg"
    "\<forall>k. case canonical_name sol_sample_libs (show_key sol_sample_libs k) of
          Some n \<Rightarrow> get_program_name sol_sample_libs reg k = n \<and> get_idl_name sol_sample_libs reg k = None
        | None \<Rightarrow> \<not> is_reserved_canonical_name (get_program_name sol_sample_libs reg k)"
    and c: "\<forall>pid c. map_of (idl_configs reg) pid = Some c \<longrightarrow> \<not> is_trusted_program sol_sample_libs [] pid
          \<and> (\<exists>idl k. (pid, idl) \<in> set (caller_idls sol_sample_options) \<and> parse_key sol_sample_libs pid = Some k
               \<and> c = config_from_json sol_sample_libs (idl_value idl) True \<and> length (idl_value idl) \<le> 1048576
               \<and> pred_option (\<lambda>s. idl_signed_by_listed sol_sample_libs sol_sample_ed (authorized_idl_signers sol_sample_libs sol_sample_ed None)
                    (key_bytes sol_sample_libs k) (idl_value idl) (idl_convert_proto_signature s)) (idl_signature idl))"
    and t: "is_trusted_program sol_sample_libs [] ''11111111111111111111111111111111''"
  have "canonical_name sol_sample_libs (show_key sol_sample_libs ''11111111111111111111111111111111'') = Some ''System Program''"
    by (simp add: canonical_name_def NATIVE_PROGRAM_NAMES_def sol_sample_libs_def)
  with *(2) [THEN spec, of "''11111111111111111111111111111111''"]
  have "get_program_name sol_sample_libs reg ''11111111111111111111111111111111'' = ''System Program''" by simp
  moreover have "map_of (idl_configs reg) ''11111111111111111111111111111111'' = None" using c t by (meson not_None_eq)
  ultimately show ?thesis using * by blast
qed

end
