(* ===== verification/SolanaUnknown.thy ===== *)
theory SolanaUnknown
  imports SolanaIdl
begin

text \<open>
  \<^verbatim>\<open>presets/unknown_program\<close> of the Solana crate: the catch-all visualizer, which shows an instruction by the IDL of the
  registry when there is one and by its raw bytes otherwise. With it the collected visualizers are a \<open>visualizer_chain\<close>.
\<close>

definition unknown_program_config :: SolanaIntegrationConfig where
  "unknown_program_config = \<lparr>config_programs = [], config_can_handle = (\<lambda>_. True)\<rparr>"

definition resolve_program_id_str :: "('k, 'i) SolanaLibs \<Rightarrow> ('k, 'i) VisualizerContext \<Rightarrow> string" where
  "resolve_program_id_str libs context =
     (case program_id context of
        ProgramResolved pk \<Rightarrow> show_key libs pk
      | ProgramUnresolved raw_index \<Rightarrow> unresolved_text raw_index)"

definition resolve_account_str :: "('k, 'i) SolanaLibs \<Rightarrow> ('k, 'i) VisualizerContext \<Rightarrow> nat \<Rightarrow> string" where
  "resolve_account_str libs context position =
     (case account context position of
        Some (AccountResolved pk) \<Rightarrow> show_key libs pk
      | Some (AccountUnresolved raw_index) \<Rightarrow> unresolved_text raw_index
      | None \<Rightarrow> ''unknown'')"

text \<open>The instruction of the IDL whose eight discriminator bytes open the data, and the names of the accounts by it.\<close>

definition matching_instruction :: "bytes \<Rightarrow> IdlInstruction list \<Rightarrow> IdlInstruction option" where
  "matching_instruction data insts =
     find (\<lambda>inst. case inst_discriminator inst of
                    Some disc \<Rightarrow> length data \<ge> 8 \<and> take 8 data = disc
                  | None \<Rightarrow> False) insts"

definition name_accounts ::
  "('k, 'i) SolanaLibs \<Rightarrow> ('k, 'i) VisualizerContext \<Rightarrow> IdlInstruction option \<Rightarrow> (string \<times> string) list" where
  "name_accounts libs context inst =
     (case inst of
        None \<Rightarrow> []
      | Some idl_instruction \<Rightarrow>
          fold (\<lambda>index m. case slice_get (inst_accounts idl_instruction) index of
                            Some account_name \<Rightarrow> bt_insert account_name (resolve_account_str libs context index) m
                          | None \<Rightarrow> m) [0..<num_accounts context] [])"

definition try_parse_with_idl ::
  "('k, 'i) SolanaLibs \<Rightarrow> ('k, 'i) VisualizerContext \<Rightarrow> 'i IdlRegistry
    \<Rightarrow> (string, ParserInstructionData \<times> (string \<times> string) list) result" where
  "try_parse_with_idl libs context reg =
     (case program_id context of
        ProgramUnresolved _ \<Rightarrow> Inl ''No program_id resolved''
      | ProgramResolved pid \<Rightarrow>
          and_then (ok_or ''No IDL found for program'' (get_idl libs reg (show_key libs pid))) (\<lambda>idl.
          and_then (parse_instruction_with_idl libs (context_data context) (show_key libs pid) idl) (\<lambda>parsed.
            Inr (parsed, name_accounts libs context (matching_instruction (context_data context) (idl_instructions libs idl))))))"

definition instruction_preview ::
  "('k, 'i) SolanaLibs \<Rightarrow> ('k, 'i) VisualizerContext \<Rightarrow> string \<Rightarrow> string \<Rightarrow> AnnotatedPayloadField list \<Rightarrow> AnnotatedPayloadField list
    \<Rightarrow> AnnotatedPayloadField" where
  "instruction_preview libs context title pid condensed expanded =
     Annotated (PreviewLayout
       \<lparr>fallback_text = ''Program ID: '' @ pid @ [CHR 0x0A] @ ''Data: '' @ sl_hex_encode libs (context_data context),
        label = ''Instruction '' @ nat_str (instruction_index context + 1)\<rparr>
       (PreviewLayoutData (Some \<lparr>text_v2_text = title\<rparr>) (Some \<lparr>text_v2_text = []\<rparr>)
          (Some (ListLayoutData condensed)) (Some (ListLayoutData expanded)))) None None"

definition try_idl_parsing ::
  "('k, 'i) SolanaLibs \<Rightarrow> ('k, 'i) VisualizerContext \<Rightarrow> 'i IdlRegistry \<Rightarrow> (VisualSignError, AnnotatedPayloadField) result" where
  "try_idl_parsing libs context reg =
     (case program_id context of
        ProgramUnresolved _ \<Rightarrow> Inl (MissingData ''No program_id resolved'')
      | ProgramResolved pid \<Rightarrow>
          (let program_name = get_program_name libs reg pid;
               program_display = (case get_idl_name libs reg pid of
                                    Some idl_name \<Rightarrow> program_name @ '' (name: '' @ idl_name @ '')''
                                  | None \<Rightarrow> program_name);
               condensed = [plain_text_field ''Program'' program_display];
               expanded = [plain_text_field ''Program ID'' (show_key libs pid),
                           plain_text_field ''Instruction Data'' (sl_hex_encode libs (context_data context))];
               title = program_name @ '' (IDL)''
           in Inr (case try_parse_with_idl libs context reg of
                Inr (parsed, named_accounts) \<Rightarrow>
                  instruction_preview libs context title (show_key libs pid)
                    (condensed @ [plain_text_field ''Instruction'' (pi_instruction_name parsed)]
                      @ map (\<lambda>(key, v). plain_text_field key (json_print v)) (pi_program_call_args parsed))
                    (expanded @ [plain_text_field ''Instruction'' (pi_instruction_name parsed),
                                 plain_text_field ''Discriminator'' (pi_discriminator parsed)]
                      @ map (\<lambda>(account_name, account_address). plain_text_field account_name account_address) named_accounts)
              | Inl _ \<Rightarrow>
                  instruction_preview libs context title (show_key libs pid) condensed
                    (expanded @ [plain_text_field ''Status'' ''IDL parsing failed - showing raw data'']))))"

definition create_unknown_program_preview_layout ::
  "('k, 'i) SolanaLibs \<Rightarrow> ('k, 'i) VisualizerContext \<Rightarrow> (VisualSignError, AnnotatedPayloadField) result" where
  "create_unknown_program_preview_layout libs context =
     (let pid = resolve_program_id_str libs context; data_hex = sl_hex_encode libs (context_data context)
      in and_then (create_text_field ''Program'' pid) (\<lambda>program.
         and_then (create_text_field ''Program ID'' pid) (\<lambda>program_id_field.
         and_then (create_text_field ''Instruction Data'' data_hex) (\<lambda>data_field.
           Inr (instruction_preview libs context pid pid [program] [program_id_field, data_field])))))"

definition unknown_visualize ::
  "('k, 'i) SolanaLibs \<Rightarrow> ('k, 'i) VisualizerContext \<Rightarrow> (VisualSignError, AnnotatedPayloadField) result" where
  "unknown_visualize libs context =
     (case (case program_id context of
              ProgramResolved pid \<Rightarrow>
                if has_idl libs (idl_registry context) pid then try_idl_parsing libs context (idl_registry context)
                else Inl (MissingData [])
            | ProgramUnresolved _ \<Rightarrow> Inl (MissingData [])) of
        Inr field \<Rightarrow> Inr field
      | Inl _ \<Rightarrow> create_unknown_program_preview_layout libs context)"

definition unknown_program_visualizer :: "('k, 'i) SolanaLibs \<Rightarrow> ('k, 'i) Visualizer" where
  "unknown_program_visualizer libs =
     \<lparr>visualize_tx_commands = unknown_visualize libs, get_config = Some unknown_program_config,
      kind = Payments ''UnknownProgram'', can_handle = (\<lambda>_. True)\<rparr>"

text \<open>The visualizers of a build: the presets' directories and the catch-all's, in the file system's order.\<close>

definition available_visualizers ::
  "('k, 'i) SolanaLibs \<Rightarrow> (string \<times> ('k, 'i) Visualizer) list \<Rightarrow> (string \<times> ('k, 'i) Visualizer) list \<Rightarrow> ('k, 'i) Visualizer list" where
  "available_visualizers libs before after =
     collect_visualizers (before @ [(''unknown_program'', unknown_program_visualizer libs)] @ after)"

section \<open>Facts\<close>

lemma available_visualizers_eq:
  assumes "''unknown_program'' \<notin> fst ` set (before @ after)"
  shows "available_visualizers libs before after = map snd (before @ after) @ [unknown_program_visualizer libs]"
proof -
  have "filter (\<lambda>(name, _). name = ''unknown_program'') es = []" "filter (\<lambda>(name, _). name \<noteq> ''unknown_program'') es = es"
    if "''unknown_program'' \<notin> fst ` set es" for es :: "(string \<times> 'v) list"
    using that by (induction es) auto
  from this [of before] this [of after] assms show ?thesis
    by (simp add: available_visualizers_def collect_visualizers_def comp_def case_prod_unfold image_Un)
qed

text \<open>A directory holds one entry of each name, so the collected visualizers end with the catch-all.\<close>

interpretation solana_chain: visualizer_chain "map snd presets @ [unknown_program_visualizer libs]" for presets libs
  by unfold_locales (simp_all add: unknown_program_visualizer_def)

lemma plain_text_field_eq: "create_text_field lbl t = Inr (plain_text_field lbl t)"
  by (simp add: create_text_field_def plain_text_field_def)

lemma unknown_visualize_total: "\<exists>f. unknown_visualize libs context = Inr f"
  by (auto simp: unknown_visualize_def create_unknown_program_preview_layout_def plain_text_field_eq Let_def
      split: ProgramRef.split sum.split)

text \<open>The rows that every rendering of the catch-all has: the program's own id and all bytes of the data.\<close>

lemma unknown_visualize_shows:
  "\<exists>c title cond rows. unknown_visualize libs context =
       Inr (Annotated (PreviewLayout c (PreviewLayoutData title (Some \<lparr>text_v2_text = []\<rparr>) (Some (ListLayoutData cond))
         (Some (ListLayoutData rows)))) None None)
     \<and> label c = ''Instruction '' @ nat_str (instruction_index context + 1)
     \<and> take 2 rows = [plain_text_field ''Program ID'' (resolve_program_id_str libs context),
                      plain_text_field ''Instruction Data'' (sl_hex_encode libs (context_data context))]"
proof (cases "program_id context")
  case (ProgramResolved pid)
  then show ?thesis
    by (auto simp: unknown_visualize_def try_idl_parsing_def create_unknown_program_preview_layout_def plain_text_field_eq
        instruction_preview_def resolve_program_id_str_def Let_def numeral_2_eq_2 simp del: append.simps(2)
        split: sum.split prod.split)
next
  case (ProgramUnresolved idx)
  then show ?thesis
    by (auto simp: unknown_visualize_def create_unknown_program_preview_layout_def plain_text_field_eq
        instruction_preview_def resolve_program_id_str_def Let_def numeral_2_eq_2 simp del: append.simps(2))
qed

end
