(* ===== verification/SolanaIntermediate.thy ===== *)
theory SolanaIntermediate
  imports SolanaIdl
begin

text \<open>
  \<^verbatim>\<open>chain_parsers/visualsign-solana/src/intermediate.rs\<close>: the structured decode that goes to policy engines, with its
  canonical JSON, the simulated instructions, the IDL records and its Borsh encoding. The decoders of \<^verbatim>\<open>solana_parser\<close>,
  bs58 and the JSON reader of the RPC types are the record \<open>DecodeLibs\<close>; a \<^verbatim>\<open>HashMap\<close> is an association list without
  repeated keys. Numbers of JSON values are integers. Counts and log lines that no result depends on are left out.
\<close>

section \<open>Schema\<close>

type_synonym u16 = "16 word"

definition SOLANA_INTERMEDIATE_SCHEMA_VERSION :: u16 where
  "SOLANA_INTERMEDIATE_SCHEMA_VERSION = 2"

datatype SolanaSimulationError =
    InvalidBase64 | InvalidJson | SimulationFailed | CallerIdlRecordsUnusable | CompiledInstructionFound | InvalidInstructionData

record SolanaAccount =
  sa_account_key :: string
  sa_signer :: bool
  sa_writable :: bool

record SolTransfer =
  st_from :: string
  st_to :: string
  st_amount :: string

record SplTransfer =
  spl_from :: string
  spl_to :: string
  spl_amount :: string
  spl_owner :: string
  spl_signers :: "string list"
  spl_token_mint :: "string option"
  spl_decimals :: "string option"
  spl_fee :: "string option"

record SolanaSingleAddressTableLookup =
  single_table_key :: string
  single_index :: u32
  single_writable :: bool

record SolanaAddressTableLookup =
  table_key :: string
  table_writable_indexes :: "u32 list"
  table_readonly_indexes :: "u32 list"

record SolanaParsedInstructionDataIo =
  io_instruction_name :: string
  io_discriminator :: string
  io_named_accounts :: "(string \<times> string) list"
  io_program_call_args_json :: string
  io_idl_source :: string
  io_idl_hash :: string

record SolanaRpcParsedInstructionDataIo =
  rpc_program :: string
  rpc_parsed_json :: string

datatype SolanaIdlParseError =
    DataParseError string string
  | AccountsMapError string string
  | DiscriminatorNotFound string
  | IdlResolutionError string

record SolanaIntermediateInstruction =
  ii_program_key :: string
  ii_accounts :: "SolanaAccount list"
  ii_instruction_data_hex :: string
  ii_address_table_lookups :: "SolanaSingleAddressTableLookup list"
  ii_parsed_instruction_data :: "SolanaParsedInstructionDataIo option"
  ii_idl_parse_error :: "SolanaIdlParseError option"
  ii_registered_source :: RegisteredSource

record SolanaSimulatedInstruction =
  sim_index :: u32
  sim_stack_height :: u32
  sim_program_key :: string
  sim_accounts :: "string list"
  sim_instruction_data_hex :: string
  sim_registered_source :: RegisteredSource
  sim_parsed_instruction_data :: "SolanaParsedInstructionDataIo option"
  sim_solana_rpc_parsed_data :: "SolanaRpcParsedInstructionDataIo option"
  sim_idl_parse_error :: "SolanaIdlParseError option"

record SolanaIntermediateOutput =
  schema_version :: u16
  out_account_keys :: "string list"
  out_program_keys :: "string list"
  out_instructions :: "SolanaIntermediateInstruction list"
  out_transfers :: "SolTransfer list"
  out_spl_transfers :: "SplTransfer list"
  out_recent_blockhash :: string
  out_address_table_lookups :: "SolanaAddressTableLookup list"
  out_simulated_instructions :: "SolanaSimulatedInstruction list"
  out_simulation_error :: "SolanaSimulationError option"

section \<open>What the libraries return\<close>

text \<open>
  The structs of \<^verbatim>\<open>solana_parser\<close> have the fields of the schema's structs of the same names; they are the same records
  here, and \<^verbatim>\<open>IdlParseError\<close> the same type, so that the field-by-field \<^verbatim>\<open>From\<close> copies are written on them.
\<close>

record ParserInstruction =
  pin_program_key :: string
  pin_accounts :: "ParserAccount list"
  pin_instruction_data_hex :: string
  pin_address_table_lookups :: "SolanaSingleAddressTableLookup list"
  pin_parsed_instruction :: "ParserInstructionData option"
  pin_idl_parse_error :: "SolanaIdlParseError option"

record ParserMetadata =
  pm_account_keys :: "string list"
  pm_program_keys :: "string list"
  pm_instructions :: "ParserInstruction list"
  pm_transfers :: "SolTransfer list"
  pm_spl_transfers :: "SplTransfer list"
  pm_recent_blockhash :: string
  pm_address_table_lookups :: "SolanaAddressTableLookup list"

text \<open>The \<^verbatim>\<open>simulateTransaction\<close> result: an instruction is compiled, decoded in part, or parsed by the RPC node.\<close>

datatype UiInstruction =
    UiCompiled
  | UiPartiallyDecoded (ui_program_id: string) (ui_accounts: "string list") (ui_data: string) (ui_stack_height: "u32 option")
  | UiParsed (ui_program: string) (ui_parsed_program_id: string) (ui_parsed: json) (ui_parsed_stack_height: "u32 option")

record UiInnerInstructions =
  inner_index :: byte
  inner_instructions :: "UiInstruction list"

record SimulateResult =
  simulate_err :: bool
  simulate_inner_instructions :: "UiInnerInstructions list option"

record 'i DecodeLibs =
  construct_idl_records_map :: "(string \<times> 'i CustomIdlConfig) list \<Rightarrow> (string \<times> 'i IdlRecord) list option"
  construct_custom_idl_records_map :: "(string \<times> 'i IdlRecord) list option"
  resolve_idl_for_record :: "'i IdlRecord \<Rightarrow> string \<Rightarrow> (string, 'i \<times> string \<times> IdlSource) result"
  find_instruction_by_discriminator :: "bytes \<Rightarrow> IdlInstruction list \<Rightarrow> (string, IdlInstruction) result"
  parse_data_into_args :: "bytes \<Rightarrow> IdlInstruction \<Rightarrow> 'i \<Rightarrow> (string, (string \<times> json) list) result"
  create_accounts_map :: "ParserAccount list \<Rightarrow> IdlInstruction \<Rightarrow> (string, (string \<times> string) list) result"
  compute_idl_hash :: "string \<Rightarrow> string"
  bs58_decode :: "string \<Rightarrow> bytes option"
  parse_simulate_result :: "bytes \<Rightarrow> SimulateResult option"
  parse_transaction_with_idl_records :: "string \<Rightarrow> bool \<Rightarrow> (string \<times> 'i IdlRecord) list \<Rightarrow> (string, ParserMetadata option option) result"

section \<open>Canonical JSON\<close>

function (sequential) canonicalize_value :: "bool \<Rightarrow> json \<Rightarrow> json" where
  "canonicalize_value po (JObject m) =
     JObject (jmap_collect po (map (\<lambda>(k, v). (k, canonicalize_value po v)) (bt_collect m)))"
| "canonicalize_value po (JArray items) = JArray (map (canonicalize_value po) items)"
| "canonicalize_value po v = v"
  by pat_completeness auto
termination
proof (relation "measure (\<lambda>(po, v). size v)")
  fix po :: bool and m :: "(string \<times> json) list" and e k v
  assume "e \<in> set (bt_collect m)" "(k, v) = e"
  then have "(k, v) \<in> set m" using set_bt_collect_subset by blast
  then have "size v < Suc (size_list (size_prod (\<lambda>x. 0) size) m)" by (induction m) auto
  then show "((po, v), (po, JObject m)) \<in> measure (\<lambda>(po, v). size v)" by simp
next
  fix po :: bool and items :: "json list" and x
  assume "x \<in> set items"
  then have "size x < Suc (size_list size items)" by (induction items) auto
  then show "((po, x), (po, JArray items)) \<in> measure (\<lambda>(po, v). size v)" by simp
qed simp

definition canonicalize_map :: "bool \<Rightarrow> (string \<times> json) list \<Rightarrow> (string \<times> json) list" where
  "canonicalize_map po m = jmap_collect po (map (\<lambda>(k, v). (k, canonicalize_value po v)) (bt_collect m))"

definition canonical_args_json :: "bool \<Rightarrow> (string \<times> json) list \<Rightarrow> string" where
  "canonical_args_json po args = json_print (JObject (canonicalize_map po args))"

section \<open>Projections\<close>

fun idl_source_string :: "IdlSource \<Rightarrow> string" where
  "idl_source_string (SourceBuiltIn _) = ''BuiltIn''"
| "idl_source_string SourcePreset = ''Preset''"
| "idl_source_string SourceCustom = ''Custom''"

definition account_io :: "ParserAccount \<Rightarrow> SolanaAccount" where
  "account_io v = \<lparr>sa_account_key = pa_account_key v, sa_signer = pa_signer v, sa_writable = pa_writable v\<rparr>"

definition transfer_io :: "SolTransfer \<Rightarrow> SolTransfer" where
  "transfer_io v = \<lparr>st_from = st_from v, st_to = st_to v, st_amount = st_amount v\<rparr>"

definition spl_transfer_io :: "SplTransfer \<Rightarrow> SplTransfer" where
  "spl_transfer_io v = \<lparr>spl_from = spl_from v, spl_to = spl_to v, spl_amount = spl_amount v, spl_owner = spl_owner v,
     spl_signers = spl_signers v, spl_token_mint = spl_token_mint v, spl_decimals = spl_decimals v, spl_fee = spl_fee v\<rparr>"

definition single_lookup_io :: "SolanaSingleAddressTableLookup \<Rightarrow> SolanaSingleAddressTableLookup" where
  "single_lookup_io v = \<lparr>single_table_key = single_table_key v, single_index = single_index v, single_writable = single_writable v\<rparr>"

definition table_lookup_io :: "SolanaAddressTableLookup \<Rightarrow> SolanaAddressTableLookup" where
  "table_lookup_io v = \<lparr>table_key = table_key v, table_writable_indexes = table_writable_indexes v,
     table_readonly_indexes = table_readonly_indexes v\<rparr>"

definition parsed_data_io :: "bool \<Rightarrow> ParserInstructionData \<Rightarrow> SolanaParsedInstructionDataIo" where
  "parsed_data_io po v =
     \<lparr>io_instruction_name = pi_instruction_name v, io_discriminator = pi_discriminator v,
      io_named_accounts = bt_collect (pi_named_accounts v),
      io_program_call_args_json = canonical_args_json po (pi_program_call_args v),
      io_idl_source = idl_source_string (pi_idl_source v), io_idl_hash = pi_idl_hash v\<rparr>"

fun idl_parse_error_io :: "SolanaIdlParseError \<Rightarrow> SolanaIdlParseError" where
  "idl_parse_error_io (DataParseError instruction_name error) = DataParseError instruction_name error"
| "idl_parse_error_io (AccountsMapError instruction_name error) = AccountsMapError instruction_name error"
| "idl_parse_error_io (DiscriminatorNotFound msg) = DiscriminatorNotFound msg"
| "idl_parse_error_io (IdlResolutionError msg) = IdlResolutionError msg"

definition build_intermediate_instruction ::
  "bool \<Rightarrow> ('k, 'i) SolanaLibs \<Rightarrow> ('k, 'i) Visualizer list \<Rightarrow> ParserInstruction \<Rightarrow> (string \<times> 'i CustomIdlConfig) list
    \<Rightarrow> SolanaIntermediateInstruction" where
  "build_intermediate_instruction po libs vs v caller_idl_program_ids =
     \<lparr>ii_program_key = pin_program_key v, ii_accounts = map account_io (pin_accounts v),
      ii_instruction_data_hex = pin_instruction_data_hex v,
      ii_address_table_lookups = map single_lookup_io (pin_address_table_lookups v),
      ii_parsed_instruction_data = map_option (parsed_data_io po) (pin_parsed_instruction v),
      ii_idl_parse_error = map_option idl_parse_error_io (pin_idl_parse_error v),
      ii_registered_source = registered_source libs vs (pin_program_key v) caller_idl_program_ids\<rparr>"

definition build_intermediate_output ::
  "bool \<Rightarrow> ('k, 'i) SolanaLibs \<Rightarrow> ('k, 'i) Visualizer list \<Rightarrow> ParserMetadata \<Rightarrow> (string \<times> 'i CustomIdlConfig) list
    \<Rightarrow> SolanaIntermediateOutput" where
  "build_intermediate_output po libs vs v caller_idl_program_ids =
     \<lparr>schema_version = SOLANA_INTERMEDIATE_SCHEMA_VERSION, out_account_keys = pm_account_keys v,
      out_program_keys = pm_program_keys v,
      out_instructions = map (\<lambda>i. build_intermediate_instruction po libs vs i caller_idl_program_ids) (pm_instructions v),
      out_transfers = map transfer_io (pm_transfers v), out_spl_transfers = map spl_transfer_io (pm_spl_transfers v),
      out_recent_blockhash = pm_recent_blockhash v,
      out_address_table_lookups = map table_lookup_io (pm_address_table_lookups v),
      out_simulated_instructions = [], out_simulation_error = None\<rparr>"

section \<open>IDL records\<close>

definition builtin_idl_records :: "'i DecodeLibs \<Rightarrow> (string \<times> 'i IdlRecord) list" where
  "builtin_idl_records dl = bt_collect (unwrap_or [] (construct_custom_idl_records_map dl))"

definition lookup_idl_record ::
  "('k, 'i) SolanaLibs \<Rightarrow> 'i DecodeLibs \<Rightarrow> (string \<Rightarrow> string) \<Rightarrow> string \<Rightarrow> (string \<times> 'i IdlRecord) list \<Rightarrow> 'i IdlRecord option" where
  "lookup_idl_record libs dl embedded pid caller_records =
     (case map_of caller_records pid of
        Some rec \<Rightarrow> Some rec
      | None \<Rightarrow>
          (case map_of (preset_idl_records libs embedded) pid of
             Some rec \<Rightarrow> Some rec
           | None \<Rightarrow> map_of (builtin_idl_records dl) pid))"

definition caller_idl_records ::
  "'i DecodeLibs \<Rightarrow> (string \<times> 'i CustomIdlConfig) list \<Rightarrow> (string \<times> 'i IdlRecord) list option" where
  "caller_idl_records dl configs =
     (if configs = [] then Some []
      else map_option (\<lambda>records. bt_collect (filter (\<lambda>(pid, _). map_of configs pid \<noteq> None) records))
             (construct_idl_records_map dl configs))"

definition build_idl_record_map ::
  "('k, 'i) SolanaLibs \<Rightarrow> 'i DecodeLibs \<Rightarrow> (string \<Rightarrow> string) \<Rightarrow> (string \<times> 'i IdlRecord) list \<Rightarrow> (string \<times> 'i IdlRecord) list" where
  "build_idl_record_map libs dl embedded caller_records =
     fold (\<lambda>(k, v). ix_insert k v) caller_records
       (fold (\<lambda>(k, v). ix_insert k v) (preset_idl_records libs embedded) (ix_collect (builtin_idl_records dl)))"

section \<open>Simulated instructions\<close>

definition parse_partially_decoded_instruction_idl ::
  "bool \<Rightarrow> ('k, 'i) SolanaLibs \<Rightarrow> 'i DecodeLibs \<Rightarrow> (string \<Rightarrow> string) \<Rightarrow> string \<Rightarrow> string \<Rightarrow> string list
    \<Rightarrow> (string \<times> 'i IdlRecord) list \<Rightarrow> SolanaParsedInstructionDataIo option \<times> SolanaIdlParseError option" where
  "parse_partially_decoded_instruction_idl po libs dl embedded pid data_base58 accounts caller_records =
     (case lookup_idl_record libs dl embedded pid caller_records of
        None \<Rightarrow> (None, None)
      | Some idl_record \<Rightarrow>
     (case resolve_idl_for_record dl idl_record pid of
        Inl e \<Rightarrow> (None, Some (IdlResolutionError e))
      | Inr (idl, idl_json, idl_source) \<Rightarrow>
     (case bs58_decode dl data_base58 of
        None \<Rightarrow> (None, Some (DiscriminatorNotFound ''instruction data is not valid base58''))
      | Some data \<Rightarrow>
     (case find_instruction_by_discriminator dl data (idl_instructions libs idl) of
        Inl e \<Rightarrow> (None, Some (DiscriminatorNotFound e))
      | Inr inst \<Rightarrow>
     (case parse_data_into_args dl data inst idl of
        Inl e \<Rightarrow> (None, Some (DataParseError (inst_name inst) e))
      | Inr program_call_args \<Rightarrow>
     (case create_accounts_map dl (map (\<lambda>k. \<lparr>pa_account_key = k, pa_signer = False, pa_writable = False\<rparr>) accounts) inst of
        Inl e \<Rightarrow> (None, Some (AccountsMapError (inst_name inst) e))
      | Inr named_accounts \<Rightarrow>
     (case inst_discriminator inst of
        None \<Rightarrow> (None, Some (DiscriminatorNotFound ''matched instruction has no discriminator''))
      | Some discriminator \<Rightarrow>
          (Some \<lparr>io_instruction_name = inst_name inst, io_discriminator = sl_hex_encode libs discriminator,
                 io_named_accounts = bt_collect named_accounts,
                 io_program_call_args_json = canonical_args_json po program_call_args,
                 io_idl_source = idl_source_string idl_source, io_idl_hash = compute_idl_hash dl idl_json\<rparr>, None))))))))"

text \<open>One inner instruction of a group; an error ends the whole decode.\<close>

definition decode_ui_instruction ::
  "bool \<Rightarrow> ('k, 'i) SolanaLibs \<Rightarrow> 'i DecodeLibs \<Rightarrow> ('k, 'i) Visualizer list \<Rightarrow> (string \<Rightarrow> string)
    \<Rightarrow> (string \<times> 'i CustomIdlConfig) list \<Rightarrow> (string \<times> 'i IdlRecord) list \<Rightarrow> u32 \<Rightarrow> UiInstruction
    \<Rightarrow> (SolanaSimulationError, SolanaSimulatedInstruction) result" where
  "decode_ui_instruction po libs dl vs embedded configs caller_records outer_index ui =
     (case ui of
        UiCompiled \<Rightarrow> Inl CompiledInstructionFound
      | UiPartiallyDecoded pid accounts d height \<Rightarrow>
          (case bs58_decode dl d of
             None \<Rightarrow> Inl InvalidInstructionData
           | Some data \<Rightarrow>
               (let (parsed, idl_error) =
                      parse_partially_decoded_instruction_idl po libs dl embedded pid d accounts caller_records
                in Inr \<lparr>sim_index = outer_index, sim_stack_height = unwrap_or 0 height, sim_program_key = pid,
                        sim_accounts = accounts, sim_instruction_data_hex = sl_hex_encode libs data,
                        sim_registered_source = registered_source libs vs pid configs,
                        sim_parsed_instruction_data = parsed, sim_solana_rpc_parsed_data = None,
                        sim_idl_parse_error = idl_error\<rparr>))
      | UiParsed program pid parsed height \<Rightarrow>
          Inr \<lparr>sim_index = outer_index, sim_stack_height = unwrap_or 0 height, sim_program_key = pid,
               sim_accounts = [], sim_instruction_data_hex = [],
               sim_registered_source = registered_source libs vs pid configs,
               sim_parsed_instruction_data = None,
               sim_solana_rpc_parsed_data =
                 Some \<lparr>rpc_program = program, rpc_parsed_json = json_print (canonicalize_value po parsed)\<rparr>,
               sim_idl_parse_error = None\<rparr>)"

text \<open>The early returns of the two loops drop what was decoded before.\<close>

definition all_or_error ::
  "(SolanaSimulationError, SolanaSimulatedInstruction list) result \<Rightarrow> SolanaSimulatedInstruction list \<times> SolanaSimulationError option" where
  "all_or_error r = (case r of Inr is \<Rightarrow> (is, None) | Inl e \<Rightarrow> ([], Some e))"

definition decode_inner_instructions ::
  "bool \<Rightarrow> ('k, 'i) SolanaLibs \<Rightarrow> 'i DecodeLibs \<Rightarrow> ('k, 'i) Visualizer list \<Rightarrow> (string \<Rightarrow> string) \<Rightarrow> UiInnerInstructions list
    \<Rightarrow> 'i IdlRegistry \<Rightarrow> SolanaSimulatedInstruction list \<times> SolanaSimulationError option" where
  "decode_inner_instructions po libs dl vs embedded groups reg =
     (let configs = idl_configs reg
      in case caller_idl_records dl configs of
           None \<Rightarrow> ([], Some CallerIdlRecordsUnusable)
         | Some caller_records \<Rightarrow>
             all_or_error (collect_results (concat (map (\<lambda>entry.
               map (decode_ui_instruction po libs dl vs embedded configs caller_records (ucast (inner_index entry)))
                 (inner_instructions entry)) groups))))"

definition parse_and_decode_simulated_instructions ::
  "bool \<Rightarrow> ('k, 'i) SolanaLibs \<Rightarrow> 'i DecodeLibs \<Rightarrow> ('k, 'i) Visualizer list \<Rightarrow> (string \<Rightarrow> string) \<Rightarrow> bytes
    \<Rightarrow> 'i IdlRegistry \<Rightarrow> SolanaSimulatedInstruction list \<times> SolanaSimulationError option" where
  "parse_and_decode_simulated_instructions po libs dl vs embedded raw_json reg =
     (case parse_simulate_result dl raw_json of
        None \<Rightarrow> ([], Some InvalidJson)
      | Some response \<Rightarrow>
          if simulate_err response then ([], Some SimulationFailed)
          else (case simulate_inner_instructions response of
                  None \<Rightarrow> ([], None)
                | Some groups \<Rightarrow> decode_inner_instructions po libs dl vs embedded groups reg))"

section \<open>Extraction\<close>

definition extract_solana_intermediate_output ::
  "bool \<Rightarrow> ('k, 'i) SolanaLibs \<Rightarrow> 'i DecodeLibs \<Rightarrow> ('k, 'i) Visualizer list \<Rightarrow> (string \<Rightarrow> string) \<Rightarrow> string \<Rightarrow> bool
    \<Rightarrow> 'i IdlRegistry \<Rightarrow> (VisualSignError, SolanaIntermediateOutput) result" where
  "extract_solana_intermediate_output po libs dl vs embedded raw_message_hex full_transaction reg =
     (let configs = idl_configs reg
      in and_then (ok_or (ParseError (TxDecodeError ''Failed to build IDL records from caller-supplied IDLs''))
           (caller_idl_records dl configs)) (\<lambda>caller_records.
         and_then (map_err (\<lambda>e. ParseError (TxDecodeError (''Failed to parse transaction for intermediate output: '' @ e)))
           (parse_transaction_with_idl_records dl raw_message_hex full_transaction
             (build_idl_record_map libs dl embedded caller_records))) (\<lambda>payload.
         and_then (ok_or (ParseError (TxDecodeError ''solana_parser returned no transaction_metadata''))
           (Option.bind payload (\<lambda>p. p))) (\<lambda>meta.
           Inr (build_intermediate_output po libs vs meta configs)))))"

end
