(* ===== verification/SolanaWire.thy ===== *)
theory SolanaWire
  imports SolanaIntermediate ChainMeta
begin

text \<open>
  The Borsh encoding that the derives of \<^verbatim>\<open>intermediate.rs\<close> denote, struct by struct in field order, and the facts on
  the intermediate output: its JSON does not depend on the build, looking records up in layers agrees with the merged
  map, a simulation is decoded whole or not at all, and the bytes determine the output. Encoding fails exactly when a
  length does not fit in 32 bits.
\<close>

section \<open>Encodings\<close>

definition enc_u16 :: "u16 \<Rightarrow> bytes" where
  "enc_u16 w = le_bytes 2 (unat w)"

definition enc_bool :: "bool \<Rightarrow> bytes" where
  "enc_bool b = [if b then 1 else 0]"

fun enc_registered_source :: "RegisteredSource \<Rightarrow> bytes" where
  "enc_registered_source Native = [0]"
| "enc_registered_source Preset = [1]"
| "enc_registered_source ThirdParty = [2]"
| "enc_registered_source CallerSupplied = [3]"
| "enc_registered_source Unregistered = [4]"

text \<open>Discriminants are written out in the source and start at 1.\<close>

fun enc_simulation_error :: "SolanaSimulationError \<Rightarrow> bytes" where
  "enc_simulation_error InvalidBase64 = [1]"
| "enc_simulation_error InvalidJson = [2]"
| "enc_simulation_error SimulationFailed = [3]"
| "enc_simulation_error CallerIdlRecordsUnusable = [4]"
| "enc_simulation_error CompiledInstructionFound = [5]"
| "enc_simulation_error InvalidInstructionData = [6]"

fun enc_idl_parse_error :: "SolanaIdlParseError \<Rightarrow> bytes" where
  "enc_idl_parse_error (DataParseError n e) = 0 # enc_string n @ enc_string e"
| "enc_idl_parse_error (AccountsMapError n e) = 1 # enc_string n @ enc_string e"
| "enc_idl_parse_error (DiscriminatorNotFound m) = 2 # enc_string m"
| "enc_idl_parse_error (IdlResolutionError m) = 3 # enc_string m"

definition enc_account :: "SolanaAccount \<Rightarrow> bytes" where
  "enc_account a = enc_string (sa_account_key a) @ enc_bool (sa_signer a) @ enc_bool (sa_writable a)"

definition enc_transfer :: "SolTransfer \<Rightarrow> bytes" where
  "enc_transfer t = enc_string (st_from t) @ enc_string (st_to t) @ enc_string (st_amount t)"

definition enc_spl_transfer :: "SplTransfer \<Rightarrow> bytes" where
  "enc_spl_transfer t = enc_string (spl_from t) @ enc_string (spl_to t) @ enc_string (spl_amount t) @ enc_string (spl_owner t)
     @ enc_list enc_string (spl_signers t) @ enc_option enc_string (spl_token_mint t)
     @ enc_option enc_string (spl_decimals t) @ enc_option enc_string (spl_fee t)"

definition enc_single_lookup :: "SolanaSingleAddressTableLookup \<Rightarrow> bytes" where
  "enc_single_lookup l = enc_string (single_table_key l) @ enc_u32 (single_index l) @ enc_bool (single_writable l)"

definition enc_table_lookup :: "SolanaAddressTableLookup \<Rightarrow> bytes" where
  "enc_table_lookup l = enc_string (table_key l) @ enc_list enc_u32 (table_writable_indexes l)
     @ enc_list enc_u32 (table_readonly_indexes l)"

definition enc_parsed_data :: "SolanaParsedInstructionDataIo \<Rightarrow> bytes" where
  "enc_parsed_data d = enc_string (io_instruction_name d) @ enc_string (io_discriminator d)
     @ enc_list (enc_entry enc_string enc_string) (io_named_accounts d) @ enc_string (io_program_call_args_json d)
     @ enc_string (io_idl_source d) @ enc_string (io_idl_hash d)"

definition enc_rpc_data :: "SolanaRpcParsedInstructionDataIo \<Rightarrow> bytes" where
  "enc_rpc_data d = enc_string (rpc_program d) @ enc_string (rpc_parsed_json d)"

definition enc_instruction :: "SolanaIntermediateInstruction \<Rightarrow> bytes" where
  "enc_instruction i = enc_string (ii_program_key i) @ enc_list enc_account (ii_accounts i)
     @ enc_string (ii_instruction_data_hex i) @ enc_list enc_single_lookup (ii_address_table_lookups i)
     @ enc_option enc_parsed_data (ii_parsed_instruction_data i) @ enc_option enc_idl_parse_error (ii_idl_parse_error i)
     @ enc_registered_source (ii_registered_source i)"

definition enc_simulated :: "SolanaSimulatedInstruction \<Rightarrow> bytes" where
  "enc_simulated s = enc_u32 (sim_index s) @ enc_u32 (sim_stack_height s) @ enc_string (sim_program_key s)
     @ enc_list enc_string (sim_accounts s) @ enc_string (sim_instruction_data_hex s)
     @ enc_registered_source (sim_registered_source s) @ enc_option enc_parsed_data (sim_parsed_instruction_data s)
     @ enc_option enc_rpc_data (sim_solana_rpc_parsed_data s) @ enc_option enc_idl_parse_error (sim_idl_parse_error s)"

definition enc_output :: "SolanaIntermediateOutput \<Rightarrow> bytes" where
  "enc_output out = enc_u16 (schema_version out) @ enc_list enc_string (out_account_keys out)
     @ enc_list enc_string (out_program_keys out) @ enc_list enc_instruction (out_instructions out)
     @ enc_list enc_transfer (out_transfers out) @ enc_list enc_spl_transfer (out_spl_transfers out)
     @ enc_string (out_recent_blockhash out) @ enc_list enc_table_lookup (out_address_table_lookups out)
     @ enc_list enc_simulated (out_simulated_instructions out) @ enc_option enc_simulation_error (out_simulation_error out)"

section \<open>Which outputs can be encoded\<close>

fun fits_idl_parse_error :: "SolanaIdlParseError \<Rightarrow> bool" where
  "fits_idl_parse_error (DataParseError n e) = (fits_string n \<and> fits_string e)"
| "fits_idl_parse_error (AccountsMapError n e) = (fits_string n \<and> fits_string e)"
| "fits_idl_parse_error (DiscriminatorNotFound m) = fits_string m"
| "fits_idl_parse_error (IdlResolutionError m) = fits_string m"

definition fits_spl_transfer :: "SplTransfer \<Rightarrow> bool" where
  "fits_spl_transfer t = (fits_string (spl_from t) \<and> fits_string (spl_to t) \<and> fits_string (spl_amount t)
     \<and> fits_string (spl_owner t) \<and> fits_list fits_string (spl_signers t) \<and> pred_option fits_string (spl_token_mint t)
     \<and> pred_option fits_string (spl_decimals t) \<and> pred_option fits_string (spl_fee t))"

definition fits_parsed_data :: "SolanaParsedInstructionDataIo \<Rightarrow> bool" where
  "fits_parsed_data d = (fits_string (io_instruction_name d) \<and> fits_string (io_discriminator d)
     \<and> fits_list (fits_entry fits_string fits_string) (io_named_accounts d) \<and> fits_string (io_program_call_args_json d)
     \<and> fits_string (io_idl_source d) \<and> fits_string (io_idl_hash d))"

definition fits_instruction :: "SolanaIntermediateInstruction \<Rightarrow> bool" where
  "fits_instruction i = (fits_string (ii_program_key i) \<and> fits_list (\<lambda>a. fits_string (sa_account_key a)) (ii_accounts i)
     \<and> fits_string (ii_instruction_data_hex i) \<and> fits_list (\<lambda>l. fits_string (single_table_key l)) (ii_address_table_lookups i)
     \<and> pred_option fits_parsed_data (ii_parsed_instruction_data i) \<and> pred_option fits_idl_parse_error (ii_idl_parse_error i))"

definition fits_simulated :: "SolanaSimulatedInstruction \<Rightarrow> bool" where
  "fits_simulated s = (fits_string (sim_program_key s) \<and> fits_list fits_string (sim_accounts s)
     \<and> fits_string (sim_instruction_data_hex s) \<and> pred_option fits_parsed_data (sim_parsed_instruction_data s)
     \<and> pred_option (\<lambda>d. fits_string (rpc_program d) \<and> fits_string (rpc_parsed_json d)) (sim_solana_rpc_parsed_data s)
     \<and> pred_option fits_idl_parse_error (sim_idl_parse_error s))"

definition fits_output :: "SolanaIntermediateOutput \<Rightarrow> bool" where
  "fits_output out = (fits_list fits_string (out_account_keys out) \<and> fits_list fits_string (out_program_keys out)
     \<and> fits_list fits_instruction (out_instructions out)
     \<and> fits_list (\<lambda>t. fits_string (st_from t) \<and> fits_string (st_to t) \<and> fits_string (st_amount t)) (out_transfers out)
     \<and> fits_list fits_spl_transfer (out_spl_transfers out) \<and> fits_string (out_recent_blockhash out)
     \<and> fits_list (\<lambda>l. fits_string (table_key l) \<and> fits_list (\<lambda>_. True) (table_writable_indexes l)
          \<and> fits_list (\<lambda>_. True) (table_readonly_indexes l)) (out_address_table_lookups out)
     \<and> fits_list fits_simulated (out_simulated_instructions out))"

definition borsh_output :: "SolanaIntermediateOutput \<Rightarrow> bytes option" where
  "borsh_output out = (if fits_output out then Some (enc_output out) else None)"

section \<open>The bytes determine the output\<close>

interpretation u16_code: prefix_code enc_u16 "\<lambda>_. True"
proof
  fix a b :: u16 and r q
  assume "enc_u16 a @ r = enc_u16 b @ q"
  then have "le_bytes 2 (unat a) = le_bytes 2 (unat b)" "r = q" by (simp_all add: enc_u16_def append_eq_append_conv)
  moreover have "unat x < 256 ^ 2" for x :: u16 using unsigned_less [of x] by simp
  ultimately show "a = b \<and> r = q" by (simp add: le_bytes_inject word_unat_eq_iff)
qed

interpretation bool_code: prefix_code enc_bool "\<lambda>_. True"
  by unfold_locales (auto simp: enc_bool_def split: if_splits)

interpretation source_code: prefix_code enc_registered_source "\<lambda>_. True"
proof
  fix a b r q
  assume "enc_registered_source a @ r = enc_registered_source b @ q"
  then show "a = b \<and> r = q" by (cases a; cases b) simp_all
qed

interpretation sim_error_opt: prefix_code "enc_option enc_simulation_error" "\<lambda>_. True"
proof
  fix a b r q
  have front: "enc_simulation_error x @ r = enc_simulation_error y @ q \<Longrightarrow> x = y \<and> r = q" for x y
    by (cases x; cases y) simp_all
  assume "enc_option enc_simulation_error a @ r = enc_option enc_simulation_error b @ q"
  then show "a = b \<and> r = q" using front by (cases a; cases b) (auto simp: enc_option_def)
qed

interpretation idl_error_opt: prefix_code "enc_option enc_idl_parse_error" "pred_option fits_idl_parse_error"
proof (rule prefix_code_option, unfold_locales)
  fix a b r q
  assume "fits_idl_parse_error a" "fits_idl_parse_error b" "enc_idl_parse_error a @ r = enc_idl_parse_error b @ q"
  then show "a = b \<and> r = q" by (cases a; cases b) (simp_all add: string_code.front_iff)
qed

interpretation strings_code: prefix_code "enc_list enc_string" "fits_list fits_string"
  by (rule prefix_code_list) unfold_locales

interpretation u32s_code: prefix_code "enc_list enc_u32" "fits_list (\<lambda>_. True)"
  by (rule prefix_code_list) unfold_locales

interpretation string_map: prefix_code "enc_list (enc_entry enc_string enc_string)" "fits_list (fits_entry fits_string fits_string)"
  by (intro prefix_code_list prefix_code_entry) unfold_locales

lemmas leaf_fronts = string_code.front_iff string_opt.front_iff u32.front_iff u16_code.front_iff bool_code.front_iff
  source_code.front_iff sim_error_opt.front_iff idl_error_opt.front_iff strings_code.front_iff u32s_code.front_iff
  string_map.front_iff

interpretation accounts_code: prefix_code "enc_list enc_account" "fits_list (\<lambda>a. fits_string (sa_account_key a))"
  by (rule prefix_code_list, unfold_locales) (auto simp: enc_account_def leaf_fronts)

interpretation transfers_code: prefix_code "enc_list enc_transfer"
  "fits_list (\<lambda>t. fits_string (st_from t) \<and> fits_string (st_to t) \<and> fits_string (st_amount t))"
  by (rule prefix_code_list, unfold_locales) (auto simp: enc_transfer_def leaf_fronts)

interpretation spl_transfers_code: prefix_code "enc_list enc_spl_transfer" "fits_list fits_spl_transfer"
  by (rule prefix_code_list, unfold_locales) (simp add: enc_spl_transfer_def fits_spl_transfer_def leaf_fronts)

interpretation single_lookups_code: prefix_code "enc_list enc_single_lookup" "fits_list (\<lambda>l. fits_string (single_table_key l))"
  by (rule prefix_code_list, unfold_locales) (auto simp: enc_single_lookup_def leaf_fronts)

interpretation table_lookups_code: prefix_code "enc_list enc_table_lookup"
  "fits_list (\<lambda>l. fits_string (table_key l) \<and> fits_list (\<lambda>_. True) (table_writable_indexes l)
     \<and> fits_list (\<lambda>_. True) (table_readonly_indexes l))"
  by (rule prefix_code_list, unfold_locales) (simp add: enc_table_lookup_def leaf_fronts)

interpretation parsed_data_opt: prefix_code "enc_option enc_parsed_data" "pred_option fits_parsed_data"
  by (rule prefix_code_option, unfold_locales) (simp add: enc_parsed_data_def fits_parsed_data_def leaf_fronts)

interpretation rpc_data_opt: prefix_code "enc_option enc_rpc_data"
  "pred_option (\<lambda>d. fits_string (rpc_program d) \<and> fits_string (rpc_parsed_json d))"
  by (rule prefix_code_option, unfold_locales) (simp add: enc_rpc_data_def leaf_fronts)

lemmas node_fronts = leaf_fronts accounts_code.front_iff transfers_code.front_iff spl_transfers_code.front_iff
  single_lookups_code.front_iff table_lookups_code.front_iff parsed_data_opt.front_iff rpc_data_opt.front_iff

interpretation instructions_code: prefix_code "enc_list enc_instruction" "fits_list fits_instruction"
  by (rule prefix_code_list, unfold_locales) (simp add: enc_instruction_def fits_instruction_def node_fronts)

interpretation simulated_code: prefix_code "enc_list enc_simulated" "fits_list fits_simulated"
  by (rule prefix_code_list, unfold_locales) (simp add: enc_simulated_def fits_simulated_def node_fronts)

interpretation output_code: prefix_code enc_output fits_output
  by unfold_locales
    (simp add: enc_output_def fits_output_def node_fronts instructions_code.front_iff simulated_code.front_iff)

lemma borsh_output_inject: "borsh_output a = Some bs \<Longrightarrow> borsh_output b = Some bs \<Longrightarrow> a = b"
  using output_code.enc_inject [of a b] by (simp add: borsh_output_def split: if_splits)

section \<open>Canonical JSON\<close>

lemma bt_insert_map: "bt_insert k (f v) (map (\<lambda>(k, v). (k, f v)) m) = map (\<lambda>(k, v). (k, f v)) (bt_insert k v m)"
  by (induction m) auto

lemma bt_collect_map: "bt_collect (map (\<lambda>(k, v). (k, f v)) m) = map (\<lambda>(k, v). (k, f v)) (bt_collect m)"
proof -
  have "fold (\<lambda>(k, v). bt_insert k v) (map (\<lambda>(k, v). (k, f v)) m) (map (\<lambda>(k, v). (k, f v)) acc)
      = map (\<lambda>(k, v). (k, f v)) (fold (\<lambda>(k, v). bt_insert k v) m acc)" for acc
    by (induction m arbitrary: acc) (auto simp: bt_insert_map)
  from this [of "[]"] show ?thesis by (simp add: bt_collect_def)
qed

lemma canonicalize_value_canon: "canonicalize_value po v = canon v"
proof (induction po v rule: canonicalize_value.induct)
  case (1 po m)
  have "map (\<lambda>(k, v). (k, canonicalize_value po v)) (bt_collect m) = map (\<lambda>(k, v). (k, canon v)) (bt_collect m)"
    using 1 by auto
  then show ?case
    by (simp add: canon_def bt_collect_map [symmetric])
next
  case (2 po items)
  then show ?case by (simp add: canon_def)
qed (simp_all add: canon_def)

lemma canonical_args_json_canon: "canonical_args_json po args = json_print (canon (JObject args))"
  using canonicalize_value_canon [of po "JObject args"] by (simp add: canonical_args_json_def canonicalize_map_def)

section \<open>Record lookup\<close>

lemma map_of_rev_distinct: "distinct (map fst es) \<Longrightarrow> map_of (rev es) = map_of es"
  by (subst map_of_inject_set) (auto simp: rev_map [symmetric])

lemma map_of_ix_layer:
  "distinct (map fst m) \<Longrightarrow> ssorted es \<Longrightarrow>
     map_of (fold (\<lambda>(k, v). ix_insert k v) es m) x = (case map_of es x of Some v \<Rightarrow> Some v | None \<Rightarrow> map_of m x)"
  by (simp add: ix.map_of_fold map_of_rev_distinct ssorted_distinct map_add_def)

lemma build_idl_record_map_lookup:
  assumes "ssorted cs"
  shows "map_of (build_idl_record_map libs dl embedded cs) pid = lookup_idl_record libs dl embedded pid cs"
proof -
  let ?p = "preset_idl_records libs embedded" and ?b = "builtin_idl_records dl"
  have p: "ssorted ?p" and b: "ssorted ?b"
    unfolding preset_idl_records_def builtin_idl_records_def by (rule ssorted_bt_collect)+
  have bc: "ix_collect ?b = ?b" by (rule ix_collect_distinct [OF ssorted_distinct [OF b]])
  have d: "distinct (map fst (fold (\<lambda>(k, v). ix_insert k v) ?p ?b))" by (rule ix.inv_fold [OF ssorted_distinct [OF b]])
  show ?thesis
    unfolding build_idl_record_map_def bc map_of_ix_layer [OF d assms] map_of_ix_layer [OF ssorted_distinct [OF b] p]
    by (simp add: lookup_idl_record_def split: option.split)
qed

lemma caller_idl_records_keys:
  assumes "caller_idl_records dl configs = Some cs"
  shows "ssorted cs" and "map_of cs pid \<noteq> None \<Longrightarrow> map_of configs pid \<noteq> None"
proof -
  show "ssorted cs" using assms by (auto simp: caller_idl_records_def ssorted_bt_collect split: if_splits)
  assume "map_of cs pid \<noteq> None"
  then obtain v where "(pid, v) \<in> set cs" by (auto dest: map_of_SomeD)
  then show "map_of configs pid \<noteq> None"
    using assms by (auto simp: caller_idl_records_def split: if_splits dest!: subsetD [OF set_bt_collect_subset])
qed

section \<open>Simulation\<close>

fun ui_program_key :: "UiInstruction \<Rightarrow> string" where
  "ui_program_key UiCompiled = []"
| "ui_program_key (UiPartiallyDecoded pid _ _ _) = pid"
| "ui_program_key (UiParsed _ pid _ _) = pid"

lemma decode_ui_instruction_key:
  "decode_ui_instruction po libs dl vs embedded configs cs i u = Inr s \<Longrightarrow>
     u \<noteq> UiCompiled \<and> sim_index s = i \<and> sim_program_key s = ui_program_key u
     \<and> (sim_solana_rpc_parsed_data s = None \<or> sim_parsed_instruction_data s = None \<and> sim_idl_parse_error s = None)
     \<and> (sim_parsed_instruction_data s = None \<or> sim_idl_parse_error s = None)"
  by (cases u) (auto simp: decode_ui_instruction_def parse_partially_decoded_instruction_idl_def
      split: option.splits prod.splits sum.splits)

lemma decode_group_keys:
  "map (decode_ui_instruction po libs dl vs embedded configs cs i) us = map Inr ss \<Longrightarrow>
     map (\<lambda>s. (sim_index s, sim_program_key s)) ss = map (\<lambda>u. (i, ui_program_key u)) us
     \<and> list_all (\<lambda>s. sim_parsed_instruction_data s = None \<or> sim_solana_rpc_parsed_data s = None) ss"
proof (induction us arbitrary: ss)
  case (Cons u us)
  then show ?case by (cases ss) (auto dest: decode_ui_instruction_key)
qed simp

lemma decode_groups_keys:
  "concat (map (\<lambda>g. map (decode_ui_instruction po libs dl vs embedded configs cs (ucast (inner_index g))) (inner_instructions g))
      groups) = map Inr ss \<Longrightarrow>
     map (\<lambda>s. (sim_index s, sim_program_key s)) ss =
       concat (map (\<lambda>g. map (\<lambda>u. (ucast (inner_index g), ui_program_key u)) (inner_instructions g)) groups)
     \<and> list_all (\<lambda>s. sim_parsed_instruction_data s = None \<or> sim_solana_rpc_parsed_data s = None) ss"
proof (induction groups arbitrary: ss)
  case (Cons g groups)
  then obtain xs ys where ss: "ss = xs @ ys"
    and x: "map (decode_ui_instruction po libs dl vs embedded configs cs (ucast (inner_index g))) (inner_instructions g) = map Inr xs"
    and y: "concat (map (\<lambda>g. map (decode_ui_instruction po libs dl vs embedded configs cs (ucast (inner_index g)))
      (inner_instructions g)) groups) = map Inr ys"
    by (auto simp: append_eq_map_conv)
  from decode_group_keys [OF x] Cons.IH [OF y] ss show ?case by simp
qed simp

section \<open>An instance of the decoders\<close>

definition sol_sample_decode :: "unit DecodeLibs" where
  "sol_sample_decode =
     \<lparr>construct_idl_records_map = (\<lambda>cs. Some (map (\<lambda>(k, _). (k, \<lparr>record_program_id = k, record_program_name = k,
        record_program_type = None, record_custom_idl = None, record_custom_idl_json = None, record_override_builtin = True,
        record_is_preset = False\<rparr>)) cs)),
      construct_custom_idl_records_map = Some [],
      resolve_idl_for_record = (\<lambda>_ _. Inl ''none''), find_instruction_by_discriminator = (\<lambda>_ _. Inl ''none''),
      parse_data_into_args = (\<lambda>_ _ _. Inr []), create_accounts_map = (\<lambda>_ _. Inr []), compute_idl_hash = (\<lambda>j. j),
      bs58_decode = (\<lambda>_. Some []),
      parse_simulate_result = (\<lambda>raw. if raw = [] then None else Some \<lparr>simulate_err = False,
        simulate_inner_instructions = Some [\<lparr>inner_index = 3, inner_instructions = [UiParsed ''system'' ''1111'' JNull (Some 2)]\<rparr>]\<rparr>),
      parse_transaction_with_idl_records = (\<lambda>_ _ _. Inr (Some (Some \<lparr>pm_account_keys = [], pm_program_keys = [],
        pm_instructions = [], pm_transfers = [], pm_spl_transfers = [], pm_recent_blockhash = [],
        pm_address_table_lookups = []\<rparr>)))\<rparr>"

section \<open>Properties\<close>

text \<open>The JSON of decoded arguments is the canonical form of the payload serializer, whichever map implementation
  either was built with; it passes the ordering check, and argument maps that hold the same entries in another order
  give the same text.\<close>

lemma args_json_canonical:
  "canonical_args_json po args = json_print (sort_json_alphabetically po' (JObject args))
   \<and> verify_json_deterministic (canonicalize_value po v) [] = Inr ()
   \<and> (distinct (map fst args) \<and> mset args = mset args' \<longrightarrow> canonical_args_json po args = canonical_args_json po' args')"
proof (intro conjI impI)
  show "canonical_args_json po args = json_print (sort_json_alphabetically po' (JObject args))"
    unfolding canonical_args_json_canon sort_json_alphabetically_canon ..
  show "verify_json_deterministic (canonicalize_value po v) [] = Inr ()"
    unfolding canonicalize_value_canon verify_json_iff by (rule keys_sorted_canon)
  assume *: "distinct (map fst args) \<and> mset args = mset args'"
  then have "distinct (map fst args')" by (metis mset_map mset_eq_imp_distinct_iff)
  with * have "canon (JObject args) = canon (JObject args')" by (intro canon_cong_set) (auto dest: mset_eq_setD)
  then show "canonical_args_json po args = canonical_args_json po' args'" by (simp only: canonical_args_json_canon)
qed

text \<open>C28: the record map that the policy decode hands to the library agrees, program by program, with the layered lookup
  of the simulated instructions; and for a program that is trusted neither depends on the IDLs the caller sent.\<close>

theorem policy_records_trusted:
  assumes "create_idl_registry_from_options libs ed vs env options = Inr reg"
    and "caller_idl_records dl (idl_configs reg) = Some cs"
  shows "map_of (build_idl_record_map libs dl embedded cs) pid = lookup_idl_record libs dl embedded pid cs
     \<and> (is_trusted_program libs vs pid \<longrightarrow> lookup_idl_record libs dl embedded pid cs = lookup_idl_record libs dl embedded pid [])"
proof
  show "map_of (build_idl_record_map libs dl embedded cs) pid = lookup_idl_record libs dl embedded pid cs"
    by (rule build_idl_record_map_lookup [OF caller_idl_records_keys(1) [OF assms(2)]])
  obtain es where "idl_registry_ok libs vs es reg"
    using create_idl_registry_ok [of libs ed vs env options] assms(1) by auto
  then have "is_trusted_program libs vs pid \<Longrightarrow> map_of (idl_configs reg) pid = None"
    unfolding idl_registry_ok_def by (meson not_None_eq)
  then show "is_trusted_program libs vs pid \<longrightarrow> lookup_idl_record libs dl embedded pid cs = lookup_idl_record libs dl embedded pid []"
    using caller_idl_records_keys(2) [OF assms(2), of pid]
    by (cases "map_of cs pid") (auto simp: lookup_idl_record_def)
qed

theorem policy_records_trusted_witness:
  "\<exists>reg cs. create_idl_registry_from_options sol_sample_libs sol_sample_ed [] None sol_sample_options = Inr reg
     \<and> caller_idl_records sol_sample_decode (idl_configs reg) = Some cs
     \<and> lookup_idl_record sol_sample_libs sol_sample_decode (\<lambda>p. p) ''11111111111111111111111111111111'' cs =
         lookup_idl_record sol_sample_libs sol_sample_decode (\<lambda>p. p) ''11111111111111111111111111111111'' []"
proof -
  obtain reg where reg: "create_idl_registry_from_options sol_sample_libs sol_sample_ed [] None sol_sample_options = Inr reg"
    using create_idl_registry_ok by blast
  have "caller_idl_records sol_sample_decode (idl_configs reg) \<noteq> None"
    by (simp add: caller_idl_records_def sol_sample_decode_def)
  then obtain cs where cs: "caller_idl_records sol_sample_decode (idl_configs reg) = Some cs" by blast
  from policy_records_trusted [OF reg cs] sample_trust(1) reg cs show ?thesis by blast
qed

text \<open>A simulation is decoded whole or not at all. With an error there are no instructions; without one the trace did
  not revert, and the list has every inner instruction of every group, in order, under its group's index and its own
  program, with at most one of the two decodes.\<close>

lemma simulation_whole:
  assumes "parse_and_decode_simulated_instructions po libs dl vs embedded raw reg = (sims, err)"
  shows "(case err of
      Some e \<Rightarrow> sims = []
    | None \<Rightarrow> \<exists>response. parse_simulate_result dl raw = Some response \<and> \<not> simulate_err response
        \<and> map (\<lambda>s. (sim_index s, sim_program_key s)) sims =
            concat (map (\<lambda>g. map (\<lambda>u. (ucast (inner_index g), ui_program_key u)) (inner_instructions g))
              (unwrap_or [] (simulate_inner_instructions response)))
        \<and> list_all (\<lambda>s. sim_parsed_instruction_data s = None \<or> sim_solana_rpc_parsed_data s = None) sims)"
proof -
  consider (none) "parse_simulate_result dl raw = None" | (failed) response where "parse_simulate_result dl raw = Some response"
      "simulate_err response"
    | (run) response where "parse_simulate_result dl raw = Some response" "\<not> simulate_err response"
    by blast
  then show ?thesis
  proof cases
    case none
    then show ?thesis using assms by (auto simp: parse_and_decode_simulated_instructions_def)
  next
    case failed
    then show ?thesis using assms by (auto simp: parse_and_decode_simulated_instructions_def)
  next
    case run
    then show ?thesis
      using assms
      by (auto dest!: decode_groups_keys simp: parse_and_decode_simulated_instructions_def decode_inner_instructions_def all_or_error_def collect_results_Inr
          Let_def split: option.splits sum.splits)
  qed
qed

text \<open>The bytes of the intermediate output, which are signed with the payload, determine it whole, simulation and
  schema version included; encoding fails only on lengths of 4 GiB and more.\<close>

lemma intermediate_bytes_exact:
  "(borsh_output a = Some bs \<and> borsh_output b = Some bs \<longrightarrow> a = b) \<and> (borsh_output a = None \<longleftrightarrow> \<not> fits_output a)"
  using borsh_output_inject [of a bs b] by (auto simp: borsh_output_def)

end
