(* ===== verification/SolanaConvert.thy ===== *)
theory SolanaConvert
  imports SolanaUnknown SolanaWire Lint
begin

text \<open>
  \<^verbatim>\<open>core/instructions.rs\<close>, \<^verbatim>\<open>core/txtypes/v0.rs\<close> and the converter of \<^verbatim>\<open>core/visualsign.rs\<close> of the Solana crate: from the
  request's text to the payload and its intermediate output. \<open>diag\<close> is the Cargo feature \<^verbatim>\<open>diagnostics\<close>; where the source
  has two bodies for one function there are two definitions. Base64, bincode, the SDK's message serializer and
  \<^verbatim>\<open>solana_parser\<close>'s \<^verbatim>\<open>parse_transaction\<close> are the record \<open>TxLibs\<close>. The SDK's transactions are the records of what is read.
\<close>

section \<open>Transactions\<close>

record 'k SolMessage = "'k Message" +
  message_instructions :: "CompiledInstruction list"

record 'k AddressTableLookup =
  lookup_account_key :: 'k
  writable_indexes :: "byte list"
  readonly_indexes :: "byte list"

record 'k V0Message = "'k SolMessage" +
  address_table_lookups :: "'k AddressTableLookup list"

record 'k SolanaTransaction =
  signatures :: "bytes list"
  message :: "'k SolMessage"

datatype 'k VersionedMessage = MsgLegacy "'k SolMessage" | MsgV0 "'k V0Message"

record 'k VersionedTransaction =
  versioned_signatures :: "bytes list"
  versioned_message :: "'k VersionedMessage"

datatype 'k SolanaTransactionWrapper = Legacy "'k SolanaTransaction" | Versioned "'k VersionedTransaction"

record 'k TxLibs =
  tl_base64_decode :: "string \<Rightarrow> (string, bytes) result"
  bincode_versioned :: "bytes \<Rightarrow> (string, 'k VersionedTransaction) result"
  bincode_legacy :: "bytes \<Rightarrow> (string, 'k SolanaTransaction) result"
  bincode_serialize :: "'k VersionedTransaction \<Rightarrow> (string, bytes) result"
  serialize_message :: "'k SolMessage \<Rightarrow> bytes"
  serialize_versioned :: "'k VersionedMessage \<Rightarrow> bytes"
  parse_transaction :: "string \<Rightarrow> bool \<Rightarrow> (string \<times> string \<times> bool) list option \<Rightarrow> (string, ParserMetadata option option) result"

definition TRANSACTION_V1_VERSION_BYTE :: byte where
  "TRANSACTION_V1_VERSION_BYTE = 0x81"

definition sol_from_string :: "('k, 'i) SolanaLibs \<Rightarrow> 'k TxLibs \<Rightarrow> string \<Rightarrow> (TransactionParseError, 'k SolanaTransactionWrapper) result" where
  "sol_from_string libs txl data =
     and_then (case detect data of
                 Base64 \<Rightarrow> map_err TxDecodeError (tl_base64_decode txl data)
               | Hex \<Rightarrow> map_err TxDecodeError (decode_hex (sl_hex_decode libs) data)) (\<lambda>bs.
     case bincode_versioned txl bs of
       Inr versioned_tx \<Rightarrow> Inr (Versioned versioned_tx)
     | Inl versioned_err \<Rightarrow>
         (case bincode_legacy txl bs of
            Inr legacy_tx \<Rightarrow> Inr (Legacy legacy_tx)
          | Inl _ \<Rightarrow>
              if slice_get bs 0 = Some TRANSACTION_V1_VERSION_BYTE
              then Inl (UnsupportedVersion (''Solana transaction format v1 (SIMD-0385) is not supported ''
                     @ ''(leading byte 0x81 matches the v1 version marker; decode error: '' @ versioned_err @ '')''))
              else Inl (TxDecodeError versioned_err)))"

fun transaction_type :: "'k SolanaTransactionWrapper \<Rightarrow> string" where
  "transaction_type (Legacy _) = ''Solana (Legacy)''"
| "transaction_type (Versioned tx) =
     (case versioned_message tx of MsgLegacy _ \<Rightarrow> ''Solana (Legacy)'' | MsgV0 _ \<Rightarrow> ''Solana (V0)'')"

section \<open>Instructions\<close>

record DecodeInstructionsResult =
  decoded_fields :: "AnnotatedPayloadField list"
  decode_errors :: "(nat \<times> VisualSignError) list"
  decode_diagnostics :: "AnnotatedPayloadField list"

text \<open>The context of instruction \<open>i\<close>, with the fee payer as its sender.\<close>

definition instruction_context ::
  "('k, 'i) SolanaLibs \<Rightarrow> 'k list \<Rightarrow> 'i IdlRegistry \<Rightarrow> nat \<Rightarrow> CompiledInstruction \<Rightarrow> ('k, 'i) VisualizerContext" where
  "instruction_context libs ks reg i ci =
     context_new \<lparr>pa_account_key = show_key libs (ks ! 0), pa_signer = False, pa_writable = False\<rparr> ci ks reg i"

definition no_visualizer :: "nat \<Rightarrow> VisualSignError" where
  "no_visualizer i = DecodeError (''No visualizer available for instruction at index '' @ nat_str i)"

text \<open>The loop over the instructions from index \<open>i\<close>, as both builds have it.\<close>

fun visualize_all ::
  "('k, 'i) SolanaLibs \<Rightarrow> ('k, 'i) Visualizer list \<Rightarrow> 'k list \<Rightarrow> 'i IdlRegistry \<Rightarrow> nat \<Rightarrow> CompiledInstruction list
    \<Rightarrow> AnnotatedPayloadField list \<times> (nat \<times> VisualSignError) list" where
  "visualize_all libs vs ks reg i [] = ([], [])"
| "visualize_all libs vs ks reg i (ci # cis) =
     (let (fs, errs) = visualize_all libs vs ks reg (i + 1) cis
      in case visualize_with_any vs (instruction_context libs ks reg i ci) of
           Some (Inr viz_result) \<Rightarrow> (result_field viz_result # fs, errs)
         | Some (Inl e) \<Rightarrow> (fs, (i, e) # errs)
         | None \<Rightarrow> (fs, (i, no_visualizer i) # errs))"

fun visualize_strict ::
  "('k, 'i) SolanaLibs \<Rightarrow> ('k, 'i) Visualizer list \<Rightarrow> 'k list \<Rightarrow> 'i IdlRegistry \<Rightarrow> nat \<Rightarrow> CompiledInstruction list
    \<Rightarrow> (VisualSignError, AnnotatedPayloadField list) result" where
  "visualize_strict libs vs ks reg i [] = Inr []"
| "visualize_strict libs vs ks reg i (ci # cis) =
     (case visualize_with_any vs (instruction_context libs ks reg i ci) of
        Some (Inr viz_result) \<Rightarrow>
          and_then (visualize_strict libs vs ks reg (i + 1) cis) (\<lambda>fs. Inr (result_field viz_result # fs))
      | Some (Inl e) \<Rightarrow> Inl (DecodeError (''instruction '' @ nat_str i @ '': '' @ display_error e))
      | None \<Rightarrow> Inl (no_visualizer i))"

text \<open>\<^verbatim>\<open>{:?}\<close> of a byte vector.\<close>

definition debug_bytes :: "byte list \<Rightarrow> string" where
  "debug_bytes bs = ''['' @ join '', '' (map (\<lambda>b. nat_str (unat b)) bs) @ '']''"

definition oob_program_id_rule :: string where
  "oob_program_id_rule = ''transaction::oob_program_id''"

definition oob_account_index_rule :: string where
  "oob_account_index_rule = ''transaction::oob_account_index''"

definition oob_accounts :: "nat \<Rightarrow> CompiledInstruction \<Rightarrow> byte list" where
  "oob_accounts n_keys ci = filter (\<lambda>idx. unat idx \<ge> n_keys) (instruction_accounts ci)"

definition scan_instruction :: "LintConfig \<Rightarrow> nat \<Rightarrow> nat \<Rightarrow> CompiledInstruction \<Rightarrow> AnnotatedPayloadField list" where
  "scan_instruction lint_config n_keys ci_index ci =
     (let pid_severity = severity_for lint_config oob_program_id_rule SevWarn;
          acct_severity = severity_for lint_config oob_account_index_rule SevWarn
      in (if unat (program_id_index ci) \<ge> n_keys \<and> pid_severity \<noteq> SevAllow
          then [create_diagnostic_field oob_program_id_rule ''transaction'' pid_severity
                  (''instruction '' @ nat_str ci_index @ '': program_id_index '' @ nat_str (unat (program_id_index ci))
                    @ '' out of bounds ('' @ nat_str n_keys @ '' account keys)'') (Some (of_nat ci_index))]
          else [])
        @ (if oob_accounts n_keys ci \<noteq> [] \<and> acct_severity \<noteq> SevAllow
           then [create_diagnostic_field oob_account_index_rule ''transaction'' acct_severity
                   (''instruction '' @ nat_str ci_index @ '': account indices '' @ debug_bytes (oob_accounts n_keys ci)
                     @ '' out of bounds ('' @ nat_str n_keys @ '' account keys)'') (Some (of_nat ci_index))]
           else []))"

definition scan_instruction_diagnostics ::
  "CompiledInstruction list \<Rightarrow> 'k list \<Rightarrow> LintConfig \<Rightarrow> AnnotatedPayloadField list" where
  "scan_instruction_diagnostics cis ks lint_config =
     (let n_keys = length ks;
          oob_program_id_count = length (filter (\<lambda>ci. unat (program_id_index ci) \<ge> n_keys) cis);
          oob_account_index_count = length (filter (\<lambda>ci. oob_accounts n_keys ci \<noteq> []) cis)
      in concat (map (\<lambda>(i, ci). scan_instruction lint_config n_keys i ci) (enumerate 0 cis))
        @ (if oob_program_id_count = 0 \<and> should_report_ok lint_config oob_program_id_rule
           then [create_diagnostic_field oob_program_id_rule ''transaction'' SevOk
                   (''all '' @ nat_str (length cis) @ '' instructions have valid program_id_index'') None]
           else [])
        @ (if oob_account_index_count = 0 \<and> should_report_ok lint_config oob_account_index_rule
           then [create_diagnostic_field oob_account_index_rule ''transaction'' SevOk
                   (''all '' @ nat_str (length cis) @ '' instructions have valid account indices'') None]
           else []))"

text \<open>The bodies of \<^verbatim>\<open>decode_instructions\<close> and \<^verbatim>\<open>decode_v0_instructions\<close>; \<open>what\<close> is \<^verbatim>\<open>legacy\<close> or \<^verbatim>\<open>v0\<close> in the message.\<close>

definition decode_diagnosed ::
  "string \<Rightarrow> ('k, 'i) SolanaLibs \<Rightarrow> ('k, 'i) Visualizer list \<Rightarrow> 'k list \<Rightarrow> CompiledInstruction list \<Rightarrow> 'i IdlRegistry \<Rightarrow> LintConfig
    \<Rightarrow> DecodeInstructionsResult" where
  "decode_diagnosed what libs vs ks cis reg lint_config =
     (if ks = []
      then (let severity = severity_for lint_config ''transaction::empty_account_keys'' SevError
            in \<lparr>decoded_fields = [], decode_errors = [],
                decode_diagnostics =
                  (if severity = SevAllow then []
                   else [create_diagnostic_field ''transaction::empty_account_keys'' ''transaction'' severity
                           (what @ '' transaction has no account keys'') None])\<rparr>)
      else (let (fs, errs) = visualize_all libs vs ks reg 0 cis
            in \<lparr>decoded_fields = fs, decode_errors = errs,
                decode_diagnostics = scan_instruction_diagnostics cis ks lint_config\<rparr>))"

definition decode_strict ::
  "string \<Rightarrow> ('k, 'i) SolanaLibs \<Rightarrow> ('k, 'i) Visualizer list \<Rightarrow> 'k list \<Rightarrow> CompiledInstruction list \<Rightarrow> 'i IdlRegistry
    \<Rightarrow> (VisualSignError, AnnotatedPayloadField list) result" where
  "decode_strict what libs vs ks cis reg =
     (if ks = [] then Inl (DecodeError (what @ '' transaction has no account keys''))
      else visualize_strict libs vs ks reg 0 cis)"

definition decode_instructions ::
  "('k, 'i) SolanaLibs \<Rightarrow> ('k, 'i) Visualizer list \<Rightarrow> 'k SolanaTransaction \<Rightarrow> 'i IdlRegistry \<Rightarrow> LintConfig \<Rightarrow> DecodeInstructionsResult" where
  "decode_instructions libs vs transaction reg lint_config =
     decode_diagnosed ''legacy'' libs vs (account_keys (message transaction)) (message_instructions (message transaction)) reg lint_config"

definition decode_instructions_off ::
  "('k, 'i) SolanaLibs \<Rightarrow> ('k, 'i) Visualizer list \<Rightarrow> 'k SolanaTransaction \<Rightarrow> 'i IdlRegistry
    \<Rightarrow> (VisualSignError, AnnotatedPayloadField list) result" where
  "decode_instructions_off libs vs transaction reg =
     decode_strict ''legacy'' libs vs (account_keys (message transaction)) (message_instructions (message transaction)) reg"

definition decode_v0_instructions ::
  "('k, 'i) SolanaLibs \<Rightarrow> ('k, 'i) Visualizer list \<Rightarrow> 'k V0Message \<Rightarrow> 'i IdlRegistry \<Rightarrow> LintConfig \<Rightarrow> DecodeInstructionsResult" where
  "decode_v0_instructions libs vs v0_message reg lint_config =
     decode_diagnosed ''v0'' libs vs (account_keys v0_message) (message_instructions v0_message) reg lint_config"

definition decode_v0_instructions_off ::
  "('k, 'i) SolanaLibs \<Rightarrow> ('k, 'i) Visualizer list \<Rightarrow> 'k V0Message \<Rightarrow> 'i IdlRegistry
    \<Rightarrow> (VisualSignError, AnnotatedPayloadField list) result" where
  "decode_v0_instructions_off libs vs v0_message reg =
     decode_strict ''v0'' libs vs (account_keys v0_message) (message_instructions v0_message) reg"

section \<open>Transfers\<close>

text \<open>\<^verbatim>\<open>{:?}\<close> of an optional string. The texts shown so are the library's key and number texts, which are ASCII; bytes
  above 127 stay as they are.\<close>

definition debug_char :: "char \<Rightarrow> string" where
  "debug_char c =
     (if code c = 0 then [CHR 0x5C, CHR ''0''] else if code c = 9 then [CHR 0x5C, CHR ''t'']
      else if code c = 10 then [CHR 0x5C, CHR ''n''] else if code c = 13 then [CHR 0x5C, CHR ''r'']
      else if code c = 34 then [CHR 0x5C, CHR 0x22] else if code c = 92 then [CHR 0x5C, CHR 0x5C]
      else if code c < 16 then [CHR 0x5C, CHR ''u'', CHR 0x7B, digit_char (code c), CHR 0x7D]
      else if code c < 32 \<or> code c = 127 then [CHR 0x5C, CHR ''u'', CHR 0x7B] @ hex_byte (code c) @ [CHR 0x7D]
      else [c])"

definition debug_option :: "string option \<Rightarrow> string" where
  "debug_option x = (case x of None \<Rightarrow> ''None'' | Some s \<Rightarrow> ''Some('' @ [CHR 0x22] @ concat (map debug_char s) @ [CHR 0x22] @ '')'')"

definition titled_text_field :: "string \<Rightarrow> string \<Rightarrow> string \<Rightarrow> AnnotatedPayloadField" where
  "titled_text_field lbl fallback t = Annotated (TextV2 \<lparr>fallback_text = fallback, label = lbl\<rparr> \<lparr>text_v2_text = t\<rparr>) None None"

definition transfer_field :: "nat \<times> SolTransfer \<Rightarrow> AnnotatedPayloadField" where
  "transfer_field e =
     (case e of (i, t) \<Rightarrow>
        titled_text_field (''Transfer '' @ nat_str (i + 1))
          (''Transfer '' @ nat_str (i + 1) @ '': From '' @ st_from t @ '' To '' @ st_to t @ '' For '' @ st_amount t)
          (''From: '' @ st_from t @ [CHR 0x0A] @ ''To: '' @ st_to t @ [CHR 0x0A] @ ''Amount: '' @ st_amount t))"

definition spl_transfer_field :: "string \<Rightarrow> nat \<times> SplTransfer \<Rightarrow> AnnotatedPayloadField" where
  "spl_transfer_field lbl e =
     (case e of (i, t) \<Rightarrow>
        titled_text_field (lbl @ nat_str (i + 1))
          (''SPL Transfer '' @ nat_str (i + 1) @ '': From '' @ spl_from t @ '' To '' @ spl_to t @ '' For '' @ spl_amount t)
          (''From: '' @ spl_from t @ [CHR 0x0A] @ ''To: '' @ spl_to t @ [CHR 0x0A] @ ''Owner: '' @ spl_owner t @ [CHR 0x0A]
            @ ''Amount: '' @ spl_amount t @ [CHR 0x0A] @ ''Mint: '' @ debug_option (spl_token_mint t) @ [CHR 0x0A]
            @ ''Decimals: '' @ debug_option (spl_decimals t) @ [CHR 0x0A] @ ''Fee: '' @ debug_option (spl_fee t)))"

definition transfer_fields :: "string \<Rightarrow> ParserMetadata option option \<Rightarrow> AnnotatedPayloadField list" where
  "transfer_fields spl_label payload =
     (case Option.bind payload (\<lambda>p. p) of
        None \<Rightarrow> []
      | Some meta \<Rightarrow> map transfer_field (enumerate 0 (pm_transfers meta))
          @ map (spl_transfer_field spl_label) (enumerate 0 (pm_spl_transfers meta)))"

definition sol_decode_transfers ::
  "('k, 'i) SolanaLibs \<Rightarrow> 'k TxLibs \<Rightarrow> 'k SolanaTransaction \<Rightarrow> (VisualSignError, AnnotatedPayloadField list) result" where
  "sol_decode_transfers libs txl transaction =
     and_then (map_err (\<lambda>e. ParseError (TxDecodeError (''Failed to parse transaction: '' @ e)))
       (parse_transaction txl (sl_hex_encode libs (serialize_message txl (message transaction))) False None))
       (\<lambda>payload. Inr (transfer_fields ''SPL Transfer '' payload))"

definition JUPITER_PROGRAM_ID :: string where
  "JUPITER_PROGRAM_ID = ''JUP6LkbZbjS1jKKwapdHNy74zcZ3tLUZoi5QNyVTaV4''"

definition decode_v0_transfers ::
  "('k, 'i) SolanaLibs \<Rightarrow> 'k TxLibs \<Rightarrow> (string \<Rightarrow> string) \<Rightarrow> 'k VersionedTransaction \<Rightarrow> (VisualSignError, AnnotatedPayloadField list) result" where
  "decode_v0_transfers libs txl embedded versioned_tx =
     and_then (map_err (\<lambda>e. ParseError (TxDecodeError (''Failed to serialize V0 transaction: '' @ e))) (bincode_serialize txl versioned_tx))
       (\<lambda>transaction_bytes.
     and_then (map_err (\<lambda>e. ParseError (TxDecodeError (''Failed to parse V0 transaction: '' @ e)))
       (parse_transaction txl (sl_hex_encode libs transaction_bytes) True
         (Some [(JUPITER_PROGRAM_ID, embedded ''../presets/jupiter_swap/jupiter_agg_v6.json'', True)])))
       (\<lambda>payload. Inr (transfer_fields ''V0 SPL Transfer '' payload)))"

section \<open>Address lookup tables\<close>

definition index_rows :: "bool \<Rightarrow> nat \<Rightarrow> string \<Rightarrow> string \<Rightarrow> byte list \<Rightarrow> AnnotatedPayloadField list" where
  "index_rows single i Kind kind_text idxs =
     (if idxs = [] then []
      else [titled_text_field (if single then Kind @ '' Accounts'' else ''Table '' @ nat_str (i + 1) @ '' '' @ Kind)
              (nat_str (length idxs) @ '' accounts'')
              (nat_str (length idxs) @ '' '' @ kind_text @ '' accounts (indices: '' @ debug_bytes idxs @ '')'')])"

definition lookup_rows :: "('k, 'i) SolanaLibs \<Rightarrow> bool \<Rightarrow> nat \<times> 'k AddressTableLookup \<Rightarrow> AnnotatedPayloadField list" where
  "lookup_rows libs single e =
     (case e of (i, table) \<Rightarrow>
        [plain_text_field (if single then ''Table Address'' else ''Table '' @ nat_str (i + 1) @ '' Address'')
           (show_key libs (lookup_account_key table))]
        @ index_rows single i ''Writable'' ''writable'' (writable_indexes table)
        @ index_rows single i ''Readonly'' ''readonly'' (readonly_indexes table))"

definition create_address_lookup_table_field ::
  "('k, 'i) SolanaLibs \<Rightarrow> 'k V0Message \<Rightarrow> (VisualSignError, SignablePayloadField) result" where
  "create_address_lookup_table_field libs v0_message =
     (let lookups = address_table_lookups v0_message; n = length lookups;
          fallback = join '', '' (map (\<lambda>l. show_key libs (lookup_account_key l)) lookups);
          expanded = plain_text_field ''Total Tables'' (nat_str n)
                       # concat (map (lookup_rows libs (n = 1)) (enumerate 0 lookups));
          condensed = plain_text_field ''Total Tables'' (nat_str n @ '' Tables'')
                       # map (\<lambda>l. plain_text_field ''Table'' (show_key libs (lookup_account_key l))) lookups
      in Inr (PreviewLayout \<lparr>fallback_text = fallback, label = ''Address Lookup Tables''\<rparr>
           (PreviewLayoutData (Some \<lparr>text_v2_text = ''Address Lookup Tables''\<rparr>)
              (Some \<lparr>text_v2_text = nat_str n @ '' table'' @ (if n = 1 then [] else ''s'')\<rparr>)
              (Some (ListLayoutData condensed)) (Some (ListLayoutData expanded)))))"

section \<open>Payloads\<close>

definition append_diagnostics :: "SignablePayloadField list \<Rightarrow> DecodeInstructionsResult \<Rightarrow> SignablePayloadField list" where
  "append_diagnostics fs r =
     fs
     @ map (\<lambda>(idx, err). signable_payload_field (create_diagnostic_field ''decode::visualizer_error'' ''decode'' SevError
              (''instruction '' @ nat_str idx @ '': '' @ display_error err) (Some (of_nat idx)))) (decode_errors r)
     @ map signable_payload_field (decode_diagnostics r)"

text \<open>What both builds pass on: the libraries, the visualizers, the environment variable and the embedded files.\<close>

record ('k, 'i, 'v) SolanaEnv =
  env_diagnostics :: bool
  env_libs :: "('k, 'i) SolanaLibs"
  env_tx :: "'k TxLibs"
  env_decode :: "'i DecodeLibs"
  env_ed :: "'v Ed25519"
  env_visualizers :: "('k, 'i) Visualizer list"
  env_idl_signers :: "string option"
  env_embedded :: "string \<Rightarrow> string"
  env_preserve_order :: bool

definition idl_registry_for :: "('k, 'i, 'v) SolanaEnv \<Rightarrow> VisualSignOptions \<Rightarrow> (VisualSignError, 'i IdlRegistry) result" where
  "idl_registry_for env options =
     create_idl_registry_from_options (env_libs env) (env_ed env) (env_visualizers env) (env_idl_signers env) options"

definition sol_convert_to_visual_sign_payload ::
  "('k, 'i, 'v) SolanaEnv \<Rightarrow> 'k SolanaTransaction \<Rightarrow> bool \<Rightarrow> string option \<Rightarrow> VisualSignOptions \<Rightarrow> LintConfig
    \<Rightarrow> (VisualSignError, SignablePayload) result" where
  "sol_convert_to_visual_sign_payload env transaction decode title options lint_config =
     and_then (idl_registry_for env options) (\<lambda>reg.
     and_then (if decode then sol_decode_transfers (env_libs env) (env_tx env) transaction else Inr []) (\<lambda>transfers.
     let decode_result = decode_instructions (env_libs env) (env_visualizers env) transaction reg lint_config in
     and_then (if env_diagnostics env then Inr (decoded_fields decode_result)
               else decode_instructions_off (env_libs env) (env_visualizers env) transaction reg) (\<lambda>decoded.
     and_then (decode_accounts (show_key (env_libs env)) (message transaction)) (\<lambda>accounts.
     and_then (create_accounts_advanced_preview_layout ''Accounts'' accounts) (\<lambda>preview_layout_advanced.
     let fs = [signable_payload_field (plain_text_field ''Network'' ''Solana'')] @ map signable_payload_field transfers
                    @ map signable_payload_field decoded @ [preview_layout_advanced]
     in Inr (payload_new 0 (unwrap_or ''Solana Transaction'' title) None
          (if env_diagnostics env then append_diagnostics fs decode_result else fs) ''SolanaTx''))))))"

definition convert_v0_to_visual_sign_payload ::
  "('k, 'i, 'v) SolanaEnv \<Rightarrow> 'k VersionedTransaction \<Rightarrow> 'k V0Message \<Rightarrow> bool \<Rightarrow> string option \<Rightarrow> VisualSignOptions \<Rightarrow> LintConfig
    \<Rightarrow> (VisualSignError, SignablePayload) result" where
  "convert_v0_to_visual_sign_payload env versioned_tx v0_message decode title options lint_config =
     and_then (idl_registry_for env options) (\<lambda>reg.
     and_then (decode_v0_accounts (show_key (env_libs env)) v0_message) (\<lambda>accounts.
     and_then (if address_table_lookups v0_message \<noteq> []
               then and_then (create_address_lookup_table_field (env_libs env) v0_message) (\<lambda>f. Inr [f])
               else Inr []) (\<lambda>tables.
     let v0_result = decode_v0_instructions (env_libs env) (env_visualizers env) v0_message reg lint_config;
         decoded =
           (if env_diagnostics env then map signable_payload_field (decoded_fields v0_result)
            else (case decode_v0_instructions_off (env_libs env) (env_visualizers env) v0_message reg of
                    Inr v0_fields \<Rightarrow> map signable_payload_field v0_fields
                  | Inl e \<Rightarrow> [signable_payload_field (plain_text_field ''Instruction Decoding Note''
                                (''Instruction decoding failed: '' @ display_error e))]));
         transfers =
           (if decode
            then (case decode_v0_transfers (env_libs env) (env_tx env) (env_embedded env) versioned_tx of
                    Inr transfer_fs \<Rightarrow> map signable_payload_field transfer_fs
                  | Inl e \<Rightarrow> [signable_payload_field (plain_text_field ''Transfer Decoding Note''
                                (''Transfer decoding failed: '' @ display_error e))])
            else [])
     in
     and_then (create_accounts_advanced_preview_layout ''Accounts'' accounts) (\<lambda>preview_layout_advanced.
     let fs = [signable_payload_field (plain_text_field ''Network'' ''Solana (V0)'')] @ tables @ decoded @ transfers
                    @ [preview_layout_advanced]
     in Inr (payload_new 0 (unwrap_or ''Solana V0 Transaction'' title) None
          (if env_diagnostics env then append_diagnostics fs v0_result else fs) ''SolanaTx'')))))"

definition convert_versioned_to_visual_sign_payload ::
  "('k, 'i, 'v) SolanaEnv \<Rightarrow> 'k VersionedTransaction \<Rightarrow> bool \<Rightarrow> string option \<Rightarrow> VisualSignOptions \<Rightarrow> LintConfig
    \<Rightarrow> (VisualSignError, SignablePayload) result" where
  "convert_versioned_to_visual_sign_payload env versioned_tx decode title options lint_config =
     (case versioned_message versioned_tx of
        MsgLegacy legacy_message \<Rightarrow>
          sol_convert_to_visual_sign_payload env \<lparr>signatures = versioned_signatures versioned_tx, message = legacy_message\<rparr>
            decode title options lint_config
      | MsgV0 v0_message \<Rightarrow> convert_v0_to_visual_sign_payload env versioned_tx v0_message decode title options lint_config)"

section \<open>The converter\<close>

definition extract_raw_simulated_instructions ::
  "('k, 'i, 'v) SolanaEnv \<Rightarrow> VisualSignOptions \<Rightarrow> 'i IdlRegistry
    \<Rightarrow> (SolanaSimulatedInstruction list \<times> SolanaSimulationError option) option" where
  "extract_raw_simulated_instructions env options reg =
     (case Option.bind (metadata options) chain_metadata_metadata of
        Some (SolanaMeta solana) \<Rightarrow>
          (case sol_simulated_transaction_result solana of
             None \<Rightarrow> None
           | Some raw_json_b64 \<Rightarrow>
               (case tl_base64_decode (env_tx env) raw_json_b64 of
                  Inl _ \<Rightarrow> Some ([], Some InvalidBase64)
                | Inr raw_json \<Rightarrow>
                    Some (parse_and_decode_simulated_instructions (env_preserve_order env) (env_libs env) (env_decode env)
                      (env_visualizers env) (env_embedded env) raw_json reg)))
      | _ \<Rightarrow> None)"

definition build_intermediate_bytes ::
  "('k, 'i, 'v) SolanaEnv \<Rightarrow> string \<Rightarrow> 'i IdlRegistry \<Rightarrow> (SolanaSimulatedInstruction list \<times> SolanaSimulationError option) option
    \<Rightarrow> bytes option" where
  "build_intermediate_bytes env message_hex reg raw_simulated =
     (case extract_solana_intermediate_output (env_preserve_order env) (env_libs env) (env_decode env) (env_visualizers env)
             (env_embedded env) message_hex False reg of
        Inl _ \<Rightarrow> None
      | Inr out \<Rightarrow>
          borsh_output (case raw_simulated of
                          Some (instructions, simulation_error) \<Rightarrow>
                            out\<lparr>out_simulated_instructions := instructions, out_simulation_error := simulation_error\<rparr>
                        | None \<Rightarrow> out))"

definition sol_to_visual_sign_payload ::
  "('k, 'i, 'v) SolanaEnv \<Rightarrow> 'k SolanaTransactionWrapper \<Rightarrow> VisualSignOptions \<Rightarrow> (VisualSignError, ConversionResult) result" where
  "sol_to_visual_sign_payload env wrapper options =
     and_then (case wrapper of
         Legacy transaction \<Rightarrow> sol_convert_to_visual_sign_payload env transaction (decode_transfers options)
           (transaction_name options) options lint_config_default
       | Versioned versioned_tx \<Rightarrow> convert_versioned_to_visual_sign_payload env versioned_tx (decode_transfers options)
           (transaction_name options) options lint_config_default) (\<lambda>payload.
     if \<not> include_intermediate_output options then Inr (conversion_new payload)
     else (let message_hex = (case wrapper of
                 Legacy transaction \<Rightarrow> sl_hex_encode (env_libs env) (serialize_message (env_tx env) (message transaction))
               | Versioned versioned_tx \<Rightarrow>
                   sl_hex_encode (env_libs env) (serialize_versioned (env_tx env) (versioned_message versioned_tx)))
           in and_then (idl_registry_for env options) (\<lambda>reg.
              Inr (case build_intermediate_bytes env message_hex reg (extract_raw_simulated_instructions env options reg) of
                     Some bs \<Rightarrow> with_intermediate payload bs
                   | None \<Rightarrow> conversion_new payload))))"

definition sol_converter :: "('k, 'i, 'v) SolanaEnv \<Rightarrow> 'k SolanaTransactionWrapper Converter" where
  "sol_converter env = \<lparr>from_string = sol_from_string (env_libs env) (env_tx env),
     to_visual_sign_payload = sol_to_visual_sign_payload env\<rparr>"

text \<open>The public functions; each keeps the payload only.\<close>

definition sol_transaction_to_visual_sign ::
  "('k, 'i, 'v) SolanaEnv \<Rightarrow> 'k SolanaTransaction \<Rightarrow> VisualSignOptions \<Rightarrow> (VisualSignError, SignablePayload) result" where
  "sol_transaction_to_visual_sign env transaction options =
     and_then (sol_to_visual_sign_payload env (Legacy transaction) options) (\<lambda>r. Inr (result_payload r))"

definition versioned_transaction_to_visual_sign ::
  "('k, 'i, 'v) SolanaEnv \<Rightarrow> 'k VersionedTransaction \<Rightarrow> VisualSignOptions \<Rightarrow> (VisualSignError, SignablePayload) result" where
  "versioned_transaction_to_visual_sign env transaction options =
     and_then (sol_to_visual_sign_payload env (Versioned transaction) options) (\<lambda>r. Inr (result_payload r))"

definition sol_transaction_string_to_visual_sign ::
  "(completeness_error \<Rightarrow> string) \<Rightarrow> ('k, 'i, 'v) SolanaEnv \<Rightarrow> string \<Rightarrow> VisualSignOptions \<Rightarrow> (VisualSignError, SignablePayload) result" where
  "sol_transaction_string_to_visual_sign describe env data options =
     and_then (to_visual_sign_payload_from_string (env_preserve_order env) describe (sol_converter env) data options)
       (\<lambda>r. Inr (result_payload r))"

end
