(* ===== verification/SolanaPayload.thy ===== *)
theory SolanaPayload
  imports SolanaConvert
begin

text \<open>
  Facts on Solana payloads: every instruction is shown or its failure is reported, the two builds agree, the intermediate
  output never changes what is shown, and which texts are read as which transaction.
\<close>

section \<open>Instructions\<close>

text \<open>What the loop learns about instruction \<open>i\<close>.\<close>

definition outcome ::
  "('k, 'i) SolanaLibs \<Rightarrow> ('k, 'i) Visualizer list \<Rightarrow> 'k list \<Rightarrow> 'i IdlRegistry \<Rightarrow> nat \<Rightarrow> CompiledInstruction
    \<Rightarrow> (VisualSignError, AnnotatedPayloadField) result" where
  "outcome libs vs ks reg i ci =
     (case visualize_with_any vs (instruction_context libs ks reg i ci) of
        Some r \<Rightarrow> and_then r (\<lambda>v. Inr (result_field v))
      | None \<Rightarrow> Inl (no_visualizer i))"

lemma visualize_all_Cons:
  "visualize_all libs vs ks reg i (ci # cis) =
     (case outcome libs vs ks reg i ci of
        Inr f \<Rightarrow> (f # fst (visualize_all libs vs ks reg (i + 1) cis), snd (visualize_all libs vs ks reg (i + 1) cis))
      | Inl e \<Rightarrow> (fst (visualize_all libs vs ks reg (i + 1) cis), (i, e) # snd (visualize_all libs vs ks reg (i + 1) cis)))"
  by (simp add: outcome_def case_prod_unfold Let_def split: option.split sum.split)

lemma visualize_all_count:
  "length (fst (visualize_all libs vs ks reg i cis)) + length (snd (visualize_all libs vs ks reg i cis)) = length cis"
  by (induction cis arbitrary: i) (simp_all add: visualize_all_Cons del: visualize_all.simps(2) split: sum.split)

lemma visualize_all_errors:
  "(j, e) \<in> set (snd (visualize_all libs vs ks reg i cis)) \<longleftrightarrow>
     i \<le> j \<and> j < i + length cis \<and> outcome libs vs ks reg j (cis ! (j - i)) = Inl e"
proof (induction cis arbitrary: i)
  case (Cons ci cis)
  have "(j, e) \<in> set (snd (visualize_all libs vs ks reg i (ci # cis))) \<longleftrightarrow>
      j = i \<and> outcome libs vs ks reg i ci = Inl e \<or> (j, e) \<in> set (snd (visualize_all libs vs ks reg (i + 1) cis))"
    by (auto simp: visualize_all_Cons simp del: visualize_all.simps(2) split: sum.splits)
  also have "\<dots> \<longleftrightarrow> i \<le> j \<and> j < i + length (ci # cis) \<and> outcome libs vs ks reg j ((ci # cis) ! (j - i)) = Inl e"
    unfolding Cons.IH by (cases "j = i") (auto simp: nth_Cons')
  finally show ?case .
qed simp

lemma visualize_strict_Cons:
  "visualize_strict libs vs ks reg i (ci # cis) = Inr fs \<longleftrightarrow>
     (\<exists>f gs. outcome libs vs ks reg i ci = Inr f \<and> visualize_strict libs vs ks reg (i + 1) cis = Inr gs \<and> fs = f # gs)"
  by (auto simp: outcome_def and_then_Inr_iff split: option.split sum.split)

text \<open>The build without diagnostics succeeds exactly when the other has no errors, with the same fields.\<close>

lemma visualize_strict_iff:
  "visualize_strict libs vs ks reg i cis = Inr fs \<longleftrightarrow> visualize_all libs vs ks reg i cis = (fs, [])"
proof (induction cis arbitrary: i fs)
  case (Cons ci cis)
  show ?case
    unfolding visualize_strict_Cons visualize_all_Cons Cons.IH by (auto simp: prod_eq_iff split: sum.split)
qed auto

lemma decode_agrees:
  "ks \<noteq> [] \<Longrightarrow> decode_strict what libs vs ks cis reg = Inr fs \<longleftrightarrow>
     decode_errors (decode_diagnosed what libs vs ks cis reg lint) = []
     \<and> decoded_fields (decode_diagnosed what libs vs ks cis reg lint) = fs"
  by (auto simp: decode_strict_def decode_diagnosed_def visualize_strict_iff case_prod_unfold prod_eq_iff Let_def)

text \<open>With the catch-all at the end, an instruction fails only when a preset has claimed it and failed on it.\<close>

lemma outcome_error:
  assumes "outcome libs (map snd presets @ [unknown_program_visualizer libs]) ks reg i ci = Inl e"
  shows "\<exists>v \<in> snd ` set presets. can_handle v (instruction_context libs ks reg i ci)
           \<and> visualize_tx_commands v (instruction_context libs ks reg i ci) = Inl e"
proof -
  let ?ctx = "instruction_context libs ks reg i ci" and ?vs = "map snd presets @ [unknown_program_visualizer libs]"
  obtain us v ws where vs: "?vs = us @ v # ws" and v: "can_handle v ?ctx"
    and run: "visualize_with_any ?vs ?ctx =
      Some (and_then (visualize_tx_commands v ?ctx) (\<lambda>f. Inr \<lparr>result_field = f, result_kind = kind v\<rparr>))"
    using solana_chain.first_handler [of presets libs ?ctx] by blast
  from assms have e: "visualize_tx_commands v ?ctx = Inl e"
    unfolding outcome_def run by (auto simp: and_then_Inl_iff)
  have "v \<in> set ?vs" unfolding vs by simp
  moreover have "v \<noteq> unknown_program_visualizer libs"
    using e unknown_visualize_total [of libs ?ctx] by (auto simp: unknown_program_visualizer_def)
  ultimately show ?thesis using v e by auto
qed

lemma decode_diagnosed_accounted:
  assumes "''unknown_program'' \<notin> fst ` set (before @ after)" and "ks \<noteq> []"
    and r: "r = decode_diagnosed what libs (available_visualizers libs before after) ks cis reg lint"
  shows "length (decoded_fields r) + length (decode_errors r) = length cis"
    and "(i, e) \<in> set (decode_errors r) \<Longrightarrow> i < length cis \<and> (\<exists>v \<in> snd ` set (before @ after).
           can_handle v (instruction_context libs ks reg i (cis ! i))
           \<and> visualize_tx_commands v (instruction_context libs ks reg i (cis ! i)) = Inl e)"
proof -
  show "length (decoded_fields r) + length (decode_errors r) = length cis"
    using assms(2) by (simp add: r decode_diagnosed_def case_prod_unfold visualize_all_count Let_def)
  assume "(i, e) \<in> set (decode_errors r)"
  then have "i < length cis" and o: "outcome libs (map snd (before @ after) @ [unknown_program_visualizer libs]) ks reg i (cis ! i) = Inl e"
    using assms(2) by (simp_all add: r decode_diagnosed_def case_prod_unfold visualize_all_errors available_visualizers_eq [OF assms(1)] Let_def)
  then show "i < length cis \<and> (\<exists>v \<in> snd ` set (before @ after).
      can_handle v (instruction_context libs ks reg i (cis ! i))
      \<and> visualize_tx_commands v (instruction_context libs ks reg i (cis ! i)) = Inl e)"
    by (intro conjI outcome_error)
qed


definition good_results :: "('e, 'a) result list \<Rightarrow> 'a list" where
  "good_results rs = List.map_filter (\<lambda>r. case r of Inr a \<Rightarrow> Some a | Inl _ \<Rightarrow> None) rs"

definition bad_results :: "nat \<Rightarrow> ('e, 'a) result list \<Rightarrow> (nat \<times> 'e) list" where
  "bad_results i rs = List.map_filter (\<lambda>(j, r). case r of Inr _ \<Rightarrow> None | Inl e \<Rightarrow> Some (j, e)) (enumerate i rs)"



lemma results_simps [simp]:
  "good_results [] = []" "good_results (Inr a # rs) = a # good_results rs" "good_results (Inl e # rs) = good_results rs"
  "bad_results i [] = []" "bad_results i (Inr a # rs) = bad_results (Suc i) rs"
  "bad_results i (Inl e # rs) = (i, e) # bad_results (Suc i) rs"
  by (simp_all add: good_results_def bad_results_def map_filter_simps)






text \<open>Without presets nothing fails.\<close>

lemma decode_strict_catch_all:
  assumes "ks \<noteq> []"
  shows "\<exists>fs. decode_strict what libs (available_visualizers libs [] []) ks cis reg = Inr fs"
proof -
  have "decode_errors (decode_diagnosed what libs (available_visualizers libs [] []) ks cis reg lint_config_default) = []"
    using decode_diagnosed_accounted(2) [of "[]" "[]" ks _ what libs cis reg lint_config_default] assms
    by (cases "decode_errors (decode_diagnosed what libs (available_visualizers libs [] []) ks cis reg lint_config_default)") fastforce+
  then show ?thesis using decode_agrees [OF assms, THEN iffD2] by blast
qed

section \<open>Payloads\<close>

lemma and_then_split: "P (and_then r f) \<longleftrightarrow> (\<forall>e. r = Inl e \<longrightarrow> P (Inl e)) \<and> (\<forall>a. r = Inr a \<longrightarrow> P (f a))"
  by (cases r) auto

lemma idl_registry_for_ok: "\<exists>reg. idl_registry_for env options = Inr reg"
  using create_idl_registry_ok unfolding idl_registry_for_def by blast

lemma idl_registry_for_include: "idl_registry_for env (options\<lparr>include_intermediate_output := b\<rparr>) = idl_registry_for env options"
  by (simp add: idl_registry_for_def create_idl_registry_from_options_def extract_idl_mappings_def extract_with_signers_eq
      caller_idls_def)

lemma payload_include:
  "sol_convert_to_visual_sign_payload env tx d t (options\<lparr>include_intermediate_output := b\<rparr>) lint =
     sol_convert_to_visual_sign_payload env tx d t options lint"
  "convert_versioned_to_visual_sign_payload env vtx d t (options\<lparr>include_intermediate_output := b\<rparr>) lint =
     convert_versioned_to_visual_sign_payload env vtx d t options lint"
  by (simp_all add: sol_convert_to_visual_sign_payload_def convert_versioned_to_visual_sign_payload_def
      convert_v0_to_visual_sign_payload_def idl_registry_for_include split: VersionedMessage.split)

definition network_row :: "'k SolanaTransactionWrapper \<Rightarrow> SignablePayloadField" where
  "network_row w =
     (let t = (case w of
         Versioned tx \<Rightarrow> (case versioned_message tx of MsgV0 _ \<Rightarrow> ''Solana (V0)'' | MsgLegacy _ \<Rightarrow> ''Solana'')
       | Legacy _ \<Rightarrow> ''Solana'')
      in TextV2 \<lparr>fallback_text = t, label = ''Network''\<rparr> \<lparr>text_v2_text = t\<rparr>)"

lemma hd_append_diagnostics: "fs \<noteq> [] \<Longrightarrow> hd (append_diagnostics fs r) = hd fs"
  by (simp add: append_diagnostics_def)

lemma legacy_network:
  "sol_convert_to_visual_sign_payload env tx d t options lint = Inr p \<Longrightarrow>
     hd (payload_fields p) = signable_payload_field (plain_text_field ''Network'' ''Solana'')"
  unfolding sol_convert_to_visual_sign_payload_def
  by (auto simp: and_then_Inr_iff payload_new_def hd_append_diagnostics Let_def)

lemma v0_network:
  "convert_v0_to_visual_sign_payload env vtx m d t options lint = Inr p \<Longrightarrow>
     hd (payload_fields p) = signable_payload_field (plain_text_field ''Network'' ''Solana (V0)'')"
  unfolding convert_v0_to_visual_sign_payload_def Let_def
  by (cases "env_diagnostics env") (auto simp: and_then_Inr_iff payload_new_def hd_append_diagnostics)

lemma sol_payload_network:
  assumes "sol_to_visual_sign_payload env w options = Inr r"
  shows "hd (payload_fields (result_payload r)) = network_row w"
proof -
  obtain p where p: "(case w of
         Legacy transaction \<Rightarrow> sol_convert_to_visual_sign_payload env transaction (decode_transfers options)
           (transaction_name options) options lint_config_default
       | Versioned versioned_tx \<Rightarrow> convert_versioned_to_visual_sign_payload env versioned_tx (decode_transfers options)
           (transaction_name options) options lint_config_default) = Inr p" "result_payload r = p"
    using assms
    by (auto simp: sol_to_visual_sign_payload_def and_then_Inr_iff conversion_new_def with_intermediate_def Let_def
        split: if_splits option.splits)
  then show ?thesis
    by (auto simp: Let_def network_row_def convert_versioned_to_visual_sign_payload_def plain_text_field_def
        split: SolanaTransactionWrapper.splits VersionedMessage.splits dest!: legacy_network v0_network)
qed

text \<open>The message of a transaction as the bytes that are signed on chain.\<close>

definition message_bytes :: "'k TxLibs \<Rightarrow> 'k SolanaTransactionWrapper \<Rightarrow> bytes" where
  "message_bytes txl w =
     (case w of Legacy t \<Rightarrow> serialize_message txl (message t) | Versioned t \<Rightarrow> serialize_versioned txl (versioned_message t))"

text \<open>The intermediate output of a transaction under the options: what is decoded from its own message with the request's
  IDLs, with the request's simulation if it has one.\<close>

definition intermediate_of ::
  "('k, 'i, 'v) SolanaEnv \<Rightarrow> 'k SolanaTransactionWrapper \<Rightarrow> VisualSignOptions \<Rightarrow> SolanaIntermediateOutput \<Rightarrow> bool" where
  "intermediate_of env w options out \<longleftrightarrow>
     (\<exists>reg base. idl_registry_for env options = Inr reg
       \<and> extract_solana_intermediate_output (env_preserve_order env) (env_libs env) (env_decode env) (env_visualizers env)
           (env_embedded env) (sl_hex_encode (env_libs env) (message_bytes (env_tx env) w)) False reg = Inr base
       \<and> out = (case extract_raw_simulated_instructions env options reg of
            None \<Rightarrow> base
          | Some (ixs, err) \<Rightarrow> base\<lparr>out_simulated_instructions := ixs, out_simulation_error := err\<rparr>))"

lemma sol_intermediate_exact:
  assumes "sol_to_visual_sign_payload env w options = Inr r"
  shows "result_intermediate_output r = Some bs \<longleftrightarrow>
    include_intermediate_output options \<and> (\<exists>out. intermediate_of env w options out \<and> borsh_output out = Some bs)"
proof -
  obtain reg where reg: "idl_registry_for env options = Inr reg" using idl_registry_for_ok by blast
  let ?hex = "sl_hex_encode (env_libs env) (message_bytes (env_tx env) w)"
  let ?sims = "extract_raw_simulated_instructions env options reg"
  have "build_intermediate_bytes env ?hex reg ?sims = Some bs \<longleftrightarrow>
      (\<exists>out. intermediate_of env w options out \<and> borsh_output out = Some bs)"
    by (auto simp: build_intermediate_bytes_def intermediate_of_def reg split: sum.split option.split)
  moreover have "?hex = (case w of
      Legacy transaction \<Rightarrow> sl_hex_encode (env_libs env) (serialize_message (env_tx env) (message transaction))
    | Versioned versioned_tx \<Rightarrow> sl_hex_encode (env_libs env) (serialize_versioned (env_tx env) (versioned_message versioned_tx)))"
    by (simp add: message_bytes_def split: SolanaTransactionWrapper.split)
  ultimately show ?thesis
    using assms reg
    by (auto simp: sol_to_visual_sign_payload_def and_then_Inr_iff conversion_new_def with_intermediate_def Let_def
        split: option.splits if_splits)
qed

lemma intermediate_version: "intermediate_of env w options out \<Longrightarrow> schema_version out = 2"
  by (auto simp: intermediate_of_def extract_solana_intermediate_output_def build_intermediate_output_def
      SOLANA_INTERMEDIATE_SCHEMA_VERSION_def and_then_Inr_iff Let_def split: option.splits)

lemma sol_intermediate_output:
  assumes "sol_to_visual_sign_payload env w options = Inr r"
  shows "result_intermediate_output r = None
    \<or> include_intermediate_output options \<and> (\<exists>out. borsh_output out = result_intermediate_output r \<and> schema_version out = 2)"
proof (cases "result_intermediate_output r")
  case (Some bs)
  with sol_intermediate_exact [OF assms, of bs] show ?thesis by (auto dest: intermediate_version)
qed simp

section \<open>An instance\<close>

definition sol_sample_message :: "string SolMessage" where
  "sol_sample_message = \<lparr>header = \<lparr>num_required_signatures = 1, num_readonly_signed_accounts = 0,
       num_readonly_unsigned_accounts = 0\<rparr>, account_keys = [sol_sample_pid],
     message_instructions = [\<lparr>program_id_index = 9, instruction_accounts = [7], instruction_data = [1]\<rparr>]\<rparr>"

definition sol_sample_tx :: "string SolanaTransaction" where
  "sol_sample_tx = \<lparr>signatures = [], message = sol_sample_message\<rparr>"

definition sol_sample_txlibs :: "string TxLibs" where
  "sol_sample_txlibs = \<lparr>tl_base64_decode = (\<lambda>_. Inr [0x81]), bincode_versioned = (\<lambda>_. Inl ''no''),
     bincode_legacy = (\<lambda>bs. if bs = [] then Inl ''no'' else if hd bs = 0x81 then Inl ''no'' else Inr sol_sample_tx),
     bincode_serialize = (\<lambda>_. Inr []), serialize_message = (\<lambda>_. []), serialize_versioned = (\<lambda>_. []),
     parse_transaction = (\<lambda>_ _ _. Inr None)\<rparr>"

definition sol_sample_env :: "(string, unit, bytes) SolanaEnv" where
  "sol_sample_env = \<lparr>env_diagnostics = False, env_libs = sol_sample_libs\<lparr>sl_hex_decode := \<lambda>_. Inr [0]\<rparr>, env_tx = sol_sample_txlibs,
     env_decode = sol_sample_decode, env_ed = sol_sample_ed,
     env_visualizers = available_visualizers (sol_sample_libs\<lparr>sl_hex_decode := \<lambda>_. Inr [0]\<rparr>) [] [], env_idl_signers = None,
     env_embedded = (\<lambda>p. p), env_preserve_order = True\<rparr>"

section \<open>Properties\<close>



text \<open>Asking for the intermediate output changes nothing of what is shown: the same inputs fail with the same error and
  show the same payload. Without the request there is none, and with it the bytes are the encoding of one output of the
  current schema version.\<close>

lemma intermediate_opt_in:
  "and_then (sol_to_visual_sign_payload env w (options\<lparr>include_intermediate_output := True\<rparr>)) (\<lambda>r. Inr (result_payload r)) =
     and_then (sol_to_visual_sign_payload env w (options\<lparr>include_intermediate_output := False\<rparr>)) (\<lambda>r. Inr (result_payload r))
   \<and> (\<forall>r. sol_to_visual_sign_payload env w (options\<lparr>include_intermediate_output := False\<rparr>) = Inr r \<longrightarrow>
        result_intermediate_output r = None)
   \<and> (\<forall>r bs. sol_to_visual_sign_payload env w (options\<lparr>include_intermediate_output := True\<rparr>) = Inr r
        \<and> result_intermediate_output r = Some bs \<longrightarrow> (\<exists>out. borsh_output out = Some bs \<and> schema_version out = 2))"
proof (intro conjI allI impI)
  obtain reg where reg: "idl_registry_for env options = Inr reg" using idl_registry_for_ok by blast
  note defs = sol_to_visual_sign_payload_def payload_include idl_registry_for_include reg
  show "and_then (sol_to_visual_sign_payload env w (options\<lparr>include_intermediate_output := True\<rparr>)) (\<lambda>r. Inr (result_payload r)) =
     and_then (sol_to_visual_sign_payload env w (options\<lparr>include_intermediate_output := False\<rparr>)) (\<lambda>r. Inr (result_payload r))"
    unfolding defs
    by (cases w) (auto simp: conversion_new_def with_intermediate_def Let_def split: option.split and_then_split)
  show "result_intermediate_output r = None"
    if "sol_to_visual_sign_payload env w (options\<lparr>include_intermediate_output := False\<rparr>) = Inr r" for r
    using sol_intermediate_output [OF that] by simp
  show "\<exists>out. borsh_output out = Some bs \<and> schema_version out = 2"
    if "sol_to_visual_sign_payload env w (options\<lparr>include_intermediate_output := True\<rparr>) = Inr r
      \<and> result_intermediate_output r = Some bs" for r bs
    using that sol_intermediate_output [of env w "options\<lparr>include_intermediate_output := True\<rparr>" r] by auto
qed

text \<open>What a text says: hexadecimal digits with an optional prefix are read as such, anything else as base64.\<close>

definition text_reads :: "('k, 'i) SolanaLibs \<Rightarrow> 'k TxLibs \<Rightarrow> string \<Rightarrow> (string, bytes) result \<Rightarrow> bool" where
  "text_reads libs txl data r \<longleftrightarrow>
     (if \<exists>h. list_all is_ascii_hexdigit h \<and> data \<in> {h, ''0x'' @ h, ''0X'' @ h}
      then \<exists>h. list_all is_ascii_hexdigit h \<and> data \<in> {h, ''0x'' @ h, ''0X'' @ h} \<and> r = sl_hex_decode libs h
      else r = tl_base64_decode txl data)"

lemma text_reads_eq:
  assumes "text_reads libs txl data r"
  shows "(case detect data of Base64 \<Rightarrow> map_err TxDecodeError (tl_base64_decode txl data)
    | Hex \<Rightarrow> map_err TxDecodeError (decode_hex (sl_hex_decode libs) data)) = map_err TxDecodeError r"
proof (cases "detect data")
  case Hex
  with assms obtain h where "list_all is_ascii_hexdigit h" "data \<in> {h, ''0x'' @ h, ''0X'' @ h}" "r = sl_hex_decode libs h"
    unfolding text_reads_def detect_Hex_iff by auto
  with Hex strip_hex_prefix_body [of h] show ?thesis by (auto simp: decode_hex_def simp del: append.simps)
next
  case Base64
  then have "detect data \<noteq> Hex" by simp
  with assms Base64 show ?thesis unfolding text_reads_def detect_Hex_iff by auto
qed

text \<open>C39: exactly which texts are read, as which transaction, and which error every other text gets. Hexadecimal text, with
  either prefix or none, and base64 text are told apart by their characters, and the decoder's error is returned for text
  that is neither. The bytes are read as the versioned transaction they encode, and as a legacy one exactly where that
  fails; bytes that are neither are an error with the versioned decoder's message, which is the report of the unsupported
  version 1 exactly when they start with its marker, so no readable transaction is refused for its first byte.\<close>

theorem solana_parse_exact:
  assumes "text_reads libs txl data r"
  shows "case r of
      Inl e \<Rightarrow> sol_from_string libs txl data = Inl (TxDecodeError e)
    | Inr bs \<Rightarrow>
        (\<forall>t. sol_from_string libs txl data = Inr (Versioned t) \<longleftrightarrow> bincode_versioned txl bs = Inr t)
        \<and> (\<forall>t. sol_from_string libs txl data = Inr (Legacy t) \<longleftrightarrow>
             \<not> is_ok (bincode_versioned txl bs) \<and> bincode_legacy txl bs = Inr t)
        \<and> (\<forall>err. sol_from_string libs txl data = Inl err \<longleftrightarrow>
             (\<exists>e. bincode_versioned txl bs = Inl e \<and> \<not> is_ok (bincode_legacy txl bs)
               \<and> err = (if \<exists>rest. bs = 0x81 # rest
                        then UnsupportedVersion (''Solana transaction format v1 (SIMD-0385) is not supported (leading byte 0x81 matches ''
                          @ ''the v1 version marker; decode error: '' @ e @ '')'')
                        else TxDecodeError e)))"
proof -
  have marker: "slice_get bs 0 = Some TRANSACTION_V1_VERSION_BYTE \<longleftrightarrow> (\<exists>rest. bs = 0x81 # rest)" for bs
    by (cases bs) (auto simp: slice_get_def TRANSACTION_V1_VERSION_BYTE_def)
  show ?thesis
  proof (cases r)
    case (Inr bs)
    then show ?thesis
      unfolding sol_from_string_def text_reads_eq [OF assms] marker
      by (cases "bincode_versioned txl bs"; cases "bincode_legacy txl bs") (auto simp: marker)
  qed (simp add: sol_from_string_def text_reads_eq [OF assms])
qed

theorem solana_parse_exact_witness:
  "sol_from_string sol_sample_libs sol_sample_txlibs ''gQ=='' =
     Inl (UnsupportedVersion (''Solana transaction format v1 (SIMD-0385) is not supported (leading byte 0x81 matches ''
       @ ''the v1 version marker; decode error: '' @ ''no'' @ '')''))"
proof -
  have "detect ''gQ=='' \<noteq> Hex" by code_simp
  then have "text_reads sol_sample_libs sol_sample_txlibs ''gQ=='' (Inr [0x81])"
    unfolding text_reads_def detect_Hex_iff by (auto simp: sol_sample_txlibs_def)
  from solana_parse_exact [OF this] show ?thesis by (simp add: sol_sample_txlibs_def)
qed

end
