(* ===== verification/SolanaPresets.thy ===== *)
theory SolanaPresets
  imports SolanaUnknown
begin

text \<open>
  The presets of the Solana crate that decode by an IDL embedded in the binary: \<^verbatim>\<open>presets/\<close> of Drift, Exponent Finance,
  DFlow, Marginfi, Jupiter Perpetuals, Borrow and Earn, Kamino Borrow, Farms, Limit and Vault, MetaDAO, Meteora, Neutral
  Trade, Onre and Orca, with the shared \<^verbatim>\<open>core/arg_rendering.rs\<close>. Presets whose files are copies of one another up to names
  are instances of one definition. An embedded file is looked up by its path, as in \<open>PRESET_IDL_ENTRIES\<close>; an error of
  \<^verbatim>\<open>solana_parser\<close> is its text.
\<close>

section \<open>Shared parts\<close>

text \<open>\<^verbatim>\<open>format_arg_value\<close> of most presets, and the one of \<^verbatim>\<open>core/arg_rendering.rs\<close>.\<close>

fun format_plain_value :: "json \<Rightarrow> string" where
  "format_plain_value (JString s) = s"
| "format_plain_value other = json_print other"

definition arg_charset_safe :: "string \<Rightarrow> string" where
  "arg_charset_safe t = filter (\<lambda>c. c = CHR '' '' \<or> is_ascii_graphic c \<and> c \<noteq> CHR 0x22 \<and> c \<noteq> CHR 0x5C) t"

fun json_as_byte :: "json \<Rightarrow> byte option" where
  "json_as_byte (JNumber n) = (if 0 \<le> n \<and> n \<le> 255 then Some (of_int n) else None)"
| "json_as_byte _ = None"

definition bytes_as_hex :: "(bytes \<Rightarrow> string) \<Rightarrow> json list \<Rightarrow> string option" where
  "bytes_as_hex enc items =
     (if items = [] then None
      else map_option (\<lambda>bs. ''0x'' @ enc bs) (those (map json_as_byte items)))"

fun format_arg_value :: "(bytes \<Rightarrow> string) \<Rightarrow> json \<Rightarrow> string" where
  "format_arg_value enc (JString s) = arg_charset_safe s"
| "format_arg_value enc (JNumber n) = int_str n"
| "format_arg_value enc (JBool b) = (if b then ''true'' else ''false'')"
| "format_arg_value enc JNull = ''null''"
| "format_arg_value enc (JArray items) =
     (case bytes_as_hex enc items of
        Some h \<Rightarrow> h
      | None \<Rightarrow> ''['' @ join '','' (map (format_arg_value enc) items) @ '']'')"
| "format_arg_value enc (JObject m) =
     ''{'' @ join '','' (map (\<lambda>(k, v). arg_charset_safe k @ '':'' @ format_arg_value enc v) m) @ ''}''"

text \<open>Rows of text fields: with \<^verbatim>\<open>?\<close>, with the error converted, and with failures left out.\<close>

definition text_fields :: "(string \<times> string) list \<Rightarrow> (VisualSignError, AnnotatedPayloadField list) result" where
  "text_fields rows = collect_results (map (\<lambda>(lbl, t). create_text_field lbl t) rows)"

definition converted_fields :: "(string \<times> string) list \<Rightarrow> (VisualSignError, AnnotatedPayloadField list) result" where
  "converted_fields rows =
     collect_results (map (\<lambda>(lbl, t). map_err (\<lambda>e. ConversionError (display_error e)) (create_text_field lbl t)) rows)"

definition built_fields :: "(string \<times> string) list \<Rightarrow> AnnotatedPayloadField list" where
  "built_fields rows = concat (map (\<lambda>(lbl, t). case create_text_field lbl t of Inr f \<Rightarrow> [f] | Inl _ \<Rightarrow> []) rows)"

definition arg_rows :: "(json \<Rightarrow> string) \<Rightarrow> ParserInstructionData \<Rightarrow> (string \<times> string) list" where
  "arg_rows fmt parsed = map (\<lambda>(key, v). (key, fmt v)) (pi_program_call_args parsed)"

text \<open>\<^verbatim>\<open>sort_by\<close> on the keys of entries.\<close>

definition sort_entries :: "(string \<times> 'a) list \<Rightarrow> (string \<times> 'a) list" where
  "sort_entries es = sort_key fst es"

text \<open>The instruction of an IDL whose whole discriminator opens the data.\<close>

definition prefix_instruction :: "bytes \<Rightarrow> IdlInstruction list \<Rightarrow> IdlInstruction option" where
  "prefix_instruction data insts =
     find (\<lambda>inst. case inst_discriminator inst of
                    Some disc \<Rightarrow> length disc \<le> length data \<and> take (length disc) data = disc
                  | None \<Rightarrow> False) insts"

definition named_by :: "IdlInstruction option \<Rightarrow> string list \<Rightarrow> (string \<times> string) list" where
  "named_by inst accounts =
     (case inst of
        None \<Rightarrow> []
      | Some idl_instruction \<Rightarrow>
          fold (\<lambda>(index, account_str) m.
            case slice_get (inst_accounts idl_instruction) index of
              Some account_name \<Rightarrow> bt_insert account_name account_str m
            | None \<Rightarrow> m) (enumerate 0 accounts) [])"

definition listed_by :: "IdlInstruction option \<Rightarrow> string list \<Rightarrow> (string \<times> string) list" where
  "listed_by inst accounts =
     (case inst of None \<Rightarrow> [] | Some idl_instruction \<Rightarrow> zip (inst_accounts idl_instruction) accounts)"

definition remaining_after :: "IdlInstruction option \<Rightarrow> string list \<Rightarrow> string list" where
  "remaining_after inst accounts =
     (case inst of None \<Rightarrow> [] | Some idl_instruction \<Rightarrow> drop (length (inst_accounts idl_instruction)) accounts)"

definition remaining_rows :: "string list \<Rightarrow> (string \<times> string) list" where
  "remaining_rows extra = map (\<lambda>(index, pubkey). (''Remaining Account '' @ nat_str (index + 1), pubkey)) (enumerate 0 extra)"

definition preset_preview ::
  "('k, 'i) SolanaLibs \<Rightarrow> ('k, 'i) VisualizerContext \<Rightarrow> string \<Rightarrow> string \<Rightarrow> string \<Rightarrow> AnnotatedPayloadField list
    \<Rightarrow> AnnotatedPayloadField list \<Rightarrow> AnnotatedPayloadField" where
  "preset_preview libs context pid title subtitle condensed expanded =
     Annotated (PreviewLayout
       \<lparr>fallback_text = ''Program ID: '' @ pid @ [CHR 0x0A] @ ''Data: '' @ sl_hex_encode libs (context_data context),
        label = ''Instruction '' @ nat_str (instruction_index context + 1)\<rparr>
       (PreviewLayoutData (Some \<lparr>text_v2_text = title\<rparr>) (Some \<lparr>text_v2_text = subtitle\<rparr>)
          (Some (ListLayoutData condensed)) (Some (ListLayoutData expanded)))) None None"

text \<open>What the copies differ in: the display name, the program id, the IDL's path and the kind.\<close>

record IdlPreset =
  preset_name :: string
  preset_pid :: string
  preset_idl :: string
  preset_kind :: VisualizerKind

text \<open>The configurations all have one program with the instruction pattern \<^verbatim>\<open>*\<close>.\<close>

definition preset_config :: "string \<Rightarrow> SolanaIntegrationConfig" where
  "preset_config pid = integration_config_new [(pid, [(''*'', [''*''])])]"

definition preset_visualizer ::
  "('k, 'i) SolanaLibs \<Rightarrow> IdlPreset \<Rightarrow> (('k, 'i) VisualizerContext \<Rightarrow> (VisualSignError, AnnotatedPayloadField) result)
    \<Rightarrow> ('k, 'i) Visualizer" where
  "preset_visualizer libs p visualize =
     \<lparr>visualize_tx_commands = visualize, get_config = Some (preset_config (preset_pid p)), kind = preset_kind p,
      can_handle = default_can_handle (show_key libs) (Some (preset_config (preset_pid p)))\<rparr>"

abbreviation idl_of :: "('k, 'i) SolanaLibs \<Rightarrow> (string \<Rightarrow> string) \<Rightarrow> IdlPreset \<Rightarrow> (string, 'i) result" where
  "idl_of libs embedded p \<equiv> decode_idl_data libs (embedded (preset_idl p))"

definition ok :: "('e, 'a) result \<Rightarrow> 'a option" where
  "ok r = (case r of Inr a \<Rightarrow> Some a | Inl _ \<Rightarrow> None)"

section \<open>Presets with a fallback view\<close>

text \<open>
  Parsing as in \<^verbatim>\<open>jupiter_borrow\<close>: at least \<open>min_len\<close> bytes, the IDL, the arguments, the accounts by the IDL's names and
  the accounts beyond them, which only two presets keep.
\<close>

record PresetInstruction =
  preset_parsed :: ParserInstructionData
  preset_named :: "(string \<times> string) list"
  preset_extra :: "string list"

definition parse_preset_instruction ::
  "('k, 'i) SolanaLibs \<Rightarrow> (string \<Rightarrow> string) \<Rightarrow> IdlPreset \<Rightarrow> nat \<Rightarrow> bytes \<Rightarrow> string list \<Rightarrow> (string, PresetInstruction) result" where
  "parse_preset_instruction libs embedded p min_len data accounts =
     (if length data < min_len then Inl ''Invalid instruction data length''
      else and_then (ok_or (preset_name p @ '' IDL not available'') (ok (idl_of libs embedded p))) (\<lambda>idl.
           and_then (parse_instruction_with_idl libs data (preset_pid p) idl) (\<lambda>parsed.
             let inst = prefix_instruction data (idl_instructions libs idl)
             in Inr \<lparr>preset_parsed = parsed, preset_named = named_by inst accounts,
                     preset_extra = remaining_after inst accounts\<rparr>)))"

definition parsed_title :: "IdlPreset \<Rightarrow> ParserInstructionData \<Rightarrow> string" where
  "parsed_title p parsed = preset_name p @ '': '' @ pi_instruction_name parsed"

definition unknown_title :: "IdlPreset \<Rightarrow> string" where
  "unknown_title p = preset_name p @ '': Unknown Instruction''"

definition condensed_rows :: "(json \<Rightarrow> string) \<Rightarrow> IdlPreset \<Rightarrow> ParserInstructionData \<Rightarrow> (string \<times> string) list" where
  "condensed_rows fmt p parsed =
     [(''Program'', preset_name p), (''Instruction'', pi_instruction_name parsed)] @ arg_rows fmt parsed"

definition head_rows :: "string \<Rightarrow> ParserInstructionData \<Rightarrow> (string \<times> string) list" where
  "head_rows pid parsed =
     [(''Program ID'', pid), (''Instruction'', pi_instruction_name parsed), (''Discriminator'', pi_discriminator parsed)]"

definition unknown_condensed :: "IdlPreset \<Rightarrow> (string \<times> string) list" where
  "unknown_condensed p = [(''Program'', preset_name p), (''Status'', ''Unknown instruction type'')]"

definition unknown_expanded :: "string \<Rightarrow> (string \<times> string) list" where
  "unknown_expanded pid = [(''Program ID'', pid), (''Status'', ''Unknown instruction type'')]"

text \<open>\<^verbatim>\<open>jupiter_borrow\<close>, \<^verbatim>\<open>jupiter_earn\<close> and \<^verbatim>\<open>kamino_borrow\<close>: a field that cannot be built is left out.\<close>

definition lenient_visualize ::
  "('k, 'i) SolanaLibs \<Rightarrow> (string \<Rightarrow> string) \<Rightarrow> IdlPreset \<Rightarrow> ('k, 'i) VisualizerContext \<Rightarrow> (VisualSignError, AnnotatedPayloadField) result" where
  "lenient_visualize libs embedded p context =
     (let view = view_from_context (show_key libs) context; pid = view_program_id view; data = context_data context;
          (title, condensed, expanded) =
            (case parse_preset_instruction libs embedded p 8 data (view_accounts view) of
               Inr instruction \<Rightarrow>
                 (let parsed = preset_parsed instruction
                  in (parsed_title p parsed, built_fields (condensed_rows format_plain_value p parsed),
                      built_fields (head_rows pid parsed @ preset_named instruction @ arg_rows format_plain_value parsed)))
             | Inl _ \<Rightarrow> (unknown_title p, built_fields (unknown_condensed p), built_fields (unknown_expanded pid)));
          raw = (case create_raw_data_field data (Some (sl_hex_encode libs data)) of Inr f \<Rightarrow> [f] | Inl _ \<Rightarrow> [])
      in Inr (preset_preview libs context pid title [] condensed (expanded @ raw)))"

definition JUPITER_BORROW :: IdlPreset where
  "JUPITER_BORROW =
     \<lparr>preset_name = ''Jupiter Borrow'', preset_pid = ''jupr81YtYssSyPt8jbnGuiWon5f6x9TcDEFxYe3Bdzi'',
      preset_idl = ''../presets/jupiter_borrow/jupiter_borrow.json'', preset_kind = Lending ''Jupiter Borrow''\<rparr>"

definition JUPITER_EARN :: IdlPreset where
  "JUPITER_EARN =
     \<lparr>preset_name = ''Jupiter Earn'', preset_pid = ''jup3YeL8QhtSx1e253b2FDvsMNC87fDrgQZivbrndc9'',
      preset_idl = ''../presets/jupiter_earn/jupiter_earn.json'', preset_kind = Lending ''Jupiter Earn''\<rparr>"

definition KAMINO_BORROW :: IdlPreset where
  "KAMINO_BORROW =
     \<lparr>preset_name = ''Kamino Borrow'', preset_pid = ''KLend2g3cP87fffoy8q1mQqGKjrxjC8boSyAYavgmjD'',
      preset_idl = ''../presets/kamino_borrow/kamino_borrow.json'', preset_kind = Lending ''Kamino Borrow''\<rparr>"

definition jupiter_borrow_visualizer :: "('k, 'i) SolanaLibs \<Rightarrow> (string \<Rightarrow> string) \<Rightarrow> ('k, 'i) Visualizer" where
  "jupiter_borrow_visualizer libs embedded = preset_visualizer libs JUPITER_BORROW (lenient_visualize libs embedded JUPITER_BORROW)"

definition jupiter_earn_visualizer :: "('k, 'i) SolanaLibs \<Rightarrow> (string \<Rightarrow> string) \<Rightarrow> ('k, 'i) Visualizer" where
  "jupiter_earn_visualizer libs embedded = preset_visualizer libs JUPITER_EARN (lenient_visualize libs embedded JUPITER_EARN)"

definition kamino_borrow_visualizer :: "('k, 'i) SolanaLibs \<Rightarrow> (string \<Rightarrow> string) \<Rightarrow> ('k, 'i) Visualizer" where
  "kamino_borrow_visualizer libs embedded = preset_visualizer libs KAMINO_BORROW (lenient_visualize libs embedded KAMINO_BORROW)"

text \<open>The other presets with a fallback view return the first error of a field.\<close>

definition view_fields ::
  "string \<Rightarrow> (string \<times> string) list \<Rightarrow> (string \<times> string) list
    \<Rightarrow> (VisualSignError, string \<times> AnnotatedPayloadField list \<times> AnnotatedPayloadField list) result" where
  "view_fields title condensed expanded =
     and_then (text_fields condensed) (\<lambda>cs. and_then (text_fields expanded) (\<lambda>es. Inr (title, cs, es)))"

definition strict_visualize ::
  "('k, 'i) SolanaLibs \<Rightarrow> ('k, 'i) VisualizerContext \<Rightarrow> string
    \<Rightarrow> (VisualSignError, string \<times> AnnotatedPayloadField list \<times> AnnotatedPayloadField list) result
    \<Rightarrow> (VisualSignError, AnnotatedPayloadField) result" where
  "strict_visualize libs context pid built =
     and_then built (\<lambda>(title, condensed, expanded).
     and_then (create_raw_data_field (context_data context) (Some (sl_hex_encode libs (context_data context)))) (\<lambda>raw.
       Inr (preset_preview libs context pid title [] condensed (expanded @ [raw]))))"

definition unknown_fields ::
  "IdlPreset \<Rightarrow> string \<Rightarrow> (VisualSignError, string \<times> AnnotatedPayloadField list \<times> AnnotatedPayloadField list) result" where
  "unknown_fields p pid = view_fields (unknown_title p) (unknown_condensed p) (unknown_expanded pid)"

text \<open>\<^verbatim>\<open>jupiter_perps\<close> and \<^verbatim>\<open>exponent_finance\<close>, the latter with discriminators of any length.\<close>

definition perps_parsed_fields ::
  "IdlPreset \<Rightarrow> PresetInstruction \<Rightarrow> string
    \<Rightarrow> (VisualSignError, string \<times> AnnotatedPayloadField list \<times> AnnotatedPayloadField list) result" where
  "perps_parsed_fields p instruction pid =
     (let parsed = preset_parsed instruction
      in view_fields (parsed_title p parsed) (condensed_rows format_plain_value p parsed)
           (head_rows pid parsed @ preset_named instruction @ arg_rows format_plain_value parsed))"

definition perps_visualize ::
  "('k, 'i) SolanaLibs \<Rightarrow> (string \<Rightarrow> string) \<Rightarrow> IdlPreset \<Rightarrow> nat \<Rightarrow> ('k, 'i) VisualizerContext
    \<Rightarrow> (VisualSignError, AnnotatedPayloadField) result" where
  "perps_visualize libs embedded p min_len context =
     (let view = view_from_context (show_key libs) context; pid = view_program_id view
      in strict_visualize libs context pid
           (case parse_preset_instruction libs embedded p min_len (context_data context) (view_accounts view) of
              Inr instruction \<Rightarrow> perps_parsed_fields p instruction pid
            | Inl _ \<Rightarrow> unknown_fields p pid))"

definition JUPITER_PERPS :: IdlPreset where
  "JUPITER_PERPS =
     \<lparr>preset_name = ''Jupiter Perpetuals'', preset_pid = ''PERPHjGBqRHArX4DySjwM6UJHiR3sWAatqfdBS2qQJu'',
      preset_idl = ''../presets/jupiter_perps/jupiter_perps.json'', preset_kind = Dex ''Jupiter Perpetuals''\<rparr>"

definition EXPONENT_FINANCE :: IdlPreset where
  "EXPONENT_FINANCE =
     \<lparr>preset_name = ''Exponent Finance'', preset_pid = ''ExponentnaRg3CQbW6dqQNZKXp7gtZ9DGMp1cwC4HAS7'',
      preset_idl = ''../presets/exponent_finance/exponent_finance.json'', preset_kind = Dex ''Exponent Finance''\<rparr>"

definition jupiter_perps_visualizer :: "('k, 'i) SolanaLibs \<Rightarrow> (string \<Rightarrow> string) \<Rightarrow> ('k, 'i) Visualizer" where
  "jupiter_perps_visualizer libs embedded = preset_visualizer libs JUPITER_PERPS (perps_visualize libs embedded JUPITER_PERPS 8)"

definition exponent_finance_visualizer :: "('k, 'i) SolanaLibs \<Rightarrow> (string \<Rightarrow> string) \<Rightarrow> ('k, 'i) Visualizer" where
  "exponent_finance_visualizer libs embedded =
     preset_visualizer libs EXPONENT_FINANCE (perps_visualize libs embedded EXPONENT_FINANCE 1)"

text \<open>\<^verbatim>\<open>dflow_aggregator\<close> and \<^verbatim>\<open>marginfi\<close> list the accounts beyond the IDL's too.\<close>

definition dflow_parsed_fields ::
  "(bytes \<Rightarrow> string) \<Rightarrow> IdlPreset \<Rightarrow> PresetInstruction \<Rightarrow> string
    \<Rightarrow> (VisualSignError, string \<times> AnnotatedPayloadField list \<times> AnnotatedPayloadField list) result" where
  "dflow_parsed_fields enc p instruction pid =
     (let parsed = preset_parsed instruction
      in view_fields (parsed_title p parsed) (condensed_rows (format_arg_value enc) p parsed)
           (head_rows pid parsed @ preset_named instruction @ remaining_rows (preset_extra instruction)
             @ arg_rows (format_arg_value enc) parsed))"

definition dflow_visualize ::
  "('k, 'i) SolanaLibs \<Rightarrow> (string \<Rightarrow> string) \<Rightarrow> IdlPreset \<Rightarrow> ('k, 'i) VisualizerContext \<Rightarrow> (VisualSignError, AnnotatedPayloadField) result" where
  "dflow_visualize libs embedded p context =
     (let view = view_from_context (show_key libs) context; pid = view_program_id view
      in strict_visualize libs context pid
           (case parse_preset_instruction libs embedded p 8 (context_data context) (view_accounts view) of
              Inr instruction \<Rightarrow> dflow_parsed_fields (sl_hex_encode libs) p instruction pid
            | Inl _ \<Rightarrow> unknown_fields p pid))"

definition marginfi_parsed_fields ::
  "(bytes \<Rightarrow> string) \<Rightarrow> IdlPreset \<Rightarrow> PresetInstruction \<Rightarrow> string
    \<Rightarrow> (VisualSignError, string \<times> AnnotatedPayloadField list \<times> AnnotatedPayloadField list) result" where
  "marginfi_parsed_fields enc p instruction pid =
     (let parsed = preset_parsed instruction
      in view_fields (parsed_title p parsed) (condensed_rows (format_arg_value enc) p parsed)
           ((''Program'', preset_name p) # head_rows pid parsed @ preset_named instruction
             @ remaining_rows (preset_extra instruction) @ arg_rows (format_arg_value enc) parsed))"

definition marginfi_fallback_fields ::
  "IdlPreset \<Rightarrow> string \<Rightarrow> (VisualSignError, string \<times> AnnotatedPayloadField list \<times> AnnotatedPayloadField list) result" where
  "marginfi_fallback_fields p pid =
     view_fields (unknown_title p) (unknown_condensed p) ((''Program'', preset_name p) # unknown_expanded pid)"

definition marginfi_visualize ::
  "('k, 'i) SolanaLibs \<Rightarrow> (string \<Rightarrow> string) \<Rightarrow> IdlPreset \<Rightarrow> ('k, 'i) VisualizerContext \<Rightarrow> (VisualSignError, AnnotatedPayloadField) result" where
  "marginfi_visualize libs embedded p context =
     (let view = view_from_context (show_key libs) context; pid = view_program_id view
      in strict_visualize libs context pid
           (case parse_preset_instruction libs embedded p 8 (context_data context) (view_accounts view) of
              Inr instruction \<Rightarrow> marginfi_parsed_fields (sl_hex_encode libs) p instruction pid
            | Inl _ \<Rightarrow> marginfi_fallback_fields p pid))"

definition DFLOW_AGGREGATOR :: IdlPreset where
  "DFLOW_AGGREGATOR =
     \<lparr>preset_name = ''DFlow Aggregator'', preset_pid = ''DF1ow4tspfHX9JwWJsAb9epbkA8hmpSEAtxXy1V27QBH'',
      preset_idl = ''../presets/dflow_aggregator/dflow_aggregator.json'', preset_kind = Dex ''DFlow Aggregator''\<rparr>"

definition MARGINFI :: IdlPreset where
  "MARGINFI =
     \<lparr>preset_name = ''Marginfi'', preset_pid = ''MFv2hWf31Z9kbCa1snEPdcgp7X3GK4Y9EtyMkRxBUGA'',
      preset_idl = ''../presets/marginfi/marginfi.json'', preset_kind = Lending ''Marginfi''\<rparr>"

definition dflow_aggregator_visualizer :: "('k, 'i) SolanaLibs \<Rightarrow> (string \<Rightarrow> string) \<Rightarrow> ('k, 'i) Visualizer" where
  "dflow_aggregator_visualizer libs embedded = preset_visualizer libs DFLOW_AGGREGATOR (dflow_visualize libs embedded DFLOW_AGGREGATOR)"

definition marginfi_visualizer :: "('k, 'i) SolanaLibs \<Rightarrow> (string \<Rightarrow> string) \<Rightarrow> ('k, 'i) Visualizer" where
  "marginfi_visualizer libs embedded = preset_visualizer libs MARGINFI (marginfi_visualize libs embedded MARGINFI)"

text \<open>\<^verbatim>\<open>drift\<close> needs every index to resolve, and tells an account from an argument of the same name.\<close>

definition drift_parsed_fields ::
  "IdlPreset \<Rightarrow> PresetInstruction \<Rightarrow> string
    \<Rightarrow> (VisualSignError, string \<times> AnnotatedPayloadField list \<times> AnnotatedPayloadField list) result" where
  "drift_parsed_fields p instruction pid =
     (let parsed = preset_parsed instruction;
          account_rows = map (\<lambda>(account_name, account_address).
            ((if map_of (pi_program_call_args parsed) account_name \<noteq> None then ''Current '' else []) @ account_name, account_address))
            (preset_named instruction);
          new_rows = map (\<lambda>(key, v).
            ((if map_of (preset_named instruction) key \<noteq> None then ''New '' else []) @ key, format_plain_value v))
            (pi_program_call_args parsed)
      in view_fields (parsed_title p parsed) (condensed_rows format_plain_value p parsed)
           (head_rows pid parsed @ account_rows @ new_rows))"

definition drift_visualize ::
  "('k, 'i) SolanaLibs \<Rightarrow> (string \<Rightarrow> string) \<Rightarrow> IdlPreset \<Rightarrow> ('k, 'i) VisualizerContext \<Rightarrow> (VisualSignError, AnnotatedPayloadField) result" where
  "drift_visualize libs embedded p context =
     and_then (resolve_program_id context) (\<lambda>k.
     and_then (resolve_accounts context) (\<lambda>accounts.
       let pid = show_key libs k
       in strict_visualize libs context pid
            (case parse_preset_instruction libs embedded p 8 (context_data context) (map (\<lambda>a. show_key libs (fst a)) accounts) of
               Inr instruction \<Rightarrow> drift_parsed_fields p instruction pid
             | Inl _ \<Rightarrow> unknown_fields p pid)))"

definition DRIFT :: IdlPreset where
  "DRIFT =
     \<lparr>preset_name = ''Drift'', preset_pid = ''dRiftyHA39MWEi3m9aunc5MzRF1JYuBsbn6VPcn33UH'',
      preset_idl = ''../presets/drift/drift.json'', preset_kind = Dex ''Drift''\<rparr>"

definition drift_visualizer :: "('k, 'i) SolanaLibs \<Rightarrow> (string \<Rightarrow> string) \<Rightarrow> ('k, 'i) Visualizer" where
  "drift_visualizer libs embedded = preset_visualizer libs DRIFT (drift_visualize libs embedded DRIFT)"

text \<open>\<^verbatim>\<open>kamino_farms\<close>, \<^verbatim>\<open>kamino_vault\<close> and \<^verbatim>\<open>kamino_limit\<close>, the last with its own text for the raw data.\<close>

definition parse_kamino_instruction ::
  "('k, 'i) SolanaLibs \<Rightarrow> (string \<Rightarrow> string) \<Rightarrow> IdlPreset \<Rightarrow> bytes \<Rightarrow> (VisualSignError, ParserInstructionData) result" where
  "parse_kamino_instruction libs embedded p data =
     (if length data < 8 then Inl (DecodeError ''instruction data shorter than 8-byte discriminator'')
      else and_then (ok_or (DecodeError (''failed to load '' @ preset_name p @ '' IDL'')) (ok (idl_of libs embedded p))) (\<lambda>idl.
           map_err DecodeError (parse_instruction_with_idl libs data (preset_pid p) idl)))"

definition kamino_visualize ::
  "('k, 'i) SolanaLibs \<Rightarrow> (string \<Rightarrow> string) \<Rightarrow> IdlPreset \<Rightarrow> string option \<Rightarrow> ('k, 'i) VisualizerContext
    \<Rightarrow> (VisualSignError, AnnotatedPayloadField) result" where
  "kamino_visualize libs embedded p raw_text context =
     (let view = view_from_context (show_key libs) context; pid = view_program_id view; data = context_data context;
          (title, condensed, expanded) =
            (case parse_kamino_instruction libs embedded p data of
               Inr parsed \<Rightarrow>
                 (let named_accounts = (case ok (idl_of libs embedded p) of
                        Some idl \<Rightarrow> named_by (matching_instruction data (idl_instructions libs idl)) (view_accounts view)
                      | None \<Rightarrow> [])
                  in (parsed_title p parsed, [(''Program'', preset_name p), (''Instruction'', pi_instruction_name parsed)],
                      head_rows pid parsed @ sort_entries named_accounts
                        @ map (\<lambda>(name, v). (name, format_plain_value v)) (sort_entries (pi_program_call_args parsed))))
             | Inl _ \<Rightarrow>
                 (unknown_title p, [(''Program'', preset_name p)],
                  [(''Program ID'', pid), (''Status'', ''IDL parsing failed - showing raw data'')]))
      in and_then (view_fields title condensed expanded) (\<lambda>(title, cs, es).
         and_then (create_raw_data_field data raw_text) (\<lambda>raw.
           Inr (preset_preview libs context pid title [] cs (es @ [raw])))))"

definition KAMINO_FARMS :: IdlPreset where
  "KAMINO_FARMS =
     \<lparr>preset_name = ''Kamino Farms'', preset_pid = ''FarmsPZpWu9i7Kky8tPN37rs2TpmMrAZrC7S7vJa91Hr'',
      preset_idl = ''../presets/kamino_farms/kamino_farms.json'', preset_kind = Lending ''Kamino Farms''\<rparr>"

definition KAMINO_VAULT :: IdlPreset where
  "KAMINO_VAULT =
     \<lparr>preset_name = ''Kamino Vault'', preset_pid = ''KvauGMspG5k6rtzrqqn7WNn3oZdyKqLKwK2XWQ8FLjd'',
      preset_idl = ''../presets/kamino_vault/kamino_vault.json'', preset_kind = Lending ''Kamino Vault''\<rparr>"

definition KAMINO_LIMIT :: IdlPreset where
  "KAMINO_LIMIT =
     \<lparr>preset_name = ''Kamino Limit Orders'', preset_pid = ''LiMoM9rMhrdYrfzUCxQppvxCSG1FcrUK9G8uLq4A1GF'',
      preset_idl = ''../presets/kamino_limit/kamino_limit.json'', preset_kind = Dex ''Kamino Limit Orders''\<rparr>"

definition kamino_farms_visualizer :: "('k, 'i) SolanaLibs \<Rightarrow> (string \<Rightarrow> string) \<Rightarrow> ('k, 'i) Visualizer" where
  "kamino_farms_visualizer libs embedded = preset_visualizer libs KAMINO_FARMS (kamino_visualize libs embedded KAMINO_FARMS None)"

definition kamino_vault_visualizer :: "('k, 'i) SolanaLibs \<Rightarrow> (string \<Rightarrow> string) \<Rightarrow> ('k, 'i) Visualizer" where
  "kamino_vault_visualizer libs embedded = preset_visualizer libs KAMINO_VAULT (kamino_visualize libs embedded KAMINO_VAULT None)"

definition kamino_limit_visualizer :: "('k, 'i) SolanaLibs \<Rightarrow> (string \<Rightarrow> string) \<Rightarrow> ('k, 'i) Visualizer" where
  "kamino_limit_visualizer libs embedded =
     preset_visualizer libs KAMINO_LIMIT (\<lambda>context.
       kamino_visualize libs embedded KAMINO_LIMIT (Some (sl_hex_encode libs (context_data context))) context)"

section \<open>Presets that fail when the IDL does not decode\<close>

text \<open>\<^verbatim>\<open>metadao_conditional_vault\<close> and \<^verbatim>\<open>metadao_futarchy\<close>.\<close>

definition metadao_visualize ::
  "('k, 'i) SolanaLibs \<Rightarrow> (string \<Rightarrow> string) \<Rightarrow> IdlPreset \<Rightarrow> ('k, 'i) VisualizerContext \<Rightarrow> (VisualSignError, AnnotatedPayloadField) result" where
  "metadao_visualize libs embedded p context =
     (let view = view_from_context (show_key libs) context; pid = view_program_id view; data = context_data context
      in if length data < 8 then Inl (DecodeError ''Instruction data too short for Anchor discriminator'')
         else
           and_then (map_err (\<lambda>e. DecodeError (''Failed to decode bundled IDL: '' @ e)) (idl_of libs embedded p)) (\<lambda>idl.
           and_then (map_err (\<lambda>e. DecodeError (''IDL parse failed: '' @ e)) (parse_instruction_with_idl libs data (preset_pid p) idl)) (\<lambda>parsed.
           let named_accounts = named_by (matching_instruction data (idl_instructions libs idl)) (view_accounts view);
               account_rows = concat (map (\<lambda>key. case map_of named_accounts key of Some addr \<Rightarrow> [(key, addr)] | None \<Rightarrow> [])
                 (sort (map fst named_accounts)))
           in and_then (text_fields [(''Instruction'', pi_instruction_name parsed)]) (\<lambda>condensed.
              and_then (text_fields ((''Program'', preset_name p) # head_rows pid parsed @ account_rows
                @ arg_rows format_plain_value parsed)) (\<lambda>expanded.
              and_then (create_raw_data_field data None) (\<lambda>raw.
                Inr (preset_preview libs context pid (parsed_title p parsed) [] condensed (expanded @ [raw]))))))))"

definition METADAO_CONDITIONAL_VAULT :: IdlPreset where
  "METADAO_CONDITIONAL_VAULT =
     \<lparr>preset_name = ''MetaDAO Conditional Vault'', preset_pid = ''VLTX1ishMBbcX3rdBWGssxawAo1Q2X2qxYFYqiGodVg'',
      preset_idl = ''../presets/metadao_conditional_vault/metadao_conditional_vault.json'',
      preset_kind = Dex ''MetaDAO Conditional Vault''\<rparr>"

definition METADAO_FUTARCHY :: IdlPreset where
  "METADAO_FUTARCHY =
     \<lparr>preset_name = ''MetaDAO Futarchy'', preset_pid = ''FUTARELBfJfQ8RDGhg1wdhddq1odMAJUePHFuBYfUxKq'',
      preset_idl = ''../presets/metadao_futarchy/metadao_futarchy.json'', preset_kind = Dex ''MetaDAO Futarchy''\<rparr>"

definition metadao_conditional_vault_visualizer :: "('k, 'i) SolanaLibs \<Rightarrow> (string \<Rightarrow> string) \<Rightarrow> ('k, 'i) Visualizer" where
  "metadao_conditional_vault_visualizer libs embedded =
     preset_visualizer libs METADAO_CONDITIONAL_VAULT (metadao_visualize libs embedded METADAO_CONDITIONAL_VAULT)"

definition metadao_futarchy_visualizer :: "('k, 'i) SolanaLibs \<Rightarrow> (string \<Rightarrow> string) \<Rightarrow> ('k, 'i) Visualizer" where
  "metadao_futarchy_visualizer libs embedded = preset_visualizer libs METADAO_FUTARCHY (metadao_visualize libs embedded METADAO_FUTARCHY)"

definition meteora_damm_v2_parse ::
  "('k, 'i) SolanaLibs \<Rightarrow> (string \<Rightarrow> string) \<Rightarrow> IdlPreset \<Rightarrow> bytes \<Rightarrow> string list
    \<Rightarrow> (string, ParserInstructionData \<times> (string \<times> string) list) result" where
  "meteora_damm_v2_parse libs embedded p data accounts =
     (if length data < 8 then Inl ''Instruction data too short for Anchor discriminator''
      else and_then (idl_of libs embedded p) (\<lambda>idl.
           and_then (parse_instruction_with_idl libs data (preset_pid p) idl) (\<lambda>parsed.
             Inr (parsed, named_by (matching_instruction data (idl_instructions libs idl)) accounts))))"

definition meteora_damm_v2_visualize ::
  "('k, 'i) SolanaLibs \<Rightarrow> (string \<Rightarrow> string) \<Rightarrow> IdlPreset \<Rightarrow> ('k, 'i) VisualizerContext \<Rightarrow> (VisualSignError, AnnotatedPayloadField) result" where
  "meteora_damm_v2_visualize libs embedded p context =
     (let view = view_from_context (show_key libs) context; pid = view_program_id view; data = context_data context
      in and_then (map_err DecodeError (meteora_damm_v2_parse libs embedded p data (view_accounts view))) (\<lambda>(parsed, named_accounts).
         and_then (text_fields ((''Instruction'', parsed_title p parsed) # arg_rows format_plain_value parsed)) (\<lambda>condensed.
         and_then (text_fields (head_rows pid parsed @ named_accounts @ arg_rows format_plain_value parsed)) (\<lambda>expanded.
         and_then (create_raw_data_field data None) (\<lambda>raw.
           Inr (preset_preview libs context pid (parsed_title p parsed) [] condensed (expanded @ [raw])))))))"

definition METEORA_DAMM_V2 :: IdlPreset where
  "METEORA_DAMM_V2 =
     \<lparr>preset_name = ''Meteora DAMM V2'', preset_pid = ''cpamdpZCGKUy5JxQXB4dcpGPiikHawvSWAd6mEn1sGG'',
      preset_idl = ''../presets/meteora_damm_v2/meteora_damm_v2.json'', preset_kind = Dex ''Meteora DAMM V2''\<rparr>"

definition meteora_damm_v2_visualizer :: "('k, 'i) SolanaLibs \<Rightarrow> (string \<Rightarrow> string) \<Rightarrow> ('k, 'i) Visualizer" where
  "meteora_damm_v2_visualizer libs embedded = preset_visualizer libs METEORA_DAMM_V2 (meteora_damm_v2_visualize libs embedded METEORA_DAMM_V2)"

text \<open>\<^verbatim>\<open>meteora_dlmm\<close> lists the accounts in the IDL's order.\<close>

definition converted_raw :: "bytes \<Rightarrow> (VisualSignError, AnnotatedPayloadField) result" where
  "converted_raw data = map_err (\<lambda>e. ConversionError (display_error e)) (create_raw_data_field data None)"

definition meteora_dlmm_visualize ::
  "('k, 'i) SolanaLibs \<Rightarrow> (string \<Rightarrow> string) \<Rightarrow> IdlPreset \<Rightarrow> ('k, 'i) VisualizerContext \<Rightarrow> (VisualSignError, AnnotatedPayloadField) result" where
  "meteora_dlmm_visualize libs embedded p context =
     (let view = view_from_context (show_key libs) context; pid = view_program_id view; data = context_data context
      in if length data < 8 then Inl (DecodeError ''Instruction data shorter than 8-byte discriminator'')
         else
           and_then (ok_or (DecodeError ''Meteora DLMM IDL not available'') (ok (idl_of libs embedded p))) (\<lambda>idl.
           and_then (map_err DecodeError (parse_instruction_with_idl libs data (preset_pid p) idl)) (\<lambda>parsed.
           let named_accounts = listed_by (matching_instruction data (idl_instructions libs idl)) (view_accounts view)
           in and_then (converted_fields ((''Instruction'', parsed_title p parsed) # arg_rows format_plain_value parsed)) (\<lambda>condensed.
              and_then (converted_fields (head_rows pid parsed @ named_accounts @ arg_rows format_plain_value parsed)) (\<lambda>expanded.
              and_then (converted_raw data) (\<lambda>raw.
                Inr (preset_preview libs context pid (parsed_title p parsed) [] condensed (expanded @ [raw]))))))))"

definition METEORA_DLMM :: IdlPreset where
  "METEORA_DLMM =
     \<lparr>preset_name = ''Meteora DLMM'', preset_pid = ''LBUZKhRxPF3XUpBCjp4YzTKgLccjZhTSDM9YuVaPwxo'',
      preset_idl = ''../presets/meteora_dlmm/meteora_dlmm.json'', preset_kind = Dex ''Meteora DLMM''\<rparr>"

definition meteora_dlmm_visualizer :: "('k, 'i) SolanaLibs \<Rightarrow> (string \<Rightarrow> string) \<Rightarrow> ('k, 'i) Visualizer" where
  "meteora_dlmm_visualizer libs embedded = preset_visualizer libs METEORA_DLMM (meteora_dlmm_visualize libs embedded METEORA_DLMM)"

definition neutral_trade_visualize ::
  "('k, 'i) SolanaLibs \<Rightarrow> (string \<Rightarrow> string) \<Rightarrow> IdlPreset \<Rightarrow> ('k, 'i) VisualizerContext \<Rightarrow> (VisualSignError, AnnotatedPayloadField) result" where
  "neutral_trade_visualize libs embedded p context =
     (let view = view_from_context (show_key libs) context; pid = view_program_id view; data = context_data context
      in if length data < 8 then Inl (DecodeError ''Instruction data too short for Anchor discriminator'')
         else
           and_then (map_err (\<lambda>e. DecodeError (''Invalid Neutral Trade IDL: '' @ e)) (idl_of libs embedded p)) (\<lambda>idl.
           and_then (map_err (\<lambda>e. DecodeError (''Neutral Trade IDL parse failed: '' @ e))
             (parse_instruction_with_idl libs data (preset_pid p) idl)) (\<lambda>parsed.
           let named_accounts = named_by (matching_instruction data (idl_instructions libs idl)) (view_accounts view)
           in and_then (text_fields ((''Instruction'', parsed_title p parsed) # arg_rows format_plain_value parsed)) (\<lambda>condensed.
              and_then (text_fields ((''Program'', preset_name p) # head_rows pid parsed @ named_accounts
                @ arg_rows format_plain_value parsed)) (\<lambda>expanded.
              and_then (create_raw_data_field data None) (\<lambda>raw.
                Inr (preset_preview libs context pid (parsed_title p parsed) (preset_name p) condensed (expanded @ [raw]))))))))"

definition NEUTRAL_TRADE :: IdlPreset where
  "NEUTRAL_TRADE =
     \<lparr>preset_name = ''Neutral Trade'', preset_pid = ''BUNDDh4P5XviMm1f3gCvnq2qKx6TGosAGnoUK12e7cXU'',
      preset_idl = ''../presets/neutral_trade/neutral_trade.json'', preset_kind = Lending ''Neutral Trade''\<rparr>"

definition neutral_trade_visualizer :: "('k, 'i) SolanaLibs \<Rightarrow> (string \<Rightarrow> string) \<Rightarrow> ('k, 'i) Visualizer" where
  "neutral_trade_visualizer libs embedded = preset_visualizer libs NEUTRAL_TRADE (neutral_trade_visualize libs embedded NEUTRAL_TRADE)"

definition onre_app_parse ::
  "('k, 'i) SolanaLibs \<Rightarrow> (string \<Rightarrow> string) \<Rightarrow> IdlPreset \<Rightarrow> bytes \<Rightarrow> string list
    \<Rightarrow> (string, ParserInstructionData \<times> (string \<times> string) list) result" where
  "onre_app_parse libs embedded p data accounts =
     (if length data < 8 then Inl ''Invalid instruction data length''
      else and_then (idl_of libs embedded p) (\<lambda>idl.
           and_then (parse_instruction_with_idl libs data (preset_pid p) idl) (\<lambda>parsed.
             Inr (parsed, listed_by (matching_instruction data (idl_instructions libs idl)) accounts))))"

definition onre_app_visualize ::
  "('k, 'i) SolanaLibs \<Rightarrow> (string \<Rightarrow> string) \<Rightarrow> IdlPreset \<Rightarrow> ('k, 'i) VisualizerContext \<Rightarrow> (VisualSignError, AnnotatedPayloadField) result" where
  "onre_app_visualize libs embedded p context =
     (let view = view_from_context (show_key libs) context; pid = view_program_id view; data = context_data context
      in and_then (map_err DecodeError (onre_app_parse libs embedded p data (view_accounts view))) (\<lambda>(parsed, named_accounts).
         and_then (converted_fields ((''Instruction'', parsed_title p parsed) # arg_rows format_plain_value parsed)) (\<lambda>condensed.
         and_then (converted_fields (head_rows pid parsed @ named_accounts @ arg_rows format_plain_value parsed)) (\<lambda>expanded.
         and_then (converted_raw data) (\<lambda>raw.
           Inr (preset_preview libs context pid (parsed_title p parsed) (preset_name p) condensed (expanded @ [raw])))))))"

definition ONRE_APP :: IdlPreset where
  "ONRE_APP =
     \<lparr>preset_name = ''Onre App'', preset_pid = ''onreuGhHHgVzMWSkj2oQDLDtvvGvoepBPkqyaubFcwe'',
      preset_idl = ''../presets/onre_app/onre_app.json'', preset_kind = Dex ''Onre App''\<rparr>"

definition onre_app_visualizer :: "('k, 'i) SolanaLibs \<Rightarrow> (string \<Rightarrow> string) \<Rightarrow> ('k, 'i) Visualizer" where
  "onre_app_visualizer libs embedded = preset_visualizer libs ONRE_APP (onre_app_visualize libs embedded ONRE_APP)"

text \<open>\<^verbatim>\<open>orca_whirlpool\<close> takes the account names of the parser, and numbers the accounts when it gave none.\<close>

definition orca_parse ::
  "('k, 'i) SolanaLibs \<Rightarrow> (string \<Rightarrow> string) \<Rightarrow> IdlPreset \<Rightarrow> bytes \<Rightarrow> (VisualSignError, ParserInstructionData) result" where
  "orca_parse libs embedded p data =
     (if length data < 8 then Inl (DecodeError ''Orca Whirlpool instruction data too short (need 8-byte discriminator)'')
      else and_then (map_err (\<lambda>e. DecodeError (''Orca Whirlpool IDL invalid: '' @ e)) (idl_of libs embedded p)) (\<lambda>idl.
           map_err DecodeError (parse_instruction_with_idl libs data (preset_pid p) idl)))"

definition orca_named_accounts :: "ParserInstructionData \<Rightarrow> string list \<Rightarrow> (string \<times> string) list" where
  "orca_named_accounts parsed accounts =
     (let named = sort_entries (pi_named_accounts parsed)
      in if named = [] then map (\<lambda>(i, pubkey). (''Account '' @ nat_str i, pubkey)) (enumerate 0 accounts)
         else named)"

definition orca_expanded_fields ::
  "ParserInstructionData \<Rightarrow> (string \<times> string) list \<Rightarrow> string \<Rightarrow> bytes \<Rightarrow> (VisualSignError, AnnotatedPayloadField list) result" where
  "orca_expanded_fields parsed named_accounts pid data =
     and_then (converted_fields ([(''Program ID'', pid), (''Instruction Name'', pi_instruction_name parsed)]
       @ map (\<lambda>(name, pubkey). (''Account: '' @ name, pubkey)) named_accounts
       @ map (\<lambda>(name, v). (''Arg: '' @ name, format_plain_value v)) (sort_entries (pi_program_call_args parsed)))) (\<lambda>fs.
     and_then (converted_raw data) (\<lambda>raw. Inr (fs @ [raw])))"

definition orca_visualize ::
  "('k, 'i) SolanaLibs \<Rightarrow> (string \<Rightarrow> string) \<Rightarrow> IdlPreset \<Rightarrow> ('k, 'i) VisualizerContext \<Rightarrow> (VisualSignError, AnnotatedPayloadField) result" where
  "orca_visualize libs embedded p context =
     (let view = view_from_context (show_key libs) context; pid = view_program_id view; data = context_data context
      in and_then (orca_parse libs embedded p data) (\<lambda>parsed.
         and_then (converted_fields [(''Instruction'', parsed_title p parsed)]) (\<lambda>condensed.
         and_then (orca_expanded_fields parsed (orca_named_accounts parsed (view_accounts view)) pid data) (\<lambda>expanded.
           Inr (preset_preview libs context pid (parsed_title p parsed) [] condensed expanded)))))"

definition ORCA_WHIRLPOOL :: IdlPreset where
  "ORCA_WHIRLPOOL =
     \<lparr>preset_name = ''Orca Whirlpool'', preset_pid = ''whirLbMiicVdio4qvUfM5KAg6Ct8VwpYzGff3uctyCc'',
      preset_idl = ''../presets/orca_whirlpool/orca_whirlpool.json'', preset_kind = Dex ''Orca Whirlpool''\<rparr>"

definition orca_whirlpool_visualizer :: "('k, 'i) SolanaLibs \<Rightarrow> (string \<Rightarrow> string) \<Rightarrow> ('k, 'i) Visualizer" where
  "orca_whirlpool_visualizer libs embedded = preset_visualizer libs ORCA_WHIRLPOOL (orca_visualize libs embedded ORCA_WHIRLPOOL)"

section \<open>All of them\<close>

definition idl_presets :: "('k, 'i) SolanaLibs \<Rightarrow> (string \<Rightarrow> string) \<Rightarrow> (IdlPreset \<times> ('k, 'i) Visualizer) list" where
  "idl_presets libs embedded =
     [(DFLOW_AGGREGATOR, dflow_aggregator_visualizer libs embedded), (DRIFT, drift_visualizer libs embedded),
      (EXPONENT_FINANCE, exponent_finance_visualizer libs embedded), (JUPITER_BORROW, jupiter_borrow_visualizer libs embedded),
      (JUPITER_EARN, jupiter_earn_visualizer libs embedded), (JUPITER_PERPS, jupiter_perps_visualizer libs embedded),
      (KAMINO_BORROW, kamino_borrow_visualizer libs embedded), (KAMINO_FARMS, kamino_farms_visualizer libs embedded),
      (KAMINO_LIMIT, kamino_limit_visualizer libs embedded), (KAMINO_VAULT, kamino_vault_visualizer libs embedded),
      (MARGINFI, marginfi_visualizer libs embedded),
      (METADAO_CONDITIONAL_VAULT, metadao_conditional_vault_visualizer libs embedded),
      (METADAO_FUTARCHY, metadao_futarchy_visualizer libs embedded), (METEORA_DAMM_V2, meteora_damm_v2_visualizer libs embedded),
      (METEORA_DLMM, meteora_dlmm_visualizer libs embedded), (NEUTRAL_TRADE, neutral_trade_visualizer libs embedded),
      (ONRE_APP, onre_app_visualizer libs embedded), (ORCA_WHIRLPOOL, orca_whirlpool_visualizer libs embedded)]"

end
