(* ===== verification/SolanaPresetFacts.thy ===== *)
theory SolanaPresetFacts
  imports SolanaPresets
begin

text \<open>
  What the presets with an embedded IDL promise, as the interface \<open>idl_preset\<close>, and that every one of them keeps it: the
  program, the raw bytes, the arguments and the accounts of an instruction reach the signer, and a view that looks decoded
  was decoded.
\<close>

section \<open>Facts\<close>

text \<open>The rows of text that a list of fields shows.\<close>

fun row_text :: "AnnotatedPayloadField \<Rightarrow> (string \<times> string) list" where
  "row_text (Annotated (TextV2 c x) _ _) = [(label c, text_v2_text x)]"
| "row_text _ = []"

definition text_rows :: "AnnotatedPayloadField list \<Rightarrow> (string \<times> string) list" where
  "text_rows fs = concat (map row_text fs)"

abbreviation row_fields :: "(string \<times> string) list \<Rightarrow> AnnotatedPayloadField list" where
  "row_fields rows \<equiv> map (\<lambda>(lbl, t). plain_text_field lbl t) rows"

lemma collect_results_map_Inr [simp]: "collect_results (map (\<lambda>x. Inr (f x)) xs) = Inr (map f xs)"
  by (induction xs) auto

lemma text_fields_eq [simp]: "text_fields rows = Inr (row_fields rows)"
  by (simp add: text_fields_def plain_text_field_eq split_def)

lemma converted_fields_eq [simp]: "converted_fields rows = Inr (row_fields rows)"
  by (simp add: converted_fields_def plain_text_field_eq split_def)

lemma built_fields_eq [simp]: "built_fields rows = row_fields rows"
  by (induction rows) (auto simp: built_fields_def plain_text_field_eq)

lemma text_rows_simps [simp]:
  "text_rows [] = []" "text_rows (fs @ gs) = text_rows fs @ text_rows gs" "text_rows (plain_text_field l t # fs) = (l, t) # text_rows fs"
  by (simp_all add: text_rows_def plain_text_field_def)

lemma text_rows_row_fields [simp]: "text_rows (row_fields rows) = rows"
  by (induction rows) auto

lemma raw_data_eq:
  "create_raw_data_field data raw_text = Inr (plain_text_field ''Raw Data''
     (case raw_text of None \<Rightarrow> default_hex_representation data | Some t \<Rightarrow> t))"
  by (simp add: create_raw_data_field_def plain_text_field_def Let_def)

lemma converted_raw_eq: "converted_raw data = Inr (plain_text_field ''Raw Data'' (default_hex_representation data))"
  by (simp add: converted_raw_def raw_data_eq)

lemma set_sort_entries [simp]: "set (sort_entries es) = set es"
  by (simp add: sort_entries_def)

text \<open>Naming the accounts one by one is collecting the names paired with them.\<close>

lemma named_fold:
  "fold (\<lambda>(index, a) m. case slice_get (ms @ ns) index of Some n \<Rightarrow> bt_insert n a m | None \<Rightarrow> m)
     (enumerate (length ms) accounts) m = fold (\<lambda>(k, v). bt_insert k v) (zip ns accounts) m"
proof (induction accounts arbitrary: ms ns m)
  case (Cons a accounts)
  show ?case
  proof (cases ns)
    case Nil
    then show ?thesis using Cons.IH [of "ms @ [undefined]" "[]" m] Cons.IH [of _ "[]" m]
      by (auto simp: slice_get_def in_set_enumerate_eq intro!: fold_invariant [where P = "\<lambda>x. x = m" and Q = "\<lambda>e. length ms \<le> fst e"])
  next
    case (Cons n ns')
    then show ?thesis using Cons.IH [of "ms @ [n]" ns' "bt_insert n a m"] by (simp add: slice_get_def)
  qed
qed simp

lemma named_by_eq: "named_by (Some inst) accounts = bt_collect (zip (inst_accounts inst) accounts)"
  using named_fold [of "[]" "inst_accounts inst" accounts "[]"] by (simp add: named_by_def bt_collect_def)

lemma ssorted_named_by: "ssorted (named_by inst accounts)"
  by (cases inst) (simp_all add: named_by_eq ssorted_bt_collect, simp add: named_by_def)

section \<open>What a preset promises\<close>

text \<open>The decoded instruction of a preset, if it has one: enough data, an IDL and arguments by it.\<close>

definition preset_decode ::
  "('k, 'i) SolanaLibs \<Rightarrow> (string \<Rightarrow> string) \<Rightarrow> IdlPreset \<Rightarrow> nat \<Rightarrow> bytes \<Rightarrow> ('i \<times> ParserInstructionData) option" where
  "preset_decode libs embedded p min_len data =
     (if length data < min_len then None
      else case idl_of libs embedded p of
             Inl _ \<Rightarrow> None
           | Inr idl \<Rightarrow> map_option (Pair idl) (ok (parse_instruction_with_idl libs data (preset_pid p) idl)))"

text \<open>
  The instruction that the data calls: the first of the IDL whose own discriminator opens the data. Nine presets only know
  Anchor's discriminators of eight bytes; the others take one of any length. An account of the call has the name that the IDL
  gives at its position; where one name is given twice, the last account under it.
\<close>

definition eight_byte_presets :: "IdlPreset list" where
  "eight_byte_presets =
     [KAMINO_FARMS, KAMINO_LIMIT, KAMINO_VAULT, METADAO_CONDITIONAL_VAULT, METADAO_FUTARCHY, METEORA_DAMM_V2, METEORA_DLMM,
      NEUTRAL_TRADE, ONRE_APP]"

definition opened_by :: "IdlPreset \<Rightarrow> bytes \<Rightarrow> IdlInstruction \<Rightarrow> bool" where
  "opened_by p data inst \<longleftrightarrow>
     (\<exists>d rest. inst_discriminator inst = Some d \<and> data = d @ rest \<and> (p \<in> set eight_byte_presets \<longrightarrow> length d = 8))"

definition account_named :: "IdlPreset \<Rightarrow> bytes \<Rightarrow> IdlInstruction list \<Rightarrow> string list \<Rightarrow> string \<Rightarrow> string \<Rightarrow> bool" where
  "account_named p data insts accounts name a \<longleftrightarrow>
     (\<exists>i < length insts. opened_by p data (insts ! i) \<and> (\<forall>j < i. \<not> opened_by p data (insts ! j))
        \<and> map_of (rev (zip (inst_accounts (insts ! i)) accounts)) name = Some a)"

text \<open>Labels and texts: Orca says what is an account and what an argument, Drift where both have one name; two presets sanitise.\<close>

definition named_label :: "IdlPreset \<Rightarrow> ParserInstructionData \<Rightarrow> string \<Rightarrow> string" where
  "named_label p parsed name =
     (if p = ORCA_WHIRLPOOL then ''Account: '' @ name
      else if p = DRIFT \<and> name \<in> fst ` set (pi_program_call_args parsed) then ''Current '' @ name
      else name)"

definition arg_label :: "IdlPreset \<Rightarrow> (string \<Rightarrow> bool) \<Rightarrow> string \<Rightarrow> string" where
  "arg_label p names key =
     (if p = ORCA_WHIRLPOOL then ''Arg: '' @ key else if p = DRIFT \<and> names key then ''New '' @ key else key)"

definition arg_text :: "IdlPreset \<Rightarrow> (bytes \<Rightarrow> string) \<Rightarrow> json \<Rightarrow> string" where
  "arg_text p enc v = (if p \<in> {DFLOW_AGGREGATOR, MARGINFI} then format_arg_value enc v else format_plain_value v)"

text \<open>What the view of a decoded instruction lists: every argument, and every account by its name. Orca takes the names of the
  parser, and numbers the accounts when the parser named none.\<close>

definition decoded_shown ::
  "('k, 'i) SolanaLibs \<Rightarrow> IdlPreset \<Rightarrow> bytes \<Rightarrow> 'i \<Rightarrow> ParserInstructionData \<Rightarrow> string list \<Rightarrow> (string \<times> string) set \<Rightarrow> bool" where
  "decoded_shown libs p data idl parsed accounts rows \<longleftrightarrow>
     (let named = account_named p data (idl_instructions libs idl) accounts
      in (\<forall>(key, v) \<in> set (pi_program_call_args parsed).
            (arg_label p (\<lambda>n. \<exists>a. named n a) key, arg_text p (sl_hex_encode libs) v) \<in> rows)
       \<and> (if p \<noteq> ORCA_WHIRLPOOL then \<forall>name a. named name a \<longrightarrow> (named_label p parsed name, a) \<in> rows
          else if pi_named_accounts parsed \<noteq> []
               then \<forall>(name, a) \<in> set (pi_named_accounts parsed). (''Account: '' @ name, a) \<in> rows
               else \<forall>i < length accounts. (''Account: Account '' @ nat_str i, accounts ! i) \<in> rows))"

definition faithful_preview ::
  "('k, 'i) SolanaLibs \<Rightarrow> (string \<Rightarrow> string) \<Rightarrow> IdlPreset \<Rightarrow> nat \<Rightarrow> ('k, 'i) VisualizerContext \<Rightarrow> AnnotatedPayloadField \<Rightarrow> bool" where
  "faithful_preview libs embedded p min_len context field =
     (let view = view_from_context (show_key libs) context; pid = view_program_id view; data = context_data context
      in \<exists>title subtitle condensed expanded.
           field = preset_preview libs context pid title subtitle condensed expanded
         \<and> (''Program ID'', pid) \<in> set (text_rows expanded)
         \<and> (\<exists>raw \<in> {sl_hex_encode libs data, default_hex_representation data}. last expanded = plain_text_field ''Raw Data'' raw)
         \<and> (case preset_decode libs embedded p min_len data of
              None \<Rightarrow> title = preset_name p @ '': Unknown Instruction''
                \<and> (\<exists>status \<in> {''Unknown instruction type'', ''IDL parsing failed - showing raw data''}.
                     (''Status'', status) \<in> set (text_rows expanded))
            | Some (idl, parsed) \<Rightarrow>
                title = preset_name p @ '': '' @ pi_instruction_name parsed
              \<and> decoded_shown libs p data idl parsed (view_accounts view) (set (text_rows expanded))))"

text \<open>The two searches of the code find the instruction that the data calls.\<close>

lemma prefix_opened:
  assumes "p \<notin> set eight_byte_presets"
  shows "prefix_instruction data insts = find (opened_by p data) insts"
proof -
  have "opened_by p data = (\<lambda>inst. case inst_discriminator inst of
      Some disc \<Rightarrow> length disc \<le> length data \<and> take (length disc) data = disc | None \<Rightarrow> False)"
    using assms by (auto simp: opened_by_def fun_eq_iff split: option.split) (metis append_take_drop_id)
  then show ?thesis by (simp add: prefix_instruction_def)
qed

lemma matching_opened:
  assumes "p \<in> set eight_byte_presets"
  shows "matching_instruction data insts = find (opened_by p data) insts"
proof -
  have "opened_by p data = (\<lambda>inst. case inst_discriminator inst of
      Some disc \<Rightarrow> length data \<ge> 8 \<and> take 8 data = disc | None \<Rightarrow> False)"
    using assms by (auto simp: opened_by_def fun_eq_iff split: option.split) (metis append_take_drop_id)
  then show ?thesis by (simp add: matching_instruction_def)
qed

lemma account_named_find:
  "account_named p data insts accounts name a \<longleftrightarrow>
     (\<exists>inst. find (opened_by p data) insts = Some inst \<and> map_of (rev (zip (inst_accounts inst) accounts)) name = Some a)"
  by (auto simp: account_named_def find_Some_iff)

lemma set_named_by:
  "(name, a) \<in> set (named_by (find (opened_by p data) insts) accounts) \<longleftrightarrow> account_named p data insts accounts name a"
proof (cases "find (opened_by p data) insts")
  case (Some inst)
  have "(name, a) \<in> set (bt_collect (zip (inst_accounts inst) accounts)) \<longleftrightarrow>
      map_of (bt_collect (zip (inst_accounts inst) accounts)) name = Some a"
    by (simp add: map_of_eq_Some_iff ssorted_distinct ssorted_bt_collect)
  then show ?thesis by (simp add: account_named_find Some named_by_eq map_of_bt_collect)
qed (simp add: account_named_find named_by_def)

lemma account_listed:
  "account_named p data insts accounts name a \<Longrightarrow> (name, a) \<in> set (listed_by (find (opened_by p data) insts) accounts)"
  by (auto simp: account_named_find listed_by_def dest: map_of_SomeD)

lemma set_arg_rows: "set (arg_rows fmt parsed) = (\<lambda>(key, v). (key, fmt v)) ` set (pi_program_call_args parsed)"
  by (simp add: arg_rows_def)

text \<open>A decoded instruction: from the parts that the presets show.\<close>

lemma faithful_decoded:
  assumes "preset_decode libs embedded p min_len (context_data context) = Some (idl, parsed)"
    and "view = view_from_context (show_key libs) context"
    and "(''Program ID'', view_program_id view) \<in> set (text_rows es)"
    and "raw \<in> {sl_hex_encode libs (context_data context), default_hex_representation (context_data context)}"
    and "decoded_shown libs p (context_data context) idl parsed (view_accounts view) (set (text_rows es @ [(''Raw Data'', raw)]))"
  shows "faithful_preview libs embedded p min_len context
    (preset_preview libs context (view_program_id view) (parsed_title p parsed) subtitle cs (es @ [plain_text_field ''Raw Data'' raw]))"
  unfolding faithful_preview_def Let_def assms(2) [symmetric]
  by (rule exI [of _ "parsed_title p parsed"], rule exI [of _ subtitle], rule exI [of _ cs],
      rule exI [of _ "es @ [plain_text_field ''Raw Data'' raw]"]) (use assms in \<open>auto simp: parsed_title_def\<close>)

lemma faithful_unknown:
  assumes "preset_decode libs embedded p min_len (context_data context) = None"
    and "view = view_from_context (show_key libs) context"
    and "(''Program ID'', view_program_id view) \<in> set (text_rows es)"
    and "raw \<in> {sl_hex_encode libs (context_data context), default_hex_representation (context_data context)}"
    and "(''Status'', status) \<in> set (text_rows es)" "status \<in> {''Unknown instruction type'', ''IDL parsing failed - showing raw data''}"
  shows "faithful_preview libs embedded p min_len context
    (preset_preview libs context (view_program_id view) (unknown_title p) subtitle cs (es @ [plain_text_field ''Raw Data'' raw]))"
  unfolding faithful_preview_def Let_def assms(2) [symmetric]
  by (rule exI [of _ "unknown_title p"], rule exI [of _ subtitle], rule exI [of _ cs],
      rule exI [of _ "es @ [plain_text_field ''Raw Data'' raw]"]) (use assms in \<open>auto simp: unknown_title_def\<close>)

section \<open>The families\<close>

lemma ok_simps [simp]: "ok (Inr a) = Some a" "ok (Inl e) = None"
  by (simp_all add: ok_def)

lemma parse_preset_decode:
  "parse_preset_instruction libs embedded p min_len data accounts = Inr instruction \<longleftrightarrow>
     (\<exists>idl. preset_decode libs embedded p min_len data = Some (idl, preset_parsed instruction)
        \<and> preset_named instruction = named_by (prefix_instruction data (idl_instructions libs idl)) accounts
        \<and> preset_extra instruction = remaining_after (prefix_instruction data (idl_instructions libs idl)) accounts)"
  by (cases "idl_of libs embedded p"; cases "length data < min_len")
    (auto simp: parse_preset_instruction_def preset_decode_def and_then_Inr_iff ok_or_def Let_def ok_def split: sum.splits)

lemma parse_preset_fails:
  "parse_preset_instruction libs embedded p min_len data accounts = Inl e \<Longrightarrow> preset_decode libs embedded p min_len data = None"
  by (cases "idl_of libs embedded p")
    (auto simp: parse_preset_instruction_def preset_decode_def and_then_Inl_iff ok_or_def Let_def ok_def split: if_splits sum.splits)

text \<open>A view made of rows; most presets end with the raw data as their own hex text or as the builder's.\<close>

lemma faithful_rows:
  assumes dec: "preset_decode libs embedded p min_len (context_data context) = Some (idl, parsed)"
    and view: "view = view_from_context (show_key libs) context" and p: "p \<noteq> ORCA_WHIRLPOOL" "p \<noteq> DRIFT"
    and raw: "raw \<in> {sl_hex_encode libs (context_data context), default_hex_representation (context_data context)}"
    and head: "set (head_rows (view_program_id view) parsed) \<subseteq> set rows"
    and args: "(\<lambda>(key, v). (key, arg_text p (sl_hex_encode libs) v)) ` set (pi_program_call_args parsed) \<subseteq> set rows"
    and named: "\<And>name a. account_named p (context_data context) (idl_instructions libs idl) (view_accounts view) name a
      \<Longrightarrow> (name, a) \<in> set rows"
  shows "faithful_preview libs embedded p min_len context
    (preset_preview libs context (view_program_id view) (parsed_title p parsed) subtitle cs
      (row_fields rows @ [plain_text_field ''Raw Data'' raw]))"
proof (rule faithful_decoded [OF dec view _ raw])
  show "decoded_shown libs p (context_data context) idl parsed (view_accounts view) (set (text_rows (row_fields rows) @ [(''Raw Data'', raw)]))"
    using args named p by (auto simp: decoded_shown_def named_label_def arg_label_def)
qed (use head in \<open>auto simp: head_rows_def\<close>)

lemma faithful_parsed:
  assumes parse: "parse_preset_instruction libs embedded p min_len (context_data context) (view_accounts view) = Inr instruction"
    and view: "view = view_from_context (show_key libs) context" "p \<noteq> ORCA_WHIRLPOOL" "p \<noteq> DRIFT"
    and any: "p \<notin> set eight_byte_presets"
    and rows: "set (head_rows (view_program_id view) (preset_parsed instruction)) \<subseteq> set rows"
      "set (preset_named instruction) \<subseteq> set rows"
      "set (arg_rows (arg_text p (sl_hex_encode libs)) (preset_parsed instruction)) \<subseteq> set rows"
  shows "faithful_preview libs embedded p min_len context
    (preset_preview libs context (view_program_id view) (parsed_title p (preset_parsed instruction)) subtitle cs
      (row_fields rows @ [plain_text_field ''Raw Data'' (sl_hex_encode libs (context_data context))]))"
proof -
  from parse obtain idl where dec: "preset_decode libs embedded p min_len (context_data context) = Some (idl, preset_parsed instruction)"
    and named: "preset_named instruction = named_by (prefix_instruction (context_data context) (idl_instructions libs idl)) (view_accounts view)"
    by (auto simp: parse_preset_decode)
  show ?thesis
    by (rule faithful_rows [OF dec view _ rows(1)])
      (use rows(2,3) in \<open>auto simp: named prefix_opened [OF any] set_arg_rows set_named_by [symmetric]\<close>)
qed

text \<open>The presets that show arguments as they are, under their own names, and take discriminators of any length.\<close>

definition plain_preset :: "IdlPreset \<Rightarrow> bool" where
  "plain_preset p \<longleftrightarrow> p \<noteq> ORCA_WHIRLPOOL \<and> p \<noteq> DRIFT \<and> p \<notin> set eight_byte_presets"

lemmas preset_constants = ORCA_WHIRLPOOL_def DFLOW_AGGREGATOR_def DRIFT_def EXPONENT_FINANCE_def JUPITER_BORROW_def JUPITER_EARN_def
  JUPITER_PERPS_def KAMINO_BORROW_def KAMINO_FARMS_def KAMINO_LIMIT_def KAMINO_VAULT_def MARGINFI_def
  METADAO_CONDITIONAL_VAULT_def METADAO_FUTARCHY_def METEORA_DAMM_V2_def METEORA_DLMM_def NEUTRAL_TRADE_def ONRE_APP_def

lemma preset_classes:
  "plain_preset DFLOW_AGGREGATOR" "plain_preset EXPONENT_FINANCE" "plain_preset JUPITER_BORROW" "plain_preset JUPITER_EARN"
  "plain_preset JUPITER_PERPS" "plain_preset KAMINO_BORROW" "plain_preset MARGINFI"
  "EXPONENT_FINANCE \<notin> {DFLOW_AGGREGATOR, MARGINFI}" "JUPITER_BORROW \<notin> {DFLOW_AGGREGATOR, MARGINFI}"
  "JUPITER_EARN \<notin> {DFLOW_AGGREGATOR, MARGINFI}" "JUPITER_PERPS \<notin> {DFLOW_AGGREGATOR, MARGINFI}"
  "KAMINO_BORROW \<notin> {DFLOW_AGGREGATOR, MARGINFI}" "DRIFT \<notin> {DFLOW_AGGREGATOR, MARGINFI}" "ORCA_WHIRLPOOL \<notin> {DFLOW_AGGREGATOR, MARGINFI}"
  "DRIFT \<noteq> ORCA_WHIRLPOOL" "DRIFT \<notin> set eight_byte_presets"
  by (simp_all add: plain_preset_def eight_byte_presets_def preset_constants)

lemmas preset_class_simps = preset_classes [simplified]

lemma eight_byte_members:
  "KAMINO_FARMS \<in> set eight_byte_presets" "KAMINO_LIMIT \<in> set eight_byte_presets" "KAMINO_VAULT \<in> set eight_byte_presets"
  "METADAO_CONDITIONAL_VAULT \<in> set eight_byte_presets" "METADAO_FUTARCHY \<in> set eight_byte_presets"
  "METEORA_DAMM_V2 \<in> set eight_byte_presets" "METEORA_DLMM \<in> set eight_byte_presets" "NEUTRAL_TRADE \<in> set eight_byte_presets"
  "ONRE_APP \<in> set eight_byte_presets"
  by (simp_all add: eight_byte_presets_def)

lemma eight_byte_class:
  assumes "p \<in> set eight_byte_presets"
  shows "p \<noteq> ORCA_WHIRLPOOL" "p \<noteq> DRIFT" "arg_text p enc = format_plain_value"
  using assms by (auto simp: eight_byte_presets_def arg_text_def fun_eq_iff preset_constants)

lemma lenient_faithful:
  assumes "lenient_visualize libs embedded p context = Inr field" and p: "plain_preset p" "p \<notin> {DFLOW_AGGREGATOR, MARGINFI}"
  shows "faithful_preview libs embedded p 8 context field"
proof -
  let ?view = "view_from_context (show_key libs) context"
  show ?thesis
  proof (cases "parse_preset_instruction libs embedded p 8 (context_data context) (view_accounts ?view)")
    case (Inl e)
    then show ?thesis using assms(1) faithful_unknown [OF parse_preset_fails [OF Inl] refl, of "row_fields (unknown_expanded (view_program_id ?view))"]
      by (auto simp: lenient_visualize_def raw_data_eq unknown_expanded_def Let_def)
  next
    case (Inr instruction)
    have field: "field = preset_preview libs context (view_program_id ?view) (parsed_title p (preset_parsed instruction)) []
        (row_fields (condensed_rows format_plain_value p (preset_parsed instruction)))
        (row_fields (head_rows (view_program_id ?view) (preset_parsed instruction) @ preset_named instruction
          @ arg_rows format_plain_value (preset_parsed instruction))
         @ [plain_text_field ''Raw Data'' (sl_hex_encode libs (context_data context))])"
      using assms(1) Inr by (simp add: lenient_visualize_def raw_data_eq Let_def)
    show ?thesis unfolding field
      by (rule faithful_parsed [OF Inr refl]) (use p in \<open>auto simp: plain_preset_def arg_text_def arg_rows_def\<close>)
  qed
qed

text \<open>The presets that return the first error: from a view of rows to the preview.\<close>

lemma strict_rows:
  "strict_visualize libs context pid (view_fields title condensed expanded) = Inr field \<longleftrightarrow>
     field = preset_preview libs context pid title [] (row_fields condensed)
       (row_fields expanded @ [plain_text_field ''Raw Data'' (sl_hex_encode libs (context_data context))])"
  by (auto simp: strict_visualize_def view_fields_def raw_data_eq)

lemma strict_faithful:
  assumes "strict_visualize libs context (view_program_id view)
      (case parse_preset_instruction libs embedded p min_len (context_data context) (view_accounts view) of
         Inr i \<Rightarrow> view_fields (parsed_title p (preset_parsed i)) (condensed i) (rows i)
       | Inl _ \<Rightarrow> view_fields (unknown_title p) uc unknown) = Inr field"
    and view: "view = view_from_context (show_key libs) context" and p: "plain_preset p"
    and rows: "\<And>i. set (head_rows (view_program_id view) (preset_parsed i)) \<subseteq> set (rows i)"
      "\<And>i. set (preset_named i) \<subseteq> set (rows i)" "\<And>i. set (arg_rows (arg_text p (sl_hex_encode libs)) (preset_parsed i)) \<subseteq> set (rows i)"
    and unknown: "set (unknown_expanded (view_program_id view)) \<subseteq> set unknown"
  shows "faithful_preview libs embedded p min_len context field"
proof (cases "parse_preset_instruction libs embedded p min_len (context_data context) (view_accounts view)")
  case (Inl e)
  show ?thesis using assms(1) faithful_unknown [OF parse_preset_fails [OF Inl] view, of "row_fields unknown"] unknown
    by (auto simp: strict_rows unknown_expanded_def Inl)
next
  case (Inr i)
  show ?thesis using assms(1) faithful_parsed [OF Inr view _ _ _ rows] p by (simp add: strict_rows Inr plain_preset_def)
qed

lemma perps_faithful:
  assumes "perps_visualize libs embedded p min_len context = Inr field" and p: "plain_preset p" "p \<notin> {DFLOW_AGGREGATOR, MARGINFI}"
  shows "faithful_preview libs embedded p min_len context field"
  using assms(1) unfolding perps_visualize_def perps_parsed_fields_def unknown_fields_def Let_def
  by (rule strict_faithful [OF _ refl p(1)]) (use p(2) in \<open>auto simp: arg_rows_def arg_text_def\<close>)

lemma dflow_faithful:
  assumes "dflow_visualize libs embedded p context = Inr field" and p: "plain_preset p" "p \<in> {DFLOW_AGGREGATOR, MARGINFI}"
  shows "faithful_preview libs embedded p 8 context field"
  using assms(1) unfolding dflow_visualize_def dflow_parsed_fields_def unknown_fields_def Let_def
  by (rule strict_faithful [OF _ refl p(1)]) (use p(2) in \<open>auto simp: arg_rows_def arg_text_def\<close>)

lemma marginfi_faithful:
  assumes "marginfi_visualize libs embedded p context = Inr field" and p: "plain_preset p" "p \<in> {DFLOW_AGGREGATOR, MARGINFI}"
  shows "faithful_preview libs embedded p 8 context field"
  using assms(1) unfolding marginfi_visualize_def marginfi_parsed_fields_def marginfi_fallback_fields_def Let_def
  by (rule strict_faithful [OF _ refl p(1)]) (use p(2) in \<open>auto simp: arg_rows_def arg_text_def\<close>)

text \<open>Where every index resolves, Drift's own resolution is the view.\<close>

lemma resolved_view:
  assumes "resolve_program_id context = Inr k" "resolve_accounts context = Inr accounts"
  shows "view_program_id (view_from_context sk context) = sk k"
    and "view_accounts (view_from_context sk context) = map (\<lambda>a. sk (fst a)) accounts"
proof -
  show "view_program_id (view_from_context sk context) = sk k"
    using assms(1) by (auto simp: resolve_program_id_def view_from_context_def split: ProgramRef.splits)
  from assms(2) have eq: "map Inr accounts = map (\<lambda>i. case account context i of
         Some (AccountResolved pk) \<Rightarrow> Inr (pk, False, False)
       | Some (AccountUnresolved raw_index) \<Rightarrow>
           Inl (DecodeError (''unresolved account index '' @ nat_str (unat raw_index) @ '' at position '' @ nat_str i))
       | None \<Rightarrow> Inl (DecodeError (''missing account at position '' @ nat_str i))) [0..<num_accounts context]" (is "_ = map ?f _")
    by (simp add: resolve_accounts_def collect_results_Inr)
  have len: "length accounts = num_accounts context" using arg_cong [OF eq, of length] by simp
  have nth: "?f i = Inr (accounts ! i)" if "i < num_accounts context" for i
    using arg_cong [OF eq, of "\<lambda>l. l ! i"] that len by (simp cong: option.case_cong AccountRef.case_cong)
  show "view_accounts (view_from_context sk context) = map (\<lambda>a. sk (fst a)) accounts"
  proof (rule nth_equalityI)
    fix i assume "i < length (view_accounts (view_from_context sk context))"
    then have i: "i < num_accounts context" by (simp add: view_from_context_def)
    from nth [OF i] obtain pk where "account context i = Some (AccountResolved pk)" "accounts ! i = (pk, False, False)"
      by (auto split: option.splits AccountRef.splits)
    with i len show "view_accounts (view_from_context sk context) ! i = map (\<lambda>a. sk (fst a)) accounts ! i"
      by (simp add: view_from_context_def)
  qed (simp add: view_from_context_def len)
qed

lemma drift_faithful:
  assumes "drift_visualize libs embedded p context = Inr field" and p: "p = DRIFT"
  shows "faithful_preview libs embedded p 8 context field"
proof -
  let ?view = "view_from_context (show_key libs) context" and ?data = "context_data context"
  let ?raw = "plain_text_field ''Raw Data'' (sl_hex_encode libs ?data)"
  from assms(1) obtain k accounts where res: "resolve_program_id context = Inr k" "resolve_accounts context = Inr accounts"
    and vis: "strict_visualize libs context (show_key libs k)
       (case parse_preset_instruction libs embedded p 8 ?data (map (\<lambda>a. show_key libs (fst a)) accounts) of
          Inr instruction \<Rightarrow> drift_parsed_fields p instruction (show_key libs k)
        | Inl _ \<Rightarrow> unknown_fields p (show_key libs k)) = Inr field"
    by (auto simp: drift_visualize_def and_then_Inr_iff Let_def)
  note pid = resolved_view(1) [OF res, of "show_key libs", symmetric]
    and accs = resolved_view(2) [OF res, of "show_key libs", symmetric]
  show ?thesis
  proof (cases "parse_preset_instruction libs embedded p 8 ?data (view_accounts ?view)")
    case (Inl e)
    show ?thesis
      using vis faithful_unknown [OF parse_preset_fails [OF Inl] refl, of "row_fields (unknown_expanded (view_program_id ?view))"]
      by (auto simp: unknown_fields_def strict_rows accs pid Inl unknown_expanded_def)
  next
    case (Inr i)
    then obtain idl where dec: "preset_decode libs embedded p 8 ?data = Some (idl, preset_parsed i)"
      and named: "preset_named i = named_by (prefix_instruction ?data (idl_instructions libs idl)) (view_accounts ?view)"
      by (auto simp: parse_preset_decode)
    let ?parsed = "preset_parsed i"
    define rows where "rows = head_rows (view_program_id ?view) ?parsed
      @ map (\<lambda>(n, a). ((if map_of (pi_program_call_args ?parsed) n \<noteq> None then ''Current '' else []) @ n, a)) (preset_named i)
      @ map (\<lambda>(k, v). ((if map_of (preset_named i) k \<noteq> None then ''New '' else []) @ k, format_plain_value v)) (pi_program_call_args ?parsed)"
    have field: "field = preset_preview libs context (view_program_id ?view) (parsed_title p ?parsed) []
        (row_fields (condensed_rows format_plain_value p ?parsed)) (row_fields rows @ [?raw])"
      using vis by (simp add: drift_parsed_fields_def Let_def strict_rows accs pid Inr rows_def)
    have named_iff: "(n, a) \<in> set (preset_named i) \<longleftrightarrow> account_named p ?data (idl_instructions libs idl) (view_accounts ?view) n a" for n a
      unfolding named prefix_opened [OF preset_classes(16) [folded p]] by (rule set_named_by)
    have keys: "map_of (preset_named i) n \<noteq> None \<longleftrightarrow> (\<exists>a. account_named p ?data (idl_instructions libs idl) (view_accounts ?view) n a)" for n
      by (force simp: map_of_eq_None_iff named_iff [symmetric])
    have args: "map_of (pi_program_call_args ?parsed) n \<noteq> None \<longleftrightarrow> n \<in> fst ` set (pi_program_call_args ?parsed)" for n
      by (simp add: map_of_eq_None_iff)
    show ?thesis unfolding field
    proof (rule faithful_decoded [OF dec refl])
      have "(arg_label p (\<lambda>n. \<exists>a. account_named p ?data (idl_instructions libs idl) (view_accounts ?view) n a) k,
          arg_text p (sl_hex_encode libs) v) \<in> set rows" if "(k, v) \<in> set (pi_program_call_args ?parsed)" for k v
        using that preset_classes(13,15) unfolding p arg_label_def arg_text_def rows_def keys [unfolded p, symmetric] by force
      moreover have "(named_label p ?parsed n, a) \<in> set rows" if "(n, a) \<in> set (preset_named i)" for n a
        using that preset_classes(15) unfolding p named_label_def rows_def args [symmetric] by force
      ultimately show "decoded_shown libs p ?data idl ?parsed (view_accounts ?view)
          (set (text_rows (row_fields rows) @ [(''Raw Data'', sl_hex_encode libs ?data)]))"
        using preset_classes(15) by (auto simp: decoded_shown_def p named_iff Let_def)
    qed (auto simp: rows_def head_rows_def)
  qed
qed

lemma kamino_faithful:
  assumes vis: "kamino_visualize libs embedded p raw_text context = Inr field" and p: "p \<in> set eight_byte_presets"
    and raw: "raw_text = None \<or> raw_text = Some (sl_hex_encode libs (context_data context))"
  shows "faithful_preview libs embedded p 8 context field"
proof -
  let ?view = "view_from_context (show_key libs) context" and ?data = "context_data context"
  define raw where "raw = (case raw_text of None \<Rightarrow> default_hex_representation ?data | Some t \<Rightarrow> t)"
  have rawin: "raw \<in> {sl_hex_encode libs ?data, default_hex_representation ?data}" using raw by (auto simp: raw_def)
  show ?thesis
  proof (cases "parse_kamino_instruction libs embedded p ?data")
    case (Inl e)
    then have "preset_decode libs embedded p 8 ?data = None"
      by (cases "idl_of libs embedded p") (auto simp: parse_kamino_instruction_def preset_decode_def ok_or_def ok_def elim!: map_err_Inl split: if_splits)
    note un = faithful_unknown [OF this refl _ rawin, of "row_fields [(''Program ID'', view_program_id ?view), (''Status'', ''IDL parsing failed - showing raw data'')]"]
    show ?thesis using vis un by (auto simp: kamino_visualize_def Let_def Inl view_fields_def raw_data_eq raw_def)
  next
    case (Inr parsed)
    then obtain idl where idl: "idl_of libs embedded p = Inr idl" and dec: "preset_decode libs embedded p 8 ?data = Some (idl, parsed)"
      by (cases "idl_of libs embedded p") (auto simp: parse_kamino_instruction_def preset_decode_def ok_or_def ok_def split: if_splits)
    define rows where "rows = head_rows (view_program_id ?view) parsed
      @ sort_entries (named_by (matching_instruction ?data (idl_instructions libs idl)) (view_accounts ?view))
      @ map (\<lambda>(name, v). (name, format_plain_value v)) (sort_entries (pi_program_call_args parsed))"
    have field: "field = preset_preview libs context (view_program_id ?view) (parsed_title p parsed) []
        (row_fields [(''Program'', preset_name p), (''Instruction'', pi_instruction_name parsed)])
        (row_fields rows @ [plain_text_field ''Raw Data'' raw])"
      using vis by (simp add: kamino_visualize_def Let_def Inr idl view_fields_def raw_data_eq raw_def rows_def)
    show ?thesis unfolding field
      by (rule faithful_rows [OF dec refl eight_byte_class(1,2) [OF p] rawin])
        (auto simp: rows_def matching_opened [OF p] set_named_by eight_byte_class(3) [OF p])
  qed
qed

lemma metadao_account_rows:
  "ssorted m \<Longrightarrow> set (concat (map (\<lambda>key. case map_of m key of Some addr \<Rightarrow> [(key, addr)] | None \<Rightarrow> []) (sort (map fst m)))) = set m"
  by (force simp: strict_sorted_iff split: option.splits dest: map_of_SomeD intro: map_of_is_SomeI)

lemma metadao_faithful:
  assumes vis: "metadao_visualize libs embedded p context = Inr field" and p: "p \<in> set eight_byte_presets"
  shows "faithful_preview libs embedded p 8 context field"
proof -
  let ?view = "view_from_context (show_key libs) context" and ?data = "context_data context"
  from vis obtain idl parsed where "\<not> length ?data < 8" and idl: "idl_of libs embedded p = Inr idl"
    and par: "parse_instruction_with_idl libs ?data (preset_pid p) idl = Inr parsed"
    by (auto simp: metadao_visualize_def and_then_Inr_iff Let_def split: if_splits)
  then have dec: "preset_decode libs embedded p 8 ?data = Some (idl, parsed)" by (simp add: preset_decode_def)
  let ?named = "named_by (matching_instruction ?data (idl_instructions libs idl)) (view_accounts ?view)"
  define acc where "acc = concat (map (\<lambda>key. case map_of ?named key of Some addr \<Rightarrow> [(key, addr)] | None \<Rightarrow> []) (sort (map fst ?named)))"
  define rows where "rows = (''Program'', preset_name p) # head_rows (view_program_id ?view) parsed @ acc @ arg_rows format_plain_value parsed"
  have field: "field = preset_preview libs context (view_program_id ?view) (parsed_title p parsed) []
      (row_fields [(''Instruction'', pi_instruction_name parsed)]) (row_fields rows @ [plain_text_field ''Raw Data'' (default_hex_representation ?data)])"
    using vis \<open>\<not> length ?data < 8\<close> by (simp add: metadao_visualize_def Let_def idl par raw_data_eq rows_def acc_def)
  have "set acc = set ?named" unfolding acc_def by (rule metadao_account_rows [OF ssorted_named_by])
  then show ?thesis unfolding field
    by (intro faithful_rows [OF dec refl eight_byte_class(1,2) [OF p]])
      (auto simp: rows_def set_arg_rows matching_opened [OF p] set_named_by eight_byte_class(3) [OF p])
qed

text \<open>The presets without a fallback view and with the rows in the builder's order.\<close>

lemma faithful_direct:
  fixes libs :: "('k, 'i) SolanaLibs" and ctx :: "('k, 'i) VisualizerContext"
  defines "view \<equiv> view_from_context (show_key libs) ctx"
  assumes "\<not> length (context_data ctx) < 8" "idl_of libs embedded p = Inr idl"
    and "parse_instruction_with_idl libs (context_data ctx) (preset_pid p) idl = Inr parsed" and p: "p \<in> set eight_byte_presets"
    and named: "named = named_by \<or> named = listed_by"
    and rows: "set (head_rows (view_program_id view) parsed
      @ named (matching_instruction (context_data ctx) (idl_instructions libs idl)) (view_accounts view) @ arg_rows format_plain_value parsed)
      \<subseteq> set rows"
  shows "faithful_preview libs embedded p 8 ctx
    (preset_preview libs ctx (view_program_id view) (parsed_title p parsed) subtitle cs
      (row_fields rows @ [plain_text_field ''Raw Data'' (default_hex_representation (context_data ctx))]))"
proof (rule faithful_rows [OF _ _ eight_byte_class(1,2) [OF p]])
  show "preset_decode libs embedded p 8 (context_data ctx) = Some (idl, parsed)" using assms(2-4) by (simp add: preset_decode_def)
  show "(n, a) \<in> set rows" if "account_named p (context_data ctx) (idl_instructions libs idl) (view_accounts view) n a" for n a
    using named rows that account_listed [OF that] by (auto simp: matching_opened [OF p] set_named_by)
qed (use rows in \<open>auto simp: view_def set_arg_rows eight_byte_class(3) [OF p]\<close>)

lemma meteora_damm_v2_faithful:
  assumes vis: "meteora_damm_v2_visualize libs embedded p context = Inr field" and p: "p \<in> set eight_byte_presets"
  shows "faithful_preview libs embedded p 8 context field"
proof -
  from vis obtain idl parsed where dec: "\<not> length (context_data context) < 8" "idl_of libs embedded p = Inr idl"
    "parse_instruction_with_idl libs (context_data context) (preset_pid p) idl = Inr parsed"
    by (auto simp: meteora_damm_v2_visualize_def meteora_damm_v2_parse_def and_then_Inr_iff Let_def split: if_splits)
  have "named_by = named_by \<or> named_by = listed_by" by simp
  from faithful_direct [where embedded = embedded and p = p, OF dec p this order_refl] vis dec show ?thesis
    by (auto simp: meteora_damm_v2_visualize_def meteora_damm_v2_parse_def Let_def raw_data_eq)
qed

lemma meteora_dlmm_faithful:
  assumes vis: "meteora_dlmm_visualize libs embedded p context = Inr field" and p: "p \<in> set eight_byte_presets"
  shows "faithful_preview libs embedded p 8 context field"
proof -
  from vis obtain idl parsed where dec: "\<not> length (context_data context) < 8" "idl_of libs embedded p = Inr idl"
    "parse_instruction_with_idl libs (context_data context) (preset_pid p) idl = Inr parsed"
    by (auto simp: meteora_dlmm_visualize_def and_then_Inr_iff Let_def ok_def split: if_splits sum.splits)
  have "listed_by = named_by \<or> listed_by = listed_by" by simp
  from faithful_direct [where embedded = embedded and p = p, OF dec p this order_refl] vis dec show ?thesis
    by (auto simp: meteora_dlmm_visualize_def Let_def converted_raw_eq ok_or_def)
qed

lemma neutral_trade_faithful:
  assumes vis: "neutral_trade_visualize libs embedded p context = Inr field" and p: "p \<in> set eight_byte_presets"
  shows "faithful_preview libs embedded p 8 context field"
proof -
  let ?view = "view_from_context (show_key libs) context"
  from vis obtain idl parsed where dec: "\<not> length (context_data context) < 8" "idl_of libs embedded p = Inr idl"
    "parse_instruction_with_idl libs (context_data context) (preset_pid p) idl = Inr parsed"
    by (auto simp: neutral_trade_visualize_def and_then_Inr_iff Let_def split: if_splits)
  define rows where "rows = (''Program'', preset_name p) # head_rows (view_program_id ?view) parsed
    @ named_by (matching_instruction (context_data context) (idl_instructions libs idl)) (view_accounts ?view)
    @ arg_rows format_plain_value parsed"
  have field: "field = preset_preview libs context (view_program_id ?view) (parsed_title p parsed) (preset_name p)
      (row_fields ((''Instruction'', parsed_title p parsed) # arg_rows format_plain_value parsed))
      (row_fields rows @ [plain_text_field ''Raw Data'' (default_hex_representation (context_data context))])"
    using vis dec by (simp add: neutral_trade_visualize_def Let_def raw_data_eq rows_def)
  show ?thesis unfolding field by (rule faithful_direct [where embedded = embedded and p = p and named = named_by, OF dec p]) (auto simp: rows_def)
qed

lemma onre_app_faithful:
  assumes vis: "onre_app_visualize libs embedded p context = Inr field" and p: "p \<in> set eight_byte_presets"
  shows "faithful_preview libs embedded p 8 context field"
proof -
  from vis obtain idl parsed where dec: "\<not> length (context_data context) < 8" "idl_of libs embedded p = Inr idl"
    "parse_instruction_with_idl libs (context_data context) (preset_pid p) idl = Inr parsed"
    by (auto simp: onre_app_visualize_def onre_app_parse_def and_then_Inr_iff Let_def split: if_splits)
  have "listed_by = named_by \<or> listed_by = listed_by" by simp
  from faithful_direct [where embedded = embedded and p = p, OF dec p this order_refl] vis dec show ?thesis
    by (auto simp: onre_app_visualize_def onre_app_parse_def Let_def converted_raw_eq)
qed

lemma orca_faithful:
  assumes vis: "orca_visualize libs embedded ORCA_WHIRLPOOL context = Inr field"
  shows "faithful_preview libs embedded ORCA_WHIRLPOOL 8 context field"
proof -
  let ?p = ORCA_WHIRLPOOL and ?view = "view_from_context (show_key libs) context" and ?data = "context_data context"
  from vis obtain idl parsed where dec: "\<not> length ?data < 8" "idl_of libs embedded ?p = Inr idl"
    "parse_instruction_with_idl libs ?data (preset_pid ?p) idl = Inr parsed"
    by (auto simp: orca_visualize_def orca_parse_def and_then_Inr_iff Let_def split: if_splits)
  define rows where "rows = [(''Program ID'', view_program_id ?view), (''Instruction Name'', pi_instruction_name parsed)]
    @ map (\<lambda>(name, pubkey). (''Account: '' @ name, pubkey)) (orca_named_accounts parsed (view_accounts ?view))
    @ map (\<lambda>(name, v). (''Arg: '' @ name, format_plain_value v)) (sort_entries (pi_program_call_args parsed))"
  define es where "es = row_fields rows @ [plain_text_field ''Raw Data'' (default_hex_representation ?data)]"
  have field: "field = preset_preview libs context (view_program_id ?view) (parsed_title ?p parsed) []
      (row_fields [(''Instruction'', parsed_title ?p parsed)]) es"
    using vis dec by (simp add: orca_visualize_def orca_parse_def orca_expanded_fields_def Let_def converted_raw_eq rows_def es_def)
  have rows: "text_rows es = rows @ [(''Raw Data'', default_hex_representation ?data)]" by (simp add: es_def)
  have args: "(''Arg: '' @ k, format_plain_value v) \<in> set (text_rows es)" if "(k, v) \<in> set (pi_program_call_args parsed)" for k v
    using that by (auto simp: rows rows_def)
  have accounts: "(''Account: '' @ n, a) \<in> set (text_rows es)" if "(n, a) \<in> set (orca_named_accounts parsed (view_accounts ?view))" for n a
    using that by (force simp: rows rows_def)
  have numbered: "(''Account '' @ nat_str i, accounts ! i) \<in> set (orca_named_accounts parsed accounts)"
    if "pi_named_accounts parsed = []" "i < length accounts" for i accounts
    using that by (force simp: orca_named_accounts_def sort_entries_def in_set_enumerate_eq)
  have parsed: "set (pi_named_accounts parsed) \<subseteq> set (orca_named_accounts parsed accounts)" for accounts
    by (cases "pi_named_accounts parsed = []") (simp_all add: orca_named_accounts_def sort_entries_def Let_def flip: set_empty)
  have "decoded_shown libs ?p ?data idl parsed (view_accounts ?view) (set (text_rows es))"
    using args accounts [OF subsetD [OF parsed]] accounts [OF numbered] preset_classes(14)
    by (auto simp: decoded_shown_def arg_label_def arg_text_def Let_def)
  moreover have "preset_decode libs embedded ?p 8 ?data = Some (idl, parsed)" using dec by (simp add: preset_decode_def)
  ultimately show ?thesis
    unfolding faithful_preview_def Let_def field
    by (intro exI [of _ "parsed_title ?p parsed"] exI [of _ "[]"] exI [of _ "row_fields [(''Instruction'', parsed_title ?p parsed)]"]
        exI [of _ es]) (auto simp: rows rows_def es_def parsed_title_def)
qed

text \<open>The contract of \<^verbatim>\<open>core/arg_rendering.rs\<close>: printable text without quotes and backslashes.\<close>

definition arg_char :: "char \<Rightarrow> bool" where
  "arg_char c = (c = CHR '' '' \<or> is_ascii_graphic c \<and> c \<noteq> CHR 0x22 \<and> c \<noteq> CHR 0x5C)"

lemma list_all_join: "list_all P sep \<Longrightarrow> (\<And>x. x \<in> set xs \<Longrightarrow> list_all P x) \<Longrightarrow> list_all P (join sep xs)"
  by (induction sep xs rule: join.induct) (auto simp: list_all_append)

lemma list_all_int_str: "list_all arg_char (int_str n)"
  using nat_str_digits [of _ "nat n"] nat_str_digits [of _ "nat (- n)"]
  by (fastforce simp: list_all_iff arg_char_def int_str_def is_ascii_graphic_def code_def)

lemma arg_char_punctuation:
  "arg_char (CHR ''['')" "arg_char (CHR '']'')" "arg_char (CHR '','')" "arg_char (CHR ''0'')" "arg_char (CHR ''x'')"
  "arg_char (CHR ''{'')" "arg_char (CHR ''}'')" "arg_char (CHR '':'')"
  by (simp_all add: arg_char_def is_ascii_graphic_def code_def)

lemma arg_charset_safe_clean: "list_all arg_char (arg_charset_safe s)"
  by (auto simp: list_all_iff arg_char_def arg_charset_safe_def)

lemma format_arg_value_clean:
  assumes enc: "\<And>bs. list_all arg_char (enc bs)"
  shows "list_all arg_char (format_arg_value enc v)"
proof (induction v)
  case (JArray items)
  then show ?case
    by (auto simp: bytes_as_hex_def enc arg_char_punctuation intro!: list_all_join split: option.splits if_splits)
next
  case (JObject m)
  then show ?case by (force simp: arg_char_punctuation arg_charset_safe_clean intro!: list_all_join)
qed (simp_all add: list_all_int_str arg_charset_safe_clean, simp_all add: arg_char_def is_ascii_graphic_def code_def)

section \<open>When a preset shows an instruction\<close>

text \<open>Seven presets have no view for data that does not decode and return an error; Drift does so when an index does not
  resolve. Nothing else makes a preset fail.\<close>

definition failing_presets :: "IdlPreset list" where
  "failing_presets =
     [METADAO_CONDITIONAL_VAULT, METADAO_FUTARCHY, METEORA_DAMM_V2, METEORA_DLMM, NEUTRAL_TRADE, ONRE_APP, ORCA_WHIRLPOOL]"

definition all_resolve :: "('k, 'i) VisualizerContext \<Rightarrow> bool" where
  "all_resolve ctx \<longleftrightarrow>
     (\<forall>idx \<in> set (program_id_index (compiled_instruction ctx) # instruction_accounts (compiled_instruction ctx)).
        unat idx < length (context_account_keys ctx))"

definition answers :: "('k, 'i) SolanaLibs \<Rightarrow> (string \<Rightarrow> string) \<Rightarrow> IdlPreset \<Rightarrow> nat \<Rightarrow> ('k, 'i) VisualizerContext \<Rightarrow> bool" where
  "answers libs embedded p min_len ctx \<longleftrightarrow>
     (p = DRIFT \<longrightarrow> all_resolve ctx)
     \<and> (p \<in> set failing_presets \<longrightarrow> preset_decode libs embedded p min_len (context_data ctx) \<noteq> None)"

lemma collect_results_ok: "(\<exists>as. collect_results rs = Inr as) \<longleftrightarrow> (\<forall>r \<in> set rs. \<exists>a. r = Inr a)"
  by (induction rs) (auto simp: and_then_Inr_iff)

lemma all_resolve_iff:
  "all_resolve ctx \<longleftrightarrow> (\<exists>k. resolve_program_id ctx = Inr k) \<and> (\<exists>as. resolve_accounts ctx = Inr as)"
proof -
  have "(\<exists>k. resolve_program_id ctx = Inr k) \<longleftrightarrow> unat (program_id_index (compiled_instruction ctx)) < length (context_account_keys ctx)"
    by (auto simp: resolve_program_id_def program_id_def slice_get_def Let_def)
  moreover have "(\<exists>as. resolve_accounts ctx = Inr as) \<longleftrightarrow>
      (\<forall>idx \<in> set (instruction_accounts (compiled_instruction ctx)). unat idx < length (context_account_keys ctx))"
    unfolding resolve_accounts_def collect_results_ok
    by (auto simp: account_def slice_get_def num_accounts_def all_set_conv_all_nth)
  ultimately show ?thesis by (simp add: all_resolve_def)
qed

lemma fallback_answers:
  assumes "p \<notin> set failing_presets" "p \<noteq> DRIFT"
  shows "answers libs embedded p min_len ctx"
  using assms by (simp add: answers_def)

lemma decode_answers:
  assumes "p \<in> set failing_presets"
  shows "answers libs embedded p 8 ctx \<longleftrightarrow>
    \<not> length (context_data ctx) < 8
    \<and> (\<exists>idl parsed. idl_of libs embedded p = Inr idl \<and> parse_instruction_with_idl libs (context_data ctx) (preset_pid p) idl = Inr parsed)"
proof -
  have "p \<noteq> DRIFT" using assms by (auto simp: failing_presets_def preset_constants)
  with assms show ?thesis by (auto simp: answers_def preset_decode_def ok_def split: sum.splits)
qed

lemma lenient_total: "\<exists>field. lenient_visualize libs embedded p ctx = Inr field"
  by (simp add: lenient_visualize_def Let_def split: prod.split)

lemma strict_total: "\<exists>field. strict_visualize libs ctx pid (view_fields title cs es) = Inr field"
  by (simp add: strict_rows)

lemma perps_total: "\<exists>field. perps_visualize libs embedded p n ctx = Inr field"
  by (auto simp: perps_visualize_def perps_parsed_fields_def unknown_fields_def Let_def strict_total split: sum.split)

lemma dflow_total: "\<exists>field. dflow_visualize libs embedded p ctx = Inr field"
  by (auto simp: dflow_visualize_def dflow_parsed_fields_def unknown_fields_def Let_def strict_total split: sum.split)

lemma marginfi_total: "\<exists>field. marginfi_visualize libs embedded p ctx = Inr field"
  by (auto simp: marginfi_visualize_def marginfi_parsed_fields_def marginfi_fallback_fields_def Let_def strict_total split: sum.split)

lemma kamino_total: "\<exists>field. kamino_visualize libs embedded p raw_text ctx = Inr field"
  by (auto simp: kamino_visualize_def Let_def view_fields_def raw_data_eq split: sum.splits prod.splits)

lemma drift_answers: "(\<exists>field. drift_visualize libs embedded DRIFT ctx = Inr field) \<longleftrightarrow> answers libs embedded DRIFT 8 ctx"
proof -
  have "DRIFT \<notin> set failing_presets" by (simp add: failing_presets_def preset_constants)
  then have "answers libs embedded DRIFT 8 ctx \<longleftrightarrow> (\<exists>k as. resolve_program_id ctx = Inr k \<and> resolve_accounts ctx = Inr as)"
    by (auto simp: answers_def all_resolve_iff)
  moreover have "\<exists>field. strict_visualize libs ctx pid (case r of Inr i \<Rightarrow> drift_parsed_fields DRIFT i pid | Inl _ \<Rightarrow> unknown_fields DRIFT pid)
      = Inr field" for pid and r :: "(string, PresetInstruction) result"
    by (cases r) (simp_all add: drift_parsed_fields_def unknown_fields_def Let_def strict_total)
  ultimately show ?thesis
    by (cases "resolve_program_id ctx"; cases "resolve_accounts ctx") (simp_all add: drift_visualize_def Let_def)
qed

lemma failing_answers:
  assumes "p \<in> set failing_presets"
  shows "(\<exists>field. metadao_visualize libs embedded p ctx = Inr field) \<longleftrightarrow> answers libs embedded p 8 ctx"
    and "(\<exists>field. meteora_damm_v2_visualize libs embedded p ctx = Inr field) \<longleftrightarrow> answers libs embedded p 8 ctx"
    and "(\<exists>field. meteora_dlmm_visualize libs embedded p ctx = Inr field) \<longleftrightarrow> answers libs embedded p 8 ctx"
    and "(\<exists>field. neutral_trade_visualize libs embedded p ctx = Inr field) \<longleftrightarrow> answers libs embedded p 8 ctx"
    and "(\<exists>field. onre_app_visualize libs embedded p ctx = Inr field) \<longleftrightarrow> answers libs embedded p 8 ctx"
    and "(\<exists>field. orca_visualize libs embedded p ctx = Inr field) \<longleftrightarrow> answers libs embedded p 8 ctx"
  unfolding decode_answers [OF assms]
  by (auto simp: metadao_visualize_def meteora_damm_v2_visualize_def meteora_damm_v2_parse_def meteora_dlmm_visualize_def
      neutral_trade_visualize_def onre_app_visualize_def onre_app_parse_def orca_visualize_def orca_parse_def orca_expanded_fields_def
      Let_def and_then_Inr_iff raw_data_eq converted_raw_eq ok_or_def ok_def split: sum.splits)

section \<open>The interface\<close>

text \<open>
  A preset with an embedded IDL: its configuration has its own program, its previews are faithful, and it is known when it
  gives one.
\<close>

locale idl_preset =
  fixes libs :: "('k, 'i) SolanaLibs" and embedded :: "string \<Rightarrow> string" and p :: IdlPreset and min_len :: nat
    and v :: "('k, 'i) Visualizer"
  assumes handles: "can_handle v ctx = default_can_handle (show_key libs) (Some (preset_config (preset_pid p))) ctx"
    and faithful: "visualize_tx_commands v ctx = Inr field \<Longrightarrow> faithful_preview libs embedded p min_len ctx field"
    and answered: "(\<exists>field. visualize_tx_commands v ctx = Inr field) \<longleftrightarrow> answers libs embedded p min_len ctx"
begin

lemma own_program: "can_handle v ctx \<longleftrightarrow> (\<exists>k. program_id ctx = ProgramResolved k \<and> show_key libs k = preset_pid p)"
  by (auto simp: handles default_can_handle_def preset_config_def integration_config_new_def default_config_can_handle_def
      split: ProgramRef.splits)

end

lemma preset_modes:
  "KAMINO_FARMS \<notin> set failing_presets" "KAMINO_LIMIT \<notin> set failing_presets" "KAMINO_VAULT \<notin> set failing_presets"
  "KAMINO_FARMS \<noteq> DRIFT" "KAMINO_LIMIT \<noteq> DRIFT" "KAMINO_VAULT \<noteq> DRIFT"
  "DFLOW_AGGREGATOR \<notin> set failing_presets" "EXPONENT_FINANCE \<notin> set failing_presets" "JUPITER_BORROW \<notin> set failing_presets"
  "JUPITER_EARN \<notin> set failing_presets" "JUPITER_PERPS \<notin> set failing_presets" "KAMINO_BORROW \<notin> set failing_presets"
  "MARGINFI \<notin> set failing_presets"
  "METADAO_CONDITIONAL_VAULT \<in> set failing_presets" "METADAO_FUTARCHY \<in> set failing_presets" "METEORA_DAMM_V2 \<in> set failing_presets"
  "METEORA_DLMM \<in> set failing_presets" "NEUTRAL_TRADE \<in> set failing_presets" "ONRE_APP \<in> set failing_presets"
  "ORCA_WHIRLPOOL \<in> set failing_presets"
  by (simp_all add: failing_presets_def preset_constants)

lemma plain_not_drift: "plain_preset p \<Longrightarrow> p \<noteq> DRIFT"
  by (simp add: plain_preset_def)

lemmas preset_laws = preset_class_simps eight_byte_members preset_modes fallback_answers plain_not_drift

interpretation dflow: idl_preset libs embedded DFLOW_AGGREGATOR 8 "dflow_aggregator_visualizer libs embedded" for libs embedded
  by unfold_locales (simp_all add: dflow_aggregator_visualizer_def preset_visualizer_def dflow_faithful dflow_total preset_laws)

interpretation drift: idl_preset libs embedded DRIFT 8 "drift_visualizer libs embedded" for libs embedded
  by unfold_locales (simp_all add: drift_visualizer_def preset_visualizer_def drift_faithful drift_answers preset_laws)

interpretation exponent: idl_preset libs embedded EXPONENT_FINANCE 1 "exponent_finance_visualizer libs embedded" for libs embedded
  by unfold_locales (simp_all add: exponent_finance_visualizer_def preset_visualizer_def perps_faithful perps_total preset_laws)

interpretation jupiter_borrow: idl_preset libs embedded JUPITER_BORROW 8 "jupiter_borrow_visualizer libs embedded" for libs embedded
  by unfold_locales (simp_all add: jupiter_borrow_visualizer_def preset_visualizer_def lenient_faithful lenient_total preset_laws)

interpretation jupiter_earn: idl_preset libs embedded JUPITER_EARN 8 "jupiter_earn_visualizer libs embedded" for libs embedded
  by unfold_locales (simp_all add: jupiter_earn_visualizer_def preset_visualizer_def lenient_faithful lenient_total preset_laws)

interpretation jupiter_perps: idl_preset libs embedded JUPITER_PERPS 8 "jupiter_perps_visualizer libs embedded" for libs embedded
  by unfold_locales (simp_all add: jupiter_perps_visualizer_def preset_visualizer_def perps_faithful perps_total preset_laws)

interpretation kamino_borrow: idl_preset libs embedded KAMINO_BORROW 8 "kamino_borrow_visualizer libs embedded" for libs embedded
  by unfold_locales (simp_all add: kamino_borrow_visualizer_def preset_visualizer_def lenient_faithful lenient_total preset_laws)

interpretation kamino_farms: idl_preset libs embedded KAMINO_FARMS 8 "kamino_farms_visualizer libs embedded" for libs embedded
  by unfold_locales (auto simp: kamino_farms_visualizer_def preset_visualizer_def kamino_total preset_laws intro: kamino_faithful)

interpretation kamino_limit: idl_preset libs embedded KAMINO_LIMIT 8 "kamino_limit_visualizer libs embedded" for libs embedded
  by unfold_locales (auto simp: kamino_limit_visualizer_def preset_visualizer_def kamino_total preset_laws intro: kamino_faithful)

interpretation kamino_vault: idl_preset libs embedded KAMINO_VAULT 8 "kamino_vault_visualizer libs embedded" for libs embedded
  by unfold_locales (auto simp: kamino_vault_visualizer_def preset_visualizer_def kamino_total preset_laws intro: kamino_faithful)

interpretation marginfi: idl_preset libs embedded MARGINFI 8 "marginfi_visualizer libs embedded" for libs embedded
  by unfold_locales (simp_all add: marginfi_visualizer_def preset_visualizer_def marginfi_faithful marginfi_total preset_laws)

interpretation metadao_vault: idl_preset libs embedded METADAO_CONDITIONAL_VAULT 8 "metadao_conditional_vault_visualizer libs embedded" for libs embedded
  by unfold_locales (simp_all add: metadao_conditional_vault_visualizer_def preset_visualizer_def metadao_faithful failing_answers preset_laws)

interpretation metadao_futarchy: idl_preset libs embedded METADAO_FUTARCHY 8 "metadao_futarchy_visualizer libs embedded" for libs embedded
  by unfold_locales (simp_all add: metadao_futarchy_visualizer_def preset_visualizer_def metadao_faithful failing_answers preset_laws)

interpretation damm: idl_preset libs embedded METEORA_DAMM_V2 8 "meteora_damm_v2_visualizer libs embedded" for libs embedded
  by unfold_locales (simp_all add: meteora_damm_v2_visualizer_def preset_visualizer_def meteora_damm_v2_faithful failing_answers preset_laws)

interpretation dlmm: idl_preset libs embedded METEORA_DLMM 8 "meteora_dlmm_visualizer libs embedded" for libs embedded
  by unfold_locales (simp_all add: meteora_dlmm_visualizer_def preset_visualizer_def meteora_dlmm_faithful failing_answers preset_laws)

interpretation neutral_trade: idl_preset libs embedded NEUTRAL_TRADE 8 "neutral_trade_visualizer libs embedded" for libs embedded
  by unfold_locales (simp_all add: neutral_trade_visualizer_def preset_visualizer_def neutral_trade_faithful failing_answers preset_laws)

interpretation onre: idl_preset libs embedded ONRE_APP 8 "onre_app_visualizer libs embedded" for libs embedded
  by unfold_locales (simp_all add: onre_app_visualizer_def preset_visualizer_def onre_app_faithful failing_answers preset_laws)

interpretation orca: idl_preset libs embedded ORCA_WHIRLPOOL 8 "orca_whirlpool_visualizer libs embedded" for libs embedded
  by unfold_locales (simp_all add: orca_whirlpool_visualizer_def preset_visualizer_def orca_faithful failing_answers preset_laws)

lemmas preset_programs = dflow.own_program drift.own_program exponent.own_program jupiter_borrow.own_program
  jupiter_earn.own_program jupiter_perps.own_program kamino_borrow.own_program kamino_farms.own_program
  kamino_limit.own_program kamino_vault.own_program marginfi.own_program metadao_vault.own_program
  metadao_futarchy.own_program damm.own_program dlmm.own_program neutral_trade.own_program onre.own_program
  orca.own_program

lemmas preset_faithfuls = dflow.faithful drift.faithful exponent.faithful jupiter_borrow.faithful
  jupiter_earn.faithful jupiter_perps.faithful kamino_borrow.faithful kamino_farms.faithful kamino_limit.faithful
  kamino_vault.faithful marginfi.faithful metadao_vault.faithful metadao_futarchy.faithful damm.faithful
  dlmm.faithful neutral_trade.faithful onre.faithful orca.faithful

lemmas preset_answers = dflow.answered drift.answered exponent.answered jupiter_borrow.answered
  jupiter_earn.answered jupiter_perps.answered kamino_borrow.answered kamino_farms.answered kamino_limit.answered
  kamino_vault.answered marginfi.answered metadao_vault.answered metadao_futarchy.answered damm.answered
  dlmm.answered neutral_trade.answered onre.answered orca.answered

lemma preset_not_exponent:
  "(DFLOW_AGGREGATOR = EXPONENT_FINANCE) = False" "(DRIFT = EXPONENT_FINANCE) = False" "(JUPITER_BORROW = EXPONENT_FINANCE) = False"
  "(JUPITER_EARN = EXPONENT_FINANCE) = False" "(JUPITER_PERPS = EXPONENT_FINANCE) = False" "(KAMINO_BORROW = EXPONENT_FINANCE) = False"
  "(KAMINO_FARMS = EXPONENT_FINANCE) = False" "(KAMINO_LIMIT = EXPONENT_FINANCE) = False" "(KAMINO_VAULT = EXPONENT_FINANCE) = False"
  "(MARGINFI = EXPONENT_FINANCE) = False" "(METADAO_CONDITIONAL_VAULT = EXPONENT_FINANCE) = False"
  "(METADAO_FUTARCHY = EXPONENT_FINANCE) = False" "(METEORA_DAMM_V2 = EXPONENT_FINANCE) = False" "(METEORA_DLMM = EXPONENT_FINANCE) = False"
  "(NEUTRAL_TRADE = EXPONENT_FINANCE) = False" "(ONRE_APP = EXPONENT_FINANCE) = False" "(ORCA_WHIRLPOOL = EXPONENT_FINANCE) = False"
  by (simp_all add: preset_constants)

section \<open>An instance\<close>

text \<open>An instruction of Exponent with a discriminator of one byte.\<close>

definition preset_sample_parsed :: ParserInstructionData where
  "preset_sample_parsed = \<lparr>pi_instruction_name = ''merge'', pi_discriminator = ''07'', pi_named_accounts = [],
     pi_program_call_args = [(''amount'', JNumber 5)], pi_idl_source = SourcePreset, pi_idl_hash = []\<rparr>"

definition preset_sample_libs :: "(string, unit) SolanaLibs" where
  "preset_sample_libs = sol_sample_libs\<lparr>parse_instruction_with_idl := (\<lambda>_ _ _. Inr preset_sample_parsed),
     idl_instructions := (\<lambda>_. [\<lparr>inst_name = ''merge'', inst_discriminator = Some [7], inst_accounts = [''owner''], inst_rest = JNull\<rparr>])\<rparr>"

definition preset_sample_context :: "(string, unit) VisualizerContext" where
  "preset_sample_context =
     context_new \<lparr>pa_account_key = ''payer'', pa_signer = False, pa_writable = False\<rparr>
       \<lparr>program_id_index = 1, instruction_accounts = [0], instruction_data = [7, 5]\<rparr>
       [''payer'', preset_pid EXPONENT_FINANCE] idl_registry_new 0"

lemma sample_account:
  "account_named EXPONENT_FINANCE [7, 5] (idl_instructions preset_sample_libs ()) [''payer''] ''owner'' ''payer''"
  using preset_classes(2)
  by (simp add: account_named_def opened_by_def preset_sample_libs_def plain_preset_def)

section \<open>Property\<close>

text \<open>C20: the eighteen presets that decode by an embedded IDL. A preset takes exactly the instructions whose program resolves
  to its own. It shows what it takes, with two exceptions that are errors: Drift when an index of the instruction does not
  resolve, and seven presets (\<open>failing_presets\<close>) when the data does not decode. What it shows has the program and the raw
  bytes. If the IDL decodes the data, the title names the instruction, every argument has its row, and so has every account of
  the instruction whose own discriminator opens the data (of any length, or of eight bytes for \<open>eight_byte_presets\<close>), by the
  name that the IDL gives to its position; where an IDL gives two positions of one instruction the same name, the last of
  them has the row. Orca shows each account that the parser named, and numbers all accounts when it named none. If the data
  does not decode, the title and a status row say so.\<close>

theorem idl_presets_faithful:
  assumes "(p, v) \<in> set (idl_presets libs embedded)"
  defines "min_len \<equiv> if p = EXPONENT_FINANCE then 1 else 8"
  shows "(can_handle v ctx \<longleftrightarrow> (\<exists>k. program_id ctx = ProgramResolved k \<and> show_key libs k = preset_pid p))
    \<and> ((\<exists>field. visualize_tx_commands v ctx = Inr field) \<longleftrightarrow>
         (p = DRIFT \<longrightarrow> all_resolve ctx)
         \<and> (p \<in> set failing_presets \<longrightarrow> preset_decode libs embedded p min_len (context_data ctx) \<noteq> None))
    \<and> (visualize_tx_commands v ctx = Inr field \<longrightarrow> faithful_preview libs embedded p min_len ctx field)"
proof -
  have "list_all (\<lambda>(p, v). (can_handle v ctx \<longleftrightarrow> (\<exists>k. program_id ctx = ProgramResolved k \<and> show_key libs k = preset_pid p))
    \<and> ((\<exists>field. visualize_tx_commands v ctx = Inr field) \<longleftrightarrow> answers libs embedded p (if p = EXPONENT_FINANCE then 1 else 8) ctx)
    \<and> (visualize_tx_commands v ctx = Inr field \<longrightarrow>
        faithful_preview libs embedded p (if p = EXPONENT_FINANCE then 1 else 8) ctx field)) (idl_presets libs embedded)"
    unfolding idl_presets_def list.pred_inject prod.case preset_not_exponent simp_thms(6) if_False if_True
    by (intro conjI impI) (rule preset_programs | rule preset_answers | erule preset_faithfuls | simp)+
  from list_all_iff [THEN iffD1, OF this, THEN bspec, OF assms(1)] show ?thesis
    unfolding prod.case answers_def min_len_def .
qed

theorem idl_presets_faithful_witness:
  "\<exists>field title subtitle condensed expanded.
     visualize_tx_commands (exponent_finance_visualizer preset_sample_libs (\<lambda>_. [])) preset_sample_context = Inr field
     \<and> field = preset_preview preset_sample_libs preset_sample_context (preset_pid EXPONENT_FINANCE) title subtitle condensed expanded
     \<and> title = ''Exponent Finance: merge''
     \<and> {(''Program ID'', preset_pid EXPONENT_FINANCE), (''amount'', ''5''), (''owner'', ''payer'')} \<subseteq> set (text_rows expanded)"
proof -
  let ?libs = preset_sample_libs and ?ctx = preset_sample_context
  have "(EXPONENT_FINANCE, exponent_finance_visualizer ?libs (\<lambda>_. [])) \<in> set (idl_presets ?libs (\<lambda>_. []))"
    by (simp add: idl_presets_def)
  note exponent = idl_presets_faithful [OF this, of ?ctx]
  then obtain field where f: "visualize_tx_commands (exponent_finance_visualizer ?libs (\<lambda>_. [])) ?ctx = Inr field"
    "faithful_preview ?libs (\<lambda>_. []) EXPONENT_FINANCE 1 ?ctx field"
    using preset_modes(8) preset_classes(2) plain_not_drift by (metis (full_types))
  have "preset_decode ?libs (\<lambda>_. []) EXPONENT_FINANCE 1 [7, 5] = Some ((), preset_sample_parsed)"
    "context_data ?ctx = [7, 5]" "view_accounts (view_from_context (show_key ?libs) ?ctx) = [''payer'']"
    "view_program_id (view_from_context (show_key ?libs) ?ctx) = preset_pid EXPONENT_FINANCE"
    by (simp_all add: preset_decode_def preset_sample_libs_def sol_sample_libs_def preset_sample_context_def context_new_def
        context_data_def view_from_context_def program_id_def account_def slice_get_def num_accounts_def)
  note sample = this
  have "arg_text EXPONENT_FINANCE enc (JNumber 5) = ''5''" "arg_label EXPONENT_FINANCE names key = key"
    "named_label EXPONENT_FINANCE parsed key = key" for enc names key parsed
    using preset_classes(2,8) by (simp_all add: arg_text_def arg_label_def named_label_def plain_preset_def int_str_def nat_str.simps digit_char_def char_of_def bit_0)
  note texts = this
  from f(2) obtain title subtitle condensed expanded where
    "field = preset_preview ?libs ?ctx (preset_pid EXPONENT_FINANCE) title subtitle condensed expanded"
    "(''Program ID'', preset_pid EXPONENT_FINANCE) \<in> set (text_rows expanded)"
    "title = preset_name EXPONENT_FINANCE @ '': '' @ pi_instruction_name preset_sample_parsed"
    "decoded_shown ?libs EXPONENT_FINANCE [7, 5] () preset_sample_parsed [''payer''] (set (text_rows expanded))"
    unfolding faithful_preview_def Let_def sample option.case prod.case by blast
  moreover from this(4) have "(''amount'', ''5'') \<in> set (text_rows expanded)" "(''owner'', ''payer'') \<in> set (text_rows expanded)"
    using sample_account preset_classes(2) by (auto simp: decoded_shown_def texts preset_sample_parsed_def plain_preset_def Let_def)
  ultimately show ?thesis using f(1)
    by (intro exI [of _ field] exI [of _ title] exI [of _ subtitle] exI [of _ condensed] exI [of _ expanded])
      (simp add: preset_sample_parsed_def EXPONENT_FINANCE_def)
qed

end
