(* ===== verification/SolanaPrograms.thy ===== *)
theory SolanaPrograms
  imports SolanaPresetFacts Borsh
begin

text \<open>
  What the presets that do not decode by an IDL take from other crates: the instruction types of the token and system
  programs with their decoders, keys made from bytes, program addresses and hashes, together the record \<open>ProgramLibs\<close>; and
  the reading of little-endian integers and slices that these presets share.
\<close>

section \<open>Instructions of the programs\<close>

text \<open>\<^verbatim>\<open>spl_token::instruction\<close>, with the source's variants; a \<^verbatim>\<open>COption\<close> is an option.\<close>

datatype AuthorityType = MintTokensType | FreezeAccountType | AccountOwnerType | CloseAccountType

datatype 'k TokenInstruction =
    InitializeMint byte 'k "'k option"
  | InitializeAccount
  | InitializeMultisig byte
  | TokenTransfer u64
  | TokenApprove u64
  | TokenRevoke
  | SetAuthority AuthorityType "'k option"
  | MintTo u64
  | TokenBurn u64
  | CloseAccount
  | FreezeAccount
  | ThawAccount
  | TransferChecked u64 byte
  | ApproveChecked u64 byte
  | MintToChecked u64 byte
  | BurnChecked u64 byte
  | InitializeAccount2 'k
  | SyncNative
  | InitializeAccount3 'k
  | InitializeMultisig2 byte
  | InitializeMint2 byte 'k "'k option"
  | GetAccountDataSize
  | InitializeImmutableOwner
  | AmountToUiAmount u64
  | UiAmountToAmount string

text \<open>\<^verbatim>\<open>SystemInstruction\<close>, of which only the transfer is read.\<close>

datatype SystemInstruction = SystemTransfer u64 | SystemOther

record 'k ProgramLibs =
  key_from_array :: "bytes \<Rightarrow> 'k"
  keccak_hash :: "bytes \<Rightarrow> bytes"
  base64_standard :: "bytes \<Rightarrow> string"
  spl_token_ID :: 'k
  system_program_ID :: 'k
  token_unpack :: "bytes \<Rightarrow> 'k TokenInstruction option"
  system_deserialize :: "bytes \<Rightarrow> SystemInstruction option"
  find_program_address :: "bytes list \<Rightarrow> 'k \<Rightarrow> 'k"

section \<open>Reading bytes\<close>

text \<open>\<^verbatim>\<open>&data[a..b]\<close> within bounds, and \<^verbatim>\<open>from_le_bytes\<close> of the slice at a position.\<close>

definition slice :: "bytes \<Rightarrow> nat \<Rightarrow> nat \<Rightarrow> bytes" where
  "slice data a b = take (b - a) (drop a data)"

definition u16_at :: "bytes \<Rightarrow> nat \<Rightarrow> 16 word" where
  "u16_at data i = of_nat (le_nat (slice data i (i + 2)))"

definition u32_at :: "bytes \<Rightarrow> nat \<Rightarrow> u32" where
  "u32_at data i = of_nat (le_nat (slice data i (i + 4)))"

definition u64_at :: "bytes \<Rightarrow> nat \<Rightarrow> u64" where
  "u64_at data i = of_nat (le_nat (slice data i (i + 8)))"

definition u128_at :: "bytes \<Rightarrow> nat \<Rightarrow> 128 word" where
  "u128_at data i = of_nat (le_nat (slice data i (i + 16)))"

text \<open>\<^verbatim>\<open>to_string\<close> of an unsigned integer.\<close>

definition uint_str :: "'a::len word \<Rightarrow> string" where
  "uint_str w = nat_str (unat w)"

definition bool_str :: "bool \<Rightarrow> string" where
  "bool_str b = (if b then ''true'' else ''false'')"

abbreviation newline :: string where
  "newline \<equiv> [CHR 0x0A]"

text \<open>\<^verbatim>\<open>saturating_add(1)\<close> on the call depth.\<close>

definition deeper :: "u64 \<Rightarrow> u64" where
  "deeper depth = (if depth = - 1 then depth else depth + 1)"

section \<open>Facts\<close>

lemma length_slice: "length (slice data a b) = min (b - a) (length data - a)"
  by (simp add: slice_def)

lemma slice_append: "slice (xs @ ys) (length xs) (length xs + n) = take n ys"
  by (simp add: slice_def)

lemma unat_u16_at:
  assumes "i + 2 \<le> length data"
  shows "unat (u16_at data i) = le_nat (slice data i (i + 2))"
proof -
  have "le_nat (slice data i (i + 2)) < 2 ^ 16"
    using le_nat_less [of "slice data i (i + 2)"] assms by (simp add: length_slice)
  then show ?thesis by (simp add: u16_at_def unat_of_nat)
qed

lemma deeper_below: "depth < MAX_CALL_DEPTH \<Longrightarrow> unat (deeper depth) = Suc (unat depth)"
proof -
  assume d: "depth < MAX_CALL_DEPTH"
  then have "unat depth < 4" by (simp add: MAX_CALL_DEPTH_def word_less_nat_alt)
  then have "depth \<noteq> - 1" by (auto simp: unsigned_minus_1_eq_mask mask_eq_exp_minus_1)
  then show ?thesis using \<open>unat depth < 4\<close> by (simp add: deeper_def unat_word_ariths(1))
qed

end
