(* ===== verification/SolanaSwig.thy ===== *)
theory SolanaSwig
  imports SolanaPrograms FloatFmt
begin

text \<open>
  \<^verbatim>\<open>presets/swig_wallet\<close> of the Solana crate: the smart-wallet preset, which decodes the wallet's own instruction format and
  visualizes the instructions nested in it with the visualizers of the build, here the argument \<open>inner\<close>. Account metas are
  triples of key, signer flag and writable flag. A cursor into a payload is the rest of the payload after it, except where
  the data sets the cursor itself (\<open>decode_actions\<close>).
\<close>

section \<open>Data\<close>

text \<open>\<^verbatim>\<open>InnerAccountMeta\<close>, and \<^verbatim>\<open>ResolvedAccountMeta\<close>, whose fields are copied into it one by one.\<close>

record 'k InnerAccountMeta =
  inner_pubkey :: "'k option"
  inner_display :: string
  inner_is_signer :: bool
  inner_is_writable :: bool

record 'k DecodedInnerInstruction =
  inner_program_id :: "'k option"
  inner_program_display :: string
  inner_accounts :: "'k InnerAccountMeta list"
  inner_data :: bytes
  inner_description :: string

record 'k SignInstructionDecoded =
  sign_role_id :: u32
  instruction_payload_len :: nat
  sign_authority_payload :: bytes
  inner_instructions :: "'k DecodedInnerInstruction list"

datatype AuthorityUpdateDetails =
    ReplaceAll bytes | AddActions bytes | RemoveActionsByType bytes | RemoveActionsByIndex "16 word list" | LegacyUpdate bytes

datatype 'k SwigInstructionDecoded =
    CreateV1 (create_authority_type: "16 word") (create_bump: byte) (create_wallet_address_bump: byte)
      (wallet_id: bytes) (create_authority_data: bytes) (create_actions: bytes)
  | AddAuthorityV1 (add_acting_role_id: u32) (new_authority_type: "16 word") (num_actions: byte)
      (add_authority_data: bytes) (add_actions: bytes) (add_authority_payload: bytes)
  | RemoveAuthorityV1 (remove_acting_role_id: u32) (authority_to_remove_id: u32) (remove_authority_payload: bytes)
  | UpdateAuthorityV1 (update_acting_role_id: u32) (authority_to_update_id: u32)
      (update_operation: AuthorityUpdateDetails) (update_authority_payload: bytes)
  | SignV1 "'k SignInstructionDecoded"
  | SignV2 "'k SignInstructionDecoded"
  | CreateSessionV1 (session_role_id: u32) (session_duration: u64) (session_key: bytes) (session_authority_payload: bytes)
  | CreateSubAccountV1 (sub_account_role_id: u32) (sub_account_bump: byte) (sub_account_authority_payload: bytes)
  | WithdrawFromSubAccountV1 (withdraw_role_id: u32) (withdraw_amount: u64) (withdraw_authority_payload: bytes)
  | SubAccountSignV1 "'k SignInstructionDecoded"
  | ToggleSubAccountV1 (target_role_id: u32) (authority_role_id: u32) (toggle_enabled: bool) (toggle_authority_payload: bytes)
  | MigrateToWalletAddressV1 (migrate_wallet_address_bump: byte)
  | TransferAssetsV1 (transfer_role_id: u32) (transfer_authority_payload: bytes)
  | UnknownSwig (unknown_discriminator: "16 word") (unknown_raw_data: bytes)

datatype SwigInstructionKind =
    KCreateV1 | KAddAuthorityV1 | KRemoveAuthorityV1 | KUpdateAuthorityV1 | KSignV1 | KCreateSessionV1 | KCreateSubAccountV1
  | KWithdrawFromSubAccountV1 | KSubAccountSignV1 | KToggleSubAccountV1 | KSignV2 | KMigrateToWalletAddressV1 | KTransferAssetsV1

datatype SwigParseError = DataTooShort string | InvalidSwigFormat string | UnknownInstruction "16 word"

fun show_swig_error :: "SwigParseError \<Rightarrow> string" where
  "show_swig_error (DataTooShort ctx) = ''Instruction data too short: '' @ ctx"
| "show_swig_error (InvalidSwigFormat ctx) = ''Invalid instruction format: '' @ ctx"
| "show_swig_error (UnknownInstruction c) = ''Unknown Swig instruction discriminator '' @ uint_str c"

definition kind_try_from :: "16 word \<Rightarrow> (SwigParseError, SwigInstructionKind) result" where
  "kind_try_from v =
     (case map_of [(0, KCreateV1), (1, KAddAuthorityV1), (2, KRemoveAuthorityV1), (3, KUpdateAuthorityV1), (4, KSignV1),
                   (5, KCreateSessionV1), (6, KCreateSubAccountV1), (7, KWithdrawFromSubAccountV1), (9, KSubAccountSignV1),
                   (10, KToggleSubAccountV1), (11, KSignV2), (12, KMigrateToWalletAddressV1), (13, KTransferAssetsV1)] v of
        Some k \<Rightarrow> Inr k
      | None \<Rightarrow> Inl (UnknownInstruction v))"

section \<open>Names\<close>

definition authority_type_name :: "16 word \<Rightarrow> string" where
  "authority_type_name v =
     unwrap_or ''Unknown'' (map_of
       [(1, ''Ed25519''), (2, ''Ed25519 Session''), (3, ''Secp256k1''), (4, ''Secp256k1 Session''), (5, ''Secp256r1''),
        (6, ''Secp256r1 Session'')] v)"

definition permission_name :: "16 word \<Rightarrow> string" where
  "permission_name v =
     unwrap_or ''Unknown'' (map_of
       [(1, ''SolLimit''), (2, ''SolRecurringLimit''), (3, ''Program''), (4, ''ProgramScope''), (5, ''TokenLimit''),
        (6, ''TokenRecurringLimit''), (7, ''All''), (8, ''ManageAuthority''), (9, ''SubAccount''),
        (10, ''TokenDestinationLimit''), (11, ''TokenRecurringDestinationLimit''), (12, ''SolDestinationLimit''),
        (13, ''SolRecurringDestinationLimit''), (14, ''StakeLimit''), (15, ''StakeRecurringLimit''), (16, ''StakeAll'')] v)"

definition program_scope_type_name :: "u64 \<Rightarrow> string" where
  "program_scope_type_name v = unwrap_or ''unknown'' (map_of [(0, ''basic''), (1, ''fixed limit''), (2, ''recurring limit'')] v)"

definition numeric_type_name :: "u64 \<Rightarrow> string" where
  "numeric_type_name v = unwrap_or ''unknown'' (map_of [(0, ''u8''), (1, ''u32''), (2, ''u64''), (3, ''u128'')] v)"

fun swig_name :: "'k SwigInstructionDecoded \<Rightarrow> string" where
  "swig_name (CreateV1 _ _ _ _ _ _) = ''Create Wallet''"
| "swig_name (AddAuthorityV1 _ _ _ _ _ _) = ''Add Authority''"
| "swig_name (RemoveAuthorityV1 _ _ _) = ''Remove Authority''"
| "swig_name (UpdateAuthorityV1 _ _ _ _) = ''Update Authority''"
| "swig_name (SignV1 _) = ''Sign Transaction (v1)''"
| "swig_name (SignV2 _) = ''Sign Transaction (v2)''"
| "swig_name (CreateSessionV1 _ _ _ _) = ''Create Session''"
| "swig_name (CreateSubAccountV1 _ _ _) = ''Create Sub-Account''"
| "swig_name (WithdrawFromSubAccountV1 _ _ _) = ''Withdraw From Sub-Account''"
| "swig_name (SubAccountSignV1 _) = ''Sub-Account Sign''"
| "swig_name (ToggleSubAccountV1 _ _ _ _) = ''Toggle Sub-Account''"
| "swig_name (MigrateToWalletAddressV1 _) = ''Migrate Wallet''"
| "swig_name (TransferAssetsV1 _ _) = ''Transfer Assets''"
| "swig_name (UnknownSwig _ _) = ''Unknown''"

definition sign_summary :: "string \<Rightarrow> 'k SignInstructionDecoded \<Rightarrow> string" where
  "sign_summary what sign =
     what @ '' ('' @ nat_str (length (inner_instructions sign)) @ '' inner instruction(s), role #'' @ uint_str (sign_role_id sign) @ '')''"

fun swig_summary :: "'k SwigInstructionDecoded \<Rightarrow> string" where
  "swig_summary (CreateV1 authority_type _ _ _ _ _) = ''Swig: Create wallet ('' @ authority_type_name authority_type @ '')''"
| "swig_summary (AddAuthorityV1 acting_role_id authority_type _ _ _ _) =
     ''Swig: Add authority role #'' @ uint_str acting_role_id @ '' ('' @ authority_type_name authority_type @ '')''"
| "swig_summary (RemoveAuthorityV1 acting_role_id to_remove _) =
     ''Swig: Remove authority #'' @ uint_str to_remove @ '' (by role #'' @ uint_str acting_role_id @ '')''"
| "swig_summary (UpdateAuthorityV1 acting_role_id to_update _ _) =
     ''Swig: Update authority #'' @ uint_str to_update @ '' (by role #'' @ uint_str acting_role_id @ '')''"
| "swig_summary (SignV1 sign) = sign_summary ''Swig: Sign v1'' sign"
| "swig_summary (SignV2 sign) = sign_summary ''Swig: Sign v2'' sign"
| "swig_summary (CreateSessionV1 role_id _ _ _) = ''Swig: Create session (role #'' @ uint_str role_id @ '')''"
| "swig_summary (CreateSubAccountV1 role_id _ _) = ''Swig: Create sub-account (role #'' @ uint_str role_id @ '')''"
| "swig_summary (WithdrawFromSubAccountV1 role_id amount _) =
     ''Swig: Withdraw '' @ uint_str amount @ '' lamports from sub-account (role #'' @ uint_str role_id @ '')''"
| "swig_summary (SubAccountSignV1 sign) = sign_summary ''Swig: Sub-account sign'' sign"
| "swig_summary (ToggleSubAccountV1 target _ enabled _) =
     ''Swig: '' @ (if enabled then ''enable'' else ''disable'') @ '' sub-account role #'' @ uint_str target"
| "swig_summary (MigrateToWalletAddressV1 _) = ''Swig: Migrate wallet''"
| "swig_summary (TransferAssetsV1 role_id _) = ''Swig: Transfer assets (role #'' @ uint_str role_id @ '')''"
| "swig_summary (UnknownSwig discriminator _) = ''Swig: Unknown instruction ('' @ uint_str discriminator @ '')''"

section \<open>Parsing\<close>

definition parse_create_v1 :: "bytes \<Rightarrow> (SwigParseError, 'k SwigInstructionDecoded) result" where
  "parse_create_v1 data =
     (if length data < 40 then Inl (DataTooShort ''create_v1 header'')
      else let authority_data_len = unat (u16_at data 4)
           in if length data < 40 + authority_data_len then Inl (DataTooShort ''create_v1 authority data'')
              else Inr (CreateV1 (u16_at data 2) (data ! 6) (data ! 7) (slice data 8 40)
                          (slice data 40 (40 + authority_data_len)) (drop (40 + authority_data_len) data)))"

definition parse_add_authority_v1 :: "bytes \<Rightarrow> (SwigParseError, 'k SwigInstructionDecoded) result" where
  "parse_add_authority_v1 data =
     (if length data < 16 then Inl (DataTooShort ''add_authority_v1 header'')
      else let authority_data_len = unat (u16_at data 2); actions_data_len = unat (u16_at data 4)
           in if length data < 16 + authority_data_len + actions_data_len then Inl (DataTooShort ''add_authority_v1 payload'')
              else Inr (AddAuthorityV1 (u32_at data 12) (u16_at data 6) (data ! 8)
                          (slice data 16 (16 + authority_data_len))
                          (slice data (16 + authority_data_len) (16 + authority_data_len + actions_data_len))
                          (drop (16 + authority_data_len + actions_data_len) data)))"

definition parse_remove_authority_v1 :: "bytes \<Rightarrow> (SwigParseError, 'k SwigInstructionDecoded) result" where
  "parse_remove_authority_v1 data =
     (if length data < 16 then Inl (DataTooShort ''remove_authority_v1 header'')
      else Inr (RemoveAuthorityV1 (u32_at data 8) (u32_at data 12) (drop 16 data)))"

text \<open>\<^verbatim>\<open>chunks_exact(2)\<close> read as little-endian integers; an odd last byte is left out.\<close>

fun u16_chunks :: "bytes \<Rightarrow> 16 word list" where
  "u16_chunks (a # b # rest) = of_nat (le_nat [a, b]) # u16_chunks rest"
| "u16_chunks _ = []"

definition parse_update_operation :: "byte \<Rightarrow> bytes \<Rightarrow> (SwigParseError, AuthorityUpdateDetails) result" where
  "parse_update_operation actions operation_bytes =
     (if actions = 0
      then (case operation_bytes of
              [] \<Rightarrow> Inl (InvalidSwigFormat ''update_authority missing operation byte'')
            | op # payload \<Rightarrow>
                if op = 0 then Inr (ReplaceAll payload)
                else if op = 1 then Inr (AddActions payload)
                else if op = 2 then Inr (RemoveActionsByType payload)
                else if op = 3
                then if length payload mod 2 \<noteq> 0 then Inl (InvalidSwigFormat ''remove_actions_by_index payload must be even'')
                     else Inr (RemoveActionsByIndex (u16_chunks payload))
                else Inr (LegacyUpdate operation_bytes))
      else Inr (LegacyUpdate operation_bytes))"

definition parse_update_authority_v1 :: "bytes \<Rightarrow> (SwigParseError, 'k SwigInstructionDecoded) result" where
  "parse_update_authority_v1 data =
     (if length data < 16 then Inl (DataTooShort ''update_authority_v1 header'')
      else let actions_data_len = unat (u16_at data 2)
           in if length data < 16 + actions_data_len then Inl (DataTooShort ''update_authority_v1 payload'')
              else and_then (parse_update_operation (data ! 4) (slice data 16 (16 + actions_data_len))) (\<lambda>operation.
                     Inr (UpdateAuthorityV1 (u32_at data 8) (u32_at data 12) operation (drop (16 + actions_data_len) data))))"

definition parse_create_session_v1 :: "bytes \<Rightarrow> (SwigParseError, 'k SwigInstructionDecoded) result" where
  "parse_create_session_v1 data =
     (if length data < 48 then Inl (DataTooShort ''create_session header'')
      else Inr (CreateSessionV1 (u32_at data 4) (u64_at data 8) (slice data 16 48) (drop 48 data)))"

definition parse_create_sub_account_v1 :: "bytes \<Rightarrow> (SwigParseError, 'k SwigInstructionDecoded) result" where
  "parse_create_sub_account_v1 data =
     (if length data < 16 then Inl (DataTooShort ''create_sub_account header'')
      else Inr (CreateSubAccountV1 (u32_at data 4) (data ! 8) (drop 16 data)))"

definition parse_withdraw_from_sub_account :: "bytes \<Rightarrow> (SwigParseError, 'k SwigInstructionDecoded) result" where
  "parse_withdraw_from_sub_account data =
     (if length data < 16 then Inl (DataTooShort ''withdraw_sub_account header'')
      else Inr (WithdrawFromSubAccountV1 (u32_at data 4) (u64_at data 8) (drop 16 data)))"

definition parse_toggle_sub_account :: "bytes \<Rightarrow> (SwigParseError, 'k SwigInstructionDecoded) result" where
  "parse_toggle_sub_account data =
     (if length data < 16 then Inl (DataTooShort ''toggle_sub_account header'')
      else Inr (ToggleSubAccountV1 (u32_at data 8) (u32_at data 12) (data ! 2 \<noteq> 0) (drop 16 data)))"

definition parse_migrate :: "bytes \<Rightarrow> (SwigParseError, 'k SwigInstructionDecoded) result" where
  "parse_migrate data =
     (if length data < 8 then Inl (DataTooShort ''migrate header'') else Inr (MigrateToWalletAddressV1 (data ! 2)))"

definition parse_transfer_assets :: "bytes \<Rightarrow> (SwigParseError, 'k SwigInstructionDecoded) result" where
  "parse_transfer_assets data =
     (if length data < 8 then Inl (DataTooShort ''transfer_assets header'')
      else Inr (TransferAssetsV1 (u32_at data 4) (drop 8 data)))"

section \<open>Inner instructions\<close>

definition resolve_account_meta :: "('k, 'i) SolanaLibs \<Rightarrow> ('k \<times> bool \<times> bool) list \<Rightarrow> nat \<Rightarrow> 'k InnerAccountMeta" where
  "resolve_account_meta libs accounts index =
     (case slice_get accounts index of
        Some (pubkey, signs, writes) \<Rightarrow>
          \<lparr>inner_pubkey = Some pubkey, inner_display = show_key libs pubkey, inner_is_signer = signs,
           inner_is_writable = writes\<rparr>
      | None \<Rightarrow>
          \<lparr>inner_pubkey = None, inner_display = ''Unresolved account #'' @ nat_str index @ '' (lookup table)'',
           inner_is_signer = False, inner_is_writable = False\<rparr>)"

text \<open>An instruction of the SDK: program, account metas, data.\<close>

record 'k Instruction =
  ix_program_id :: 'k
  ix_accounts :: "('k \<times> bool \<times> bool) list"
  ix_data :: bytes

definition build_inner_instruction :: "'k \<Rightarrow> 'k InnerAccountMeta list \<Rightarrow> bytes \<Rightarrow> 'k Instruction option" where
  "build_inner_instruction pid accounts data =
     map_option (\<lambda>metas. \<lparr>ix_program_id = pid, ix_accounts = metas, ix_data = data\<rparr>)
       (those (map (\<lambda>meta. map_option (\<lambda>pubkey. (pubkey, inner_is_signer meta, inner_is_writable meta)) (inner_pubkey meta)) accounts))"

definition fallback_summary :: "SignablePayloadFieldCommon \<Rightarrow> string option" where
  "fallback_summary common = (if fallback_text common = [] then None else Some (fallback_text common))"

definition text_or_fallback :: "string \<Rightarrow> SignablePayloadFieldCommon \<Rightarrow> string option" where
  "text_or_fallback t common = (if t = [] then fallback_summary common else Some t)"

fun summarize_visualized_field :: "SignablePayloadField \<Rightarrow> string option" where
  "summarize_visualized_field (PreviewLayout common layout) =
     (case preview_title layout of
        Some title \<Rightarrow> text_or_fallback (text_v2_text title) common
      | None \<Rightarrow> fallback_summary common)"
| "summarize_visualized_field (Text common x) = text_or_fallback (text_text x) common"
| "summarize_visualized_field (TextV2 common x) = text_or_fallback (text_v2_text x) common"
| "summarize_visualized_field (Number common x) = text_or_fallback (number_number x) common"
| "summarize_visualized_field (Amount common x) = text_or_fallback (amount_amount x) common"
| "summarize_visualized_field (AmountV2 common x) = text_or_fallback (amount_v2_amount x) common"
| "summarize_visualized_field (Address common x) = text_or_fallback (address_address x) common"
| "summarize_visualized_field (AddressV2 common x) = text_or_fallback (address_v2_address x) common"
| "summarize_visualized_field (ListLayout common _) = fallback_summary common"
| "summarize_visualized_field (Divider common _) = fallback_summary common"
| "summarize_visualized_field (Unknown common _) = fallback_summary common"
| "summarize_visualized_field (Diagnostic common _) = fallback_summary common"

text \<open>The context that \<^verbatim>\<open>visualize_inner_instruction\<close> makes for a nested instruction: the program, then its accounts.\<close>

definition nested_keys :: "'k Instruction \<Rightarrow> 'k list" where
  "nested_keys instruction = ix_program_id instruction # map fst (ix_accounts instruction)"

definition nested_compiled :: "'k Instruction \<Rightarrow> CompiledInstruction" where
  "nested_compiled instruction =
     \<lparr>program_id_index = 0, instruction_accounts = map of_nat [1..<Suc (length (ix_accounts instruction))],
      instruction_data = ix_data instruction\<rparr>"

definition swig_nested_context ::
  "('k, 'i) SolanaLibs \<Rightarrow> u64 \<Rightarrow> 'k Instruction \<Rightarrow> ('k, 'i) VisualizerContext" where
  "swig_nested_context libs parent_depth instruction =
     (let account_keys = nested_keys instruction;
          sender_account = \<lparr>pa_account_key = show_key libs (unwrap_or (account_keys ! 0) (slice_get account_keys 1)),
                            pa_signer = False, pa_writable = False\<rparr>
      in with_call_depth (context_new sender_account (nested_compiled instruction) account_keys idl_registry_new 0)
           (deeper parent_depth))"

definition visualize_inner_instruction ::
  "('k, 'i) SolanaLibs \<Rightarrow> ('k, 'i) Visualizer list \<Rightarrow> 'k Instruction \<Rightarrow> u64 \<Rightarrow> string option" where
  "visualize_inner_instruction libs inner instruction parent_depth =
     (if length (ix_accounts instruction) > 255 then None
      else case visualize_with_any inner (swig_nested_context libs parent_depth instruction) of
             None \<Rightarrow> None
           | Some (Inl _) \<Rightarrow> None
           | Some (Inr viz_result) \<Rightarrow>
               if result_kind viz_result \<in> {Payments ''UnknownProgram'', Payments ''SplToken''} then None
               else summarize_visualized_field (signable_payload_field (result_field viz_result)))"

text \<open>The account at an index by its text, or the name of its role.\<close>

definition account_label :: "'k InnerAccountMeta list \<Rightarrow> nat \<Rightarrow> string \<Rightarrow> string" where
  "account_label accounts idx fallback = unwrap_or fallback (map_option inner_display (slice_get accounts idx))"

text \<open>Lines of the form \<^verbatim>\<open>name: value\<close>.\<close>

definition labelled_lines :: "(string \<times> string) list \<Rightarrow> string" where
  "labelled_lines rows = join newline (map (\<lambda>(name, v). name @ '': '' @ v) rows)"

fun swig_authority_type :: "AuthorityType \<Rightarrow> string" where
  "swig_authority_type AccountOwnerType = ''AccountOwner''"
| "swig_authority_type CloseAccountType = ''CloseAccount''"
| "swig_authority_type FreezeAccountType = ''FreezeAccount''"
| "swig_authority_type MintTokensType = ''MintTokens''"

fun format_token_instruction_summary ::
  "('k, 'i) SolanaLibs \<Rightarrow> 'k TokenInstruction \<Rightarrow> 'k InnerAccountMeta list \<Rightarrow> string option" where
  "format_token_instruction_summary libs (TokenTransfer amount) accounts =
     Some (labelled_lines [(''From'', account_label accounts 0 ''Source''), (''To'', account_label accounts 1 ''Destination''),
       (''Owner'', account_label accounts 2 ''Owner''), (''Amount'', uint_str amount)])"
| "format_token_instruction_summary libs (TransferChecked amount decimals) accounts =
     Some (labelled_lines [(''From'', account_label accounts 0 ''Source''), (''To'', account_label accounts 2 ''Destination''),
       (''Owner'', account_label accounts 3 ''Owner''), (''Amount'', uint_str amount),
       (''Mint'', account_label accounts 1 ''Mint''), (''Decimals'', uint_str decimals)])"
| "format_token_instruction_summary libs (MintTo amount) accounts =
     Some (labelled_lines [(''Mint'', account_label accounts 0 ''Mint''), (''Destination'', account_label accounts 1 ''Destination''),
       (''Authority'', account_label accounts 2 ''Authority''), (''Amount'', uint_str amount)])"
| "format_token_instruction_summary libs (MintToChecked amount decimals) accounts =
     Some (labelled_lines [(''Mint'', account_label accounts 0 ''Mint''), (''Destination'', account_label accounts 1 ''Destination''),
       (''Authority'', account_label accounts 2 ''Authority''), (''Amount'', uint_str amount), (''Decimals'', uint_str decimals)])"
| "format_token_instruction_summary libs (TokenBurn amount) accounts =
     Some (labelled_lines [(''Source'', account_label accounts 0 ''Source''), (''Mint'', account_label accounts 1 ''Mint''),
       (''Authority'', account_label accounts 2 ''Authority''), (''Amount'', uint_str amount)])"
| "format_token_instruction_summary libs (BurnChecked amount decimals) accounts =
     Some (labelled_lines [(''Source'', account_label accounts 0 ''Source''), (''Mint'', account_label accounts 1 ''Mint''),
       (''Authority'', account_label accounts 2 ''Authority''), (''Amount'', uint_str amount), (''Decimals'', uint_str decimals)])"
| "format_token_instruction_summary libs (TokenApprove amount) accounts =
     Some (labelled_lines [(''Owner'', account_label accounts 0 ''Owner''), (''Delegate'', account_label accounts 1 ''Delegate''),
       (''Amount'', uint_str amount)])"
| "format_token_instruction_summary libs (ApproveChecked amount decimals) accounts =
     Some (''SPL Token: approve checked for '' @ uint_str amount @ '' ('' @ uint_str decimals @ '' decimals)'')"
| "format_token_instruction_summary libs (SetAuthority authority_type new_authority) accounts =
     Some (labelled_lines [(''Account'', account_label accounts 0 ''Account''), (''Authority Type'', swig_authority_type authority_type),
       (''New Authority'', case new_authority of Some pk \<Rightarrow> show_key libs pk | None \<Rightarrow> ''None'')])"
| "format_token_instruction_summary libs CloseAccount accounts =
     Some (labelled_lines [(''Account'', account_label accounts 0 ''Account''), (''Destination'', account_label accounts 1 ''Destination''),
       (''Authority'', account_label accounts 2 ''Authority'')])"
| "format_token_instruction_summary libs SyncNative accounts =
     Some (labelled_lines [(''Account'', account_label accounts 0 ''Account''), (''Action'', ''Sync Native'')])"
| "format_token_instruction_summary libs _ accounts = None"

definition format_native_sol_transfer :: "'k InnerAccountMeta list \<Rightarrow> u64 \<Rightarrow> string" where
  "format_native_sol_transfer accounts lamports =
     labelled_lines [(''From'', account_label accounts 0 ''Source''), (''To'', account_label accounts 1 ''Destination''),
       (''Amount'', uint_str lamports)]"

definition inner_fallback :: "string \<Rightarrow> bytes \<Rightarrow> string" where
  "inner_fallback program_display data = ''Program '' @ program_display @ '' ('' @ nat_str (length data) @ '' bytes)''"

definition describe_inner_instruction ::
  "('k, 'i) SolanaLibs \<Rightarrow> 'k ProgramLibs \<Rightarrow> ('k, 'i) Visualizer list \<Rightarrow> 'k option \<Rightarrow> string \<Rightarrow> bytes \<Rightarrow> 'k InnerAccountMeta list
    \<Rightarrow> u64 \<Rightarrow> string" where
  "describe_inner_instruction libs pl inner pid program_display data accounts parent_depth =
     (case pid of
        None \<Rightarrow> inner_fallback program_display data
      | Some program \<Rightarrow>
          (case Option.bind (build_inner_instruction program accounts data)
                  (\<lambda>instruction. visualize_inner_instruction libs inner instruction parent_depth) of
             Some summary \<Rightarrow> summary
           | None \<Rightarrow>
               if program = spl_token_ID pl
               then (case Option.bind (token_unpack pl data) (\<lambda>ix. format_token_instruction_summary libs ix accounts) of
                       Some summary \<Rightarrow> summary
                     | None \<Rightarrow> inner_fallback program_display data)
               else if program = system_program_ID pl
               then (case system_deserialize pl data of
                       Some (SystemTransfer lamports) \<Rightarrow> format_native_sol_transfer accounts lamports
                     | _ \<Rightarrow> inner_fallback program_display data)
               else inner_fallback program_display data))"

text \<open>The loop over the compact instructions; the count is the first byte of the payload.\<close>

fun compact_loop ::
  "('k, 'i) SolanaLibs \<Rightarrow> 'k ProgramLibs \<Rightarrow> ('k, 'i) Visualizer list \<Rightarrow> ('k \<times> bool \<times> bool) list \<Rightarrow> u64 \<Rightarrow> nat \<Rightarrow> bytes
    \<Rightarrow> (SwigParseError, 'k DecodedInnerInstruction list) result" where
  "compact_loop libs pl inner accounts parent_depth 0 rest = Inr []"
| "compact_loop libs pl inner accounts parent_depth (Suc n) rest =
     (case rest of
        [] \<Rightarrow> Inl (InvalidSwigFormat ''compact instruction truncated'')
      | program_index # rest1 \<Rightarrow>
          let program_meta = resolve_account_meta libs accounts (unat program_index)
          in (case rest1 of
                [] \<Rightarrow> Inl (InvalidSwigFormat ''missing account count'')
              | account_count # rest2 \<Rightarrow>
                  if unat account_count > length rest2 then Inl (InvalidSwigFormat ''account list exceeds payload'')
                  else let metas = map (\<lambda>b. resolve_account_meta libs accounts (unat b)) (take (unat account_count) rest2);
                           rest3 = drop (unat account_count) rest2
                       in if 2 > length rest3 then Inl (InvalidSwigFormat ''missing data length'')
                          else let data_len = unat (u16_at rest3 0); rest4 = drop 2 rest3
                               in if data_len > length rest4 then Inl (InvalidSwigFormat ''data slice out of range'')
                                  else let data_slice = take data_len rest4;
                                           description = describe_inner_instruction libs pl inner (inner_pubkey program_meta)
                                             (inner_display program_meta) data_slice metas parent_depth
                                       in and_then (compact_loop libs pl inner accounts parent_depth n (drop data_len rest4)) (\<lambda>instructions.
                                            Inr (\<lparr>inner_program_id = inner_pubkey program_meta,
                                                  inner_program_display = inner_display program_meta, inner_accounts = metas,
                                                  inner_data = data_slice, inner_description = description\<rparr> # instructions))))"

definition decode_compact_instructions ::
  "('k, 'i) SolanaLibs \<Rightarrow> 'k ProgramLibs \<Rightarrow> ('k, 'i) Visualizer list \<Rightarrow> bytes \<Rightarrow> ('k \<times> bool \<times> bool) list \<Rightarrow> u64
    \<Rightarrow> (SwigParseError, 'k DecodedInnerInstruction list) result" where
  "decode_compact_instructions libs pl inner payload accounts parent_depth =
     (case payload of
        [] \<Rightarrow> Inr []
      | n # rest \<Rightarrow> compact_loop libs pl inner accounts parent_depth (unat n) rest)"

definition parse_sign_instruction ::
  "('k, 'i) SolanaLibs \<Rightarrow> 'k ProgramLibs \<Rightarrow> ('k, 'i) Visualizer list \<Rightarrow> bytes \<Rightarrow> nat \<Rightarrow> ('k \<times> bool \<times> bool) list \<Rightarrow> u64
    \<Rightarrow> (SwigParseError, 'k SignInstructionDecoded) result" where
  "parse_sign_instruction libs pl inner data header_len accounts depth =
     (if length data < header_len then Inl (DataTooShort ''sign header'')
      else let payload_len = unat (u16_at data 2)
           in if length data < header_len + payload_len then Inl (DataTooShort ''sign instruction payload'')
              else and_then (decode_compact_instructions libs pl inner (slice data header_len (header_len + payload_len)) accounts depth) (\<lambda>ixs.
                     Inr \<lparr>sign_role_id = u32_at data 4, instruction_payload_len = payload_len,
                          sign_authority_payload = drop (header_len + payload_len) data, inner_instructions = ixs\<rparr>))"

definition parse_swig_instruction ::
  "('k, 'i) SolanaLibs \<Rightarrow> 'k ProgramLibs \<Rightarrow> ('k, 'i) Visualizer list \<Rightarrow> bytes \<Rightarrow> ('k \<times> bool \<times> bool) list \<Rightarrow> u64
    \<Rightarrow> (SwigParseError, 'k SwigInstructionDecoded) result" where
  "parse_swig_instruction libs pl inner data accounts depth =
     (if length data < 2 then Inl (DataTooShort ''missing discriminator'')
      else case kind_try_from (u16_at data 0) of
        Inl (UnknownInstruction _) \<Rightarrow> Inr (UnknownSwig (u16_at data 0) data)
      | Inl err \<Rightarrow> Inl err
      | Inr KCreateV1 \<Rightarrow> parse_create_v1 data
      | Inr KAddAuthorityV1 \<Rightarrow> parse_add_authority_v1 data
      | Inr KRemoveAuthorityV1 \<Rightarrow> parse_remove_authority_v1 data
      | Inr KUpdateAuthorityV1 \<Rightarrow> parse_update_authority_v1 data
      | Inr KSignV1 \<Rightarrow> and_then (parse_sign_instruction libs pl inner data 8 accounts depth) (\<lambda>sign. Inr (SignV1 sign))
      | Inr KSignV2 \<Rightarrow> and_then (parse_sign_instruction libs pl inner data 8 accounts depth) (\<lambda>sign. Inr (SignV2 sign))
      | Inr KCreateSessionV1 \<Rightarrow> parse_create_session_v1 data
      | Inr KCreateSubAccountV1 \<Rightarrow> parse_create_sub_account_v1 data
      | Inr KWithdrawFromSubAccountV1 \<Rightarrow> parse_withdraw_from_sub_account data
      | Inr KSubAccountSignV1 \<Rightarrow>
          and_then (parse_sign_instruction libs pl inner data 16 accounts depth) (\<lambda>sign. Inr (SubAccountSignV1 sign))
      | Inr KToggleSubAccountV1 \<Rightarrow> parse_toggle_sub_account data
      | Inr KMigrateToWalletAddressV1 \<Rightarrow> parse_migrate data
      | Inr KTransferAssetsV1 \<Rightarrow> parse_transfer_assets data)"

section \<open>Amounts\<close>

text \<open>
  \<^verbatim>\<open>lamports as f64 / 1e9\<close>, in units of \<open>2 ^ -82\<close>: the quotient has 53 significant bits, the last of them \<open>2 ^ (k - 82)\<close>
  where \<open>k - 30\<close> is the exponent of the first.
\<close>

definition LAMPORTS_PER_SOL :: nat where
  "LAMPORTS_PER_SOL = 10 ^ 9"

definition lamports_as_sol :: "u64 \<Rightarrow> nat" where
  "lamports_as_sol amount =
     (let a = f64_of_u128 (unat amount)
      in if a = 0 then 0
         else let k = log2_floor (a * 2 ^ 30 div LAMPORTS_PER_SOL) in round_half_even (a * 2 ^ (82 - k)) LAMPORTS_PER_SOL * 2 ^ k)"

text \<open>\<^verbatim>\<open>{:.9}\<close> of such a value.\<close>

definition fixed_9 :: "nat \<Rightarrow> string" where
  "fixed_9 x =
     (let r = round_half_even (x * 10 ^ 9) (2 ^ 82)
      in nat_str (r div 10 ^ 9) @ ''.'' @ zero_pad 9 (nat_str (r mod 10 ^ 9)))"

definition pop_if :: "char \<Rightarrow> string \<Rightarrow> string" where
  "pop_if c s = (if s \<noteq> [] \<and> last s = c then butlast s else s)"

definition format_lamports_with_sol :: "u64 \<Rightarrow> string" where
  "format_lamports_with_sol lamports =
     (let text = fixed_9 (lamports_as_sol lamports);
          sol = (if CHR ''.'' \<in> set text then pop_if (CHR ''.'') (trim_end_matches (CHR ''0'') text) else text)
      in uint_str lamports @ '' lamports (~'' @ sol @ '' SOL)'')"

section \<open>Authorities and actions\<close>

definition format_byte_length :: "nat \<Rightarrow> string" where
  "format_byte_length len = nat_str len @ '' bytes''"

function count_actions :: "bytes \<Rightarrow> nat" where
  "count_actions bytes =
     (if 8 > length bytes then 0
      else let entry = 8 + unat (u16_at bytes 2) in if entry > length bytes then 0 else Suc (count_actions (drop entry bytes)))"
  by pat_completeness auto
termination
  by (relation "measure length") auto

declare count_actions.simps [simp del]

definition format_actions_summary :: "bytes \<Rightarrow> string" where
  "format_actions_summary bytes = nat_str (length bytes) @ '' bytes (~'' @ nat_str (count_actions bytes) @ '' action(s))''"

definition show_array :: "('k, 'i) SolanaLibs \<Rightarrow> 'k ProgramLibs \<Rightarrow> bytes \<Rightarrow> nat \<Rightarrow> string" where
  "show_array libs pl data i = show_key libs (key_from_array pl (slice data i (i + 32)))"

definition derive_eth_address_from_uncompressed :: "('k, 'i) SolanaLibs \<Rightarrow> 'k ProgramLibs \<Rightarrow> bytes \<Rightarrow> string option" where
  "derive_eth_address_from_uncompressed libs pl uncompressed =
     (if length uncompressed \<noteq> 64 then None
      else Some (''0x'' @ sl_hex_encode libs (slice (keccak_hash pl uncompressed) 12 32)))"

definition evm_rows :: "('k, 'i) SolanaLibs \<Rightarrow> 'k ProgramLibs \<Rightarrow> bytes \<Rightarrow> (string \<times> string) list" where
  "evm_rows libs pl uncompressed =
     (''Secp256k1 Public Key (uncompressed hex)'', sl_hex_encode libs uncompressed)
     # (case derive_eth_address_from_uncompressed libs pl uncompressed of
          Some address \<Rightarrow> [(''Derived EVM Address'', address)]
        | None \<Rightarrow> [])"

definition decode_authority_details ::
  "('k, 'i) SolanaLibs \<Rightarrow> 'k ProgramLibs \<Rightarrow> 16 word \<Rightarrow> bytes \<Rightarrow> (string \<times> string) list option" where
  "decode_authority_details libs pl authority_type data =
     (if authority_type = 1
      then if length data \<noteq> 32 then None else Some [(''Authority Public Key'', show_array libs pl data 0)]
      else if authority_type = 2
      then if length data \<noteq> 72 then None
           else Some [(''Root Authority Public Key'', show_array libs pl data 0), (''Initial Session Key'', show_array libs pl data 32),
                      (''Max Session Length (slots)'', uint_str (u64_at data 64))]
      else if authority_type = 3
      then if length data = 33 then Some [(''Secp256k1 Public Key (compressed hex)'', sl_hex_encode libs data)]
           else if length data = 64 then Some (evm_rows libs pl data)
           else if length data = 65 then if data ! 0 \<noteq> 0x04 then None else Some (evm_rows libs pl (drop 1 data))
           else None
      else if authority_type = 4
      then if length data \<noteq> 104 then None
           else Some (evm_rows libs pl (slice data 0 64)
                  @ [(''Session Key (hex)'', sl_hex_encode libs (slice data 64 96)),
                     (''Max Session Length (slots)'', uint_str (u64_at data 96))])
      else if authority_type = 5
      then if length data \<noteq> 33 then None else Some [(''Secp256r1 Public Key (compressed hex)'', sl_hex_encode libs data)]
      else if authority_type = 6
      then if length data \<noteq> 80 then None
           else Some [(''Secp256r1 Public Key (compressed hex)'', sl_hex_encode libs (slice data 0 33)),
                      (''Session Key (hex)'', sl_hex_encode libs (slice data 40 72)),
                      (''Max Session Length (slots)'', uint_str (u64_at data 72))]
      else None)"

definition recurring_text :: "string \<Rightarrow> string \<Rightarrow> u64 \<Rightarrow> string \<Rightarrow> u64 \<Rightarrow> string" where
  "recurring_text what limit window current last_reset =
     what @ limit @ '' per '' @ uint_str window @ '' slot(s); current '' @ current @ '' (last reset '' @ uint_str last_reset @ '')''"

definition describe_program_scope :: "('k, 'i) SolanaLibs \<Rightarrow> 'k ProgramLibs \<Rightarrow> bytes \<Rightarrow> string" where
  "describe_program_scope libs pl data =
     ''Program scope ('' @ program_scope_type_name (u64_at data 112) @ '') for program '' @ show_array libs pl data 48
     @ '' target '' @ show_array libs pl data 80 @ ''; limit '' @ uint_str (u128_at data 16) @ '' (current ''
     @ uint_str (u128_at data 0) @ ''), window '' @ uint_str (u64_at data 32) @ '' slot(s), last reset '' @ uint_str (u64_at data 40)
     @ '', numeric '' @ numeric_type_name (u64_at data 120) @ '', balance field bytes '' @ uint_str (u64_at data 128) @ ''..''
     @ uint_str (u64_at data 136)"

definition describe_sub_account :: "('k, 'i) SolanaLibs \<Rightarrow> 'k ProgramLibs \<Rightarrow> bytes \<Rightarrow> string" where
  "describe_sub_account libs pl data =
     ''Sub-account permission: target ''
     @ (if list_all (\<lambda>b. b = 0) (slice data 0 32) then ''Uninitialized (assigned on creation)'' else show_array libs pl data 0)
     @ '', role '' @ uint_str (u32_at data 36) @ '', bump '' @ uint_str (data ! 32) @ '', enabled '' @ bool_str (data ! 33 \<noteq> 0)
     @ '', swig id '' @ show_array libs pl data 40"

definition sized_text :: "bytes \<Rightarrow> nat \<Rightarrow> string \<Rightarrow> string option" where
  "sized_text data n t = (if length data \<noteq> n then None else Some t)"

definition describe_action :: "('k, 'i) SolanaLibs \<Rightarrow> 'k ProgramLibs \<Rightarrow> 16 word \<Rightarrow> bytes \<Rightarrow> string option" where
  "describe_action libs pl permission data =
     (if permission = 1 then sized_text data 8 (''SOL limit: '' @ format_lamports_with_sol (u64_at data 0))
      else if permission = 2
      then sized_text data 32 (recurring_text ''SOL recurring limit: '' (format_lamports_with_sol (u64_at data 0)) (u64_at data 8)
             (format_lamports_with_sol (u64_at data 24)) (u64_at data 16))
      else if permission = 3 then sized_text data 32 (''Program access: '' @ show_array libs pl data 0)
      else if permission = 4 then if length data < 144 then None else Some (describe_program_scope libs pl data)
      else if permission = 5
      then sized_text data 40 (''Token limit: mint '' @ show_array libs pl data 0 @ '' remaining '' @ uint_str (u64_at data 32))
      else if permission = 6
      then sized_text data 64 (recurring_text (''Token recurring limit: mint '' @ show_array libs pl data 0 @ '' limit '')
             (uint_str (u64_at data 40)) (u64_at data 32) (uint_str (u64_at data 48)) (u64_at data 56))
      else if permission = 7 then Some ''All permissions (full access)''
      else if permission = 8 then Some ''Manage authority (add/remove/update authorities)''
      else if permission = 9 then sized_text data 72 (describe_sub_account libs pl data)
      else if permission = 10
      then sized_text data 72 (''Token destination limit: mint '' @ show_array libs pl data 0 @ '' destination '' @ show_array libs pl data 32
             @ '' remaining '' @ uint_str (u64_at data 64))
      else if permission = 11
      then sized_text data 96 (recurring_text
             (''Token recurring destination limit: mint '' @ show_array libs pl data 0 @ '' destination '' @ show_array libs pl data 32 @ '' limit '')
             (uint_str (u64_at data 64)) (u64_at data 72) (uint_str (u64_at data 88)) (u64_at data 80))
      else if permission = 12
      then sized_text data 40 (''SOL destination limit: destination '' @ show_array libs pl data 0 @ '' remaining ''
             @ format_lamports_with_sol (u64_at data 32))
      else if permission = 13
      then sized_text data 64 (recurring_text (''SOL recurring destination limit: destination '' @ show_array libs pl data 0 @ '' limit '')
             (format_lamports_with_sol (u64_at data 32)) (u64_at data 40) (format_lamports_with_sol (u64_at data 56)) (u64_at data 48))
      else if permission = 14 then sized_text data 8 (''Stake limit: '' @ format_lamports_with_sol (u64_at data 0))
      else if permission = 15
      then sized_text data 32 (recurring_text ''Stake recurring limit: '' (format_lamports_with_sol (u64_at data 0)) (u64_at data 8)
             (format_lamports_with_sol (u64_at data 24)) (u64_at data 16))
      else if permission = 16 then Some ''Stake all permissions (unrestricted staking)''
      else if permission = 17 then Some ''Program access: all programs (unrestricted CPI)''
      else if permission = 18 then Some ''Program access: curated set of well-known programs''
      else if permission = 19 then Some ''All operations except authority management''
      else Some (''Unknown permission '' @ uint_str permission @ '' ('' @ nat_str (length data) @ '' bytes)''))"

text \<open>Every action sets the cursor to the boundary it declares, which must lie behind its data.\<close>

function decode_actions_from ::
  "('k, 'i) SolanaLibs \<Rightarrow> 'k ProgramLibs \<Rightarrow> bytes \<Rightarrow> nat \<Rightarrow> nat \<Rightarrow> string list option" where
  "decode_actions_from libs pl bytes cursor index =
     (if length bytes < cursor + 8 then (if cursor \<noteq> length bytes then None else Some [])
      else let permission = u16_at bytes cursor; data_start = cursor + 8; data_end = data_start + unat (u16_at bytes (cursor + 2));
               boundary = unat (u32_at bytes (cursor + 4))
           in if data_end > length bytes then None
              else case describe_action libs pl permission (slice bytes data_start data_end) of
                     None \<Rightarrow> None
                   | Some description \<Rightarrow>
                       if boundary > length bytes \<or> boundary < data_end then None
                       else map_option (\<lambda>results. (''Action '' @ nat_str index @ '': '' @ description) # results)
                              (decode_actions_from libs pl bytes boundary (index + 1)))"
  by pat_completeness auto
termination
  by (relation "measure (\<lambda>(libs, pl, bytes, cursor, index). length bytes - cursor)") auto

declare decode_actions_from.simps [simp del]

definition decode_actions :: "('k, 'i) SolanaLibs \<Rightarrow> 'k ProgramLibs \<Rightarrow> bytes \<Rightarrow> string list option" where
  "decode_actions libs pl bytes = (if bytes = [] then Some [] else decode_actions_from libs pl bytes 0 1)"

definition action_detail_rows :: "('k, 'i) SolanaLibs \<Rightarrow> 'k ProgramLibs \<Rightarrow> string \<Rightarrow> bytes \<Rightarrow> (string \<times> string) list" where
  "action_detail_rows libs pl lbl bytes =
     (case decode_actions libs pl bytes of
        Some action_lines \<Rightarrow> [(lbl, if action_lines = [] then ''(none)'' else join newline action_lines)]
      | None \<Rightarrow> [(lbl, format_actions_summary bytes @ '' (unable to decode)'')])
     @ (if bytes = [] then [] else [(lbl @ '' (hex)'', sl_hex_encode libs bytes)])"

fun authority_update_rows ::
  "('k, 'i) SolanaLibs \<Rightarrow> 'k ProgramLibs \<Rightarrow> AuthorityUpdateDetails \<Rightarrow> (string \<times> string) list" where
  "authority_update_rows libs pl (ReplaceAll bytes) =
     [(''Operation Type'', ''Replace actions''), (''Actions Summary'', format_actions_summary bytes)]
     @ action_detail_rows libs pl ''Updated Actions'' bytes"
| "authority_update_rows libs pl (AddActions bytes) =
     [(''Operation Type'', ''Add actions''), (''Actions Summary'', format_actions_summary bytes)]
     @ action_detail_rows libs pl ''Actions To Add'' bytes"
| "authority_update_rows libs pl (RemoveActionsByType types) =
     [(''Operation Type'', ''Remove actions by type''),
      (''Action Types'', if types = [] then ''(none)'' else join '', '' (map (\<lambda>v. permission_name (ucast v)) types))]
     @ (if types = [] then [] else [(''Action Type Bytes (hex)'', sl_hex_encode libs types)])"
| "authority_update_rows libs pl (RemoveActionsByIndex indices) =
     [(''Operation Type'', ''Remove actions by index''),
      (''Action Indices'', if indices = [] then ''(none)'' else join '', '' (map uint_str indices))]
     @ (if indices = [] then []
        else [(''Action Indices (hex)'', sl_hex_encode libs (concat (map (\<lambda>idx. le_bytes 2 (unat idx)) indices)))])"
| "authority_update_rows libs pl (LegacyUpdate bytes) =
     [(''Operation Type'', ''Legacy payload''), (''Actions Summary'', format_actions_summary bytes)]
     @ action_detail_rows libs pl ''Legacy Actions'' bytes"

section \<open>Authority payloads\<close>

text \<open>The bits of the encoded origin, from the highest of every byte, walk the tree of three-byte nodes.\<close>

definition byte_bits :: "byte \<Rightarrow> bool list" where
  "byte_bits b = map (\<lambda>i. bit b i) [7, 6, 5, 4, 3, 2, 1, 0]"

fun huffman_walk :: "bytes \<Rightarrow> nat \<Rightarrow> nat \<Rightarrow> bool list \<Rightarrow> nat \<Rightarrow> bytes \<Rightarrow> (VisualSignError, bytes) result" where
  "huffman_walk tree_data node_count decoded_len [] current decoded = Inr decoded"
| "huffman_walk tree_data node_count decoded_len (b # bs) current decoded =
     (if length decoded = decoded_len then Inr decoded
      else if tree_data ! (current * 3) = 0 then Inl (DecodeError ''Unexpected leaf node in Huffman tree traversal'')
      else let next = unat (if b then tree_data ! (current * 3 + 2) else tree_data ! (current * 3 + 1))
           in if next \<ge> node_count then Inl (DecodeError ''Huffman traversal exceeded node count'')
              else if tree_data ! (next * 3) = 0
              then huffman_walk tree_data node_count decoded_len bs (node_count - 1) (decoded @ [tree_data ! (next * 3 + 1)])
              else huffman_walk tree_data node_count decoded_len bs next decoded)"

definition decode_huffman_origin :: "bytes \<Rightarrow> bytes \<Rightarrow> nat \<Rightarrow> (VisualSignError, string) result" where
  "decode_huffman_origin tree_data encoded_data decoded_len =
     (if tree_data = [] \<or> length tree_data mod 3 \<noteq> 0 then Inl (DecodeError ''Invalid WebAuthn Huffman tree'')
      else let node_count = length tree_data div 3
           in and_then (huffman_walk tree_data node_count decoded_len (concat (map byte_bits encoded_data)) (node_count - 1) []) (\<lambda>decoded.
                if length decoded \<noteq> decoded_len then Inl (DecodeError ''Decoded origin length mismatch'')
                else if utf8_valid (map unat decoded) then Inr (str_of_bytes decoded)
                else Inl (DecodeError ''WebAuthn origin contained invalid UTF-8'')))"

definition format_web_authn_field_order :: "bytes \<Rightarrow> string" where
  "format_web_authn_field_order order =
     (let names = List.map_filter
            (map_of [(1, ''type''), (2, ''challenge''), (3, ''origin''), (4, ''crossOrigin'')]) order
      in if names = [] then ''None'' else join '', '' names)"

text \<open>After the first two length checks the lengths inside the header can always be read, so the source's checks before each
  of those reads never fail.\<close>

definition decode_webauthn_payload ::
  "'k ProgramLibs \<Rightarrow> bytes \<Rightarrow> (VisualSignError, (string \<times> string) list) result" where
  "decode_webauthn_payload pl payload =
     (if length payload < 6 then Inl (DecodeError ''WebAuthn payload too short'')
      else let auth_len = unat (u16_at payload 2)
           in if length payload < 4 + auth_len + 4 + 2 + 2 + 2 then Inl (DecodeError ''WebAuthn payload truncated'')
              else let offset = 4 + auth_len;
                       origin_len = unat (u16_at payload (offset + 4));
                       huffman_tree_len = unat (u16_at payload (offset + 6));
                       huffman_encoded_len = unat (u16_at payload (offset + 8));
                       start = offset + 10
                   in if length payload < start + huffman_tree_len + huffman_encoded_len
                      then Inl (DecodeError ''WebAuthn payload missing huffman data'')
                      else and_then (decode_huffman_origin (slice payload start (start + huffman_tree_len))
                             (slice payload (start + huffman_tree_len) (start + huffman_tree_len + huffman_encoded_len)) origin_len) (\<lambda>origin.
                             Inr [(''WebAuthn Authenticator Data (base64)'', base64_standard pl (slice payload 4 (4 + auth_len))),
                                  (''WebAuthn Field Order'', format_web_authn_field_order (slice payload offset (offset + 4))),
                                  (''WebAuthn Origin'', origin),
                                  (''WebAuthn Huffman Tree Length'', nat_str huffman_tree_len),
                                  (''WebAuthn Huffman Encoded Length'', nat_str huffman_encoded_len)]))"

definition authority_payload_rows ::
  "('k, 'i) SolanaLibs \<Rightarrow> 'k ProgramLibs \<Rightarrow> bytes \<Rightarrow> (VisualSignError, (string \<times> string) list) result" where
  "authority_payload_rows libs pl payload =
     (if length payload < 13 then Inl (DecodeError ''Authority payload too short'')
      else let reserved = (if length payload \<ge> 17 then slice payload 13 17 else []);
               rows = [(''Authority Slot'', uint_str (u64_at payload 0)), (''Authority Counter'', uint_str (u32_at payload 8)),
                       (''Authority Instruction Account Index'', uint_str (payload ! 12))]
                      @ (if list_ex (\<lambda>b. b \<noteq> 0) reserved then [(''Authority Reserved (hex)'', sl_hex_encode libs reserved)] else []);
               extra = drop 17 payload
           in if length payload \<le> 17 \<or> length extra < 2 then Inr rows
              else let auth_kind = u16_at extra 0
                   in if auth_kind = 1
                      then and_then (decode_webauthn_payload pl extra) (\<lambda>more.
                             Inr (rows @ [(''Authority Authentication Kind'', ''WebAuthn'')] @ more))
                      else Inr (rows @ [(''Authority Authentication Kind'', ''Unknown ('' @ uint_str auth_kind @ '')'')]))"

definition decode_authority_payload ::
  "('k, 'i) SolanaLibs \<Rightarrow> 'k ProgramLibs \<Rightarrow> bytes \<Rightarrow> (VisualSignError, AnnotatedPayloadField list) result" where
  "decode_authority_payload libs pl payload = and_then (authority_payload_rows libs pl payload) text_fields"

section \<open>Fields\<close>

definition format_inner_accounts :: "'k InnerAccountMeta list \<Rightarrow> string" where
  "format_inner_accounts accounts =
     (if accounts = [] then ''(none)''
      else join newline (map (\<lambda>(idx, meta).
             let flags = (if inner_is_signer meta then [''signer''] else []) @ (if inner_is_writable meta then [''writable''] else []);
                 flag_str = (if flags = [] then [] else '' ('' @ join '', '' flags @ '')'')
             in nat_str (idx + 1) @ '': '' @ inner_display meta @ flag_str) (enumerate 0 accounts)))"

definition payload_row :: "('k, 'i) SolanaLibs \<Rightarrow> bytes \<Rightarrow> (string \<times> string) list" where
  "payload_row libs authority_payload =
     (if authority_payload = [] then [] else [(''Authority Payload (hex)'', sl_hex_encode libs authority_payload)])"

definition unresolved_accounts :: "'k InnerAccountMeta list \<Rightarrow> string list" where
  "unresolved_accounts accounts =
     map (\<lambda>(i, meta). nat_str (i + 1) @ '': '' @ inner_display meta)
       (filter (\<lambda>(i, meta). inner_pubkey meta = None) (enumerate 0 accounts))"

definition inner_rows :: "('k, 'i) SolanaLibs \<Rightarrow> nat \<times> 'k DecodedInnerInstruction \<Rightarrow> (string \<times> string) list" where
  "inner_rows libs = (\<lambda>(idx, ix).
     let name = (\<lambda>what. ''Inner Instruction '' @ nat_str (idx + 1) @ what)
     in [(name '' Summary'', inner_description ix), (name '' Program'', inner_program_display ix)]
        @ (if inner_program_id ix = None
           then [(name '' Program Resolution'',
                  ''Program account supplied via address lookup table; full details require on-chain lookup'')] else [])
        @ [(name '' Accounts'', format_inner_accounts (inner_accounts ix))]
        @ (if unresolved_accounts (inner_accounts ix) = [] then []
           else [(name '' Account Resolution'',
                  ''Unresolved lookup-table accounts:'' @ newline @ join newline (unresolved_accounts (inner_accounts ix)))])
        @ (if inner_data ix = [] then [] else [(name '' Data (hex)'', sl_hex_encode libs (inner_data ix))]))"

definition build_sign_fields ::
  "('k, 'i) SolanaLibs \<Rightarrow> 'k ProgramLibs \<Rightarrow> 'k SignInstructionDecoded \<Rightarrow> (VisualSignError, AnnotatedPayloadField list) result" where
  "build_sign_fields libs pl sign =
     and_then (text_fields [(''Role ID'', uint_str (sign_role_id sign)),
        (''Instruction Payload Length'', format_byte_length (instruction_payload_len sign)),
        (''Inner Instruction Count'', nat_str (length (inner_instructions sign)))]) (\<lambda>head_fields.
     and_then (text_fields (payload_row libs (sign_authority_payload sign))) (\<lambda>payload_fields.
     let decoded_fields = (if sign_authority_payload sign = [] then []
                           else case decode_authority_payload libs pl (sign_authority_payload sign) of Inr fs \<Rightarrow> fs | Inl _ \<Rightarrow> [])
     in and_then (text_fields (concat (map (inner_rows libs) (enumerate 0 (inner_instructions sign))))) (\<lambda>inner_fields.
          Inr (head_fields @ payload_fields @ decoded_fields @ inner_fields))))"

definition authority_rows ::
  "('k, 'i) SolanaLibs \<Rightarrow> 'k ProgramLibs \<Rightarrow> 16 word \<Rightarrow> bytes \<Rightarrow> bytes \<Rightarrow> (string \<times> string) list" where
  "authority_rows libs pl authority_type authority_data actions =
     (''Authority Data Length'', format_byte_length (length authority_data))
     # unwrap_or [] (decode_authority_details libs pl authority_type authority_data)
     @ (if authority_data = [] then [] else [(''Authority Data (hex)'', sl_hex_encode libs authority_data)])
     @ [(''Actions Summary'', format_actions_summary actions)] @ action_detail_rows libs pl ''Actions'' actions"

fun build_variant_fields ::
  "('k, 'i) SolanaLibs \<Rightarrow> 'k ProgramLibs \<Rightarrow> 'k SwigInstructionDecoded \<Rightarrow> (VisualSignError, AnnotatedPayloadField list) result" where
  "build_variant_fields libs pl (CreateV1 authority_type bump address_bump wid authority_data actions) =
     text_fields ([(''Authority Type'', authority_type_name authority_type), (''Wallet PDA Bump'', uint_str bump),
        (''Wallet Address Bump'', uint_str address_bump), (''Wallet ID (hex)'', sl_hex_encode libs wid)]
       @ authority_rows libs pl authority_type authority_data actions)"
| "build_variant_fields libs pl (AddAuthorityV1 acting_role_id authority_type declared authority_data actions payload) =
     text_fields ([(''Acting Role'', uint_str acting_role_id), (''New Authority Type'', authority_type_name authority_type),
        (''Declared Action Count'', uint_str declared)]
       @ authority_rows libs pl authority_type authority_data actions @ payload_row libs payload)"
| "build_variant_fields libs pl (RemoveAuthorityV1 acting_role_id to_remove payload) =
     text_fields ([(''Acting Role'', uint_str acting_role_id), (''Authority To Remove'', uint_str to_remove)] @ payload_row libs payload)"
| "build_variant_fields libs pl (UpdateAuthorityV1 acting_role_id to_update operation payload) =
     text_fields ([(''Acting Role'', uint_str acting_role_id), (''Authority To Update'', uint_str to_update)]
       @ authority_update_rows libs pl operation @ payload_row libs payload)"
| "build_variant_fields libs pl (SignV1 sign) = build_sign_fields libs pl sign"
| "build_variant_fields libs pl (SignV2 sign) = build_sign_fields libs pl sign"
| "build_variant_fields libs pl (SubAccountSignV1 sign) = build_sign_fields libs pl sign"
| "build_variant_fields libs pl (CreateSessionV1 role_id duration key payload) =
     text_fields ([(''Role ID'', uint_str role_id), (''Session Duration'', uint_str duration @ '' slots''),
        (''Session Key (hex)'', sl_hex_encode libs key)] @ payload_row libs payload)"
| "build_variant_fields libs pl (CreateSubAccountV1 role_id bump payload) =
     text_fields ([(''Role ID'', uint_str role_id), (''Sub-Account Bump'', uint_str bump)] @ payload_row libs payload)"
| "build_variant_fields libs pl (WithdrawFromSubAccountV1 role_id amount payload) =
     text_fields ([(''Role ID'', uint_str role_id), (''Amount'', format_lamports_with_sol amount)] @ payload_row libs payload)"
| "build_variant_fields libs pl (ToggleSubAccountV1 target authority enabled payload) =
     text_fields ([(''Target Role'', uint_str target), (''Authority Role'', uint_str authority), (''Enabled'', bool_str enabled)]
       @ payload_row libs payload)"
| "build_variant_fields libs pl (MigrateToWalletAddressV1 address_bump) = text_fields [(''Wallet Address Bump'', uint_str address_bump)]"
| "build_variant_fields libs pl (TransferAssetsV1 role_id payload) = text_fields ((''Role ID'', uint_str role_id) # payload_row libs payload)"
| "build_variant_fields libs pl (UnknownSwig discriminator raw) =
     text_fields [(''Discriminator'', uint_str discriminator), (''Raw Data (hex)'', sl_hex_encode libs raw)]"

section \<open>The visualizer\<close>

definition swig_preview :: "nat \<Rightarrow> string \<Rightarrow> string \<Rightarrow> AnnotatedPayloadField list \<Rightarrow> AnnotatedPayloadField list \<Rightarrow> AnnotatedPayloadField" where
  "swig_preview instruction_number fallback summary condensed expanded =
     Annotated (PreviewLayout \<lparr>fallback_text = fallback, label = ''Instruction '' @ nat_str instruction_number\<rparr>
       (PreviewLayoutData (Some \<lparr>text_v2_text = summary\<rparr>) (Some \<lparr>text_v2_text = ''Swig wallet instruction''\<rparr>)
          (Some (ListLayoutData condensed)) (Some (ListLayoutData expanded)))) None None"

definition nested_too_deeply_field :: "nat \<Rightarrow> u64 \<Rightarrow> (VisualSignError, AnnotatedPayloadField) result" where
  "nested_too_deeply_field instruction_number depth =
     (let summary = ''Swig: Nested too deeply (depth '' @ uint_str depth @ '', limit '' @ uint_str MAX_CALL_DEPTH @ '')''
      in and_then (text_fields [(''Instruction'', summary)]) (\<lambda>condensed.
         and_then (text_fields [(''Instruction Type'', ''Nested Too Deeply''), (''Nesting Depth'', uint_str depth),
            (''Nesting Depth Limit'', uint_str MAX_CALL_DEPTH)]) (\<lambda>expanded.
           Inr (swig_preview instruction_number summary summary condensed expanded))))"

definition swig_accounts :: "('k, 'i) VisualizerContext \<Rightarrow> (VisualSignError, ('k \<times> bool \<times> bool) list) result" where
  "swig_accounts context =
     collect_results (map (\<lambda>i.
       case account context i of
         Some (AccountResolved pk) \<Rightarrow> Inr (pk, False, False)
       | Some (AccountUnresolved raw_index) \<Rightarrow>
           Inl (DecodeError (''swig: unresolved account index '' @ uint_str raw_index @ '' at position '' @ nat_str i))
       | None \<Rightarrow> Inl (DecodeError (''swig: missing account at position '' @ nat_str i))) [0..<num_accounts context])"

definition swig_visualize ::
  "('k, 'i) SolanaLibs \<Rightarrow> 'k ProgramLibs \<Rightarrow> ('k, 'i) Visualizer list \<Rightarrow> ('k, 'i) VisualizerContext
    \<Rightarrow> (VisualSignError, AnnotatedPayloadField) result" where
  "swig_visualize libs pl inner context =
     (let instruction_number = instruction_index context + 1
      in if call_depth context \<ge> MAX_CALL_DEPTH then nested_too_deeply_field instruction_number (call_depth context)
         else and_then (swig_accounts context) (\<lambda>accounts.
              and_then (map_err (\<lambda>err. DecodeError (show_swig_error err))
                 (parse_swig_instruction libs pl inner (context_data context) accounts (call_depth context))) (\<lambda>decoded.
              let program_id_str = resolve_program_id_str libs context; summary = swig_summary decoded
              in and_then (text_fields [(''Program ID'', program_id_str), (''Instruction Type'', swig_name decoded)]) (\<lambda>head_fields.
                 and_then (build_variant_fields libs pl decoded) (\<lambda>variant_fields.
                 and_then (text_fields [(''Instruction'', summary)]) (\<lambda>condensed.
                   Inr (swig_preview instruction_number
                     (''Program ID: '' @ program_id_str @ newline @ ''Data: '' @ sl_hex_encode libs (context_data context))
                     summary condensed (head_fields @ variant_fields))))))))"

definition swig_wallet_config :: SolanaIntegrationConfig where
  "swig_wallet_config = preset_config ''swigypWHEksbC64pWKwah1WTeh9JXwx8H1rJHLdbQMB''"

definition swig_wallet_visualizer ::
  "('k, 'i) SolanaLibs \<Rightarrow> 'k ProgramLibs \<Rightarrow> ('k, 'i) Visualizer list \<Rightarrow> ('k, 'i) Visualizer" where
  "swig_wallet_visualizer libs pl inner =
     \<lparr>visualize_tx_commands = swig_visualize libs pl inner, get_config = Some swig_wallet_config,
      kind = Payments ''Swig Wallet'', can_handle = default_can_handle (show_key libs) (Some swig_wallet_config)\<rparr>"

end
