(* ===== verification/SolanaSquads.thy ===== *)
theory SolanaSquads
  imports SolanaSwig
begin

text \<open>
  \<^verbatim>\<open>presets/squads_multisig\<close> of the Solana crate: the multisig preset, which decodes by an embedded IDL and, for a vault
  transaction, the message nested in its arguments, whose instructions it visualizes with the visualizers of the build
  (\<open>inner\<close>). The reads of the message's wire format are decoders on the rest of the bytes; the texts of their errors are
  dropped by the caller and left out here.
\<close>

section \<open>The vault message\<close>

record MultisigCompiledInstruction =
  mci_program_id_index :: byte
  mci_account_indexes :: bytes
  mci_data :: bytes

record 'k VaultTransactionMessage =
  vm_num_signers :: byte
  vm_num_writable_signers :: byte
  vm_num_writable_non_signers :: byte
  vm_account_keys :: "'k list"
  vm_instructions :: "MultisigCompiledInstruction list"

definition read_u8 :: "byte decoder" where
  "read_u8 bs = (case bs of [] \<Rightarrow> None | b # rest \<Rightarrow> Some (b, rest))"

definition read_u16_le :: "16 word decoder" where
  "read_u16_le = dec_then (dec_take 2) (\<lambda>bs. dec_return (of_nat (le_nat bs)))"

definition read_bytes :: "nat \<Rightarrow> bytes decoder" where
  "read_bytes len = dec_take len"

text \<open>A loop \<^verbatim>\<open>for _ in 0..n\<close> that reads one element in every round.\<close>

fun read_times :: "nat \<Rightarrow> 'a decoder \<Rightarrow> 'a list decoder" where
  "read_times 0 d = dec_return []"
| "read_times (Suc n) d = dec_then d (\<lambda>a. dec_then (read_times n d) (\<lambda>as. dec_return (a # as)))"

definition read_compiled_instruction :: "MultisigCompiledInstruction decoder" where
  "read_compiled_instruction =
     dec_then read_u8 (\<lambda>pid_index.
     dec_then read_u8 (\<lambda>num_account_indexes.
     dec_then (read_bytes (unat num_account_indexes)) (\<lambda>account_indexes.
     dec_then read_u16_le (\<lambda>data_len.
     dec_then (read_bytes (unat data_len)) (\<lambda>data.
       dec_return \<lparr>mci_program_id_index = pid_index, mci_account_indexes = account_indexes, mci_data = data\<rparr>)))))"

text \<open>A lookup: table key, writable indexes, readonly indexes; it is read and dropped.\<close>

definition read_lookup :: "(bytes \<times> bytes \<times> bytes) decoder" where
  "read_lookup =
     dec_then (read_bytes 32) (\<lambda>account_key.
     dec_then read_u8 (\<lambda>num_writable.
     dec_then (read_bytes (unat num_writable)) (\<lambda>writable_indexes.
     dec_then read_u8 (\<lambda>num_readonly.
     dec_then (read_bytes (unat num_readonly)) (\<lambda>readonly_indexes.
       dec_return (account_key, writable_indexes, readonly_indexes))))))"

definition read_vault_message :: "(bytes VaultTransactionMessage \<times> (bytes \<times> bytes \<times> bytes) list) decoder" where
  "read_vault_message =
     dec_then read_u8 (\<lambda>signers.
     dec_then read_u8 (\<lambda>writable_signers.
     dec_then read_u8 (\<lambda>writable_non_signers.
     dec_then read_u8 (\<lambda>num_keys.
     dec_then (read_times (unat num_keys) (read_bytes 32)) (\<lambda>keys.
     dec_then read_u8 (\<lambda>num_instructions.
     dec_then (read_times (unat num_instructions) read_compiled_instruction) (\<lambda>instructions.
     dec_then read_u8 (\<lambda>num_lookups.
     dec_then (read_times (unat num_lookups) read_lookup) (\<lambda>lookups.
       dec_return (\<lparr>vm_num_signers = signers, vm_num_writable_signers = writable_signers,
                    vm_num_writable_non_signers = writable_non_signers, vm_account_keys = keys,
                    vm_instructions = instructions\<rparr>, lookups))))))))))"

definition vault_deserialize :: "'k ProgramLibs \<Rightarrow> bytes \<Rightarrow> 'k VaultTransactionMessage option" where
  "vault_deserialize pl data =
     map_option (\<lambda>(m, lookups).
       \<lparr>vm_num_signers = vm_num_signers m, vm_num_writable_signers = vm_num_writable_signers m,
        vm_num_writable_non_signers = vm_num_writable_non_signers m,
        vm_account_keys = map (key_from_array pl) (vm_account_keys m), vm_instructions = vm_instructions m\<rparr>)
       (try_from_slice read_vault_message data)"

section \<open>Nested instructions\<close>

definition account_meta_for_index :: "'k VaultTransactionMessage \<Rightarrow> nat \<Rightarrow> ('k \<times> bool \<times> bool) option" where
  "account_meta_for_index m idx =
     map_option (\<lambda>pubkey.
       let signs = idx < unat (vm_num_signers m);
           writes = (if signs then idx < unat (vm_num_writable_signers m)
                     else idx - unat (vm_num_signers m) < unat (vm_num_writable_non_signers m))
       in (pubkey, signs, writes)) (slice_get (vm_account_keys m) idx)"

definition reconstruct_instruction ::
  "'k VaultTransactionMessage \<Rightarrow> MultisigCompiledInstruction \<Rightarrow> (string, 'k Instruction) result" where
  "reconstruct_instruction m ci =
     (if unat (mci_program_id_index ci) \<ge> length (vm_account_keys m)
      then Inl ''program_id index out of range (likely an ALT-resolved key)''
      else and_then (collect_results (map (\<lambda>i. ok_or ''inner-instruction account index out of range (likely an ALT-resolved key)''
                       (account_meta_for_index m (unat i))) (mci_account_indexes ci))) (\<lambda>accounts.
             Inr \<lparr>ix_program_id = vm_account_keys m ! unat (mci_program_id_index ci), ix_accounts = accounts, ix_data = mci_data ci\<rparr>))"

definition reconstruct_instructions :: "'k VaultTransactionMessage \<Rightarrow> (string, 'k Instruction list) result" where
  "reconstruct_instructions m =
     (let num_keys = length (vm_account_keys m); num_signers = unat (vm_num_signers m)
      in if unat (vm_num_writable_signers m) > num_signers then Inl ''num_writable_signers > num_signers''
         else if num_signers > num_keys then Inl ''num_signers > account_keys.len()''
         else if unat (vm_num_writable_non_signers m) > num_keys - num_signers then Inl ''num_writable_non_signers > non-signer slots''
         else collect_results (map (reconstruct_instruction m) (vm_instructions m)))"

definition SQUADS_MULTISIG :: IdlPreset where
  "SQUADS_MULTISIG =
     \<lparr>preset_name = ''Squads Multisig'', preset_pid = ''SQDS4ep65T869zMMBKyuUq6aD6EgTu8psMjkvj52pCf'',
      preset_idl = ''../presets/squads_multisig/squads_multisig_program.json'', preset_kind = Payments ''SquadsMultisig''\<rparr>"

definition vault_pda_account ::
  "('k, 'i) SolanaLibs \<Rightarrow> 'k ProgramLibs \<Rightarrow> (string \<times> string) list \<Rightarrow> byte \<Rightarrow> ParserAccount option" where
  "vault_pda_account libs pl named_accounts vault_index =
     Option.bind (map_of named_accounts ''multisig'') (\<lambda>multisig_str.
     Option.bind (parse_key libs multisig_str) (\<lambda>multisig.
     Option.bind (parse_key libs (preset_pid SQUADS_MULTISIG)) (\<lambda>program.
       Some \<lparr>pa_account_key = show_key libs (find_program_address pl
               [as_bytes ''multisig'', key_bytes libs multisig, as_bytes ''vault'', [vault_index]] program),
             pa_signer = True, pa_writable = False\<rparr>)))"

definition squads_nested_context ::
  "ParserAccount \<Rightarrow> ('k, 'i) VisualizerContext \<Rightarrow> nat \<times> 'k Instruction \<Rightarrow> ('k, 'i) VisualizerContext" where
  "squads_nested_context owned_sender context = (\<lambda>(idx, instruction).
     with_call_depth (context_new owned_sender (nested_compiled instruction) (nested_keys instruction) (idl_registry context) idx)
       (deeper (call_depth context)))"

definition visualize_nested ::
  "('k, 'i) SolanaLibs \<Rightarrow> ('k, 'i) Visualizer list \<Rightarrow> ParserAccount \<Rightarrow> ('k, 'i) VisualizerContext \<Rightarrow> nat \<times> 'k Instruction
    \<Rightarrow> (VisualSignError, AnnotatedPayloadField) result" where
  "visualize_nested libs inner owned_sender context entry =
     (if length (ix_accounts (snd entry)) > 255
      then create_text_field (''Inner Instruction '' @ nat_str (fst entry + 1)) ''<unrenderable: too many accounts to index>''
      else case visualize_with_any inner (squads_nested_context owned_sender context entry) of
             Some (Inr res) \<Rightarrow> Inr (result_field res)
           | _ \<Rightarrow> visualize_tx_commands (unknown_program_visualizer libs) (squads_nested_context owned_sender context entry))"

definition visualize_inner_instructions ::
  "('k, 'i) SolanaLibs \<Rightarrow> ('k, 'i) Visualizer list \<Rightarrow> 'k Instruction list \<Rightarrow> ('k, 'i) VisualizerContext \<Rightarrow> ParserAccount option
    \<Rightarrow> (VisualSignError, AnnotatedPayloadField list) result" where
  "visualize_inner_instructions libs inner instructions context sender_override =
     (if call_depth context \<ge> MAX_CALL_DEPTH
      then text_fields [(''Inner Instructions'', ''<truncated: maximum nested-instruction visualization depth reached>'')]
      else let owned_sender = unwrap_or \<lparr>pa_account_key = pa_account_key (sender context), pa_signer = False, pa_writable = False\<rparr> sender_override
           in collect_results (map (visualize_nested libs inner owned_sender context) (enumerate 0 instructions)))"

section \<open>The visualizer\<close>

fun json_as_u64 :: "json \<Rightarrow> nat option" where
  "json_as_u64 (JNumber n) = (if 0 \<le> n \<and> n < 2 ^ 64 then Some (nat n) else None)"
| "json_as_u64 _ = None"

text \<open>The arguments of a vault transaction: the message, its index and the memo; \<open>None\<close> falls back to the generic view.\<close>

definition vault_arguments ::
  "('k, 'i) SolanaLibs \<Rightarrow> 'k ProgramLibs \<Rightarrow> ParserInstructionData \<Rightarrow> (byte \<times> 'k Instruction list \<times> string) option" where
  "vault_arguments libs pl parsed =
     Option.bind (map_of (pi_program_call_args parsed) ''args'') (\<lambda>args_value.
     Option.bind (Option.bind (json_get args_value ''transactionMessage'') json_as_str) (\<lambda>tx_msg_hex.
     Option.bind (ok (sl_hex_decode libs tx_msg_hex)) (\<lambda>tx_msg_bytes.
     Option.bind (vault_deserialize pl tx_msg_bytes) (\<lambda>vault_msg.
     Option.bind (Option.bind (json_get args_value ''vaultIndex'') json_as_u64) (\<lambda>vault_index.
     if vault_index > 255 then None
     else Option.bind (ok (reconstruct_instructions vault_msg)) (\<lambda>instructions.
       Some (of_nat vault_index, instructions,
             unwrap_or ''None'' (Option.bind (json_get args_value ''memo'') json_as_str))))))))"

definition try_build_vault_transaction_fields ::
  "('k, 'i) SolanaLibs \<Rightarrow> 'k ProgramLibs \<Rightarrow> ('k, 'i) Visualizer list \<Rightarrow> PresetInstruction \<Rightarrow> string \<Rightarrow> ('k, 'i) VisualizerContext
    \<Rightarrow> (VisualSignError, (string \<times> AnnotatedPayloadField list \<times> AnnotatedPayloadField list) option) result" where
  "try_build_vault_transaction_fields libs pl inner instruction pid context =
     (let parsed = preset_parsed instruction; named_accounts = preset_named instruction
      in case vault_arguments libs pl parsed of
           None \<Rightarrow> Inr None
         | Some (vault_index, instructions, memo) \<Rightarrow>
             and_then (visualize_inner_instructions libs inner instructions context (vault_pda_account libs pl named_accounts vault_index)) (\<lambda>inner_fields.
             let n = nat_str (length instructions)
             in and_then (text_fields [(''Program'', ''Squads Multisig''), (''Instruction'', ''vaultTransactionCreate''),
                  (''Vault Index'', uint_str vault_index), (''Inner Instructions'', n @ '' instruction(s)'')]) (\<lambda>condensed.
                and_then (text_fields ([(''Program ID'', pid), (''Instruction'', ''vaultTransactionCreate''),
                  (''Discriminator'', pi_discriminator parsed), (''Vault Index'', uint_str vault_index), (''Memo'', memo)]
                  @ named_accounts)) (\<lambda>expanded.
                  Inr (Some (''Squads Multisig: Vault Transaction ('' @ n @ '' inner instruction(s))'', condensed, expanded @ inner_fields))))))"

definition squads_parsed_fields ::
  "('k, 'i) SolanaLibs \<Rightarrow> 'k ProgramLibs \<Rightarrow> ('k, 'i) Visualizer list \<Rightarrow> PresetInstruction \<Rightarrow> string \<Rightarrow> ('k, 'i) VisualizerContext
    \<Rightarrow> (VisualSignError, string \<times> AnnotatedPayloadField list \<times> AnnotatedPayloadField list) result" where
  "squads_parsed_fields libs pl inner instruction pid context =
     (let generic = perps_parsed_fields SQUADS_MULTISIG instruction pid
      in if pi_instruction_name (preset_parsed instruction) = ''vaultTransactionCreate''
         then and_then (try_build_vault_transaction_fields libs pl inner instruction pid context) (\<lambda>built.
                case built of Some view \<Rightarrow> Inr view | None \<Rightarrow> generic)
         else generic)"

definition squads_visualize ::
  "('k, 'i) SolanaLibs \<Rightarrow> 'k ProgramLibs \<Rightarrow> (string \<Rightarrow> string) \<Rightarrow> ('k, 'i) Visualizer list \<Rightarrow> ('k, 'i) VisualizerContext
    \<Rightarrow> (VisualSignError, AnnotatedPayloadField) result" where
  "squads_visualize libs pl embedded inner context =
     and_then (resolve_program_id context) (\<lambda>program.
     and_then (resolve_accounts context) (\<lambda>accounts.
     let pid = show_key libs program
     in strict_visualize libs context pid
          (case parse_preset_instruction libs embedded SQUADS_MULTISIG 8 (context_data context) (map (show_key libs \<circ> fst) accounts) of
             Inr instruction \<Rightarrow> squads_parsed_fields libs pl inner instruction pid context
           | Inl _ \<Rightarrow> unknown_fields SQUADS_MULTISIG pid)))"

definition squads_multisig_visualizer ::
  "('k, 'i) SolanaLibs \<Rightarrow> 'k ProgramLibs \<Rightarrow> (string \<Rightarrow> string) \<Rightarrow> ('k, 'i) Visualizer list \<Rightarrow> ('k, 'i) Visualizer" where
  "squads_multisig_visualizer libs pl embedded inner =
     preset_visualizer libs SQUADS_MULTISIG (squads_visualize libs pl embedded inner)"

end
