(* ===== verification/SolanaNested.thy ===== *)
theory SolanaNested
  imports SolanaSquads
begin

text \<open>
  The presets that visualize nested instructions with the whole set of visualizers call themselves through it. The
  interface \<open>nested_visualizer\<close> says what bounds that recursion: a visualizer asks its inner visualizers only about contexts
  one level deeper, and at the maximal depth not at all. From it follows, in \<open>nested_chain\<close>, that unfolding the recursion
  as often as there are depths gives the visualizers the source defines. The two presets with nested instructions satisfy
  the interface; what they show of the nested instructions is exact.
\<close>

section \<open>Bounded nesting\<close>

definition agree_at :: "u64 \<Rightarrow> ('k, 'i) Visualizer list \<Rightarrow> ('k, 'i) Visualizer list \<Rightarrow> bool" where
  "agree_at depth a b = (\<forall>c. call_depth c = depth \<longrightarrow> visualize_with_any a c = visualize_with_any b c)"

lemma agree_atD: "agree_at depth a b \<Longrightarrow> call_depth c = depth \<Longrightarrow> visualize_with_any a c = visualize_with_any b c"
  by (simp add: agree_at_def)

locale nested_visualizer =
  fixes V :: "('k, 'i) Visualizer list \<Rightarrow> ('k, 'i) Visualizer"
  assumes same_handles: "can_handle (V a) = can_handle (V b)" and same_kind: "kind (V a) = kind (V b)"
    and one_deeper: "(call_depth ctx < MAX_CALL_DEPTH \<Longrightarrow> agree_at (deeper (call_depth ctx)) a b)
      \<Longrightarrow> visualize_tx_commands (V a) ctx = visualize_tx_commands (V b) ctx"
begin

text \<open>At the maximal depth the inner visualizers have no influence.\<close>

lemma cut_off: "MAX_CALL_DEPTH \<le> call_depth ctx \<Longrightarrow> visualize_tx_commands (V a) ctx = visualize_tx_commands (V b) ctx"
  by (rule one_deeper) (simp add: word_less_nat_alt word_le_nat_alt)

lemma first_step:
  assumes "call_depth ctx < MAX_CALL_DEPTH \<Longrightarrow> agree_at (deeper (call_depth ctx)) a b"
    and "visualize_with_any as ctx = visualize_with_any bs ctx"
  shows "visualize_with_any (V a # as) ctx = visualize_with_any (V b # bs) ctx"
  using one_deeper [OF assms(1)] same_handles [of a b] same_kind [of a b] assms(2) by simp

end

locale nested_chain =
  fixes build :: "('k, 'i) Visualizer list \<Rightarrow> ('k, 'i) Visualizer list"
  assumes chain_step: "(call_depth ctx < MAX_CALL_DEPTH \<Longrightarrow> agree_at (deeper (call_depth ctx)) a b)
      \<Longrightarrow> visualize_with_any (build a) ctx = visualize_with_any (build b) ctx"
begin

lemma enough_levels:
  "4 \<le> unat (call_depth ctx) + n \<Longrightarrow>
   visualize_with_any ((build ^^ Suc n) a) ctx = visualize_with_any ((build ^^ Suc n) b) ctx"
proof (induction n arbitrary: ctx)
  case 0
  then have "\<not> call_depth ctx < MAX_CALL_DEPTH" by (simp add: MAX_CALL_DEPTH_def word_less_nat_alt)
  then show ?case using chain_step [of ctx a b] by simp
next
  case (Suc n)
  have "visualize_with_any (build ((build ^^ Suc n) a)) ctx = visualize_with_any (build ((build ^^ Suc n) b)) ctx"
  proof (rule chain_step)
    assume d: "call_depth ctx < MAX_CALL_DEPTH"
    show "agree_at (deeper (call_depth ctx)) ((build ^^ Suc n) a) ((build ^^ Suc n) b)"
      unfolding agree_at_def
    proof (intro allI impI)
      fix c :: "('k, 'i) VisualizerContext"
      assume "call_depth c = deeper (call_depth ctx)"
      then have "4 \<le> unat (call_depth c) + n" using deeper_below [OF d] Suc.prems by simp
      then show "visualize_with_any ((build ^^ Suc n) a) c = visualize_with_any ((build ^^ Suc n) b) c" by (rule Suc.IH)
    qed
  qed
  then show ?case by simp
qed

lemma five_levels: "visualize_with_any ((build ^^ 5) a) ctx = visualize_with_any ((build ^^ 5) b) ctx"
  using enough_levels [of ctx 4 a b] by (simp add: numeral_eq_Suc)

end

section \<open>The presets of a build\<close>

text \<open>
  A directory of \<^verbatim>\<open>presets/\<close> holds a visualizer without nested instructions or one of the two with them. The source's
  \<^verbatim>\<open>available_visualizers()\<close> is called anew for every level of nesting; \<open>solana_levels\<close> unfolds that \<open>n\<close> times.
\<close>

datatype ('k, 'i) PresetEntry = PlainPreset "('k, 'i) Visualizer" | SwigWallet | SquadsMultisig

fun preset_entry ::
  "('k, 'i) SolanaLibs \<Rightarrow> 'k ProgramLibs \<Rightarrow> (string \<Rightarrow> string) \<Rightarrow> ('k, 'i) PresetEntry \<Rightarrow> ('k, 'i) Visualizer list \<Rightarrow> ('k, 'i) Visualizer" where
  "preset_entry libs pl embedded (PlainPreset v) inner = v"
| "preset_entry libs pl embedded SwigWallet inner = swig_wallet_visualizer libs pl inner"
| "preset_entry libs pl embedded SquadsMultisig inner = squads_multisig_visualizer libs pl embedded inner"

definition solana_build ::
  "('k, 'i) SolanaLibs \<Rightarrow> 'k ProgramLibs \<Rightarrow> (string \<Rightarrow> string) \<Rightarrow> (string \<times> ('k, 'i) PresetEntry) list \<Rightarrow> ('k, 'i) Visualizer list
    \<Rightarrow> ('k, 'i) Visualizer list" where
  "solana_build libs pl embedded entries inner =
     collect_visualizers (map (\<lambda>(name, e). (name, preset_entry libs pl embedded e inner)) entries)"

definition solana_levels ::
  "('k, 'i) SolanaLibs \<Rightarrow> 'k ProgramLibs \<Rightarrow> (string \<Rightarrow> string) \<Rightarrow> (string \<times> ('k, 'i) PresetEntry) list \<Rightarrow> nat
    \<Rightarrow> ('k, 'i) Visualizer list" where
  "solana_levels libs pl embedded entries n = (solana_build libs pl embedded entries ^^ n) []"

lemma swig_nested_depth: "call_depth (swig_nested_context libs depth instruction) = deeper depth"
  by (simp add: swig_nested_context_def with_call_depth_def Let_def)

lemma squads_nested_depth: "call_depth (squads_nested_context s ctx entry) = deeper (call_depth ctx)"
  by (simp add: squads_nested_context_def with_call_depth_def split: prod.split)

lemma visualize_inner_cong:
  "agree_at (deeper depth) a b \<Longrightarrow> visualize_inner_instruction libs a ix depth = visualize_inner_instruction libs b ix depth"
  by (simp add: visualize_inner_instruction_def agree_at_def swig_nested_depth)

lemma describe_inner_cong:
  "agree_at (deeper depth) a b \<Longrightarrow>
   describe_inner_instruction libs pl a pid disp data accs depth = describe_inner_instruction libs pl b pid disp data accs depth"
  by (simp add: describe_inner_instruction_def visualize_inner_cong cong: option.case_cong)

lemma compact_loop_cong:
  "agree_at (deeper depth) a b \<Longrightarrow>
   compact_loop libs pl a accounts depth n rest = compact_loop libs pl b accounts depth n rest"
  by (induction n arbitrary: rest) (auto simp: describe_inner_cong [of depth a b] Let_def split: list.split)

lemma parse_sign_cong:
  "agree_at (deeper depth) a b \<Longrightarrow>
   parse_sign_instruction libs pl a data h accounts depth = parse_sign_instruction libs pl b data h accounts depth"
  by (simp add: parse_sign_instruction_def decode_compact_instructions_def compact_loop_cong [of depth a b] Let_def split: list.split)

lemma parse_swig_cong:
  assumes "agree_at (deeper depth) a b"
  shows "parse_swig_instruction libs pl a data accounts depth = parse_swig_instruction libs pl b data accounts depth"
  unfolding parse_swig_instruction_def by (simp only: parse_sign_cong [OF assms])

lemma visualize_nested_cong:
  "agree_at (deeper (call_depth ctx)) a b \<Longrightarrow> visualize_nested libs a s ctx = visualize_nested libs b s ctx"
  by (rule ext) (simp add: visualize_nested_def agree_at_def squads_nested_depth)

lemma visualize_inner_instructions_cong:
  "(call_depth ctx < MAX_CALL_DEPTH \<Longrightarrow> agree_at (deeper (call_depth ctx)) a b) \<Longrightarrow>
   visualize_inner_instructions libs a ixs ctx s = visualize_inner_instructions libs b ixs ctx s"
  by (cases "call_depth ctx < MAX_CALL_DEPTH")
    (simp_all add: visualize_inner_instructions_def visualize_nested_cong [of ctx a b] word_less_nat_alt word_le_nat_alt)

interpretation swig_nested: nested_visualizer "swig_wallet_visualizer libs pl" for libs :: "('k, 'i) SolanaLibs" and pl
proof
  fix ctx :: "('k, 'i) VisualizerContext" and a b :: "('k, 'i) Visualizer list"
  assume step: "call_depth ctx < MAX_CALL_DEPTH \<Longrightarrow> agree_at (deeper (call_depth ctx)) a b"
  show "visualize_tx_commands (swig_wallet_visualizer libs pl a) ctx = visualize_tx_commands (swig_wallet_visualizer libs pl b) ctx"
  proof (cases "MAX_CALL_DEPTH \<le> call_depth ctx")
    case False
    then have "agree_at (deeper (call_depth ctx)) a b" using step by (simp add: word_less_nat_alt word_le_nat_alt)
    then show ?thesis by (simp add: swig_wallet_visualizer_def swig_visualize_def parse_swig_cong [of "call_depth ctx" a b])
  qed (simp add: swig_wallet_visualizer_def swig_visualize_def)
qed (simp_all add: swig_wallet_visualizer_def)

interpretation squads_nested: nested_visualizer "squads_multisig_visualizer libs pl embedded" for libs :: "('k, 'i) SolanaLibs" and pl embedded
proof
  fix ctx :: "('k, 'i) VisualizerContext" and a b :: "('k, 'i) Visualizer list"
  assume step: "call_depth ctx < MAX_CALL_DEPTH \<Longrightarrow> agree_at (deeper (call_depth ctx)) a b"
  have "squads_parsed_fields libs pl a instruction pid ctx = squads_parsed_fields libs pl b instruction pid ctx" for instruction pid
    unfolding squads_parsed_fields_def try_build_vault_transaction_fields_def
    by (simp only: visualize_inner_instructions_cong [OF step])
  then have "squads_visualize libs pl embedded a ctx = squads_visualize libs pl embedded b ctx"
    unfolding squads_visualize_def by (simp only:)
  then show "visualize_tx_commands (squads_multisig_visualizer libs pl embedded a) ctx =
      visualize_tx_commands (squads_multisig_visualizer libs pl embedded b) ctx"
    by (simp add: squads_multisig_visualizer_def preset_visualizer_def)
qed (simp_all add: squads_multisig_visualizer_def preset_visualizer_def)

interpretation plain_nested: nested_visualizer "\<lambda>_. v" for v
  by unfold_locales auto

text \<open>So every entry satisfies the interface, and with the entries the whole build.\<close>

lemma entry_step:
  assumes "call_depth ctx < MAX_CALL_DEPTH \<Longrightarrow> agree_at (deeper (call_depth ctx)) a b"
    and "visualize_with_any as ctx = visualize_with_any bs ctx"
  shows "visualize_with_any (preset_entry libs pl embedded e a # as) ctx = visualize_with_any (preset_entry libs pl embedded e b # bs) ctx"
  using swig_nested.first_step [OF assms] squads_nested.first_step [OF assms] plain_nested.first_step [OF assms]
  by (cases e) simp_all

lemma collect_visualizers_map:
  "collect_visualizers (map (\<lambda>(name, e). (name, f e)) entries) =
     map f (map snd (filter (\<lambda>(name, e). name \<noteq> ''unknown_program'') entries)
            @ map snd (filter (\<lambda>(name, e). name = ''unknown_program'') entries))"
  by (simp add: collect_visualizers_def filter_map comp_def split_def)

interpretation solana_nested: nested_chain "solana_build libs pl embedded entries" for libs :: "('k, 'i) SolanaLibs" and pl embedded entries
proof
  fix ctx :: "('k, 'i) VisualizerContext" and a b :: "('k, 'i) Visualizer list"
  assume step: "call_depth ctx < MAX_CALL_DEPTH \<Longrightarrow> agree_at (deeper (call_depth ctx)) a b"
  have "visualize_with_any (map (\<lambda>e. preset_entry libs pl embedded e a) es) ctx =
      visualize_with_any (map (\<lambda>e. preset_entry libs pl embedded e b) es) ctx" for es
    by (induction es) (simp_all only: list.map entry_step [OF step])
  then show "visualize_with_any (solana_build libs pl embedded entries a) ctx = visualize_with_any (solana_build libs pl embedded entries b) ctx"
    unfolding solana_build_def collect_visualizers_map .
qed

section \<open>Termination\<close>

text \<open>C23: visualization ends however deeply an attacker nests wallet and multisig instructions. Every nested instruction is
  visualized one level deeper, and unfolding the source's recursive call for a new set of visualizers five times is enough:
  more levels change nothing for any instruction at any depth, and the five-level set satisfies the source's recursive
  equation. At the limit the wallet preset shows a placeholder and the multisig preset a truncation row instead of calling
  the visualizers again.\<close>

theorem nesting_bounded:
  "visualize_with_any (solana_levels libs pl embedded entries (5 + n)) ctx = visualize_with_any (solana_levels libs pl embedded entries 5) ctx
   \<and> visualize_with_any (solana_build libs pl embedded entries (solana_levels libs pl embedded entries 5)) ctx =
       visualize_with_any (solana_levels libs pl embedded entries 5) ctx
   \<and> (MAX_CALL_DEPTH \<le> call_depth ctx \<longrightarrow>
        swig_visualize libs pl inner ctx = nested_too_deeply_field (instruction_index ctx + 1) (call_depth ctx)
      \<and> visualize_inner_instructions libs inner ixs ctx s =
          Inr [plain_text_field ''Inner Instructions'' ''<truncated: maximum nested-instruction visualization depth reached>''])"
proof -
  have more: "visualize_with_any (solana_levels libs pl embedded entries (5 + m)) ctx =
      visualize_with_any (solana_levels libs pl embedded entries 5) ctx" for m
    unfolding solana_levels_def funpow_add o_apply by (rule solana_nested.five_levels)
  have "solana_build libs pl embedded entries (solana_levels libs pl embedded entries 5) = solana_levels libs pl embedded entries (5 + 1)"
    by (simp add: solana_levels_def numeral_eq_Suc)
  then show ?thesis using more [of n] more [of 1]
    by (simp add: swig_visualize_def visualize_inner_instructions_def plain_text_field_def create_text_field_def)
qed

section \<open>Compact instructions\<close>

text \<open>The wire form of one nested wallet instruction: program index, accounts, data.\<close>

type_synonym compact = "byte \<times> bytes \<times> bytes"

fun enc_compact :: "compact \<Rightarrow> bytes" where
  "enc_compact (p, accs, data) = p # of_nat (length accs) # accs @ le_bytes 2 (length data) @ data"

fun fits_compact :: "compact \<Rightarrow> bool" where
  "fits_compact (p, accs, data) \<longleftrightarrow> length accs < 256 \<and> length data < 2 ^ 16"

fun decoded_compact ::
  "('k, 'i) SolanaLibs \<Rightarrow> 'k ProgramLibs \<Rightarrow> ('k, 'i) Visualizer list \<Rightarrow> ('k \<times> bool \<times> bool) list \<Rightarrow> u64 \<Rightarrow> compact
    \<Rightarrow> 'k DecodedInnerInstruction" where
  "decoded_compact libs pl inner accounts depth (p, accs, data) =
     (let program_meta = resolve_account_meta libs accounts (unat p);
          metas = map (\<lambda>b. resolve_account_meta libs accounts (unat b)) accs
      in \<lparr>inner_program_id = inner_pubkey program_meta, inner_program_display = inner_display program_meta, inner_accounts = metas,
          inner_data = data, inner_description = describe_inner_instruction libs pl inner (inner_pubkey program_meta)
            (inner_display program_meta) data metas depth\<rparr>)"

lemma compact_loop_enc:
  "list_all fits_compact raws \<Longrightarrow>
   compact_loop libs pl inner accounts depth (length raws) (concat (map enc_compact raws) @ trailing) =
     Inr (map (decoded_compact libs pl inner accounts depth) raws)"
proof (induction raws)
  case (Cons raw raws)
  obtain p accs data where raw: "raw = (p, accs, data)" by (cases raw)
  have fits: "length accs < 256" "length data < 2 ^ 16" using Cons.prems by (auto simp: raw)
  have n: "unat (of_nat (length accs) :: byte) = length accs" using fits(1) by (simp add: unat_of_nat)
  have "unat (u16_at (le_bytes 2 (length data) @ data @ more) 0) = length data" for more
    using fits(2) by (subst unat_u16_at) (simp_all add: slice_def)
  then show ?case using Cons n fits by (simp add: raw Let_def)
qed simp

lemma compact_loop_dec:
  "compact_loop libs pl inner accounts depth n rest = Inr ixs \<Longrightarrow>
   \<exists>raws trailing. length raws = n \<and> list_all fits_compact raws \<and> rest = concat (map enc_compact raws) @ trailing"
proof (induction n arbitrary: rest ixs)
  case (Suc n)
  obtain p c rest2 where rest: "rest = p # c # rest2" using Suc.prems by (auto simp: Let_def split: list.splits)
  define rest3 where "rest3 = drop (unat c) rest2"
  define len where "len = unat (u16_at rest3 0)"
  have c: "unat c \<le> length rest2" and l2: "2 \<le> length rest3" and ld: "len \<le> length (drop 2 rest3)"
    and more: "\<exists>ixs'. compact_loop libs pl inner accounts depth n (drop len (drop 2 rest3)) = Inr ixs'"
    using Suc.prems by (auto simp: rest Let_def rest3_def len_def and_then_Inr_iff split: if_splits)
  obtain raws trailing where raws: "length raws = n" "list_all fits_compact raws"
    and tail: "drop len (drop 2 rest3) = concat (map enc_compact raws) @ trailing"
    using more Suc.IH by blast
  let ?raw = "(p, take (unat c) rest2, take len (drop 2 rest3))"
  have len: "len = le_nat (take 2 rest3)" using l2 by (simp add: len_def unat_u16_at slice_def numeral_2_eq_2)
  have "le_bytes 2 len = take 2 rest3" using le_bytes_le_nat [of "take 2 rest3"] l2 by (simp add: len)
  then have "rest3 = le_bytes 2 len @ take len (drop 2 rest3) @ drop len (drop 2 rest3)" by (simp only: append_take_drop_id)
  moreover have "len < 2 ^ 16" using unsigned_less [of "u16_at rest3 0"] by (simp add: len_def)
  moreover have "unat c < 256" using unsigned_less [of c] by simp
  ultimately have "fits_compact ?raw" "rest = enc_compact ?raw @ drop len (drop 2 rest3)"
    using c ld by (auto simp: rest rest3_def min_absorb2 simp del: drop_drop)
  then have "length (?raw # raws) = Suc n \<and> list_all fits_compact (?raw # raws) \<and> rest = concat (map enc_compact (?raw # raws)) @ trailing"
    using raws tail by simp
  then show ?case by blast
qed auto

section \<open>What a signing wallet instruction shows\<close>

lemma build_variant_total: "\<exists>fs. build_variant_fields libs pl decoded = Inr fs"
  by (cases decoded) (simp_all add: build_sign_fields_def Let_def)

lemma text_rows_build_sign:
  "build_sign_fields libs pl sign = Inr fs \<Longrightarrow>
   set (payload_row libs (sign_authority_payload sign)) \<subseteq> set (text_rows fs)
   \<and> set (concat (map (inner_rows libs) (enumerate 0 (inner_instructions sign)))) \<subseteq> set (text_rows fs)"
  by (auto simp: build_sign_fields_def Let_def)

definition inner_name :: "nat \<Rightarrow> string \<Rightarrow> string" where
  "inner_name i what = ''Inner Instruction '' @ nat_str (i + 1) @ what"

text \<open>The rows that tell a signer what a nested instruction is: its program, accounts and bytes, and a summary.\<close>

definition inner_shown ::
  "('k, 'i) SolanaLibs \<Rightarrow> ('k \<times> bool \<times> bool) list \<Rightarrow> nat \<Rightarrow> compact \<Rightarrow> (string \<times> string) list \<Rightarrow> bool" where
  "inner_shown libs accounts i raw rows =
     (case raw of (p, accs, data) \<Rightarrow>
        (inner_name i '' Program'', inner_display (resolve_account_meta libs accounts (unat p))) \<in> set rows
      \<and> (inner_name i '' Accounts'', format_inner_accounts (map (\<lambda>b. resolve_account_meta libs accounts (unat b)) accs)) \<in> set rows
      \<and> (data = [] \<or> (inner_name i '' Data (hex)'', sl_hex_encode libs data) \<in> set rows)
      \<and> (\<exists>summary. (inner_name i '' Summary'', summary) \<in> set rows))"

definition sign_shown :: "('k, 'i) SolanaLibs \<Rightarrow> ('k, 'i) VisualizerContext \<Rightarrow> AnnotatedPayloadField \<Rightarrow> bool" where
  "sign_shown libs ctx field = (\<exists>accounts raws trailing expanded fallback summary condensed.
     let data = context_data ctx; start = (if u16_at data 0 = 9 then 16 else 8); stop = start + unat (u16_at data 2);
         payload = slice data start stop; rows = text_rows expanded
     in swig_accounts ctx = Inr accounts \<and> stop \<le> length data \<and> list_all fits_compact raws
      \<and> (payload = [] \<and> raws = [] \<or> length raws < 256 \<and> payload = of_nat (length raws) # concat (map enc_compact raws) @ trailing)
      \<and> field = swig_preview (instruction_index ctx + 1) fallback summary condensed expanded
      \<and> (\<forall>i < length raws. inner_shown libs accounts i (raws ! i) rows)
      \<and> (drop stop data = [] \<or> (''Authority Payload (hex)'', sl_hex_encode libs (drop stop data)) \<in> set rows))"

lemma inner_rows_shown:
  "inner_shown libs accounts i raw (inner_rows libs (i, decoded_compact libs pl inner accounts depth raw))"
  by (cases raw) (auto simp: inner_shown_def inner_rows_def inner_name_def Let_def)

lemma inner_shown_mono: "inner_shown libs accounts i raw rows \<Longrightarrow> set rows \<subseteq> set rows' \<Longrightarrow> inner_shown libs accounts i raw rows'"
  by (auto simp: inner_shown_def)

lemma decode_compact_raw:
  assumes "decode_compact_instructions libs pl inner payload accounts depth = Inr ixs"
  shows "\<exists>raws trailing. list_all fits_compact raws \<and> ixs = map (decoded_compact libs pl inner accounts depth) raws
    \<and> (payload = [] \<and> raws = [] \<or> length raws < 256 \<and> payload = of_nat (length raws) # concat (map enc_compact raws) @ trailing)"
proof (cases payload)
  case (Cons n rest)
  then have loop: "compact_loop libs pl inner accounts depth (unat n) rest = Inr ixs"
    using assms by (simp add: decode_compact_instructions_def)
  from compact_loop_dec [OF this] obtain raws trailing where raws: "length raws = unat n" "list_all fits_compact raws"
    and rest: "rest = concat (map enc_compact raws) @ trailing" by blast
  have "length raws < 256" using raws(1) unsigned_less [of n] by simp
  moreover have "ixs = map (decoded_compact libs pl inner accounts depth) raws"
    using compact_loop_enc [OF raws(2), of libs pl inner accounts depth trailing] loop by (simp add: raws(1) rest)
  ultimately show ?thesis using raws rest Cons by (intro exI [of _ raws] exI [of _ trailing]) simp
qed (use assms in \<open>simp add: decode_compact_instructions_def\<close>)

lemma swig_visualize_Inr:
  assumes "swig_visualize libs pl inner ctx = Inr field" and "call_depth ctx < MAX_CALL_DEPTH"
  shows "\<exists>accounts decoded variant. swig_accounts ctx = Inr accounts
    \<and> parse_swig_instruction libs pl inner (context_data ctx) accounts (call_depth ctx) = Inr decoded
    \<and> build_variant_fields libs pl decoded = Inr variant
    \<and> field = swig_preview (instruction_index ctx + 1)
        (''Program ID: '' @ resolve_program_id_str libs ctx @ newline @ ''Data: '' @ sl_hex_encode libs (context_data ctx))
        (swig_summary decoded) (row_fields [(''Instruction'', swig_summary decoded)])
        (row_fields [(''Program ID'', resolve_program_id_str libs ctx), (''Instruction Type'', swig_name decoded)] @ variant)"
proof -
  have "\<not> MAX_CALL_DEPTH \<le> call_depth ctx" using assms(2) by (simp add: not_le)
  with assms(1) show ?thesis by (fastforce simp: swig_visualize_def Let_def and_then_Inr_iff)
qed

lemma parse_sign_kinds:
  assumes "u16_at data 0 \<in> {4, 9, 11}" and "parse_swig_instruction libs pl inner data accounts depth = Inr decoded"
  shows "\<exists>sign. parse_sign_instruction libs pl inner data (if u16_at data 0 = 9 then 16 else 8) accounts depth = Inr sign
    \<and> build_variant_fields libs pl decoded = build_sign_fields libs pl sign"
  using assms by (auto simp: parse_swig_instruction_def kind_try_from_def and_then_Inr_iff split: if_splits)

text \<open>C22: a signing instruction of the wallet (three kinds) that is shown at all is shown whole. Its payload is the count and
  the wire forms of the nested instructions, and for each of them, under its own number, the expanded view has the program
  and the accounts that its index bytes name among the instruction's accounts (or that they are unresolved), the hex of
  exactly its data bytes and a summary; the authority payload behind them is shown as hex.\<close>

theorem swig_sign_faithful:
  assumes "swig_visualize libs pl inner ctx = Inr field" and "call_depth ctx < MAX_CALL_DEPTH"
    and "u16_at (context_data ctx) 0 \<in> {4, 9, 11}"
  shows "sign_shown libs ctx field"
proof -
  let ?data = "context_data ctx" and ?h = "if u16_at (context_data ctx) 0 = 9 then 16 else 8"
  obtain accounts decoded variant fallback summary condensed head where acc: "swig_accounts ctx = Inr accounts"
    and parsed: "parse_swig_instruction libs pl inner ?data accounts (call_depth ctx) = Inr decoded"
    and built: "build_variant_fields libs pl decoded = Inr variant"
    and field: "field = swig_preview (instruction_index ctx + 1) fallback summary condensed (head @ variant)"
    using swig_visualize_Inr [OF assms(1,2)] by blast
  obtain sign where sign: "parse_sign_instruction libs pl inner ?data ?h accounts (call_depth ctx) = Inr sign"
    and same: "build_variant_fields libs pl decoded = build_sign_fields libs pl sign"
    using parse_sign_kinds [OF assms(3) parsed] by blast
  define stop where "stop = ?h + unat (u16_at ?data 2)"
  have stop: "stop \<le> length ?data" "sign_authority_payload sign = drop stop ?data"
    and compact: "decode_compact_instructions libs pl inner (slice ?data ?h stop) accounts (call_depth ctx) = Inr (inner_instructions sign)"
    using sign by (auto simp: parse_sign_instruction_def Let_def and_then_Inr_iff stop_def split: if_splits)
  obtain raws trailing where raws: "list_all fits_compact raws"
    "inner_instructions sign = map (decoded_compact libs pl inner accounts (call_depth ctx)) raws"
    "slice ?data ?h stop = [] \<and> raws = [] \<or> length raws < 256 \<and> slice ?data ?h stop = of_nat (length raws) # concat (map enc_compact raws) @ trailing"
    using decode_compact_raw [OF compact] by blast
  have rows: "set (payload_row libs (drop stop ?data)) \<subseteq> set (text_rows variant)"
      "set (concat (map (inner_rows libs) (enumerate 0 (inner_instructions sign)))) \<subseteq> set (text_rows variant)"
    using text_rows_build_sign [of libs pl sign variant] built same stop by simp_all
  have "inner_shown libs accounts i (raws ! i) (text_rows (head @ variant))" if "i < length raws" for i
  proof (rule inner_shown_mono [OF inner_rows_shown])
    have mem: "(i, decoded_compact libs pl inner accounts (call_depth ctx) (raws ! i)) \<in> set (enumerate 0 (inner_instructions sign))"
      using that by (simp add: raws(2) in_set_enumerate_eq)
    show "set (inner_rows libs (i, decoded_compact libs pl inner accounts (call_depth ctx) (raws ! i))) \<subseteq> set (text_rows (head @ variant))"
      using rows(2) mem by auto
  qed
  moreover have "drop stop ?data = [] \<or> (''Authority Payload (hex)'', sl_hex_encode libs (drop stop ?data)) \<in> set (text_rows (head @ variant))"
    using rows(1) by (auto simp: payload_row_def split: if_splits)
  ultimately show ?thesis using acc stop raws field unfolding sign_shown_def Let_def stop_def by blast
qed

definition program_sample_libs :: "string ProgramLibs" where
  "program_sample_libs =
     \<lparr>key_from_array = str_of_bytes, keccak_hash = (\<lambda>bs. bs), base64_standard = (\<lambda>_. []), spl_token_ID = ''token'',
      system_program_ID = ''system'', token_unpack = (\<lambda>_. None), system_deserialize = (\<lambda>_. None),
      find_program_address = (\<lambda>_ k. k)\<rparr>"

definition swig_sample_context :: "(string, unit) VisualizerContext" where
  "swig_sample_context =
     context_new \<lparr>pa_account_key = ''payer'', pa_signer = False, pa_writable = False\<rparr>
       \<lparr>program_id_index = 1, instruction_accounts = [0, 2], instruction_data = [4, 0, 7, 0, 5, 0, 0, 0, 1, 0, 1, 1, 1, 0, 9]\<rparr>
       [''payer'', ''swigypWHEksbC64pWKwah1WTeh9JXwx8H1rJHLdbQMB'', ''mint''] idl_registry_new 0"

theorem nesting_bounded_witness:
  "let entries = [(''swig_wallet'', SwigWallet), (''unknown_program'', PlainPreset (unknown_program_visualizer sol_sample_libs)),
         (''squads_multisig'', SquadsMultisig)];
       levels = solana_levels sol_sample_libs program_sample_libs (\<lambda>_. []) entries; ctx = with_call_depth swig_sample_context 4
   in visualize_with_any (levels (5 + 1)) ctx = visualize_with_any (levels 5) ctx
      \<and> swig_visualize sol_sample_libs program_sample_libs (levels 5) ctx = nested_too_deeply_field 1 4"
proof -
  have "MAX_CALL_DEPTH \<le> call_depth (with_call_depth swig_sample_context 4)"
    and "call_depth (with_call_depth swig_sample_context 4) = 4" and "instruction_index (with_call_depth swig_sample_context 4) = 0"
    by (simp_all add: with_call_depth_def MAX_CALL_DEPTH_def swig_sample_context_def context_new_def)
  then show ?thesis
    using nesting_bounded [where n = 1 and ctx = "with_call_depth swig_sample_context 4" and libs = sol_sample_libs
        and pl = program_sample_libs and embedded = "\<lambda>_. []"]
    by (simp del: One_nat_def)
qed

lemma swig_sample_parses:
  "\<exists>field. swig_visualize sol_sample_libs program_sample_libs [] swig_sample_context = Inr field"
proof -
  have acc: "swig_accounts swig_sample_context = Inr [(''payer'', False, False), (''mint'', False, False)]"
    by (simp add: swig_accounts_def swig_sample_context_def context_new_def num_accounts_def account_def slice_get_def upt_rec)
  have depth: "call_depth swig_sample_context = 0" by (simp add: swig_sample_context_def context_new_def)
  have "\<exists>decoded. parse_swig_instruction sol_sample_libs program_sample_libs [] (context_data swig_sample_context)
      [(''payer'', False, False), (''mint'', False, False)] 0 = Inr decoded"
    by (simp add: parse_swig_instruction_def kind_try_from_def u16_at_def slice_def context_data_def swig_sample_context_def
        context_new_def parse_sign_instruction_def decode_compact_instructions_def Let_def)
  then obtain decoded fs where "parse_swig_instruction sol_sample_libs program_sample_libs [] (context_data swig_sample_context)
      [(''payer'', False, False), (''mint'', False, False)] 0 = Inr decoded"
    "build_variant_fields sol_sample_libs program_sample_libs decoded = Inr fs"
    using build_variant_total by blast
  then show ?thesis by (simp add: swig_visualize_def Let_def depth acc MAX_CALL_DEPTH_def)
qed

theorem swig_sign_faithful_witness:
  "\<exists>field. swig_visualize sol_sample_libs program_sample_libs [] swig_sample_context = Inr field \<and> sign_shown sol_sample_libs swig_sample_context field"
proof -
  obtain field where field: "swig_visualize sol_sample_libs program_sample_libs [] swig_sample_context = Inr field"
    using swig_sample_parses by blast
  have "call_depth swig_sample_context < MAX_CALL_DEPTH" "u16_at (context_data swig_sample_context) 0 \<in> {4, 9, 11}"
    by (simp_all add: swig_sample_context_def context_new_def MAX_CALL_DEPTH_def context_data_def u16_at_def slice_def)
  from swig_sign_faithful [OF field this] field show ?thesis by blast
qed

section \<open>Vault messages\<close>

lemma read_u8_iff: "read_u8 bs = Some (b, r) \<longleftrightarrow> bs = b # r"
  by (auto simp: read_u8_def split: list.split)

lemma read_bytes_iff: "read_bytes n bs = Some (a, r) \<longleftrightarrow> length a = n \<and> bs = a @ r"
  by (simp add: read_bytes_def dec_take_iff)

lemma read_u16_le_iff: "read_u16_le bs = Some (w, r) \<longleftrightarrow> bs = le_bytes 2 (unat w) @ r"
proof
  assume "read_u16_le bs = Some (w, r)"
  then obtain a where a: "length a = 2" "bs = a @ r" "w = of_nat (le_nat a)"
    by (auto simp: read_u16_le_def dec_then_Some dec_return_Some dec_take_iff)
  have "le_nat a < 2 ^ 16" using le_nat_less [of a] a(1) by simp
  then have "unat w = le_nat a" by (simp add: a(3) unat_of_nat)
  then show "bs = le_bytes 2 (unat w) @ r" using a le_bytes_le_nat [of a] by simp
next
  assume "bs = le_bytes 2 (unat w) @ r"
  moreover have "unat w < 256 ^ 2" using unsigned_less [of w] by simp
  ultimately show "read_u16_le bs = Some (w, r)"
    by (simp add: read_u16_le_def dec_then_def dec_take_def dec_return_def)
qed

context codec
begin

lemma read_times_iff: "read_times n dec bs = Some (as, r) \<longleftrightarrow> length as = n \<and> list_all dom as \<and> bs = concat (map enc as) @ r"
proof (induction n arbitrary: bs as)
  case (Suc n)
  show ?case by (cases as) (auto simp: dec_then_Some dec_return_Some Suc.IH dec_iff)
qed (auto simp: dec_return_Some)

end

text \<open>A compiled instruction of the multisig has the wire form of a compact one.\<close>

definition enc_mci :: "MultisigCompiledInstruction \<Rightarrow> bytes" where
  "enc_mci ci = enc_compact (mci_program_id_index ci, mci_account_indexes ci, mci_data ci)"

definition fits_mci :: "MultisigCompiledInstruction \<Rightarrow> bool" where
  "fits_mci ci = fits_compact (mci_program_id_index ci, mci_account_indexes ci, mci_data ci)"

fun enc_lookup :: "bytes \<times> bytes \<times> bytes \<Rightarrow> bytes" where
  "enc_lookup (table, writable_indexes, readonly_indexes) =
     table @ of_nat (length writable_indexes) # writable_indexes @ of_nat (length readonly_indexes) # readonly_indexes"

fun fits_lookup :: "bytes \<times> bytes \<times> bytes \<Rightarrow> bool" where
  "fits_lookup (table, writable_indexes, readonly_indexes) \<longleftrightarrow>
     length table = 32 \<and> length writable_indexes < 256 \<and> length readonly_indexes < 256"

fun enc_vault :: "bytes VaultTransactionMessage \<times> (bytes \<times> bytes \<times> bytes) list \<Rightarrow> bytes" where
  "enc_vault (m, lookups) =
     [vm_num_signers m, vm_num_writable_signers m, vm_num_writable_non_signers m, of_nat (length (vm_account_keys m))]
     @ concat (vm_account_keys m) @ [of_nat (length (vm_instructions m))] @ concat (map enc_mci (vm_instructions m))
     @ [of_nat (length lookups)] @ concat (map enc_lookup lookups)"

fun fits_vault :: "bytes VaultTransactionMessage \<times> (bytes \<times> bytes \<times> bytes) list \<Rightarrow> bool" where
  "fits_vault (m, lookups) \<longleftrightarrow>
     length (vm_account_keys m) < 256 \<and> list_all (\<lambda>k. length k = 32) (vm_account_keys m)
   \<and> length (vm_instructions m) < 256 \<and> list_all fits_mci (vm_instructions m)
   \<and> length lookups < 256 \<and> list_all fits_lookup lookups"

text \<open>A length in front of what it counts.\<close>

lemma length_u8: "length xs = unat b \<longleftrightarrow> length xs < 256 \<and> b = of_nat (length xs)" for b :: byte
  using unsigned_less [of b] by (auto simp: unat_of_nat dest: arg_cong [where f = "of_nat :: nat \<Rightarrow> byte"])

lemma length_u16: "length xs = unat w \<longleftrightarrow> length xs < 2 ^ 16 \<and> w = of_nat (length xs)" for w :: "16 word"
  using unsigned_less [of w] by (auto simp: unat_of_nat dest: arg_cong [where f = "of_nat :: nat \<Rightarrow> 16 word"])

lemmas vault_reads = dec_then_Some dec_return_Some read_u8_iff read_bytes_iff read_u16_le_iff length_u8 length_u16

interpretation mci: codec enc_mci read_compiled_instruction fits_mci
proof -
  have "read_compiled_instruction bs = Some (ci, r) \<longleftrightarrow> fits_mci ci \<and> bs = enc_mci ci @ r" for bs ci r
    by (cases ci) (auto simp: read_compiled_instruction_def vault_reads enc_mci_def fits_mci_def unat_of_nat)
  then show "codec enc_mci read_compiled_instruction fits_mci" by unfold_locales simp_all
qed

interpretation lookup_entry: codec enc_lookup read_lookup fits_lookup
proof -
  have "read_lookup bs = Some (l, r) \<longleftrightarrow> fits_lookup l \<and> bs = enc_lookup l @ r" for bs l r
    by (cases l) (auto simp: read_lookup_def vault_reads)
  then show "codec enc_lookup read_lookup fits_lookup" by unfold_locales simp_all
qed

interpretation key_array: codec "\<lambda>k. k" "read_bytes 32" "\<lambda>k. length k = 32"
  by unfold_locales (auto simp: read_bytes_iff)

interpretation vault: codec enc_vault read_vault_message fits_vault
proof -
  have "read_vault_message bs = Some (v, r) \<longleftrightarrow> fits_vault v \<and> bs = enc_vault v @ r" for bs v r
  proof (cases v)
    case (Pair m lookups)
    then show ?thesis
      by (cases m) (auto simp: read_vault_message_def vault_reads key_array.read_times_iff mci.read_times_iff lookup_entry.read_times_iff)
  qed
  then show "codec enc_vault read_vault_message fits_vault" by unfold_locales simp_all
qed

definition with_keys :: "'k ProgramLibs \<Rightarrow> bytes VaultTransactionMessage \<Rightarrow> 'k VaultTransactionMessage" where
  "with_keys pl m =
     \<lparr>vm_num_signers = vm_num_signers m, vm_num_writable_signers = vm_num_writable_signers m,
      vm_num_writable_non_signers = vm_num_writable_non_signers m,
      vm_account_keys = map (key_from_array pl) (vm_account_keys m), vm_instructions = vm_instructions m\<rparr>"

lemma vault_deserialize_iff:
  "vault_deserialize pl data = Some msg \<longleftrightarrow>
     (\<exists>m lookups. fits_vault (m, lookups) \<and> data = enc_vault (m, lookups) \<and> msg = with_keys pl m)"
proof -
  have "try_from_slice read_vault_message data = Some v \<longleftrightarrow> fits_vault v \<and> data = enc_vault v" for v
    by (simp add: try_from_slice_Some vault.dec_iff)
  then show ?thesis by (auto simp: vault_deserialize_def with_keys_def simp del: fits_vault.simps enc_vault.simps)
qed

text \<open>C27: the multisig preset reads a vault message exactly. The bytes it accepts are the encodings of messages, complete and
  with nothing behind the lookups, each encoding stands for one message, and the message it reads is the one encoded: the
  header counts, the keys in order and every instruction with its own indexes and data.\<close>

theorem vault_message_exact:
  "(vault_deserialize pl data = Some msg \<longleftrightarrow>
     (\<exists>m lookups. fits_vault (m, lookups) \<and> data = enc_vault (m, lookups) \<and> msg = with_keys pl m))
   \<and> (fits_vault a \<and> fits_vault b \<and> enc_vault a @ r = enc_vault b @ q \<longleftrightarrow> fits_vault a \<and> a = b \<and> r = q)"
  using vault_deserialize_iff [of pl data msg] vault.front_iff [of a b r q] by blast

section \<open>Vault transactions\<close>

text \<open>The account metas that the header's counts give an index.\<close>

definition header_meta :: "'k VaultTransactionMessage \<Rightarrow> nat \<Rightarrow> 'k \<times> bool \<times> bool" where
  "header_meta m j =
     (vm_account_keys m ! j, j < unat (vm_num_signers m),
      j < unat (vm_num_writable_signers m)
      \<or> unat (vm_num_signers m) \<le> j \<and> j < unat (vm_num_signers m) + unat (vm_num_writable_non_signers m))"

definition names_instruction :: "'k VaultTransactionMessage \<Rightarrow> MultisigCompiledInstruction \<Rightarrow> 'k Instruction \<Rightarrow> bool" where
  "names_instruction m ci ix \<longleftrightarrow>
     unat (mci_program_id_index ci) < length (vm_account_keys m) \<and> ix_program_id ix = vm_account_keys m ! unat (mci_program_id_index ci)
   \<and> (\<forall>j \<in> set (mci_account_indexes ci). unat j < length (vm_account_keys m))
   \<and> ix_accounts ix = map (\<lambda>j. header_meta m (unat j)) (mci_account_indexes ci) \<and> ix_data ix = mci_data ci"

lemma reconstruct_instruction_names:
  assumes "unat (vm_num_writable_signers m) \<le> unat (vm_num_signers m)" and "reconstruct_instruction m ci = Inr ix"
  shows "names_instruction m ci ix"
proof -
  have meta: "account_meta_for_index m j = (if j < length (vm_account_keys m) then Some (header_meta m j) else None)" for j
    using assms(1) by (auto simp: account_meta_for_index_def slice_get_def header_meta_def Let_def)
  have all: "map (\<lambda>i. ok_or msg (account_meta_for_index m (unat i))) js = map Inr metas \<Longrightarrow>
      (\<forall>j \<in> set js. unat j < length (vm_account_keys m)) \<and> metas = map (\<lambda>j. header_meta m (unat j)) js" for msg and js :: bytes and metas
    by (induction js arbitrary: metas) (auto simp: meta ok_or_def split: if_splits option.splits)
  obtain metas where p: "unat (mci_program_id_index ci) < length (vm_account_keys m)"
    and metas: "map (\<lambda>i. ok_or ''inner-instruction account index out of range (likely an ALT-resolved key)''
                  (account_meta_for_index m (unat i))) (mci_account_indexes ci) = map Inr metas"
    and ix: "ix = \<lparr>ix_program_id = vm_account_keys m ! unat (mci_program_id_index ci), ix_accounts = metas, ix_data = mci_data ci\<rparr>"
    using assms(2) by (auto simp: reconstruct_instruction_def and_then_Inr_iff collect_results_Inr split: if_splits)
  from all [OF metas] p ix show ?thesis by (simp add: names_instruction_def)
qed

lemma reconstruct_instructions_names:
  assumes "reconstruct_instructions m = Inr ixs"
  shows "list_all2 (names_instruction m) (vm_instructions m) ixs"
proof -
  have "unat (vm_num_writable_signers m) \<le> unat (vm_num_signers m)" and "map (reconstruct_instruction m) (vm_instructions m) = map Inr ixs"
    using assms by (auto simp: reconstruct_instructions_def Let_def collect_results_Inr split: if_splits)
  then show ?thesis
    by (auto simp: list_all2_conv_all_nth list_eq_iff_nth_eq intro!: reconstruct_instruction_names)
qed

definition vault_title :: "nat \<Rightarrow> string" where
  "vault_title n = ''Squads Multisig: Vault Transaction ('' @ nat_str n @ '' inner instruction(s))''"

text \<open>A view of a vault transaction that hides nothing: the message is the decoded one, and behind the rows of the outer
  instruction there is one field per nested instruction, what the visualizers make of it or else the catch-all's view.\<close>

definition vault_shown ::
  "('k, 'i) SolanaLibs \<Rightarrow> 'k ProgramLibs \<Rightarrow> ('k, 'i) Visualizer list \<Rightarrow> ParserInstructionData \<Rightarrow> ('k, 'i) VisualizerContext
    \<Rightarrow> AnnotatedPayloadField \<Rightarrow> bool" where
  "vault_shown libs pl inner parsed ctx field =
     (\<exists>args tx_msg_hex bytes m lookups ixs pid condensed rows fs raw s.
        map_of (pi_program_call_args parsed) ''args'' = Some args \<and> json_get args ''transactionMessage'' = Some (JString tx_msg_hex)
      \<and> sl_hex_decode libs tx_msg_hex = Inr bytes \<and> fits_vault (m, lookups) \<and> bytes = enc_vault (m, lookups)
      \<and> list_all2 (names_instruction (with_keys pl m)) (vm_instructions m) ixs
      \<and> field = preset_preview libs ctx pid (vault_title (length ixs)) [] condensed
          (row_fields rows @ fs @ [plain_text_field ''Raw Data'' raw])
      \<and> list_all2 (\<lambda>entry f. visualize_nested libs inner s ctx entry = Inr f) (enumerate 0 ixs) fs)"

lemma vault_arguments_Some:
  assumes "vault_arguments libs pl parsed = Some (vault_index, ixs, memo)"
  shows "\<exists>args tx_msg_hex bytes m lookups. map_of (pi_program_call_args parsed) ''args'' = Some args
    \<and> json_get args ''transactionMessage'' = Some (JString tx_msg_hex) \<and> sl_hex_decode libs tx_msg_hex = Inr bytes
    \<and> fits_vault (m, lookups) \<and> bytes = enc_vault (m, lookups) \<and> list_all2 (names_instruction (with_keys pl m)) (vm_instructions m) ixs"
proof -
  obtain args tx_msg_hex bytes msg where a: "map_of (pi_program_call_args parsed) ''args'' = Some args"
    "Option.bind (json_get args ''transactionMessage'') json_as_str = Some tx_msg_hex" "ok (sl_hex_decode libs tx_msg_hex) = Some bytes"
    "vault_deserialize pl bytes = Some msg" "ok (reconstruct_instructions msg) = Some ixs"
    using assms by (auto simp: vault_arguments_def bind_eq_Some_conv split: if_splits)
  obtain m lookups where m: "fits_vault (m, lookups)" "bytes = enc_vault (m, lookups)" "msg = with_keys pl m"
    using a(4) unfolding vault_deserialize_iff by blast
  have "json_get args ''transactionMessage'' = Some (JString tx_msg_hex)"
    using a(2) by (auto simp: bind_eq_Some_conv elim: json_as_str.elims)
  moreover have "sl_hex_decode libs tx_msg_hex = Inr bytes" "reconstruct_instructions msg = Inr ixs"
    using a(3,5) by (auto simp: ok_def split: sum.splits)
  moreover have "vm_instructions (with_keys pl m) = vm_instructions m" by (simp add: with_keys_def)
  ultimately show ?thesis using a(1) m reconstruct_instructions_names [of msg ixs] by force
qed

abbreviation vault_sender ::
  "('k, 'i) SolanaLibs \<Rightarrow> 'k ProgramLibs \<Rightarrow> PresetInstruction \<Rightarrow> byte \<Rightarrow> ('k, 'i) VisualizerContext \<Rightarrow> ParserAccount" where
  "vault_sender libs pl instruction vault_index ctx \<equiv>
     unwrap_or \<lparr>pa_account_key = pa_account_key (sender ctx), pa_signer = False, pa_writable = False\<rparr>
       (vault_pda_account libs pl (preset_named instruction) vault_index)"

lemma vault_fields_eq:
  assumes "call_depth ctx < MAX_CALL_DEPTH" and "vault_arguments libs pl (preset_parsed instruction) = Some (vault_index, ixs, memo)"
  shows "\<exists>condensed rows. try_build_vault_transaction_fields libs pl inner instruction pid ctx =
    and_then (collect_results (map (visualize_nested libs inner (vault_sender libs pl instruction vault_index ctx) ctx) (enumerate 0 ixs)))
      (\<lambda>fs. Inr (Some (vault_title (length ixs), condensed, row_fields rows @ fs)))"
proof -
  have "\<not> MAX_CALL_DEPTH \<le> call_depth ctx" using assms(1) by (simp add: not_le)
  then show ?thesis
    unfolding try_build_vault_transaction_fields_def assms(2) visualize_inner_instructions_def vault_title_def Let_def option.case prod.case
      text_fields_eq and_then.simps if_False
    by (simp only: if_False) blast
qed

text \<open>Every nested instruction gets a field, and a multisig instruction whose indices resolve is always shown.\<close>

lemma visualize_nested_total: "\<exists>f. visualize_nested libs inner s ctx entry = Inr f"
  using unknown_visualize_total
  by (auto simp: visualize_nested_def unknown_program_visualizer_def create_text_field_def split: option.split sum.split)

lemma collect_results_total: "(\<And>x. x \<in> set xs \<Longrightarrow> \<exists>a. f x = Inr a) \<Longrightarrow> \<exists>as. collect_results (map f xs) = Inr as"
  by (induction xs) (auto, force)

lemma visualize_inner_instructions_total: "\<exists>fs. visualize_inner_instructions libs inner ixs ctx s = Inr fs"
  unfolding visualize_inner_instructions_def Let_def using collect_results_total [OF visualize_nested_total] by auto

lemma squads_visualize_total:
  assumes "resolve_program_id ctx = Inr pid" and "resolve_accounts ctx = Inr accounts"
  shows "\<exists>field. squads_visualize libs pl embedded inner ctx = Inr field"
proof -
  have built: "\<exists>v. try_build_vault_transaction_fields libs pl inner instruction t ctx = Inr v" for instruction t
  proof (cases "vault_arguments libs pl (preset_parsed instruction)")
    case (Some arguments)
    obtain fs where "visualize_inner_instructions libs inner (fst (snd arguments)) ctx
        (vault_pda_account libs pl (preset_named instruction) (fst arguments)) = Inr fs"
      using visualize_inner_instructions_total by blast
    then show ?thesis using Some by (cases arguments) (simp add: try_build_vault_transaction_fields_def Let_def)
  qed (simp add: try_build_vault_transaction_fields_def)
  have parsed: "\<exists>v. squads_parsed_fields libs pl inner instruction t ctx = Inr v" for instruction t
    using built [of instruction t]
    by (auto simp: squads_parsed_fields_def perps_parsed_fields_def view_fields_def Let_def split: option.split)
  have strict: "\<exists>field. strict_visualize libs ctx t (Inr v) = Inr field" for t v
    by (cases v) (simp add: strict_visualize_def raw_data_eq)
  show ?thesis
  proof (cases "parse_preset_instruction libs embedded SQUADS_MULTISIG 8 (context_data ctx) (map (show_key libs \<circ> fst) accounts)")
    case (Inr instruction)
    obtain v where "squads_parsed_fields libs pl inner instruction (show_key libs pid) ctx = Inr v" using parsed by blast
    then show ?thesis using assms Inr strict by (simp add: squads_visualize_def Let_def)
  qed (use assms strict in \<open>simp add: squads_visualize_def Let_def unknown_fields_def view_fields_def\<close>)
qed

text \<open>C21: a vault transaction whose message the preset takes apart, below the nesting limit, is shown whole: the bytes of the
  hex argument are the encoding of a message, every nested instruction has the program, accounts and data that its indexes
  name in the message, with signer and writable flags as the header says, no index is out of range, and the expanded view
  has, between the rows of the outer instruction and its raw bytes, exactly one field for each of them in order, made by
  the visualizers of the build or by the catch-all when they fail.\<close>

theorem vault_transaction_shown:
  assumes "squads_visualize libs pl embedded inner ctx = Inr field" and "call_depth ctx < MAX_CALL_DEPTH"
    and "resolve_accounts ctx = Inr accounts"
    and "parse_preset_instruction libs embedded SQUADS_MULTISIG 8 (context_data ctx) (map (show_key libs \<circ> fst) accounts) = Inr instruction"
    and "pi_instruction_name (preset_parsed instruction) = ''vaultTransactionCreate''"
    and "vault_arguments libs pl (preset_parsed instruction) = Some arguments"
  shows "vault_shown libs pl inner (preset_parsed instruction) ctx field"
proof -
  obtain vault_index ixs memo where args: "arguments = (vault_index, ixs, memo)" by (cases arguments)
  let ?s = "vault_sender libs pl instruction vault_index ctx"
  obtain pid where "resolve_program_id ctx = Inr pid" using assms(1) by (auto simp: squads_visualize_def and_then_Inr_iff)
  moreover obtain condensed rows where "try_build_vault_transaction_fields libs pl inner instruction (show_key libs pid) ctx =
    and_then (collect_results (map (visualize_nested libs inner ?s ctx) (enumerate 0 ixs)))
      (\<lambda>fs. Inr (Some (vault_title (length ixs), condensed, row_fields rows @ fs)))"
    using vault_fields_eq [OF assms(2) assms(6) [unfolded args]] by blast
  ultimately obtain fs where fs: "map (visualize_nested libs inner ?s ctx) (enumerate 0 ixs) = map Inr fs"
    and field: "field = preset_preview libs ctx (show_key libs pid) (vault_title (length ixs)) [] condensed
      (row_fields rows @ fs @ [plain_text_field ''Raw Data'' (sl_hex_encode libs (context_data ctx))])"
    using assms(1,3-5)
    by (auto simp: squads_visualize_def squads_parsed_fields_def strict_visualize_def raw_data_eq Let_def and_then_Inr_iff
        collect_results_Inr)
  have "list_all2 (\<lambda>entry f. visualize_nested libs inner ?s ctx entry = Inr f) (enumerate 0 ixs) fs"
    using fs by (auto simp: list_all2_conv_all_nth list_eq_iff_nth_eq)
  then show ?thesis using vault_arguments_Some [OF assms(6) [unfolded args]] field unfolding vault_shown_def by blast
qed

definition sample_vault :: "bytes VaultTransactionMessage" where
  "sample_vault =
     \<lparr>vm_num_signers = 1, vm_num_writable_signers = 1, vm_num_writable_non_signers = 0, vm_account_keys = [replicate 32 7],
      vm_instructions = [\<lparr>mci_program_id_index = 0, mci_account_indexes = [0], mci_data = [5]\<rparr>]\<rparr>"

definition squads_sample_parsed :: ParserInstructionData where
  "squads_sample_parsed = \<lparr>pi_instruction_name = ''vaultTransactionCreate'', pi_discriminator = ''00'', pi_named_accounts = [],
     pi_program_call_args = [(''args'', JObject [(''transactionMessage'', JString ''00''), (''vaultIndex'', JNumber 0)])],
     pi_idl_source = SourcePreset, pi_idl_hash = []\<rparr>"

definition squads_sample_libs :: "(string, unit) SolanaLibs" where
  "squads_sample_libs = sol_sample_libs\<lparr>parse_instruction_with_idl := (\<lambda>_ _ _. Inr squads_sample_parsed),
     sl_hex_decode := (\<lambda>_. Inr (enc_vault (sample_vault, [])))\<rparr>"

definition squads_sample_context :: "(string, unit) VisualizerContext" where
  "squads_sample_context =
     context_new \<lparr>pa_account_key = ''payer'', pa_signer = False, pa_writable = False\<rparr>
       \<lparr>program_id_index = 1, instruction_accounts = [0], instruction_data = replicate 8 0\<rparr>
       [''payer'', preset_pid SQUADS_MULTISIG] idl_registry_new 0"

abbreviation squads_sample_view :: "(VisualSignError, AnnotatedPayloadField) result" where
  "squads_sample_view \<equiv> squads_visualize squads_sample_libs program_sample_libs (\<lambda>_. []) [] squads_sample_context"

lemma squads_sample_arguments:
  "\<exists>ixs. vault_arguments squads_sample_libs program_sample_libs squads_sample_parsed = Some (0, ixs, ''None'')"
proof -
  have "fits_vault (sample_vault, [])" by (simp add: sample_vault_def fits_mci_def)
  then have "vault_deserialize program_sample_libs (enc_vault (sample_vault, [])) = Some (with_keys program_sample_libs sample_vault)"
    unfolding vault_deserialize_iff by blast
  moreover have "\<exists>ixs. reconstruct_instructions (with_keys program_sample_libs sample_vault) = Inr ixs"
    by (simp add: reconstruct_instructions_def reconstruct_instruction_def account_meta_for_index_def with_keys_def sample_vault_def
        slice_get_def ok_or_def Let_def)
  ultimately show ?thesis
    by (auto simp: vault_arguments_def squads_sample_parsed_def squads_sample_libs_def ok_def unwrap_or_def simp del: enc_vault.simps)
qed

theorem vault_transaction_shown_witness:
  "\<exists>field. squads_sample_view = Inr field \<and> vault_shown squads_sample_libs program_sample_libs [] squads_sample_parsed squads_sample_context field"
proof -
  have r: "resolve_program_id squads_sample_context = Inr (preset_pid SQUADS_MULTISIG)"
      "resolve_accounts squads_sample_context = Inr [(''payer'', False, False)]"
      "call_depth squads_sample_context < MAX_CALL_DEPTH"
    by (simp_all add: resolve_program_id_def resolve_accounts_def program_id_def account_def num_accounts_def slice_get_def
        squads_sample_context_def context_new_def MAX_CALL_DEPTH_def)
  obtain field where field: "squads_sample_view = Inr field" using squads_visualize_total [OF r(1,2)] by blast
  obtain instruction where i: "parse_preset_instruction squads_sample_libs (\<lambda>_. []) SQUADS_MULTISIG 8 (context_data squads_sample_context)
      (map (show_key squads_sample_libs \<circ> fst) [(''payer'', False, False)]) = Inr instruction" "preset_parsed instruction = squads_sample_parsed"
    by (simp add: parse_preset_instruction_def squads_sample_libs_def sol_sample_libs_def ok_def ok_or_def Let_def squads_sample_context_def
        context_new_def context_data_def)
  obtain ixs where "vault_arguments squads_sample_libs program_sample_libs (preset_parsed instruction) = Some (0, ixs, ''None'')"
    using squads_sample_arguments i(2) by auto
  from vault_transaction_shown [OF field r(3) r(2) i(1) _ this] show ?thesis
    using field by (simp add: i(2)) (simp add: squads_sample_parsed_def)
qed

end
