(* ===== verification/SolanaTokens.thy ===== *)
theory SolanaTokens
  imports SolanaPrograms
begin

text \<open>
  \<^verbatim>\<open>presets/\<close> of the token, token-2022, associated token account, compute budget and stake pool programs, and
  \<^verbatim>\<open>utils/mod.rs\<close> of the Solana crate. The crates that unpack the instructions are parameters; what they return is a value of
  the crate's instruction type.
\<close>

section \<open>Amounts and known tokens\<close>

text \<open>\<^verbatim>\<open>10_u64.checked_pow\<close>.\<close>

definition checked_pow_10 :: "nat \<Rightarrow> nat option" where
  "checked_pow_10 d = (if 10 ^ d < (2 :: nat) ^ 64 then Some (10 ^ d) else None)"

definition format_spl_amount :: "u64 \<Rightarrow> byte \<Rightarrow> string" where
  "format_spl_amount amount decimals =
     (case checked_pow_10 (unat decimals) of
        None \<Rightarrow> uint_str amount
      | Some divisor \<Rightarrow>
          if divisor = 0 then uint_str amount
          else let whole = unat amount div divisor; fractional = unat amount mod divisor
               in if fractional = 0 then nat_str whole
                  else let trimmed = trim_end_matches (CHR ''0'') (zero_pad (unat decimals) (nat_str fractional))
                       in if trimmed = [] then nat_str whole else nat_str whole @ ''.'' @ trimmed)"

record TokenInfo =
  ti_symbol :: string
  ti_name :: string
  ti_decimals :: byte

definition get_token_lookup_table :: "(string \<times> TokenInfo) list" where
  "get_token_lookup_table =
     bt_collect
       [(''11111111111111111111111111111112'', \<lparr>ti_symbol = ''SOL'', ti_name = ''Solana'', ti_decimals = 9\<rparr>),
        (''EPjFWdd5AufqSSqeM2qN1xzybapC8G4wEGGkZwyTDt1v'', \<lparr>ti_symbol = ''USDC'', ti_name = ''USD Coin'', ti_decimals = 6\<rparr>),
        (''Es9vMFrzaCERmJfrF4H2FYD4KCoNkY11McCe8BenwNYB'', \<lparr>ti_symbol = ''USDT'', ti_name = ''Tether USD'', ti_decimals = 6\<rparr>)]"

record SwapTokenInfo =
  swap_address :: string
  swap_symbol :: string
  swap_name :: string
  swap_decimals :: byte
  swap_amount :: u64
  human_readable_amount :: string

definition get_token_info :: "string \<Rightarrow> u64 \<Rightarrow> SwapTokenInfo" where
  "get_token_info address amount =
     (case map_of get_token_lookup_table address of
        Some info \<Rightarrow>
          \<lparr>swap_address = address, swap_symbol = ti_symbol info, swap_name = ti_name info, swap_decimals = ti_decimals info,
           swap_amount = amount, human_readable_amount = format_spl_amount amount (ti_decimals info)\<rparr>
      | None \<Rightarrow>
          let truncated = (if length address > 8 then take 4 address @ ''...'' @ drop (length address - 4) address else address)
          in \<lparr>swap_address = address, swap_symbol = truncated, swap_name = ''Unknown Token ('' @ truncated @ '')'', swap_decimals = 0,
              swap_amount = amount, human_readable_amount = uint_str amount\<rparr>)"

section \<open>Token program\<close>

fun format_authority_type :: "AuthorityType \<Rightarrow> string" where
  "format_authority_type MintTokensType = ''Mint Tokens''"
| "format_authority_type FreezeAccountType = ''Freeze Account''"
| "format_authority_type AccountOwnerType = ''Account Owner''"
| "format_authority_type CloseAccountType = ''Close Account''"

definition format_coption_pubkey :: "('k \<Rightarrow> string) \<Rightarrow> 'k option \<Rightarrow> string" where
  "format_coption_pubkey show coption = (case coption of Some pubkey \<Rightarrow> show pubkey | None \<Rightarrow> ''None'')"

text \<open>What a variant's branch puts into the view: title, rows behind the program id, names of the accounts from the first on.\<close>

type_synonym token_branch = "string \<times> (string \<times> string) list \<times> string list"

definition mint_to_branch :: "u64 \<Rightarrow> token_branch" where
  "mint_to_branch amount =
     (''Mint To: '' @ uint_str amount, [(''Instruction'', ''Mint To''), (''Amount'', uint_str amount)],
      [''mint'', ''account'', ''mintAuthority''])"

definition mint_to_checked_branch :: "u64 \<Rightarrow> byte \<Rightarrow> token_branch" where
  "mint_to_checked_branch amount decimals =
     (''Mint To: '' @ uint_str amount @ '' (decimals: '' @ uint_str decimals @ '')'',
      [(''Instruction'', ''Mint To (Checked)''), (''Amount'', uint_str amount), (''Decimals'', uint_str decimals)],
      [''mint'', ''account'', ''mintAuthority''])"

definition set_authority_branch :: "('k \<Rightarrow> string) \<Rightarrow> AuthorityType \<Rightarrow> 'k option \<Rightarrow> token_branch" where
  "set_authority_branch show authority_type new_authority =
     (''Set Authority: '' @ format_authority_type authority_type,
      [(''Instruction'', ''Set Authority''), (''Authority Type'', format_authority_type authority_type),
       (''New Authority'', format_coption_pubkey show new_authority)],
      [''Account'', ''Current Authority''])"

definition transfer_branch :: "u64 \<Rightarrow> token_branch" where
  "transfer_branch amount =
     (''Transfer'', [(''Instruction'', ''Transfer''), (''Amount'', uint_str amount)], [''Source'', ''Destination'', ''Owner''])"

definition transfer_checked_branch :: "u64 \<Rightarrow> byte \<Rightarrow> token_branch" where
  "transfer_checked_branch amount decimals =
     (''Transfer (Checked)'',
      [(''Instruction'', ''Transfer (Checked)''), (''Amount'', uint_str amount), (''Decimals'', uint_str decimals)],
      [''Source'', ''Token Mint'', ''Destination'', ''Owner''])"

definition burn_branch :: "u64 \<Rightarrow> token_branch" where
  "burn_branch amount =
     (''Burn'', [(''Instruction'', ''Burn''), (''Amount'', uint_str amount)], [''Account'', ''Token Mint'', ''Owner''])"

definition burn_checked_branch :: "u64 \<Rightarrow> byte \<Rightarrow> token_branch" where
  "burn_checked_branch amount decimals =
     (''Burn (Checked)'',
      [(''Instruction'', ''Burn (Checked)''), (''Amount'', uint_str amount), (''Decimals'', uint_str decimals)],
      [''Account'', ''Token Mint'', ''Owner''])"

definition approve_branch :: "u64 \<Rightarrow> token_branch" where
  "approve_branch amount =
     (''Approve'', [(''Instruction'', ''Approve''), (''Amount'', uint_str amount)], [''Source'', ''Delegate'', ''Owner''])"

definition approve_checked_branch :: "u64 \<Rightarrow> byte \<Rightarrow> token_branch" where
  "approve_checked_branch amount decimals =
     (''Approve (Checked)'',
      [(''Instruction'', ''Approve (Checked)''), (''Amount'', uint_str amount), (''Decimals'', uint_str decimals)],
      [''Source'', ''Token Mint'', ''Delegate'', ''Owner''])"

definition initialize_mint_branch :: "('k \<Rightarrow> string) \<Rightarrow> string \<Rightarrow> byte \<Rightarrow> 'k \<Rightarrow> 'k option \<Rightarrow> token_branch" where
  "initialize_mint_branch show name decimals mint_authority freeze_authority =
     (name,
      [(''Instruction'', name), (''Decimals'', uint_str decimals), (''Mint Authority'', show mint_authority),
       (''Freeze Authority'', format_coption_pubkey show freeze_authority)],
      [''Token Mint''])"

definition initialize_account_branch :: token_branch where
  "initialize_account_branch =
     (''Initialize Token Account'', [(''Instruction'', ''Initialize Token Account'')], [''Account'', ''Token Mint'', ''Owner''])"

definition initialize_owned_account_branch :: "('k \<Rightarrow> string) \<Rightarrow> string \<Rightarrow> 'k \<Rightarrow> token_branch" where
  "initialize_owned_account_branch show name owner =
     (name, [(''Instruction'', name), (''Owner'', show owner)], [''Account'', ''Token Mint''])"

definition freeze_branch :: "string \<Rightarrow> token_branch" where
  "freeze_branch name = (name, [(''Instruction'', name)], [''Account'', ''Token Mint'', ''Freeze Authority''])"

definition close_account_branch :: token_branch where
  "close_account_branch = (''Close Account'', [(''Instruction'', ''Close Account'')], [''Account'', ''Destination'', ''Owner''])"

definition revoke_branch :: token_branch where
  "revoke_branch = (''Revoke'', [(''Instruction'', ''Revoke'')], [''Source'', ''Owner''])"

fun token_branch_of :: "('k \<Rightarrow> string) \<Rightarrow> 'k TokenInstruction \<Rightarrow> token_branch option" where
  "token_branch_of show (MintTo amount) = Some (mint_to_branch amount)"
| "token_branch_of show (MintToChecked amount decimals) = Some (mint_to_checked_branch amount decimals)"
| "token_branch_of show (SetAuthority authority_type new_authority) = Some (set_authority_branch show authority_type new_authority)"
| "token_branch_of show (TokenTransfer amount) = Some (transfer_branch amount)"
| "token_branch_of show (TransferChecked amount decimals) = Some (transfer_checked_branch amount decimals)"
| "token_branch_of show (TokenBurn amount) = Some (burn_branch amount)"
| "token_branch_of show (BurnChecked amount decimals) = Some (burn_checked_branch amount decimals)"
| "token_branch_of show (TokenApprove amount) = Some (approve_branch amount)"
| "token_branch_of show (ApproveChecked amount decimals) = Some (approve_checked_branch amount decimals)"
| "token_branch_of show (InitializeMint decimals m f) = Some (initialize_mint_branch show ''Initialize Mint'' decimals m f)"
| "token_branch_of show (InitializeMint2 decimals m f) = Some (initialize_mint_branch show ''Initialize Mint (v2)'' decimals m f)"
| "token_branch_of show InitializeAccount = Some initialize_account_branch"
| "token_branch_of show (InitializeAccount2 owner) = Some (initialize_owned_account_branch show ''Initialize Token Account (v2)'' owner)"
| "token_branch_of show (InitializeAccount3 owner) = Some (initialize_owned_account_branch show ''Initialize Token Account (v3)'' owner)"
| "token_branch_of show FreezeAccount = Some (freeze_branch ''Freeze Account'')"
| "token_branch_of show ThawAccount = Some (freeze_branch ''Thaw Account'')"
| "token_branch_of show CloseAccount = Some close_account_branch"
| "token_branch_of show TokenRevoke = Some revoke_branch"
| "token_branch_of show _ = None"

text \<open>The names of all variants; \<open>None\<close> is the panic of the two that never reach the function.\<close>

fun format_token_instruction :: "'k TokenInstruction \<Rightarrow> string option" where
  "format_token_instruction (InitializeMint _ _ _) = Some ''Initialize Mint''"
| "format_token_instruction (InitializeMint2 _ _ _) = Some ''Initialize Mint (v2)''"
| "format_token_instruction InitializeAccount = Some ''Initialize Token Account''"
| "format_token_instruction (InitializeAccount2 _) = Some ''Initialize Token Account (v2)''"
| "format_token_instruction (InitializeAccount3 _) = Some ''Initialize Token Account (v3)''"
| "format_token_instruction (InitializeMultisig _) = Some ''Initialize Multisig''"
| "format_token_instruction (InitializeMultisig2 _) = Some ''Initialize Multisig (v2)''"
| "format_token_instruction (TokenTransfer _) = Some ''Transfer''"
| "format_token_instruction (TransferChecked _ _) = Some ''Transfer (Checked)''"
| "format_token_instruction (TokenApprove _) = Some ''Approve''"
| "format_token_instruction (ApproveChecked _ _) = Some ''Approve (Checked)''"
| "format_token_instruction TokenRevoke = Some ''Revoke''"
| "format_token_instruction (SetAuthority _ _) = Some ''Set Authority''"
| "format_token_instruction (TokenBurn _) = Some ''Burn''"
| "format_token_instruction (BurnChecked _ _) = Some ''Burn (Checked)''"
| "format_token_instruction CloseAccount = Some ''Close Account''"
| "format_token_instruction FreezeAccount = Some ''Freeze Account''"
| "format_token_instruction ThawAccount = Some ''Thaw Account''"
| "format_token_instruction SyncNative = Some ''Sync Native''"
| "format_token_instruction GetAccountDataSize = Some ''Get Account Data Size''"
| "format_token_instruction InitializeImmutableOwner = Some ''Initialize Immutable Owner''"
| "format_token_instruction (AmountToUiAmount _) = Some ''Amount To UI Amount''"
| "format_token_instruction (UiAmountToAmount _) = Some ''UI Amount To Amount''"
| "format_token_instruction (MintTo _) = None"
| "format_token_instruction (MintToChecked _ _) = None"

definition token_view ::
  "('k, 'i) SolanaLibs \<Rightarrow> ('k, 'i) VisualizerContext \<Rightarrow> string \<Rightarrow> (string \<times> string) list \<Rightarrow> (string \<times> string) list
    \<Rightarrow> (VisualSignError, AnnotatedPayloadField) result" where
  "token_view libs context title condensed expanded =
     and_then (text_fields condensed) (\<lambda>cs. and_then (text_fields expanded) (\<lambda>es.
       Inr (preset_preview libs context (view_program_id (view_from_context (show_key libs) context)) title [] cs es)))"

definition unnamed_token_view ::
  "('k, 'i) SolanaLibs \<Rightarrow> ('k, 'i) VisualizerContext \<Rightarrow> string \<Rightarrow> (VisualSignError, AnnotatedPayloadField) result" where
  "unnamed_token_view libs context title =
     (let pid = view_program_id (view_from_context (show_key libs) context)
      in token_view libs context title [(''Instruction'', title), (''Program'', ''SPL Token'')]
           [(''Instruction'', title), (''Program'', ''SPL Token''), (''Program ID'', pid),
            (''Raw Data'', sl_hex_encode libs (context_data context))])"

definition create_unparsable_preview_layout ::
  "('k, 'i) SolanaLibs \<Rightarrow> ('k, 'i) VisualizerContext \<Rightarrow> (VisualSignError, AnnotatedPayloadField) result" where
  "create_unparsable_preview_layout libs context = unnamed_token_view libs context ''SPL Token (unparsed)''"

definition create_token_preview_layout ::
  "('k, 'i) SolanaLibs \<Rightarrow> 'k TokenInstruction \<Rightarrow> ('k, 'i) VisualizerContext \<Rightarrow> (VisualSignError, AnnotatedPayloadField) result" where
  "create_token_preview_layout libs token_instruction context =
     (let view = view_from_context (show_key libs) context
      in case token_branch_of (show_key libs) token_instruction of
           Some (title, rows, names) \<Rightarrow>
             token_view libs context title [(''Instruction'', title)]
               ((''Program ID'', view_program_id view) # rows @ zip names (view_accounts view)
                @ [(''Raw Data'', sl_hex_encode libs (context_data context))])
         | None \<Rightarrow> unnamed_token_view libs context (the (format_token_instruction token_instruction)))"

definition spl_token_visualize ::
  "('k, 'i) SolanaLibs \<Rightarrow> 'k ProgramLibs \<Rightarrow> ('k, 'i) VisualizerContext \<Rightarrow> (VisualSignError, AnnotatedPayloadField) result" where
  "spl_token_visualize libs pl context =
     (case token_unpack pl (context_data context) of
        Some token_instruction \<Rightarrow> create_token_preview_layout libs token_instruction context
      | None \<Rightarrow> create_unparsable_preview_layout libs context)"

text \<open>A visualizer with the default methods and one program.\<close>

definition program_visualizer ::
  "('k, 'i) SolanaLibs \<Rightarrow> string \<Rightarrow> VisualizerKind \<Rightarrow> (('k, 'i) VisualizerContext \<Rightarrow> (VisualSignError, AnnotatedPayloadField) result)
    \<Rightarrow> ('k, 'i) Visualizer" where
  "program_visualizer libs pid k visualize =
     \<lparr>visualize_tx_commands = visualize, get_config = Some (preset_config pid), kind = k,
      can_handle = default_can_handle (show_key libs) (Some (preset_config pid))\<rparr>"

definition spl_token_visualizer :: "('k, 'i) SolanaLibs \<Rightarrow> 'k ProgramLibs \<Rightarrow> ('k, 'i) Visualizer" where
  "spl_token_visualizer libs pl =
     program_visualizer libs ''TokenkegQfeZyiNwAJbNbGKPFXCWuBvf9Ss623VQ5DA'' (Payments ''SplToken'') (spl_token_visualize libs pl)"

section \<open>Token-2022\<close>

text \<open>The variants of \<^verbatim>\<open>spl_token_2022::instruction::TokenInstruction\<close> that the preset reads.\<close>

datatype Token2022Unpacked =
    U22MintToChecked u64 byte | U22BurnChecked u64 byte | U22FreezeAccount | U22ThawAccount | U22CloseAccount | U22Other

datatype ComputeBudgetInstruction =
    UnusedBudget | RequestHeapFrame u32 | SetComputeUnitLimit u32 | SetComputeUnitPrice u64 | SetLoadedAccountsDataSizeLimit u32

text \<open>\<^verbatim>\<open>spl_stake_pool::instruction::StakePoolInstruction\<close>, of which only the variant is read.\<close>

datatype StakePoolInstruction =
    SPInitialize | AddValidatorToPool | RemoveValidatorFromPool | DecreaseValidatorStake | IncreaseValidatorStake
  | SetPreferredValidator | UpdateValidatorListBalance | UpdateStakePoolBalance | CleanupRemovedValidatorEntries | DepositStake
  | WithdrawStake | SetManager | SetFee | SetStaker | DepositSol | SetFundingAuthority | WithdrawSol
  | IncreaseAdditionalValidatorStake | DecreaseAdditionalValidatorStake | DecreaseValidatorStakeWithReserve | CreateTokenMetadata
  | UpdateTokenMetadata | DepositStakeWithSlippage | WithdrawStakeWithSlippage | DepositSolWithSlippage | WithdrawSolWithSlippage
  | Redelegate

record TokenLibs =
  unpack_2022 :: "bytes \<Rightarrow> Token2022Unpacked option"
  compute_budget_decode :: "bytes \<Rightarrow> (string, ComputeBudgetInstruction) result"
  stake_pool_decode :: "bytes \<Rightarrow> (string, StakePoolInstruction) result"

definition MAX_TOKEN_2022_DECIMALS :: byte where
  "MAX_TOKEN_2022_DECIMALS = 18"

datatype Token2022Instruction =
    T22MintToChecked u64 byte string string string
  | T22BurnChecked u64 byte string string string
  | T22Pause string string
  | T22Resume string string
  | T22Freeze string string string
  | T22Thaw string string string
  | T22CloseAccount string string string
  | T22SetAuthority string byte string string "string option"

definition is_pause_instruction :: "bytes \<Rightarrow> bool" where
  "is_pause_instruction data = (length data > 1 \<and> data ! 0 = 44 \<and> data ! 1 = 1)"

definition is_resume_instruction :: "bytes \<Rightarrow> bool" where
  "is_resume_instruction data = (length data > 1 \<and> data ! 0 = 44 \<and> data ! 1 = 2)"

definition is_set_authority_instruction :: "bytes \<Rightarrow> bool" where
  "is_set_authority_instruction data = (data \<noteq> [] \<and> data ! 0 = 6)"

definition get_authority_type_name :: "byte \<Rightarrow> string" where
  "get_authority_type_name authority_type =
     unwrap_or (''Unknown('' @ uint_str authority_type @ '')'') (map_of
       [(0, ''MintTokens''), (1, ''FreezeAccount''), (2, ''AccountOwner''), (3, ''CloseAccount''), (4, ''TransferFeeConfig''),
        (5, ''WithheldWithdraw''), (6, ''CloseMint''), (7, ''InterestRate''), (8, ''PermanentDelegate''),
        (9, ''ConfidentialTransferMint''), (10, ''TransferHookProgramId''), (11, ''ConfidentialTransferFeeConfig''),
        (12, ''MetadataPointer''), (13, ''GroupPointer''), (14, ''GroupMemberPointer''), (15, ''ScaledUiAmount''), (16, ''Pause'')]
       authority_type)"

text \<open>The new authority of a \<^verbatim>\<open>setAuthority\<close>: a flag byte and, if it is one, 32 bytes. \<^verbatim>\<open>Pubkey::try_from\<close> takes any 32 bytes.\<close>

definition parse_new_authority :: "('k, 'i) SolanaLibs \<Rightarrow> 'k ProgramLibs \<Rightarrow> bytes \<Rightarrow> (string, string option) result" where
  "parse_new_authority libs pl data =
     (if length data \<ge> 3
      then if data ! 2 = 0 then Inr None
           else if data ! 2 = 1
           then if length data \<ge> 35 then Inr (Some (show_key libs (key_from_array pl (slice data 3 35))))
                else Inl ''Invalid setAuthority: incomplete pubkey data''
           else Inl ''Invalid setAuthority: invalid option flag''
      else Inr None)"

definition unsupported_2022 :: "bytes \<Rightarrow> string" where
  "unsupported_2022 data =
     ''Unsupported Token 2022 instruction: unknown discriminator '' @ (case data of [] \<Rightarrow> ''empty'' | b # _ \<Rightarrow> ''0x'' @ hex_byte (unat b))"

definition decimals_error :: "string \<Rightarrow> byte \<Rightarrow> string" where
  "decimals_error what decimals =
     ''Invalid '' @ what @ '': decimals '' @ uint_str decimals @ '' exceeds maximum supported value '' @ uint_str MAX_TOKEN_2022_DECIMALS"

definition parse_unpacked_2022 :: "Token2022Unpacked option \<Rightarrow> bytes \<Rightarrow> string list \<Rightarrow> (string, Token2022Instruction) result" where
  "parse_unpacked_2022 unpacked data accounts =
     (case unpacked of
        Some (U22MintToChecked amount decimals) \<Rightarrow>
          if length accounts < 3 then Inl ''Invalid mintToChecked: insufficient accounts''
          else if decimals > MAX_TOKEN_2022_DECIMALS then Inl (decimals_error ''mintToChecked'' decimals)
          else Inr (T22MintToChecked amount decimals (accounts ! 0) (accounts ! 1) (accounts ! 2))
      | Some (U22BurnChecked amount decimals) \<Rightarrow>
          if length accounts < 3 then Inl ''Invalid burnChecked: insufficient accounts''
          else if decimals > MAX_TOKEN_2022_DECIMALS then Inl (decimals_error ''burnChecked'' decimals)
          else Inr (T22BurnChecked amount decimals (accounts ! 0) (accounts ! 1) (accounts ! 2))
      | Some U22FreezeAccount \<Rightarrow>
          if length accounts < 3 then Inl ''Invalid freezeAccount: insufficient accounts''
          else Inr (T22Freeze (accounts ! 0) (accounts ! 1) (accounts ! 2))
      | Some U22ThawAccount \<Rightarrow>
          if length accounts < 3 then Inl ''Invalid thawAccount: insufficient accounts''
          else Inr (T22Thaw (accounts ! 0) (accounts ! 1) (accounts ! 2))
      | Some U22CloseAccount \<Rightarrow>
          if length accounts < 3 then Inl ''Invalid closeAccount: insufficient accounts''
          else Inr (T22CloseAccount (accounts ! 0) (accounts ! 1) (accounts ! 2))
      | Some U22Other \<Rightarrow> Inl (unsupported_2022 data)
      | None \<Rightarrow> Inl (unsupported_2022 data))"

definition parse_token_2022_instruction ::
  "('k, 'i) SolanaLibs \<Rightarrow> 'k ProgramLibs \<Rightarrow> TokenLibs \<Rightarrow> bytes \<Rightarrow> string list \<Rightarrow> (string, Token2022Instruction) result" where
  "parse_token_2022_instruction libs pl tls data accounts =
     (if is_pause_instruction data
      then if length accounts < 2 then Inl ''Invalid pause: insufficient accounts'' else Inr (T22Pause (accounts ! 0) (accounts ! 1))
      else if is_resume_instruction data
      then if length accounts < 2 then Inl ''Invalid resume: insufficient accounts'' else Inr (T22Resume (accounts ! 0) (accounts ! 1))
      else if is_set_authority_instruction data
      then if length accounts < 2 then Inl ''Invalid setAuthority: insufficient accounts''
           else if length data < 2 then Inl ''Invalid setAuthority: insufficient data''
           else and_then (parse_new_authority libs pl data) (\<lambda>new_authority.
                  Inr (T22SetAuthority (accounts ! 0) (data ! 1) (get_authority_type_name (data ! 1)) (accounts ! 1) new_authority))
      else parse_unpacked_2022 (unpack_2022 tls data) data accounts)"

text \<open>A view as title, condensed rows and the fields of the expanded view before the program id and the raw data.\<close>

fun view_2022 :: "Token2022Instruction \<Rightarrow> string \<times> (string \<times> string) list \<times> (VisualSignError, AnnotatedPayloadField) result list" where
  "view_2022 (T22MintToChecked amount decimals mint holder mint_authority) =
     (let formatted = format_spl_amount amount decimals
      in (''Mint To Checked: '' @ formatted @ '' tokens'', [(''Action'', ''Mint To Checked''), (''Amount'', formatted)],
          [create_text_field ''Instruction'' ''Mint To Checked'', create_text_field ''Amount'' formatted,
           create_number_field ''Raw Amount'' (uint_str amount) [], create_number_field ''Decimals'' (uint_str decimals) [],
           create_text_field ''Mint'' mint, create_text_field ''Destination Account'' holder,
           create_text_field ''Mint Authority'' mint_authority]))"
| "view_2022 (T22BurnChecked amount decimals holder mint authority) =
     (let formatted = format_spl_amount amount decimals
      in (''Burn Checked: '' @ formatted @ '' tokens'', [(''Action'', ''Burn Checked''), (''Amount'', formatted)],
          [create_text_field ''Instruction'' ''Burn Checked'', create_text_field ''Amount'' formatted,
           create_number_field ''Raw Amount'' (uint_str amount) [], create_number_field ''Decimals'' (uint_str decimals) [],
           create_text_field ''Token Account'' holder, create_text_field ''Mint'' mint, create_text_field ''Authority'' authority]))"
| "view_2022 (T22Pause mint pause_authority) =
     (''Pause Token'', [(''Action'', ''Pause Token'')],
      [create_text_field ''Instruction'' ''Pause'', create_text_field ''Mint'' mint, create_text_field ''Pause Authority'' pause_authority])"
| "view_2022 (T22Resume mint pause_authority) =
     (''Resume Token'', [(''Action'', ''Resume Token'')],
      [create_text_field ''Instruction'' ''Resume'', create_text_field ''Mint'' mint, create_text_field ''Pause Authority'' pause_authority])"
| "view_2022 (T22SetAuthority holder authority_type type_name current_authority new_authority) =
     (''Set Authority: '' @ type_name, [(''Action'', ''Set Authority''), (''Authority Type'', type_name)],
      [create_text_field ''Instruction'' ''Set Authority'', create_text_field ''Account'' holder,
       create_text_field ''Authority Type'' type_name, create_number_field ''Authority Type ID'' (uint_str authority_type) [],
       create_text_field ''Current Authority'' current_authority,
       create_text_field ''New Authority'' (unwrap_or ''None (Remove Authority)'' new_authority)])"
| "view_2022 (T22Freeze holder mint freeze_authority) =
     (''Freeze Account'', [(''Action'', ''Freeze Account'')],
      [create_text_field ''Instruction'' ''Freeze'', create_text_field ''Token Account'' holder, create_text_field ''Mint'' mint,
       create_text_field ''Freeze Authority'' freeze_authority])"
| "view_2022 (T22Thaw holder mint freeze_authority) =
     (''Thaw Account'', [(''Action'', ''Thaw Account'')],
      [create_text_field ''Instruction'' ''Thaw'', create_text_field ''Token Account'' holder, create_text_field ''Mint'' mint,
       create_text_field ''Freeze Authority'' freeze_authority])"
| "view_2022 (T22CloseAccount holder destination owner) =
     (''Close Account'', [(''Action'', ''Close Account'')],
      [create_text_field ''Instruction'' ''Close Account'', create_text_field ''Token Account'' holder,
       create_text_field ''Destination'' destination, create_text_field ''Owner'' owner])"

definition create_token_2022_preview_layout ::
  "('k, 'i) SolanaLibs \<Rightarrow> Token2022Instruction \<Rightarrow> ('k, 'i) VisualizerContext \<Rightarrow> (VisualSignError, AnnotatedPayloadField) result" where
  "create_token_2022_preview_layout libs parsed context =
     (let pid = resolve_program_id_str libs context; (title, condensed, fields) = view_2022 parsed
      in and_then (text_fields condensed) (\<lambda>cs.
         and_then (collect_results (fields @ [create_text_field ''Program ID'' pid, create_raw_data_field (context_data context) None])) (\<lambda>es.
           Inr (Annotated (PreviewLayout
             \<lparr>fallback_text = ''Token 2022: '' @ title @ newline @ ''Program ID: '' @ pid,
              label = ''Instruction '' @ nat_str (instruction_index context + 1)\<rparr>
             (PreviewLayoutData (Some \<lparr>text_v2_text = title\<rparr>) (Some \<lparr>text_v2_text = []\<rparr>)
                (Some (ListLayoutData cs)) (Some (ListLayoutData es)))) None None))))"

definition resolved_texts ::
  "('k, 'i) SolanaLibs \<Rightarrow> ('k, 'i) VisualizerContext \<Rightarrow> (VisualSignError, string list) result" where
  "resolved_texts libs context =
     collect_results (map (\<lambda>i.
       case account context i of
         Some (AccountResolved pk) \<Rightarrow> Inr (show_key libs pk)
       | Some (AccountUnresolved raw_index) \<Rightarrow>
           Inl (DecodeError (''token_2022: unresolved account index '' @ uint_str raw_index @ '' at position '' @ nat_str i))
       | None \<Rightarrow> Inl (DecodeError (''token_2022: missing account at position '' @ nat_str i))) [0..<num_accounts context])"

definition token_2022_visualize ::
  "('k, 'i) SolanaLibs \<Rightarrow> 'k ProgramLibs \<Rightarrow> TokenLibs \<Rightarrow> ('k, 'i) VisualizerContext \<Rightarrow> (VisualSignError, AnnotatedPayloadField) result" where
  "token_2022_visualize libs pl tls context =
     and_then (resolved_texts libs context) (\<lambda>accounts.
     and_then (map_err DecodeError (parse_token_2022_instruction libs pl tls (context_data context) accounts)) (\<lambda>parsed.
       create_token_2022_preview_layout libs parsed context))"

definition token_2022_visualizer :: "('k, 'i) SolanaLibs \<Rightarrow> 'k ProgramLibs \<Rightarrow> TokenLibs \<Rightarrow> ('k, 'i) Visualizer" where
  "token_2022_visualizer libs pl tls =
     program_visualizer libs ''TokenzQdBNbLqP5VEhdkAS6EPFLC1PHnBqCXEpPxuEb'' (Payments ''Token2022'') (token_2022_visualize libs pl tls)"

section \<open>Associated token accounts\<close>

datatype AssociatedTokenAccountInstruction = AtaCreate | AtaCreateIdempotent | AtaRecoverNested

definition parse_ata_instruction :: "bytes \<Rightarrow> (string, AssociatedTokenAccountInstruction) result" where
  "parse_ata_instruction data =
     (case data of
        [] \<Rightarrow> Inr AtaCreate
      | b # _ \<Rightarrow> if b = 0 then Inr AtaCreate else if b = 1 then Inr AtaCreateIdempotent else if b = 2 then Inr AtaRecoverNested
                 else Inl ''Unknown ATA instruction'')"

fun format_ata_instruction :: "AssociatedTokenAccountInstruction \<Rightarrow> string" where
  "format_ata_instruction AtaCreate = ''Create Associated Token Account''"
| "format_ata_instruction AtaCreateIdempotent = ''Create Associated Token Account (Idempotent)''"
| "format_ata_instruction AtaRecoverNested = ''Recover Nested Associated Token Account''"

definition create_ata_preview_layout ::
  "('k, 'i) SolanaLibs \<Rightarrow> AssociatedTokenAccountInstruction \<Rightarrow> ('k, 'i) VisualizerContext \<Rightarrow> (VisualSignError, AnnotatedPayloadField) result" where
  "create_ata_preview_layout libs ata_instruction context =
     (let pid = resolve_program_id_str libs context; t = format_ata_instruction ata_instruction
      in and_then (text_fields [(''Program ID'', pid), (''Instruction'', t)]) (\<lambda>expanded.
           Inr (preset_preview libs context pid t [] [plain_text_field ''Instruction'' t] expanded)))"

definition ata_visualize ::
  "('k, 'i) SolanaLibs \<Rightarrow> ('k, 'i) VisualizerContext \<Rightarrow> (VisualSignError, AnnotatedPayloadField) result" where
  "ata_visualize libs context =
     and_then (map_err DecodeError (parse_ata_instruction (context_data context))) (\<lambda>i. create_ata_preview_layout libs i context)"

definition associated_token_account_visualizer :: "('k, 'i) SolanaLibs \<Rightarrow> ('k, 'i) Visualizer" where
  "associated_token_account_visualizer libs =
     program_visualizer libs ''ATokenGPvbdGVxr1b2hvZbsiqW5xWH25efTNsLJA8knL'' (Payments ''AssociatedTokenAccount'') (ata_visualize libs)"

section \<open>Compute budget\<close>

fun format_compute_budget_instruction :: "ComputeBudgetInstruction \<Rightarrow> string" where
  "format_compute_budget_instruction (RequestHeapFrame n) = ''Request Heap Frame: '' @ uint_str n @ '' bytes''"
| "format_compute_budget_instruction (SetComputeUnitLimit units) = ''Set Compute Unit Limit: '' @ uint_str units @ '' units''"
| "format_compute_budget_instruction (SetComputeUnitPrice micro_lamports) =
     ''Set Compute Unit Price: '' @ uint_str micro_lamports @ '' micro-lamports per compute unit''"
| "format_compute_budget_instruction (SetLoadedAccountsDataSizeLimit n) = ''Set Loaded Accounts Data Size Limit: '' @ uint_str n @ '' bytes''"
| "format_compute_budget_instruction UnusedBudget = ''Unused Compute Budget Instruction''"

fun compute_budget_fields :: "ComputeBudgetInstruction \<Rightarrow> (VisualSignError, AnnotatedPayloadField) result list" where
  "compute_budget_fields (RequestHeapFrame n) = [create_number_field ''Heap Frame Size'' (uint_str n) ''bytes'']"
| "compute_budget_fields (SetComputeUnitLimit units) = [create_number_field ''Compute Unit Limit'' (uint_str units) ''units'']"
| "compute_budget_fields (SetComputeUnitPrice micro_lamports) =
     [create_number_field ''Price per Compute Unit'' (uint_str micro_lamports) ''micro-lamports'']"
| "compute_budget_fields (SetLoadedAccountsDataSizeLimit n) = [create_number_field ''Data Size Limit'' (uint_str n) ''bytes'']"
| "compute_budget_fields UnusedBudget = []"

definition create_compute_budget_preview_layout ::
  "('k, 'i) SolanaLibs \<Rightarrow> ComputeBudgetInstruction \<Rightarrow> ('k, 'i) VisualizerContext \<Rightarrow> (VisualSignError, AnnotatedPayloadField) result" where
  "create_compute_budget_preview_layout libs instruction context =
     (let pid = resolve_program_id_str libs context; t = format_compute_budget_instruction instruction; data = context_data context
      in and_then (collect_results ([create_text_field ''Program ID'' pid] @ compute_budget_fields instruction
            @ [create_raw_data_field data (Some (sl_hex_encode libs data))])) (\<lambda>expanded.
           Inr (preset_preview libs context pid t [] [plain_text_field ''Instruction'' t] expanded)))"

definition compute_budget_visualize ::
  "('k, 'i) SolanaLibs \<Rightarrow> TokenLibs \<Rightarrow> ('k, 'i) VisualizerContext \<Rightarrow> (VisualSignError, AnnotatedPayloadField) result" where
  "compute_budget_visualize libs tls context =
     and_then (map_err (\<lambda>e. DecodeError (''Failed to parse compute budget instruction: '' @ e))
       (compute_budget_decode tls (context_data context))) (\<lambda>i. create_compute_budget_preview_layout libs i context)"

definition compute_budget_visualizer :: "('k, 'i) SolanaLibs \<Rightarrow> TokenLibs \<Rightarrow> ('k, 'i) Visualizer" where
  "compute_budget_visualizer libs tls =
     program_visualizer libs ''ComputeBudget111111111111111111111111111111'' (Payments ''ComputeBudget'') (compute_budget_visualize libs tls)"

section \<open>Stake pools\<close>

fun get_stake_pool_instruction_name :: "StakePoolInstruction \<Rightarrow> string" where
  "get_stake_pool_instruction_name SPInitialize = ''Initialize''"
| "get_stake_pool_instruction_name AddValidatorToPool = ''Add Validator to Pool''"
| "get_stake_pool_instruction_name RemoveValidatorFromPool = ''Remove Validator from Pool''"
| "get_stake_pool_instruction_name DecreaseValidatorStake = ''Decrease Validator Stake''"
| "get_stake_pool_instruction_name IncreaseValidatorStake = ''Increase Validator Stake''"
| "get_stake_pool_instruction_name SetPreferredValidator = ''Set Preferred Validator''"
| "get_stake_pool_instruction_name UpdateValidatorListBalance = ''Update Validator List Balance''"
| "get_stake_pool_instruction_name UpdateStakePoolBalance = ''Update Stake Pool Balance''"
| "get_stake_pool_instruction_name CleanupRemovedValidatorEntries = ''Cleanup Removed Validator Entries''"
| "get_stake_pool_instruction_name DepositStake = ''Deposit Stake''"
| "get_stake_pool_instruction_name WithdrawStake = ''Withdraw Stake''"
| "get_stake_pool_instruction_name SetManager = ''Set Manager''"
| "get_stake_pool_instruction_name SetFee = ''Set Fee''"
| "get_stake_pool_instruction_name SetStaker = ''Set Staker''"
| "get_stake_pool_instruction_name DepositSol = ''Deposit SOL''"
| "get_stake_pool_instruction_name SetFundingAuthority = ''Set Funding Authority''"
| "get_stake_pool_instruction_name WithdrawSol = ''Withdraw SOL''"
| "get_stake_pool_instruction_name IncreaseAdditionalValidatorStake = ''Increase Additional Validator Stake''"
| "get_stake_pool_instruction_name DecreaseAdditionalValidatorStake = ''Decrease Additional Validator Stake''"
| "get_stake_pool_instruction_name DecreaseValidatorStakeWithReserve = ''Decrease Validator Stake with Reserve''"
| "get_stake_pool_instruction_name CreateTokenMetadata = ''Create Token Metadata''"
| "get_stake_pool_instruction_name UpdateTokenMetadata = ''Update Token Metadata''"
| "get_stake_pool_instruction_name DepositStakeWithSlippage = ''Deposit Stake with Slippage''"
| "get_stake_pool_instruction_name WithdrawStakeWithSlippage = ''Withdraw Stake with Slippage''"
| "get_stake_pool_instruction_name DepositSolWithSlippage = ''Deposit SOL with Slippage''"
| "get_stake_pool_instruction_name WithdrawSolWithSlippage = ''Withdraw SOL with Slippage''"
| "get_stake_pool_instruction_name Redelegate = ''Redelegate''"

definition create_stakepool_preview_layout ::
  "('k, 'i) SolanaLibs \<Rightarrow> StakePoolInstruction \<Rightarrow> ('k, 'i) VisualizerContext \<Rightarrow> (VisualSignError, AnnotatedPayloadField) result" where
  "create_stakepool_preview_layout libs instruction context =
     (let pid = resolve_program_id_str libs context; name = ''Stake Pool Instruction: '' @ get_stake_pool_instruction_name instruction
      in and_then (text_fields [(''Instruction'', name)]) (\<lambda>condensed.
         and_then (text_fields [(''Stake Pool Instruction'', name)]) (\<lambda>expanded.
           Inr (preset_preview libs context pid name [] condensed expanded))))"

definition stakepool_visualize ::
  "('k, 'i) SolanaLibs \<Rightarrow> TokenLibs \<Rightarrow> ('k, 'i) VisualizerContext \<Rightarrow> (VisualSignError, AnnotatedPayloadField) result" where
  "stakepool_visualize libs tls context =
     and_then (map_err (\<lambda>e. DecodeError (''Failed to parse stakepool instruction: '' @ e))
       (stake_pool_decode tls (context_data context))) (\<lambda>i. create_stakepool_preview_layout libs i context)"

definition stakepool_visualizer :: "('k, 'i) SolanaLibs \<Rightarrow> TokenLibs \<Rightarrow> ('k, 'i) Visualizer" where
  "stakepool_visualizer libs tls =
     program_visualizer libs ''SPoo1Ku8WFXoNDMHPsrGSTSG1Y47rzgn41SLUNakuHy'' (StakingPools ''StakePool'') (stakepool_visualize libs tls)"

section \<open>What the token program documents\<close>




fun authority_name :: "AuthorityType \<Rightarrow> string" where
  "authority_name MintTokensType = ''Mint Tokens''"
| "authority_name FreezeAccountType = ''Freeze Account''"
| "authority_name AccountOwnerType = ''Account Owner''"
| "authority_name CloseAccountType = ''Close Account''"

fun key_or_none :: "('k \<Rightarrow> string) \<Rightarrow> 'k option \<Rightarrow> string" where
  "key_or_none show None = ''None''"
| "key_or_none show (Some k) = show k"






section \<open>Facts\<close>




lemma authority_texts [simp]:
  "format_authority_type ty = authority_name ty" "format_coption_pubkey show new = key_or_none show new"
  by (cases ty, simp_all) (cases new, simp_all add: format_coption_pubkey_def)



section \<open>Property\<close>


end
