(* ===== verification/SolanaJupiter.thy ===== *)
theory SolanaJupiter
  imports SolanaTokens SolanaSquads
begin

text \<open>
  \<^verbatim>\<open>presets/jupiter_swap\<close> of the Solana crate: the aggregator preset, which decodes swaps by an embedded IDL. The errors of
  its parser are only logged, so the parser returns an option. Fees are bytes in the first routes and 16 bits wide in the
  second ones.
\<close>

section \<open>Parsing\<close>

datatype JupiterSwapInstruction =
    Route "SwapTokenInfo option" "SwapTokenInfo option" "16 word" byte
  | ExactOutRoute "SwapTokenInfo option" "SwapTokenInfo option" "16 word" byte
  | SharedAccountsRoute "SwapTokenInfo option" "SwapTokenInfo option" "16 word" byte
  | RouteV2 "SwapTokenInfo option" "SwapTokenInfo option" "16 word" "16 word" "16 word"
  | ExactOutRouteV2 "SwapTokenInfo option" "SwapTokenInfo option" "16 word" "16 word" "16 word"
  | SharedAccountsRouteV2 "SwapTokenInfo option" "SwapTokenInfo option" "16 word" "16 word" "16 word"
  | SharedAccountsExactOutRouteV2 "SwapTokenInfo option" "SwapTokenInfo option" "16 word" "16 word" "16 word"
  | JupiterUnknown "string option"

definition JUPITER_SWAP :: IdlPreset where
  "JUPITER_SWAP =
     \<lparr>preset_name = ''Jupiter'', preset_pid = ''JUP6LkbZbjS1jKKwapdHNy74zcZ3tLUZoi5QNyVTaV4'',
      preset_idl = ''../presets/jupiter_swap/jupiter_agg_v6.json'', preset_kind = Dex ''Jupiter''\<rparr>"

definition extract_u64_arg :: "(string \<times> json) list \<Rightarrow> string \<Rightarrow> nat option" where
  "extract_u64_arg args name = Option.bind (map_of args name) json_as_u64"

text \<open>\<^verbatim>\<open>u16::try_from\<close> and \<^verbatim>\<open>u8::try_from\<close> of an argument.\<close>

definition narrow :: "nat \<Rightarrow> 'a::len word option" where
  "narrow n = (if n < 2 ^ LENGTH('a) then Some (of_nat n) else None)"

definition token_at :: "string list \<Rightarrow> nat \<Rightarrow> nat \<Rightarrow> SwapTokenInfo option" where
  "token_at accounts i amount = map_option (\<lambda>addr. get_token_info addr (of_nat amount)) (slice_get accounts i)"

text \<open>The three routes of the first version differ in the names of their amounts and in the variant.\<close>

definition parse_route_v1 ::
  "(string \<times> json) list \<Rightarrow> string list \<Rightarrow> string \<Rightarrow> string
    \<Rightarrow> (SwapTokenInfo option \<times> SwapTokenInfo option \<times> 16 word \<times> byte) option" where
  "parse_route_v1 args accounts in_name out_name =
     Option.bind (extract_u64_arg args in_name) (\<lambda>in_amount.
     Option.bind (extract_u64_arg args out_name) (\<lambda>out_amount.
     Option.bind (Option.bind (extract_u64_arg args ''slippage_bps'') narrow) (\<lambda>slippage_bps.
     Option.bind (Option.bind (extract_u64_arg args ''platform_fee_bps'') narrow) (\<lambda>platform_fee_bps.
       Some (token_at accounts 0 in_amount, token_at accounts 5 out_amount, slippage_bps, platform_fee_bps)))))"

definition parse_route_v2 :: "(string \<times> json) list \<Rightarrow> string list \<Rightarrow> bool \<Rightarrow> bool \<Rightarrow> JupiterSwapInstruction option" where
  "parse_route_v2 args accounts exact_out shared =
     Option.bind (Option.bind (extract_u64_arg args ''slippage_bps'') narrow) (\<lambda>slippage_bps.
     Option.bind (Option.bind (extract_u64_arg args ''platform_fee_bps'') narrow) (\<lambda>platform_fee_bps.
     Option.bind (Option.bind (extract_u64_arg args ''positive_slippage_bps'') narrow) (\<lambda>positive_slippage_bps.
     let (source_mint_idx, destination_mint_idx) = (if shared then (6, 7) else (3, 4));
         (in_name, out_name) = (if exact_out then (''quoted_in_amount'', ''out_amount'') else (''in_amount'', ''quoted_out_amount''))
     in Option.bind (extract_u64_arg args in_name) (\<lambda>in_amount.
        Option.bind (extract_u64_arg args out_name) (\<lambda>out_amount.
        let in_token = token_at accounts source_mint_idx in_amount; out_token = token_at accounts destination_mint_idx out_amount;
            variant = (if exact_out then (if shared then SharedAccountsExactOutRouteV2 else ExactOutRouteV2)
                       else (if shared then SharedAccountsRouteV2 else RouteV2))
        in Some (variant in_token out_token slippage_bps platform_fee_bps positive_slippage_bps))))))"

definition parse_jupiter_parsed :: "ParserInstructionData \<Rightarrow> string list \<Rightarrow> JupiterSwapInstruction option" where
  "parse_jupiter_parsed parsed accounts =
     (let args = pi_program_call_args parsed; name = pi_instruction_name parsed
      in if name = ''route''
         then map_option (\<lambda>(i, out, s, f). Route i out s f) (parse_route_v1 args accounts ''in_amount'' ''quoted_out_amount'')
         else if name = ''exact_out_route''
         then map_option (\<lambda>(i, out, s, f). ExactOutRoute i out s f) (parse_route_v1 args accounts ''quoted_in_amount'' ''out_amount'')
         else if name = ''shared_accounts_route''
         then map_option (\<lambda>(i, out, s, f). SharedAccountsRoute i out s f) (parse_route_v1 args accounts ''in_amount'' ''quoted_out_amount'')
         else if name = ''route_v2'' then parse_route_v2 args accounts False False
         else if name = ''exact_out_route_v2'' then parse_route_v2 args accounts True False
         else if name = ''shared_accounts_route_v2'' then parse_route_v2 args accounts False True
         else if name = ''shared_accounts_exact_out_route_v2'' then parse_route_v2 args accounts True True
         else Some (JupiterUnknown (Some name)))"

definition parse_jupiter_instruction_with_idl ::
  "('k, 'i) SolanaLibs \<Rightarrow> (string \<Rightarrow> string) \<Rightarrow> bytes \<Rightarrow> string list \<Rightarrow> JupiterSwapInstruction option" where
  "parse_jupiter_instruction_with_idl libs embedded data accounts =
     Option.bind (ok (idl_of libs embedded JUPITER_SWAP)) (\<lambda>idl.
     Option.bind (ok (parse_instruction_with_idl libs data (preset_pid JUPITER_SWAP) idl)) (\<lambda>parsed.
       parse_jupiter_parsed parsed accounts))"

definition parse_jupiter_swap_instruction ::
  "('k, 'i) SolanaLibs \<Rightarrow> (string \<Rightarrow> string) \<Rightarrow> bytes \<Rightarrow> string list \<Rightarrow> (string, JupiterSwapInstruction) result" where
  "parse_jupiter_swap_instruction libs embedded data accounts =
     (if length data < 8 then Inl ''Invalid instruction data length''
      else Inr (unwrap_or (JupiterUnknown None) (parse_jupiter_instruction_with_idl libs embedded data accounts)))"

section \<open>Display\<close>

definition token_amount_text :: "SwapTokenInfo option \<Rightarrow> string" where
  "token_amount_text token = (case token of Some t \<Rightarrow> uint_str (swap_amount t) | None \<Rightarrow> ''Unknown'')"

definition format_token_symbol :: "SwapTokenInfo option \<Rightarrow> string" where
  "format_token_symbol token = (case token of Some t \<Rightarrow> swap_symbol t | None \<Rightarrow> ''Unknown'')"

definition route_text :: "string \<Rightarrow> SwapTokenInfo option \<Rightarrow> SwapTokenInfo option \<Rightarrow> 16 word \<Rightarrow> 'a::len word \<Rightarrow> string" where
  "route_text instruction_type in_token out_token slippage_bps platform_fee_bps =
     instruction_type @ '': From '' @ token_amount_text in_token @ '' '' @ format_token_symbol in_token @ '' To ''
     @ token_amount_text out_token @ '' '' @ format_token_symbol out_token @ '' (slippage: '' @ uint_str slippage_bps @ ''bps''
     @ (if platform_fee_bps > 0 then '', platform fee: '' @ uint_str platform_fee_bps @ ''bps'' else [])"

definition route_v2_text ::
  "string \<Rightarrow> SwapTokenInfo option \<Rightarrow> SwapTokenInfo option \<Rightarrow> 16 word \<Rightarrow> 16 word \<Rightarrow> 16 word \<Rightarrow> string" where
  "route_v2_text instruction_type in_token out_token slippage_bps platform_fee_bps positive_slippage_bps =
     route_text instruction_type in_token out_token slippage_bps platform_fee_bps
     @ (if positive_slippage_bps > 0 then '', positive slippage: '' @ uint_str positive_slippage_bps @ ''bps'' else []) @ '')''"

fun format_jupiter_swap_instruction :: "JupiterSwapInstruction \<Rightarrow> string" where
  "format_jupiter_swap_instruction (Route i out s f) = route_text ''Jupiter Swap'' i out s f @ '')''"
| "format_jupiter_swap_instruction (ExactOutRoute i out s f) = route_text ''Jupiter Exact Out Route'' i out s f @ '')''"
| "format_jupiter_swap_instruction (SharedAccountsRoute i out s f) = route_text ''Jupiter Shared Accounts Route'' i out s f @ '')''"
| "format_jupiter_swap_instruction (RouteV2 i out s f p) = route_v2_text ''Jupiter Swap V2'' i out s f p"
| "format_jupiter_swap_instruction (ExactOutRouteV2 i out s f p) = route_v2_text ''Jupiter Exact Out Route V2'' i out s f p"
| "format_jupiter_swap_instruction (SharedAccountsRouteV2 i out s f p) = route_v2_text ''Jupiter Shared Accounts Route V2'' i out s f p"
| "format_jupiter_swap_instruction (SharedAccountsExactOutRouteV2 i out s f p) =
     route_v2_text ''Jupiter Shared Accounts Exact Out Route V2'' i out s f p"
| "format_jupiter_swap_instruction (JupiterUnknown (Some name)) = ''Jupiter: '' @ name"
| "format_jupiter_swap_instruction (JupiterUnknown None) = ''Jupiter: Unknown Instruction''"

text \<open>The fields of a token; the first routes leave out the address of the input token.\<close>

definition swap_token_fields ::
  "string \<Rightarrow> string \<Rightarrow> bool \<Rightarrow> SwapTokenInfo option \<Rightarrow> (VisualSignError, AnnotatedPayloadField) result list" where
  "swap_token_fields side amount_label with_address token =
     (case token of
        None \<Rightarrow> []
      | Some t \<Rightarrow>
          [create_text_field (side @ '' Token'') (swap_symbol t), create_amount_field amount_label (uint_str (swap_amount t)) (swap_symbol t),
           create_text_field (side @ '' Token Name'') (swap_name t)]
          @ (if with_address then [create_text_field (side @ '' Token Address'') (swap_address t)] else []))"

definition bps_field :: "string \<Rightarrow> 'a::len word \<Rightarrow> (VisualSignError, AnnotatedPayloadField) result list" where
  "bps_field lbl w = (if w > 0 then [create_number_field lbl (uint_str w) ''bps''] else [])"

definition route_fields ::
  "bool \<Rightarrow> SwapTokenInfo option \<Rightarrow> SwapTokenInfo option \<Rightarrow> 16 word \<Rightarrow> 'a::len word
    \<Rightarrow> (VisualSignError, AnnotatedPayloadField) result list" where
  "route_fields with_address in_token out_token slippage_bps platform_fee_bps =
     swap_token_fields ''Input'' ''Input Amount'' with_address in_token
     @ swap_token_fields ''Output'' ''Quoted Output Amount'' True out_token
     @ [create_number_field ''Slippage'' (uint_str slippage_bps) ''bps''] @ bps_field ''Platform Fee'' platform_fee_bps"

fun swap_fields :: "JupiterSwapInstruction \<Rightarrow> (VisualSignError, AnnotatedPayloadField) result list" where
  "swap_fields (Route i out s f) = route_fields False i out s f"
| "swap_fields (ExactOutRoute i out s f) = route_fields False i out s f"
| "swap_fields (SharedAccountsRoute i out s f) = route_fields False i out s f"
| "swap_fields (RouteV2 i out s f p) = route_fields True i out s f @ bps_field ''Positive Slippage'' p"
| "swap_fields (ExactOutRouteV2 i out s f p) = route_fields True i out s f @ bps_field ''Positive Slippage'' p"
| "swap_fields (SharedAccountsRouteV2 i out s f p) = route_fields True i out s f @ bps_field ''Positive Slippage'' p"
| "swap_fields (SharedAccountsExactOutRouteV2 i out s f p) = route_fields True i out s f @ bps_field ''Positive Slippage'' p"
| "swap_fields (JupiterUnknown (Some name)) =
     [create_text_field ''Status'' (''Jupiter instruction: '' @ name @ '' (not explicitly handled)'')]"
| "swap_fields (JupiterUnknown None) = [create_text_field ''Status'' ''Unknown Jupiter instruction type'']"

definition create_jupiter_swap_expanded_fields ::
  "('k, 'i) SolanaLibs \<Rightarrow> JupiterSwapInstruction \<Rightarrow> ('k, 'i) VisualizerContext \<Rightarrow> (VisualSignError, AnnotatedPayloadField list) result" where
  "create_jupiter_swap_expanded_fields libs instruction context =
     collect_results (map (map_err (\<lambda>e. ConversionError (display_error e)))
       ([create_text_field ''Program ID'' (resolve_program_id_str libs context)] @ swap_fields instruction
        @ [create_raw_data_field (context_data context) None]))"

definition create_jupiter_preview_layout ::
  "('k, 'i) SolanaLibs \<Rightarrow> JupiterSwapInstruction \<Rightarrow> ('k, 'i) VisualizerContext \<Rightarrow> (VisualSignError, AnnotatedPayloadField) result" where
  "create_jupiter_preview_layout libs instruction context =
     (let t = format_jupiter_swap_instruction instruction
      in and_then (converted_fields [(''Instruction'', t)]) (\<lambda>condensed.
         and_then (create_jupiter_swap_expanded_fields libs instruction context) (\<lambda>expanded.
           Inr (preset_preview libs context (resolve_program_id_str libs context) t [] condensed expanded))))"

definition jupiter_swap_visualize ::
  "('k, 'i) SolanaLibs \<Rightarrow> (string \<Rightarrow> string) \<Rightarrow> ('k, 'i) VisualizerContext \<Rightarrow> (VisualSignError, AnnotatedPayloadField) result" where
  "jupiter_swap_visualize libs embedded context =
     (let accounts = map (resolve_account_str libs context) [0..<num_accounts context]
      in and_then (map_err DecodeError (parse_jupiter_swap_instruction libs embedded (context_data context) accounts)) (\<lambda>instruction.
           create_jupiter_preview_layout libs instruction context))"

definition jupiter_swap_visualizer :: "('k, 'i) SolanaLibs \<Rightarrow> (string \<Rightarrow> string) \<Rightarrow> ('k, 'i) Visualizer" where
  "jupiter_swap_visualizer libs embedded = preset_visualizer libs JUPITER_SWAP (jupiter_swap_visualize libs embedded)"

end
