(* ===== verification/SolanaAmounts.thy ===== *)
theory SolanaAmounts
  imports SolanaNested SolanaJupiter
begin

text \<open>
  Amounts of the Solana presets: token amounts are scaled by exact division, the wallet preset prints SOL through a floating
  point quotient, whose error is bounded here. Which accounts the swap preset reads as the tokens of a swap.
\<close>

section \<open>Token amounts\<close>

text \<open>For every number of decimals an amount is shown exactly, as a decimal or, beyond 64 bits, unscaled.\<close>

lemma spl_amount_exact:
  "if unat decimals < 20 then shows_decimal (unat decimals) (unat amount) (format_spl_amount amount decimals)
   else format_spl_amount amount decimals = nat_str (unat amount)"
proof (cases "unat decimals < 20")
  case True
  then have "(10 :: nat) ^ unat decimals \<le> 10 ^ 19" by (intro power_increasing) auto
  then have pow: "checked_pow_10 (unat decimals) = Some (10 ^ unat decimals)" by (simp add: checked_pow_10_def)
  show ?thesis
  proof (cases "unat amount mod 10 ^ unat decimals = 0")
    case True
    then show ?thesis using shows_decimal_whole [OF True] \<open>unat decimals < 20\<close> by (simp add: format_spl_amount_def pow Let_def)
  next
    case False
    then show ?thesis using shows_decimal_fraction [OF False] fraction_exact [of "unat amount mod 10 ^ unat decimals" "unat decimals"]
        \<open>unat decimals < 20\<close> by (simp add: format_spl_amount_def pow Let_def)
  qed
next
  case False
  then have "(10 :: nat) ^ 20 \<le> 10 ^ unat decimals" by (intro power_increasing) auto
  then show ?thesis using False by (simp add: format_spl_amount_def checked_pow_10_def uint_str_def)
qed

section \<open>Tokens of a swap\<close>

text \<open>The account names of the routes in the IDL that the preset embeds.\<close>

definition exact_out_route_accounts :: "string list" where
  "exact_out_route_accounts =
     [''token_program'', ''user_transfer_authority'', ''user_source_token_account'', ''user_destination_token_account'',
      ''destination_token_account'', ''source_mint'', ''destination_mint'', ''platform_fee_account'', ''token_2022_program'',
      ''event_authority'', ''program'']"

definition route_v2_accounts :: "bool \<Rightarrow> string list" where
  "route_v2_accounts shared =
     (if shared then
       [''program_authority'', ''user_transfer_authority'', ''source_token_account'', ''program_source_token_account'',
        ''program_destination_token_account'', ''destination_token_account'', ''source_mint'', ''destination_mint'']
      else
       [''user_transfer_authority'', ''user_source_token_account'', ''user_destination_token_account'', ''source_mint'',
        ''destination_mint''])"

fun swap_tokens :: "JupiterSwapInstruction \<Rightarrow> (SwapTokenInfo option \<times> SwapTokenInfo option) option" where
  "swap_tokens (Route i out _ _) = Some (i, out)"
| "swap_tokens (ExactOutRoute i out _ _) = Some (i, out)"
| "swap_tokens (SharedAccountsRoute i out _ _) = Some (i, out)"
| "swap_tokens (RouteV2 i out _ _ _) = Some (i, out)"
| "swap_tokens (ExactOutRouteV2 i out _ _ _) = Some (i, out)"
| "swap_tokens (SharedAccountsRouteV2 i out _ _ _) = Some (i, out)"
| "swap_tokens (SharedAccountsExactOutRouteV2 i out _ _ _) = Some (i, out)"
| "swap_tokens (JupiterUnknown _) = None"

text \<open>In the second version the tokens are the accounts that the IDL names as the mints.\<close>

lemma route_v2_reads_mints:
  assumes "parse_route_v2 args accounts exact_out shared = Some instruction"
  shows "\<exists>a b i j. swap_tokens instruction = Some (token_at accounts i a, token_at accounts j b)
    \<and> route_v2_accounts shared ! i = ''source_mint'' \<and> route_v2_accounts shared ! j = ''destination_mint''"
proof -
  have "route_v2_accounts shared ! (if shared then 6 else 3) = ''source_mint''"
    "route_v2_accounts shared ! (if shared then 7 else 4) = ''destination_mint''"
    by (simp_all add: route_v2_accounts_def)
  moreover have "\<exists>a b. swap_tokens instruction = Some (token_at accounts (if shared then 6 else 3) a, token_at accounts (if shared then 7 else 4) b)"
    using assms by (cases shared; cases exact_out) (auto simp: parse_route_v2_def bind_eq_Some_conv Let_def)
  ultimately show ?thesis by blast
qed

text \<open>In the first version they are not: an exact-out swap shows the token program as the input token and the source mint,
  the token that is paid, as the output token.\<close>

lemma exact_out_route_swaps_mints:
  assumes "pi_instruction_name parsed = ''exact_out_route''" and "parse_jupiter_parsed parsed accounts = Some instruction"
  shows "\<exists>a b. swap_tokens instruction = Some (token_at accounts 0 a, token_at accounts 5 b)
    \<and> exact_out_route_accounts ! 0 = ''token_program'' \<and> exact_out_route_accounts ! 5 = ''source_mint''"
  using assms by (auto simp: parse_jupiter_parsed_def parse_route_v1_def bind_eq_Some_conv exact_out_route_accounts_def Let_def)

section \<open>Lamports\<close>

lemma lamports_as_sol_error:
  assumes "0 < unat amount" and "unat amount < 2 ^ 52"
  defines "k \<equiv> log2_floor (unat amount * 2 ^ 30 div LAMPORTS_PER_SOL)"
  shows "2 * \<bar>10 ^ 9 * int (lamports_as_sol amount) - int (unat amount) * 2 ^ 82\<bar> \<le> 10 ^ 9 * 2 ^ k" and "k \<le> 52"
proof -
  let ?a = "unat amount"
  have "0 < ?a * 2 ^ 30 div LAMPORTS_PER_SOL" using assms(1) by (simp add: div_greater_zero_iff LAMPORTS_PER_SOL_def)
  then have "2 ^ k \<le> ?a * 2 ^ 30 div LAMPORTS_PER_SOL" unfolding k_def by (rule log2_floor_le)
  also have "\<dots> < 2 ^ 53" using assms(2) by (simp add: div_less_iff_less_mult LAMPORTS_PER_SOL_def)
  finally have "2 ^ k < (2 :: nat) ^ 53" .
  then have "k < 53" by (simp only: power_strict_increasing_iff)
  then show k: "k \<le> 52" by simp
  let ?m = "int (round_half_even (?a * 2 ^ (82 - k)) LAMPORTS_PER_SOL)"
  have v: "int (lamports_as_sol amount) = ?m * 2 ^ k"
    using assms(1,2) by (simp add: lamports_as_sol_def f64_of_u128_def Let_def k_def)
  have "2 * \<bar>?m * 10 ^ 9 - int ?a * 2 ^ (82 - k)\<bar> \<le> 10 ^ 9"
    using round_half_even_error [of LAMPORTS_PER_SOL "?a * 2 ^ (82 - k)"] by (simp add: LAMPORTS_PER_SOL_def)
  then have bound: "2 * \<bar>?m * 10 ^ 9 - int ?a * 2 ^ (82 - k)\<bar> * 2 ^ k \<le> 10 ^ 9 * 2 ^ k" by (rule mult_right_mono) simp
  have "(2 :: int) ^ 82 = 2 ^ (82 - k) * 2 ^ k" using k by (simp flip: power_add)
  then have "(?m * 10 ^ 9 - int ?a * 2 ^ (82 - k)) * 2 ^ k = 10 ^ 9 * int (lamports_as_sol amount) - int ?a * 2 ^ 82"
    by (simp only: v) (simp add: algebra_simps)
  then have "\<bar>?m * 10 ^ 9 - int ?a * 2 ^ (82 - k)\<bar> * 2 ^ k = \<bar>10 ^ 9 * int (lamports_as_sol amount) - int ?a * 2 ^ 82\<bar>"
    by (metis abs_mult abs_numeral power_abs)
  with bound show "2 * \<bar>10 ^ 9 * int (lamports_as_sol amount) - int ?a * 2 ^ 82\<bar> \<le> 10 ^ 9 * 2 ^ k"
    by (simp only: mult.assoc)
qed

lemma lamports_rounded:
  assumes "unat amount < 2 ^ 52"
  shows "round_half_even (lamports_as_sol amount * 10 ^ 9) (2 ^ 82) = unat amount"
proof (cases "unat amount = 0")
  case True
  then show ?thesis by (simp add: lamports_as_sol_def f64_of_u128_def round_half_even_def)
next
  case False
  let ?k = "log2_floor (unat amount * 2 ^ 30 div LAMPORTS_PER_SOL)"
  have e: "2 * \<bar>10 ^ 9 * int (lamports_as_sol amount) - int (unat amount) * 2 ^ 82\<bar> \<le> 10 ^ 9 * 2 ^ ?k" and "?k \<le> 52"
    using lamports_as_sol_error [of amount] False assms by auto
  have "(2 :: int) ^ ?k \<le> 2 ^ 52" using \<open>?k \<le> 52\<close> by (rule power_increasing) simp
  with e have "2 * \<bar>10 ^ 9 * int (lamports_as_sol amount) - int (unat amount) * 2 ^ 82\<bar> < 2 ^ 82" by simp
  then show ?thesis by (intro round_half_even_near) (simp_all add: mult.commute)
qed

text \<open>Trimming the nine decimals and a bare point.\<close>

lemma trimmed_decimal:
  "shows_decimal 9 n (pop_if (CHR ''.'') (trim_end_matches (CHR ''0'')
     (nat_str (n div 10 ^ 9) @ ''.'' @ zero_pad 9 (nat_str (n mod 10 ^ 9)))))"
proof (cases "n mod 10 ^ 9 = 0")
  case True
  have zero: "nat_str 0 = ''0''" by (simp add: nat_str.simps [of 0] digit_char_def char_of_def bit_0)
  have "zero_pad 9 (nat_str 0) = replicate 9 (CHR ''0'')"
    by (simp add: zero_pad_def zero numeral_eq_Suc)
  then have "trim_end_matches (CHR ''0'') (nat_str (n div 10 ^ 9) @ ''.'' @ zero_pad 9 (nat_str (n mod 10 ^ 9))) = nat_str (n div 10 ^ 9) @ ''.''"
    unfolding True by (simp only: trim_end_matches_append [of _ _ "''.'' @ _"] trim_end_matches_append [of _ "''.''"] trim_end_matches_replicate)
      (simp add: trim_end_matches_id)
  then show ?thesis using shows_decimal_whole [OF True] by (simp add: pop_if_def butlast_append)
next
  case False
  let ?f = "trim_end_matches (CHR ''0'') (zero_pad 9 (nat_str (n mod 10 ^ 9)))"
  have f: "?f \<noteq> []" "list_all is_ascii_digit ?f" using fraction_exact [of "n mod 10 ^ 9" 9] False by auto
  have "is_ascii_digit (last ?f)" using f by (simp add: list_all_iff)
  then have "last ?f \<noteq> CHR ''.''" by (auto simp: is_ascii_digit_def code_def)
  moreover have "trim_end_matches (CHR ''0'') (nat_str (n div 10 ^ 9) @ ''.'' @ zero_pad 9 (nat_str (n mod 10 ^ 9))) = nat_str (n div 10 ^ 9) @ ''.'' @ ?f"
    using f(1) by (simp add: trim_end_matches_append [of _ _ "''.'' @ _"] trim_end_matches_append [of _ "''.''"] del: append_Cons append_Nil)
  ultimately show ?thesis using shows_decimal_fraction [OF False] f(1) by (simp add: pop_if_def)
qed

text \<open>C26: lamport amounts below \<open>2 ^ 52\<close> (four and a half million SOL) reach the signer exactly although the SOL figure is
  computed in floating point: the text has the number of lamports and the decimal with at most nine digits, no trailing zero
  and no bare point that denotes the same amount.\<close>

theorem lamports_exact:
  assumes "unat lamports < 2 ^ 52"
  shows "\<exists>sol. format_lamports_with_sol lamports = nat_str (unat lamports) @ '' lamports (~'' @ sol @ '' SOL)''
    \<and> shows_decimal 9 (unat lamports) sol"
proof -
  let ?text = "nat_str (unat lamports div 10 ^ 9) @ ''.'' @ zero_pad 9 (nat_str (unat lamports mod 10 ^ 9))"
  have "fixed_9 (lamports_as_sol lamports) = ?text" using lamports_rounded [OF assms] by (simp add: fixed_9_def Let_def)
  then have "format_lamports_with_sol lamports =
      nat_str (unat lamports) @ '' lamports (~'' @ pop_if (CHR ''.'') (trim_end_matches (CHR ''0'') ?text) @ '' SOL)''"
    by (simp add: format_lamports_with_sol_def uint_str_def)
  then show ?thesis using trimmed_decimal by blast
qed

theorem lamports_exact_witness:
  "\<exists>sol. format_lamports_with_sol 1500000000 = nat_str 1500000000 @ '' lamports (~'' @ sol @ '' SOL)'' \<and> shows_decimal 9 1500000000 sol"
  using lamports_exact [of 1500000000] by simp

end
