(* ===== verification/SolanaChain.thy ===== *)
theory SolanaChain
  imports SolanaAmounts "HOL-Library.Multiset"
begin

text \<open>
  The visualizers of a whole build: the directories of \<^verbatim>\<open>presets/\<close> with what they hold. \<^verbatim>\<open>build.rs\<close> collects them in the order in
  which the file system lists them. The system program's visualizer, which prints shortest floating point decimals, is the
  one whose body is a parameter.
\<close>

section \<open>The directories\<close>

text \<open>The program that each directory's visualizer takes, \<open>presets/*/config.rs\<close>.\<close>

definition solana_pids :: "(string \<times> string) list" where
  "solana_pids =
     [(''associated_token_account'', ''ATokenGPvbdGVxr1b2hvZbsiqW5xWH25efTNsLJA8knL''),
      (''compute_budget'', ''ComputeBudget111111111111111111111111111111''), (''dflow_aggregator'', preset_pid DFLOW_AGGREGATOR),
      (''drift'', preset_pid DRIFT), (''exponent_finance'', preset_pid EXPONENT_FINANCE),
      (''jupiter_borrow'', preset_pid JUPITER_BORROW), (''jupiter_earn'', preset_pid JUPITER_EARN),
      (''jupiter_perps'', preset_pid JUPITER_PERPS), (''jupiter_swap'', preset_pid JUPITER_SWAP),
      (''kamino_borrow'', preset_pid KAMINO_BORROW), (''kamino_farms'', preset_pid KAMINO_FARMS),
      (''kamino_limit'', preset_pid KAMINO_LIMIT), (''kamino_vault'', preset_pid KAMINO_VAULT), (''marginfi'', preset_pid MARGINFI),
      (''metadao_conditional_vault'', preset_pid METADAO_CONDITIONAL_VAULT), (''metadao_futarchy'', preset_pid METADAO_FUTARCHY),
      (''meteora_damm_v2'', preset_pid METEORA_DAMM_V2), (''meteora_dlmm'', preset_pid METEORA_DLMM),
      (''neutral_trade'', preset_pid NEUTRAL_TRADE), (''onre_app'', preset_pid ONRE_APP),
      (''orca_whirlpool'', preset_pid ORCA_WHIRLPOOL), (''spl_token'', ''TokenkegQfeZyiNwAJbNbGKPFXCWuBvf9Ss623VQ5DA''),
      (''squads_multisig'', preset_pid SQUADS_MULTISIG), (''stakepool'', ''SPoo1Ku8WFXoNDMHPsrGSTSG1Y47rzgn41SLUNakuHy''),
      (''swig_wallet'', ''swigypWHEksbC64pWKwah1WTeh9JXwx8H1rJHLdbQMB''), (''system'', ''11111111111111111111111111111111''),
      (''token_2022'', ''TokenzQdBNbLqP5VEhdkAS6EPFLC1PHnBqCXEpPxuEb'')]"

definition solana_entries ::
  "('k, 'i) SolanaLibs \<Rightarrow> 'k ProgramLibs \<Rightarrow> TokenLibs \<Rightarrow> (string \<Rightarrow> string)
    \<Rightarrow> (('k, 'i) VisualizerContext \<Rightarrow> (VisualSignError, AnnotatedPayloadField) result) \<Rightarrow> (string \<times> ('k, 'i) PresetEntry) list" where
  "solana_entries libs pl tls embedded system_visualize =
     [(''associated_token_account'', PlainPreset (associated_token_account_visualizer libs)),
      (''compute_budget'', PlainPreset (compute_budget_visualizer libs tls)),
      (''dflow_aggregator'', PlainPreset (dflow_aggregator_visualizer libs embedded)),
      (''drift'', PlainPreset (drift_visualizer libs embedded)),
      (''exponent_finance'', PlainPreset (exponent_finance_visualizer libs embedded)),
      (''jupiter_borrow'', PlainPreset (jupiter_borrow_visualizer libs embedded)),
      (''jupiter_earn'', PlainPreset (jupiter_earn_visualizer libs embedded)),
      (''jupiter_perps'', PlainPreset (jupiter_perps_visualizer libs embedded)),
      (''jupiter_swap'', PlainPreset (jupiter_swap_visualizer libs embedded)),
      (''kamino_borrow'', PlainPreset (kamino_borrow_visualizer libs embedded)),
      (''kamino_farms'', PlainPreset (kamino_farms_visualizer libs embedded)),
      (''kamino_limit'', PlainPreset (kamino_limit_visualizer libs embedded)),
      (''kamino_vault'', PlainPreset (kamino_vault_visualizer libs embedded)),
      (''marginfi'', PlainPreset (marginfi_visualizer libs embedded)),
      (''metadao_conditional_vault'', PlainPreset (metadao_conditional_vault_visualizer libs embedded)),
      (''metadao_futarchy'', PlainPreset (metadao_futarchy_visualizer libs embedded)),
      (''meteora_damm_v2'', PlainPreset (meteora_damm_v2_visualizer libs embedded)),
      (''meteora_dlmm'', PlainPreset (meteora_dlmm_visualizer libs embedded)),
      (''neutral_trade'', PlainPreset (neutral_trade_visualizer libs embedded)),
      (''onre_app'', PlainPreset (onre_app_visualizer libs embedded)),
      (''orca_whirlpool'', PlainPreset (orca_whirlpool_visualizer libs embedded)),
      (''spl_token'', PlainPreset (spl_token_visualizer libs pl)),
      (''squads_multisig'', SquadsMultisig),
      (''stakepool'', PlainPreset (stakepool_visualizer libs tls)),
      (''swig_wallet'', SwigWallet),
      (''system'', PlainPreset (program_visualizer libs ''11111111111111111111111111111111'' (Payments ''System'') system_visualize)),
      (''token_2022'', PlainPreset (token_2022_visualizer libs pl tls)),
      (''unknown_program'', PlainPreset (unknown_program_visualizer libs))]"

section \<open>One visualizer for each program\<close>

lemma default_handles:
  "default_can_handle show (Some (preset_config pid)) ctx \<longleftrightarrow> (\<exists>k. program_id ctx = ProgramResolved k \<and> show k = pid)"
  by (auto simp: default_can_handle_def preset_config_def integration_config_new_def default_config_can_handle_def split: ProgramRef.split)

lemma solana_pids_distinct: "distinct (map snd solana_pids)"
  by (simp add: solana_pids_def DFLOW_AGGREGATOR_def DRIFT_def EXPONENT_FINANCE_def JUPITER_BORROW_def JUPITER_EARN_def JUPITER_PERPS_def
      JUPITER_SWAP_def KAMINO_BORROW_def KAMINO_FARMS_def KAMINO_LIMIT_def KAMINO_VAULT_def MARGINFI_def METADAO_CONDITIONAL_VAULT_def
      METADAO_FUTARCHY_def METEORA_DAMM_V2_def METEORA_DLMM_def NEUTRAL_TRADE_def ONRE_APP_def ORCA_WHIRLPOOL_def SQUADS_MULTISIG_def)

lemmas visualizer_defs =
  associated_token_account_visualizer_def compute_budget_visualizer_def dflow_aggregator_visualizer_def drift_visualizer_def
  exponent_finance_visualizer_def jupiter_borrow_visualizer_def jupiter_earn_visualizer_def jupiter_perps_visualizer_def
  jupiter_swap_visualizer_def kamino_borrow_visualizer_def kamino_farms_visualizer_def kamino_limit_visualizer_def
  kamino_vault_visualizer_def marginfi_visualizer_def metadao_conditional_vault_visualizer_def metadao_futarchy_visualizer_def
  meteora_damm_v2_visualizer_def meteora_dlmm_visualizer_def neutral_trade_visualizer_def onre_app_visualizer_def
  orca_whirlpool_visualizer_def spl_token_visualizer_def squads_multisig_visualizer_def stakepool_visualizer_def
  swig_wallet_visualizer_def token_2022_visualizer_def program_visualizer_def preset_visualizer_def swig_wallet_config_def

text \<open>Every directory but the catch-all's takes exactly the instructions of its own program.\<close>

lemma entries_handle:
  "list_all2 (\<lambda>(name, e) (name', pid). name = name' \<and>
     (\<forall>inner ctx. can_handle (preset_entry libs pl embedded e inner) ctx \<longleftrightarrow> (\<exists>k. program_id ctx = ProgramResolved k \<and> show_key libs k = pid)))
     (butlast (solana_entries libs pl tls embedded system_visualize)) solana_pids"
  by (simp add: solana_entries_def solana_pids_def visualizer_defs default_handles)

section \<open>The order of the directories\<close>

lemma visualize_with_any_filter:
  "visualize_with_any vs ctx =
     (case filter (\<lambda>v. can_handle v ctx) vs of
        [] \<Rightarrow> None
      | v # _ \<Rightarrow> Some (and_then (visualize_tx_commands v ctx) (\<lambda>f. Inr \<lparr>result_field = f, result_kind = kind v\<rparr>)))"
  by (induction vs) simp_all

lemma mset_small: "mset ys = mset xs \<Longrightarrow> length xs \<le> 1 \<Longrightarrow> ys = xs"
  by (cases xs) auto

lemma filter_distinct_small:
  "list_all2 (\<lambda>a b. P a \<longleftrightarrow> x = g b) as bs \<Longrightarrow> distinct (map g bs) \<Longrightarrow> length (filter P as) \<le> 1"
proof (induction rule: list_all2_induct)
  case (Cons a as b bs)
  have none: "filter P as = []" if "x = g b"
    using Cons.hyps(2) Cons.prems that by (auto simp: filter_empty_conv list_all2_conv_all_nth in_set_conv_nth) (metis image_eqI nth_mem)
  show ?case using Cons none by (cases "P a") auto
qed simp

lemma list_all2_left: "list_all2 (\<lambda>a b. Q a) as bs \<Longrightarrow> list_all Q as"
  by (induction rule: list_all2_induct) simp_all

abbreviation is_catch_all :: "string \<times> 'e \<Rightarrow> bool" where
  "is_catch_all entry \<equiv> fst entry = ''unknown_program''"

lemma entries_split:
  "filter (\<lambda>x. \<not> is_catch_all x) (solana_entries libs pl tls embedded sys) = butlast (solana_entries libs pl tls embedded sys)"
  "filter is_catch_all (solana_entries libs pl tls embedded sys) = [(''unknown_program'', PlainPreset (unknown_program_visualizer libs))]"
  by (simp_all add: solana_entries_def)

lemma specific_small:
  "length (filter (\<lambda>x. can_handle (preset_entry libs pl embedded (snd x) inner) ctx) (butlast (solana_entries libs pl tls embedded sys))) \<le> 1"
proof (cases "program_id ctx")
  case (ProgramResolved k)
  have "list_all2 (\<lambda>x b. can_handle (preset_entry libs pl embedded (snd x) inner) ctx \<longleftrightarrow> show_key libs k = snd b)
      (butlast (solana_entries libs pl tls embedded sys)) solana_pids"
    using entries_handle [of libs pl embedded tls sys] by (rule list_all2_mono) (auto simp: ProgramResolved)
  then show ?thesis using solana_pids_distinct by (rule filter_distinct_small)
next
  case (ProgramUnresolved i)
  have "list_all2 (\<lambda>x b. \<not> can_handle (preset_entry libs pl embedded (snd x) inner) ctx) (butlast (solana_entries libs pl tls embedded sys)) solana_pids"
    using entries_handle [of libs pl embedded tls sys] by (rule list_all2_mono) (auto simp: ProgramUnresolved)
  then have "filter (\<lambda>x. can_handle (preset_entry libs pl embedded (snd x) inner) ctx) (butlast (solana_entries libs pl tls embedded sys)) = []"
    unfolding filter_empty_conv by (metis list_all2_left list_all_iff)
  then show ?thesis by simp
qed

lemma solana_build_eq:
  "solana_build libs pl embedded es inner =
     map (\<lambda>x. preset_entry libs pl embedded (snd x) inner) (filter (\<lambda>x. \<not> is_catch_all x) es @ filter is_catch_all es)"
  unfolding solana_build_def collect_visualizers_map by (simp add: split_def comp_def)

lemma build_order:
  assumes "mset entries = mset (solana_entries libs pl tls embedded sys)"
  shows "visualize_with_any (solana_build libs pl embedded entries inner) ctx =
    visualize_with_any (solana_build libs pl embedded (solana_entries libs pl tls embedded sys) inner) ctx"
proof -
  let ?h = "\<lambda>x. can_handle (preset_entry libs pl embedded (snd x) inner) ctx" and ?E = "solana_entries libs pl tls embedded sys"
  let ?f = "\<lambda>x. preset_entry libs pl embedded (snd x) inner"
  have handlers: "filter (\<lambda>v. can_handle v ctx) (solana_build libs pl embedded es inner) =
      map ?f (filter ?h (filter (\<lambda>x. \<not> is_catch_all x) es) @ filter ?h (filter is_catch_all es))" for es
    unfolding solana_build_eq by (simp add: filter_map comp_def)
  have "mset (filter ?h (filter (\<lambda>x. \<not> is_catch_all x) entries)) = mset (filter ?h (filter (\<lambda>x. \<not> is_catch_all x) ?E))"
    using assms by (simp only: mset_filter)
  then have specific: "filter ?h (filter (\<lambda>x. \<not> is_catch_all x) entries) = filter ?h (filter (\<lambda>x. \<not> is_catch_all x) ?E)"
    by (rule mset_small) (unfold entries_split, rule specific_small)
  have "mset (filter is_catch_all entries) = mset (filter is_catch_all ?E)" using assms by (simp only: mset_filter)
  then have "filter is_catch_all entries = filter is_catch_all ?E" by (rule mset_small) (unfold entries_split, simp)
  then have "filter (\<lambda>v. can_handle v ctx) (solana_build libs pl embedded entries inner) =
      filter (\<lambda>v. can_handle v ctx) (solana_build libs pl embedded ?E inner)"
    using specific by (simp only: handlers)
  then show ?thesis unfolding visualize_with_any_filter by (simp only:)
qed

text \<open>C24: the order in which the file system lists the preset directories, which decides the order in which the build collects
  the visualizers, has no influence on what is shown: at every level of nesting, every instruction gets the same preview or
  error from any order, since no two presets take the same program and the catch-all is moved to the end.\<close>

theorem preset_order_irrelevant:
  assumes "mset entries = mset (solana_entries libs pl tls embedded sys)"
  shows "visualize_with_any (solana_levels libs pl embedded entries n) ctx =
    visualize_with_any (solana_levels libs pl embedded (solana_entries libs pl tls embedded sys) n) ctx"
proof (induction n arbitrary: ctx)
  case (Suc n)
  let ?E = "solana_entries libs pl tls embedded sys"
  have "visualize_with_any (solana_build libs pl embedded entries (solana_levels libs pl embedded entries n)) ctx =
      visualize_with_any (solana_build libs pl embedded entries (solana_levels libs pl embedded ?E n)) ctx"
    by (rule solana_nested.chain_step) (simp add: agree_at_def Suc.IH)
  also have "\<dots> = visualize_with_any (solana_build libs pl embedded ?E (solana_levels libs pl embedded ?E n)) ctx"
    by (rule build_order [OF assms])
  finally show ?case by (simp add: solana_levels_def)
qed (simp add: solana_levels_def)

definition sample_token_libs :: TokenLibs where
  "sample_token_libs = \<lparr>unpack_2022 = (\<lambda>_. None), compute_budget_decode = (\<lambda>_. Inl []), stake_pool_decode = (\<lambda>_. Inl [])\<rparr>"

abbreviation sample_entries :: "(string \<times> (string, unit) PresetEntry) list" where
  "sample_entries \<equiv> solana_entries sol_sample_libs program_sample_libs sample_token_libs (\<lambda>_. []) (\<lambda>_. Inl (MissingData []))"

theorem preset_order_irrelevant_witness:
  "visualize_with_any (solana_levels sol_sample_libs program_sample_libs (\<lambda>_. []) (rev sample_entries) 5) swig_sample_context =
     visualize_with_any (solana_levels sol_sample_libs program_sample_libs (\<lambda>_. []) sample_entries 5) swig_sample_context"
proof -
  have "mset (rev sample_entries) = mset sample_entries" by simp
  then show ?thesis by (rule preset_order_irrelevant)
qed

text \<open>The collected visualizers are a chain that ends with the catch-all, at every level of nesting.\<close>

interpretation solana_presets: visualizer_chain "solana_build libs pl embedded (solana_entries libs pl tls embedded sys) inner"
  for libs :: "('k, 'i) SolanaLibs" and pl tls embedded sys inner
proof -
  have "last (solana_build libs pl embedded (solana_entries libs pl tls embedded sys) inner) = unknown_program_visualizer libs"
    "solana_build libs pl embedded (solana_entries libs pl tls embedded sys) inner \<noteq> []"
    unfolding solana_build_eq entries_split by simp_all
  then show "visualizer_chain (solana_build libs pl embedded (solana_entries libs pl tls embedded sys) inner)"
    by unfold_locales (simp_all add: unknown_program_visualizer_def)
qed

end
