(* ===== verification/NearFmt.thy ===== *)
theory NearFmt
  imports FieldSeq
begin

text \<open>
  \<^verbatim>\<open>chain_parsers/visualsign-near/src/fmt.rs\<close>: the filter for untrusted text and the exact decimal
  rendering of amounts. A string is iterated by characters: its UTF-8 continuation bytes carry
  no character of their own. \<^verbatim>\<open>10u128.pow\<close> overflows from 39 digits on, which is \<open>None\<close>.
\<close>

definition ELIDED :: char where
  "ELIDED = CHR 0x3F"

definition is_continuation :: "char \<Rightarrow> bool" where
  "is_continuation c = (128 \<le> code c \<and> code c < 192)"

definition charset_safe :: "string \<Rightarrow> string" where
  "charset_safe text =
     map (\<lambda>c. if c = CHR '' '' \<or> (is_ascii_graphic c \<and> c \<noteq> CHR 0x5C) then c else ELIDED)
       (filter (\<lambda>c. \<not> is_continuation c) text)"

definition format_fixed :: "128 word \<Rightarrow> nat \<Rightarrow> string option" where
  "format_fixed units decimals =
     (let scale = 10 ^ decimals
      in if scale \<ge> (2 :: nat) ^ 128 then None
         else (let whole = unat units div scale; frac = unat units mod scale
               in if frac = 0 then Some (nat_str whole)
                  else Some (nat_str whole @ ''.'' @ trim_end_matches (CHR ''0'') (zero_pad decimals (nat_str frac)))))"

definition format_near :: "128 word \<Rightarrow> string option" where
  "format_near yocto = format_fixed yocto 24"

definition format_tgas :: "64 word \<Rightarrow> string option" where
  "format_tgas gas = format_fixed (ucast gas) 12"

section \<open>Filtered text is safe\<close>

lemma charset_safe_chars:
  "c \<in> set (charset_safe s) \<Longrightarrow> 32 \<le> code c \<and> code c \<le> 126 \<and> c \<noteq> CHR 0x5C"
  by (auto simp: charset_safe_def ELIDED_def is_ascii_graphic_def code_def split: if_splits)

lemma safe_text_charset_safe: "safe_text (charset_safe s)"
  unfolding safe_text_def list_all_iff safe_char_def
  using charset_safe_chars by (blast intro: no_backslash_no_lookalike)

lemma charset_safe_id:
  assumes "list_all (\<lambda>c. 32 \<le> code c \<and> code c \<le> 126 \<and> c \<noteq> CHR 0x5C) s"
  shows "charset_safe s = s"
proof -
  have sp: "code c = 32 \<longleftrightarrow> c = CHR '' ''" for c
  proof -
    have "code (CHR '' '') = 32" by (simp add: code_def)
    then show ?thesis by (metis code_inject)
  qed
  have keep: "\<not> is_continuation c" "c = CHR '' '' \<or> (is_ascii_graphic c \<and> c \<noteq> CHR 0x5C)"
    if c: "c \<in> set s" for c
  proof -
    have r: "32 \<le> code c" "code c \<le> 126" "c \<noteq> CHR 0x5C" using assms c by (simp_all add: list_all_iff)
    then show "\<not> is_continuation c" by (simp add: is_continuation_def)
    from r(1) have "c = CHR '' '' \<or> 33 \<le> code c" unfolding sp [symmetric] by linarith
    with r show "c = CHR '' '' \<or> (is_ascii_graphic c \<and> c \<noteq> CHR 0x5C)" by (simp add: is_ascii_graphic_def)
  qed
  then show ?thesis
    unfolding charset_safe_def by (subst filter_True) (auto intro!: map_idI)
qed

section \<open>Properties\<close>

text \<open>Text from the chain that went through the filter is safe for the charset check, whatever
  the chain supplied, contains no newline and no backslash, and text that was printable without a
  backslash is unchanged.\<close>

lemma filtered_text_safe:
  "safe_text (charset_safe s)
   \<and> CHR 0x0A \<notin> set (charset_safe s) \<and> CHR 0x5C \<notin> set (charset_safe s)
   \<and> (charset_safe s = s \<longleftrightarrow> list_all (\<lambda>c. 32 \<le> code c \<and> code c \<le> 126 \<and> c \<noteq> CHR 0x5C) s)"
proof -
  have "code (CHR 0x0A) = 10" by (simp add: code_def)
  then have "CHR 0x0A \<notin> set (charset_safe s)" and "CHR 0x5C \<notin> set (charset_safe s)"
    using charset_safe_chars [of "CHR 0x0A" s] charset_safe_chars [of "CHR 0x5C" s] by auto
  moreover have "list_all (\<lambda>c. 32 \<le> code c \<and> code c \<le> 126 \<and> c \<noteq> CHR 0x5C) s" if "charset_safe s = s"
    using charset_safe_chars [of _ s] unfolding that list_all_iff by blast
  ultimately show ?thesis using charset_safe_id [of s] safe_text_charset_safe [of s] by blast
qed

text \<open>The marker is itself an ordinary character, so two inputs can render alike.\<close>

lemma filtered_collision: "charset_safe [CHR ''a'', CHR 0x0A] = charset_safe ''a?''"
  by (simp add: charset_safe_def is_continuation_def ELIDED_def is_ascii_graphic_def code_def)

text \<open>NEAR amounts and gas always render, and the rendered decimal is exactly the value: whole part
  and, when there is a fraction, a point and digits that do not end in zero.\<close>

lemma format_fixed_exact:
  assumes "(10 :: nat) ^ d < 2 ^ 128"
  shows "\<exists>s. format_fixed units d = Some s \<and> shows_decimal d (unat units) s"
proof (cases "unat units mod 10 ^ d = 0")
  case True
  with assms shows_decimal_whole [OF True] show ?thesis by (simp add: format_fixed_def Let_def)
next
  case False
  with assms shows_decimal_fraction [OF False] show ?thesis by (simp add: format_fixed_def Let_def)
qed

end
