(* ===== verification/NearTokens.thy ===== *)
theory NearTokens
  imports NearFmt Registry
begin

text \<open>
  \<^verbatim>\<open>chain_parsers/visualsign-near/src/networks.rs\<close>, the token types of \<^verbatim>\<open>presets/intents/mod.rs\<close> and
  \<^verbatim>\<open>presets/intents/tokens.rs\<close>: networks, where token metadata comes from, the compiled-in seed table and the
  resolution of an asset id. The parser of defuse's \<^verbatim>\<open>TokenId\<close> is the parameter \<open>nep141\<close>, which says
  whether a text is the id of a NEP-141 token. \<^verbatim>\<open>10u128.pow\<close> overflows from 39 digits on, which is \<open>None\<close>.
\<close>

section \<open>Networks\<close>

datatype NearNetwork = Mainnet | Testnet

fun display_name :: "NearNetwork \<Rightarrow> string" where
  "display_name Mainnet = ''NEAR Mainnet''"
| "display_name Testnet = ''NEAR Testnet''"

fun network_id :: "NearNetwork \<Rightarrow> string" where
  "network_id Mainnet = ''NEAR_MAINNET''"
| "network_id Testnet = ''NEAR_TESTNET''"

definition from_network_id :: "string \<Rightarrow> NearNetwork option" where
  "from_network_id s =
     (let u = to_uppercase s
      in if u = ''NEAR_MAINNET'' then Some Mainnet else if u = ''NEAR_TESTNET'' then Some Testnet else None)"

fun network_debug :: "NearNetwork \<Rightarrow> string" where
  "network_debug Mainnet = ''Mainnet''"
| "network_debug Testnet = ''Testnet''"

definition ends_with :: "string \<Rightarrow> string \<Rightarrow> bool" where
  "ends_with p s = (drop (length s - length p) s = p)"

fun contradicts :: "string \<Rightarrow> NearNetwork \<Rightarrow> bool" where
  "contradicts account_id Mainnet = ends_with ''.testnet'' account_id"
| "contradicts account_id Testnet = ends_with ''.near'' account_id"

definition network_mismatch :: "string \<Rightarrow> string \<Rightarrow> NearNetwork \<Rightarrow> string option" where
  "network_mismatch role account_id network =
     (if contradicts account_id network
      then Some (role @ '' account '' @ [CHR 0x27] @ account_id @ [CHR 0x27] @ '' does not match resolved network ''
             @ network_debug network)
      else None)"

definition extract_network_from_metadata :: "ChainMetadata option \<Rightarrow> (VisualSignError, NearNetwork option) result" where
  "extract_network_from_metadata chain_metadata =
     (case Option.bind chain_metadata chain_metadata_metadata of
        Some (NearMeta m) \<Rightarrow>
          (case near_network_id m of
             None \<Rightarrow> Inr None
           | Some n \<Rightarrow> (case from_network_id n of
                 Some network \<Rightarrow> Inr (Some network)
               | None \<Rightarrow> Inl (ValidationError (''Invalid NEAR network_id: '' @ n))))
      | _ \<Rightarrow> Inr None)"

section \<open>Token metadata\<close>

datatype TokenProvenance = Seed | RecognizedSigner | UnrecognizedSigner | Unsigned

fun verified :: "TokenProvenance \<Rightarrow> bool" where
  "verified p = (p = Seed \<or> p = RecognizedSigner)"

fun unverified_cause :: "TokenProvenance \<Rightarrow> string option" where
  "unverified_cause UnrecognizedSigner = Some ''unrecognized signer (signature verified, key not enrolled)''"
| "unverified_cause Unsigned = Some ''unsigned request entry''"
| "unverified_cause _ = None"

fun override_subject :: "TokenProvenance \<Rightarrow> string" where
  "override_subject UnrecognizedSigner = ''unrecognized signer''"
| "override_subject Unsigned = ''unsigned entry''"
| "override_subject Seed = ''compiled-in seed''"
| "override_subject RecognizedSigner = ''recognized signer''"

record TokenMeta =
  tm_symbol :: string
  tm_decimals :: byte
  tm_provenance :: TokenProvenance

record NearTokenRegistry =
  by_asset_id :: "(string \<times> TokenMeta) list"

definition token_registry_default :: NearTokenRegistry where
  "token_registry_default = \<lparr>by_asset_id = []\<rparr>"

section \<open>Seeds\<close>

definition SEEDS :: "(string \<times> string \<times> byte) list" where
  "SEEDS =
     [(''nep141:wrap.near'', ''wNEAR'', 24),
      (''nep141:a0b86991c6218b36c1d19d4a2e9eb0ce3606eb48.factory.bridge.near'', ''USDC.e'', 6),
      (''nep141:dac17f958d2ee523a2206206994597c13d831ec7.factory.bridge.near'', ''USDT.e'', 6),
      (''nep141:eth.bridge.near'', ''ETH.e'', 18),
      (''nep141:eth.omft.near'', ''ETH'', 18),
      (''nep141:sol.omft.near'', ''SOL'', 9),
      (''nep141:btc.omft.near'', ''BTC'', 8),
      (''nep141:nbtc.bridge.near'', ''NBTC'', 8),
      (''nep141:pol.omft.near'', ''POL'', 18),
      (''nep141:base.omft.near'', ''ETH.base'', 18),
      (''nep141:arb.omft.near'', ''ETH.arb'', 18),
      (''nep141:eth-0xa0b86991c6218b36c1d19d4a2e9eb0ce3606eb48.omft.near'', ''USDC'', 6),
      (''nep141:sol-5ce3bf3a31af18be40ba30f721101b4341690186.omft.near'', ''USDC.sol'', 6),
      (''nep141:sol-c800a4bd850783ccb82c2b2c7e84175443606352.omft.near'', ''USDT.sol'', 6),
      (''nep141:eth-0xdac17f958d2ee523a2206206994597c13d831ec7.omft.near'', ''USDT'', 6)]"

definition INTENTS_RECEIVER :: string where
  "INTENTS_RECEIVER = ''intents.near''"

definition MAX_DECIMALS :: byte where
  "MAX_DECIMALS = 38"

definition usable :: "TokenMeta \<Rightarrow> TokenMeta option" where
  "usable meta = (if tm_decimals meta \<le> MAX_DECIMALS then Some meta else None)"

definition mt_underlying_nep141 :: "(string \<Rightarrow> bool) \<Rightarrow> string \<Rightarrow> string option" where
  "mt_underlying_nep141 nep141 asset_id =
     (case Option.bind (strip_prefix ''nep245:'' asset_id) (split_once (CHR '':'')) of
        Some (contract, mt_token_id) \<Rightarrow>
          if contract = INTENTS_RECEIVER \<and> nep141 mt_token_id then Some mt_token_id else None
      | None \<Rightarrow> None)"

lemma split_once_length: "split_once d s = Some (a, b) \<Longrightarrow> length b < length s"
  by (induction s arbitrary: a) (auto split: if_splits option.splits)

lemma mt_underlying_shorter: "mt_underlying_nep141 nep141 a = Some b \<Longrightarrow> length b < length a"
  by (auto simp: mt_underlying_nep141_def bind_eq_Some_conv strip_prefix_Some_iff dest!: split_once_length
      split: option.splits if_splits)

function seeded_decimals :: "(string \<Rightarrow> bool) \<Rightarrow> string \<Rightarrow> byte option" where
  "seeded_decimals nep141 asset_id =
     (case find (\<lambda>(i, _, _). i = asset_id) SEEDS of
        Some (_, _, decimals) \<Rightarrow> Some decimals
      | None \<Rightarrow> (case mt_underlying_nep141 nep141 asset_id of
            None \<Rightarrow> None
          | Some inner \<Rightarrow> seeded_decimals nep141 inner))"
  by pat_completeness auto
termination
  by (relation "measure (length \<circ> snd)") (auto dest: mt_underlying_shorter)

definition seed_meta :: "string \<times> string \<times> byte \<Rightarrow> TokenMeta" where
  "seed_meta seed = \<lparr>tm_symbol = fst (snd seed), tm_decimals = snd (snd seed), tm_provenance = Seed\<rparr>"

function resolve :: "(string \<Rightarrow> bool) \<Rightarrow> string \<Rightarrow> NearTokenRegistry LayeredRegistry \<Rightarrow> TokenMeta option" where
  "resolve nep141 asset_id registry =
     (case lookup registry (\<lambda>r. map_of (by_asset_id r) asset_id) of
        Some meta \<Rightarrow> usable meta
      | None \<Rightarrow>
          (case Option.bind (map_option seed_meta (find (\<lambda>(i, _, _). i = asset_id) SEEDS)) usable of
             Some meta \<Rightarrow> Some meta
           | None \<Rightarrow> (case mt_underlying_nep141 nep141 asset_id of
                 None \<Rightarrow> None
               | Some inner \<Rightarrow> resolve nep141 inner registry)))"
  by pat_completeness auto
termination
  by (relation "measure (\<lambda>(_, a, _). length a)") (auto dest: mt_underlying_shorter)

declare seeded_decimals.simps [simp del] resolve.simps [simp del]

definition format_units :: "128 word \<Rightarrow> byte \<Rightarrow> string option" where
  "format_units units decimals =
     (let scale = 10 ^ unat decimals
      in if scale \<ge> (2 :: nat) ^ 128 then None
         else (let whole = unat units div scale; frac = unat units mod scale
               in if frac = 0 then Some (nat_str whole)
                  else Some (nat_str whole @ ''.''
                         @ trim_end_matches (CHR ''0'') (zero_pad (unat decimals) (nat_str frac)))))"

section \<open>Facts\<close>

lemma format_units_fixed: "format_units units decimals = format_fixed units (unat decimals)"
  by (simp add: format_units_def format_fixed_def Let_def)

lemma usable_Some: "usable m = Some n \<longleftrightarrow> n = m \<and> unat (tm_decimals m) \<le> 38"
proof -
  have "tm_decimals m \<le> MAX_DECIMALS \<longleftrightarrow> unat (tm_decimals m) \<le> 38"
    unfolding word_le_nat_alt MAX_DECIMALS_def by simp
  then show ?thesis by (auto simp: usable_def)
qed

lemma seeds_usable: "s \<in> set SEEDS \<Longrightarrow> usable (seed_meta s) = Some (seed_meta s)"
  by (auto simp: SEEDS_def seed_meta_def usable_Some)

lemma find_seed: "find (\<lambda>(i, _, _). i = a) SEEDS = Some s \<Longrightarrow> s \<in> set SEEDS \<and> fst s = a"
  by (auto simp: find_Some_iff in_set_conv_nth)

lemma seed_bound:
  "Option.bind (map_option seed_meta (find (\<lambda>(i, _, _). i = a) SEEDS)) usable
     = map_option seed_meta (find (\<lambda>(i, _, _). i = a) SEEDS)"
  by (cases "find (\<lambda>(i, _, _). i = a) SEEDS") (auto dest!: find_seed seeds_usable)

lemmas resolve_eq = resolve.simps [unfolded seed_bound]

text \<open>The seeded asset ids and the seeded symbols are distinct.\<close>

lemma seeds_distinct: "distinct (map fst SEEDS)" "distinct (map (fst \<circ> snd) SEEDS)"
  by (simp_all add: SEEDS_def)

lemma resolve_decimals: "resolve nep141 a registry = Some m \<Longrightarrow> unat (tm_decimals m) \<le> 38"
proof (induction nep141 a registry rule: resolve.induct)
  case (1 nep141 a registry)
  show ?case
  proof (cases "lookup registry (\<lambda>r. map_of (by_asset_id r) a)")
    case None
    show ?thesis
    proof (cases "find (\<lambda>(i, _, _). i = a) SEEDS")
      case (Some s)
      with None "1.prems" have "m = seed_meta s" by (simp add: resolve_eq)
      with find_seed [OF Some] seeds_usable [of s] show ?thesis by (simp add: usable_Some)
    next
      case no: None
      with None "1.prems" obtain inner where "mt_underlying_nep141 nep141 a = Some inner" "resolve nep141 inner registry = Some m"
        by (subst (asm) resolve_eq) (auto split: option.splits)
      with "1.IH" None no show ?thesis by simp
    qed
  next
    case (Some meta)
    with "1.prems" show ?thesis by (simp add: resolve_eq usable_Some)
  qed
qed

section \<open>Curated assets\<close>

text \<open>An asset and those it wraps: a multi-token id of the intents contract stands for the fungible token it names.\<close>

inductive wraps :: "(string \<Rightarrow> bool) \<Rightarrow> string \<Rightarrow> string \<Rightarrow> bool" for nep141 where
  wraps_self: "wraps nep141 a a"
| wraps_inner: "nep141 b \<Longrightarrow> wraps nep141 b c \<Longrightarrow> wraps nep141 (''nep245:intents.near:'' @ b) c"

definition curated_asset :: "(string \<Rightarrow> bool) \<Rightarrow> string \<Rightarrow> bool" where
  "curated_asset nep141 a \<longleftrightarrow> (\<exists>b symbol decimals. wraps nep141 a b \<and> (b, symbol, decimals) \<in> set SEEDS)"

lemma mt_underlying_iff: "mt_underlying_nep141 nep141 a = Some b \<longleftrightarrow> a = ''nep245:intents.near:'' @ b \<and> nep141 b"
proof -
  have "mt_underlying_nep141 nep141 a = Some b \<longleftrightarrow>
      (\<exists>r. strip_prefix ''nep245:'' a = Some r \<and> split_once (CHR '':'') r = Some (''intents.near'', b)) \<and> nep141 b"
    by (auto simp: mt_underlying_nep141_def bind_eq_Some_conv INTENTS_RECEIVER_def split: option.split)
  then show ?thesis by (auto simp: strip_prefix_Some_iff split_once_Some)
qed

lemma wraps_cases: "wraps nep141 a c \<longleftrightarrow> c = a \<or> (\<exists>b. mt_underlying_nep141 nep141 a = Some b \<and> wraps nep141 b c)"
  by (subst wraps.simps) (auto simp: mt_underlying_iff)

lemma wraps_step: "mt_underlying_nep141 nep141 a = Some b \<Longrightarrow> wraps nep141 b c \<Longrightarrow> wraps nep141 a c"
  using wraps_cases by blast

lemma find_seed_None: "find (\<lambda>(i, _, _). i = a) SEEDS = None \<longleftrightarrow> a \<notin> fst ` set SEEDS"
  by (force simp: find_None_iff)

lemma seeded_iff_curated: "seeded_decimals nep141 a \<noteq> None \<longleftrightarrow> curated_asset nep141 a"
proof (induction nep141 a rule: seeded_decimals.induct)
  case (1 nep141 a)
  show ?case
  proof (cases "find (\<lambda>(i, _, _). i = a) SEEDS")
    case (Some s)
    with find_seed [OF Some] have "curated_asset nep141 a"
      unfolding curated_asset_def by (metis prod.collapse wraps_self)
    with Some show ?thesis by (subst seeded_decimals.simps) (simp split: prod.split)
  next
    case None
    then have "curated_asset nep141 a \<longleftrightarrow> (\<exists>b. mt_underlying_nep141 nep141 a = Some b \<and> curated_asset nep141 b)"
      unfolding curated_asset_def wraps_cases [of nep141 a] find_seed_None by force
    with None "1.IH" show ?thesis by (subst seeded_decimals.simps) (auto split: option.split)
  qed
qed

lemma power_38: "(10 :: nat) ^ 38 < 2 ^ 128"
  by simp

lemma scale_fits: "d \<le> 38 \<Longrightarrow> (10 :: nat) ^ d < 2 ^ 128"
  using power_increasing [of d 38 "10 :: nat"] power_38 by linarith

text \<open>Every amount whose metadata was resolved can be formatted: the scaling never overflows.\<close>

lemma resolved_amount_renders:
  "resolve nep141 a registry = Some m \<Longrightarrow> \<exists>s. format_units units (tm_decimals m) = Some s"
  using scale_fits [OF resolve_decimals [of nep141 a registry m]]
  by (auto simp: format_units_def Let_def)

lemma from_network_id_roundtrip: "from_network_id (network_id n) = Some n"
proof -
  have "to_uppercase ''NEAR_MAINNET'' = ''NEAR_MAINNET''" "to_uppercase ''NEAR_TESTNET'' = ''NEAR_TESTNET''"
    by (subst to_uppercase_ascii; simp add: is_ascii_def is_ascii_char_def code_def to_ascii_uppercase_char_def)+
  then show ?thesis by (cases n) (simp_all add: from_network_id_def Let_def)
qed

end
