(* ===== verification/NearActions.thy ===== *)
theory NearActions
  imports NearTokens FieldSeq
begin

text \<open>
  \<^verbatim>\<open>chain_parsers/visualsign-near/src/actions.rs\<close>: the fields of each action of a transaction. The types of
  \<^verbatim>\<open>near-primitives\<close> carry what the renderer reads: balances are 128-bit words, an account id is its text, a
  public key its bytes. Their \<^verbatim>\<open>Display\<close> and serde's reading of method arguments are the record
  \<open>NearPrimitives\<close>; \<open>near_documented\<close> says that account ids and shown keys are plain ASCII.
\<close>

section \<open>Types of the NEAR libraries\<close>

type_synonym near_account = string
type_synonym near_key = bytes
type_synonym near_token = "128 word"

record FunctionCallAction =
  fc_method_name :: string
  fc_args :: bytes
  fc_gas :: u64
  fc_deposit :: near_token

record FunctionCallPermission =
  perm_allowance :: "near_token option"
  perm_receiver_id :: string
  perm_method_names :: "string list"

record GasKeyInfo =
  gas_key_balance :: near_token
  gas_key_num_nonces :: "16 word"

datatype AccessKeyPermission =
    FullAccess
  | FunctionCallAccess FunctionCallPermission
  | GasKeyFullAccess GasKeyInfo
  | GasKeyFunctionCall GasKeyInfo FunctionCallPermission

datatype Action =
    CreateAccount
  | DeployContract bytes
  | FunctionCall FunctionCallAction
  | TransferAction near_token
  | StakeAction near_token near_key
  | AddKey near_key AccessKeyPermission
  | DeleteKey near_key
  | DeleteAccount near_account
  | Delegate bytes
  | DeployGlobalContract bytes
  | UseGlobalContract bytes
  | DeterministicStateInit near_token bytes
  | TransferToGasKey near_key near_token
  | WithdrawFromGasKey near_key near_token

section \<open>Method arguments\<close>

record FtTransferArgs =
  ft_receiver_id :: near_account
  ft_amount :: string
  ft_memo :: "string option"
  ft_msg :: "string option"

record FtWithdrawArgs =
  fw_token :: near_account
  fw_receiver_id :: near_account
  fw_amount :: string
  fw_memo :: "string option"
  fw_msg :: "string option"

record NearPrimitives =
  np_show_key :: "near_key \<Rightarrow> string"
  np_ft_transfer_args :: "bytes \<Rightarrow> FtTransferArgs option"
  np_ft_withdraw_args :: "bytes \<Rightarrow> FtWithdrawArgs option"

section \<open>Amounts of NEAR\<close>

definition near_symbol :: string where
  "near_symbol = ''NEAR''"

text \<open>\<^verbatim>\<open>format_near\<close> never overflows (lemma \<open>format_near_total\<close>), so the amount is always defined.\<close>

definition near_of :: "string \<Rightarrow> near_token \<Rightarrow> (VisualSignError, SignablePayloadField list) result" where
  "near_of lbl y = one_field (create_amount_field lbl (the (format_near y)) near_symbol)"

section \<open>Actions\<close>

fun action_label :: "Action \<Rightarrow> string" where
  "action_label CreateAccount = ''Create Account''"
| "action_label (DeployContract _) = ''Deploy Contract''"
| "action_label (FunctionCall _) = ''Function Call''"
| "action_label (TransferAction _) = ''Transfer''"
| "action_label (StakeAction _ _) = ''Stake''"
| "action_label (AddKey _ _) = ''Add Key''"
| "action_label (DeleteKey _) = ''Delete Key''"
| "action_label (DeleteAccount _) = ''Delete Account''"
| "action_label (Delegate _) = ''Delegate''"
| "action_label (DeployGlobalContract _) = ''Deploy Global Contract''"
| "action_label (UseGlobalContract _) = ''Use Global Contract''"
| "action_label (DeterministicStateInit _ _) = ''Deterministic State Init''"
| "action_label (TransferToGasKey _ _) = ''Transfer To Gas Key''"
| "action_label (WithdrawFromGasKey _ _) = ''Withdraw From Gas Key''"

fun is_partially_decoded :: "Action \<Rightarrow> bool" where
  "is_partially_decoded (DeployContract _) = True"
| "is_partially_decoded (DeployGlobalContract _) = True"
| "is_partially_decoded (UseGlobalContract _) = True"
| "is_partially_decoded _ = False"

definition partially_decoded_label :: "Action \<Rightarrow> string" where
  "partially_decoded_label action = action_label action @ '' (not fully decoded)''"

definition action_boundary_field :: "Action \<Rightarrow> nat \<Rightarrow> (VisualSignError, SignablePayloadField list) result" where
  "action_boundary_field action total_actions =
     (if total_actions > 1 then text_of ''Action'' (action_label action) else Inr [])"

definition nonempty_note :: "string \<Rightarrow> string option \<Rightarrow> (VisualSignError, SignablePayloadField list) result" where
  "nonempty_note lbl note =
     (case note of None \<Rightarrow> Inr [] | Some m \<Rightarrow> if m = [] then Inr [] else text_of lbl (charset_safe m))"

definition push_amount_and_notes ::
  "string \<Rightarrow> string option \<Rightarrow> string option \<Rightarrow> (VisualSignError, SignablePayloadField list) result" where
  "push_amount_and_notes amount memo msg =
     seq_fields [one_field (create_number_field ''Amount'' amount ''raw token units''),
       nonempty_note ''Memo'' memo, nonempty_note ''Message'' msg]"

definition decode_known_method_args ::
  "NearPrimitives \<Rightarrow> string \<Rightarrow> bytes \<Rightarrow> (VisualSignError, SignablePayloadField list option) result" where
  "decode_known_method_args np method args =
     (if method = ''ft_transfer'' \<or> method = ''ft_transfer_call''
      then (case np_ft_transfer_args np args of
              None \<Rightarrow> Inr None
            | Some parsed \<Rightarrow>
                and_then (seq_fields [address_of ''Recipient'' (ft_receiver_id parsed),
                  push_amount_and_notes (ft_amount parsed) (ft_memo parsed) (ft_msg parsed)]) (\<lambda>fs. Inr (Some fs)))
      else if method = ''ft_withdraw''
      then (case np_ft_withdraw_args np args of
              None \<Rightarrow> Inr None
            | Some parsed \<Rightarrow>
                and_then (seq_fields [address_of ''Token'' (fw_token parsed), address_of ''Recipient'' (fw_receiver_id parsed),
                  push_amount_and_notes (fw_amount parsed) (fw_memo parsed) (fw_msg parsed)]) (\<lambda>fs. Inr (Some fs)))
      else Inr None)"

definition push_function_call_permission_fields ::
  "FunctionCallPermission \<Rightarrow> (VisualSignError, SignablePayloadField list) result" where
  "push_function_call_permission_fields permission =
     (let methods = (if perm_method_names permission = [] then ''Any method''
                     else join [CHR 0x0A] (map charset_safe (perm_method_names permission)))
      in seq_fields [address_of ''Contract'' (charset_safe (perm_receiver_id permission)),
           text_of ''Allowed Methods'' methods,
           (case perm_allowance permission of
              Some allowance \<Rightarrow> near_of ''Allowance'' allowance
            | None \<Rightarrow> text_of ''Allowance'' ''Unlimited'')])"

definition push_gas_key_info_fields :: "GasKeyInfo \<Rightarrow> (VisualSignError, SignablePayloadField list) result" where
  "push_gas_key_info_fields info =
     seq_fields [near_of ''Gas Key Balance'' (gas_key_balance info),
       one_field (create_number_field ''Gas Key Nonces'' (nat_str (unat (gas_key_num_nonces info))) [])]"

fun push_permission_fields :: "AccessKeyPermission \<Rightarrow> (VisualSignError, SignablePayloadField list) result" where
  "push_permission_fields FullAccess = text_of ''Permission'' ''Full Access''"
| "push_permission_fields (FunctionCallAccess fc) =
     seq_fields [text_of ''Permission'' ''Function Call'', push_function_call_permission_fields fc]"
| "push_permission_fields (GasKeyFullAccess info) =
     seq_fields [text_of ''Permission'' ''Gas Key (Full Access)'', push_gas_key_info_fields info]"
| "push_permission_fields (GasKeyFunctionCall info fc) =
     seq_fields [text_of ''Permission'' ''Gas Key (Function Call)'', push_gas_key_info_fields info,
       push_function_call_permission_fields fc]"

definition function_call_args ::
  "NearPrimitives \<Rightarrow> FunctionCallAction \<Rightarrow> (VisualSignError, SignablePayloadField list) result" where
  "function_call_args np fc =
     and_then (decode_known_method_args np (fc_method_name fc) (fc_args fc)) (\<lambda>decoded.
       case decoded of
         Some args_fields \<Rightarrow> Inr args_fields
       | None \<Rightarrow> if fc_args fc \<noteq> [] then one_field (create_raw_data_field (fc_args fc) None) else Inr [])"

fun render_action :: "NearPrimitives \<Rightarrow> Action \<Rightarrow> nat \<Rightarrow> (VisualSignError, SignablePayloadField list) result" where
  "render_action np (TransferAction deposit) total_actions =
     seq_fields [action_boundary_field (TransferAction deposit) total_actions, near_of ''Amount'' deposit]"
| "render_action np (FunctionCall fc) total_actions =
     seq_fields [action_boundary_field (FunctionCall fc) total_actions,
       text_of ''Method'' (charset_safe (fc_method_name fc)),
       function_call_args np fc,
       (if fc_deposit fc > 0 then near_of ''Deposit'' (fc_deposit fc) else Inr []),
       text_of ''Gas'' (the (format_tgas (fc_gas fc)) @ '' Tgas'')]"
| "render_action np CreateAccount total_actions = text_of ''Action'' (action_label CreateAccount)"
| "render_action np (DeleteAccount beneficiary) total_actions =
     seq_fields [action_boundary_field (DeleteAccount beneficiary) total_actions, address_of ''Beneficiary'' beneficiary]"
| "render_action np (AddKey k permission) total_actions =
     seq_fields [action_boundary_field (AddKey k permission) total_actions, text_of ''Public Key'' (np_show_key np k),
       push_permission_fields permission]"
| "render_action np (DeleteKey k) total_actions =
     seq_fields [action_boundary_field (DeleteKey k) total_actions, text_of ''Public Key'' (np_show_key np k)]"
| "render_action np (StakeAction amount k) total_actions =
     seq_fields [action_boundary_field (StakeAction amount k) total_actions, near_of ''Stake'' amount,
       text_of ''Validator Public Key'' (np_show_key np k)]"
| "render_action np (TransferToGasKey k deposit) total_actions =
     seq_fields [action_boundary_field (TransferToGasKey k deposit) total_actions, near_of ''Amount'' deposit,
       text_of ''Gas Key Public Key'' (np_show_key np k)]"
| "render_action np (WithdrawFromGasKey k amount) total_actions =
     seq_fields [action_boundary_field (WithdrawFromGasKey k amount) total_actions, near_of ''Amount'' amount,
       text_of ''Gas Key Public Key'' (np_show_key np k)]"
| "render_action np (DeterministicStateInit deposit state) total_actions =
     seq_fields [action_boundary_field (DeterministicStateInit deposit state) total_actions, near_of ''Deposit'' deposit,
       text_of ''State Init'' ''(not fully decoded)'']"
| "render_action np (Delegate d) total_actions =
     Inl (ValidationError ''NEAR Delegate (meta-transaction) actions are not supported for signing display'')"
| "render_action np (DeployContract c) total_actions = text_of ''Action'' (partially_decoded_label (DeployContract c))"
| "render_action np (DeployGlobalContract c) total_actions = text_of ''Action'' (partially_decoded_label (DeployGlobalContract c))"
| "render_action np (UseGlobalContract c) total_actions = text_of ''Action'' (partially_decoded_label (UseGlobalContract c))"

section \<open>Plain text\<close>

lemma plain_charset_safe [simp]: "plain (charset_safe s)"
  using charset_safe_chars by (auto simp: plain_def list_all_iff)

section \<open>Amounts\<close>

lemma format_fixed_shape:
  assumes "(10 :: nat) ^ d < 2 ^ 128"
  shows "\<exists>s. format_fixed units d = Some s \<and> signed_decimal s"
  using format_fixed_exact [OF assms, of units] by (blast intro: shows_decimal_signed)

lemma format_near_total: "\<exists>s. format_near y = Some s \<and> signed_decimal s"
  unfolding format_near_def by (rule format_fixed_shape) simp

lemma format_tgas_total: "\<exists>s. format_tgas g = Some s \<and> signed_decimal s"
  unfolding format_tgas_def by (rule format_fixed_shape) simp

section \<open>Safe fields\<close>

lemma fields_ok_near: "plain lbl \<Longrightarrow> fields_ok (near_of lbl y)"
  unfolding near_of_def by (rule fields_ok_amount) (simp_all add: near_symbol_def plain_def code_def)

lemma plain_hex_byte: "n < 256 \<Longrightarrow> plain (hex_byte n)"
proof -
  have digit: "plain (digit_char d # s) \<longleftrightarrow> plain s" if "d < 16" for d s
  proof -
    have "code (digit_char d) = (if d < 10 then 48 + d else 87 + d)"
      using that by (auto simp: digit_char_def code_char_of)
    moreover have "code (CHR 0x5C) = 92" by (simp add: code_def)
    ultimately show ?thesis using that by (auto simp: plain_def split: if_splits)
  qed
  assume "n < 256"
  then have "n div 16 < 16" by simp
  with digit show ?thesis by (simp add: hex_byte_def)
qed

lemma fields_ok_raw: "fields_ok (one_field (create_raw_data_field data None))"
proof -
  have "unat b < 256" for b :: byte by (rule unat_byte_less)
  then have "plain (default_hex_representation data)"
    unfolding default_hex_representation_def by (intro plain_join) (simp_all add: list_all_iff plain_hex_byte)
  moreover have "plain ''Raw Data''" by (simp add: plain_def code_def)
  ultimately show ?thesis by (simp add: one_field_def create_raw_data_field_def Let_def plain_safe)
qed

section \<open>Safe actions\<close>

text \<open>What the NEAR libraries document: account ids and shown keys are plain ASCII.\<close>

definition near_documented :: "NearPrimitives \<Rightarrow> bool" where
  "near_documented np \<longleftrightarrow> (\<forall>k. plain (np_show_key np k))
     \<and> (\<forall>bs r. np_ft_transfer_args np bs = Some r \<longrightarrow> plain (ft_receiver_id r))
     \<and> (\<forall>bs r. np_ft_withdraw_args np bs = Some r \<longrightarrow> plain (fw_token r) \<and> plain (fw_receiver_id r))"

fun action_accounts :: "Action \<Rightarrow> string list" where
  "action_accounts (DeleteAccount beneficiary) = [beneficiary]"
| "action_accounts _ = []"

lemma fields_ok_boundary: "fields_ok (action_boundary_field a n)"
proof -
  have "plain (action_label a)" "plain ''Action''" by (cases a) (simp_all add: plain_def code_def)
  then show ?thesis by (simp add: action_boundary_field_def fields_ok_text)
qed

lemma fields_ok_note: "plain lbl \<Longrightarrow> fields_ok (nonempty_note lbl m)"
  by (cases m) (simp_all add: nonempty_note_def fields_ok_text)

lemmas fields_ok_intros = fields_ok_seq fields_ok_text fields_ok_address fields_ok_near fields_ok_number fields_ok_raw
  fields_ok_boundary fields_ok_note

lemma plain_literals:
  "plain ''Amount''" "plain ''raw token units''" "plain ''Memo''" "plain ''Message''" "plain ''Recipient''" "plain ''Token''"
  "plain ''Contract''" "plain ''Any method''" "plain ''Allowed Methods''" "plain ''Allowance''" "plain ''Unlimited''"
  "plain ''Gas Key Balance''" "plain ''Gas Key Nonces''" "plain ''Permission''" "plain ''Full Access''" "plain ''Function Call''"
  "plain ''Gas Key (Full Access)''" "plain ''Gas Key (Function Call)''" "plain ''Method''" "plain ''Deposit''" "plain ''Gas''"
  "plain ''Tgas''" "plain ''Action''" "plain ''Beneficiary''" "plain ''Public Key''" "plain ''Stake''"
  "plain ''Validator Public Key''" "plain ''Gas Key Public Key''" "plain ''State Init''" "plain ''(not fully decoded)''"
  "plain '' (not fully decoded)''" "plain ''Create Account''" "plain ''Deploy Contract''" "plain ''Deploy Global Contract''"
  "plain ''Use Global Contract''" "plain ''Deploy Contract (not fully decoded)''"
  "plain ''Deploy Global Contract (not fully decoded)''" "plain ''Use Global Contract (not fully decoded)''"
  by (simp_all add: plain_def code_def)

lemma fields_ok_permission: "fields_ok (push_permission_fields p)"
proof -
  have fc: "fields_ok (push_function_call_permission_fields q)" for q
    by (cases "perm_allowance q")
      (auto simp: push_function_call_permission_fields_def Let_def plain_literals plain_join list_all_iff
        intro!: fields_ok_intros)
  have gas: "fields_ok (push_gas_key_info_fields i)" for i
    by (auto simp: push_gas_key_info_fields_def plain_literals intro!: fields_ok_intros)
  show ?thesis by (cases p) (auto simp: plain_literals fc gas intro!: fields_ok_intros)
qed

lemma fields_ok_args: "near_documented np \<Longrightarrow> fields_ok (function_call_args np fc)"
proof -
  assume np: "near_documented np"
  have rest: "fields_ok (push_amount_and_notes a m n)" for a m n
    by (auto simp: push_amount_and_notes_def plain_literals intro!: fields_ok_intros)
  have "safe_fields fs" if "decode_known_method_args np m args = Inr (Some fs)" for m args fs
  proof -
    have pair: "seq_fields [a, b] = Inr fs \<Longrightarrow> fields_ok a \<Longrightarrow> fields_ok b \<Longrightarrow> safe_fields fs" for a b
      using fields_ok_seq [of "[a, b]"] by (simp add: fields_ok_def)
    have triple: "seq_fields [a, b, c] = Inr fs \<Longrightarrow> fields_ok a \<Longrightarrow> fields_ok b \<Longrightarrow> fields_ok c \<Longrightarrow> safe_fields fs" for a b c
      using fields_ok_seq [of "[a, b, c]"] by (simp add: fields_ok_def)
    show ?thesis
      using that np unfolding decode_known_method_args_def near_documented_def
      by (auto simp: and_then_Inr_iff plain_literals rest
          split: if_splits option.splits intro!: fields_ok_address elim!: pair triple)
  qed
  then show ?thesis
    unfolding function_call_args_def
    by (cases "decode_known_method_args np (fc_method_name fc) (fc_args fc)")
      (auto split: option.split intro: fields_ok_raw)
qed

lemma render_action_safe:
  assumes "near_documented np" and "list_all plain (action_accounts a)"
  shows "fields_ok (render_action np a n)"
proof -
  have key: "plain (np_show_key np k)" for k using assms(1) by (simp add: near_documented_def)
  have gas: "plain (the (format_tgas g))" for g using format_tgas_total [of g] by (auto intro: plain_signed_decimal)
  show ?thesis
    using assms(2) fields_ok_args [OF assms(1)]
    by (cases a) (auto simp: plain_literals key gas fields_ok_permission partially_decoded_label_def intro!: fields_ok_intros)
qed

end
