(* ===== verification/NearTrust.thy ===== *)
theory NearTrust
  imports NearTokens Signing Encodings
begin

text \<open>
  \<^verbatim>\<open>chain_parsers/visualsign-near/src/presets/intents/token_signature.rs\<close>: which caller-supplied token metadata
  is used, under which provenance, and which is refused. The elliptic-curve crates, the hex crate, SHA-256
  and serde's reading of a token's value are the record \<open>NearCrypto\<close>: secp256k1 signatures have type \<open>'s\<close>,
  encoded points \<open>'e\<close>, verifying keys \<open>'v\<close> and signing keys \<open>'g\<close>, ed25519 verifying keys \<open>'k\<close>. The
  environment and the feature \<^verbatim>\<open>dev-signing\<close> are arguments. Log lines are left out.
\<close>

record TokenMetadataValue =
  value_symbol :: string
  value_decimals :: byte

record ('s, 'e, 'v, 'g, 'k) NearCrypto =
  nc_sha :: "bytes \<Rightarrow> bytes"
  nc_hex_decode :: "string \<Rightarrow> (string, bytes) result"
  nc_hex_encode :: "bytes \<Rightarrow> string"
  secp_from_der :: "bytes \<Rightarrow> (string, 's) result"
  secp_to_der :: "'s \<Rightarrow> bytes"
  secp_point :: "bytes \<Rightarrow> (string, 'e) result"
  secp_key :: "'e \<Rightarrow> (string, 'v) result"
  secp_uncompressed :: "'v \<Rightarrow> bytes"
  secp_verify_prehash :: "'v \<Rightarrow> bytes \<Rightarrow> 's \<Rightarrow> (string, unit) result"
  secp_signing_key :: "bytes \<Rightarrow> (string, 'g) result"
  secp_verifying :: "'g \<Rightarrow> 'v"
  secp_sign_prehash :: "'g \<Rightarrow> bytes \<Rightarrow> (string, 's) result"
  ed_key :: "bytes \<Rightarrow> (string, 'k) result"
  ed_key_bytes :: "'k \<Rightarrow> bytes"
  ed_verify_strict :: "'k \<Rightarrow> bytes \<Rightarrow> bytes \<Rightarrow> (string, unit) result"
  ed_verifying :: "bytes \<Rightarrow> 'k"
  ed_sign :: "bytes \<Rightarrow> bytes \<Rightarrow> bytes"
  nc_token_value :: "string \<Rightarrow> (string, TokenMetadataValue) result"

section \<open>Constants\<close>

definition ED25519_ALGORITHM :: string where
  "ED25519_ALGORITHM = ''ed25519''"

definition SECP256K1_ALGORITHM :: string where
  "SECP256K1_ALGORITHM = ''secp256k1''"

definition ED25519_PUBLIC_KEY_LEN :: nat where
  "ED25519_PUBLIC_KEY_LEN = 32"

definition ED25519_SIGNATURE_LEN :: nat where
  "ED25519_SIGNATURE_LEN = 64"

definition MAX_TOKEN_METADATA_VALUE_BYTES :: nat where
  "MAX_TOKEN_METADATA_VALUE_BYTES = 1024"

definition MAX_TOKEN_METADATA_ENTRIES :: nat where
  "MAX_TOKEN_METADATA_ENTRIES = 256"

definition MAX_ASSET_ID_BYTES :: nat where
  "MAX_ASSET_ID_BYTES = 128"

definition ASSET_ID_PREVIEW_CHARS :: nat where
  "ASSET_ID_PREVIEW_CHARS = 32"

definition MAX_TOKEN_DECIMALS :: byte where
  "MAX_TOKEN_DECIMALS = 38"

definition MAX_TOKEN_SYMBOL_LEN :: nat where
  "MAX_TOKEN_SYMBOL_LEN = 32"

section \<open>Signatures\<close>

datatype TokenMetadataSignatureError = TokenValidation string

fun display_token_error :: "TokenMetadataSignatureError \<Rightarrow> string" where
  "display_token_error (TokenValidation m) = ''token metadata signature validation failed: '' @ m"

record TokenSignature =
  ts_value :: string
  ts_algorithm :: "string option"
  ts_public_key :: "string option"

definition token_proto_signature :: "SignatureMetadata \<Rightarrow> TokenSignature" where
  "token_proto_signature proto =
     (let get = (\<lambda>key. map_option meta_value (find (\<lambda>m. meta_key m = key) (sig_metadata proto)))
      in \<lparr>ts_value = sig_value proto, ts_algorithm = get ''algorithm'', ts_public_key = get ''public_key''\<rparr>)"

definition decode_hex_fixed ::
  "('s, 'e, 'v, 'g, 'k) NearCrypto \<Rightarrow> nat \<Rightarrow> string \<Rightarrow> string \<Rightarrow> (TokenMetadataSignatureError, bytes) result" where
  "decode_hex_fixed x n v what =
     map_err (\<lambda>e. TokenValidation (''Invalid '' @ what @ '' '' @ display_hex_array_error (\<lambda>m. m) e))
       (decode_hex_array (nc_hex_decode x) n v)"

datatype TokenOriginChain = OriginUnspecified | OriginNear | OriginEthereum | OriginSolana

definition origin_try_from :: "u32 \<Rightarrow> TokenOriginChain option" where
  "origin_try_from n = map_of [(0, OriginUnspecified), (1, OriginNear), (2, OriginEthereum), (3, OriginSolana)] (sint n)"

datatype TokenMetadataDomain = NearDomain | EthereumDomain | SolanaDomain

fun from_origin_chain :: "TokenOriginChain \<Rightarrow> TokenMetadataDomain" where
  "from_origin_chain OriginUnspecified = NearDomain"
| "from_origin_chain OriginNear = NearDomain"
| "from_origin_chain OriginEthereum = EthereumDomain"
| "from_origin_chain OriginSolana = SolanaDomain"

fun domain_tag :: "TokenMetadataDomain \<Rightarrow> string" where
  "domain_tag NearDomain = CHAIN_TAG_NEAR_TOKEN_METADATA"
| "domain_tag EthereumDomain = CHAIN_TAG_ETHEREUM_TOKEN_METADATA"
| "domain_tag SolanaDomain = CHAIN_TAG_SOLANA_TOKEN_METADATA"

fun domain_algorithm :: "TokenMetadataDomain \<Rightarrow> string" where
  "domain_algorithm EthereumDomain = SECP256K1_ALGORITHM"
| "domain_algorithm _ = ED25519_ALGORITHM"

fun domain_prehash :: "(bytes \<Rightarrow> bytes) \<Rightarrow> TokenMetadataDomain \<Rightarrow> string \<Rightarrow> string \<Rightarrow> bytes \<Rightarrow> bytes" where
  "domain_prehash sha NearDomain n a body = near_token_metadata_prehash sha n a body"
| "domain_prehash sha EthereumDomain n a body = ethereum_token_metadata_prehash sha n a body"
| "domain_prehash sha SolanaDomain n a body = solana_token_metadata_prehash sha n a body"

fun domain_env_var :: "TokenMetadataDomain \<Rightarrow> string" where
  "domain_env_var NearDomain = ''VISUALSIGN_NEAR_TOKEN_SIGNERS''"
| "domain_env_var EthereumDomain = ''VISUALSIGN_ETH_TOKEN_SIGNERS''"
| "domain_env_var SolanaDomain = ''VISUALSIGN_SOL_TOKEN_SIGNERS''"

definition ALL_DOMAINS :: "TokenMetadataDomain list" where
  "ALL_DOMAINS = [NearDomain, EthereumDomain, SolanaDomain]"

datatype SignerIdentity = Recognized | Unrecognized

definition scoped_signer_key :: "TokenMetadataDomain \<Rightarrow> bytes \<Rightarrow> bytes" where
  "scoped_signer_key domain canonical_pubkey =
     fold (\<lambda>field scoped. (scoped @ le_bytes 8 (length field)) @ field)
       [as_bytes (domain_tag domain), canonical_pubkey] []"

definition signer_identity :: "SignerAllowlist \<Rightarrow> TokenMetadataDomain \<Rightarrow> bytes \<Rightarrow> SignerIdentity" where
  "signer_identity allowlist domain canonical_pubkey =
     (if allowlist_contains allowlist (scoped_signer_key domain canonical_pubkey) then Recognized else Unrecognized)"

section \<open>Curator keys\<close>

definition canonical_ed25519_pubkey_from_hex :: "('s, 'e, 'v, 'g, 'k) NearCrypto \<Rightarrow> string \<Rightarrow> bytes option" where
  "canonical_ed25519_pubkey_from_hex x hex_text =
     (case and_then (map_err display_token_error (decode_hex_fixed x ED25519_PUBLIC_KEY_LEN hex_text ''public key'')) (ed_key x) of
        Inl _ \<Rightarrow> None
      | Inr k \<Rightarrow> Some (ed_key_bytes x k))"

definition canonical_secp256k1_pubkey_from_hex :: "('s, 'e, 'v, 'g, 'k) NearCrypto \<Rightarrow> string \<Rightarrow> bytes option" where
  "canonical_secp256k1_pubkey_from_hex x hex_text =
     (case and_then (and_then (decode_hex (nc_hex_decode x) hex_text) (secp_point x)) (secp_key x) of
        Inl _ \<Rightarrow> None
      | Inr v \<Rightarrow> Some (secp_uncompressed x v))"

definition insert_token_metadata_signer ::
  "('s, 'e, 'v, 'g, 'k) NearCrypto \<Rightarrow> SignerAllowlist \<Rightarrow> TokenMetadataDomain \<Rightarrow> string \<Rightarrow> SignerAllowlist \<times> bool" where
  "insert_token_metadata_signer x allowlist domain pubkey_hex =
     (case (case domain of EthereumDomain \<Rightarrow> canonical_secp256k1_pubkey_from_hex x pubkey_hex
            | _ \<Rightarrow> canonical_ed25519_pubkey_from_hex x pubkey_hex) of
        Some bs \<Rightarrow> (allowlist_insert allowlist (scoped_signer_key domain bs), True)
      | None \<Rightarrow> (allowlist, False))"

definition insert_env_signers ::
  "('s, 'e, 'v, 'g, 'k) NearCrypto \<Rightarrow> (string \<Rightarrow> string option) \<Rightarrow> TokenMetadataDomain \<Rightarrow> SignerAllowlist \<Rightarrow> SignerAllowlist" where
  "insert_env_signers x env domain allow =
     (case env (domain_env_var domain) of
        None \<Rightarrow> allow
      | Some list \<Rightarrow>
          fold (\<lambda>entry allow. fst (insert_token_metadata_signer x allow domain entry))
            (filter (\<lambda>s. s \<noteq> []) (map trim (split_on (CHR '','') list))) allow)"

definition DEV_NEAR_SIGNING_KEY_SEED :: bytes where
  "DEV_NEAR_SIGNING_KEY_SEED = replicate 32 0x51"

definition insert_near_dev_signer :: "('s, 'e, 'v, 'g, 'k) NearCrypto \<Rightarrow> bool \<Rightarrow> SignerAllowlist \<Rightarrow> SignerAllowlist" where
  "insert_near_dev_signer x dev_signing allow =
     (if dev_signing
      then allowlist_insert allow (scoped_signer_key NearDomain (ed_key_bytes x (ed_verifying x DEV_NEAR_SIGNING_KEY_SEED)))
      else allow)"

definition authorized_token_metadata_signers ::
  "('s, 'e, 'v, 'g, 'k) NearCrypto \<Rightarrow> bool \<Rightarrow> (string \<Rightarrow> string option) \<Rightarrow> SignerAllowlist" where
  "authorized_token_metadata_signers x dev_signing env =
     insert_near_dev_signer x dev_signing (fold (insert_env_signers x env) ALL_DOMAINS allowlist_new)"

section \<open>Validation\<close>

text \<open>The two checks the validators of both curves begin with.\<close>

definition token_public_key ::
  "TokenMetadataDomain \<Rightarrow> TokenSignature \<Rightarrow> (TokenMetadataSignatureError, string) result" where
  "token_public_key domain signature =
     and_then (ok_or (TokenValidation ''Missing algorithm'') (ts_algorithm signature)) (\<lambda>algorithm.
     if algorithm \<noteq> domain_algorithm domain
     then Inl (TokenValidation (''Unsupported algorithm: '' @ algorithm @ ''. Only '' @ domain_algorithm domain
            @ '' is supported for this origin chain.''))
     else ok_or (TokenValidation ''Missing public_key'') (ts_public_key signature))"

definition validate_ed25519 ::
  "('s, 'e, 'v, 'g, 'k) NearCrypto \<Rightarrow> string \<Rightarrow> string \<Rightarrow> string \<Rightarrow> TokenMetadataDomain \<Rightarrow> TokenSignature \<Rightarrow> SignerAllowlist
    \<Rightarrow> (TokenMetadataSignatureError, SignerIdentity) result" where
  "validate_ed25519 x net asset_id v domain signature allowlist =
     and_then (token_public_key domain signature) (\<lambda>public_key_hex.
     let hash = domain_prehash (nc_sha x) domain net asset_id (as_bytes v)
     in
     and_then (decode_hex_fixed x ED25519_SIGNATURE_LEN (ts_value signature) ''signature'') (\<lambda>sig.
     and_then (decode_hex_fixed x ED25519_PUBLIC_KEY_LEN public_key_hex ''public key'') (\<lambda>pubkey_bytes.
     and_then (map_err (\<lambda>e. TokenValidation (''Invalid public key: '' @ e)) (ed_key x pubkey_bytes)) (\<lambda>verifying_key.
     and_then (map_err (\<lambda>e. TokenValidation (''Signature verification failed: '' @ e))
       (ed_verify_strict x verifying_key hash sig)) (\<lambda>_.
     Inr (signer_identity allowlist domain (ed_key_bytes x verifying_key)))))))"

definition validate_secp256k1 ::
  "('s, 'e, 'v, 'g, 'k) NearCrypto \<Rightarrow> string \<Rightarrow> string \<Rightarrow> string \<Rightarrow> TokenMetadataDomain \<Rightarrow> TokenSignature \<Rightarrow> SignerAllowlist
    \<Rightarrow> (TokenMetadataSignatureError, SignerIdentity) result" where
  "validate_secp256k1 x net asset_id v domain signature allowlist =
     and_then (token_public_key domain signature) (\<lambda>public_key_hex.
     let hash = domain_prehash (nc_sha x) domain net asset_id (as_bytes v)
     in
     and_then (map_err (\<lambda>e. TokenValidation (''Invalid signature hex: '' @ e))
       (decode_hex (nc_hex_decode x) (ts_value signature))) (\<lambda>sig_bytes.
     and_then (map_err (\<lambda>e. TokenValidation (''Invalid DER signature: '' @ e)) (secp_from_der x sig_bytes)) (\<lambda>sig.
     and_then (map_err (\<lambda>e. TokenValidation (''Invalid public key hex: '' @ e))
       (decode_hex (nc_hex_decode x) public_key_hex)) (\<lambda>pubkey_bytes.
     and_then (map_err (\<lambda>e. TokenValidation (''Invalid public key point: '' @ e)) (secp_point x pubkey_bytes)) (\<lambda>encoded_point.
     and_then (map_err (\<lambda>e. TokenValidation (''Invalid verifying key: '' @ e)) (secp_key x encoded_point)) (\<lambda>verifying_key.
     and_then (map_err (\<lambda>e. TokenValidation (''Signature verification failed: '' @ e))
       (secp_verify_prehash x verifying_key hash sig)) (\<lambda>_.
     Inr (signer_identity allowlist domain (secp_uncompressed x verifying_key)))))))))"

fun validate_token_metadata_signature ::
  "('s, 'e, 'v, 'g, 'k) NearCrypto \<Rightarrow> string \<Rightarrow> string \<Rightarrow> string \<Rightarrow> TokenMetadataDomain \<Rightarrow> TokenSignature \<Rightarrow> SignerAllowlist
    \<Rightarrow> (TokenMetadataSignatureError, SignerIdentity) result" where
  "validate_token_metadata_signature x net a v EthereumDomain s allow = validate_secp256k1 x net a v EthereumDomain s allow"
| "validate_token_metadata_signature x net a v domain s allow = validate_ed25519 x net a v domain s allow"

section \<open>Extraction\<close>

record RejectedTokenMetadata =
  rejected_asset_id :: string
  rejected_reason :: string

record TokenMetadataExtraction =
  extraction_registry :: "NearTokenRegistry option"
  extraction_rejected :: "RejectedTokenMetadata list"

text \<open>\<^verbatim>\<open>chars().take(n)\<close>: a character is a byte that is no continuation byte, with those that follow.\<close>

fun take_chars :: "nat \<Rightarrow> string \<Rightarrow> string" where
  "take_chars n [] = []"
| "take_chars n (c # s) =
     (if is_continuation c then c # take_chars n s
      else case n of 0 \<Rightarrow> [] | Suc m \<Rightarrow> c # take_chars m s)"

definition symbol_printable :: "string \<Rightarrow> bool" where
  "symbol_printable s = list_all (\<lambda>c. c = CHR '' '' \<or> is_ascii_graphic c \<and> c \<noteq> CHR 0x5C) s"

definition entry_origin :: "TokenMetadataEntry \<Rightarrow> (string, TokenMetadataDomain) result" where
  "entry_origin entry =
     (case token_origin_chain entry of
        None \<Rightarrow> Inr (from_origin_chain OriginUnspecified)
      | Some v \<Rightarrow> (case origin_try_from v of
            Some chain \<Rightarrow> Inr (from_origin_chain chain)
          | None \<Rightarrow> Inl (''unrecognized origin_chain '' @ int_str (sint v))))"

definition checked_value ::
  "('s, 'e, 'v, 'g, 'k) NearCrypto \<Rightarrow> TokenMetadataEntry \<Rightarrow> (string, TokenMetadataValue) result" where
  "checked_value x entry =
     and_then (map_err (\<lambda>e. ''invalid value JSON: '' @ e) (nc_token_value x (token_value entry))) (\<lambda>parsed.
     if value_decimals parsed > MAX_TOKEN_DECIMALS
     then Inl (''decimals '' @ nat_str (unat (value_decimals parsed)) @ '' out of range'')
     else if value_symbol parsed = [] \<or> length (value_symbol parsed) > MAX_TOKEN_SYMBOL_LEN
     then Inl (''symbol length '' @ nat_str (length (value_symbol parsed)) @ '' out of range'')
     else if \<not> symbol_printable (value_symbol parsed)
     then Inl ''symbol contains characters outside printable ASCII''
     else Inr parsed)"

definition entry_provenance ::
  "('s, 'e, 'v, 'g, 'k) NearCrypto \<Rightarrow> NearNetwork \<Rightarrow> SignerAllowlist \<Rightarrow> MetadataTrustPolicy \<Rightarrow> TokenMetadataDomain \<Rightarrow> string
    \<Rightarrow> TokenMetadataEntry \<Rightarrow> (string, TokenProvenance) result" where
  "entry_provenance x network allowlist trust_policy domain asset_id entry =
     (case token_signature entry of
        None \<Rightarrow> Inr Unsigned
      | Some proto_sig \<Rightarrow>
          (case validate_token_metadata_signature x (network_id network) asset_id (token_value entry) domain
                  (token_proto_signature proto_sig) allowlist of
             Inl e \<Rightarrow> Inl (display_token_error e)
           | Inr Recognized \<Rightarrow> Inr RecognizedSigner
           | Inr Unrecognized \<Rightarrow>
               if \<not> accepts_unsigned trust_policy
               then Inl ''signer is not an authorized curator for this origin chain''
               else Inr UnrecognizedSigner))"

definition seed_guard :: "(string \<Rightarrow> bool) \<Rightarrow> string \<Rightarrow> byte \<Rightarrow> TokenProvenance \<Rightarrow> (string, unit) result" where
  "seed_guard nep141 asset_id decimals provenance =
     (case (if verified provenance then None else seeded_decimals nep141 asset_id) of
        Some curated \<Rightarrow>
          Inl (override_subject provenance @ '' would override a curated seed (proposed decimals ''
            @ nat_str (unat decimals) @ '', curated '' @ nat_str (unat curated) @ '')'')
      | None \<Rightarrow> Inr ())"

text \<open>One entry of the map: the reason it is refused for, or its metadata.\<close>

definition examine_entry ::
  "('s, 'e, 'v, 'g, 'k) NearCrypto \<Rightarrow> (string \<Rightarrow> bool) \<Rightarrow> NearNetwork \<Rightarrow> SignerAllowlist \<Rightarrow> MetadataTrustPolicy
    \<Rightarrow> string \<Rightarrow> TokenMetadataEntry \<Rightarrow> (string, TokenMeta) result" where
  "examine_entry x nep141 network allowlist trust_policy asset_id entry =
     (if length asset_id > MAX_ASSET_ID_BYTES
      then Inl (''asset id exceeds size limit ('' @ nat_str (length asset_id) @ '' bytes > '' @ nat_str MAX_ASSET_ID_BYTES @ '')'')
      else if length (token_value entry) > MAX_TOKEN_METADATA_VALUE_BYTES
      then Inl (''exceeds size limit ('' @ nat_str (length (token_value entry)) @ '' bytes > ''
             @ nat_str MAX_TOKEN_METADATA_VALUE_BYTES @ '')'')
      else and_then (entry_origin entry) (\<lambda>domain.
      if token_signature entry = None \<and> \<not> accepts_unsigned trust_policy
      then Inl ''this deployment requires signed entries''
      else and_then (checked_value x entry) (\<lambda>parsed.
      and_then (entry_provenance x network allowlist trust_policy domain asset_id entry) (\<lambda>provenance.
      and_then (seed_guard nep141 asset_id (value_decimals parsed) provenance) (\<lambda>_.
      Inr \<lparr>tm_symbol = value_symbol parsed, tm_decimals = value_decimals parsed, tm_provenance = provenance\<rparr>)))))"

definition named_rejection :: "string \<Rightarrow> string \<Rightarrow> RejectedTokenMetadata" where
  "named_rejection asset_id reason =
     \<lparr>rejected_asset_id = (if length asset_id > MAX_ASSET_ID_BYTES then take_chars ASSET_ID_PREVIEW_CHARS asset_id @ ''...''
        else asset_id), rejected_reason = reason\<rparr>"

definition extract_token_entry ::
  "('s, 'e, 'v, 'g, 'k) NearCrypto \<Rightarrow> (string \<Rightarrow> bool) \<Rightarrow> NearNetwork \<Rightarrow> SignerAllowlist \<Rightarrow> MetadataTrustPolicy
    \<Rightarrow> string \<times> TokenMetadataEntry \<Rightarrow> (string \<times> TokenMeta) list \<times> RejectedTokenMetadata list
    \<Rightarrow> (string \<times> TokenMeta) list \<times> RejectedTokenMetadata list" where
  "extract_token_entry x nep141 network allowlist trust_policy e st =
     (case examine_entry x nep141 network allowlist trust_policy (fst e) (snd e) of
        Inl reason \<Rightarrow> (fst st, snd st @ [named_rejection (fst e) reason])
      | Inr meta \<Rightarrow> (bt_insert (fst e) meta (fst st), snd st))"

definition try_extract_token_metadata ::
  "('s, 'e, 'v, 'g, 'k) NearCrypto \<Rightarrow> (string \<Rightarrow> bool) \<Rightarrow> ChainMetadata option \<Rightarrow> NearNetwork \<Rightarrow> SignerAllowlist
    \<Rightarrow> MetadataTrustPolicy \<Rightarrow> TokenMetadataExtraction" where
  "try_extract_token_metadata x nep141 chain_metadata network allowlist trust_policy =
     (case Option.bind chain_metadata chain_metadata_metadata of
        Some (NearMeta near) \<Rightarrow>
          (let entries = near_token_mappings near
           in if entries = [] then \<lparr>extraction_registry = None, extraction_rejected = []\<rparr>
              else if length entries > MAX_TOKEN_METADATA_ENTRIES
              then \<lparr>extraction_registry = None, extraction_rejected =
                     [\<lparr>rejected_asset_id = ''all assets'', rejected_reason =
                        nat_str (length entries) @ '' entries exceeds the limit of '' @ nat_str MAX_TOKEN_METADATA_ENTRIES\<rparr>]\<rparr>
              else (let (registry, rejected) =
                      fold (extract_token_entry x nep141 network allowlist trust_policy) entries ([], [])
                    in \<lparr>extraction_registry = (if registry = [] then None else Some \<lparr>by_asset_id = registry\<rparr>),
                        extraction_rejected = rejected\<rparr>))
      | _ \<Rightarrow> \<lparr>extraction_registry = None, extraction_rejected = []\<rparr>)"

section \<open>Local signing\<close>

definition sign_token_metadata_ed25519 ::
  "('s, 'e, 'v, 'g, 'k) NearCrypto \<Rightarrow> string \<Rightarrow> string \<Rightarrow> string \<Rightarrow> bytes \<Rightarrow> (string \<Rightarrow> string \<Rightarrow> bytes \<Rightarrow> bytes) \<Rightarrow> SignatureMetadata" where
  "sign_token_metadata_ed25519 x net asset_id v seed prehash =
     (let hash = prehash net asset_id (as_bytes v)
      in \<lparr>sig_value = nc_hex_encode x (ed_sign x seed hash),
          sig_metadata =
            [\<lparr>meta_key = ''algorithm'', meta_value = ED25519_ALGORITHM\<rparr>,
             \<lparr>meta_key = ''public_key'', meta_value = nc_hex_encode x (ed_key_bytes x (ed_verifying x seed))\<rparr>]\<rparr>)"

definition sign_token_metadata_secp256k1 ::
  "('s, 'e, 'v, 'g, 'k) NearCrypto \<Rightarrow> string \<Rightarrow> string \<Rightarrow> string \<Rightarrow> bytes \<Rightarrow> (string, SignatureMetadata) result" where
  "sign_token_metadata_secp256k1 x net asset_id v seed =
     and_then (map_err (\<lambda>e. ''invalid secp256k1 signing key seed: '' @ e) (secp_signing_key x seed)) (\<lambda>signing_key.
     let hash = ethereum_token_metadata_prehash (nc_sha x) net asset_id (as_bytes v)
     in and_then (map_err (\<lambda>e. ''failed to sign token metadata hash: '' @ e) (secp_sign_prehash x signing_key hash)) (\<lambda>signature.
        Inr \<lparr>sig_value = nc_hex_encode x (secp_to_der x signature),
             sig_metadata =
               [\<lparr>meta_key = ''algorithm'', meta_value = SECP256K1_ALGORITHM\<rparr>,
                \<lparr>meta_key = ''public_key'', meta_value = nc_hex_encode x (secp_uncompressed x (secp_verifying x signing_key))\<rparr>]\<rparr>))"

definition sign_token_metadata_for_cli ::
  "('s, 'e, 'v, 'g, 'k) NearCrypto \<Rightarrow> bool \<Rightarrow> string \<Rightarrow> string \<Rightarrow> string \<Rightarrow> (string, SignatureMetadata) result" where
  "sign_token_metadata_for_cli x dev_signing net asset_id v =
     (if dev_signing
      then Inr (sign_token_metadata_ed25519 x net asset_id v DEV_NEAR_SIGNING_KEY_SEED (near_token_metadata_prehash (nc_sha x)))
      else Inl (''token metadata signing is unavailable: this binary was built without the '' @ ''dev-signing feature''))"

section \<open>What a valid signature is\<close>

lemma domain_prehash_eq:
  "domain_prehash sha d n a b = sha (prehash_input (domain_tag d) (near_token_metadata_scope n a) b)"
  by (cases d) (simp_all add: near_token_metadata_prehash_def ethereum_token_metadata_prehash_def
      solana_token_metadata_prehash_def metadata_signing_prehash_v1_def)

text \<open>The signature verifies, under the key with canonical bytes \<open>key\<close> that comes with it, over the prehash that
  binds the origin chain, the network, the asset and the value.\<close>

definition token_signed_by ::
  "('s, 'e, 'v, 'g, 'k) NearCrypto \<Rightarrow> string \<Rightarrow> string \<Rightarrow> string \<Rightarrow> TokenMetadataDomain \<Rightarrow> TokenSignature \<Rightarrow> bytes \<Rightarrow> bool" where
  "token_signed_by x net asset_id v domain signature key \<longleftrightarrow>
     ts_algorithm signature = Some (domain_algorithm domain)
     \<and> (\<exists>public_key_hex. ts_public_key signature = Some public_key_hex
       \<and> (let hash = nc_sha x (prehash_input (domain_tag domain) (near_token_metadata_scope net asset_id) (as_bytes v))
          in if domain = EthereumDomain
             then \<exists>sig_bytes sig pubkey_bytes point verifying_key.
                    decode_hex (nc_hex_decode x) (ts_value signature) = Inr sig_bytes \<and> secp_from_der x sig_bytes = Inr sig
                    \<and> decode_hex (nc_hex_decode x) public_key_hex = Inr pubkey_bytes
                    \<and> secp_point x pubkey_bytes = Inr point \<and> secp_key x point = Inr verifying_key
                    \<and> secp_verify_prehash x verifying_key hash sig = Inr () \<and> key = secp_uncompressed x verifying_key
             else \<exists>sig pubkey_bytes verifying_key.
                    decode_hex (nc_hex_decode x) (ts_value signature) = Inr sig \<and> length sig = ED25519_SIGNATURE_LEN
                    \<and> decode_hex (nc_hex_decode x) public_key_hex = Inr pubkey_bytes
                    \<and> length pubkey_bytes = ED25519_PUBLIC_KEY_LEN \<and> ed_key x pubkey_bytes = Inr verifying_key
                    \<and> ed_verify_strict x verifying_key hash sig = Inr () \<and> key = ed_key_bytes x verifying_key))"

lemma token_public_key_Inr:
  "token_public_key domain signature = Inr k \<longleftrightarrow>
     ts_algorithm signature = Some (domain_algorithm domain) \<and> ts_public_key signature = Some k"
  by (cases "ts_algorithm signature"; cases "ts_public_key signature") (auto simp: token_public_key_def ok_or_def)

lemma decode_hex_fixed_Inr:
  "decode_hex_fixed x n v what = Inr bs \<longleftrightarrow> decode_hex (nc_hex_decode x) v = Inr bs \<and> length bs = n"
  by (simp add: decode_hex_fixed_def decode_hex_array_iff decode_hex_def)

lemma validate_secp256k1_Inr:
  "validate_secp256k1 x net a v EthereumDomain s allow = Inr i \<longleftrightarrow>
     (\<exists>key. token_signed_by x net a v EthereumDomain s key \<and> i = signer_identity allow EthereumDomain key)"
  unfolding validate_secp256k1_def token_signed_by_def and_then_Inr_iff token_public_key_Inr Let_def domain_prehash_eq
    map_err_Inr_iff
  by (simp add: and_then_Inr_iff) blast

lemma validate_ed25519_Inr:
  "domain \<noteq> EthereumDomain \<Longrightarrow> validate_ed25519 x net a v domain s allow = Inr i \<longleftrightarrow>
     (\<exists>key. token_signed_by x net a v domain s key \<and> i = signer_identity allow domain key)"
  unfolding validate_ed25519_def token_signed_by_def and_then_Inr_iff token_public_key_Inr Let_def domain_prehash_eq
    map_err_Inr_iff
  by (simp add: and_then_Inr_iff decode_hex_fixed_Inr) blast

lemma validate_token_Inr:
  "validate_token_metadata_signature x net a v domain s allow = Inr i \<longleftrightarrow>
     (\<exists>key. token_signed_by x net a v domain s key \<and> i = signer_identity allow domain key)"
  by (cases domain) (simp_all add: validate_secp256k1_Inr validate_ed25519_Inr)

lemma signer_identity_Recognized:
  "signer_identity allow domain key = Recognized \<longleftrightarrow> scoped_signer_key domain key \<in> keys allow"
  by (simp add: signer_identity_def allowlist_contains_def)

section \<open>What is extracted\<close>

lemma examine_entry_Inr:
  assumes "examine_entry x nep141 network allow policy a e = Inr m"
  shows "\<exists>domain parsed. entry_origin e = Inr domain \<and> checked_value x e = Inr parsed
    \<and> entry_provenance x network allow policy domain a e = Inr (tm_provenance m)
    \<and> tm_symbol m = value_symbol parsed \<and> tm_decimals m = value_decimals parsed
    \<and> (token_signature e = None \<longrightarrow> accepts_unsigned policy)
    \<and> (verified (tm_provenance m) \<or> seeded_decimals nep141 a = None)
    \<and> length a \<le> MAX_ASSET_ID_BYTES \<and> length (token_value e) \<le> MAX_TOKEN_METADATA_VALUE_BYTES"
proof -
  have guard: "seed_guard nep141 a d p = Inr u \<Longrightarrow> verified p \<or> seeded_decimals nep141 a = None" for d p u
    by (auto simp: seed_guard_def split: option.splits if_splits)
  show ?thesis
    using assms by (auto simp: examine_entry_def and_then_Inr_iff split: if_splits dest!: guard)
qed

lemma entry_provenance_Inr:
  assumes "entry_provenance x network allow policy domain a e = Inr p"
  shows "p \<noteq> Seed"
    and "p = RecognizedSigner \<Longrightarrow> \<exists>sig key. token_signature e = Some sig
      \<and> token_signed_by x (network_id network) a (token_value e) domain (token_proto_signature sig) key
      \<and> scoped_signer_key domain key \<in> keys allow"
    and "\<not> verified p \<Longrightarrow> accepts_unsigned policy \<or> token_signature e = None"
  using assms
  by (auto simp: entry_provenance_def validate_token_Inr signer_identity_Recognized
      split: option.splits sum.splits SignerIdentity.splits if_splits dest: sym)

text \<open>What an entry of a request has to satisfy to be used as \<open>m\<close>. Sizes and the value are bounded, the symbol is printable
  ASCII without a backslash, and the origin chain is a known one. Without a signature the deployment must accept unsigned
  metadata; with one, it must verify for this network, asset, value and origin, and its key be listed for that origin
  unless unsigned metadata is accepted. Only metadata signed by a listed key may be given for a curated asset.\<close>

definition origin_of :: "TokenMetadataEntry \<Rightarrow> TokenMetadataDomain \<Rightarrow> bool" where
  "origin_of e domain \<longleftrightarrow>
     (case token_origin_chain e of
        None \<Rightarrow> domain = NearDomain
      | Some n \<Rightarrow> (n, domain) \<in> {(0, NearDomain), (1, NearDomain), (2, EthereumDomain), (3, SolanaDomain)})"

definition token_admitted ::
  "('s, 'e, 'v, 'g, 'k) NearCrypto \<Rightarrow> (string \<Rightarrow> bool) \<Rightarrow> NearNetwork \<Rightarrow> SignerAllowlist \<Rightarrow> MetadataTrustPolicy
    \<Rightarrow> string \<Rightarrow> TokenMetadataEntry \<Rightarrow> TokenMeta \<Rightarrow> bool" where
  "token_admitted x nep141 network allow policy a e m \<longleftrightarrow>
     length a \<le> 128 \<and> length (token_value e) \<le> 1024
     \<and> nc_token_value x (token_value e) = Inr \<lparr>value_symbol = tm_symbol m, value_decimals = tm_decimals m\<rparr>
     \<and> unat (tm_decimals m) \<le> 38 \<and> tm_symbol m \<noteq> [] \<and> length (tm_symbol m) \<le> 32
     \<and> (\<forall>c\<in>set (tm_symbol m). 32 \<le> code c \<and> code c \<le> 126 \<and> c \<noteq> CHR 0x5C)
     \<and> (\<exists>domain. origin_of e domain
       \<and> (case token_signature e of
            None \<Rightarrow> tm_provenance m = Unsigned \<and> accepts_unsigned policy \<and> \<not> curated_asset nep141 a
          | Some sig \<Rightarrow>
              (\<exists>key. token_signed_by x (network_id network) a (token_value e) domain (token_proto_signature sig) key
                \<and> (if scoped_signer_key domain key \<in> keys allow then tm_provenance m = RecognizedSigner
                   else tm_provenance m = UnrecognizedSigner \<and> accepts_unsigned policy \<and> \<not> curated_asset nep141 a))))"

lemma is_ok_Inr: "is_ok r \<longleftrightarrow> (\<exists>a. r = Inr a)"
  by (cases r) simp_all

lemma sint_inject: "sint a = sint b \<longleftrightarrow> a = b"
  by (rule word_eq_iff_signed [symmetric])

lemma entry_origin_Inr: "entry_origin e = Inr domain \<longleftrightarrow> origin_of e domain"
proof -
  have "sint n = 0 \<longleftrightarrow> n = 0" "sint n = 1 \<longleftrightarrow> n = 1" "sint n = 2 \<longleftrightarrow> n = 2" "sint n = 3 \<longleftrightarrow> n = 3" for n :: u32
    using sint_inject [of n 0] sint_inject [of n 1] sint_inject [of n 2] sint_inject [of n 3] by simp_all
  then show ?thesis
    by (auto simp: entry_origin_def origin_of_def origin_try_from_def split: option.splits if_splits)
qed

lemma symbol_printable_iff: "symbol_printable s \<longleftrightarrow> (\<forall>c\<in>set s. 32 \<le> code c \<and> code c \<le> 126 \<and> c \<noteq> CHR 0x5C)"
proof -
  have "code (CHR '' '') = 32" "CHR '' '' \<noteq> CHR 0x5C" by (simp_all add: code_def)
  moreover from this have "c \<noteq> CHR '' '' \<Longrightarrow> code c \<noteq> 32" for c by (metis code_inject)
  ultimately have "(c = CHR '' '' \<or> is_ascii_graphic c \<and> c \<noteq> CHR 0x5C) \<longleftrightarrow> 32 \<le> code c \<and> code c \<le> 126 \<and> c \<noteq> CHR 0x5C" for c
    unfolding is_ascii_graphic_def by (cases "c = CHR '' ''") (simp, force)
  then show ?thesis by (simp only: symbol_printable_def list_all_iff)
qed

lemma if_refused: "(if c then Inl e else r) = Inr v \<longleftrightarrow> \<not> c \<and> r = Inr v"
  by simp

lemma checked_value_Inr:
  "checked_value x e = Inr v \<longleftrightarrow> nc_token_value x (token_value e) = Inr v \<and> unat (value_decimals v) \<le> 38
    \<and> value_symbol v \<noteq> [] \<and> length (value_symbol v) \<le> 32
    \<and> (\<forall>c\<in>set (value_symbol v). 32 \<le> code c \<and> code c \<le> 126 \<and> c \<noteq> CHR 0x5C)"
proof -
  have decimals: "MAX_TOKEN_DECIMALS < d \<longleftrightarrow> \<not> unat d \<le> 38" for d
    unfolding word_less_nat_alt MAX_TOKEN_DECIMALS_def by (simp add: not_le)
  show ?thesis
  proof (cases "nc_token_value x (token_value e)")
    case (Inr w)
    then show ?thesis
      unfolding symbol_printable_iff [symmetric] checked_value_def Inr map_err.simps and_then.simps decimals if_refused
        MAX_TOKEN_SYMBOL_LEN_def
      by (cases "w = v") (simp_all add: not_less)
  qed (simp add: checked_value_def)
qed

lemma entry_provenance_iff:
  "entry_provenance x network allow policy domain a e = Inr p \<longleftrightarrow>
     (case token_signature e of
        None \<Rightarrow> p = Unsigned
      | Some sig \<Rightarrow> (\<exists>key. token_signed_by x (network_id network) a (token_value e) domain (token_proto_signature sig) key
          \<and> (if scoped_signer_key domain key \<in> keys allow then p = RecognizedSigner
             else p = UnrecognizedSigner \<and> accepts_unsigned policy)))"
proof (cases "token_signature e")
  case (Some sig)
  let ?v = "validate_token_metadata_signature x (network_id network) a (token_value e) domain (token_proto_signature sig) allow"
  have "entry_provenance x network allow policy domain a e = Inr p \<longleftrightarrow>
      ?v = Inr Recognized \<and> p = RecognizedSigner \<or> ?v = Inr Unrecognized \<and> p = UnrecognizedSigner \<and> accepts_unsigned policy"
    using Some by (auto simp: entry_provenance_def split: sum.split SignerIdentity.split)
  with Some show ?thesis
    by (auto simp: validate_token_Inr signer_identity_def allowlist_contains_def split: if_splits)
qed (auto simp: entry_provenance_def)

lemma examine_entry_iff:
  "examine_entry x nep141 network allow policy a e = Inr m \<longleftrightarrow> token_admitted x nep141 network allow policy a e m"
proof -
  let ?v = "\<lparr>value_symbol = tm_symbol m, value_decimals = tm_decimals m\<rparr>"
  have guard: "seed_guard nep141 a d p = Inr u \<longleftrightarrow> verified p \<or> \<not> curated_asset nep141 a" for d p u
    unfolding seeded_iff_curated [symmetric] by (auto simp: seed_guard_def split: option.split)
  have "examine_entry x nep141 network allow policy a e = Inr m \<longleftrightarrow>
      length a \<le> 128 \<and> length (token_value e) \<le> 1024 \<and> checked_value x e = Inr ?v
      \<and> (token_signature e = None \<longrightarrow> accepts_unsigned policy) \<and> (verified (tm_provenance m) \<or> \<not> curated_asset nep141 a)
      \<and> (\<exists>domain. entry_origin e = Inr domain \<and> entry_provenance x network allow policy domain a e = Inr (tm_provenance m))"
    by (cases m) (auto simp: examine_entry_def and_then_Inr_iff guard MAX_ASSET_ID_BYTES_def MAX_TOKEN_METADATA_VALUE_BYTES_def)
  then show ?thesis
    unfolding token_admitted_def checked_value_Inr entry_origin_Inr entry_provenance_iff
    by (cases "token_signature e"; cases "tm_provenance m") auto
qed

definition accepted_tokens ::
  "(string \<Rightarrow> TokenMetadataEntry \<Rightarrow> (string, TokenMeta) result) \<Rightarrow> (string \<times> TokenMetadataEntry) list \<Rightarrow> (string \<times> TokenMeta) list" where
  "accepted_tokens examine entries =
     List.map_filter (\<lambda>(a, e). case examine a e of Inl _ \<Rightarrow> None | Inr m \<Rightarrow> Some (a, m)) entries"

definition rejected_tokens ::
  "(string \<Rightarrow> TokenMetadataEntry \<Rightarrow> (string, TokenMeta) result) \<Rightarrow> (string \<times> TokenMetadataEntry) list \<Rightarrow> RejectedTokenMetadata list" where
  "rejected_tokens examine entries =
     List.map_filter (\<lambda>(a, e). case examine a e of Inl r \<Rightarrow> Some (named_rejection a r) | Inr _ \<Rightarrow> None) entries"

lemma extract_fold:
  "fold (extract_token_entry x nep141 network allow policy) es (reg, rej) =
     (fold (\<lambda>(k, v). bt_insert k v) (accepted_tokens (examine_entry x nep141 network allow policy) es) reg,
      rej @ rejected_tokens (examine_entry x nep141 network allow policy) es)"
  by (induction es arbitrary: reg rej)
    (auto simp: accepted_tokens_def rejected_tokens_def extract_token_entry_def map_filter_simps split: sum.splits)

lemma accepted_tokens_iff:
  "(a, m) \<in> set (accepted_tokens examine es) \<longleftrightarrow> (\<exists>e. (a, e) \<in> set es \<and> examine a e = Inr m)"
  by (induction es) (auto simp: accepted_tokens_def map_filter_simps split: sum.splits)

lemma accepted_rejected_length:
  "length (accepted_tokens examine es) + length (rejected_tokens examine es) = length es"
  by (induction es) (auto simp: accepted_tokens_def rejected_tokens_def map_filter_simps split: sum.splits)

lemma ssorted_accepted: "ssorted es \<Longrightarrow> ssorted (accepted_tokens examine es)"
proof (induction es)
  case (Cons e es)
  obtain a v where e: "e = (a, v)" by force
  have later: "\<forall>y\<in>set (accepted_tokens examine es). a < fst y"
    using Cons.prems accepted_tokens_iff [of _ _ examine es] e by fastforce
  have "accepted_tokens examine (e # es) =
      (case examine a v of Inl _ \<Rightarrow> accepted_tokens examine es | Inr m \<Rightarrow> (a, m) # accepted_tokens examine es)"
    by (simp add: e accepted_tokens_def map_filter_simps split: sum.splits)
  with Cons later show ?case by (auto split: sum.splits)
qed (simp add: accepted_tokens_def map_filter_simps)

lemma scoped_signer_key_inject:
  assumes "fits64 k" and "fits64 k'"
  shows "scoped_signer_key d k = scoped_signer_key d' k' \<longleftrightarrow> d = d' \<and> k = k'"
proof -
  have fields: "scoped_signer_key d k = concat (map (sized 8) [as_bytes (domain_tag d), k])" for d k
    by (simp add: scoped_signer_key_def sized_def)
  have tag: "fits64 (as_bytes (domain_tag d))" for d
    by (cases d) (simp_all add: fits64_def CHAIN_TAG_NEAR_TOKEN_METADATA_def
        CHAIN_TAG_ETHEREUM_TOKEN_METADATA_def CHAIN_TAG_SOLANA_TOKEN_METADATA_def)
  have "domain_tag d = domain_tag d' \<longleftrightarrow> d = d'"
    using chain_tags_distinct by (cases d; cases d') auto
  then show ?thesis
    unfolding fields by (subst sized64.seq_inject) (use assms tag in \<open>auto simp: inj_as_bytes\<close>)
qed

section \<open>Properties\<close>

text \<open>C15: the registry that extraction returns holds exactly the admissible entries (\<open>token_admitted\<close> names every
  condition: sizes, decimals, symbol, origin, signature, listed key, curated assets), each with the metadata of its own
  value, and the refusals name exactly the other assets, in order: no entry is dropped silently or kept without a check. A
  request with more than 256 entries has none of them used and is refused as a whole.\<close>

theorem token_extraction_exact:
  fixes x :: "('s, 'e, 'v, 'g, 'k) NearCrypto" and nep141 :: "string \<Rightarrow> bool" and network :: NearNetwork
    and allow :: SignerAllowlist and policy :: MetadataTrustPolicy
  assumes "Option.bind md chain_metadata_metadata = Some (NearMeta near)" and "ssorted (near_token_mappings near)"
  defines "extraction \<equiv> try_extract_token_metadata x nep141 md network allow policy"
    and "admitted \<equiv> token_admitted x nep141 network allow policy"
  shows "if length (near_token_mappings near) \<le> 256
    then (\<forall>a m. Option.bind (extraction_registry extraction) (\<lambda>r. map_of (by_asset_id r) a) = Some m
        \<longleftrightarrow> (\<exists>e. (a, e) \<in> set (near_token_mappings near) \<and> admitted a e m))
      \<and> map rejected_asset_id (extraction_rejected extraction) =
        map (\<lambda>(a, e). if length a > 128 then take_chars 32 a @ ''...'' else a)
          (filter (\<lambda>(a, e). \<nexists>m. admitted a e m) (near_token_mappings near))
    else extraction_registry extraction = None \<and> map rejected_asset_id (extraction_rejected extraction) = [''all assets'']"
proof -
  let ?es = "near_token_mappings near" and ?examine = "examine_entry x nep141 network allow policy"
  let ?accepted = "accepted_tokens ?examine ?es"
  have ex: "admitted a e m \<longleftrightarrow> ?examine a e = Inr m" for a e m by (simp add: admitted_def examine_entry_iff)
  have "fold (\<lambda>(k, v). bt_insert k v) ?accepted [] = ?accepted"
    using bt_collect_ssorted [OF ssorted_accepted [OF assms(2)]] by (simp add: bt_collect_def)
  moreover have "accepted_tokens ?examine [] = []" "rejected_tokens ?examine [] = []"
    by (simp_all add: accepted_tokens_def rejected_tokens_def map_filter_simps)
  ultimately have eq: "extraction =
      (if length ?es \<le> 256
       then \<lparr>extraction_registry = (if ?accepted = [] then None else Some \<lparr>by_asset_id = ?accepted\<rparr>),
             extraction_rejected = rejected_tokens ?examine ?es\<rparr>
       else \<lparr>extraction_registry = None, extraction_rejected = [\<lparr>rejected_asset_id = ''all assets'', rejected_reason =
              nat_str (length ?es) @ '' entries exceeds the limit of '' @ nat_str MAX_TOKEN_METADATA_ENTRIES\<rparr>]\<rparr>)"
    using assms(1) by (auto simp: extraction_def try_extract_token_metadata_def extract_fold Let_def MAX_TOKEN_METADATA_ENTRIES_def)
  have "map_of ?accepted a = Some m \<longleftrightarrow> (\<exists>e. (a, e) \<in> set ?es \<and> admitted a e m)" for a m
    using ssorted_distinct [OF ssorted_accepted [OF assms(2)]]
    by (simp add: map_of_eq_Some_iff accepted_tokens_iff ex)
  moreover have "map rejected_asset_id (rejected_tokens ?examine es) =
      map (\<lambda>(a, e). if length a > 128 then take_chars 32 a @ ''...'' else a) (filter (\<lambda>(a, e). \<nexists>m. admitted a e m) es)" for es
    by (induction es) (auto simp: rejected_tokens_def map_filter_simps named_rejection_def MAX_ASSET_ID_BYTES_def
        ASSET_ID_PREVIEW_CHARS_def ex split: sum.splits)
  ultimately show ?thesis by (auto simp: eq)
qed

definition sample_near_crypto :: "(bytes, bytes, bytes, bytes, bytes) NearCrypto" where
  "sample_near_crypto =
     \<lparr>nc_sha = (\<lambda>bs. bs), nc_hex_decode = (\<lambda>s. Inr (as_bytes (tl s))), nc_hex_encode = (\<lambda>bs. CHR ''f'' # str_of_bytes bs),
      secp_from_der = Inr, secp_to_der = (\<lambda>s. s), secp_point = Inr, secp_key = Inr, secp_uncompressed = (\<lambda>v. v),
      secp_verify_prehash = (\<lambda>v h s. if s = v @ h then Inr () else Inl ''bad''), secp_signing_key = Inr,
      secp_verifying = (\<lambda>g. g), secp_sign_prehash = (\<lambda>g h. Inr (g @ h)), ed_key = Inr, ed_key_bytes = (\<lambda>k. k),
      ed_verify_strict = (\<lambda>k h s. if s = take 64 (k @ h) then Inr () else Inl ''bad''), ed_verifying = (\<lambda>seed. seed),
      ed_sign = (\<lambda>seed h. take 64 (seed @ h)), nc_token_value = (\<lambda>s. Inr \<lparr>value_symbol = s, value_decimals = 6\<rparr>)\<rparr>"

definition sample_near :: NearMetadata where
  "sample_near = \<lparr>near_network_id = None, near_token_mappings =
     [(''nep141:a.near'', \<lparr>token_value = ''AAA'', token_signature = None, token_origin_chain = None\<rparr>),
      (''nep141:wrap.near'', \<lparr>token_value = ''BAD'', token_signature = None, token_origin_chain = None\<rparr>)]\<rparr>"

definition sample_near_metadata :: ChainMetadata where
  "sample_near_metadata = \<lparr>chain_metadata_metadata = Some (NearMeta sample_near)\<rparr>"

lemma sample_seeded:
  "seeded_decimals nep141 ''nep141:wrap.near'' = Some 24" "seeded_decimals nep141 ''nep141:a.near'' = None"
  by (subst seeded_decimals.simps, simp add: SEEDS_def mt_underlying_nep141_def strip_prefix_def)+

lemma sample_examined:
  "examine_entry sample_near_crypto nep141 Mainnet allow AcceptUnsigned ''nep141:a.near''
     \<lparr>token_value = ''AAA'', token_signature = None, token_origin_chain = None\<rparr>
     = Inr \<lparr>tm_symbol = ''AAA'', tm_decimals = 6, tm_provenance = Unsigned\<rparr>"
  "\<not> is_ok (examine_entry sample_near_crypto nep141 Mainnet allow AcceptUnsigned ''nep141:wrap.near''
     \<lparr>token_value = ''BAD'', token_signature = None, token_origin_chain = None\<rparr>)"
  by (simp_all add: examine_entry_def entry_origin_def checked_value_def sample_near_crypto_def entry_provenance_def
      seed_guard_def sample_seeded symbol_printable_def MAX_ASSET_ID_BYTES_def MAX_TOKEN_METADATA_VALUE_BYTES_def
      MAX_TOKEN_DECIMALS_def MAX_TOKEN_SYMBOL_LEN_def is_ascii_graphic_def code_def is_ok_def)

theorem token_extraction_exact_witness:
  "map rejected_asset_id (extraction_rejected (try_extract_token_metadata sample_near_crypto (\<lambda>_. True) (Some sample_near_metadata)
      Mainnet allowlist_new AcceptUnsigned)) = [''nep141:wrap.near'']
   \<and> Option.bind (extraction_registry (try_extract_token_metadata sample_near_crypto (\<lambda>_. True) (Some sample_near_metadata)
      Mainnet allowlist_new AcceptUnsigned)) (\<lambda>r. map_of (by_asset_id r) ''nep141:a.near'')
     = Some \<lparr>tm_symbol = ''AAA'', tm_decimals = 6, tm_provenance = Unsigned\<rparr>"
proof -
  have near: "Option.bind (Some sample_near_metadata) chain_metadata_metadata = Some (NearMeta sample_near)"
    "ssorted (near_token_mappings sample_near)" "length (near_token_mappings sample_near) \<le> 256"
    by (simp_all add: sample_near_metadata_def sample_near_def)
  note admitted = sample_examined [of "\<lambda>_. True" allowlist_new, unfolded is_ok_Inr examine_entry_iff]
  from token_extraction_exact [OF near(1,2), of sample_near_crypto "\<lambda>_. True" Mainnet allowlist_new AcceptUnsigned] near(3) admitted
  show ?thesis by (auto simp: sample_near_def)
qed

end
