(* ===== verification/NearIntents.thy ===== *)
theory NearIntents
  imports NearActions NearTrust
begin

text \<open>
  \<^verbatim>\<open>chain_parsers/visualsign-near/src/presets/intents/\<close>: \<^verbatim>\<open>render.rs\<close>, \<^verbatim>\<open>verify.rs\<close>, \<^verbatim>\<open>args.rs\<close> and the entry points
  of \<^verbatim>\<open>mod.rs\<close>. The types of \<^verbatim>\<open>defuse-core\<close> carry what the renderer reads; an asset id is its \<^verbatim>\<open>Display\<close>
  text, a signed delta a 128-bit word read with its sign. Defuse's parsers, signature checks and clock
  are the record \<open>Defuse\<close>, whose field \<open>df_diagnostics\<close> is the Cargo feature.
\<close>

section \<open>Types of the intents library\<close>

record TokenDiffIntent =
  td_diff :: "(string \<times> 128 word) list"
  td_memo :: "string option"
  td_referral :: "near_account option"

record NotifyOnTransfer =
  notify_msg :: string
  notify_state_init :: "bytes option"

record TransferIntent =
  tr_receiver_id :: near_account
  tr_tokens :: "(string \<times> 128 word) list"
  tr_memo :: "string option"
  tr_notification :: "NotifyOnTransfer option"

record WithdrawIntent =
  wd_token :: near_account
  wd_receiver_id :: near_account
  wd_memo :: "string option"
  wd_msg :: "string option"
  wd_storage_deposit :: "near_token option"

record FtWithdrawIntent = WithdrawIntent +
  ftw_amount :: "128 word"

record NftWithdrawIntent = WithdrawIntent +
  nftw_token_id :: string

record MtWithdrawIntent = WithdrawIntent +
  mtw_token_ids :: "string list"
  mtw_amounts :: "128 word list"

record AuthCallIntent =
  auth_contract_id :: near_account
  auth_msg :: string
  auth_attached_deposit :: near_token
  auth_state_init :: "bytes option"

datatype Intent =
    AddPublicKey near_key
  | RemovePublicKey near_key
  | Transfer TransferIntent
  | FtWithdraw FtWithdrawIntent
  | NftWithdraw NftWithdrawIntent
  | MtWithdraw MtWithdrawIntent
  | NativeWithdraw near_account near_token
  | StorageDeposit near_account near_account near_token
  | TokenDiff TokenDiffIntent
  | SetAuthByPredecessorId bool
  | AuthCall AuthCallIntent

record DefusePayload =
  dp_signer_id :: near_account
  dp_verifying_contract :: near_account
  dp_deadline :: int
  dp_nonce :: bytes
  dp_intents :: "Intent list"

text \<open>A signed payload: its body and, for the two standards with a recovery id, the 65 bytes of the signature.\<close>

datatype MultiPayload =
    Nep413 bytes
  | Erc191 bytes bytes
  | Tip191 bytes bytes
  | RawEd25519 bytes
  | WebAuthn bytes
  | TonConnect bytes
  | Sep53 bytes

record Defuse =
  df_diagnostics :: bool
  df_nep141 :: "string \<Rightarrow> bool"
  df_show_key :: "near_key \<Rightarrow> string"
  df_implicit_account :: "near_key \<Rightarrow> near_account"
  df_verify :: "MultiPayload \<Rightarrow> near_key option"
  df_extract :: "MultiPayload \<Rightarrow> (string, DefusePayload) result"
  df_args :: "bytes \<Rightarrow> (string, MultiPayload list) result"
  df_payload_json :: "string \<Rightarrow> (string, DefusePayload) result"
  df_show_deadline :: "int \<Rightarrow> string"
  df_has_expired :: "int \<Rightarrow> bool"
  df_hex_encode :: "bytes \<Rightarrow> string"

type_synonym near_registry = "NearTokenRegistry LayeredRegistry"
type_synonym near_fields = "(VisualSignError, SignablePayloadField list) result"

section \<open>Signatures\<close>

datatype SignatureCheck = Valid string near_account | Invalid | MalformedEncoding string

definition recovery_reason :: "byte \<Rightarrow> string option" where
  "recovery_reason recovery_id =
     (if recovery_id < 4 then None
      else Some (''malformed signature encoding: recovery id '' @ nat_str (unat recovery_id) @ '', expected 0-3''
        @ (if recovery_id = 27 \<or> recovery_id = 28 then '' (Ethereum v=27/28 must be normalized)'' else [])))"

fun invalid_secp256k1_recovery_id_reason :: "MultiPayload \<Rightarrow> string option" where
  "invalid_secp256k1_recovery_id_reason (Erc191 body signature) = recovery_reason (signature ! 64)"
| "invalid_secp256k1_recovery_id_reason (Tip191 body signature) = recovery_reason (signature ! 64)"
| "invalid_secp256k1_recovery_id_reason _ = None"

definition verify_and_extract :: "Defuse \<Rightarrow> MultiPayload \<Rightarrow> SignatureCheck \<times> (string, DefusePayload) result" where
  "verify_and_extract df payload =
     (let check = (case invalid_secp256k1_recovery_id_reason payload of
            Some reason \<Rightarrow> MalformedEncoding reason
          | None \<Rightarrow> (case df_verify df payload of
                Some key \<Rightarrow> Valid (df_show_key df key) (df_implicit_account df key)
              | None \<Rightarrow> Invalid))
      in (check, df_extract df payload))"

section \<open>Fields\<close>

definition diagnostic :: "Defuse \<Rightarrow> string \<Rightarrow> string \<Rightarrow> near_fields" where
  "diagnostic df rule message =
     (if df_diagnostics df
      then Inr [signable_payload_field (create_diagnostic_field rule ''near-intents'' SevWarn (charset_safe message) None)]
      else text_of ''Warning'' (rule @ '': '' @ charset_safe message))"

definition rejected_metadata_diagnostics :: "Defuse \<Rightarrow> RejectedTokenMetadata list \<Rightarrow> SignablePayloadField list" where
  "rejected_metadata_diagnostics df rejected =
     concat (map (\<lambda>r.
       let message = ''token metadata supplied for '' @ rejected_asset_id r @ '' was rejected and not used: '' @ rejected_reason r
       in case diagnostic df ''rejected-token-metadata'' message of Inr fs \<Rightarrow> fs | Inl _ \<Rightarrow> []) rejected)"

text \<open>A resolved amount can always be scaled (lemma \<open>resolved_amount_renders\<close>).\<close>

definition token_amount_field :: "Defuse \<Rightarrow> string \<Rightarrow> string \<Rightarrow> 128 word \<Rightarrow> near_registry \<Rightarrow> near_fields" where
  "token_amount_field df lbl asset_id raw registry =
     (let resolved = resolve (df_nep141 df) asset_id registry; shown = charset_safe asset_id
      in case resolved of
           Some meta \<Rightarrow>
             seq_fields [one_field (create_amount_field lbl (the (format_units raw (tm_decimals meta))) (tm_symbol meta)),
               (case unverified_cause (tm_provenance meta) of
                  Some cause \<Rightarrow> diagnostic df ''unverified-token-metadata'' (''symbol/decimals for '' @ shown @ '': '' @ cause)
                | None \<Rightarrow> Inr [])]
         | None \<Rightarrow> text_of lbl (nat_str (unat raw) @ '' (unresolved '' @ shown @ '')''))"

definition EMPTY_VALUE :: string where
  "EMPTY_VALUE = ''(empty)'' @ [CHR 0x5C]"

definition nonempty_filtered :: "string option \<Rightarrow> string option" where
  "nonempty_filtered t =
     (case map_option charset_safe t of Some s \<Rightarrow> if s = [] then None else Some s | None \<Rightarrow> None)"

definition present_value :: "string \<Rightarrow> string" where
  "present_value t = (let filtered = charset_safe t in if filtered = [] then EMPTY_VALUE else filtered)"

definition optional_text :: "string \<Rightarrow> string option \<Rightarrow> near_fields" where
  "optional_text lbl t = (case t of Some s \<Rightarrow> text_of lbl s | None \<Rightarrow> Inr [])"

definition NEAR_DECIMALS :: byte where
  "NEAR_DECIMALS = 24"

definition near_amount_field :: "string \<Rightarrow> 128 word \<Rightarrow> near_fields" where
  "near_amount_field lbl yocto = one_field (create_amount_field lbl (the (format_units yocto NEAR_DECIMALS)) near_symbol)"

fun standard_name :: "MultiPayload \<Rightarrow> string" where
  "standard_name (Nep413 _) = ''nep413''"
| "standard_name (Erc191 _ _) = ''erc191''"
| "standard_name (Tip191 _ _) = ''tip191''"
| "standard_name (RawEd25519 _) = ''raw_ed25519''"
| "standard_name (WebAuthn _) = ''webauthn''"
| "standard_name (TonConnect _) = ''ton_connect''"
| "standard_name (Sep53 _) = ''sep53''"

fun intent_label :: "Intent \<Rightarrow> string" where
  "intent_label (TokenDiff _) = ''Token Diff''"
| "intent_label (Transfer _) = ''Transfer''"
| "intent_label (FtWithdraw _) = ''FT Withdraw''"
| "intent_label (NftWithdraw _) = ''NFT Withdraw''"
| "intent_label (MtWithdraw _) = ''MT Withdraw''"
| "intent_label (NativeWithdraw _ _) = ''Native Withdraw''"
| "intent_label (AddPublicKey _) = ''Add Public Key''"
| "intent_label (RemovePublicKey _) = ''Remove Public Key''"
| "intent_label (SetAuthByPredecessorId _) = ''Set Auth By Predecessor Id''"
| "intent_label (StorageDeposit _ _ _) = ''Storage Deposit''"
| "intent_label (AuthCall _) = ''Auth Call''"

fun title_for_intents :: "Intent list \<Rightarrow> string" where
  "title_for_intents [single] = ''NEAR Intent: '' @ intent_label single"
| "title_for_intents _ = ''NEAR Intent''"

definition boundary_text :: "Intent \<Rightarrow> nat \<Rightarrow> nat \<Rightarrow> string" where
  "boundary_text intent index n =
     (if n > 1 then nat_str (index + 1) @ '' of '' @ nat_str n @ '': '' @ intent_label intent else intent_label intent)"

definition intent_boundary_field :: "Intent \<Rightarrow> nat \<Rightarrow> nat \<Rightarrow> near_fields" where
  "intent_boundary_field intent index n = text_of ''Intent'' (boundary_text intent index n)"

fun account_control :: "Intent \<Rightarrow> string option" where
  "account_control (AddPublicKey _) = Some (''this key gains permanent authority over the account''
     @ [CHR 0x27] @ ''s entire intents balance, until it is explicitly removed'')"
| "account_control (RemovePublicKey _) = Some
     ''removing a key revokes its authority over the account; removing the only remaining key can lock the account out''"
| "account_control (SetAuthByPredecessorId _) = Some
     ''this changes which callers the account authorizes, independently of its keys''"
| "account_control (AuthCall _) = Some (''this calls the named contract with the signer'' @ [CHR 0x27]
     @ ''s own authority, and the attached deposit is not refunded on failure'')"
| "account_control _ = None"

definition account_control_warning :: "Defuse \<Rightarrow> Intent \<Rightarrow> near_fields" where
  "account_control_warning df intent =
     (case account_control intent of Some consequence \<Rightarrow> diagnostic df ''account-control'' consequence | None \<Rightarrow> Inr [])"

definition state_init_field :: near_fields where
  "state_init_field = text_of ''State Init'' ''(not fully decoded)''"

section \<open>Intents\<close>

definition unsigned_abs :: "128 word \<Rightarrow> 128 word" where
  "unsigned_abs d = (if sint d < 0 then - d else d)"

definition token_diff_entry :: "Defuse \<Rightarrow> near_registry \<Rightarrow> string \<times> 128 word \<Rightarrow> near_fields" where
  "token_diff_entry df registry e =
     (if snd e = 0
      then Inl (ValidationError (''token_diff entry for '' @ charset_safe (fst e) @ '' has a zero delta''))
      else token_amount_field df (if sint (snd e) < 0 then ''Send'' else ''Receive'') (fst e) (unsigned_abs (snd e)) registry)"

definition render_token_diff :: "Defuse \<Rightarrow> TokenDiffIntent \<Rightarrow> near_registry \<Rightarrow> near_fields" where
  "render_token_diff df td registry =
     (if td_diff td = [] then Inl (ValidationError ''token_diff carries no entries'')
      else seq_fields (map (token_diff_entry df registry) (td_diff td)
        @ [optional_text ''Memo'' (nonempty_filtered (td_memo td)), optional_text ''Referral'' (td_referral td)]))"

definition render_transfer :: "Defuse \<Rightarrow> TransferIntent \<Rightarrow> near_registry \<Rightarrow> near_fields" where
  "render_transfer df t registry =
     seq_fields ([text_of ''To'' (tr_receiver_id t)]
       @ map (\<lambda>(token_id, amount). token_amount_field df ''Amount'' token_id amount registry) (tr_tokens t)
       @ [optional_text ''Memo'' (nonempty_filtered (tr_memo t)),
          (case tr_notification t of
             None \<Rightarrow> Inr []
           | Some notification \<Rightarrow>
               seq_fields [text_of ''Message'' (present_value (notify_msg notification)),
                 if notify_state_init notification \<noteq> None then state_init_field else Inr []])])"

definition push_withdraw_call_details ::
  "string option \<Rightarrow> string option \<Rightarrow> near_token option \<Rightarrow> near_fields" where
  "push_withdraw_call_details memo msg storage_deposit =
     seq_fields [optional_text ''Memo'' (nonempty_filtered memo), optional_text ''Message'' (map_option present_value msg),
       (case storage_deposit of Some deposit \<Rightarrow> near_amount_field ''Storage Deposit'' deposit | None \<Rightarrow> Inr [])]"

definition withdraw_details :: "('a) WithdrawIntent_scheme \<Rightarrow> near_fields" where
  "withdraw_details w = push_withdraw_call_details (wd_memo w) (wd_msg w) (wd_storage_deposit w)"

definition render_ft_withdraw :: "Defuse \<Rightarrow> FtWithdrawIntent \<Rightarrow> near_registry \<Rightarrow> near_fields" where
  "render_ft_withdraw df w registry =
     seq_fields [text_of ''Token'' (wd_token w), text_of ''To'' (wd_receiver_id w),
       token_amount_field df ''Amount'' (''nep141:'' @ wd_token w) (ftw_amount w) registry, withdraw_details w]"

definition render_nft_withdraw :: "NftWithdrawIntent \<Rightarrow> near_fields" where
  "render_nft_withdraw w =
     seq_fields [text_of ''Token'' (wd_token w), text_of ''To'' (wd_receiver_id w),
       text_of ''NFT Token Id'' (charset_safe (nftw_token_id w)), withdraw_details w]"

definition render_mt_withdraw :: "Defuse \<Rightarrow> MtWithdrawIntent \<Rightarrow> near_registry \<Rightarrow> near_fields" where
  "render_mt_withdraw df w registry =
     (if length (mtw_token_ids w) \<noteq> length (mtw_amounts w)
      then Inl (ValidationError (''mt_withdraw token_ids/amounts length mismatch: '' @ nat_str (length (mtw_token_ids w))
             @ '' token_ids vs '' @ nat_str (length (mtw_amounts w)) @ '' amounts''))
      else seq_fields ([text_of ''Token'' (wd_token w), text_of ''To'' (wd_receiver_id w)]
        @ map (\<lambda>(i, amount). seq_fields [text_of ''MT Token'' (charset_safe i),
              token_amount_field df ''Amount'' (''nep245:'' @ wd_token w @ '':'' @ i) amount registry])
            (zip (mtw_token_ids w) (mtw_amounts w))
        @ [withdraw_details w]))"

definition render_native_withdraw :: "near_account \<Rightarrow> near_token \<Rightarrow> near_fields" where
  "render_native_withdraw receiver_id amount =
     seq_fields [text_of ''To'' receiver_id, near_amount_field ''Amount'' amount]"

fun render_intent_body :: "Defuse \<Rightarrow> Intent \<Rightarrow> near_registry \<Rightarrow> near_fields" where
  "render_intent_body df (TokenDiff td) registry = render_token_diff df td registry"
| "render_intent_body df (Transfer t) registry = render_transfer df t registry"
| "render_intent_body df (FtWithdraw w) registry = render_ft_withdraw df w registry"
| "render_intent_body df (NftWithdraw w) registry = render_nft_withdraw w"
| "render_intent_body df (MtWithdraw w) registry = render_mt_withdraw df w registry"
| "render_intent_body df (NativeWithdraw r a) registry = render_native_withdraw r a"
| "render_intent_body df (AddPublicKey k) registry = text_of ''Add Public Key'' (df_show_key df k)"
| "render_intent_body df (RemovePublicKey k) registry = text_of ''Remove Public Key'' (df_show_key df k)"
| "render_intent_body df (SetAuthByPredecessorId b) registry =
     text_of ''Auth By Predecessor'' (if b then ''enabled'' else ''disabled'')"
| "render_intent_body df (StorageDeposit c a n) registry =
     seq_fields [text_of ''Contract'' c, text_of ''For Account'' a, near_amount_field ''Amount'' n]"
| "render_intent_body df (AuthCall c) registry =
     seq_fields [text_of ''Contract'' (auth_contract_id c), text_of ''Message'' (charset_safe (auth_msg c)),
       near_amount_field ''Attached Deposit'' (auth_attached_deposit c),
       if auth_state_init c \<noteq> None then state_init_field else Inr []]"

definition render_intent :: "Defuse \<Rightarrow> Intent \<Rightarrow> near_registry \<Rightarrow> near_fields" where
  "render_intent df intent registry = seq_fields [render_intent_body df intent registry, account_control_warning df intent]"

fun intent_consumes_token_registry :: "Intent \<Rightarrow> bool" where
  "intent_consumes_token_registry (TokenDiff _) = True"
| "intent_consumes_token_registry (Transfer _) = True"
| "intent_consumes_token_registry (FtWithdraw _) = True"
| "intent_consumes_token_registry (MtWithdraw _) = True"
| "intent_consumes_token_registry _ = False"

section \<open>Envelopes\<close>

definition looks_like_implicit_account :: "string \<Rightarrow> bool" where
  "looks_like_implicit_account signer_id =
     (let is_hex = (\<lambda>s. s \<noteq> [] \<and> list_all is_ascii_hexdigit s)
      in length signer_id = 64 \<and> is_hex signer_id
         \<or> (case split_hex_prefix signer_id of Some rest \<Rightarrow> length rest = 40 \<and> is_hex rest | None \<Rightarrow> False))"

definition signature_text :: "Defuse \<Rightarrow> string \<Rightarrow> near_account \<Rightarrow> string option \<Rightarrow> near_fields" where
  "signature_text df recovered_key implied_account_id signer_id =
     (case (case signer_id of Some i \<Rightarrow> if looks_like_implicit_account i then Some i else None | None \<Rightarrow> None) of
        Some i \<Rightarrow>
          if eq_ignore_ascii_case i implied_account_id
          then text_of ''Signature'' (''valid for key '' @ recovered_key @ '' (derives signer_id '' @ i @ '')'')
          else seq_fields [text_of ''Signature'' (''valid for key '' @ recovered_key),
            diagnostic df ''account-binding'' (''the signing key does not derive signer_id '' @ i @ '' (it derives ''
              @ implied_account_id @ ''); the account may still have authorized this key on-chain, which this parser cannot check'')]
      | None \<Rightarrow> text_of ''Signature'' (''valid for key '' @ recovered_key @ '' (key-to-account binding not verified)''))"

definition render_signature :: "Defuse \<Rightarrow> string \<Rightarrow> SignatureCheck \<Rightarrow> string option \<Rightarrow> near_fields" where
  "render_signature df standard check signer_id =
     seq_fields [text_of ''Standard'' standard,
       (case check of
          Valid recovered_key implied_account_id \<Rightarrow> signature_text df recovered_key implied_account_id signer_id
        | Invalid \<Rightarrow> diagnostic df ''signature'' ''signature verification failed''
        | MalformedEncoding reason \<Rightarrow> diagnostic df ''signature'' reason)]"

definition render_envelope :: "Defuse \<Rightarrow> DefusePayload \<Rightarrow> near_fields" where
  "render_envelope df payload =
     seq_fields [text_of ''Signer'' (dp_signer_id payload), text_of ''Verifying Contract'' (dp_verifying_contract payload),
       text_of ''Deadline'' (df_show_deadline df (dp_deadline payload)),
       text_of ''Nonce'' (''0x'' @ df_hex_encode df (dp_nonce payload))]"

fun self_transfer_warning :: "Defuse \<Rightarrow> DefusePayload \<Rightarrow> Intent \<Rightarrow> near_fields" where
  "self_transfer_warning df payload (Transfer t) =
     (if tr_receiver_id t = dp_signer_id payload
      then diagnostic df ''self-transfer'' (''the recipient is the signer'' @ [CHR 0x27]
             @ ''s own account; the contract rejects a transfer to self'')
      else Inr [])"
| "self_transfer_warning df payload _ = Inr []"

definition first_mismatch :: "(string \<times> near_account) list \<Rightarrow> NearNetwork \<Rightarrow> string option" where
  "first_mismatch accounts network =
     (case List.map_filter (\<lambda>(role, account_id). network_mismatch role account_id network) accounts of
        [] \<Rightarrow> None | m # _ \<Rightarrow> Some m)"

definition intent_fields :: "Defuse \<Rightarrow> DefusePayload \<Rightarrow> near_registry \<Rightarrow> nat \<times> Intent \<Rightarrow> near_fields" where
  "intent_fields df payload registry e =
     seq_fields [intent_boundary_field (snd e) (fst e) (length (dp_intents payload)),
       render_intent df (snd e) registry, self_transfer_warning df payload (snd e)]"

definition render_single :: "Defuse \<Rightarrow> DefusePayload \<Rightarrow> near_registry \<Rightarrow> NearNetwork \<Rightarrow> near_fields" where
  "render_single df payload registry network =
     (case first_mismatch [(''signer'', dp_signer_id payload), (''verifying contract'', dp_verifying_contract payload)] network of
        Some mismatch \<Rightarrow> Inl (ValidationError mismatch)
      | None \<Rightarrow>
          seq_fields ([render_envelope df payload,
            (if df_has_expired df (dp_deadline payload)
             then diagnostic df ''deadline'' ''deadline has passed; the intents would be rejected'' else Inr []),
            (if dp_intents payload = []
             then diagnostic df ''empty-intents''
                    ''this envelope carries no intents; signing it moves nothing but spends the nonce'' else Inr [])]
            @ map (intent_fields df payload registry) (enumerate 0 (dp_intents payload))))"

definition section_fields :: "Defuse \<Rightarrow> nat \<Rightarrow> nat \<Rightarrow> MultiPayload \<Rightarrow> near_registry \<Rightarrow> NearNetwork \<Rightarrow> near_fields" where
  "section_fields df index n mp registry network =
     (let (check, extracted) = verify_and_extract df mp;
          signer_id = (case extracted of Inr p \<Rightarrow> Some (dp_signer_id p) | Inl _ \<Rightarrow> None)
      in seq_fields [text_of ''Signed Intent'' (nat_str index @ '' of '' @ nat_str n),
           render_signature df (standard_name mp) check signer_id,
           (case extracted of
              Inr payload \<Rightarrow> render_single df payload registry network
            | Inl e \<Rightarrow> diagnostic df ''extraction'' (''could not extract the envelope/intents: '' @ e))])"

section \<open>Entry points\<close>

datatype NearIntentsError = InputNotJson string | RenderError string | NetworkMismatch string

fun display_intents_error :: "NearIntentsError \<Rightarrow> string" where
  "display_intents_error (InputNotJson m) = ''input was not valid JSON: '' @ m"
| "display_intents_error (RenderError m) = ''Failed to render intents: '' @ m"
| "display_intents_error (NetworkMismatch m) = m"

fun render_error :: "VisualSignError \<Rightarrow> NearIntentsError" where
  "render_error (ValidationError mismatch) = NetworkMismatch mismatch"
| "render_error other = RenderError (display_error other)"

definition decode_args :: "Defuse \<Rightarrow> bytes \<Rightarrow> (NearIntentsError, MultiPayload list) result" where
  "decode_args df args = map_err InputNotJson (df_args df args)"

definition try_decode_execute_intents ::
  "Defuse \<Rightarrow> bytes \<Rightarrow> near_registry \<Rightarrow> NearNetwork \<Rightarrow> (NearIntentsError, SignablePayloadField list) result" where
  "try_decode_execute_intents df args registry network =
     and_then (decode_args df args) (\<lambda>payloads.
       map_err render_error (seq_fields (map (\<lambda>(i, mp). section_fields df (i + 1) (length payloads) mp registry network)
         (enumerate 0 payloads))))"

definition single_intent_consumes_token_registry :: "Defuse \<Rightarrow> string \<Rightarrow> bool" where
  "single_intent_consumes_token_registry df payload_json =
     (case df_payload_json df payload_json of
        Inr payload \<Rightarrow> list_ex intent_consumes_token_registry (dp_intents payload)
      | Inl _ \<Rightarrow> False)"

record RenderedEnvelope =
  env_title :: string
  env_fields :: "SignablePayloadField list"

definition try_render_single_intent ::
  "Defuse \<Rightarrow> string \<Rightarrow> near_registry \<Rightarrow> NearNetwork \<Rightarrow> (NearIntentsError, RenderedEnvelope) result" where
  "try_render_single_intent df payload_json registry network =
     and_then (map_err InputNotJson (df_payload_json df payload_json)) (\<lambda>payload.
     and_then (map_err render_error (render_single df payload registry network)) (\<lambda>fields.
     Inr \<lparr>env_title = title_for_intents (dp_intents payload), env_fields = fields\<rparr>))"

text \<open>A token diff that cannot execute is reported in the class of network mismatches.\<close>

lemma empty_diff_error:
  "td_diff td = [] \<Longrightarrow>
     map_err render_error (render_token_diff df td registry) = Inl (NetworkMismatch ''token_diff carries no entries'')"
  by (simp add: render_token_diff_def)

text \<open>A signature whose recovery id is out of range is reported, and the curve library is not asked about it.\<close>

lemma bad_recovery_id_reported:
  "unat (signature ! 64) \<ge> 4 \<Longrightarrow>
     \<exists>reason. fst (verify_and_extract df (Erc191 body signature)) = MalformedEncoding reason
       \<and> fst (verify_and_extract df (Tip191 body signature)) = MalformedEncoding reason"
  by (simp add: verify_and_extract_def recovery_reason_def word_less_nat_alt)

end
