(* ===== verification/NearConvert.thy ===== *)
theory NearConvert
  imports NearIntents
begin

text \<open>
  \<^verbatim>\<open>chain_parsers/visualsign-near/src/tx.rs\<close> and \<^verbatim>\<open>convert.rs\<close>: reading a NEAR input and converting it. Borsh, the
  \<^verbatim>\<open>hex\<close> and \<^verbatim>\<open>base64\<close> crates, the two NEAR libraries, the process environment and the Cargo feature
  \<^verbatim>\<open>dev-signing\<close> are the record \<open>NearLibs\<close>. The list of authorized signers is computed from the environment once per
  process in the source; here it is recomputed from the same argument. The trust policy has two cases, so the source's
  arm for a posture it does not know has no counterpart.
\<close>

record NearTx =
  ntx_signer_id :: near_account
  ntx_receiver_id :: near_account
  ntx_actions :: "Action list"

record ('s, 'e, 'v, 'g, 'k) NearLibs =
  nl_crypto :: "('s, 'e, 'v, 'g, 'k) NearCrypto"
  nl_primitives :: NearPrimitives
  nl_defuse :: Defuse
  nl_hex :: "string \<Rightarrow> (string, bytes) result"
  nl_base64 :: "string \<Rightarrow> (string, bytes) result"
  nl_transaction :: "bytes \<Rightarrow> (string, NearTx) result"
  nl_signed_transaction :: "bytes \<Rightarrow> (string, NearTx) result"
  nl_env :: "string \<Rightarrow> string option"
  nl_dev_signing :: bool

section \<open>Input\<close>

datatype NearTransaction = OnChain NearTx | IntentEnvelope string

definition near_decode_input :: "('s, 'e, 'v, 'g, 'k) NearLibs \<Rightarrow> string \<Rightarrow> (TransactionParseError, bytes) result" where
  "near_decode_input libs s =
     (case detect s of
        Hex \<Rightarrow> map_err (\<lambda>e. TxDecodeError (''hex: '' @ e)) (decode_hex (nl_hex libs) s)
      | Base64 \<Rightarrow> map_err (\<lambda>e. TxDecodeError (''base64: '' @ e)) (nl_base64 libs s))"

text \<open>The attempt at Borsh: the transaction, or the cause of the failure.\<close>

definition near_borsh ::
  "('s, 'e, 'v, 'g, 'k) NearLibs \<Rightarrow> DeveloperConfig option \<Rightarrow> bytes \<Rightarrow> (string, NearTx) result" where
  "near_borsh libs config bs =
     (case nl_transaction libs bs of
        Inr tx \<Rightarrow> Inr tx
      | Inl unsigned_err \<Rightarrow>
          if (case config of Some c \<Rightarrow> allow_signed_transactions c | None \<Rightarrow> False)
          then map_err (\<lambda>signed_err. ''unsigned='' @ unsigned_err @ '', signed='' @ signed_err) (nl_signed_transaction libs bs)
          else Inl unsigned_err)"

definition near_from_string_with_options ::
  "('s, 'e, 'v, 'g, 'k) NearLibs \<Rightarrow> string \<Rightarrow> DeveloperConfig option \<Rightarrow> (TransactionParseError, NearTransaction) result" where
  "near_from_string_with_options libs s config =
     (let trimmed = trim s;
          borsh = map_option (near_borsh libs config) (case near_decode_input libs trimmed of Inr bs \<Rightarrow> Some bs | Inl _ \<Rightarrow> None)
      in case borsh of
           Some (Inr transaction) \<Rightarrow> Inr (OnChain transaction)
         | _ \<Rightarrow>
             (let borsh_cause = (case borsh of Some (Inl cause) \<Rightarrow> cause | _ \<Rightarrow> ''input is not hex or base64'')
              in and_then (map_err (\<lambda>e. TxDecodeError
                     (''input is neither a NEAR borsh transaction nor a DefusePayload JSON envelope: '' @ e
                       @ ''; near borsh decode: '' @ borsh_cause))
                   (df_payload_json (nl_defuse libs) trimmed)) (\<lambda>_. Inr (IntentEnvelope trimmed))))"

definition near_from_string ::
  "('s, 'e, 'v, 'g, 'k) NearLibs \<Rightarrow> string \<Rightarrow> (TransactionParseError, NearTransaction) result" where
  "near_from_string libs s = near_from_string_with_options libs s None"

fun near_transaction_type :: "NearTransaction \<Rightarrow> string" where
  "near_transaction_type (OnChain _) = ''NEAR''"
| "near_transaction_type (IntentEnvelope _) = ''NEAR Intent''"

section \<open>The token registry of a request\<close>

record RequestTokenRegistry =
  request_registry :: near_registry
  request_diagnostics :: "SignablePayloadField list"

definition request_registry_empty :: RequestTokenRegistry where
  "request_registry_empty = \<lparr>request_registry = layered_new token_registry_default, request_diagnostics = []\<rparr>"

definition token_allowlist :: "('s, 'e, 'v, 'g, 'k) NearLibs \<Rightarrow> MetadataTrustPolicy \<Rightarrow> SignerAllowlist" where
  "token_allowlist libs policy =
     (case policy of
        RequireAllowlistedSigner allow \<Rightarrow> allow
      | AcceptUnsigned \<Rightarrow> authorized_token_metadata_signers (nl_crypto libs) (nl_dev_signing libs) (nl_env libs))"

definition token_registry_for ::
  "('s, 'e, 'v, 'g, 'k) NearLibs \<Rightarrow> VisualSignOptions \<Rightarrow> NearNetwork \<Rightarrow> MetadataTrustPolicy \<Rightarrow> RequestTokenRegistry" where
  "token_registry_for libs options network trust_policy =
     (let extraction = try_extract_token_metadata (nl_crypto libs) (df_nep141 (nl_defuse libs)) (metadata options) network
            (token_allowlist libs trust_policy) trust_policy
      in \<lparr>request_registry = (case extraction_registry extraction of
            Some request \<Rightarrow> with_request token_registry_default request
          | None \<Rightarrow> layered_new token_registry_default),
          request_diagnostics = rejected_metadata_diagnostics (nl_defuse libs) (extraction_rejected extraction)\<rparr>)"

definition resolve_network :: "VisualSignOptions \<Rightarrow> NearNetwork \<Rightarrow> (VisualSignError, NearNetwork) result" where
  "resolve_network options fallback =
     and_then (extract_network_from_metadata (metadata options)) (\<lambda>n. Inr (unwrap_or fallback n))"

section \<open>The converter\<close>

definition NEAR_PAYLOAD_VERSION :: "64 word" where
  "NEAR_PAYLOAD_VERSION = 0"

definition NEAR_PAYLOAD_TYPE :: string where
  "NEAR_PAYLOAD_TYPE = ''NearTx''"

record NearVisualSignConverter =
  near_network :: NearNetwork
  near_trust_policy :: MetadataTrustPolicy

definition near_converter_new :: NearVisualSignConverter where
  "near_converter_new = \<lparr>near_network = Mainnet, near_trust_policy = AcceptUnsigned\<rparr>"

definition with_network :: "NearNetwork \<Rightarrow> NearVisualSignConverter" where
  "with_network network = near_converter_new \<lparr>near_network := network\<rparr>"

definition with_trust_policy :: "MetadataTrustPolicy \<Rightarrow> NearVisualSignConverter" where
  "with_trust_policy policy = near_converter_new \<lparr>near_trust_policy := policy\<rparr>"

definition with_network_and_trust_policy :: "NearNetwork \<Rightarrow> MetadataTrustPolicy \<Rightarrow> NearVisualSignConverter" where
  "with_network_and_trust_policy network policy = \<lparr>near_network = network, near_trust_policy = policy\<rparr>"

definition EXECUTE_INTENTS_METHOD :: string where
  "EXECUTE_INTENTS_METHOD = ''execute_intents''"

fun token_metadata_consumer :: "string \<Rightarrow> Action \<Rightarrow> FunctionCallAction option" where
  "token_metadata_consumer receiver_id (FunctionCall fc) =
     (if receiver_id = INTENTS_RECEIVER \<and> fc_method_name fc = EXECUTE_INTENTS_METHOD then Some fc else None)"
| "token_metadata_consumer receiver_id _ = None"

fun intents_error :: "NearIntentsError \<Rightarrow> VisualSignError" where
  "intents_error (NetworkMismatch mismatch) = ValidationError mismatch"
| "intents_error other = ConversionError (display_intents_error other)"

definition decode_intents :: "Defuse \<Rightarrow> string \<Rightarrow> Action \<Rightarrow> near_registry \<Rightarrow> NearNetwork \<Rightarrow> near_fields" where
  "decode_intents df receiver_id action registry network =
     (case token_metadata_consumer receiver_id action of
        None \<Rightarrow> Inr []
      | Some fc \<Rightarrow> map_err intents_error (try_decode_execute_intents df (fc_args fc) registry network))"

fun title_for :: "Action list \<Rightarrow> string" where
  "title_for [single] = (if is_partially_decoded single then partially_decoded_label single else action_label single)"
| "title_for _ = ''NEAR Transaction''"

definition render_on_chain ::
  "('s, 'e, 'v, 'g, 'k) NearLibs \<Rightarrow> NearVisualSignConverter \<Rightarrow> NearTx \<Rightarrow> VisualSignOptions
    \<Rightarrow> (VisualSignError, ConversionResult) result" where
  "render_on_chain libs conv tx options =
     (if ntx_actions tx = [] then Inl (ValidationError ''NEAR transaction has no actions'')
      else and_then (resolve_network options (near_network conv)) (\<lambda>network.
      case first_mismatch [(''signer'', ntx_signer_id tx), (''receiver'', ntx_receiver_id tx)] network of
        Some mismatch \<Rightarrow> Inl (ValidationError mismatch)
      | None \<Rightarrow>
          let tokens = (if list_ex (\<lambda>action. token_metadata_consumer (ntx_receiver_id tx) action \<noteq> None) (ntx_actions tx)
                then token_registry_for libs options network (near_trust_policy conv) else request_registry_empty);
              total_actions = length (ntx_actions tx)
          in and_then (seq_fields ([text_of ''Network'' (display_name network), address_of ''From'' (ntx_signer_id tx),
                 address_of ''To'' (ntx_receiver_id tx), Inr (request_diagnostics tokens)]
               @ map (\<lambda>action. seq_fields [render_action (nl_primitives libs) action total_actions,
                   decode_intents (nl_defuse libs) (ntx_receiver_id tx) action (request_registry tokens) network])
                 (ntx_actions tx))) (\<lambda>fields.
             Inr (conversion_new (payload_new NEAR_PAYLOAD_VERSION (title_for (ntx_actions tx)) None fields NEAR_PAYLOAD_TYPE)))))"

definition render_intent_envelope ::
  "('s, 'e, 'v, 'g, 'k) NearLibs \<Rightarrow> string \<Rightarrow> VisualSignOptions \<Rightarrow> NearNetwork \<Rightarrow> MetadataTrustPolicy
    \<Rightarrow> (VisualSignError, ConversionResult) result" where
  "render_intent_envelope libs json options network trust_policy =
     (let tokens = (if single_intent_consumes_token_registry (nl_defuse libs) json
            then token_registry_for libs options network trust_policy else request_registry_empty)
      in and_then (text_of ''Network'' (display_name network)) (\<lambda>header.
         and_then (map_err intents_error (try_render_single_intent (nl_defuse libs) json (request_registry tokens) network))
           (\<lambda>rendered.
         Inr (conversion_new (payload_new NEAR_PAYLOAD_VERSION (env_title rendered) None
           (header @ request_diagnostics tokens @ env_fields rendered) NEAR_PAYLOAD_TYPE)))))"

fun near_to_visual_sign_payload ::
  "('s, 'e, 'v, 'g, 'k) NearLibs \<Rightarrow> NearVisualSignConverter \<Rightarrow> NearTransaction \<Rightarrow> VisualSignOptions
    \<Rightarrow> (VisualSignError, ConversionResult) result" where
  "near_to_visual_sign_payload libs conv (OnChain tx) options = render_on_chain libs conv tx options"
| "near_to_visual_sign_payload libs conv (IntentEnvelope json) options =
     and_then (resolve_network options (near_network conv)) (\<lambda>network.
       render_intent_envelope libs json options network (near_trust_policy conv))"

definition near_vsp_converter ::
  "('s, 'e, 'v, 'g, 'k) NearLibs \<Rightarrow> NearVisualSignConverter \<Rightarrow> NearTransaction Converter" where
  "near_vsp_converter libs conv =
     \<lparr>from_string = near_from_string libs, to_visual_sign_payload = near_to_visual_sign_payload libs conv\<rparr>"

definition near_to_visual_sign_payload_from_string ::
  "bool \<Rightarrow> (completeness_error \<Rightarrow> string) \<Rightarrow> ('s, 'e, 'v, 'g, 'k) NearLibs \<Rightarrow> NearVisualSignConverter \<Rightarrow> string
    \<Rightarrow> VisualSignOptions \<Rightarrow> (VisualSignError, ConversionResult) result" where
  "near_to_visual_sign_payload_from_string po describe libs conv transaction_data options =
     and_then (map_err ParseError (near_from_string_with_options libs transaction_data (developer_config options)))
       (\<lambda>transaction. to_validated_visual_sign_payload po describe (near_vsp_converter libs conv) transaction options)"

definition near_converter_any ::
  "bool \<Rightarrow> (completeness_error \<Rightarrow> string) \<Rightarrow> ('s, 'e, 'v, 'g, 'k) NearLibs \<Rightarrow> NearVisualSignConverter \<Rightarrow> ConverterAny" where
  "near_converter_any po describe libs conv =
     wrap (near_from_string libs) (near_to_visual_sign_payload_from_string po describe libs conv)"

end
