(* ===== verification/NearPayload.thy ===== *)
theory NearPayload
  imports NearConvert
begin

text \<open>
  What the NEAR converter shows: facts on the rendered intents and the properties of the converter. The hypotheses
  \<open>near_documented\<close> and \<open>defuse_documented\<close> say that the libraries' account ids, shown keys, deadlines and
  hexadecimal text are plain ASCII, as their documentation has it.
\<close>

section \<open>Documented libraries\<close>

fun intent_accounts :: "Intent \<Rightarrow> string list" where
  "intent_accounts (TokenDiff td) = (case td_referral td of Some r \<Rightarrow> [r] | None \<Rightarrow> [])"
| "intent_accounts (Transfer t) = [tr_receiver_id t]"
| "intent_accounts (FtWithdraw w) = [wd_token w, wd_receiver_id w]"
| "intent_accounts (NftWithdraw w) = [wd_token w, wd_receiver_id w]"
| "intent_accounts (MtWithdraw w) = [wd_token w, wd_receiver_id w]"
| "intent_accounts (NativeWithdraw r _) = [r]"
| "intent_accounts (StorageDeposit c a _) = [c, a]"
| "intent_accounts (AuthCall c) = [auth_contract_id c]"
| "intent_accounts _ = []"

definition payload_accounts :: "DefusePayload \<Rightarrow> string list" where
  "payload_accounts p = [dp_signer_id p, dp_verifying_contract p] @ concat (map intent_accounts (dp_intents p))"

definition defuse_documented :: "Defuse \<Rightarrow> bool" where
  "defuse_documented df \<longleftrightarrow> (\<forall>k. plain (df_show_key df k) \<and> plain (df_implicit_account df k))
     \<and> (\<forall>t. plain (df_show_deadline df t)) \<and> (\<forall>bs. plain (df_hex_encode df bs))
     \<and> (\<forall>mp p. df_extract df mp = Inr p \<longrightarrow> list_all plain (payload_accounts p))
     \<and> (\<forall>j p. df_payload_json df j = Inr p \<longrightarrow> list_all plain (payload_accounts p))"

definition symbols_plain :: "near_registry \<Rightarrow> bool" where
  "symbols_plain registry \<longleftrightarrow>
     (\<forall>a m. lookup registry (\<lambda>r. map_of (by_asset_id r) a) = Some m \<longrightarrow> plain (tm_symbol m))"

section \<open>Safe fields\<close>

lemma plain_intent_literals:
  "plain ''Warning''" "plain ''near-intents''" "plain ''warn''" "plain '': ''" "plain ''(unresolved ''" "plain '')''"
  "plain ''Referral''" "plain ''To''" "plain ''NFT Token Id''" "plain ''MT Token''" "plain ''Storage Deposit''"
  "plain ''Add Public Key''" "plain ''Remove Public Key''" "plain ''Auth By Predecessor''" "plain ''enabled''" "plain ''disabled''"
  "plain ''For Account''" "plain ''Attached Deposit''" "plain ''Send''" "plain ''Receive''" "plain ''Intent''" "plain ''of ''"
  "plain ''Signature''" "plain ''Standard''" "plain ''Signer''" "plain ''Verifying Contract''" "plain ''Deadline''" "plain ''Nonce''"
  "plain ''0x''" "plain ''Signed Intent''" "plain ''valid for key ''" "plain ''(derives signer_id ''"
  "plain ''(key-to-account binding not verified)''" "plain ''Network''" "plain ''From''"
  "plain ''unverified-token-metadata''" "plain ''account-control''" "plain ''account-binding''" "plain ''signature''"
  "plain ''self-transfer''" "plain ''deadline''" "plain ''empty-intents''" "plain ''extraction''" "plain ''rejected-token-metadata''"
  "plain ''NEAR Transaction''" "plain ''NEAR Intent''" "plain ''NEAR Intent: ''" "plain ''NearTx''"
  "plain ''NEAR Mainnet''" "plain ''NEAR Testnet''"
  by (simp_all add: plain_def code_def)

lemmas near_plain = plain_literals plain_intent_literals

lemma fields_ok_diagnostic: "plain rule \<Longrightarrow> fields_ok (diagnostic df rule m)"
  by (auto simp: diagnostic_def create_diagnostic_field_def near_plain plain_safe simp del: append.simps
      intro!: plain_safe fields_ok_text)

lemma fields_ok_rejected: "safe_fields (rejected_metadata_diagnostics df rs)"
proof -
  have "safe_fields (case diagnostic df ''rejected-token-metadata'' m of Inl _ \<Rightarrow> [] | Inr fs \<Rightarrow> fs)" for m
    using fields_ok_diagnostic [of "''rejected-token-metadata''" df m] by (auto simp: near_plain fields_ok_def split: sum.splits)
  then show ?thesis by (simp add: rejected_metadata_diagnostics_def Let_def list_all_iff del: append.simps)
qed

lemma seed_symbols_plain: "s \<in> set SEEDS \<Longrightarrow> plain (fst (snd s))"
  by (auto simp: SEEDS_def plain_def code_def)

lemma resolve_symbol_plain: "symbols_plain registry \<Longrightarrow> resolve nep141 a registry = Some m \<Longrightarrow> plain (tm_symbol m)"
proof (induction nep141 a registry rule: resolve.induct)
  case (1 nep141 a registry)
  show ?case
  proof (cases "lookup registry (\<lambda>r. map_of (by_asset_id r) a)")
    case None
    with 1 show ?thesis
      by (cases "find (\<lambda>(i, _, _). i = a) SEEDS")
        (auto simp: resolve_eq [of _ a] seed_meta_def split: option.splits dest!: find_seed seed_symbols_plain)
  next
    case (Some meta)
    with 1(2,3) show ?thesis by (simp add: resolve_eq [of _ a] usable_Some symbols_plain_def)
  qed
qed

lemma fields_ok_token: "plain lbl \<Longrightarrow> symbols_plain registry \<Longrightarrow> fields_ok (token_amount_field df lbl a n registry)"
  by (auto simp: token_amount_field_def Let_def near_plain simp del: append.simps split: option.split
      intro!: fields_ok_intros fields_ok_amount fields_ok_diagnostic dest: resolve_symbol_plain)

lemma safe_present_value: "safe_text (present_value t)"
proof -
  have "safe_text EMPTY_VALUE" by (simp add: EMPTY_VALUE_def safe_text_def safe_char_def code_def)
  then show ?thesis by (simp add: present_value_def Let_def plain_safe)
qed

lemma fields_ok_optional: "plain lbl \<Longrightarrow> (\<And>s. t = Some s \<Longrightarrow> safe_text s) \<Longrightarrow> fields_ok (optional_text lbl t)"
  by (cases t) (auto simp: optional_text_def fields_ok_safe)

lemma nonempty_filtered_plain: "nonempty_filtered t = Some s \<Longrightarrow> plain s"
  by (auto simp: nonempty_filtered_def split: option.splits if_splits)

lemma fields_ok_near_amount: "plain lbl \<Longrightarrow> fields_ok (near_amount_field lbl y)"
  unfolding near_amount_field_def by (rule fields_ok_amount) (simp_all add: near_symbol_def plain_def code_def)

lemma fields_ok_withdraw: "fields_ok (withdraw_details w)"
  by (auto simp: withdraw_details_def push_withdraw_call_details_def near_plain safe_present_value split: option.split
      intro!: fields_ok_intros fields_ok_optional fields_ok_near_amount dest!: nonempty_filtered_plain intro: plain_safe)

lemma fields_ok_body:
  assumes df: "defuse_documented df" and reg: "symbols_plain registry" and acc: "list_all plain (intent_accounts i)"
  shows "fields_ok (render_intent_body df i registry)"
proof -
  note rules = fields_ok_seq fields_ok_safe fields_ok_optional fields_ok_near_amount fields_ok_token fields_ok_withdraw
  have key: "plain (df_show_key df k)" for k using df by (simp add: defuse_documented_def)
  have init: "fields_ok state_init_field" by (simp add: state_init_field_def near_plain fields_ok_text)
  show ?thesis
  proof (cases i)
    case (TokenDiff td)
    have "fields_ok (token_diff_entry df registry e)" for e
      by (auto simp: token_diff_entry_def near_plain reg intro!: rules)
    then show ?thesis
      using acc by (auto simp: TokenDiff render_token_diff_def near_plain list_all_iff plain_safe split: option.splits
          intro!: rules dest!: nonempty_filtered_plain)
  next
    case (Transfer t)
    then show ?thesis
      using acc by (auto simp: render_transfer_def near_plain list_all_iff safe_present_value plain_safe reg init
          split: option.split intro!: rules dest!: nonempty_filtered_plain)
  qed (use acc in \<open>auto simp: render_ft_withdraw_def render_nft_withdraw_def render_mt_withdraw_def
      render_native_withdraw_def near_plain list_all_iff plain_safe key reg init intro!: rules\<close>)
qed

lemma fields_ok_control: "fields_ok (account_control_warning df i)"
  by (auto simp: account_control_warning_def near_plain split: option.split intro!: fields_ok_diagnostic)

lemma fields_ok_self: "fields_ok (self_transfer_warning df p i)"
  by (cases i) (auto simp: near_plain intro!: fields_ok_diagnostic)

lemma plain_intent_label: "plain (intent_label i)"
  by (cases i) (simp_all add: plain_def code_def)

lemma fields_ok_intent:
  assumes "defuse_documented df" and "symbols_plain registry" and "list_all plain (payload_accounts p)" and "i \<in> set (dp_intents p)"
  shows "fields_ok (intent_fields df p registry (k, i))"
proof -
  have "list_all plain (intent_accounts i)" using assms(3,4) by (auto simp: payload_accounts_def list_all_iff)
  moreover have "plain (boundary_text i k n)" for n
    by (simp add: boundary_text_def near_plain plain_intent_label del: append.simps)
  ultimately show ?thesis
    using assms(1,2) by (auto simp: intent_fields_def intent_boundary_field_def render_intent_def near_plain
        intro!: fields_ok_intros fields_ok_body fields_ok_control fields_ok_self)
qed

lemma fields_ok_single:
  assumes "defuse_documented df" and "symbols_plain registry" and "list_all plain (payload_accounts p)"
  shows "fields_ok (render_single df p registry network)"
proof -
  have "fields_ok (render_envelope df p)"
    using assms(1,3) by (auto simp: render_envelope_def defuse_documented_def payload_accounts_def near_plain
        simp del: append.simps intro!: fields_ok_intros)
  moreover have "\<forall>e\<in>set (enumerate 0 (dp_intents p)). fields_ok (intent_fields df p registry e)"
    using assms by (auto simp: in_set_enumerate_eq intro!: fields_ok_intent)
  ultimately show ?thesis
    by (auto simp: render_single_def near_plain list_all_iff split: option.split intro!: fields_ok_seq fields_ok_diagnostic)
qed

lemma fields_ok_signature:
  assumes "plain std" and "\<And>k a. check = Valid k a \<Longrightarrow> plain k" and "\<And>i. signer = Some i \<Longrightarrow> plain i"
  shows "fields_ok (render_signature df std check signer)"
  using assms
  by (cases check) (auto simp: render_signature_def signature_text_def near_plain simp del: append.simps
      split: option.split intro!: fields_ok_intros fields_ok_diagnostic)

lemma plain_standard: "plain (standard_name mp)"
  by (cases mp) (simp_all add: plain_def code_def)

lemma fields_ok_section:
  assumes "defuse_documented df" and "symbols_plain registry"
  shows "fields_ok (section_fields df k n mp registry network)"
proof -
  obtain check extracted where v: "verify_and_extract df mp = (check, extracted)" by force
  have key: "plain key" if "check = Valid key a" for key a
    using v that assms(1) by (auto simp: verify_and_extract_def defuse_documented_def Let_def split: option.splits)
  have payload: "list_all plain (payload_accounts p)" if "extracted = Inr p" for p
    using v that assms(1) by (auto simp: verify_and_extract_def defuse_documented_def Let_def)
  have "plain (dp_signer_id p)" if "extracted = Inr p" for p
    using payload [OF that] by (simp add: payload_accounts_def)
  then show ?thesis
    using key payload assms
    by (auto simp: section_fields_def v Let_def near_plain plain_standard simp del: append.simps split: sum.split
        intro!: fields_ok_intros fields_ok_signature fields_ok_single fields_ok_diagnostic)
qed

lemma enumerated_sections_safe:
  assumes "defuse_documented df" and "symbols_plain registry"
    and "try_decode_execute_intents df args registry network = Inr fs"
  shows "safe_fields fs"
proof -
  obtain ps where "seq_fields (map (\<lambda>(i, mp). section_fields df (i + 1) (length ps) mp registry network) (enumerate 0 ps)) = Inr fs"
    using assms(3) by (auto simp: try_decode_execute_intents_def and_then_Inr_iff map_err_Inr_iff)
  moreover have "fields_ok (seq_fields (map (\<lambda>(i, mp). section_fields df (i + 1) (length ps) mp registry network) (enumerate 0 ps)))"
    using assms(1,2) by (intro fields_ok_seq) (auto simp: list_all_iff intro: fields_ok_section)
  ultimately show ?thesis by simp
qed

section \<open>The registry of a request\<close>

text \<open>Every entry of the request's registry passed all the checks.\<close>

lemma extracted_examined:
  assumes "extraction_registry (try_extract_token_metadata x nep141 md network allow policy) = Some r"
    and "map_of (by_asset_id r) a = Some m"
  shows "\<exists>near e. Option.bind md chain_metadata_metadata = Some (NearMeta near) \<and> (a, e) \<in> set (near_token_mappings near)
    \<and> examine_entry x nep141 network allow policy a e = Inr m"
proof -
  let ?examine = "examine_entry x nep141 network allow policy"
  obtain near where near: "Option.bind md chain_metadata_metadata = Some (NearMeta near)"
      and r: "by_asset_id r = fold (\<lambda>(k, v). bt_insert k v) (accepted_tokens ?examine (near_token_mappings near)) []"
    using assms(1)
    by (auto simp: try_extract_token_metadata_def extract_fold Let_def split: option.splits ChainMetadataKind.splits if_splits)
  with set_bt_fold_subset [of "accepted_tokens ?examine (near_token_mappings near)" "[]"] map_of_SomeD [OF assms(2)]
  have "(a, m) \<in> set (accepted_tokens ?examine (near_token_mappings near))" by auto
  with near show ?thesis by (auto simp: accepted_tokens_iff)
qed

lemma default_registry_empty [simp]: "map_of (by_asset_id token_registry_default) a = None"
  by (simp add: token_registry_default_def)

text \<open>What the request's layer answers.\<close>

lemma request_lookup:
  assumes "lookup (request_registry (token_registry_for libs options network policy)) (\<lambda>r. map_of (by_asset_id r) a) = Some m"
  shows "\<exists>near e. Option.bind (metadata options) chain_metadata_metadata = Some (NearMeta near)
    \<and> (a, e) \<in> set (near_token_mappings near)
    \<and> examine_entry (nl_crypto libs) (df_nep141 (nl_defuse libs)) network (token_allowlist libs policy) policy a e = Inr m"
proof -
  obtain r where "extraction_registry (try_extract_token_metadata (nl_crypto libs) (df_nep141 (nl_defuse libs))
      (metadata options) network (token_allowlist libs policy) policy) = Some r" "map_of (by_asset_id r) a = Some m"
    using assms by (auto simp: token_registry_for_def Let_def lookup_def with_request_def layered_new_def split: option.splits)
  then show ?thesis by (rule extracted_examined)
qed

lemma request_symbols_plain: "symbols_plain (request_registry (token_registry_for libs options network policy))"
proof -
  have "plain s" if "symbol_printable s" for s
  proof -
    have "code c = 10 \<or> 32 \<le> code c \<and> code c \<le> 126 \<and> c \<noteq> CHR 0x5C"
      if "c = CHR '' '' \<or> is_ascii_graphic c \<and> c \<noteq> CHR 0x5C" for c
      using that by (elim disjE) (simp_all add: code_def, simp_all add: is_ascii_graphic_def code_def)
    with that show ?thesis unfolding symbol_printable_def plain_def list_all_iff by blast
  qed
  then have checked: "plain (value_symbol v)" if "checked_value (nl_crypto libs) e = Inr v" for e v
    using that by (auto simp: checked_value_def and_then_Inr_iff split: if_splits)
  show ?thesis
    unfolding symbols_plain_def
  proof (intro allI impI)
    fix a m
    assume "lookup (request_registry (token_registry_for libs options network policy)) (\<lambda>r. map_of (by_asset_id r) a) = Some m"
    from request_lookup [OF this] obtain e where "examine_entry (nl_crypto libs) (df_nep141 (nl_defuse libs)) network
        (token_allowlist libs policy) policy a e = Inr m" by blast
    from examine_entry_Inr [OF this] checked show "plain (tm_symbol m)" by auto
  qed
qed

lemma empty_registry_lookup [simp]:
  "lookup (request_registry request_registry_empty) (\<lambda>r. map_of (by_asset_id r) a) = None"
  by (simp add: request_registry_empty_def lookup_def layered_new_def)

section \<open>Payloads\<close>

lemma plain_action_label: "plain (action_label a)"
  by (cases a) (simp_all add: plain_def code_def)

lemma plain_title: "plain (title_for acts)"
  by (cases acts rule: title_for.cases) (simp_all add: plain_action_label partially_decoded_label_def near_plain)

lemma plain_title_intents: "plain (title_for_intents xs)"
  by (cases xs rule: title_for_intents.cases) (simp_all add: plain_intent_label near_plain del: append.simps)

lemma plain_display_name: "plain (display_name n)"
  by (cases n) (simp_all add: near_plain)

definition near_accounts :: "NearTransaction \<Rightarrow> string list" where
  "near_accounts t = (case t of
     OnChain tx \<Rightarrow> [ntx_signer_id tx, ntx_receiver_id tx] @ concat (map action_accounts (ntx_actions tx))
   | IntentEnvelope _ \<Rightarrow> [])"

lemma request_registry_plain: "symbols_plain (request_registry request_registry_empty)"
  by (simp add: symbols_plain_def)

lemma diagnostics_safe:
  "safe_fields (request_diagnostics (token_registry_for libs options network policy))"
  "safe_fields (request_diagnostics request_registry_empty)"
  by (simp_all add: token_registry_for_def Let_def fields_ok_rejected request_registry_empty_def)

lemma near_payload_charset:
  "safe_fields fs \<Longrightarrow> plain title \<Longrightarrow>
     validate_charset po describe (payload_new NEAR_PAYLOAD_VERSION title None fs NEAR_PAYLOAD_TYPE) = Inr ()"
  by (auto simp: validate_charset_safe payload_strings_def payload_new_def safe_fields_def list_all_iff plain_safe
      unwrap_or_def NEAR_PAYLOAD_VERSION_def NEAR_PAYLOAD_TYPE_def int_str_def near_plain)

text \<open>The token registry each of the two paths uses, and what a successful conversion is.\<close>

definition envelope_tokens ::
  "('s, 'e, 'v, 'g, 'k) NearLibs \<Rightarrow> string \<Rightarrow> VisualSignOptions \<Rightarrow> NearNetwork \<Rightarrow> MetadataTrustPolicy \<Rightarrow> RequestTokenRegistry" where
  "envelope_tokens libs json options network policy =
     (if single_intent_consumes_token_registry (nl_defuse libs) json
      then token_registry_for libs options network policy else request_registry_empty)"

definition on_chain_tokens ::
  "('s, 'e, 'v, 'g, 'k) NearLibs \<Rightarrow> NearTx \<Rightarrow> VisualSignOptions \<Rightarrow> NearNetwork \<Rightarrow> MetadataTrustPolicy \<Rightarrow> RequestTokenRegistry" where
  "on_chain_tokens libs tx options network policy =
     (if list_ex (\<lambda>action. token_metadata_consumer (ntx_receiver_id tx) action \<noteq> None) (ntx_actions tx)
      then token_registry_for libs options network policy else request_registry_empty)"

definition on_chain_fields ::
  "('s, 'e, 'v, 'g, 'k) NearLibs \<Rightarrow> NearTx \<Rightarrow> RequestTokenRegistry \<Rightarrow> NearNetwork \<Rightarrow> near_fields" where
  "on_chain_fields libs tx tokens network =
     seq_fields ([text_of ''Network'' (display_name network), address_of ''From'' (ntx_signer_id tx),
         address_of ''To'' (ntx_receiver_id tx), Inr (request_diagnostics tokens)]
       @ map (\<lambda>action. seq_fields [render_action (nl_primitives libs) action (length (ntx_actions tx)),
           decode_intents (nl_defuse libs) (ntx_receiver_id tx) action (request_registry tokens) network]) (ntx_actions tx))"

lemma tokens_plain:
  "symbols_plain (request_registry (envelope_tokens libs json options network policy))"
  "safe_fields (request_diagnostics (envelope_tokens libs json options network policy))"
  "symbols_plain (request_registry (on_chain_tokens libs tx options network policy))"
  "safe_fields (request_diagnostics (on_chain_tokens libs tx options network policy))"
  by (simp_all add: envelope_tokens_def on_chain_tokens_def request_registry_plain request_symbols_plain diagnostics_safe)

lemma render_on_chain_Inr:
  "render_on_chain libs conv tx options = Inr res \<longleftrightarrow>
     ntx_actions tx \<noteq> [] \<and> (\<exists>network fields. resolve_network options (near_network conv) = Inr network
       \<and> first_mismatch [(''signer'', ntx_signer_id tx), (''receiver'', ntx_receiver_id tx)] network = None
       \<and> on_chain_fields libs tx (on_chain_tokens libs tx options network (near_trust_policy conv)) network = Inr fields
       \<and> res = conversion_new (payload_new NEAR_PAYLOAD_VERSION (title_for (ntx_actions tx)) None fields NEAR_PAYLOAD_TYPE))"
  unfolding render_on_chain_def Let_def on_chain_tokens_def [symmetric] on_chain_fields_def [symmetric]
  by (auto simp: and_then_Inr_iff split: option.splits)

lemma render_intent_envelope_Inr:
  "render_intent_envelope libs json options network policy = Inr res \<longleftrightarrow>
     (\<exists>p fields. df_payload_json (nl_defuse libs) json = Inr p
       \<and> render_single (nl_defuse libs) p (request_registry (envelope_tokens libs json options network policy)) network = Inr fields
       \<and> res = conversion_new (payload_new NEAR_PAYLOAD_VERSION (title_for_intents (dp_intents p)) None
           (text_entry ''Network'' (display_name network) #
            request_diagnostics (envelope_tokens libs json options network policy) @ fields) NEAR_PAYLOAD_TYPE))"
  unfolding render_intent_envelope_def Let_def try_render_single_intent_def envelope_tokens_def [symmetric]
  by (auto simp: and_then_Inr_iff map_err_Inr_iff text_of_eq)

lemma decode_intents_safe:
  assumes "defuse_documented df" and "symbols_plain registry"
  shows "fields_ok (decode_intents df receiver a registry network)"
  using enumerated_sections_safe [OF assms]
  by (auto simp: decode_intents_def fields_ok_def map_err_Inr_iff split: option.splits sum.splits)

lemma fields_ok_on_chain:
  assumes np: "near_documented (nl_primitives libs)" and df: "defuse_documented (nl_defuse libs)"
    and acc: "list_all plain (near_accounts (OnChain tx))"
  shows "fields_ok (on_chain_fields libs tx (on_chain_tokens libs tx options network policy) network)"
proof -
  have "list_all plain (action_accounts a)" if "a \<in> set (ntx_actions tx)" for a
    using acc that by (auto simp: near_accounts_def list_all_iff)
  then show ?thesis
    unfolding on_chain_fields_def
    using acc tokens_plain by (auto simp: near_accounts_def near_plain plain_display_name list_all_iff
        intro!: fields_ok_intros render_action_safe [OF np] decode_intents_safe [OF df])
qed

lemma render_on_chain_safe:
  assumes "near_documented (nl_primitives libs)" and "defuse_documented (nl_defuse libs)"
    and "list_all plain (near_accounts (OnChain tx))" and "render_on_chain libs conv tx options = Inr res"
  shows "validate_charset po describe (result_payload res) = Inr ()"
  using assms(4) fields_okD [OF fields_ok_on_chain [OF assms(1-3)]]
  by (auto simp: render_on_chain_Inr conversion_new_def plain_title intro!: near_payload_charset)

lemma render_envelope_safe:
  assumes "defuse_documented (nl_defuse libs)" and "render_intent_envelope libs json options network policy = Inr res"
  shows "validate_charset po describe (result_payload res) = Inr ()"
proof -
  obtain p fields where p: "df_payload_json (nl_defuse libs) json = Inr p"
      and fields: "render_single (nl_defuse libs) p (request_registry (envelope_tokens libs json options network policy)) network
        = Inr fields"
      and res: "res = conversion_new (payload_new NEAR_PAYLOAD_VERSION (title_for_intents (dp_intents p)) None
        (text_entry ''Network'' (display_name network) #
         request_diagnostics (envelope_tokens libs json options network policy) @ fields) NEAR_PAYLOAD_TYPE)"
    using assms(2) by (auto simp: render_intent_envelope_Inr)
  have "list_all plain (payload_accounts p)" using assms(1) p by (simp add: defuse_documented_def)
  with fields have "safe_fields fields" by (blast intro: fields_okD fields_ok_single [OF assms(1) tokens_plain(1)])
  then show ?thesis
    by (simp add: res conversion_new_def text_entry_def plain_safe plain_display_name near_plain plain_title_intents
        tokens_plain near_payload_charset)
qed

section \<open>Input\<close>

lemma near_from_string_exact:
  assumes "near_from_string libs s = Inr t"
  shows "case t of
      OnChain tx \<Rightarrow> \<exists>bs. near_decode_input libs (trim s) = Inr bs \<and> nl_transaction libs bs = Inr tx
    | IntentEnvelope json \<Rightarrow> json = trim s \<and> is_ok (df_payload_json (nl_defuse libs) json)"
  using assms
  by (auto simp: near_from_string_def near_from_string_with_options_def near_borsh_def Let_def and_then_Inr_iff map_err_Inr_iff
      is_ok_def split: option.splits sum.splits)

lemma near_results_have_no_output:
  "near_to_visual_sign_payload libs conv t options = Inr r \<Longrightarrow> result_intermediate_output r = None"
  by (cases t) (auto simp: render_on_chain_Inr render_intent_envelope_Inr and_then_Inr_iff conversion_new_def)

lemma near_from_string_conversion:
  "near_to_visual_sign_payload_from_string po describe libs conv data options = Inr r \<longleftrightarrow>
     (\<exists>t. near_from_string_with_options libs data (developer_config options) = Inr t
       \<and> near_to_visual_sign_payload libs conv t options = Inr r
       \<and> validate_charset po describe (result_payload r) = Inr ())"
  by (auto simp: near_to_visual_sign_payload_from_string_def to_validated_visual_sign_payload_def near_vsp_converter_def
      and_then_Inr_iff map_err_Inr_iff)

section \<open>Networks\<close>

lemma map_filter_Nil_iff: "List.map_filter f xs = [] \<longleftrightarrow> list_all (\<lambda>x. f x = None) xs"
  by (induction xs) (auto simp: map_filter_simps split: option.split)

lemma first_mismatch_None:
  "first_mismatch accounts network = None \<longleftrightarrow> list_all (\<lambda>(_, a). \<not> contradicts a network) accounts"
proof -
  have "first_mismatch accounts network = None \<longleftrightarrow>
      List.map_filter (\<lambda>(role, a). network_mismatch role a network) accounts = []"
    by (simp add: first_mismatch_def split: list.split)
  moreover have "network_mismatch role a network = None \<longleftrightarrow> \<not> contradicts a network" for role a
    by (simp add: network_mismatch_def)
  ultimately show ?thesis by (simp add: map_filter_Nil_iff case_prod_unfold)
qed

lemma ends_with_last: "ends_with p s \<Longrightarrow> p \<noteq> [] \<Longrightarrow> last s = last p"
  unfolding ends_with_def by (metis drop_eq_Nil last_drop linorder_not_le)

lemma contradicts_iff:
  "ends_with ''.near'' a \<Longrightarrow> contradicts a n \<longleftrightarrow> n = Testnet"
  "ends_with ''.testnet'' a \<Longrightarrow> contradicts a n \<longleftrightarrow> n = Mainnet"
  using ends_with_last [of "''.near''" a] ends_with_last [of "''.testnet''" a] by (cases n; auto)+

section \<open>Provenance\<close>

text \<open>What resolves, and where from: the request's entry for the asset or one it wraps, or the row of the table.\<close>

lemma resolve_source:
  assumes "resolve nep141 a registry = Some m"
  shows "\<exists>b. wraps nep141 a b \<and> (lookup registry (\<lambda>r. map_of (by_asset_id r) b) = Some m
    \<or> (b, tm_symbol m, tm_decimals m) \<in> set SEEDS \<and> tm_provenance m = Seed)"
  using assms
proof (induction nep141 a registry rule: resolve.induct)
  case (1 nep141 a registry)
  show ?case
  proof (cases "lookup registry (\<lambda>r. map_of (by_asset_id r) a)")
    case None
    show ?thesis
    proof (cases "find (\<lambda>(i, _, _). i = a) SEEDS")
      case (Some s)
      with None "1.prems" have "m = seed_meta s" by (simp add: resolve_eq)
      with find_seed [OF Some] show ?thesis by (intro exI [of _ a]) (auto simp: seed_meta_def wraps_self)
    next
      case no: None
      with None "1.prems" obtain inner where i: "mt_underlying_nep141 nep141 a = Some inner" "resolve nep141 inner registry = Some m"
        by (subst (asm) resolve_eq) (auto split: option.splits)
      with "1.IH" [OF None _ i(1) i(2)] no wraps_step [OF i(1)] show ?thesis by auto
    qed
  next
    case (Some meta)
    with "1.prems" show ?thesis by (intro exI [of _ a]) (auto simp: resolve_eq usable_Some wraps_self)
  qed
qed

lemma curated_step:
  "curated_asset nep141 a \<Longrightarrow> find (\<lambda>(i, _, _). i = a) SEEDS = None \<Longrightarrow>
     \<exists>b. mt_underlying_nep141 nep141 a = Some b \<and> curated_asset nep141 b"
  unfolding curated_asset_def wraps_cases [of nep141 a] find_seed_None by force

lemma curated_provenance:
  assumes "resolve nep141 a registry = Some m" and "curated_asset nep141 a"
  shows "tm_provenance m = Seed \<or> (\<exists>b. curated_asset nep141 b \<and> lookup registry (\<lambda>r. map_of (by_asset_id r) b) = Some m)"
  using assms
proof (induction nep141 a registry rule: resolve.induct)
  case (1 nep141 a registry)
  show ?case
  proof (cases "lookup registry (\<lambda>r. map_of (by_asset_id r) a)")
    case None
    show ?thesis
    proof (cases "find (\<lambda>(i, _, _). i = a) SEEDS")
      case (Some s)
      with None "1.prems" show ?thesis by (auto simp: resolve_eq seed_meta_def)
    next
      case no: None
      obtain b where b: "mt_underlying_nep141 nep141 a = Some b" "curated_asset nep141 b"
        using curated_step [OF "1.prems"(2) no] by blast
      with None no "1.prems"(1) have "resolve nep141 b registry = Some m" by (simp add: resolve_eq [of _ a])
      with "1.IH" [OF None _ b(1)] no b(2) show ?thesis by simp
    qed
  next
    case (Some meta)
    with "1.prems" show ?thesis by (auto simp: resolve_eq usable_Some)
  qed
qed

lemma curated_resolves:
  assumes "curated_asset nep141 a"
    and "\<And>b m. lookup registry (\<lambda>r. map_of (by_asset_id r) b) = Some m \<Longrightarrow> usable m = Some m"
  shows "\<exists>m. resolve nep141 a registry = Some m"
  using assms
proof (induction nep141 a rule: seeded_decimals.induct)
  case (1 nep141 a)
  show ?case
  proof (cases "lookup registry (\<lambda>r. map_of (by_asset_id r) a)")
    case None
    show ?thesis
    proof (cases "find (\<lambda>(i, _, _). i = a) SEEDS")
      case no: None
      obtain b where "mt_underlying_nep141 nep141 a = Some b" "curated_asset nep141 b"
        using curated_step [OF "1.prems"(1) no] by blast
      with "1.IH" no "1.prems"(2) None show ?thesis by (simp add: resolve_eq [of _ a])
    qed (use None in \<open>simp add: resolve_eq\<close>)
  next
    case (Some meta)
    with "1.prems"(2) [OF Some] show ?thesis by (simp add: resolve_eq)
  qed
qed

text \<open>An asset of the table, none of whose wrapped forms the registry has, resolves as with no request metadata at all.\<close>

lemma curated_untouched:
  assumes "curated_asset nep141 a"
    and "\<And>b. wraps nep141 a b \<Longrightarrow> curated_asset nep141 b \<Longrightarrow> lookup registry (\<lambda>r. map_of (by_asset_id r) b) = None"
  shows "resolve nep141 a registry = resolve nep141 a (request_registry request_registry_empty)"
  using assms
proof (induction nep141 a rule: seeded_decimals.induct)
  case (1 nep141 a)
  have none: "lookup registry (\<lambda>r. map_of (by_asset_id r) a) = None" using "1.prems" wraps_self by blast
  show ?case
  proof (cases "find (\<lambda>(i, _, _). i = a) SEEDS")
    case no: None
    obtain b where b: "mt_underlying_nep141 nep141 a = Some b" "curated_asset nep141 b"
      using curated_step [OF "1.prems"(1) no] by blast
    from "1.IH" [OF no b(1) b(2)] "1.prems"(2) wraps_step [OF b(1)]
    have "resolve nep141 b registry = resolve nep141 b (request_registry request_registry_empty)" by blast
    with no b(1) none show ?thesis by (simp add: resolve_eq [of _ a])
  qed (use none in \<open>simp add: resolve_eq\<close>)
qed

lemma admitted_meta:
  assumes "token_admitted x nep141 network allow policy b e m"
  shows "usable m = Some m" and "tm_provenance m \<noteq> Seed" and "curated_asset nep141 b \<Longrightarrow> tm_provenance m = RecognizedSigner"
    and "token_signature e = None \<Longrightarrow> tm_provenance m = Unsigned"
proof -
  show "usable m = Some m" using assms unfolding token_admitted_def usable_Some by blast
  have "case token_signature e of None \<Rightarrow> tm_provenance m = Unsigned \<and> \<not> curated_asset nep141 b
    | Some sig \<Rightarrow> tm_provenance m = RecognizedSigner \<or> tm_provenance m = UnrecognizedSigner \<and> \<not> curated_asset nep141 b"
    using assms unfolding token_admitted_def by (cases "token_signature e") (auto simp only: option.case split: if_splits)
  then show "tm_provenance m \<noteq> Seed" "curated_asset nep141 b \<Longrightarrow> tm_provenance m = RecognizedSigner"
    "token_signature e = None \<Longrightarrow> tm_provenance m = Unsigned"
    by (cases "token_signature e"; auto)+
qed

section \<open>Announced intents\<close>

text \<open>No field of a result announces an intent.\<close>

definition unannounced :: "near_fields \<Rightarrow> bool" where
  "unannounced r = list_all (\<lambda>f. field_label f \<noteq> ''Intent'') (ok_fields r)"

lemma unannounced_simps [simp]:
  "unannounced (Inl e)" "unannounced (Inr []) " "unannounced (text_of lbl t) \<longleftrightarrow> lbl \<noteq> ''Intent''"
  by (simp_all add: unannounced_def text_of_eq text_entry_def field_label_def)

lemma unannounced_seq:
  assumes "list_all unannounced rs"
  shows "unannounced (seq_fields rs)"
proof (cases "seq_fields rs")
  case (Inr fs)
  from assms show ?thesis
    unfolding unannounced_def Inr ok_fields_simps seq_fields_Inr [THEN iffD1, OF Inr, THEN conjunct2]
    by (auto simp: list_all_iff)
qed simp

lemma unannounced_amount [simp]: "lbl \<noteq> ''Intent'' \<Longrightarrow> unannounced (one_field (create_amount_field lbl a u))"
  by (auto simp: unannounced_def one_field_def create_amount_field_def validate_number_string_eq Let_def field_label_def)

lemma unannounced_diagnostic [simp]: "rule \<noteq> ''Intent'' \<Longrightarrow> unannounced (diagnostic df rule m)"
  by (simp add: diagnostic_def unannounced_def create_diagnostic_field_def text_of_eq text_entry_def field_label_def)

lemma unannounced_token [simp]: "lbl \<noteq> ''Intent'' \<Longrightarrow> unannounced (token_amount_field df lbl a n registry)"
  by (auto simp: token_amount_field_def Let_def split: option.split intro!: unannounced_seq)

lemma unannounced_small [simp]:
  "lbl \<noteq> ''Intent'' \<Longrightarrow> unannounced (optional_text lbl t)" "lbl \<noteq> ''Intent'' \<Longrightarrow> unannounced (near_amount_field lbl y)"
  "unannounced state_init_field" "unannounced (withdraw_details w)" "unannounced (render_envelope df p)"
  by (auto simp: optional_text_def near_amount_field_def state_init_field_def withdraw_details_def
      push_withdraw_call_details_def render_envelope_def split: option.split intro!: unannounced_seq)

lemma unannounced_intent: "unannounced (render_intent df i registry)" "unannounced (self_transfer_warning df p i)"
proof -
  have "unannounced (render_intent_body df i registry)"
    by (cases i) (auto simp: render_token_diff_def token_diff_entry_def render_transfer_def render_ft_withdraw_def
        render_nft_withdraw_def render_mt_withdraw_def render_native_withdraw_def list_all_iff split: option.split
        intro!: unannounced_seq)
  then show "unannounced (render_intent df i registry)"
    by (auto simp: render_intent_def account_control_warning_def split: option.split intro!: unannounced_seq)
  show "unannounced (self_transfer_warning df p i)" by (cases i) auto
qed

lemma announced_intent:
  "intent_fields df p registry (k, i) = Inr fs \<Longrightarrow>
     filter (\<lambda>f. field_label f = ''Intent'') fs = [text_entry ''Intent'' (boundary_text i k (length (dp_intents p)))]"
  using unannounced_intent(1) [of df i registry] unannounced_intent(2) [of df p i]
  by (auto simp: intent_fields_def seq_fields_Inr intent_boundary_field_def text_of_eq unannounced_def filter_empty_conv
      list_all_iff text_entry_def field_label_def)

lemma announced_single:
  assumes "render_single df p registry network = Inr fs"
  shows "filter (\<lambda>f. field_label f = ''Intent'') fs
    = map (\<lambda>(k, i). text_entry ''Intent'' (boundary_text i k (length (dp_intents p)))) (enumerate 0 (dp_intents p))"
proof -
  let ?announce = "filter (\<lambda>f. field_label f = ''Intent'')"
  let ?head = "[render_envelope df p,
    if df_has_expired df (dp_deadline p)
    then diagnostic df ''deadline'' ''deadline has passed; the intents would be rejected'' else Inr [],
    if dp_intents p = []
    then diagnostic df ''empty-intents'' ''this envelope carries no intents; signing it moves nothing but spends the nonce''
    else Inr []]"
  let ?all = "?head @ map (intent_fields df p registry) (enumerate 0 (dp_intents p))"
  have fs: "list_all is_ok ?all" "fs = concat (map ok_fields ?all)"
    using assms by (auto simp: render_single_def seq_fields_Inr split: option.splits)
  have "?announce (ok_fields r) = []" if "r \<in> set ?head" for r
  proof -
    have "unannounced r" using that by auto
    then show ?thesis by (simp add: unannounced_def filter_empty_conv list_all_iff)
  qed
  then have "?announce (concat (map ok_fields ?head)) = []" by simp
  moreover have "?announce (ok_fields (intent_fields df p registry e)) =
      [case e of (k, i) \<Rightarrow> text_entry ''Intent'' (boundary_text i k (length (dp_intents p)))]"
    if "e \<in> set (enumerate 0 (dp_intents p))" for e
  proof -
    have "is_ok (intent_fields df p registry e)" using fs(1) that by (simp add: list_all_iff)
    then obtain gs where "intent_fields df p registry e = Inr gs"
      by (cases "intent_fields df p registry e") (simp_all add: is_ok_def)
    with announced_intent show ?thesis by (cases e) fastforce
  qed
  then have "?announce (concat (map ok_fields (map (intent_fields df p registry) es)))
      = map (\<lambda>(k, i). text_entry ''Intent'' (boundary_text i k (length (dp_intents p)))) es"
    if "set es \<subseteq> set (enumerate 0 (dp_intents p))" for es
    using that by (induction es) auto
  ultimately show ?thesis unfolding fs(2) map_append concat_append filter_append by simp
qed

lemma announced_diagnostics:
  "filter (\<lambda>f. field_label f = ''Intent'') (request_diagnostics (envelope_tokens libs json options network policy)) = []"
proof -
  have "filter (\<lambda>f. field_label f = ''Intent'') (case diagnostic df ''rejected-token-metadata'' m of Inl _ \<Rightarrow> [] | Inr fs \<Rightarrow> fs) = []"
    for df m
    using unannounced_diagnostic [of "''rejected-token-metadata''" df m]
    by (auto simp: unannounced_def ok_fields_def filter_empty_conv list_all_iff split: sum.splits)
  then show ?thesis
    by (simp add: envelope_tokens_def request_registry_empty_def token_registry_for_def Let_def
        rejected_metadata_diagnostics_def filter_concat comp_def del: append.simps)
qed

section \<open>Unread metadata\<close>

lemma unread_intent:
  "\<not> intent_consumes_token_registry i \<Longrightarrow> render_intent df i r = render_intent df i r'"
  by (cases i) (simp_all add: render_intent_def)

lemma unread_single:
  assumes "list_all (\<lambda>i. \<not> intent_consumes_token_registry i) (dp_intents p)"
  shows "render_single df p r network = render_single df p r' network"
proof -
  have "intent_fields df p r e = intent_fields df p r' e" if "e \<in> set (enumerate 0 (dp_intents p))" for e
  proof -
    have "snd e \<in> set (dp_intents p)" using that nth_mem [of "fst e" "dp_intents p"] by (simp add: in_set_enumerate_eq)
    with assms have "render_intent df (snd e) r = render_intent df (snd e) r'"
      by (intro unread_intent) (simp add: list_all_iff)
    then show ?thesis by (simp only: intent_fields_def)
  qed
  then have "map (intent_fields df p r) (enumerate 0 (dp_intents p)) = map (intent_fields df p r') (enumerate 0 (dp_intents p))"
    by simp
  then show ?thesis by (simp only: render_single_def)
qed

lemma unread_render:
  assumes "\<not> single_intent_consumes_token_registry df json"
  shows "try_render_single_intent df json r network = try_render_single_intent df json r' network"
proof (cases "df_payload_json df json")
  case (Inr p)
  with assms have "list_all (\<lambda>i. \<not> intent_consumes_token_registry i) (dp_intents p)"
    by (simp add: single_intent_consumes_token_registry_def list_ex_iff list_all_iff)
  then have "render_single df p r network = render_single df p r' network" by (rule unread_single)
  then show ?thesis by (simp add: try_render_single_intent_def Inr)
qed (simp add: try_render_single_intent_def)

section \<open>Exact amounts\<close>

lemma unsigned_abs_exact: "unat (unsigned_abs d) = nat \<bar>sint d\<bar>"
  unfolding unsigned_abs_def by (rule unat_unsigned_abs)

lemma token_amount_exact:
  assumes "resolve (df_nep141 df) a registry = Some m" and "tm_symbol m \<noteq> []"
  shows "\<exists>s rest. shows_decimal (unat (tm_decimals m)) (unat n) s
    \<and> (token_amount_field df lbl a n registry = Inr (amount_entry lbl s (tm_symbol m) # rest))"
proof -
  let ?d = "unat (tm_decimals m)"
  have fits: "(10 :: nat) ^ ?d < 2 ^ 128" using scale_fits [OF resolve_decimals [OF assms(1)]] .
  obtain s where s: "format_units n (tm_decimals m) = Some s" "shows_decimal ?d (unat n) s" "signed_decimal s"
    using format_fixed_exact [OF fits, of n] format_fixed_shape [OF fits, of n] unfolding format_units_fixed by auto
  have "\<exists>gs. diagnostic df rule t = Inr gs" for rule t by (simp add: diagnostic_def text_of_eq)
  then have "\<exists>gs. (case unverified_cause (tm_provenance m) of None \<Rightarrow> Inr []
      | Some cause \<Rightarrow> diagnostic df ''unverified-token-metadata'' (''symbol/decimals for '' @ charset_safe a @ '': '' @ cause)) = Inr gs"
    by (auto split: option.split)
  moreover have "[x] @ gs = x # gs" for x and gs :: "SignablePayloadField list" by simp
  ultimately obtain gs where "token_amount_field df lbl a n registry = Inr (amount_entry lbl s (tm_symbol m) # gs)"
    using assms s(1,3) by (auto simp: token_amount_field_def Let_def seq_fields.simps one_field_def create_amount_field_def
        validate_number_string_eq amount_entry_def simp del: append.simps)
  with s(2) show ?thesis by blast
qed

lemma token_amount_symbol:
  "resolve (df_nep141 df) a registry = Some m \<Longrightarrow> is_ok (token_amount_field df lbl a n registry) \<Longrightarrow> tm_symbol m \<noteq> []"
  by (auto simp: token_amount_field_def Let_def seq_fields.simps one_field_def create_amount_field_def
      validate_number_string_eq is_ok_def split: if_splits)

section \<open>Samples\<close>

definition sample_envelope :: DefusePayload where
  "sample_envelope = \<lparr>dp_signer_id = ''alice.near'', dp_verifying_contract = ''intents.near'', dp_deadline = 0, dp_nonce = [],
     dp_intents = [SetAuthByPredecessorId True, AddPublicKey []]\<rparr>"

definition sample_defuse :: Defuse where
  "sample_defuse = \<lparr>df_diagnostics = False, df_nep141 = (\<lambda>_. True), df_show_key = (\<lambda>_. ''ed25519:1''),
     df_implicit_account = (\<lambda>_. ''a.near''), df_verify = (\<lambda>_. None), df_extract = (\<lambda>_. Inr sample_envelope),
     df_args = (\<lambda>_. Inr [RawEd25519 []]), df_payload_json = (\<lambda>_. Inr sample_envelope), df_show_deadline = (\<lambda>_. ''2030''),
     df_has_expired = (\<lambda>_. False), df_hex_encode = (\<lambda>_. ''00'')\<rparr>"

definition sample_near_tx :: NearTx where
  "sample_near_tx = \<lparr>ntx_signer_id = ''alice.near'', ntx_receiver_id = ''bob.near'', ntx_actions = [CreateAccount]\<rparr>"

definition sample_near_libs :: "(bytes, bytes, bytes, bytes, bytes) NearLibs" where
  "sample_near_libs = \<lparr>nl_crypto = sample_near_crypto,
     nl_primitives = \<lparr>np_show_key = (\<lambda>_. ''ed25519:1''), np_ft_transfer_args = (\<lambda>_. None), np_ft_withdraw_args = (\<lambda>_. None)\<rparr>,
     nl_defuse = sample_defuse, nl_hex = (\<lambda>_. Inr []), nl_base64 = (\<lambda>_. Inl ''bad''), nl_transaction = (\<lambda>_. Inr sample_near_tx),
     nl_signed_transaction = (\<lambda>_. Inl ''bad''), nl_env = (\<lambda>_. None), nl_dev_signing = False\<rparr>"

definition sample_near_options :: VisualSignOptions where
  "sample_near_options = sample_options \<lparr>metadata := Some sample_near_metadata\<rparr>"

lemma sample_libs_documented:
  "near_documented (nl_primitives sample_near_libs)" "defuse_documented (nl_defuse sample_near_libs)"
  by (simp_all add: near_documented_def defuse_documented_def sample_near_libs_def sample_defuse_def sample_envelope_def
      payload_accounts_def plain_def code_def)

lemma sample_network: "resolve_network sample_near_options Mainnet = Inr Mainnet"
  by (simp add: resolve_network_def extract_network_from_metadata_def sample_near_options_def sample_near_metadata_def
      sample_near_def unwrap_or_def)

lemma sample_on_chain:
  "\<exists>res. near_to_visual_sign_payload sample_near_libs near_converter_new (OnChain sample_near_tx) sample_near_options = Inr res"
proof -
  have "first_mismatch [(''signer'', ''alice.near''), (''receiver'', ''bob.near'')] Mainnet = None"
    by (simp add: first_mismatch_None ends_with_def)
  then show ?thesis
    by (simp add: render_on_chain_Inr near_converter_new_def sample_network sample_near_tx_def on_chain_fields_def
        on_chain_tokens_def seq_fields_Inr text_of_eq address_of_def one_field_def create_address_field_def decode_intents_def
        is_ok_def seq_fields.simps)
qed

lemma sample_envelope_converts:
  "\<exists>res. near_to_visual_sign_payload sample_near_libs near_converter_new (IntentEnvelope ''{}'') sample_near_options = Inr res"
proof -
  have "first_mismatch [(''signer'', ''alice.near''), (''verifying contract'', ''intents.near'')] Mainnet = None"
    by (simp add: first_mismatch_None ends_with_def)
  then show ?thesis
    by (simp add: and_then_Inr_iff render_intent_envelope_Inr near_converter_new_def sample_network sample_near_libs_def
        sample_defuse_def sample_envelope_def render_single_def seq_fields.simps text_of_eq render_envelope_def
        intent_fields_def intent_boundary_field_def render_intent_def account_control_warning_def diagnostic_def)
qed

section \<open>Committed accounts\<close>

text \<open>The accounts the screen commits to: those whose network is checked.\<close>

definition envelope_accounts :: "DefusePayload \<Rightarrow> string list" where
  "envelope_accounts p = [dp_signer_id p, dp_verifying_contract p]"

definition batch_accounts :: "Defuse \<Rightarrow> string \<Rightarrow> Action \<Rightarrow> string list" where
  "batch_accounts df receiver action =
     (case token_metadata_consumer receiver action of
        None \<Rightarrow> []
      | Some fc \<Rightarrow> (case df_args df (fc_args fc) of
            Inl _ \<Rightarrow> []
          | Inr mps \<Rightarrow> concat (map (\<lambda>mp. case df_extract df mp of Inl _ \<Rightarrow> [] | Inr p \<Rightarrow> envelope_accounts p) mps)))"

fun committed_accounts :: "Defuse \<Rightarrow> NearTransaction \<Rightarrow> string list" where
  "committed_accounts df (OnChain tx) = [ntx_signer_id tx, ntx_receiver_id tx]
     @ concat (map (batch_accounts df (ntx_receiver_id tx)) (ntx_actions tx))"
| "committed_accounts df (IntentEnvelope json) =
     (case df_payload_json df json of Inl _ \<Rightarrow> [] | Inr p \<Rightarrow> envelope_accounts p)"

lemma single_network:
  "render_single df p registry network = Inr fs \<Longrightarrow> list_all (\<lambda>a. \<not> contradicts a network) (envelope_accounts p)"
  using first_mismatch_None [of "[(''signer'', dp_signer_id p), (''verifying contract'', dp_verifying_contract p)]" network]
  by (auto simp: render_single_def envelope_accounts_def split: option.splits)

lemma section_network:
  assumes "is_ok (section_fields df k n mp registry network)" and "df_extract df mp = Inr p"
  shows "list_all (\<lambda>a. \<not> contradicts a network) (envelope_accounts p)"
proof -
  have "is_ok (render_single df p registry network)"
    using assms
    by (cases "section_fields df k n mp registry network")
      (auto simp: section_fields_def verify_and_extract_def Let_def seq_fields_Inr is_ok_def)
  then show ?thesis by (cases "render_single df p registry network") (auto simp: is_ok_def dest: single_network)
qed

lemma batch_network:
  assumes "is_ok (decode_intents df receiver action registry network)"
  shows "list_all (\<lambda>a. \<not> contradicts a network) (batch_accounts df receiver action)"
proof (cases "token_metadata_consumer receiver action")
  case (Some fc)
  obtain mps where mps: "df_args df (fc_args fc) = Inr mps"
      "list_all is_ok (map (\<lambda>(i, mp). section_fields df (i + 1) (length mps) mp registry network) (enumerate 0 mps))"
    using assms Some
    by (cases "decode_intents df receiver action registry network")
      (auto simp: decode_intents_def try_decode_execute_intents_def decode_args_def and_then_Inr_iff map_err_Inr_iff
        seq_fields_Inr is_ok_def)
  have "list_all (\<lambda>a. \<not> contradicts a network) (envelope_accounts p)" if "mp \<in> set mps" "df_extract df mp = Inr p" for mp p
  proof -
    from that(1) obtain i where "i < length mps" "mps ! i = mp" by (auto simp: in_set_conv_nth)
    then have "(i, mp) \<in> set (enumerate 0 mps)" by (auto simp: in_set_enumerate_eq)
    with mps(2) have "is_ok (section_fields df (i + 1) (length mps) mp registry network)" by (auto simp: list_all_iff)
    then show ?thesis by (rule section_network) (rule that(2))
  qed
  then have "list_all (\<lambda>a. \<not> contradicts a network) (case df_extract df mp of Inl _ \<Rightarrow> [] | Inr p \<Rightarrow> envelope_accounts p)"
    if "mp \<in> set mps" for mp
    using that by (cases "df_extract df mp") simp_all
  then show ?thesis by (simp add: batch_accounts_def Some mps(1) list_all_iff)
qed (simp add: batch_accounts_def)

lemma committed_network:
  assumes "near_to_visual_sign_payload libs conv t options = Inr res"
  shows "\<exists>network rest. resolve_network options (near_network conv) = Inr network
    \<and> payload_fields (result_payload res) = text_entry ''Network'' (display_name network) # rest
    \<and> list_all (\<lambda>a. \<not> contradicts a network) (committed_accounts (nl_defuse libs) t)"
proof (cases t)
  case (OnChain tx)
  with assms obtain network fields where n: "resolve_network options (near_network conv) = Inr network"
      "first_mismatch [(''signer'', ntx_signer_id tx), (''receiver'', ntx_receiver_id tx)] network = None"
      "on_chain_fields libs tx (on_chain_tokens libs tx options network (near_trust_policy conv)) network = Inr fields"
      "payload_fields (result_payload res) = fields"
    by (auto simp: render_on_chain_Inr conversion_new_def payload_new_def)
  have "is_ok (decode_intents (nl_defuse libs) (ntx_receiver_id tx) a
      (request_registry (on_chain_tokens libs tx options network (near_trust_policy conv))) network)"
    if "a \<in> set (ntx_actions tx)" for a
  proof -
    have "is_ok (seq_fields [render_action (nl_primitives libs) a (length (ntx_actions tx)),
        decode_intents (nl_defuse libs) (ntx_receiver_id tx) a
          (request_registry (on_chain_tokens libs tx options network (near_trust_policy conv))) network])" (is "is_ok ?r")
      using n(3) that by (auto simp: on_chain_fields_def seq_fields_Inr list_all_iff)
    then show ?thesis by (cases ?r) (auto simp: seq_fields_Inr is_ok_def)
  qed
  then have "list_all (\<lambda>b. \<not> contradicts b network) (batch_accounts (nl_defuse libs) (ntx_receiver_id tx) a)"
    if "a \<in> set (ntx_actions tx)" for a
    using that by (blast intro: batch_network)
  then have "list_all (\<lambda>a. \<not> contradicts a network) (committed_accounts (nl_defuse libs) t)"
    using n(2) by (auto simp: OnChain first_mismatch_None list_all_iff)
  moreover have "\<exists>rest. fields = text_entry ''Network'' (display_name network) # rest"
    using n(3) by (auto simp: on_chain_fields_def seq_fields_Inr text_of_eq)
  ultimately show ?thesis using n by blast
next
  case (IntentEnvelope json)
  with assms show ?thesis
    by (auto simp: and_then_Inr_iff render_intent_envelope_Inr conversion_new_def payload_new_def dest: single_network)
qed

section \<open>Properties\<close>

text \<open>C10: token metadata of a request cannot displace the curated table, unless a key on the deployment's list signed it.
  In the registry a request gets, an asset that the table covers, directly or wrapped, always resolves, to verified metadata;
  if the request has no metadata signed by a listed key for that asset or one it wraps, it resolves exactly as without any
  request metadata. And whatever an asset resolves to comes from that asset or one it wraps: it is the asset's row of the
  table, or the admissible entry of this request for it, of which \<open>token_admitted\<close> names the conditions.\<close>

theorem curated_tokens_protected:
  fixes libs :: "('s, 'e, 'v, 'g, 'k) NearLibs"
  assumes registry: "registry = request_registry (token_registry_for libs options network policy)"
    and nep141: "nep141 = df_nep141 (nl_defuse libs)"
    and given: "given = (\<lambda>b m. \<exists>near e. Option.bind (metadata options) chain_metadata_metadata = Some (NearMeta near)
      \<and> (b, e) \<in> set (near_token_mappings near)
      \<and> token_admitted (nl_crypto libs) nep141 network (token_allowlist libs policy) policy b e m)"
  shows "(curated_asset nep141 a \<longrightarrow> (\<exists>m. resolve nep141 a registry = Some m \<and> tm_provenance m \<in> {Seed, RecognizedSigner}))
    \<and> (curated_asset nep141 a \<and> (\<nexists>b m. wraps nep141 a b \<and> given b m \<and> tm_provenance m = RecognizedSigner) \<longrightarrow>
        resolve nep141 a registry = resolve nep141 a (request_registry request_registry_empty))
    \<and> (\<forall>m. resolve nep141 a registry = Some m \<longrightarrow> (\<exists>b. wraps nep141 a b
        \<and> (if tm_provenance m = Seed then (b, tm_symbol m, tm_decimals m) \<in> set SEEDS else given b m)))"
proof -
  have entry: "given b m" if "lookup registry (\<lambda>r. map_of (by_asset_id r) b) = Some m" for b m
    using request_lookup that unfolding registry nep141 given examine_entry_iff by blast
  have meta: "usable m = Some m" "tm_provenance m \<noteq> Seed" "curated_asset nep141 b \<Longrightarrow> tm_provenance m = RecognizedSigner"
    if "given b m" for b m
  proof -
    from that obtain e where e: "token_admitted (nl_crypto libs) nep141 network (token_allowlist libs policy) policy b e m"
      unfolding given by blast
    show "usable m = Some m" "tm_provenance m \<noteq> Seed" "curated_asset nep141 b \<Longrightarrow> tm_provenance m = RecognizedSigner"
      using admitted_meta(1-3) [OF e] by blast+
  qed
  have source: "\<exists>b. wraps nep141 a b \<and> (if tm_provenance m = Seed then (b, tm_symbol m, tm_decimals m) \<in> set SEEDS else given b m)"
    if "resolve nep141 a registry = Some m" for m
    using resolve_source [OF that] entry meta(2) by metis
  have alone: "resolve nep141 a registry = resolve nep141 a (request_registry request_registry_empty)"
    if "curated_asset nep141 a" "\<nexists>b m. wraps nep141 a b \<and> given b m \<and> tm_provenance m = RecognizedSigner"
    by (rule curated_untouched [OF that(1)], rule ccontr) (use that(2) entry meta(3) in blast)
  have "\<exists>m. resolve nep141 a registry = Some m \<and> tm_provenance m \<in> {Seed, RecognizedSigner}" if c: "curated_asset nep141 a"
  proof -
    obtain m where m: "resolve nep141 a registry = Some m" using curated_resolves [OF c] entry meta(1) by metis
    moreover have "tm_provenance m \<in> {Seed, RecognizedSigner}"
      using curated_provenance [OF m c] entry meta(3) by blast
    ultimately show ?thesis by blast
  qed
  with source alone show ?thesis by blast
qed

theorem curated_tokens_protected_witness:
  "resolve (\<lambda>_. True) ''nep141:wrap.near''
      (request_registry (token_registry_for sample_near_libs sample_near_options Mainnet AcceptUnsigned)) =
    resolve (\<lambda>_. True) ''nep141:wrap.near'' (request_registry request_registry_empty)"
proof -
  have n: "(\<lambda>_. True) = df_nep141 (nl_defuse sample_near_libs)" by (simp add: sample_near_libs_def sample_defuse_def)
  have c: "curated_asset (\<lambda>_. True) ''nep141:wrap.near''" using sample_seeded(1) by (simp flip: seeded_iff_curated)
  have near: "Option.bind (metadata sample_near_options) chain_metadata_metadata = Some (NearMeta sample_near)"
    by (simp add: sample_near_options_def sample_near_metadata_def)
  have "token_signature e = None" if "(b, e) \<in> set (near_token_mappings sample_near)" for b e
    using that by (auto simp: sample_near_def)
  then have unsigned: "tm_provenance m \<noteq> RecognizedSigner"
    if "(b, e) \<in> set (near_token_mappings sample_near)" "token_admitted x nep141 network allow policy b e m"
    for b e m and x :: "(bytes, bytes, bytes, bytes, bytes) NearCrypto" and nep141 network allow policy
    using admitted_meta(4) [OF that(2)] that(1) by auto
  from curated_tokens_protected [OF refl n refl, where options = sample_near_options and network = Mainnet
      and policy = AcceptUnsigned and a = "''nep141:wrap.near''"] c
  show ?thesis unfolding near using unsigned by blast
qed

text \<open>C13: every payload the NEAR converter builds passes the charset check: nothing a transaction, an intent or its
  token metadata carries can put a character outside the permitted set on the screen or make the check refuse the
  transaction, provided the NEAR libraries' account ids, keys and dates are plain text.\<close>

theorem near_payload_safe:
  assumes "near_documented (nl_primitives libs)" and "defuse_documented (nl_defuse libs)"
    and "list_all plain (near_accounts t)" and "near_to_visual_sign_payload libs conv t options = Inr res"
  shows "validate_charset po describe (result_payload res) = Inr ()
    \<and> to_validated_visual_sign_payload po describe (near_vsp_converter libs conv) t options = Inr res"
proof -
  have "validate_charset po describe (result_payload res) = Inr ()"
    using assms by (cases t) (auto simp: and_then_Inr_iff intro: render_on_chain_safe render_envelope_safe)
  with assms(4) show ?thesis by (simp add: to_validated_visual_sign_payload_def near_vsp_converter_def)
qed

theorem near_payload_safe_witness:
  "\<exists>res. to_validated_visual_sign_payload True (\<lambda>_. ''bad'') (near_vsp_converter sample_near_libs near_converter_new)
      (OnChain sample_near_tx) sample_near_options = Inr res
    \<and> validate_charset True (\<lambda>_. ''bad'') (result_payload res) = Inr ()"
proof -
  have "list_all plain (near_accounts (OnChain sample_near_tx))"
    by (simp add: near_accounts_def sample_near_tx_def plain_def code_def)
  with near_payload_safe [OF sample_libs_documented] sample_on_chain show ?thesis by blast
qed

text \<open>C11: what the network line says is what the accounts are. A payload of the converter begins with the network
  of the request, or of the deployment when the request names none, and every account the screen commits to (the
  transaction's signer and receiver, the signer and verifying contract of an envelope and of every signed envelope in an
  executed batch) that ends in \<^verbatim>\<open>.near\<close> or \<^verbatim>\<open>.testnet\<close> belongs to that network.\<close>

theorem near_network_agrees:
  assumes "near_to_visual_sign_payload libs conv t options = Inr res"
  shows "\<exists>network rest. resolve_network options (near_network conv) = Inr network
    \<and> payload_fields (result_payload res) = text_entry ''Network'' (display_name network) # rest
    \<and> (\<forall>a\<in>set (committed_accounts (nl_defuse libs) t).
      (ends_with ''.near'' a \<longrightarrow> network = Mainnet) \<and> (ends_with ''.testnet'' a \<longrightarrow> network = Testnet))"
proof -
  obtain network rest where n: "resolve_network options (near_network conv) = Inr network"
      "payload_fields (result_payload res) = text_entry ''Network'' (display_name network) # rest"
      "list_all (\<lambda>a. \<not> contradicts a network) (committed_accounts (nl_defuse libs) t)"
    using committed_network [OF assms] by blast
  moreover have "(ends_with ''.near'' a \<longrightarrow> network = Mainnet) \<and> (ends_with ''.testnet'' a \<longrightarrow> network = Testnet)"
    if "\<not> contradicts a network" for a
    using that contradicts_iff [of a network] by (cases network) blast+
  ultimately show ?thesis by (auto simp: list_all_iff)
qed

theorem near_network_agrees_witness:
  "\<exists>res network rest. near_to_visual_sign_payload sample_near_libs near_converter_new (OnChain sample_near_tx) sample_near_options
      = Inr res
    \<and> resolve_network sample_near_options (near_network near_converter_new) = Inr network
    \<and> payload_fields (result_payload res) = text_entry ''Network'' (display_name network) # rest"
  using near_network_agrees sample_on_chain by blast

text \<open>C12: an intents envelope shows every intent. The lines named \<^verbatim>\<open>Intent\<close> of the payload are exactly one per intent
  of the envelope, in order, each with its kind and its number: no intent is left out, and no text of the sender can
  make a line that announces another one.\<close>

theorem near_intents_announced:
  assumes "near_to_visual_sign_payload libs conv (IntentEnvelope json) options = Inr res"
  shows "\<exists>p. df_payload_json (nl_defuse libs) json = Inr p
    \<and> filter (\<lambda>f. field_label f = ''Intent'') (payload_fields (result_payload res))
      = map (\<lambda>(k, i). text_entry ''Intent'' (boundary_text i k (length (dp_intents p)))) (enumerate 0 (dp_intents p))"
proof -
  have "field_label (text_entry ''Network'' n) \<noteq> ''Intent''" for n by (simp add: text_entry_def field_label_def)
  then show ?thesis
    using assms announced_single announced_diagnostics
    by (auto simp: and_then_Inr_iff render_intent_envelope_Inr conversion_new_def payload_new_def)
qed

theorem near_intents_announced_witness:
  "\<exists>res. near_to_visual_sign_payload sample_near_libs near_converter_new (IntentEnvelope ''{}'') sample_near_options = Inr res
    \<and> filter (\<lambda>f. field_label f = ''Intent'') (payload_fields (result_payload res))
      = [text_entry ''Intent'' (boundary_text (SetAuthByPredecessorId True) 0 2), text_entry ''Intent'' (boundary_text (AddPublicKey []) 1 2)]"
proof -
  obtain res where res: "near_to_visual_sign_payload sample_near_libs near_converter_new (IntentEnvelope ''{}'') sample_near_options = Inr res"
    using sample_envelope_converts by blast
  have "df_payload_json (nl_defuse sample_near_libs) ''{}'' = Inr sample_envelope"
    by (simp add: sample_near_libs_def sample_defuse_def)
  with near_intents_announced [OF res] res show ?thesis
    by (auto simp: sample_envelope_def numeral_2_eq_2 simp del: near_to_visual_sign_payload.simps)
qed

text \<open>Leaving the token metadata unread changes no intent. Whether or not the converter builds the registry of the
  request, the fields it renders are those the registry would give; building it only adds the lines that report refused
  entries.\<close>

lemma near_gate_sound:
  "render_intent_envelope libs json options network policy =
     (let tokens = token_registry_for libs options network policy
      in and_then (map_err intents_error (try_render_single_intent (nl_defuse libs) json (request_registry tokens) network))
        (\<lambda>rendered. Inr (conversion_new (payload_new NEAR_PAYLOAD_VERSION (env_title rendered) None
          (text_entry ''Network'' (display_name network) #
           (if single_intent_consumes_token_registry (nl_defuse libs) json then request_diagnostics tokens else [])
           @ env_fields rendered) NEAR_PAYLOAD_TYPE))))
   \<and> on_chain_fields libs tx (on_chain_tokens libs tx options network policy) network =
     on_chain_fields libs tx (token_registry_for libs options network policy
       \<lparr>request_diagnostics := request_diagnostics (on_chain_tokens libs tx options network policy)\<rparr>) network"
proof -
  have "try_render_single_intent (nl_defuse libs) json (request_registry request_registry_empty) network =
      try_render_single_intent (nl_defuse libs) json
        (request_registry (token_registry_for libs options network policy)) network"
    if "\<not> single_intent_consumes_token_registry (nl_defuse libs) json"
    using that by (rule unread_render)
  moreover have "decode_intents df receiver action r1 network = decode_intents df receiver action r2 network"
    if "token_metadata_consumer receiver action = None" for df receiver action r1 r2
    using that by (simp add: decode_intents_def)
  ultimately show ?thesis
    by (auto simp: render_intent_envelope_def text_of_eq request_registry_empty_def on_chain_fields_def on_chain_tokens_def
        list_ex_iff Let_def intro!: arg_cong [where f = seq_fields] map_cong)
qed

text \<open>C14: a swap is shown exactly. When a token diff renders, every entry has a line that says \<^verbatim>\<open>Send\<close> when its delta is
  negative and \<^verbatim>\<open>Receive\<close> when it is positive, with the symbol of the token and a decimal whose value is exactly the
  size of the delta at the token's decimals; the most negative delta of 128 bits included. No entry has delta zero.\<close>

theorem token_diff_exact:
  assumes "render_token_diff df td registry = Inr fs" and "(a, d) \<in> set (td_diff td)"
    and "resolve (df_nep141 df) a registry = Some m"
  shows "sint d \<noteq> 0 \<and> (\<exists>s. shows_decimal (unat (tm_decimals m)) (nat \<bar>sint d\<bar>) s
    \<and> amount_entry (if sint d < 0 then ''Send'' else ''Receive'') s (tm_symbol m) \<in> set fs)"
proof -
  let ?lbl = "if sint d < 0 then ''Send'' else ''Receive''"
  let ?field = "token_amount_field df ?lbl a (unsigned_abs d) registry"
  have entry: "is_ok (token_diff_entry df registry (a, d))" "set (ok_fields (token_diff_entry df registry (a, d))) \<subseteq> set fs"
    using assms(1,2) by (auto simp: render_token_diff_def seq_fields_Inr list_all_iff split: if_splits)
  then have "d \<noteq> 0" by (auto simp: token_diff_entry_def is_ok_def)
  then have field: "token_diff_entry df registry (a, d) = ?field" by (simp add: token_diff_entry_def)
  with entry(1) have "tm_symbol m \<noteq> []" using token_amount_symbol [OF assms(3)] by simp
  from token_amount_exact [OF assms(3) this, of "unsigned_abs d" ?lbl] obtain s rest
    where "shows_decimal (unat (tm_decimals m)) (nat \<bar>sint d\<bar>) s" "?field = Inr (amount_entry ?lbl s (tm_symbol m) # rest)"
    by (auto simp: unsigned_abs_exact)
  moreover have "sint d \<noteq> 0" using \<open>d \<noteq> 0\<close> by (metis sint_0 signed_word_eqI)
  ultimately show ?thesis using entry(2) field by auto
qed

lemma sample_diff:
  "resolve (df_nep141 sample_defuse) ''nep141:wrap.near'' (request_registry request_registry_empty)
     = Some \<lparr>tm_symbol = ''wNEAR'', tm_decimals = 24, tm_provenance = Seed\<rparr>"
  by (subst resolve_eq) (simp add: SEEDS_def seed_meta_def)

theorem token_diff_exact_witness:
  "\<exists>fs s. render_token_diff sample_defuse \<lparr>td_diff = [(''nep141:wrap.near'', - 1)], td_memo = None, td_referral = None\<rparr>
      (request_registry request_registry_empty) = Inr fs
    \<and> shows_decimal 24 1 s \<and> amount_entry ''Send'' s ''wNEAR'' \<in> set fs"
proof -
  let ?td = "\<lparr>td_diff = [(''nep141:wrap.near'', - 1)], td_memo = None, td_referral = None\<rparr>"
  have "sint (- 1 :: 128 word) = - 1" by simp
  from token_amount_exact [OF sample_diff, of "unsigned_abs (- 1)" "''Send''"] obtain rest s
    where "token_diff_entry sample_defuse (request_registry request_registry_empty) (''nep141:wrap.near'', - 1)
        = Inr (amount_entry ''Send'' s ''wNEAR'' # rest)"
    by (auto simp: token_diff_entry_def)
  then obtain fs where fs: "render_token_diff sample_defuse ?td (request_registry request_registry_empty) = Inr fs"
    by (simp add: render_token_diff_def seq_fields.simps optional_text_def nonempty_filtered_def)
  from token_diff_exact [OF fs _ sample_diff, of "- 1"] show ?thesis
    by (auto simp: fs)
qed

end
