(* ===== verification/TronConvert.thy ===== *)
theory TronConvert
  imports FieldSeq Registry Encodings TimeFmt
begin

text \<open>
  \<^verbatim>\<open>chain_parsers/visualsign-tron/src/lib.rs\<close>: decoding and display of Tron transactions. The messages of
  \<^verbatim>\<open>anychain-tron\<close> carry what the converter reads; a resource is the result of \<^verbatim>\<open>enum_value\<close>. The protobuf parsers,
  the \<^verbatim>\<open>hex\<close>, \<^verbatim>\<open>base64\<close> and \<^verbatim>\<open>bs58\<close> crates, \<^verbatim>\<open>chrono\<close> and the clock are the record \<open>TronLibs\<close>.
\<close>

section \<open>Messages\<close>

record TronAny =
  any_type_url :: string
  any_value :: bytes

record TronRaw =
  raw_ref_block_bytes :: bytes
  raw_ref_block_hash :: bytes
  raw_expiration :: i64
  raw_timestamp :: i64
  raw_fee_limit :: i64
  raw_contract :: "TronAny option list"

datatype ResourceCode = BANDWIDTH | ENERGY | TRON_POWER

type_synonym resource = "(32 word, ResourceCode) result"

record TransferContract =
  transfer_owner :: bytes
  transfer_to :: bytes
  transfer_amount :: i64

record FreezeBalanceV2Contract =
  freeze_owner :: bytes
  frozen_balance :: i64
  freeze_resource :: resource

record UnfreezeBalanceV2Contract =
  unfreeze_owner :: bytes
  unfreeze_balance :: i64
  unfreeze_resource :: resource

record UnDelegateResourceContract =
  delegate_owner :: bytes
  delegate_receiver :: bytes
  delegate_resource :: resource
  delegate_balance :: i64

record DelegateResourceContract = UnDelegateResourceContract +
  delegate_lock :: bool
  lock_period :: i64

record VoteWitnessContract =
  vote_owner :: bytes
  votes :: "(bytes \<times> i64) list"

record TronLibs =
  pb_raw :: "bytes \<Rightarrow> (string, TronRaw) result"
  pb_transaction :: "bytes \<Rightarrow> (string, TronRaw option) result"
  pb_transfer :: "bytes \<Rightarrow> (string, TransferContract) result"
  pb_freeze :: "bytes \<Rightarrow> (string, FreezeBalanceV2Contract) result"
  pb_unfreeze :: "bytes \<Rightarrow> (string, UnfreezeBalanceV2Contract) result"
  pb_withdraw_expire :: "bytes \<Rightarrow> (string, bytes) result"
  pb_withdraw_balance :: "bytes \<Rightarrow> (string, bytes) result"
  pb_delegate :: "bytes \<Rightarrow> (string, DelegateResourceContract) result"
  pb_undelegate :: "bytes \<Rightarrow> (string, UnDelegateResourceContract) result"
  pb_vote :: "bytes \<Rightarrow> (string, VoteWitnessContract) result"
  tl_hex_decode :: "string \<Rightarrow> (string, bytes) result"
  tl_hex_encode :: "bytes \<Rightarrow> string"
  tl_base64 :: "string \<Rightarrow> (string, bytes) result"
  tl_bs58check :: "bytes \<Rightarrow> string"
  tl_from_millis :: "i64 \<Rightarrow> string option"
  tl_now_ms :: i64

section \<open>Decoding\<close>

datatype TronParserError = FailedToDecodeTronTransaction string

fun display_tron_error :: "TronParserError \<Rightarrow> string" where
  "display_tron_error (FailedToDecodeTronTransaction m) = ''Failed to decode transaction: '' @ m"

definition parse_tron_bytes :: "TronLibs \<Rightarrow> bytes \<Rightarrow> (TronParserError, TronRaw) result" where
  "parse_tron_bytes lb bs =
     (let wrapped_raw = (case pb_transaction lb bs of Inr w \<Rightarrow> w | Inl _ \<Rightarrow> None)
      in case (pb_raw lb bs, wrapped_raw) of
           (Inr bare, Some wrapped) \<Rightarrow>
             if raw_contract bare \<noteq> [] then Inr bare
             else if raw_contract wrapped \<noteq> [] then Inr wrapped
             else Inr bare
         | (Inr bare, None) \<Rightarrow> Inr bare
         | (Inl _, Some wrapped) \<Rightarrow> Inr wrapped
         | (Inl e, None) \<Rightarrow> Inl (FailedToDecodeTronTransaction (''Failed to parse Tron transaction: '' @ e)))"

definition tron_decode_transaction :: "TronLibs \<Rightarrow> string \<Rightarrow> SupportedEncodings \<Rightarrow> (TronParserError, TronRaw) result" where
  "tron_decode_transaction lb raw_transaction encoding =
     and_then (case encoding of
         Hex \<Rightarrow> map_err (\<lambda>e. FailedToDecodeTronTransaction (''Failed to decode hex: '' @ e))
           (decode_hex (tl_hex_decode lb) raw_transaction)
       | Base64 \<Rightarrow> map_err (\<lambda>e. FailedToDecodeTronTransaction (''Failed to decode base64: '' @ e)) (tl_base64 lb raw_transaction))
       (parse_tron_bytes lb)"

definition tron_from_string :: "TronLibs \<Rightarrow> string \<Rightarrow> (TransactionParseError, TronRaw) result" where
  "tron_from_string lb s =
     map_err (\<lambda>e. TxDecodeError (display_tron_error e)) (tron_decode_transaction lb s (detect s))"

definition tron_transaction_type :: "TronRaw \<Rightarrow> string" where
  "tron_transaction_type raw = ''Tron''"

section \<open>Text\<close>

definition TRON_ADDRESS_LEN :: nat where
  "TRON_ADDRESS_LEN = 21"

definition TRON_MAINNET_PREFIX :: byte where
  "TRON_MAINNET_PREFIX = 0x41"

definition address_to_base58 :: "TronLibs \<Rightarrow> bytes \<Rightarrow> string" where
  "address_to_base58 lb bs =
     (if length bs \<noteq> TRON_ADDRESS_LEN \<or> bs ! 0 \<noteq> TRON_MAINNET_PREFIX
      then ''<invalid Tron address: '' @ tl_hex_encode lb bs @ ''>''
      else tl_bs58check lb bs)"

fun resource_label :: "resource \<Rightarrow> string" where
  "resource_label (Inr BANDWIDTH) = ''BANDWIDTH''"
| "resource_label (Inr ENERGY) = ''ENERGY''"
| "resource_label (Inr TRON_POWER) = ''TRON_POWER''"
| "resource_label (Inl n) = ''UNKNOWN('' @ int_str (sint n) @ '')''"

definition i64_unsigned_abs :: "i64 \<Rightarrow> u64" where
  "i64_unsigned_abs n = (if sint n < 0 then - n else n)"

definition sun_to_trx_string :: "i64 \<Rightarrow> string" where
  "sun_to_trx_string sun =
     (let (sign, magnitude) = (if sint sun < 0 then (''-'', i64_unsigned_abs sun) else ([], sun));
          whole = magnitude div 1000000;
          frac = magnitude mod 1000000
      in if frac = 0 then sign @ nat_str (unat whole)
         else sign @ nat_str (unat whole) @ ''.'' @ trim_end_matches (CHR ''0'') (zero_pad 6 (nat_str (unat frac))))"

definition render_time_field :: "TronLibs \<Rightarrow> i64 \<Rightarrow> i64 \<Rightarrow> string" where
  "render_time_field lb ms now_ms =
     (let abs = format_timestamp_ms (tl_from_millis lb) ms
      in case format_relative_ms (tl_from_millis lb) ms now_ms of
           Some rel \<Rightarrow> abs @ '' ('' @ int_str (sint ms) @ '' ms, '' @ rel @ '')''
         | None \<Rightarrow> abs @ '' ('' @ int_str (sint ms) @ '' ms)'')"

section \<open>Contracts\<close>

type_synonym tron_fields = "(VisualSignError, AnnotatedPayloadField list) result"

definition tron_row :: "(VisualSignError, AnnotatedPayloadField) result \<Rightarrow> tron_fields" where
  "tron_row r = and_then r (\<lambda>f. Inr [f])"

definition tron_text :: "string \<Rightarrow> string \<Rightarrow> tron_fields" where
  "tron_text lbl t = tron_row (create_text_field lbl t)"

definition tron_address :: "TronLibs \<Rightarrow> string \<Rightarrow> bytes \<Rightarrow> tron_fields" where
  "tron_address lb lbl bs = tron_row (create_address_field lbl (address_to_base58 lb bs) None None None None)"

definition tron_amount :: "string \<Rightarrow> i64 \<Rightarrow> tron_fields" where
  "tron_amount lbl sun = tron_row (create_amount_field lbl (sun_to_trx_string sun) ''TRX'')"

definition decoded :: "string \<Rightarrow> (string, 'm) result \<Rightarrow> ('m \<Rightarrow> tron_fields) \<Rightarrow> tron_fields" where
  "decoded name r f = and_then (map_err (\<lambda>e. ConversionError (''decode '' @ name @ '': '' @ e)) r) f"

definition transfer_rows :: "TronLibs \<Rightarrow> TransferContract \<Rightarrow> tron_fields" where
  "transfer_rows lb c =
     seq_fields [tron_text ''Contract Type'' ''TransferContract (TRX Transfer)'', tron_address lb ''From'' (transfer_owner c),
       tron_address lb ''To'' (transfer_to c), tron_amount ''Amount'' (transfer_amount c)]"

definition freeze_rows :: "TronLibs \<Rightarrow> FreezeBalanceV2Contract \<Rightarrow> tron_fields" where
  "freeze_rows lb c =
     seq_fields [tron_text ''Contract Type'' ''FreezeBalanceV2 (Stake)'', tron_address lb ''Owner'' (freeze_owner c),
       tron_amount ''Frozen Balance'' (frozen_balance c), tron_text ''Resource'' (resource_label (freeze_resource c))]"

definition unfreeze_rows :: "TronLibs \<Rightarrow> UnfreezeBalanceV2Contract \<Rightarrow> tron_fields" where
  "unfreeze_rows lb c =
     seq_fields [tron_text ''Contract Type'' ''UnfreezeBalanceV2 (Unstake)'', tron_address lb ''Owner'' (unfreeze_owner c),
       tron_amount ''Unfreeze Balance'' (unfreeze_balance c), tron_text ''Resource'' (resource_label (unfreeze_resource c))]"

definition delegate_rows :: "TronLibs \<Rightarrow> DelegateResourceContract \<Rightarrow> tron_fields" where
  "delegate_rows lb c =
     seq_fields [tron_text ''Contract Type'' ''DelegateResource'', tron_address lb ''Owner'' (delegate_owner c),
       tron_address lb ''Receiver'' (delegate_receiver c), tron_text ''Resource'' (resource_label (delegate_resource c)),
       tron_amount ''Balance'' (delegate_balance c), tron_text ''Lock'' (if delegate_lock c then ''true'' else ''false''),
       if delegate_lock c \<or> lock_period c \<noteq> 0 then tron_text ''Lock Period'' (int_str (sint (lock_period c))) else Inr []]"

definition undelegate_rows :: "TronLibs \<Rightarrow> UnDelegateResourceContract \<Rightarrow> tron_fields" where
  "undelegate_rows lb c =
     seq_fields [tron_text ''Contract Type'' ''UnDelegateResource'', tron_address lb ''Owner'' (delegate_owner c),
       tron_address lb ''Receiver'' (delegate_receiver c), tron_text ''Resource'' (resource_label (delegate_resource c)),
       tron_amount ''Balance'' (delegate_balance c)]"

definition saturating_add :: "i64 \<Rightarrow> i64 \<Rightarrow> i64" where
  "saturating_add a b =
     (let s = sint a + sint b
      in if s < - (2 ^ 63) then word_of_int (- (2 ^ 63)) else if s \<ge> 2 ^ 63 then word_of_int (2 ^ 63 - 1) else a + b)"

definition vote_total :: "(bytes \<times> i64) list \<Rightarrow> i64" where
  "vote_total vs = fold (\<lambda>v acc. saturating_add acc (snd v)) vs 0"

definition vote_rows :: "TronLibs \<Rightarrow> VoteWitnessContract \<Rightarrow> tron_fields" where
  "vote_rows lb c =
     seq_fields [tron_text ''Contract Type'' ''Vote Witness'', tron_address lb ''Owner'' (vote_owner c),
       and_then (seq_fields (map (\<lambda>(i, v). seq_fields
           [tron_address lb (''Vote '' @ nat_str (i + 1) @ '' (SR)'') (fst v),
            tron_text (''Vote '' @ nat_str (i + 1) @ '' (Count)'') (int_str (sint (snd v)))])
           (enumerate 0 (votes c)))) (\<lambda>detail_fields.
         let subtitle = int_str (sint (vote_total (votes c))) @ '' votes across '' @ nat_str (length (votes c)) @ '' SRs'';
             fallback = ''Vote Witness: '' @ subtitle
         in and_then (tron_text ''Summary'' subtitle) (\<lambda>condensed_fields.
            Inr [Annotated (PreviewLayout \<lparr>fallback_text = fallback, label = ''Votes''\<rparr>
              (PreviewLayoutData (Some \<lparr>text_v2_text = ''Vote Witness''\<rparr>) (Some \<lparr>text_v2_text = subtitle\<rparr>)
                (Some (ListLayoutData condensed_fields)) (Some (ListLayoutData detail_fields)))) None None]))]"

definition decode_contract :: "TronLibs \<Rightarrow> string \<Rightarrow> bytes \<Rightarrow> tron_fields" where
  "decode_contract lb type_url v =
     (if type_url = ''type.googleapis.com/protocol.TransferContract''
      then decoded ''TransferContract'' (pb_transfer lb v) (transfer_rows lb)
      else if type_url = ''type.googleapis.com/protocol.FreezeBalanceV2Contract''
      then decoded ''FreezeBalanceV2Contract'' (pb_freeze lb v) (freeze_rows lb)
      else if type_url = ''type.googleapis.com/protocol.UnfreezeBalanceV2Contract''
      then decoded ''UnfreezeBalanceV2Contract'' (pb_unfreeze lb v) (unfreeze_rows lb)
      else if type_url = ''type.googleapis.com/protocol.WithdrawExpireUnfreezeContract''
      then decoded ''WithdrawExpireUnfreezeContract'' (pb_withdraw_expire lb v) (\<lambda>owner.
             seq_fields [tron_text ''Contract Type'' ''WithdrawExpireUnfreeze (Claim Unfrozen)'', tron_address lb ''Owner'' owner])
      else if type_url = ''type.googleapis.com/protocol.WithdrawBalanceContract''
      then decoded ''WithdrawBalanceContract'' (pb_withdraw_balance lb v) (\<lambda>owner.
             seq_fields [tron_text ''Contract Type'' ''WithdrawBalance (Claim Rewards)'', tron_address lb ''Owner'' owner])
      else if type_url = ''type.googleapis.com/protocol.DelegateResourceContract''
      then decoded ''DelegateResourceContract'' (pb_delegate lb v) (delegate_rows lb)
      else if type_url = ''type.googleapis.com/protocol.UnDelegateResourceContract''
      then decoded ''UnDelegateResourceContract'' (pb_undelegate lb v) (undelegate_rows lb)
      else if type_url = ''type.googleapis.com/protocol.VoteWitnessContract''
      then decoded ''VoteWitnessContract'' (pb_vote lb v) (vote_rows lb)
      else tron_text ''Contract Type'' (type_url @ '' (not fully decoded)''))"

section \<open>The converter\<close>

definition contract_rows :: "TronLibs \<Rightarrow> TronAny option \<Rightarrow> tron_fields" where
  "contract_rows lb p =
     (case p of
        Some parameter \<Rightarrow> decode_contract lb (any_type_url parameter) (any_value parameter)
      | None \<Rightarrow> tron_text ''Contract Type'' ''<missing parameter>'')"

definition tron_convert_to_visual_sign_payload ::
  "TronLibs \<Rightarrow> TronRaw \<Rightarrow> VisualSignOptions \<Rightarrow> (VisualSignError, SignablePayload) result" where
  "tron_convert_to_visual_sign_payload lb raw options =
     and_then (seq_fields ([tron_text ''Network'' ''Tron'',
         tron_text ''Timestamp'' (render_time_field lb (raw_timestamp raw) (tl_now_ms lb)),
         tron_text ''Expiration'' (render_time_field lb (raw_expiration raw) (tl_now_ms lb)),
         tron_amount ''Fee Limit'' (raw_fee_limit raw),
         tron_text ''Ref Block'' (tl_hex_encode lb (raw_ref_block_bytes raw)),
         tron_text ''Ref Block Hash'' (tl_hex_encode lb (raw_ref_block_hash raw))]
       @ map (contract_rows lb) (raw_contract raw))) (\<lambda>fields.
     Inr (payload_new 0 (unwrap_or ''Tron Transaction'' (transaction_name options)) None
       (map signable_payload_field fields) ''TronTx''))"

definition tron_to_visual_sign_payload ::
  "TronLibs \<Rightarrow> TronRaw \<Rightarrow> VisualSignOptions \<Rightarrow> (VisualSignError, ConversionResult) result" where
  "tron_to_visual_sign_payload lb raw options =
     and_then (tron_convert_to_visual_sign_payload lb raw options) (\<lambda>payload. Inr (conversion_new payload))"

definition tron_vsp_converter :: "TronLibs \<Rightarrow> TronRaw Converter" where
  "tron_vsp_converter lb = \<lparr>from_string = tron_from_string lb, to_visual_sign_payload = tron_to_visual_sign_payload lb\<rparr>"

definition tron_transaction_to_visual_sign ::
  "TronLibs \<Rightarrow> TronRaw \<Rightarrow> VisualSignOptions \<Rightarrow> (VisualSignError, SignablePayload) result" where
  "tron_transaction_to_visual_sign lb raw options =
     and_then (tron_to_visual_sign_payload lb raw options) (\<lambda>r. Inr (result_payload r))"

definition tron_transaction_string_to_visual_sign ::
  "bool \<Rightarrow> (completeness_error \<Rightarrow> string) \<Rightarrow> TronLibs \<Rightarrow> string \<Rightarrow> VisualSignOptions \<Rightarrow> (VisualSignError, SignablePayload) result" where
  "tron_transaction_string_to_visual_sign po describe lb s options =
     and_then (to_visual_sign_payload_from_string po describe (tron_vsp_converter lb) s options) (\<lambda>r. Inr (result_payload r))"

section \<open>Amounts\<close>

lemma trx_decimal: "\<exists>s. shows_decimal 6 (nat \<bar>sint n\<bar>) s \<and> sun_to_trx_string n = (if sint n < 0 then ''-'' @ s else s)"
proof -
  let ?m = "if sint n < 0 then - n else n"
  let ?n = "nat \<bar>sint n\<bar>"
  have parts: "unat (?m div 1000000) = ?n div 10 ^ 6" "unat (?m mod 1000000) = ?n mod 10 ^ 6"
    by (simp_all only: unat_div_distrib unat_mod_distrib unat_unsigned_abs) simp_all
  have zero: "?m mod 1000000 = 0 \<longleftrightarrow> ?n mod 10 ^ 6 = 0"
    unfolding parts(2) [symmetric] by (simp add: unat_eq_0)
  show ?thesis
    using shows_decimal_whole [of ?n 6] shows_decimal_fraction [of ?n 6] zero parts
    by (auto simp: sun_to_trx_string_def i64_unsigned_abs_def Let_def split: if_splits)
qed

lemma sint_saturating_add: "sint (saturating_add a b) = max (- (2 ^ 63)) (min (2 ^ 63 - 1) (sint a + sint b))"
proof -
  have range: "- (2 ^ 63) \<le> sint x \<and> sint x < 2 ^ 63" for x :: i64
    using sint_greater_eq [of x] sint_less [of x] by simp
  have of_int: "sint (word_of_int k :: i64) = k" if "- (2 ^ 63) \<le> k" "k < 2 ^ 63" for k
    using that unfolding sint_sbintrunc' by (simp add: signed_take_bit_int_eq_self_iff)
  have "sint (a + b) = sint a + sint b" if "- (2 ^ 63) \<le> sint a + sint b" "sint a + sint b < 2 ^ 63"
    using of_int [OF that] by simp
  then show ?thesis using of_int range by (auto simp: saturating_add_def Let_def max_def min_def)
qed

text \<open>The shown total is the sum, cut at the largest 64-bit value, when no count is negative.\<close>

lemma vote_total_exact:
  assumes "list_all (\<lambda>v. 0 \<le> sint (snd v)) vs"
  shows "sint (vote_total vs) = min (2 ^ 63 - 1) (sum_list (map (\<lambda>v. sint (snd v)) vs))"
proof -
  have "0 \<le> sint acc \<Longrightarrow> sint (fold (\<lambda>v acc. saturating_add acc (snd v)) vs acc)
      = min (2 ^ 63 - 1) (sint acc + sum_list (map (\<lambda>v. sint (snd v)) vs))" for acc
    using assms
  proof (induction vs arbitrary: acc)
    case Nil
    then show ?case using sint_less [of acc] by simp
  next
    case (Cons v vs)
    have sums: "0 \<le> sum_list (map (\<lambda>v. sint (snd v)) vs)"
      using Cons.prems(2) by (intro sum_list_nonneg) (auto simp: list_all_iff)
    have step: "sint (saturating_add acc (snd v)) = min (2 ^ 63 - 1) (sint acc + sint (snd v))"
      using Cons.prems by (simp add: sint_saturating_add)
    with Cons.prems have "0 \<le> sint (saturating_add acc (snd v))" by simp
    from Cons.IH [OF this] Cons.prems step sums show ?case by auto
  qed
  from this [of 0] show ?thesis by (simp add: vote_total_def)
qed

section \<open>Announced contracts\<close>

text \<open>The name a contract is shown under.\<close>

definition known_contracts :: "(string \<times> string) list" where
  "known_contracts =
     [(''type.googleapis.com/protocol.TransferContract'', ''TransferContract (TRX Transfer)''),
      (''type.googleapis.com/protocol.FreezeBalanceV2Contract'', ''FreezeBalanceV2 (Stake)''),
      (''type.googleapis.com/protocol.UnfreezeBalanceV2Contract'', ''UnfreezeBalanceV2 (Unstake)''),
      (''type.googleapis.com/protocol.WithdrawExpireUnfreezeContract'', ''WithdrawExpireUnfreeze (Claim Unfrozen)''),
      (''type.googleapis.com/protocol.WithdrawBalanceContract'', ''WithdrawBalance (Claim Rewards)''),
      (''type.googleapis.com/protocol.DelegateResourceContract'', ''DelegateResource''),
      (''type.googleapis.com/protocol.UnDelegateResourceContract'', ''UnDelegateResource''),
      (''type.googleapis.com/protocol.VoteWitnessContract'', ''Vote Witness'')]"

definition contract_title :: "TronAny option \<Rightarrow> string" where
  "contract_title p =
     (case p of
        None \<Rightarrow> ''<missing parameter>''
      | Some a \<Rightarrow> (case map_of known_contracts (any_type_url a) of
            Some t \<Rightarrow> t
          | None \<Rightarrow> any_type_url a @ '' (not fully decoded)''))"

text \<open>Every contract's rows are a title row and rows with other labels.\<close>

definition titled :: "string \<Rightarrow> tron_fields \<Rightarrow> bool" where
  "titled t r \<longleftrightarrow> (\<forall>fs. r = Inr fs \<longrightarrow> (\<exists>rest. map signable_payload_field fs = text_entry ''Contract Type'' t # rest
     \<and> list_all (\<lambda>f. field_label f \<noteq> ''Contract Type'') rest))"

definition untitled :: "tron_fields \<Rightarrow> bool" where
  "untitled r = list_all (\<lambda>f. field_label (signable_payload_field f) \<noteq> ''Contract Type'') (ok_fields r)"

lemma tron_text_eq: "tron_text lbl t = Inr [Annotated (text_entry lbl t) None None]"
  by (simp add: tron_text_def tron_row_def create_text_field_def text_entry_def)

lemma titled_seq: "list_all untitled rs \<Longrightarrow> titled t (seq_fields (tron_text ''Contract Type'' t # rs))"
  by (auto simp: titled_def seq_fields_Inr tron_text_eq untitled_def list_all_iff)

lemma titled_decoded: "(\<And>m. titled t (f m)) \<Longrightarrow> titled t (decoded name r f)"
  by (cases r) (simp_all add: decoded_def titled_def)

lemma untitled_rows [simp]:
  "untitled (Inr [])" "untitled (tron_text lbl t) \<longleftrightarrow> lbl \<noteq> ''Contract Type''"
  "untitled (tron_address lb lbl bs) \<longleftrightarrow> lbl \<noteq> ''Contract Type''"
  "lbl \<noteq> ''Contract Type'' \<Longrightarrow> untitled (tron_amount lbl n)"
  by (auto simp: untitled_def tron_text_eq text_entry_def field_label_def tron_address_def tron_row_def
      create_address_field_def tron_amount_def create_amount_field_def validate_number_string_eq Let_def)

lemma titled_rows:
  "titled ''TransferContract (TRX Transfer)'' (transfer_rows lb a)" "titled ''FreezeBalanceV2 (Stake)'' (freeze_rows lb b)"
  "titled ''UnfreezeBalanceV2 (Unstake)'' (unfreeze_rows lb c)" "titled ''DelegateResource'' (delegate_rows lb d)"
  "titled ''UnDelegateResource'' (undelegate_rows lb e)"
  by (auto simp: transfer_rows_def freeze_rows_def unfreeze_rows_def delegate_rows_def undelegate_rows_def intro!: titled_seq)

lemma untitled_and_then: "(\<And>x. untitled (g x)) \<Longrightarrow> untitled (and_then r g)"
  by (cases r) (simp_all add: untitled_def)

lemma untitled_preview:
  "untitled (Inr [Annotated (PreviewLayout \<lparr>fallback_text = t, label = ''Votes''\<rparr> l) None None])"
  by (simp add: untitled_def field_label_def)

lemma titled_votes: "titled ''Vote Witness'' (vote_rows lb c)"
  unfolding vote_rows_def Let_def tron_text_eq [of "''Summary''"]
  by (rule titled_seq, unfold list.pred_inject) (intro conjI untitled_and_then untitled_preview, simp_all)

lemma contract_titled: "titled (contract_title p) (contract_rows lb p)"
proof (cases p)
  case (Some a)
  have "titled t (tron_text ''Contract Type'' t)" for t by (simp add: titled_def tron_text_eq)
  then show ?thesis
    by (simp add: Some contract_rows_def contract_title_def decode_contract_def known_contracts_def titled_decoded titled_rows
        titled_votes titled_seq)
qed (simp add: contract_rows_def contract_title_def titled_def tron_text_eq)

lemma titled_filter:
  "list_all is_ok (map (contract_rows lb) cs) \<Longrightarrow>
     filter (\<lambda>f. field_label f = ''Contract Type'') (map signable_payload_field (concat (map (ok_fields \<circ> contract_rows lb) cs)))
       = map (\<lambda>c. text_entry ''Contract Type'' (contract_title c)) cs"
proof (induction cs)
  case (Cons c cs)
  then obtain fs where "contract_rows lb c = Inr fs" by (cases "contract_rows lb c") (simp_all add: is_ok_def)
  with contract_titled [of c lb] Cons show ?case
    by (auto simp: titled_def filter_empty_conv list_all_iff text_entry_def field_label_def)
qed simp

lemma announced_contracts:
  assumes "tron_convert_to_visual_sign_payload lb raw options = Inr p"
  shows "filter (\<lambda>f. field_label f = ''Contract Type'') (payload_fields p)
    = map (\<lambda>c. text_entry ''Contract Type'' (contract_title c)) (raw_contract raw)"
proof -
  let ?announce = "filter (\<lambda>f. field_label f = ''Contract Type'')"
  let ?head = "[tron_text ''Network'' ''Tron'',
     tron_text ''Timestamp'' (render_time_field lb (raw_timestamp raw) (tl_now_ms lb)),
     tron_text ''Expiration'' (render_time_field lb (raw_expiration raw) (tl_now_ms lb)),
     tron_amount ''Fee Limit'' (raw_fee_limit raw), tron_text ''Ref Block'' (tl_hex_encode lb (raw_ref_block_bytes raw)),
     tron_text ''Ref Block Hash'' (tl_hex_encode lb (raw_ref_block_hash raw))]"
  have rows: "list_all is_ok (map (contract_rows lb) (raw_contract raw))"
    and p: "payload_fields p = map signable_payload_field (concat (map ok_fields ?head))
      @ map signable_payload_field (concat (map (ok_fields \<circ> contract_rows lb) (raw_contract raw)))"
    using assms by (auto simp: tron_convert_to_visual_sign_payload_def and_then_Inr_iff seq_fields_Inr payload_new_def)
  have "list_all untitled ?head" by simp
  then have "?announce (map signable_payload_field (concat (map ok_fields ?head))) = []"
    unfolding untitled_def by (auto simp: filter_empty_conv list_all_iff)
  with titled_filter [OF rows] show ?thesis unfolding p filter_append by simp
qed

lemma contract_rows_shown:
  assumes "tron_convert_to_visual_sign_payload lb raw options = Inr p" and "c \<in> set (raw_contract raw)"
  shows "signable_payload_field ` set (ok_fields (contract_rows lb c)) \<subseteq> set (payload_fields p)"
proof -
  obtain head where "payload_fields p = head @ map signable_payload_field (concat (map (ok_fields \<circ> contract_rows lb) (raw_contract raw)))"
    using assms(1)
    by (auto simp: tron_convert_to_visual_sign_payload_def and_then_Inr_iff seq_fields_Inr payload_new_def simp flip: append_assoc)
  then have "set (payload_fields p) = set head \<union> signable_payload_field ` (\<Union>c\<in>set (raw_contract raw). set (ok_fields (contract_rows lb c)))"
    by simp
  with assms(2) show ?thesis by (auto intro: imageI)
qed

text \<open>Of the two readings of the bytes, the one that holds contracts is taken, the bare one first: a contract is lost only
  when neither reading has one.\<close>

lemma tron_bytes_choice:
  assumes "parse_tron_bytes lb bs = Inr raw"
  shows "pb_raw lb bs = Inr raw \<or> pb_transaction lb bs = Inr (Some raw)"
    and "pb_raw lb bs = Inr bare \<Longrightarrow> raw_contract bare \<noteq> [] \<Longrightarrow> raw = bare"
    and "pb_transaction lb bs = Inr (Some wrapped) \<Longrightarrow> raw_contract wrapped \<noteq> [] \<Longrightarrow> raw_contract raw \<noteq> []"
  using assms by (auto simp: parse_tron_bytes_def Let_def split: sum.splits option.splits if_splits)

section \<open>Safe payloads\<close>

text \<open>What the libraries document: hexadecimal, base58 and dates are plain text.\<close>

definition tron_documented :: "TronLibs \<Rightarrow> bool" where
  "tron_documented lb \<longleftrightarrow> (\<forall>bs. plain (tl_hex_encode lb bs) \<and> plain (tl_bs58check lb bs))
     \<and> (\<forall>ms d. tl_from_millis lb ms = Some d \<longrightarrow> plain d)"

definition rows_ok :: "tron_fields \<Rightarrow> bool" where
  "rows_ok r = list_all (\<lambda>f. list_all safe_text (annotated_strings f)) (ok_fields r)"

lemma rows_ok_seq: "list_all rows_ok rs \<Longrightarrow> rows_ok (seq_fields rs)"
proof (cases "seq_fields rs")
  case (Inr fs)
  assume "list_all rows_ok rs"
  then show ?thesis
    unfolding rows_ok_def Inr ok_fields_simps seq_fields_Inr [THEN iffD1, OF Inr, THEN conjunct2] by (auto simp: list_all_iff)
qed (simp add: rows_ok_def)

lemma rows_ok_and_then: "rows_ok (Inr []) \<Longrightarrow> (\<And>x. r = Inr x \<Longrightarrow> rows_ok (g x)) \<Longrightarrow> rows_ok (and_then r g)"
  by (cases r) (simp_all add: rows_ok_def)

lemma rows_ok_text: "safe_text lbl \<Longrightarrow> safe_text t \<Longrightarrow> rows_ok (tron_text lbl t)"
  by (simp add: rows_ok_def tron_text_eq text_entry_def)

lemma plain_int_str [simp]: "plain (int_str i)"
proof -
  have "CHR 0x5C \<notin> set (int_str i)" using int_str_plain [of "CHR 0x5C" i] by (auto simp: code_def)
  then show ?thesis using int_str_plain [of _ i] unfolding plain_def list_all_iff by blast
qed

lemma rows_ok_amount: "plain lbl \<Longrightarrow> rows_ok (tron_amount lbl n)"
proof -
  obtain s where "shows_decimal 6 (nat \<bar>sint n\<bar>) s" "sun_to_trx_string n = (if sint n < 0 then ''-'' @ s else s)"
    using trx_decimal by blast
  then have "signed_decimal (sun_to_trx_string n)" using shows_decimal_signed by auto
  moreover from this have "plain (sun_to_trx_string n)" by (rule plain_signed_decimal)
  moreover have "plain ''TRX''" by (simp add: plain_def code_def)
  ultimately show "plain lbl \<Longrightarrow> rows_ok (tron_amount lbl n)"
    by (auto simp: rows_ok_def tron_amount_def tron_row_def create_amount_field_def validate_number_string_eq Let_def unwrap_or_def
        intro!: plain_safe)
qed

lemma tron_plain:
  "plain ''Network''" "plain ''Tron''" "plain ''Timestamp''" "plain ''Expiration''" "plain ''Fee Limit''" "plain ''Ref Block''"
  "plain ''Ref Block Hash''" "plain ''Contract Type''" "plain ''From''" "plain ''To''" "plain ''Amount''" "plain ''Owner''"
  "plain ''Frozen Balance''" "plain ''Unfreeze Balance''" "plain ''Resource''" "plain ''Receiver''" "plain ''Balance''"
  "plain ''Lock''" "plain ''true''" "plain ''false''" "plain ''Lock Period''" "plain ''Vote ''" "plain '' (SR)''" "plain '' (Count)''"
  "plain ''(SR)''" "plain ''(Count)''" "plain ''votes across ''" "plain ''SRs''" "plain ''Vote Witness: ''" "plain ''Summary''"
  "plain ''Votes''" "plain ''Vote Witness''" "plain ''BANDWIDTH''" "plain ''ENERGY''" "plain ''TRON_POWER''" "plain ''UNKNOWN(''"
  "plain '')''" "plain ''<invalid Tron address: ''" "plain ''>''" "plain ''(''" "plain ''ms, ''" "plain ''ms)''" "plain ''just now''"
  "plain ''in ''" "plain ''about ''" "plain ''second''" "plain ''minute''" "plain ''hour''" "plain ''day''" "plain ''month''" "plain ''s''"
  "plain ''ago''" "plain ''invalid timestamp''" "plain ''TronTx''" "plain ''<missing parameter>''" "plain ''Tron Transaction''"
  by (simp_all add: plain_def code_def)

lemma plain_resource: "plain (resource_label r)"
  by (cases r rule: resource_label.cases) (simp_all add: tron_plain del: append.simps)

lemma rows_ok_address: "tron_documented lb \<Longrightarrow> plain lbl \<Longrightarrow> rows_ok (tron_address lb lbl bs)"
  by (auto simp: rows_ok_def tron_address_def tron_row_def create_address_field_def address_to_base58_def unwrap_or_def
      tron_documented_def tron_plain simp del: append.simps intro!: plain_safe)

lemma plain_time: "tron_documented lb \<Longrightarrow> plain (render_time_field lb ms now)"
proof -
  assume lb: "tron_documented lb"
  have "plain (format_timestamp_ms (tl_from_millis lb) ms)"
    using lb by (auto simp: format_timestamp_ms_def tron_documented_def tron_plain split: option.split)
  moreover have "plain r" if "format_relative_ms (tl_from_millis lb) ms now = Some r" for r
    using that by (auto simp: format_relative_ms_def relative_unit_def Let_def tron_plain simp del: append.simps
        split: option.splits if_splits)
  ultimately show ?thesis
    by (auto simp: render_time_field_def Let_def tron_plain simp del: append.simps split: option.split)
qed

lemma rows_ok_plain: "plain lbl \<Longrightarrow> plain t \<Longrightarrow> rows_ok (tron_text lbl t)"
  by (intro rows_ok_text plain_safe)

lemma rows_ok_Nil: "rows_ok (Inr [])"
  by (simp add: rows_ok_def)

lemmas rows_ok_intros = rows_ok_seq rows_ok_plain rows_ok_address rows_ok_amount rows_ok_Nil

lemma plain_titles:
  "plain ''TransferContract (TRX Transfer)''" "plain ''FreezeBalanceV2 (Stake)''" "plain ''UnfreezeBalanceV2 (Unstake)''"
  "plain ''WithdrawExpireUnfreeze (Claim Unfrozen)''" "plain ''WithdrawBalance (Claim Rewards)''" "plain ''DelegateResource''"
  "plain ''UnDelegateResource''"
  by (simp_all add: plain_def code_def)

lemma rows_ok_contracts:
  assumes "tron_documented lb"
  shows "rows_ok (transfer_rows lb a)" "rows_ok (freeze_rows lb b)" "rows_ok (unfreeze_rows lb c)"
    "rows_ok (delegate_rows lb d)" "rows_ok (undelegate_rows lb e)"
  using assms
  by (auto simp: transfer_rows_def freeze_rows_def unfreeze_rows_def delegate_rows_def undelegate_rows_def tron_plain plain_titles
      plain_resource intro!: rows_ok_intros)

lemma rows_ok_votes:
  assumes lb: "tron_documented lb"
  shows "rows_ok (vote_rows lb c)"
proof -
  let ?subtitle = "int_str (sint (vote_total (votes c))) @ '' votes across '' @ nat_str (length (votes c)) @ '' SRs''"
  have sub: "plain ?subtitle" by (simp add: tron_plain del: append.simps)
  have "rows_ok (seq_fields [tron_address lb (''Vote '' @ nat_str (i + 1) @ '' (SR)'') (fst v),
      tron_text (''Vote '' @ nat_str (i + 1) @ '' (Count)'') (int_str (sint (snd v)))])" for i v
    using lb by (auto simp: tron_plain simp del: append.simps intro!: rows_ok_intros)
  then have details: "rows_ok (seq_fields (map (\<lambda>(i, v). seq_fields
      [tron_address lb (''Vote '' @ nat_str (i + 1) @ '' (SR)'') (fst v),
       tron_text (''Vote '' @ nat_str (i + 1) @ '' (Count)'') (int_str (sint (snd v)))]) (enumerate 0 (votes c))))" (is "rows_ok ?r")
    by (intro rows_ok_seq) (auto simp: list_all_iff)
  have "rows_ok (Inr [Annotated (PreviewLayout \<lparr>fallback_text = ''Vote Witness: '' @ ?subtitle, label = ''Votes''\<rparr>
      (PreviewLayoutData (Some \<lparr>text_v2_text = ''Vote Witness''\<rparr>) (Some \<lparr>text_v2_text = ?subtitle\<rparr>)
        (Some (ListLayoutData [Annotated (text_entry ''Summary'' ?subtitle) None None])) (Some (ListLayoutData fs)))) None None])"
    if "?r = Inr fs" for fs
    using details sub unfolding that
    by (auto simp: rows_ok_def text_entry_def list_all_iff tron_plain plain_safe simp del: append.simps)
  then show ?thesis
    unfolding vote_rows_def Let_def tron_text_eq [of "''Summary''"] and_then.simps
    using lb by (intro rows_ok_seq) (auto simp: tron_plain simp del: append.simps intro!: rows_ok_intros rows_ok_and_then)
qed

lemma rows_ok_decoded: "(\<And>m. rows_ok (f m)) \<Longrightarrow> rows_ok (decoded name r f)"
  by (cases r) (simp_all add: decoded_def rows_ok_def)

lemma rows_ok_contract:
  assumes lb: "tron_documented lb" and t: "safe_text (contract_title p)"
  shows "rows_ok (contract_rows lb p)"
proof (cases p)
  case (Some a)
  have owner: "rows_ok (seq_fields [tron_text ''Contract Type'' title, tron_address lb ''Owner'' w])" if "plain title" for title w
    using lb that by (auto simp: tron_plain intro!: rows_ok_intros)
  have "rows_ok (tron_text ''Contract Type'' (any_type_url a @ '' (not fully decoded)''))"
    if "map_of known_contracts (any_type_url a) = None"
    using t that by (intro rows_ok_text) (simp_all add: Some contract_title_def tron_plain plain_safe)
  then show ?thesis
    using rows_ok_contracts [OF lb] rows_ok_votes [OF lb]
    by (auto simp: Some contract_rows_def decode_contract_def known_contracts_def owner plain_titles simp del: append.simps
        intro!: rows_ok_decoded)
qed (use t in \<open>simp add: contract_rows_def contract_title_def rows_ok_text tron_plain plain_safe\<close>)

section \<open>Samples\<close>

definition sample_tron_address :: bytes where
  "sample_tron_address = replicate 21 0x41"

definition sample_transfer :: TransferContract where
  "sample_transfer = \<lparr>transfer_owner = sample_tron_address, transfer_to = [], transfer_amount = 1500000\<rparr>"

definition sample_tron_raw :: TronRaw where
  "sample_tron_raw = \<lparr>raw_ref_block_bytes = [1], raw_ref_block_hash = [2], raw_expiration = 0, raw_timestamp = 0, raw_fee_limit = 0,
     raw_contract = [Some \<lparr>any_type_url = ''type.googleapis.com/protocol.TransferContract'', any_value = [7]\<rparr>, None]\<rparr>"

definition sample_tron :: TronLibs where
  "sample_tron = \<lparr>pb_raw = (\<lambda>_. Inr sample_tron_raw), pb_transaction = (\<lambda>_. Inr None), pb_transfer = (\<lambda>_. Inr sample_transfer),
     pb_freeze = (\<lambda>_. Inl ''bad''), pb_unfreeze = (\<lambda>_. Inl ''bad''), pb_withdraw_expire = (\<lambda>_. Inl ''bad''),
     pb_withdraw_balance = (\<lambda>_. Inl ''bad''), pb_delegate = (\<lambda>_. Inl ''bad''), pb_undelegate = (\<lambda>_. Inl ''bad''),
     pb_vote = (\<lambda>_. Inl ''bad''), tl_hex_decode = (\<lambda>_. Inr []), tl_hex_encode = (\<lambda>_. ''00''), tl_base64 = (\<lambda>_. Inl ''bad''),
     tl_bs58check = (\<lambda>_. ''T1''), tl_from_millis = (\<lambda>_. Some ''1970''), tl_now_ms = 0\<rparr>"

lemma sample_tron_documented: "tron_documented sample_tron"
  by (simp add: tron_documented_def sample_tron_def plain_def code_def)

lemma tron_amount_eq: "\<exists>s. shows_decimal 6 (nat \<bar>sint n\<bar>) s
  \<and> tron_amount lbl n = Inr [Annotated (amount_entry lbl (if sint n < 0 then ''-'' @ s else s) ''TRX'') None None]"
proof -
  obtain s where s: "shows_decimal 6 (nat \<bar>sint n\<bar>) s" "sun_to_trx_string n = (if sint n < 0 then ''-'' @ s else s)"
    using trx_decimal by blast
  then have "signed_decimal (sun_to_trx_string n)" using shows_decimal_signed by auto
  then have "tron_amount lbl n = Inr [Annotated (amount_entry lbl (sun_to_trx_string n) ''TRX'') None None]"
    by (simp add: tron_amount_def tron_row_def create_amount_field_def validate_number_string_eq amount_entry_def)
  with s show ?thesis by auto
qed

lemma tron_address_eq: "tron_address lb lbl bs = Inr [Annotated (address_entry lbl (address_to_base58 lb bs)) None None]"
  by (simp add: tron_address_def tron_row_def create_address_field_def address_entry_def unwrap_or_def)

lemma sample_tron_converts: "\<exists>p. tron_convert_to_visual_sign_payload sample_tron sample_tron_raw options = Inr p"
proof -
  have amount: "\<exists>f. tron_amount lbl n = Inr [f]" for lbl n using tron_amount_eq by blast
  obtain f where "tron_amount ''Fee Limit'' 0 = Inr [f]" using amount by blast
  moreover obtain g where "tron_amount ''Amount'' 1500000 = Inr [g]" using amount by blast
  moreover have "pb_transfer sample_tron v = Inr sample_transfer" "transfer_amount sample_transfer = 1500000" for v
    by (simp_all add: sample_tron_def sample_transfer_def)
  ultimately show ?thesis
    by (simp add: tron_convert_to_visual_sign_payload_def sample_tron_raw_def seq_fields.simps tron_text_eq contract_rows_def
        decode_contract_def decoded_def transfer_rows_def tron_address_eq)
qed

section \<open>Properties\<close>

text \<open>C29: a Tron payload hides no contract and fails the charset check for one reason only. Its rows labelled
  \<^verbatim>\<open>Contract Type\<close> are exactly one per contract of the transaction, in order, each with the contract's name, or its type
  URL marked as not fully decoded; and it passes the charset check exactly when the title of the request and the type URLs
  shown are safe text, whatever amounts, addresses, times and votes it carries.\<close>

theorem tron_payload_exact:
  assumes lb: "tron_documented lb" and p: "tron_convert_to_visual_sign_payload lb raw options = Inr p"
  shows "filter (\<lambda>f. field_label f = ''Contract Type'') (payload_fields p)
      = map (\<lambda>c. text_entry ''Contract Type'' (contract_title c)) (raw_contract raw)
    \<and> (validate_charset po describe p = Inr () \<longleftrightarrow>
        safe_text (unwrap_or ''Tron Transaction'' (transaction_name options))
        \<and> list_all (\<lambda>c. safe_text (contract_title c)) (raw_contract raw))"
proof -
  obtain fields where rows: "seq_fields ([tron_text ''Network'' ''Tron'',
      tron_text ''Timestamp'' (render_time_field lb (raw_timestamp raw) (tl_now_ms lb)),
      tron_text ''Expiration'' (render_time_field lb (raw_expiration raw) (tl_now_ms lb)),
      tron_amount ''Fee Limit'' (raw_fee_limit raw), tron_text ''Ref Block'' (tl_hex_encode lb (raw_ref_block_bytes raw)),
      tron_text ''Ref Block Hash'' (tl_hex_encode lb (raw_ref_block_hash raw))]
      @ map (contract_rows lb) (raw_contract raw)) = Inr fields" (is "seq_fields ?rows = _")
    and shape: "p = payload_new 0 (unwrap_or ''Tron Transaction'' (transaction_name options)) None
      (map signable_payload_field fields) ''TronTx''"
    using p by (auto simp: tron_convert_to_visual_sign_payload_def and_then_Inr_iff)
  let ?title = "unwrap_or ''Tron Transaction'' (transaction_name options)"
  have strings: "validate_charset po describe p = Inr () \<longleftrightarrow> safe_text ?title \<and> list_all (\<lambda>f. list_all safe_text (field_strings f)) (payload_fields p)"
    by (auto simp: validate_charset_safe payload_strings_def shape payload_new_def list_all_iff unwrap_or_def plain_safe tron_plain
        int_str_def)
  have "list_all (\<lambda>f. list_all safe_text (field_strings f)) (payload_fields p)"
    if "list_all (\<lambda>c. safe_text (contract_title c)) (raw_contract raw)"
  proof -
    have "list_all rows_ok ?rows"
      using that lb rows_ok_contract [OF lb] plain_time [OF lb]
      by (auto simp: list_all_iff tron_plain tron_documented_def intro!: rows_ok_intros)
    then have "rows_ok (Inr fields)" using rows_ok_seq [of ?rows] unfolding rows by simp
    moreover have "set (field_strings (signable_payload_field f)) \<subseteq> set (annotated_strings f)" for f by (cases f) auto
    ultimately show ?thesis by (fastforce simp: rows_ok_def shape payload_new_def list_all_iff)
  qed
  moreover have "list_all (\<lambda>c. safe_text (contract_title c)) (raw_contract raw)"
    if "list_all (\<lambda>f. list_all safe_text (field_strings f)) (payload_fields p)"
  proof -
    have "text_entry ''Contract Type'' (contract_title c) \<in> set (payload_fields p)" if "c \<in> set (raw_contract raw)" for c
    proof -
      have "text_entry ''Contract Type'' (contract_title c) \<in> set (filter (\<lambda>f. field_label f = ''Contract Type'') (payload_fields p))"
        using that unfolding announced_contracts [OF p] by simp
      then show ?thesis by simp
    qed
    with that show ?thesis by (fastforce simp: list_all_iff text_entry_def)
  qed
  ultimately show ?thesis using announced_contracts [OF p] strings by blast
qed

theorem tron_payload_exact_witness:
  "\<exists>p. tron_convert_to_visual_sign_payload sample_tron sample_tron_raw sample_options = Inr p
    \<and> filter (\<lambda>f. field_label f = ''Contract Type'') (payload_fields p)
      = [text_entry ''Contract Type'' ''TransferContract (TRX Transfer)'', text_entry ''Contract Type'' ''<missing parameter>'']
    \<and> validate_charset True (\<lambda>_. ''bad'') p = Inr ()"
proof -
  obtain p where p: "tron_convert_to_visual_sign_payload sample_tron sample_tron_raw sample_options = Inr p"
    using sample_tron_converts by blast
  have titles: "map contract_title (raw_contract sample_tron_raw) = [''TransferContract (TRX Transfer)'', ''<missing parameter>'']"
    by (simp add: sample_tron_raw_def contract_title_def known_contracts_def)
  then have rows: "map (\<lambda>c. text_entry ''Contract Type'' (contract_title c)) (raw_contract sample_tron_raw)
      = [text_entry ''Contract Type'' ''TransferContract (TRX Transfer)'', text_entry ''Contract Type'' ''<missing parameter>'']"
    by auto
  have "safe_text (unwrap_or ''Tron Transaction'' (transaction_name sample_options))"
    by (simp add: sample_options_def unwrap_or_def plain_safe tron_plain)
  moreover have "list_all (\<lambda>c. safe_text (contract_title c)) (raw_contract sample_tron_raw)"
    using titles by (auto simp: list_all_iff plain_safe tron_plain plain_titles)
  ultimately show ?thesis
    using tron_payload_exact [OF sample_tron_documented p, of True "\<lambda>_. ''bad''"] p unfolding rows by blast
qed

text \<open>A TRX transfer is shown exactly: the payload of a transaction that holds a transfer contract has rows with its
  sender, its recipient and its amount, and the amount is a decimal whose value is exactly the number of SUN, for every
  64-bit value, negative ones and the least one included.\<close>

lemma tron_transfer_exact:
  assumes c: "Some \<lparr>any_type_url = ''type.googleapis.com/protocol.TransferContract'', any_value = v\<rparr> \<in> set (raw_contract raw)"
    and t: "pb_transfer lb v = Inr t" and p: "tron_convert_to_visual_sign_payload lb raw options = Inr p"
  shows "\<exists>s. shows_decimal 6 (nat \<bar>sint (transfer_amount t)\<bar>) s
    \<and> {address_entry ''From'' (address_to_base58 lb (transfer_owner t)), address_entry ''To'' (address_to_base58 lb (transfer_to t)),
       amount_entry ''Amount'' (if sint (transfer_amount t) < 0 then ''-'' @ s else s) ''TRX''} \<subseteq> set (payload_fields p)"
proof -
  obtain s where s: "shows_decimal 6 (nat \<bar>sint (transfer_amount t)\<bar>) s"
      "tron_amount ''Amount'' (transfer_amount t)
        = Inr [Annotated (amount_entry ''Amount'' (if sint (transfer_amount t) < 0 then ''-'' @ s else s) ''TRX'') None None]"
    using tron_amount_eq by blast
  have "contract_rows lb (Some \<lparr>any_type_url = ''type.googleapis.com/protocol.TransferContract'', any_value = v\<rparr>) =
      Inr [Annotated (text_entry ''Contract Type'' ''TransferContract (TRX Transfer)'') None None,
        Annotated (address_entry ''From'' (address_to_base58 lb (transfer_owner t))) None None,
        Annotated (address_entry ''To'' (address_to_base58 lb (transfer_to t))) None None,
        Annotated (amount_entry ''Amount'' (if sint (transfer_amount t) < 0 then ''-'' @ s else s) ''TRX'') None None]" (is "_ = Inr ?rows")
    using t s(2) by (simp add: contract_rows_def decode_contract_def decoded_def transfer_rows_def seq_fields.simps tron_text_eq
        tron_address_eq)
  then have "signable_payload_field ` set ?rows \<subseteq> set (payload_fields p)"
    using contract_rows_shown [OF p c] by simp
  with s(1) show ?thesis by (intro exI [of _ s]) simp
qed

end
