(* ===== verification/UnspecifiedConvert.thy ===== *)
theory UnspecifiedConvert
  imports Registry
begin

text \<open>
  \<^verbatim>\<open>chain_parsers/visualsign-unspecified/src/lib.rs\<close>: the converter of transactions of no known chain, which shows
  its input as it is and is the template for a new chain.
\<close>

record UnspecifiedTransactionWrapper =
  raw_data :: string

definition wrapper_new :: "string \<Rightarrow> UnspecifiedTransactionWrapper" where
  "wrapper_new s = \<lparr>raw_data = s\<rparr>"

definition unspecified_from_string :: "string \<Rightarrow> (TransactionParseError, UnspecifiedTransactionWrapper) result" where
  "unspecified_from_string s = Inr \<lparr>raw_data = s\<rparr>"

definition unspecified_transaction_type :: "UnspecifiedTransactionWrapper \<Rightarrow> string" where
  "unspecified_transaction_type w = ''Unspecified''"

definition unspecified_to_visual_sign_payload ::
  "UnspecifiedTransactionWrapper \<Rightarrow> VisualSignOptions \<Rightarrow> (VisualSignError, ConversionResult) result" where
  "unspecified_to_visual_sign_payload w options =
     Inr (conversion_new (payload_new 0 ''Unspecified Transaction'' None
       [TextV2 \<lparr>fallback_text = ''Unspecified Chain'', label = ''Network''\<rparr> \<lparr>text_v2_text = ''Unspecified Chain''\<rparr>,
        TextV2 \<lparr>fallback_text = ''Raw Data'', label = ''Raw Data''\<rparr> \<lparr>text_v2_text = raw_data w\<rparr>]
       ''fill in parsed signable payload''))"

definition unspecified_vsp_converter :: "UnspecifiedTransactionWrapper Converter" where
  "unspecified_vsp_converter =
     \<lparr>from_string = unspecified_from_string, to_visual_sign_payload = unspecified_to_visual_sign_payload\<rparr>"

definition unspecified_to_visual_sign :: "string \<Rightarrow> VisualSignOptions \<Rightarrow> (VisualSignError, SignablePayload) result" where
  "unspecified_to_visual_sign s options =
     and_then (unspecified_to_visual_sign_payload (wrapper_new s) options) (\<lambda>r. Inr (result_payload r))"

definition unspecified_string_to_visual_sign ::
  "bool \<Rightarrow> (completeness_error \<Rightarrow> string) \<Rightarrow> string \<Rightarrow> VisualSignOptions \<Rightarrow> (VisualSignError, SignablePayload) result" where
  "unspecified_string_to_visual_sign po describe s options =
     and_then (to_visual_sign_payload_from_string po describe unspecified_vsp_converter s options) (\<lambda>r. Inr (result_payload r))"

text \<open>The string entry point shows the input exactly when the input is safe text; the other entry point skips the
  check and shows any input.\<close>

lemma unspecified_checked:
  "(\<exists>p. unspecified_string_to_visual_sign po describe s options = Inr p) \<longleftrightarrow> safe_text s"
  "unspecified_string_to_visual_sign po describe s options = Inr p \<Longrightarrow> unspecified_to_visual_sign s options = Inr p"
proof -
  have safe: "validate_charset po describe (result_payload r) = Inr () \<longleftrightarrow> safe_text s"
    if "unspecified_to_visual_sign_payload \<lparr>raw_data = s\<rparr> options = Inr r" for r
    using that by (auto simp: unspecified_to_visual_sign_payload_def conversion_new_def validate_charset_safe payload_strings_def
        payload_new_def unwrap_or_def safe_text_def safe_char_def code_def int_str_def nat_str.simps digit_char_def)
  show "(\<exists>p. unspecified_string_to_visual_sign po describe s options = Inr p) \<longleftrightarrow> safe_text s"
    using safe by (simp add: unspecified_string_to_visual_sign_def to_visual_sign_payload_from_string_def
        to_validated_visual_sign_payload_def unspecified_vsp_converter_def unspecified_from_string_def and_then_Inr_iff)
      (simp add: unspecified_to_visual_sign_payload_def)
  show "unspecified_string_to_visual_sign po describe s options = Inr p \<Longrightarrow> unspecified_to_visual_sign s options = Inr p"
    by (auto simp: unspecified_string_to_visual_sign_def to_visual_sign_payload_from_string_def wrapper_new_def
        to_validated_visual_sign_payload_def unspecified_vsp_converter_def unspecified_from_string_def and_then_Inr_iff
        unspecified_to_visual_sign_def)
qed

end
