(* ===== verification/MappingParser.thy ===== *)
theory MappingParser
  imports StdText
begin

text \<open>
  \<^verbatim>\<open>parser/cli-core/src/mapping_parser.rs\<close>: mapping strings of the command line and the map built
  from them. The file system is the parameter \<open>read_take\<close> (a bounded read of a path, with the
  error text), and \<^verbatim>\<open>serde_json\<close>'s validity check the parameter \<open>json_valid\<close>. The lines written to
  standard error are not modelled.
\<close>

record MappingComponents =
  mapping_name :: string
  mapping_path :: string
  mapping_identifier :: string

definition parse_mapping :: "string \<Rightarrow> (string, MappingComponents) result" where
  "parse_mapping mapping_str =
     (let invalid = ''Invalid mapping format (expected name:path:identifier): '' @ mapping_str
      in and_then (ok_or invalid (rsplit_once (CHR '':'') mapping_str)) (\<lambda>(name_and_path, identifier).
         and_then (ok_or invalid (split_once (CHR '':'') name_and_path)) (\<lambda>(name, path).
           if name = [] \<or> path = [] \<or> identifier = []
           then Inl (''Mapping components cannot be empty: '' @ mapping_str)
           else Inr \<lparr>mapping_name = name, mapping_path = path, mapping_identifier = identifier\<rparr>)))"

definition MAX_JSON_FILE_SIZE :: nat where
  "MAX_JSON_FILE_SIZE = 10 * 1024 * 1024"

definition load_json_file ::
  "(string \<Rightarrow> nat \<Rightarrow> (string, string) result) \<Rightarrow> (string \<Rightarrow> (string, unit) result) \<Rightarrow> string
    \<Rightarrow> (string, string) result" where
  "load_json_file read_take json_valid path =
     and_then (map_err (\<lambda>e. ''Failed to read file at '' @ path @ '': '' @ e)
         (read_take path (MAX_JSON_FILE_SIZE + 1))) (\<lambda>json_content.
       if length json_content > MAX_JSON_FILE_SIZE
       then Inl (''File '' @ path @ '' exceeds maximum size (> '' @ nat_str MAX_JSON_FILE_SIZE @ '' bytes)'')
       else and_then (map_err (\<lambda>e. ''Invalid JSON in file '' @ path @ '': '' @ e) (json_valid json_content))
              (\<lambda>_. Inr json_content))"

text \<open>One mapping of the loop: the identifier and value it contributes, when it contributes one.\<close>

definition load_one ::
  "(string \<Rightarrow> (string, MappingComponents) result) \<Rightarrow> (string \<Rightarrow> (string, unit) result)
    \<Rightarrow> (string \<Rightarrow> (string, string) result) \<Rightarrow> (MappingComponents \<Rightarrow> string \<Rightarrow> (string, 'v) result)
    \<Rightarrow> string \<Rightarrow> (string \<times> 'v) option" where
  "load_one parse validate_identifier load build_value mapping =
     (case parse mapping of
        Inl e \<Rightarrow> None
      | Inr c \<Rightarrow>
          (case validate_identifier (mapping_identifier c) of
             Inl e \<Rightarrow> None
           | Inr _ \<Rightarrow>
               (case load (mapping_path c) of
                  Inl e \<Rightarrow> None
                | Inr json \<Rightarrow>
                    (case build_value c json of
                       Inl e \<Rightarrow> None
                     | Inr v \<Rightarrow> Some (mapping_identifier c, v)))))"

fun load_loop ::
  "(string \<Rightarrow> (string \<times> 'v) option) \<Rightarrow> string list \<Rightarrow> (string \<times> 'v) list \<Rightarrow> nat
    \<Rightarrow> (string \<times> 'v) list \<times> nat" where
  "load_loop one [] m valid_count = (m, valid_count)"
| "load_loop one (mapping # mappings) m valid_count =
     (case one mapping of
        None \<Rightarrow> load_loop one mappings m valid_count
      | Some (k, v) \<Rightarrow>
          load_loop one mappings (bt_insert k v m)
            (if map_of m k = None then valid_count + 1 else valid_count))"

definition load_mappings ::
  "string list \<Rightarrow> (string \<Rightarrow> (string, MappingComponents) result) \<Rightarrow> (string \<Rightarrow> (string, unit) result)
    \<Rightarrow> (string \<Rightarrow> (string, string) result) \<Rightarrow> (MappingComponents \<Rightarrow> string \<Rightarrow> (string, 'v) result)
    \<Rightarrow> (string \<times> 'v) list \<times> nat" where
  "load_mappings mappings parse validate_identifier load build_value =
     load_loop (load_one parse validate_identifier load build_value) mappings [] 0"

section \<open>Facts\<close>

lemma parse_mapping_iff:
  "parse_mapping s = Inr c \<longleftrightarrow>
     s = mapping_name c @ '':'' @ mapping_path c @ '':'' @ mapping_identifier c
     \<and> CHR '':'' \<notin> set (mapping_name c) \<and> CHR '':'' \<notin> set (mapping_identifier c)
     \<and> mapping_name c \<noteq> [] \<and> mapping_path c \<noteq> [] \<and> mapping_identifier c \<noteq> []"
  (is "_ \<longleftrightarrow> ?spec")
proof
  assume "parse_mapping s = Inr c"
  then show ?spec
    by (auto simp: parse_mapping_def Let_def and_then_Inr_iff rsplit_once_Some split_once_Some split: if_splits)
next
  assume ?spec
  then have "rsplit_once (CHR '':'') s = Some (mapping_name c @ '':'' @ mapping_path c, mapping_identifier c)"
    and "split_once (CHR '':'') (mapping_name c @ '':'' @ mapping_path c) = Some (mapping_name c, mapping_path c)"
    by (simp_all add: rsplit_once_Some split_once_Some)
  with \<open>?spec\<close> show "parse_mapping s = Inr c"
    by (cases c) (simp add: parse_mapping_def Let_def ok_or_def)
qed

lemma length_bt_insert:
  "ssorted m \<Longrightarrow> length (bt_insert k v m) = (if map_of m k = None then Suc (length m) else length m)"
proof (induction m)
  case (Cons e m)
  then show ?case by (cases e) (auto simp: map_of_eq_None_iff)
qed simp

lemma load_loop_inv:
  assumes "ssorted m" and "n = length m" and "load_loop one ms m n = (m', n')"
  shows "ssorted m' \<and> n' = length m'
    \<and> map_of m' = map_of m ++ map_of (rev (List.map_filter one ms))"
  using assms
proof (induction ms arbitrary: m n)
  case (Cons x ms)
  show ?case
  proof (cases "one x")
    case None
    with Cons show ?thesis by (simp add: map_filter_simps)
  next
    case (Some e)
    obtain k v where e: "e = (k, v)" by force
    have "ssorted m' \<and> n' = length m' \<and> map_of m' = map_of (bt_insert k v m) ++ map_of (rev (List.map_filter one ms))"
      by (rule Cons.IH) (use Cons.prems Some e in \<open>simp_all add: ssorted_bt_insert length_bt_insert\<close>)
    with Some e Cons.prems show ?thesis
      by (auto simp: map_of_bt_insert map_filter_simps map_add_def fun_eq_iff split: option.splits)
  qed
qed (simp add: map_filter_simps)

section \<open>Properties\<close>

text \<open>A mapping string parses to three components exactly when it is those components joined by
  colons, none of them empty and no colon in the name or the identifier; the path may have colons.\<close>

lemma parse_mapping_exact:
  "parse_mapping s = Inr c \<longleftrightarrow>
     s = mapping_name c @ '':'' @ mapping_path c @ '':'' @ mapping_identifier c
     \<and> CHR '':'' \<notin> set (mapping_name c) \<and> CHR '':'' \<notin> set (mapping_identifier c)
     \<and> mapping_name c \<noteq> [] \<and> mapping_path c \<noteq> [] \<and> mapping_identifier c \<noteq> []"
  by (rule parse_mapping_iff)

text \<open>The count reported for loaded mappings is the number of distinct identifiers, and an
  identifier's value is that of its last accepted mapping.\<close>

lemma load_mappings_exact:
  "case load_mappings mappings parse validate_identifier load build_value of (m, valid_count) \<Rightarrow>
     ssorted m \<and> valid_count = length m
     \<and> map_of m = map_of (rev (List.map_filter (load_one parse validate_identifier load build_value) mappings))"
  using load_loop_inv [of "[]" 0 "load_one parse validate_identifier load build_value" mappings]
  by (auto simp: load_mappings_def split: prod.splits)

end
