(* ===== verification/GatewayAuth.thy ===== *)
theory GatewayAuth
  imports Prelude
begin

text \<open>
  \<^verbatim>\<open>parser/gateway/src/auth.rs\<close> and \<^verbatim>\<open>env_util.rs\<close>: the bearer-token gate of the HTTP gateway. The
  process environment and the file system are the parameters \<open>env\<close> and \<open>read_take\<close>, the legality
  check of the \<^verbatim>\<open>http\<close> crate is \<open>header_ok\<close>. The constant-time comparison is equality of bytes;
  timing is not modelled. The middleware's response is the decision together with the status.
\<close>

section \<open>Environment and files\<close>

datatype VarError = NotPresent | NotUnicodeVar

definition checked_env_var ::
  "(string \<Rightarrow> (VarError, string) result) \<Rightarrow> string \<Rightarrow> (string \<Rightarrow> 'e) \<Rightarrow> ('e, string option) result" where
  "checked_env_var env key not_unicode =
     (case env key of
        Inr v \<Rightarrow> Inr (Some v)
      | Inl NotPresent \<Rightarrow> Inr None
      | Inl NotUnicodeVar \<Rightarrow> Inl (not_unicode key))"

definition read_bounded_file ::
  "(string \<Rightarrow> nat \<Rightarrow> (string, string) result) \<Rightarrow> string \<Rightarrow> nat \<Rightarrow> (string \<Rightarrow> string \<Rightarrow> 'e)
    \<Rightarrow> (string \<Rightarrow> nat \<Rightarrow> 'e) \<Rightarrow> ('e, string) result" where
  "read_bounded_file read_take path max_size read_err too_large_err =
     and_then (map_err (read_err path) (read_take path (max_size + 1))) (\<lambda>contents.
       if length contents > max_size then Inl (too_large_err path max_size) else Inr contents)"

section \<open>The token\<close>

definition MIN_TOKEN_BYTES :: nat where
  "MIN_TOKEN_BYTES = 16"

definition MAX_BEARER_FILE_SIZE :: nat where
  "MAX_BEARER_FILE_SIZE = 4096"

datatype AuthError =
    BothSet
  | ReadFile string string
  | FileTooLarge string nat
  | Empty string
  | NotUnicode string
  | InvalidHeaderBytes string
  | TooShort nat nat

fun display_auth_error :: "AuthError \<Rightarrow> string" where
  "display_auth_error BothSet =
     ''both GATEWAY_AUTH_BEARER_TOKEN and GATEWAY_AUTH_BEARER_FILE are set; choose one''"
| "display_auth_error (ReadFile p m) = ''failed to read GATEWAY_AUTH_BEARER_FILE='' @ p @ '': '' @ m"
| "display_auth_error (FileTooLarge p n) =
     ''GATEWAY_AUTH_BEARER_FILE='' @ p @ '' exceeds maximum size ('' @ nat_str n @ '' bytes)''"
| "display_auth_error (Empty origin) = ''bearer token from '' @ origin @ '' is empty after trim''"
| "display_auth_error (NotUnicode var) = var @ '' contains invalid (non-UTF-8) bytes''"
| "display_auth_error (InvalidHeaderBytes origin) =
     ''bearer token from '' @ origin @ '' contains bytes illegal in an HTTP header value''"
| "display_auth_error (TooShort n m) =
     ''bearer token is '' @ nat_str n @ '' bytes; must be at least '' @ nat_str m @ '' bytes''"

record BearerToken =
  token_bytes :: bytes

definition trim_and_store ::
  "(string \<Rightarrow> bool) \<Rightarrow> string \<Rightarrow> string \<Rightarrow> (AuthError, BearerToken option) result" where
  "trim_and_store header_ok raw origin =
     (let trimmed = trim raw
      in if trimmed = [] then Inl (Empty origin)
         else if \<not> header_ok trimmed \<or> \<not> is_ascii trimmed then Inl (InvalidHeaderBytes origin)
         else Inr (Some \<lparr>token_bytes = as_bytes trimmed\<rparr>))"

definition from_sources ::
  "(string \<Rightarrow> bool) \<Rightarrow> string option \<Rightarrow> string option \<Rightarrow> (AuthError, BearerToken option) result" where
  "from_sources header_ok inline file_contents =
     (case (inline, file_contents) of
        (None, None) \<Rightarrow> Inr None
      | (Some _, Some _) \<Rightarrow> Inl BothSet
      | (Some raw, None) \<Rightarrow> trim_and_store header_ok raw ''GATEWAY_AUTH_BEARER_TOKEN''
      | (None, Some raw) \<Rightarrow> trim_and_store header_ok raw ''GATEWAY_AUTH_BEARER_FILE'')"

definition byte_len :: "BearerToken \<Rightarrow> nat" where
  "byte_len t = length (token_bytes t)"

definition read_bearer_file ::
  "(string \<Rightarrow> nat \<Rightarrow> (string, string) result) \<Rightarrow> string \<Rightarrow> (AuthError, string) result" where
  "read_bearer_file read_take path = read_bounded_file read_take path MAX_BEARER_FILE_SIZE ReadFile FileTooLarge"

definition read_optional_file ::
  "(string \<Rightarrow> nat \<Rightarrow> (string, string) result) \<Rightarrow> string option \<Rightarrow> (AuthError, string option) result" where
  "read_optional_file read_take file_path =
     (case file_path of
        None \<Rightarrow> Inr None
      | Some path \<Rightarrow> and_then (read_bearer_file read_take path) (\<lambda>s. Inr (Some s)))"

definition token_from_env ::
  "(string \<Rightarrow> (VarError, string) result) \<Rightarrow> (string \<Rightarrow> nat \<Rightarrow> (string, string) result) \<Rightarrow> (string \<Rightarrow> bool)
    \<Rightarrow> (AuthError, BearerToken option) result" where
  "token_from_env env read_take header_ok =
     and_then (checked_env_var env ''GATEWAY_AUTH_BEARER_TOKEN'' NotUnicode) (\<lambda>inline.
     and_then (checked_env_var env ''GATEWAY_AUTH_BEARER_FILE'' NotUnicode) (\<lambda>file_path.
       if inline \<noteq> None \<and> file_path \<noteq> None then Inl BothSet
       else and_then (read_optional_file read_take file_path) (\<lambda>file_contents.
            and_then (from_sources header_ok inline file_contents) (\<lambda>token.
              case token of
                Some t \<Rightarrow> if byte_len t < MIN_TOKEN_BYTES then Inl (TooShort (byte_len t) MIN_TOKEN_BYTES)
                          else Inr token
              | None \<Rightarrow> Inr token))))"

definition token_matches :: "BearerToken \<Rightarrow> bytes \<Rightarrow> bool" where
  "token_matches t candidate =
     (if length candidate \<noteq> length (token_bytes t) then False else candidate = token_bytes t)"

section \<open>The decision\<close>

datatype AuthOutcome = Allow | Deny

text \<open>\<^verbatim>\<open>split_once(char::is_whitespace)\<close>: at the first whitespace character.\<close>

fun split_whitespace_once :: "string \<Rightarrow> (string \<times> string) option" where
  "split_whitespace_once [] = None"
| "split_whitespace_once (c # s) =
     (if ws_prefix_len (c # s) > 0 then Some ([], drop (ws_prefix_len (c # s)) (c # s))
      else map_option (\<lambda>(a, b). (c # a, b)) (split_whitespace_once s))"

definition split_auth_scheme :: "string \<Rightarrow> (string \<times> string) option" where
  "split_auth_scheme header = map_option (\<lambda>(scheme, rest). (scheme, trim_start rest)) (split_whitespace_once header)"

definition evaluate_request :: "string \<Rightarrow> string option \<Rightarrow> BearerToken \<Rightarrow> AuthOutcome" where
  "evaluate_request path authorization_header token =
     (if path = ''/health'' then Allow
      else (case Option.bind authorization_header split_auth_scheme of
              Some (scheme, rest) \<Rightarrow>
                if eq_ignore_ascii_case scheme ''bearer''
                then (if token_matches token (as_bytes rest) then Allow else Deny)
                else Deny
            | None \<Rightarrow> Deny))"

text \<open>The middleware: the request reaches the handler, or a 401 with the challenge goes back.\<close>

datatype Middleware = Next | Respond nat "(string \<times> string) list"

definition unauthorized :: "Middleware" where
  "unauthorized =
     Respond 401 [(''www-authenticate'', ''Bearer realm='' @ [CHR 0x22] @ ''x402-gateway'' @ [CHR 0x22])]"

definition require_bearer_token :: "BearerToken \<Rightarrow> string \<Rightarrow> string option \<Rightarrow> Middleware" where
  "require_bearer_token token path header_value =
     (case evaluate_request path header_value token of Allow \<Rightarrow> Next | Deny \<Rightarrow> unauthorized)"

section \<open>Facts\<close>

lemma token_matches_iff: "token_matches t c \<longleftrightarrow> c = token_bytes t"
  by (auto simp: token_matches_def)

lemma evaluate_Allow_iff:
  "evaluate_request path h token = Allow \<longleftrightarrow>
     path = ''/health''
     \<or> (\<exists>header scheme rest. h = Some header \<and> split_auth_scheme header = Some (scheme, rest)
          \<and> eq_ignore_ascii_case scheme ''bearer'' \<and> as_bytes rest = token_bytes token)"
  by (cases h) (auto simp: evaluate_request_def token_matches_iff split: option.splits if_splits)

lemma ws_prefix_len_0:
  "ws_prefix_len s = 0 \<longleftrightarrow> (\<forall>e\<in>set ws_encodings. take (length e) (map code s) \<noteq> e)"
proof -
  have "0 < length e" if "e \<in> set ws_encodings" for e using that by (auto simp: ws_encodings_def)
  then show ?thesis
    unfolding ws_prefix_len_def
    by (auto simp: find_None_iff find_Some_iff split: option.splits)
qed

lemma ws_prefix_len_prefix: "ws_prefix_len (s @ t) = 0 \<Longrightarrow> ws_prefix_len s = 0"
  unfolding ws_prefix_len_0
  by (metis append_take_drop_id length_append length_take map_append min_def nat_le_linear take_all take_append
      append_Nil2 diff_is_0_eq' take_0)

lemma trim_start_0: "trim_start s = [] \<or> ws_prefix_len (trim_start s) = 0"
proof (induction s rule: trim_start.induct)
  case (1 s)
  then show ?case by (cases "ws_prefix_len s = 0 \<or> s = []") (auto simp: trim_start.simps [of s])
qed

lemma trim_end_prefix: "\<exists>t. s = trim_end s @ t"
proof -
  have "\<exists>p. r = p @ trim_end_rev r" for r
  proof (induction r rule: trim_end_rev.induct)
    case (1 r)
    show ?case
    proof (cases "ws_suffix_len r = 0 \<or> r = []")
      case True
      then show ?thesis by (simp add: trim_end_rev.simps [of r])
    next
      case False
      with "1.IH" obtain p where "drop (ws_suffix_len r) r = p @ trim_end_rev (drop (ws_suffix_len r) r)" by blast
      then have "r = (take (ws_suffix_len r) r @ p) @ trim_end_rev (drop (ws_suffix_len r) r)"
        by (metis append.assoc append_take_drop_id)
      with False show ?thesis by (metis trim_end_rev.simps)
    qed
  qed
  then obtain p where "rev s = p @ trim_end_rev (rev s)" by blast
  then have "s = trim_end s @ rev p" unfolding trim_end_def by (metis rev_append rev_rev_ident)
  then show ?thesis by blast
qed

text \<open>A trimmed string does not start with whitespace, so trimming its start changes nothing.\<close>

lemma trim_start_trim: "trim_start (trim s) = trim s"
proof -
  obtain t where t: "trim_start s = trim s @ t"
    using trim_end_prefix [of "trim_start s"] unfolding trim_def by blast
  have "trim s = [] \<or> ws_prefix_len (trim s) = 0"
    using trim_start_0 [of s] unfolding t by (auto dest: ws_prefix_len_prefix)
  then show ?thesis by (auto simp: trim_start.simps [of "trim s"])
qed

lemma split_bearer: "split_whitespace_once (''Bearer '' @ t) = Some (''Bearer'', t)"
  by (simp add: ws_prefix_len_def ws_encodings_def code_def)

lemma trim_and_store_Inr:
  "trim_and_store header_ok raw origin = Inr x \<longleftrightarrow>
     trim raw \<noteq> [] \<and> header_ok (trim raw) \<and> is_ascii (trim raw)
     \<and> x = Some \<lparr>token_bytes = as_bytes (trim raw)\<rparr>"
  by (auto simp: trim_and_store_def Let_def)

section \<open>Properties\<close>

text \<open>Past the health route, the gate lets a request through exactly when its header splits at
  the first whitespace into the scheme \<^verbatim>\<open>bearer\<close>, in any case, and a credential that is, byte for
  byte, the configured token; every other request gets the 401.\<close>

lemma gate_exact:
  "(require_bearer_token token path h = Next \<longleftrightarrow>
     path = ''/health''
     \<or> (\<exists>header scheme rest. h = Some header \<and> split_auth_scheme header = Some (scheme, rest)
          \<and> eq_ignore_ascii_case scheme ''bearer'' \<and> as_bytes rest = token_bytes token))
   \<and> require_bearer_token token path h \<in> {Next, unauthorized}"
  using evaluate_Allow_iff [of path h token]
  by (auto simp: require_bearer_token_def unauthorized_def split: AuthOutcome.splits)

text \<open>What the \<^verbatim>\<open>http\<close> crate documents: a header value is legal when it has no control character but the tab and no delete
  character, and it can be read as text when its bytes are also ASCII.\<close>

definition header_documented :: "(string \<Rightarrow> bool) \<Rightarrow> bool" where
  "header_documented header_ok \<longleftrightarrow> (\<forall>s. header_ok s \<longleftrightarrow> list_all (\<lambda>c. code c = 9 \<or> 32 \<le> code c \<and> code c \<noteq> 127) s)"

definition sendable :: "char \<Rightarrow> bool" where
  "sendable c \<longleftrightarrow> code c = 9 \<or> 32 \<le> code c \<and> code c \<le> 126"

text \<open>The text that the environment configures, inline or in a file of bounded size, and not in both ways.\<close>

definition configured ::
  "(string \<Rightarrow> (VarError, string) result) \<Rightarrow> (string \<Rightarrow> nat \<Rightarrow> (string, string) result) \<Rightarrow> string \<Rightarrow> bool" where
  "configured env read_take raw \<longleftrightarrow>
     env ''GATEWAY_AUTH_BEARER_TOKEN'' = Inr raw \<and> env ''GATEWAY_AUTH_BEARER_FILE'' = Inl NotPresent
     \<or> env ''GATEWAY_AUTH_BEARER_TOKEN'' = Inl NotPresent
       \<and> (\<exists>path. env ''GATEWAY_AUTH_BEARER_FILE'' = Inr path \<and> read_take path 4097 = Inr raw \<and> length raw \<le> 4096)"

lemma checked_env_Inr:
  "checked_env_var env key f = Inr v \<longleftrightarrow>
     (case v of None \<Rightarrow> env key = Inl NotPresent | Some s \<Rightarrow> env key = Inr s)"
  by (auto simp: checked_env_var_def split: sum.split option.split VarError.split)

lemma bearer_file_Inr:
  "read_bearer_file read_take path = Inr s \<longleftrightarrow> read_take path 4097 = Inr s \<and> length s \<le> 4096"
  by (cases "read_take path 4097")
    (auto simp: read_bearer_file_def read_bounded_file_def MAX_BEARER_FILE_SIZE_def not_less)

lemma legal_sendable:
  assumes "header_documented header_ok"
  shows "header_ok s \<and> is_ascii s \<longleftrightarrow> list_all sendable s"
proof -
  have "(code c = 9 \<or> 32 \<le> code c \<and> code c \<noteq> 127) \<and> code c < 128 \<longleftrightarrow> sendable c" for c
    unfolding sendable_def by linarith
  then have "list_all sendable s \<longleftrightarrow> list_all (\<lambda>c. (code c = 9 \<or> 32 \<le> code c \<and> code c \<noteq> 127) \<and> code c < 128) s"
    by (simp add: list_all_iff)
  then show ?thesis
    using assms by (auto simp: header_documented_def is_ascii_def is_ascii_char_def list_all_iff)
qed

lemma trim_and_store_iff:
  assumes "header_documented header_ok"
  shows "trim_and_store header_ok raw origin = Inr (Some t) \<longleftrightarrow>
    trim raw \<noteq> [] \<and> list_all sendable (trim raw) \<and> t = \<lparr>token_bytes = as_bytes (trim raw)\<rparr>"
  using legal_sendable [OF assms, of "trim raw"] by (auto simp: trim_and_store_def Let_def)

lemma token_from_env_iff:
  assumes "header_documented header_ok"
  shows "token_from_env env read_take header_ok = Inr (Some t) \<longleftrightarrow>
    (\<exists>raw. configured env read_take raw \<and> 16 \<le> length (trim raw) \<and> list_all sendable (trim raw)
      \<and> t = \<lparr>token_bytes = as_bytes (trim raw)\<rparr>)"
proof -
  have size: "(case token of
        Some t \<Rightarrow> if byte_len t < MIN_TOKEN_BYTES then Inl (TooShort (byte_len t) MIN_TOKEN_BYTES) else Inr token
      | None \<Rightarrow> Inr token) = Inr (Some t) \<longleftrightarrow> token = Some t \<and> 16 \<le> byte_len t" for token
    by (auto simp: MIN_TOKEN_BYTES_def split: option.splits if_splits)
  have env: "(\<exists>v. (case v of None \<Rightarrow> env key = Inl NotPresent | Some s \<Rightarrow> env key = Inr s) \<and> P v)
      \<longleftrightarrow> env key = Inl NotPresent \<and> P None \<or> (\<exists>s. env key = Inr s \<and> P (Some s))" for key P
    by (auto split: option.splits intro: exI [of _ None] exI [of _ "Some _"])
  show ?thesis
    unfolding token_from_env_def and_then_Inr_iff [of "checked_env_var _ _ _"] checked_env_Inr env
    by (auto simp: size read_optional_file_def from_sources_def configured_def and_then_Inr_iff bearer_file_Inr
        trim_and_store_iff [OF assms] byte_len_def)
qed

text \<open>C37: which tokens configuration accepts, and that each of them works. A token is accepted exactly when it is configured
  in one way only, a file is at most 4096 bytes, and after trimming it has at least 16 bytes, all of which can be sent in a
  header and read back as text; the header \<^verbatim>\<open>Bearer\<close> with the trimmed token is then legal, and presenting it lets every
  request through.\<close>

theorem configured_token_works:
  assumes "header_documented header_ok"
  shows "(token_from_env env read_take header_ok = Inr (Some t) \<longleftrightarrow>
      (\<exists>raw. configured env read_take raw \<and> 16 \<le> length (trim raw) \<and> list_all sendable (trim raw)
        \<and> t = \<lparr>token_bytes = as_bytes (trim raw)\<rparr>))
    \<and> (token_from_env env read_take header_ok = Inr (Some t) \<longrightarrow>
      (\<exists>s. token_bytes t = as_bytes s \<and> header_ok (''Bearer '' @ s) \<and> list_all sendable (''Bearer '' @ s)
        \<and> require_bearer_token t path (Some (''Bearer '' @ s)) = Next))"
proof -
  have "evaluate_request path (Some (''Bearer '' @ trim raw)) \<lparr>token_bytes = as_bytes (trim raw)\<rparr> = Allow" for raw
  proof -
    have "split_auth_scheme (''Bearer '' @ trim raw) = Some (''Bearer'', trim raw)"
      by (simp only: split_auth_scheme_def split_bearer option.map prod.case trim_start_trim)
    moreover have "eq_ignore_ascii_case ''Bearer'' ''bearer''"
      by (simp add: eq_ignore_ascii_case_def to_ascii_lowercase_char_def code_def char_of_def bit_0)
    ultimately show ?thesis unfolding evaluate_Allow_iff by auto
  qed
  moreover have sent: "list_all sendable (''Bearer '' @ s)" if "list_all sendable s" for s
    using that by (simp add: sendable_def code_def)
  moreover have "header_ok (''Bearer '' @ s)" if "list_all sendable s" for s
    using legal_sendable [OF assms, of "''Bearer '' @ s"] sent [OF that] by blast
  ultimately show ?thesis
    unfolding token_from_env_iff [OF assms] by (force simp: require_bearer_token_def)
qed

theorem configured_token_works_witness:
  "\<exists>s. as_bytes ''0123456789abcdef'' = as_bytes s \<and> list_all sendable (''Bearer '' @ s)
    \<and> require_bearer_token \<lparr>token_bytes = as_bytes ''0123456789abcdef''\<rparr> ''/parse'' (Some (''Bearer '' @ s)) = Next"
proof -
  let ?env = "\<lambda>k. if k = ''GATEWAY_AUTH_BEARER_TOKEN'' then Inr ''0123456789abcdef'' else Inl NotPresent"
  let ?ok = "\<lambda>s. list_all (\<lambda>c. code c = 9 \<or> 32 \<le> code c \<and> code c \<noteq> 127) s"
  have "header_documented ?ok" by (simp add: header_documented_def)
  note works = configured_token_works [OF this, of ?env "\<lambda>_ _. Inl ''none''" "\<lparr>token_bytes = as_bytes ''0123456789abcdef''\<rparr>" "''/parse''"]
  have "trim ''0123456789abcdef'' = ''0123456789abcdef''"
    by (simp add: trim_def trim_end_def trim_start.simps trim_end_rev.simps ws_prefix_len_def ws_suffix_len_def
        ws_encodings_def code_def)
  moreover have "configured ?env (\<lambda>_ _. Inl ''none'') ''0123456789abcdef''" by (simp add: configured_def)
  moreover have "list_all sendable ''0123456789abcdef''" by (simp add: sendable_def code_def)
  ultimately have "token_from_env ?env (\<lambda>_ _. Inl ''none'') ?ok = Inr (Some \<lparr>token_bytes = as_bytes ''0123456789abcdef''\<rparr>)"
    by (intro works [THEN conjunct1, THEN iffD2] exI [of _ "''0123456789abcdef''"]) simp
  with works show ?thesis by auto
qed

end
