(* ===== verification/Spec2Isabelle.thy ===== *)
theory Spec2Isabelle
  imports PayloadProperties AnchorageRender TimeFmt EthConvert SolanaPayload SolanaChain NearPayload TronConvert UnspecifiedConvert
    MappingParser GatewayAuth
begin

text \<open>
  A verification library for the VisualSign parser, the enclave service that turns an unsigned
  blockchain transaction into a human-readable payload and signs what it shows.

  \<^bold>\<open>The program.\<close> A request with a raw transaction reaches \<^verbatim>\<open>parser/app/src/routes/parse.rs\<close>
  (\<^verbatim>\<open>parse\<close>). The payment marker is verified (\<^verbatim>\<open>payment_verify.rs\<close>, with the marker type and
  hashes of \<^verbatim>\<open>host_primitives/src/payment_marker.rs\<close>), the chain's converter is looked up in
  the registry (\<^verbatim>\<open>visualsign/src/registry.rs\<close>, filled by \<^verbatim>\<open>parser/app/src/registry.rs\<close>) and
  returns a \<^verbatim>\<open>SignablePayload\<close> (\<^verbatim>\<open>visualsign/src/lib.rs\<close>) that it has built with the field
  builders (\<^verbatim>\<open>field_builders.rs\<close>). The payload passes the charset check and is serialized; its
  text, the digests of the inputs and an optional intermediate output are signed and returned.
  Metadata that callers supply is trusted by a deploy-time policy and a domain-separated
  signature (\<^verbatim>\<open>visualsign/src/signing.rs\<close>). In front of the service an HTTP gateway can ask for
  a bearer token (\<^verbatim>\<open>parser/gateway/src/auth.rs\<close>).

  \<^bold>\<open>The theories.\<close>
  \<^item> \<open>Prelude\<close>: results, byte strings and the string operations of the Rust standard library,
    sorted and insertion-ordered association lists behind the interface \<open>assoc_map\<close>.
  \<^item> \<open>Json\<close>, \<open>JsonText\<close>, \<open>Charset\<close>: JSON values with the two map implementations that the build
    can select (the flag \<open>po\<close> is \<^verbatim>\<open>serde_json\<close>'s feature \<^verbatim>\<open>preserve_order\<close>), \<^verbatim>\<open>sort_json_alphabetically\<close>
    and \<^verbatim>\<open>verify_json_deterministic\<close>, the compact printer and its injectivity, and the text checks of
    \<^verbatim>\<open>validate_charset\<close> related to the strings of the value.
  \<^item> \<open>Errors\<close>, \<open>Payload\<close>, \<open>PayloadFacts\<close>, \<open>PayloadProperties\<close>: \<^verbatim>\<open>errors.rs\<close> and \<^verbatim>\<open>lib.rs\<close>. Every
    struct is a record or a constructor, every serializer, derived or written out, a function to
    JSON. Shown: the charset check is exact on the strings of the payload, for the sorted text it
    looks at and for the unsorted text that is signed; the canonical text is total, sorted,
    independent of the map implementation, and binds all that is displayed; the completeness
    checks of the field serializer never fire; when the ordering check accepts a field.
  \<^item> \<open>FieldBuilders\<close>, \<open>Lint\<close>, \<open>Encodings\<close>, \<open>TimeFmt\<close>, \<open>AnchorageRender\<close>: the files of the same names
    in \<^verbatim>\<open>visualsign/src\<close>. Shown: which numbers are accepted and how they go on the wire, exact hex
    detection and fixed-size decoding, rounding of relative times, and that the wallet check
    accepts exactly the payloads of the documented support matrix.
  \<^item> \<open>Registry\<close>: \<^verbatim>\<open>vsptrait.rs\<close> and \<^verbatim>\<open>registry.rs\<close>. A trait object is a record of functions. Shown:
    validation by the default conversion, and automatic detection for every order in which the
    hash map may be iterated.
  \<^item> \<open>Wire\<close>, \<open>Borsh\<close>, \<open>Signing\<close>, \<open>PaymentMarker\<close>, \<open>PaymentVerify\<close>: byte encodings behind the interfaces
    \<open>prefix_code\<close> and \<open>codec\<close> (every codec is a prefix code), the metadata prehash, the marker's
    Borsh codec, the request hash and \<^verbatim>\<open>verify\<close> with all its early returns. Shown: injectivity of
    every hashed byte string, that the marker's encoding is canonical, exactly which markers are
    accepted, that one marker cannot serve two requests short of a hash collision, and the error
    codes.
  \<^item> \<open>AppParse\<close>: \<^verbatim>\<open>parse.rs\<close>, \<^verbatim>\<open>config.rs\<close>, \<^verbatim>\<open>chain_conversion.rs\<close>, \<^verbatim>\<open>registry.rs\<close> of the app. Shown: what every
    signed response guarantees, that an unsafe payload is never signed whatever converter made it,
    that the signed bytes determine the response payload, and when the endpoint cannot panic.
  \<^item> \<open>SolanaAccounts\<close>: \<^verbatim>\<open>core/accounts/decode.rs\<close> of the Solana crate. Shown: account order, flags and summary.
  \<^item> \<open>SolanaContext\<close>, \<open>SolanaIdl\<close>, \<open>SolanaUnknown\<close>: \<^verbatim>\<open>core/mod.rs\<close> with the order that \<^verbatim>\<open>build.rs\<close> gives the visualizers (the
    interface \<open>visualizer_chain\<close>: a chain that ends with a catch-all); \<^verbatim>\<open>idl/\<close> and the extraction of caller IDLs in
    \<^verbatim>\<open>core/visualsign.rs\<close>; the catch-all preset, whose chain interprets that interface. Shown: which caller IDLs are
    admitted, that programs with a fixed identity keep it, and that the catch-all never fails.
  \<^item> \<open>SolanaIntermediate\<close>, \<open>SolanaWire\<close>: \<^verbatim>\<open>intermediate.rs\<close> and its Borsh bytes. Shown: the argument text is canonical for both
    JSON maps, the layered and the merged IDL records agree and never let a caller's record decode a trusted program, a
    simulation is decoded whole or reported, and the bytes determine the output.
  \<^item> \<open>SolanaConvert\<close>, \<open>SolanaPayload\<close>: \<^verbatim>\<open>core/instructions.rs\<close>, \<^verbatim>\<open>core/txtypes/v0.rs\<close> and the converter of
    \<^verbatim>\<open>core/visualsign.rs\<close>, with and without the diagnostics feature. Shown: every instruction is shown in order, by the preset that
    takes it, or reported with its index; the opt-in to intermediate output changes nothing that is displayed; which texts are
    accepted and which error every other text gets.
  \<^item> \<open>SolanaPresets\<close>, \<open>SolanaPresetFacts\<close>: the eighteen presets of \<^verbatim>\<open>presets/\<close> that decode by an IDL embedded in the crate, and
    \<^verbatim>\<open>core/arg_rendering.rs\<close>. The interface \<open>idl_preset\<close> (which program a preset takes, when it gives a preview, what
    the preview holds) is interpreted for each of them. Shown: a preset takes only its own program's instructions, shows the
    raw bytes, every argument, and every account by the name that the IDL's instruction with the discriminator of the data
    gives it; undecoded data is marked as such, or an error in the seven presets that have no view for it.
  \<^item> \<open>SolanaPrograms\<close>, \<open>SolanaSwig\<close>, \<open>SolanaSquads\<close>, \<open>SolanaNested\<close>: \<^verbatim>\<open>presets/swig_wallet\<close> and \<^verbatim>\<open>presets/squads_multisig\<close>, whose
    instructions carry instructions that are visualized by all presets again. The interface \<open>nested_visualizer\<close> (a visualizer
    that calls others only one level deeper and not at all at the limit) is interpreted for both and for every other preset,
    \<open>nested_chain\<close> for the presets of the build; \<open>codec\<close> is interpreted for the vault message and its parts. Shown: five
    levels of unfolding give the source's recursion, nested instructions are shown whole with the accounts and data their
    indexes name, and vault messages are read exactly.
  \<^item> \<open>SolanaTokens\<close>, \<open>SolanaJupiter\<close>, \<open>SolanaAmounts\<close>, \<open>SolanaChain\<close>: the token, token-2022, associated account, compute budget,
    stake pool and Jupiter swap presets with \<^verbatim>\<open>utils/mod.rs\<close>, and the list of all preset directories, which interprets
    \<open>visualizer_chain\<close>. Shown: the whole view of the token preset, against a table of the token program's interface (for seven
    of its instructions, name and bytes only); lamport and token amounts are exact, which accounts a swap takes its tokens from, and that the order of the directories is irrelevant.
  \<^item> \<open>NearFmt\<close>, \<open>NearTokens\<close>, \<open>NearTrust\<close>, \<open>NearActions\<close>, \<open>NearIntents\<close>, \<open>NearConvert\<close>: the NEAR crate, file by file
    (\<^verbatim>\<open>fmt.rs\<close>; \<^verbatim>\<open>networks.rs\<close> and \<^verbatim>\<open>tokens.rs\<close>; \<^verbatim>\<open>token_signature.rs\<close>; \<^verbatim>\<open>actions.rs\<close>; \<^verbatim>\<open>render.rs\<close>, \<^verbatim>\<open>verify.rs\<close>,
    \<^verbatim>\<open>args.rs\<close> and the entry points of \<^verbatim>\<open>intents/mod.rs\<close>; \<^verbatim>\<open>tx.rs\<close> and \<^verbatim>\<open>convert.rs\<close>). \<open>NearPayload\<close> has the facts on
    rendered payloads. Shown: request metadata never displaces curated tokens unless a listed key signed it, and every resolved
    value comes from the table or an admissible entry for that asset; exactly which entries are admitted, the others being
    reported; every payload passes the charset check; the network line agrees with the accounts;
    each intent is announced once; swap amounts are exact for every 128-bit delta; not building the token registry when
    nothing reads it changes no field.
  \<^item> \<open>TronConvert\<close>: the Tron converter. Shown: every contract is named, what the charset check can refuse, exact
    amounts, how the two wire forms are told apart, and saturating vote totals.
  \<^item> \<open>UnspecifiedConvert\<close>: the converter of unknown chains. \<open>FieldSeq\<close>: sequences of fields and their safety, for the
    NEAR and Tron converters.
  \<^item> \<open>MappingParser\<close>, \<open>GatewayAuth\<close>: \<^verbatim>\<open>parser/cli-core/src/mapping_parser.rs\<close>,
    \<^verbatim>\<open>parser/gateway/src/auth.rs\<close> and \<^verbatim>\<open>env_util.rs\<close>. Shown of the gate: exactly which configured tokens are accepted, and that
    each of them can be sent and is let through.
  \<^item> \<open>StdText\<close>, \<open>FloatFmt\<close>, \<open>ChainMeta\<close>: further string operations of the standard library, the rounding and
    printing of the few \<^verbatim>\<open>f64\<close> values the code shows, and the metadata messages of
    \<^verbatim>\<open>generated/parser.rs\<close> with their Borsh encoding.
  \<^item> \<open>EthNetworks\<close>, \<open>AbiRegistry\<close>, \<open>AbiMetadata\<close>, \<open>EthRegistry\<close>, \<open>EthProtocols\<close>: \<^verbatim>\<open>networks.rs\<close>,
    \<^verbatim>\<open>abi_registry.rs\<close> with \<^verbatim>\<open>embedded_abis.rs\<close>, \<^verbatim>\<open>abi_metadata.rs\<close>, \<^verbatim>\<open>registry.rs\<close> with
    \<^verbatim>\<open>token_metadata.rs\<close>, and \<^verbatim>\<open>visualizer.rs\<close> with \<^verbatim>\<open>protocols/\<close> of the Ethereum crate. Shown: the ABI
    registry refines abstract maps, the extraction of caller ABIs refines the list of admitted
    entries, only listed signers are admitted under an allowlist, what the command line signs is
    accepted, loading token metadata keeps the registry's invariant, and the default registry holds
    exactly the deployed contracts.
  \<^item> \<open>EthTx\<close>, \<open>EthJson\<close>: transactions and their decoding (\<^verbatim>\<open>lib.rs\<close>, \<^verbatim>\<open>fmt.rs\<close>, \<^verbatim>\<open>eth_json.rs\<close>). Shown: bounds and
    round trip of JSON transactions, and that error texts are bounded.
  \<^item> \<open>EthContracts\<close>, \<open>Uniswap\<close>: \<^verbatim>\<open>contracts/core/\<close> with \<^verbatim>\<open>abi_decoder.rs\<close>, and the Universal Router and Permit2
    visualizers. Shown: which call data is a token call, that its parties and amounts are shown under
    their labels, and that calls that read alike are alike; every router row shows the input at its
    command's own position, and V3 paths decode exactly.
  \<^item> \<open>EthConvert\<close>: the converter of \<^verbatim>\<open>lib.rs\<close>. Shown: the network row is bound to the transaction's bytes,
    canonical tokens are never decoded by caller ABIs, unlisted ABIs have no influence, and every header row
    of the payload with its kind, label and content, amounts exactly. The theorems of this theory join the Ethereum, NEAR and Solana converters to
    the parse endpoint.

  \<^bold>\<open>Conventions.\<close> A \<^verbatim>\<open>String\<close> is its UTF-8 byte sequence. A \<^verbatim>\<open>Result\<close> is a sum with the error on the left,
  a panic is \<open>None\<close>. Widths are kept where they matter: lengths are cut to their prefix width,
  header counts are bytes, chains are 32-bit words, chain ids, fees and amounts are words of their Rust
  or Solidity width. No definition needs fuel; the recursions that are not structural (\<open>trim_start\<close>,
  \<open>trim_end_rev\<close>, \<open>nat_str\<close>, \<open>hex_str\<close>, \<open>log2_floor\<close>, \<open>chunks_32\<close>, \<open>resolve\<close>, \<open>seeded_decimals\<close>,
  \<open>canonicalize_value\<close>, \<open>count_actions\<close>, \<open>decode_actions_from\<close>) have measures, and the visualizers of nested instructions
  are unfolded level by level (\<open>solana_levels\<close>), of which five are enough. Third-party code is a
  parameter of the definitions that call it: SHA-256, the \<^verbatim>\<open>hex\<close> and base64 crates, P-256 and secp256k1
  keys, \<^verbatim>\<open>chrono\<close>, the \<^verbatim>\<open>http\<close> crate's header check, the Solana SDK, \<^verbatim>\<open>solana_parser\<close>
  and ed25519 (\<open>SolanaLibs\<close>, \<open>DecodeLibs\<close>, \<open>TxLibs\<close>, \<open>Ed25519\<close>, joined in \<open>SolanaEnv\<close>), the crates of Solana programs
  (\<open>ProgramLibs\<close>, \<open>TokenLibs\<close>), alloy (RLP, addresses,
  units, dynamic ABIs, the record \<open>Alloy\<close>), the NEAR and defuse libraries with their curves (\<open>NearPrimitives\<close>,
  \<open>Defuse\<close>, \<open>NearCrypto\<close>), the decoders that \<^verbatim>\<open>sol!\<close> generates (\<open>SolAbi\<close>, \<open>UniAbi\<close>), the
  process environment and the file system. What the code relies on of them are the named predicates
  \<open>units_documented\<close>, \<open>json_documented\<close>, \<open>display_documented\<close>, \<open>sol_documented\<close>, \<open>selectors_documented\<close>, \<open>header_documented\<close>, \<open>k256_documented\<close>,
  \<open>near_documented\<close>, \<open>defuse_documented\<close>, \<open>tron_documented\<close>, each with an instance. The JSON data model and compact format of \<^verbatim>\<open>serde_json\<close>, and the Borsh encodings of
  integers, byte vectors, strings and structs, are written out from their specifications, since the
  derive macros in the source denote them.

  \<^bold>\<open>Not modelled.\<close> Of the Solana presets, the body of the system program's (a parameter of \<open>solana_entries\<close>), the Sui converter, the visualizer
  objects of the Ethereum crate that its converter never calls, the generated transport code, the
  transports (gRPC, HTTP, QOS sockets), the gateway's x402 payment configuration, metrics, logging, the command-line
  front ends and the deployment tools. Timing (the constant-time comparison of tokens) is outside the model.
\<close>

section \<open>Properties across components\<close>

lemma safe_text_int_str: "safe_text (int_str i)"
proof -
  have "CHR 0x5C \<notin> set (int_str i)" using int_str_plain [of "CHR 0x5C" i] by auto
  then show ?thesis
    unfolding safe_text_def list_all_iff safe_char_def
    using int_str_plain [of _ i] by (blast intro: no_backslash_no_lookalike)
qed

text \<open>A text field made from any strings of a chain, once they are filtered, goes through both gates:
  the payload that shows it passes the charset check and renders in the wallet.\<close>

lemma filtered_field_accepted:
  "\<exists>a. create_text_field (charset_safe l) (charset_safe s) = Inr a
     \<and> validate_charset po describe
         (payload_new v (charset_safe t) (Some (charset_safe u)) [signable_payload_field a] (charset_safe ty)) = Inr ()
     \<and> validate_anchorage_wallet_renderable po
         (payload_new v (charset_safe t) (Some (charset_safe u)) [signable_payload_field a] (charset_safe ty)) = Inr ()"
  by (simp add: create_text_field_def payload_new_def validate_charset_safe payload_strings_def
      safe_text_charset_safe safe_text_int_str validate_anchorage_wallet_renderable_def findings_Nil)

text \<open>What a signed answer shows is what the converter of the request's chain returned, and nothing else.\<close>

lemma parse_shows:
  assumes chain: "proto_try_from (req_chain req) = Some proto"
    and resp: "parse po describe x feature cs req key config = Some (Inr resp)"
  shows "\<exists>payload sig conversion.
    resp = \<lparr>parsed_transaction = Some \<lparr>parsed_transaction_payload = Some payload, parsed_transaction_signature = Some sig\<rparr>\<rparr>
    \<and> convert_transaction (create_registry feature cs config) (proto_to_registry proto) (req_unsigned_payload req)
        (parse_options req) = Inr conversion
    \<and> payload_to_string po (result_payload conversion) = Inr (signable_payload payload)
    \<and> intermediate_output payload = unwrap_or [] (result_intermediate_output conversion)"
proof -
  from resp obtain payload bs where prep: "prepare_payload po describe x req (create_registry feature cs config) = Inr payload"
    and signed: "sign_response x key payload bs = Inr resp"
    by (auto simp: parse_def parse_with_registry_def split: sum.splits)
  from signed obtain sig where "resp = \<lparr>parsed_transaction = Some \<lparr>parsed_transaction_payload = Some payload,
      parsed_transaction_signature = Some sig\<rparr>\<rparr>"
    by (auto simp: sign_response_def Let_def and_then_Inr_iff)
  with prep chain show ?thesis by (auto simp: prepare_payload_Inr build_payload_def)
qed

text \<open>C9: from the request to the signed response: a signed answer to an Ethereum request shows, in the text that
  is signed, the payload that the converter builds, with the request's options, for the legacy or EIP-1559 transaction
  that was parsed from the request's own text with no developer option (so raw bytes must be an unsigned transaction);
  its first row names the resolved chain, and nothing but that text is returned.\<close>

theorem ethereum_end_to_end:
  assumes conv: "ethereum_converter cs (abi_trust config) = eth_converter_any po describe libs conv"
    and chain: "proto_try_from (req_chain req) = Some ProtoEthereum"
    and resp: "parse po describe x feature cs req key config = Some (Inr resp)"
  shows "\<exists>payload sig shown tx c.
    resp = \<lparr>parsed_transaction = Some \<lparr>parsed_transaction_payload = Some payload, parsed_transaction_signature = Some sig\<rparr>\<rparr>
    \<and> payload_to_string po shown = Inr (signable_payload payload) \<and> intermediate_output payload = []
    \<and> eth_from_string_with_options (lib_alloy libs) (req_unsigned_payload req) None = Inr tx
    \<and> convert_transaction_inner libs conv tx (parse_options req) = Inr shown
    \<and> tx_type tx \<in> {LegacyType, Eip1559Type} \<and> resolve_chain_id tx (parse_options req) = Inr c
    \<and> hd (payload_fields shown) = text_field ''Network'' (get_network_name (Some c))
    \<and> (is_json_input (req_unsigned_payload req)
        \<or> (\<exists>bs. decode_unsigned_transaction_bytes (lib_alloy libs) bs = Inr tx
          \<and> (case detect (req_unsigned_payload req) of
               Hex \<Rightarrow> decode_hex (al_hex_decode (lib_alloy libs)) (req_unsigned_payload req)
             | Base64 \<Rightarrow> al_b64_decode (lib_alloy libs) (req_unsigned_payload req)) = Inr bs))"
proof -
  obtain payload sig conversion where
    resp: "resp = \<lparr>parsed_transaction = Some \<lparr>parsed_transaction_payload = Some payload, parsed_transaction_signature = Some sig\<rparr>\<rparr>"
    and r: "convert_transaction (create_registry feature cs config) Ethereum (req_unsigned_payload req) (parse_options req)
      = Inr conversion"
    and doc: "payload_to_string po (result_payload conversion) = Inr (signable_payload payload)"
    and shape: "intermediate_output payload = unwrap_or [] (result_intermediate_output conversion)"
    using parse_shows [OF chain resp] by auto
  have "developer_config (parse_options req) = None" by (simp add: parse_options_def)
  with registry_ethereum_conversion [OF conv r] obtain tx c where
    tx: "eth_from_string_with_options (lib_alloy libs) (req_unsigned_payload req) None = Inr tx"
      "tx_type tx \<in> {LegacyType, Eip1559Type}" "resolve_chain_id tx (parse_options req) = Inr c"
    and inner: "convert_transaction_inner libs conv tx (parse_options req) = Inr (result_payload conversion)"
    and hd: "hd (payload_fields (result_payload conversion)) = text_field ''Network'' (get_network_name (Some c))"
    and out: "result_intermediate_output conversion = None"
    and bytes: "is_json_input (req_unsigned_payload req)
        \<or> (\<exists>bs. decode_unsigned_transaction_bytes (lib_alloy libs) bs = Inr tx
          \<and> (case detect (req_unsigned_payload req) of
               Hex \<Rightarrow> decode_hex (al_hex_decode (lib_alloy libs)) (req_unsigned_payload req)
             | Base64 \<Rightarrow> al_b64_decode (lib_alloy libs) (req_unsigned_payload req)) = Inr bs)"
    by metis
  from out shape have "intermediate_output payload = []" by simp
  then show ?thesis
    by (intro exI [of _ payload] exI [of _ sig] exI [of _ "result_payload conversion"] exI [of _ tx] exI [of _ c] conjI
        resp doc tx inner hd bytes)
qed

definition ethereum_chains :: ChainConverters where
  "ethereum_chains = sample_chains\<lparr>ethereum_converter :=
     \<lambda>_. eth_converter_any True (\<lambda>_. ''e'') zero_libs (sample_conv AcceptUnsigned)\<rparr>"

definition ethereum_request :: ParseRequest where
  "ethereum_request = \<lparr>req_unsigned_payload = ''{}'', req_chain = 2, req_chain_metadata = None,
     req_include_intermediate_output = False, req_payment_marker = []\<rparr>"

lemma ethereum_request_answered:
  "\<exists>resp. parse True (\<lambda>_. ''e'') sample_app (\<lambda>_. True) ethereum_chains ethereum_request () config_accept_unsigned
     = Some (Inr resp)"
proof -
  let ?reg = "create_registry (\<lambda>_. True) ethereum_chains (config_accept_unsigned :: unit ParserConfig)"
  have options: "parse_options ethereum_request = sample_options"
    by (simp add: parse_options_def ethereum_request_def sample_options_def)
  obtain p where p: "convert_transaction ?reg Ethereum ''{}'' sample_options = Inr (conversion_new p)"
    "p = \<lparr>payload_fields = [text_field ''Network'' ''Ethereum Mainnet'',
         AmountV2 \<lparr>fallback_text = ''0 ETH'', label = ''Value''\<rparr> \<lparr>amount_v2_amount = ''0'', amount_v2_abbreviation = Some ''ETH''\<rparr>,
         text_field ''Gas Limit'' ''21000'', text_field ''Gas Price'' ''0 gwei'', text_field ''Nonce'' ''0''],
       payload_payload_type = ''EthereumTx'', payload_subtitle = None, payload_title = ''Ethereum Transaction'',
       payload_version = ''0''\<rparr>"
    using creation_converts
    by (simp add: convert_transaction_def get_converter_create_registry eth_converter_any_def wrap_def ethereum_chains_def)
  have safe: "validate_charset True (\<lambda>_. ''e'') p = Inr ()"
    by (rule validate_charset_safe [THEN iffD2])
      (simp add: p(2) payload_strings_def text_field_def safe_text_def safe_char_def code_def)
  obtain doc where doc: "payload_to_string True p = Inr doc" "length doc < 2 ^ 32"
    by (simp add: payload_to_string_eq payload_entries_def p(2) text_field_def entry_defs
        serialize_field_variant_def ix_collect_def bt_collect_def text_v2_value_def amount_v2_value_def jobj_def jmap_collect_def
        jmap_insert_def esc_string_def esc_char_def code_def)
  have "proto_try_from (req_chain ethereum_request) = Some ProtoEthereum"
    by (simp add: proto_try_from_def ethereum_request_def)
  with p(1) doc safe options
  have "prepare_payload True (\<lambda>_. ''e'') sample_app ethereum_request ?reg
      = Inr (build_payload sample_app doc ''{}'' [] None)"
    by (simp add: prepare_payload_def Let_def ok_or_def conversion_new_def)
      (simp add: ethereum_request_def chain_metadata_bytes_def)
  moreover have "signing_digest_bytes (build_payload sample_app doc ''{}'' [] None) \<noteq> None"
    using doc(2) by (simp add: signing_digest_bytes_def payload_borsh_def build_payload_def borsh_string_def
        borsh_bytes_def fits32_def)
  ultimately show ?thesis
    by (auto simp: parse_def config_accept_unsigned_def config_new_def verify_def parse_with_registry_def sign_response_def Let_def)
qed

theorem ethereum_end_to_end_witness:
  "\<exists>(payload :: ParsedTransactionPayload) shown tx c. payload_to_string True shown = Inr (signable_payload payload)
     \<and> eth_from_string_with_options zero_alloy ''{}'' None = Inr tx
     \<and> convert_transaction_inner zero_libs (sample_conv AcceptUnsigned) tx (parse_options ethereum_request) = Inr shown
     \<and> resolve_chain_id tx (parse_options ethereum_request) = Inr c
     \<and> hd (payload_fields shown) = text_field ''Network'' (get_network_name (Some c))"
proof -
  obtain resp where resp: "parse True (\<lambda>_. ''e'') sample_app (\<lambda>_. True) ethereum_chains ethereum_request ()
      config_accept_unsigned = Some (Inr resp)" using ethereum_request_answered by blast
  have conv: "ethereum_converter ethereum_chains (abi_trust (config_accept_unsigned :: unit ParserConfig))
      = eth_converter_any True (\<lambda>_. ''e'') zero_libs (sample_conv AcceptUnsigned)"
    by (simp add: ethereum_chains_def)
  have chain: "proto_try_from (req_chain ethereum_request) = Some ProtoEthereum"
    by (simp add: proto_try_from_def ethereum_request_def)
  have names: "lib_alloy zero_libs = zero_alloy" "req_unsigned_payload ethereum_request = ''{}''"
    by (simp_all add: zero_libs_def ethereum_request_def)
  from ethereum_end_to_end [OF conv chain resp, unfolded names] show ?thesis by blast
qed

lemma registry_near_conversion:
  assumes conv: "near_converter cs = near_converter_any po describe libs conv"
    and r: "convert_transaction (create_registry feature cs config) Near data options = Inr r"
  shows "\<exists>t. near_from_string_with_options libs data (developer_config options) = Inr t
    \<and> near_to_visual_sign_payload libs conv t options = Inr r \<and> result_intermediate_output r = None"
proof -
  have "near_to_visual_sign_payload_from_string po describe libs conv data options = Inr r"
    using r conv
    by (simp add: convert_transaction_def get_converter_create_registry near_converter_any_def wrap_def split: if_splits)
  then show ?thesis by (auto simp: near_from_string_conversion dest: near_results_have_no_output)
qed

text \<open>C16: from the request to the signed response: a signed answer to a NEAR request shows, in the text that is signed,
  the payload the converter builds for what the request's own text says, read without the developer option: an
  on-chain transaction is the unsigned transaction its bytes encode, never a signed one with its signature dropped.\<close>

theorem near_end_to_end:
  assumes conv: "near_converter cs = near_converter_any po describe libs conv"
    and chain: "proto_try_from (req_chain req) = Some ProtoNear"
    and resp: "parse po describe x feature cs req key config = Some (Inr resp)"
  shows "\<exists>payload sig shown t.
    resp = \<lparr>parsed_transaction = Some \<lparr>parsed_transaction_payload = Some payload, parsed_transaction_signature = Some sig\<rparr>\<rparr>
    \<and> payload_to_string po shown = Inr (signable_payload payload) \<and> intermediate_output payload = []
    \<and> near_from_string libs (req_unsigned_payload req) = Inr t
    \<and> near_to_visual_sign_payload libs conv t (parse_options req) = Inr (conversion_new shown)
    \<and> (case t of
         OnChain tx \<Rightarrow> (\<exists>bs. near_decode_input libs (trim (req_unsigned_payload req)) = Inr bs \<and> nl_transaction libs bs = Inr tx)
       | IntentEnvelope json \<Rightarrow> json = trim (req_unsigned_payload req) \<and> is_ok (df_payload_json (nl_defuse libs) json))"
proof -
  obtain payload sig conversion where
    r: "resp = \<lparr>parsed_transaction = Some \<lparr>parsed_transaction_payload = Some payload, parsed_transaction_signature = Some sig\<rparr>\<rparr>"
      "convert_transaction (create_registry feature cs config) Near (req_unsigned_payload req) (parse_options req) = Inr conversion"
      "payload_to_string po (result_payload conversion) = Inr (signable_payload payload)"
      "intermediate_output payload = unwrap_or [] (result_intermediate_output conversion)"
    using parse_shows [OF chain resp] by auto
  have "developer_config (parse_options req) = None" by (simp add: parse_options_def)
  with registry_near_conversion [OF conv r(2)] obtain t where t: "near_from_string libs (req_unsigned_payload req) = Inr t"
      "near_to_visual_sign_payload libs conv t (parse_options req) = Inr conversion"
      "result_intermediate_output conversion = None"
    by (auto simp: near_from_string_def)
  from t(3) have "conversion = conversion_new (result_payload conversion)" by (simp add: conversion_new_def)
  with r t near_from_string_exact [OF t(1)] show ?thesis
    by (intro exI [of _ payload] exI [of _ sig] exI [of _ "result_payload conversion"] exI [of _ t]) (simp add: unwrap_or_def)
qed

definition near_chains :: ChainConverters where
  "near_chains = sample_chains\<lparr>near_converter := near_converter_any True (\<lambda>_. ''e'') sample_near_libs near_converter_new\<rparr>"

definition near_request :: ParseRequest where
  "near_request = \<lparr>req_unsigned_payload = ''00'', req_chain = 6, req_chain_metadata = None,
     req_include_intermediate_output = False, req_payment_marker = []\<rparr>"

lemma near_request_answered:
  "\<exists>resp. parse True (\<lambda>_. ''e'') sample_app (\<lambda>_. True) near_chains near_request () config_accept_unsigned = Some (Inr resp)"
proof -
  let ?reg = "create_registry (\<lambda>_. True) near_chains (config_accept_unsigned :: unit ParserConfig)"
  have options: "parse_options near_request = sample_options"
    by (simp add: parse_options_def near_request_def sample_options_def)
  have "near_decode_input sample_near_libs (trim ''00'') = Inr []"
    by code_simp
  then have read: "near_from_string_with_options sample_near_libs ''00'' None = Inr (OnChain sample_near_tx)"
    by (simp add: near_from_string_with_options_def near_borsh_def sample_near_libs_def)
  let ?p = "\<lparr>payload_fields = [text_entry ''Network'' ''NEAR Mainnet'',
      AddressV2 \<lparr>fallback_text = ''alice.near'', label = ''From''\<rparr> \<lparr>address_v2_address = ''alice.near'', address_v2_name = [],
        address_v2_memo = None, address_v2_asset_label = [], address_v2_badge_text = None\<rparr>,
      AddressV2 \<lparr>fallback_text = ''bob.near'', label = ''To''\<rparr> \<lparr>address_v2_address = ''bob.near'', address_v2_name = [],
        address_v2_memo = None, address_v2_asset_label = [], address_v2_badge_text = None\<rparr>,
      text_entry ''Action'' ''Create Account''],
    payload_payload_type = ''NearTx'', payload_subtitle = None, payload_title = ''Create Account'', payload_version = ''0''\<rparr>"
  have mismatch: "first_mismatch [(''signer'', ''alice.near''), (''receiver'', ''bob.near'')] Mainnet = None"
    by (simp add: first_mismatch_None ends_with_def)
  have zero: "nat_str 0 = ''0''" by code_simp
  have net: "resolve_network sample_options Mainnet = Inr Mainnet"
    by (simp add: resolve_network_def extract_network_from_metadata_def sample_options_def unwrap_or_def)
  have "near_to_visual_sign_payload sample_near_libs near_converter_new (OnChain sample_near_tx) sample_options
      = Inr (conversion_new ?p)"
    using mismatch net
    by (simp add: render_on_chain_Inr near_converter_new_def sample_near_tx_def on_chain_fields_def
        on_chain_tokens_def seq_fields_Inr text_of_eq address_of_def one_field_def create_address_field_def decode_intents_def
        is_ok_def seq_fields.simps unwrap_or_def request_registry_empty_def payload_new_def NEAR_PAYLOAD_VERSION_def
        NEAR_PAYLOAD_TYPE_def int_str_def zero)
  moreover have safe: "validate_charset True (\<lambda>_. ''e'') ?p = Inr ()"
    by (rule validate_charset_safe [THEN iffD2])
      (simp add: payload_strings_def text_entry_def unwrap_or_def safe_text_def safe_char_def code_def)
  ultimately have p: "convert_transaction ?reg Near ''00'' sample_options = Inr (conversion_new ?p)"
    using read by (simp add: convert_transaction_def get_converter_create_registry near_converter_any_def wrap_def near_chains_def
        near_from_string_conversion conversion_new_def sample_options_def)
  obtain doc where doc: "payload_to_string True ?p = Inr doc" "length doc < 2 ^ 32"
    by (simp add: payload_to_string_eq payload_entries_def text_entry_def entry_defs
        serialize_field_variant_def ix_collect_def bt_collect_def text_v2_value_def address_v2_value_def jobj_def jmap_collect_def
        jmap_insert_def esc_string_def esc_char_def code_def)
  have "proto_try_from (req_chain near_request) = Some ProtoNear"
    by (simp add: proto_try_from_def near_request_def)
  with p doc safe options
  have "prepare_payload True (\<lambda>_. ''e'') sample_app near_request ?reg = Inr (build_payload sample_app doc ''00'' [] None)"
    by (simp add: prepare_payload_def Let_def ok_or_def conversion_new_def)
      (simp add: near_request_def chain_metadata_bytes_def)
  moreover have "signing_digest_bytes (build_payload sample_app doc ''00'' [] None) \<noteq> None"
    using doc(2) by (simp add: signing_digest_bytes_def payload_borsh_def build_payload_def borsh_string_def
        borsh_bytes_def fits32_def)
  ultimately show ?thesis
    by (auto simp: parse_def config_accept_unsigned_def config_new_def verify_def parse_with_registry_def sign_response_def Let_def)
qed

theorem near_end_to_end_witness:
  "\<exists>(payload :: ParsedTransactionPayload) shown t. payload_to_string True shown = Inr (signable_payload payload)
     \<and> near_from_string sample_near_libs ''00'' = Inr t
     \<and> near_to_visual_sign_payload sample_near_libs near_converter_new t (parse_options near_request) = Inr (conversion_new shown)"
proof -
  obtain resp where resp: "parse True (\<lambda>_. ''e'') sample_app (\<lambda>_. True) near_chains near_request ()
      config_accept_unsigned = Some (Inr resp)" using near_request_answered by blast
  have conv: "near_converter near_chains = near_converter_any True (\<lambda>_. ''e'') sample_near_libs near_converter_new"
    by (simp add: near_chains_def)
  have chain: "proto_try_from (req_chain near_request) = Some ProtoNear"
    by (simp add: proto_try_from_def near_request_def)
  have name: "req_unsigned_payload near_request = ''00''" by (simp add: near_request_def)
  from near_end_to_end [OF conv chain resp, unfolded name] show ?thesis by blast
qed

text \<open>C19: from the request to the signed response: a signed answer to a Solana request shows the payload of the
  transaction that the request's text encodes, under the network row of its message version. Its intermediate output is
  present only when the request asks for one, and then the signed bytes are those of the output decoded from the message of
  that same transaction, with the request's IDLs and simulation, and of no other output.\<close>

theorem solana_end_to_end:
  assumes conv: "solana_converter cs = wrap_default po describe (sol_converter env)"
    and chain: "proto_try_from (req_chain req) = Some ProtoSolana"
    and resp: "parse po describe x feature cs req key config = Some (Inr resp)"
  shows "\<exists>payload sig conversion w.
    resp = \<lparr>parsed_transaction = Some \<lparr>parsed_transaction_payload = Some payload, parsed_transaction_signature = Some sig\<rparr>\<rparr>
    \<and> payload_to_string po (result_payload conversion) = Inr (signable_payload payload)
    \<and> sol_from_string (env_libs env) (env_tx env) (req_unsigned_payload req) = Inr w
    \<and> sol_to_visual_sign_payload env w (parse_options req) = Inr conversion
    \<and> hd (payload_fields (result_payload conversion)) = network_row w
    \<and> validate_charset po describe (result_payload conversion) = Inr ()
    \<and> (\<forall>out. req_include_intermediate_output req \<and> intermediate_of env w (parse_options req) out \<and> borsh_output out \<noteq> None
         \<longrightarrow> borsh_output out = Some (intermediate_output payload))
    \<and> (intermediate_output payload = [] \<or> req_include_intermediate_output req
         \<and> (\<exists>out. intermediate_of env w (parse_options req) out \<and> borsh_output out = Some (intermediate_output payload)
              \<and> (\<forall>other. borsh_output other = Some (intermediate_output payload) \<longrightarrow> other = out)))"
proof -
  obtain payload sig conversion where
    r: "resp = \<lparr>parsed_transaction = Some \<lparr>parsed_transaction_payload = Some payload, parsed_transaction_signature = Some sig\<rparr>\<rparr>"
      "convert_transaction (create_registry feature cs config) Solana (req_unsigned_payload req) (parse_options req) = Inr conversion"
      "payload_to_string po (result_payload conversion) = Inr (signable_payload payload)"
      "intermediate_output payload = unwrap_or [] (result_intermediate_output conversion)"
    using parse_shows [OF chain resp] by auto
  from r(2) conv obtain w where w: "sol_from_string (env_libs env) (env_tx env) (req_unsigned_payload req) = Inr w"
      "sol_to_visual_sign_payload env w (parse_options req) = Inr conversion"
      "validate_charset po describe (result_payload conversion) = Inr ()"
    by (auto simp: convert_transaction_def get_converter_create_registry wrap_default_def wrap_def sol_converter_def
        to_visual_sign_payload_from_string_def to_validated_visual_sign_payload_def and_then_Inr_iff split: if_splits)
  have asked: "include_intermediate_output (parse_options req) = req_include_intermediate_output req"
    by (simp add: parse_options_def)
  note exact = sol_intermediate_exact [OF w(2), unfolded asked]
  have "borsh_output out = Some (intermediate_output payload)"
    if "req_include_intermediate_output req \<and> intermediate_of env w (parse_options req) out \<and> borsh_output out \<noteq> None" for out
  proof -
    from that obtain bs where "borsh_output out = Some bs" by blast
    with that exact [of bs] r(4) show ?thesis by (auto simp: unwrap_or_def)
  qed
  moreover have "intermediate_output payload = [] \<or> req_include_intermediate_output req
      \<and> (\<exists>out. intermediate_of env w (parse_options req) out \<and> borsh_output out = Some (intermediate_output payload)
           \<and> (\<forall>other. borsh_output other = Some (intermediate_output payload) \<longrightarrow> other = out))"
  proof (cases "result_intermediate_output conversion")
    case (Some bs)
    with exact [of bs] r(4) show ?thesis by (auto intro: borsh_output_inject)
  qed (simp add: r(4))
  ultimately show ?thesis using r(1,3) w sol_payload_network [OF w(2)] by blast
qed

definition solana_message :: "string SolMessage" where
  "solana_message = \<lparr>header = \<lparr>num_required_signatures = 1, num_readonly_signed_accounts = 0,
       num_readonly_unsigned_accounts = 0\<rparr>, account_keys = [''k''], message_instructions = []\<rparr>"

definition solana_env :: "(string, unit, bytes) SolanaEnv" where
  "solana_env = sol_sample_env\<lparr>env_tx := sol_sample_txlibs\<lparr>bincode_legacy := \<lambda>_. Inr \<lparr>signatures = [], message = solana_message\<rparr>\<rparr>\<rparr>"

definition solana_chains :: ChainConverters where
  "solana_chains = sample_chains\<lparr>solana_converter := wrap_default True (\<lambda>_. ''e'') (sol_converter solana_env)\<rparr>"

definition solana_request :: ParseRequest where
  "solana_request = \<lparr>req_unsigned_payload = ''00'', req_chain = 3, req_chain_metadata = None,
     req_include_intermediate_output = False, req_payment_marker = []\<rparr>"

definition solana_payload :: SignablePayload where
  "solana_payload = \<lparr>payload_fields =
      [TextV2 \<lparr>fallback_text = ''Solana'', label = ''Network''\<rparr> \<lparr>text_v2_text = ''Solana''\<rparr>,
       PreviewLayout \<lparr>fallback_text = ''k[SW]'', label = ''Accounts''\<rparr>
         (PreviewLayoutData (Some \<lparr>text_v2_text = ''Accounts''\<rparr>) (Some \<lparr>text_v2_text = ''1 account''\<rparr>)
           (Some (ListLayoutData [plain_text_field ''Signers'' ''1 Signer'']))
           (Some (ListLayoutData [plain_text_field ''Account'' ''k, Signer, Writable''])))],
    payload_payload_type = ''SolanaTx'', payload_subtitle = None, payload_title = ''Solana Transaction'', payload_version = ''0''\<rparr>"

lemma solana_message_converts:
  "sol_to_visual_sign_payload solana_env (Legacy \<lparr>signatures = [], message = solana_message\<rparr>) sample_options
     = Inr (conversion_new solana_payload)"
proof -
  obtain reg where reg: "idl_registry_for solana_env sample_options = Inr reg" using idl_registry_for_ok by blast
  have num: "nat_str 1 = ''1''" "nat_str (Suc 0) = ''1''" "nat_str 0 = ''0''" by code_simp+
  have accounts: "sort_accounts (raw_accounts (\<lambda>k. k) solana_message) = [\<lparr>account_address = ''k'', is_signer = True, is_writable = True,
      original_index = 0\<rparr>]"
    unfolding sort_accounts_id by (simp add: raw_accounts_def account_info_def solana_message_def)
  have env: "env_diagnostics solana_env = False" "show_key (env_libs solana_env) = (\<lambda>k. k)"
    "sol_decode_transfers (env_libs solana_env) (env_tx solana_env) tx = Inr []" for tx
    by (simp_all add: solana_env_def sol_sample_env_def sol_sample_libs_def sol_decode_transfers_def sol_sample_txlibs_def
        transfer_fields_def)
  have options: "include_intermediate_output sample_options = False" "transaction_name sample_options = None"
    by (simp_all add: sample_options_def)
  have message: "account_keys solana_message = [''k'']" "message_instructions solana_message = []"
    by (simp_all add: solana_message_def)
  show ?thesis
    by (simp add: sol_to_visual_sign_payload_def sol_convert_to_visual_sign_payload_def decode_instructions_off_def
        decode_strict_def decode_accounts_def create_accounts_advanced_preview_layout_def account_summary_def
        accounts_to_payload_fields_def account_details_def account_fallback_def solana_payload_def payload_new_def num int_str_def
        plain_text_field_def Let_def reg accounts env options message)
qed

lemma solana_request_answered:
  "\<exists>resp. parse True (\<lambda>_. ''e'') sample_app (\<lambda>_. True) solana_chains solana_request () config_accept_unsigned = Some (Inr resp)"
proof -
  let ?reg = "create_registry (\<lambda>_. True) solana_chains (config_accept_unsigned :: unit ParserConfig)"
  have options: "parse_options solana_request = sample_options"
    by (simp add: parse_options_def solana_request_def sample_options_def)
  have "detect ''00'' = Hex" by code_simp
  then have read: "sol_from_string (env_libs solana_env) (env_tx solana_env) ''00'' = Inr (Legacy \<lparr>signatures = [], message = solana_message\<rparr>)"
    by (simp add: sol_from_string_def solana_env_def sol_sample_env_def sol_sample_txlibs_def decode_hex_def)
  have safe: "validate_charset True (\<lambda>_. ''e'') solana_payload = Inr ()"
    by (rule validate_charset_safe [THEN iffD2])
      (simp add: payload_strings_def solana_payload_def plain_text_field_def safe_text_def safe_char_def code_def)
  have p: "convert_transaction ?reg Solana ''00'' sample_options = Inr (conversion_new solana_payload)"
    using read safe solana_message_converts
    by (simp add: convert_transaction_def get_converter_create_registry solana_chains_def wrap_default_def wrap_def
        to_visual_sign_payload_from_string_def to_validated_visual_sign_payload_def sol_converter_def conversion_new_def)
  obtain doc where doc: "payload_to_string True solana_payload = Inr doc" "length doc < 2 ^ 32"
    by (simp add: payload_to_string_eq payload_entries_def solana_payload_def plain_text_field_def entry_defs
        serialize_field_variant_def ix_collect_def bt_collect_def text_v2_value_def jobj_def jmap_collect_def
        jmap_insert_def esc_string_def esc_char_def code_def)
  have "proto_try_from (req_chain solana_request) = Some ProtoSolana"
    by (simp add: proto_try_from_def solana_request_def)
  with p doc safe options
  have "prepare_payload True (\<lambda>_. ''e'') sample_app solana_request ?reg = Inr (build_payload sample_app doc ''00'' [] None)"
    by (simp add: prepare_payload_def Let_def ok_or_def conversion_new_def)
      (simp add: solana_request_def chain_metadata_bytes_def)
  moreover have "signing_digest_bytes (build_payload sample_app doc ''00'' [] None) \<noteq> None"
    using doc(2) by (simp add: signing_digest_bytes_def payload_borsh_def build_payload_def borsh_string_def
        borsh_bytes_def fits32_def)
  ultimately show ?thesis
    by (auto simp: parse_def config_accept_unsigned_def config_new_def verify_def parse_with_registry_def sign_response_def Let_def)
qed

theorem solana_end_to_end_witness:
  "\<exists>(payload :: ParsedTransactionPayload) (conversion :: ConversionResult) w.
     payload_to_string True (result_payload conversion) = Inr (signable_payload payload)
     \<and> sol_from_string (env_libs solana_env) (env_tx solana_env) ''00'' = Inr w
     \<and> hd (payload_fields (result_payload conversion)) = network_row w"
proof -
  obtain resp where resp: "parse True (\<lambda>_. ''e'') sample_app (\<lambda>_. True) solana_chains solana_request ()
      config_accept_unsigned = Some (Inr resp)" using solana_request_answered by blast
  have conv: "solana_converter solana_chains = wrap_default True (\<lambda>_. ''e'') (sol_converter solana_env)"
    by (simp add: solana_chains_def)
  have chain: "proto_try_from (req_chain solana_request) = Some ProtoSolana"
    by (simp add: proto_try_from_def solana_request_def)
  have name: "req_unsigned_payload solana_request = ''00''" by (simp add: solana_request_def)
  from solana_end_to_end [OF conv chain resp, unfolded name] show ?thesis by blast
qed

end
